(* ===== verification/Prelude.thy ===== *)
theory Prelude
  imports Main "HOL-Library.Word" "HOL-Library.Char_ord" "HOL-Library.List_Lexorder" "HOL-Library.Multiset"
begin

text \<open>
  What every component shares: Go errors as values, the two shapes of Go's
  error handling (return the error, or return it wrapped), and the parts of Go's
  standard library the wallet uses on strings, byte slices and integers.
  The named theorem collections at the top gather the facts that let component
  proofs be short:
  \<^item> \<open>go_defs\<close>: definitions of the program's operations a proof unfolds;
  \<^item> \<open>go_frame\<close>: which parts of the state an operation leaves alone.
\<close>

named_theorems go_defs "operations unfolded by component proofs"
named_theorems go_frame "parts of the state that operations leave alone"

section \<open>Errors and results\<close>

text \<open>
  A Go \<open>error\<close> is a leaf message or a message wrapped around a cause
  (\<open>errors.Wrap\<close> of pkg/errors). A run-time panic is no error value; it unwinds
  through the callers, so wrapping leaves it alone.
\<close>

datatype err = Err string | Wrap err string | Panic string

fun wrap_err :: "string \<Rightarrow> err \<Rightarrow> err" where
  "wrap_err m (Panic p) = Panic p"
| "wrap_err m e = Wrap e m"

fun err_text :: "err \<Rightarrow> string" where
  "err_text (Err m) = m"
| "err_text (Wrap e m) = m @ '': '' @ err_text e"
| "err_text (Panic m) = m"

fun is_panic :: "err \<Rightarrow> bool" where
  "is_panic (Panic _) = True"
| "is_panic _ = False"

lemma is_panic_wrap_err [simp]: "is_panic (wrap_err m e) = is_panic e"
  by (cases e) simp_all

text \<open>An operation on a state \<open>'w\<close> returns an error or a value, and the new state.\<close>

type_synonym ('w, 'a) res = "(err + 'a) \<times> 'w"

text \<open>\<open>x, err := f(); if err != nil { return errors.Wrap(err, m) }; k(x)\<close>\<close>

definition or_wrap :: "('w, 'a) res \<Rightarrow> string \<Rightarrow> ('a \<Rightarrow> 'w \<Rightarrow> ('w, 'b) res) \<Rightarrow> ('w, 'b) res" where
  "or_wrap r m k = (case r of (Inl e, w) \<Rightarrow> (Inl (wrap_err m e), w) | (Inr x, w) \<Rightarrow> k x w)"

text \<open>\<open>x, err := f(); if err != nil { return err }; k(x)\<close>\<close>

definition or_return :: "('w, 'a) res \<Rightarrow> ('a \<Rightarrow> 'w \<Rightarrow> ('w, 'b) res) \<Rightarrow> ('w, 'b) res" where
  "or_return r k = (case r of (Inl e, w) \<Rightarrow> (Inl e, w) | (Inr x, w) \<Rightarrow> k x w)"

text \<open>The same two shapes for calls that do not touch the state.\<close>

definition pure_wrap :: "err + 'a \<Rightarrow> string \<Rightarrow> ('a \<Rightarrow> err + 'b) \<Rightarrow> err + 'b" where
  "pure_wrap r m k = (case r of Inl e \<Rightarrow> Inl (wrap_err m e) | Inr x \<Rightarrow> k x)"

lemma or_wrap_simps [simp]:
  "or_wrap (Inl e, w) m k = (Inl (wrap_err m e), w)"
  "or_wrap (Inr x, w) m k = k x w"
  by (simp_all add: or_wrap_def)

lemma or_return_simps [simp]:
  "or_return (Inl e, w) k = (Inl e, w)"
  "or_return (Inr x, w) k = k x w"
  by (simp_all add: or_return_def)

lemma pure_wrap_simps [simp]:
  "pure_wrap (Inl e) m k = Inl (wrap_err m e)"
  "pure_wrap (Inr x) m k = k x"
  by (simp_all add: pure_wrap_def)

lemma or_wrap_InrE:
  assumes "or_wrap r m k = (Inr y, w')"
  obtains x w where "r = (Inr x, w)" and "k x w = (Inr y, w')"
  using assms by (auto simp: or_wrap_def split: prod.splits sum.splits)

lemma or_return_InrE:
  assumes "or_return r k = (Inr y, w')"
  obtains x w where "r = (Inr x, w)" and "k x w = (Inr y, w')"
  using assms by (auto simp: or_return_def split: prod.splits sum.splits)

lemma pure_wrap_InrE:
  assumes "pure_wrap r m k = Inr y"
  obtains x where "r = Inr x" and "k x = Inr y"
  using assms by (auto simp: pure_wrap_def split: sum.splits)

lemma or_wrap_split:
  "P (or_wrap r m k) \<longleftrightarrow>
     (\<forall>e w. r = (Inl e, w) \<longrightarrow> P (Inl (wrap_err m e), w)) \<and>
     (\<forall>x w. r = (Inr x, w) \<longrightarrow> P (k x w))"
  by (auto simp: or_wrap_def split: prod.splits sum.splits)

lemma or_return_split:
  "P (or_return r k) \<longleftrightarrow>
     (\<forall>e w. r = (Inl e, w) \<longrightarrow> P (Inl e, w)) \<and>
     (\<forall>x w. r = (Inr x, w) \<longrightarrow> P (k x w))"
  by (auto simp: or_return_def split: prod.splits sum.splits)

text \<open>
  The final state of a sequence of calls: what holds after the first call in
  both its outcomes and is kept by the continuation holds at the end.
\<close>

lemma snd_or_wrapI:
  assumes "P (snd r)" and "\<And>x w. r = (Inr x, w) \<Longrightarrow> P w \<Longrightarrow> P (snd (k x w))"
  shows "P (snd (or_wrap r m k))"
  using assms by (auto simp: or_wrap_def split: prod.splits sum.splits)

lemma snd_or_returnI:
  assumes "P (snd r)" and "\<And>x w. r = (Inr x, w) \<Longrightarrow> P w \<Longrightarrow> P (snd (k x w))"
  shows "P (snd (or_return r k))"
  using assms by (auto simp: or_return_def split: prod.splits sum.splits)

section \<open>Strings\<close>

text \<open>
  A Go string is a byte sequence; \<open>string\<close> is a list of 8-bit characters.
  \<open>strings.ToLower\<close> is modelled on ASCII letters; bytes of longer UTF-8
  sequences are left as they are.
\<close>

definition lower_char :: "char \<Rightarrow> char" where
  "lower_char c = (let n = (of_char c :: nat) in if 65 \<le> n \<and> n \<le> 90 then char_of (n + 32) else c)"

definition ToLower :: "string \<Rightarrow> string" where
  "ToLower s = map lower_char s"

definition HasPrefix :: "string \<Rightarrow> string \<Rightarrow> bool" where
  "HasPrefix s p \<longleftrightarrow> take (length p) s = p"

definition TrimPrefix :: "string \<Rightarrow> string \<Rightarrow> string" where
  "TrimPrefix s p = (if HasPrefix s p then drop (length p) s else s)"

fun Contains :: "string \<Rightarrow> string \<Rightarrow> bool" where
  "Contains [] sub \<longleftrightarrow> sub = []"
| "Contains (c # cs) sub \<longleftrightarrow> HasPrefix (c # cs) sub \<or> Contains cs sub"

lemma HasPrefix_append [simp]: "HasPrefix (p @ s) p"
  by (simp add: HasPrefix_def)

lemma TrimPrefix_append [simp]: "TrimPrefix (p @ s) p = s"
  by (simp add: TrimPrefix_def)

lemma Contains_self [simp]: "Contains s s"
  by (cases s) (simp_all add: HasPrefix_def)

lemma Contains_appendL: "Contains s sub \<Longrightarrow> Contains (t @ s) sub"
  by (induction t) simp_all

lemma Contains_if_HasPrefix: "HasPrefix s sub \<Longrightarrow> Contains s sub"
  by (cases s) (auto simp: HasPrefix_def)

lemma Contains_prefix: "Contains (sub @ t) sub"
  by (simp add: Contains_if_HasPrefix)

lemma Contains_infix: "Contains (a @ sub @ b) sub"
  by (rule Contains_appendL) (rule Contains_prefix)

text \<open>Decimal printing, as \<open>fmt.Sprintf\<close> does for \<open>%d\<close> and \<open>%02d\<close>.\<close>

definition digit_char :: "nat \<Rightarrow> char" where
  "digit_char d = char_of (48 + d)"

fun nat_digits :: "nat \<Rightarrow> string" where
  "nat_digits n = (if n < 10 then [digit_char n] else nat_digits (n div 10) @ [digit_char (n mod 10)])"

declare nat_digits.simps [simp del]

definition itoa :: "int \<Rightarrow> string" where
  "itoa i = (if i < 0 then ''-'' @ nat_digits (nat (- i)) else nat_digits (nat i))"

definition pad2 :: "string \<Rightarrow> string" where
  "pad2 s = (if length s < 2 then ''0'' @ s else s)"

section \<open>Bytes and integers\<close>

type_synonym byte = "8 word"

definition byte_of_char :: "char \<Rightarrow> byte" where
  "byte_of_char c = of_nat (of_char c)"

definition bytes_of :: "string \<Rightarrow> byte list" where
  "bytes_of s = map byte_of_char s"

definition string_of_bytes :: "byte list \<Rightarrow> string" where
  "string_of_bytes bs = map (\<lambda>b. char_of (unat b)) bs"

lemma string_of_bytes_of [simp]: "string_of_bytes (bytes_of s) = s"
proof -
  have "char_of (unat (byte_of_char c)) = c" for c
  proof -
    have "(of_char c :: nat) < 256"
      by (rule nat_of_char_less_256)
    then have "unat (byte_of_char c) = of_char c"
      by (simp add: byte_of_char_def unat_of_nat)
    then show ?thesis by simp
  qed
  then show ?thesis
    by (simp add: string_of_bytes_def bytes_of_def comp_def)
qed

lemma bytes_of_string_of [simp]: "bytes_of (string_of_bytes bs) = bs"
proof -
  have "byte_of_char (char_of (unat b)) = b" for b :: byte
  proof -
    have "unat b < 256"
      using unsigned_less [where 'a = nat, of b] by simp
    then show ?thesis by (simp add: byte_of_char_def)
  qed
  then show ?thesis
    by (simp add: string_of_bytes_def bytes_of_def comp_def)
qed

text \<open>\<open>int32(n)\<close> of a 64-bit integer keeps the low 32 bits, read in two's complement.\<close>

definition int32 :: "int \<Rightarrow> int" where
  "int32 n = signed_take_bit 31 n"

lemma int32_id: "- (2 ^ 31) \<le> n \<Longrightarrow> n < 2 ^ 31 \<Longrightarrow> int32 n = n"
  by (simp add: int32_def signed_take_bit_int_eq_self)

text \<open>Go divides integers towards zero.\<close>

definition go_div :: "int \<Rightarrow> int \<Rightarrow> int" where
  "go_div a b = sgn a * sgn b * (\<bar>a\<bar> div \<bar>b\<bar>)"

lemma go_div_nonneg: "0 \<le> a \<Longrightarrow> 0 < b \<Longrightarrow> go_div a b = a div b"
  by (cases "a = 0") (simp_all add: go_div_def)

text \<open>\<open>hex.EncodeToString\<close> and \<open>hex.DecodeString\<close>.\<close>

definition hex_digit :: "nat \<Rightarrow> char" where
  "hex_digit d = char_of (if d < 10 then 48 + d else 87 + d)"

definition hex_value :: "char \<Rightarrow> nat option" where
  "hex_value c = (let n = (of_char c :: nat) in
     if 48 \<le> n \<and> n \<le> 57 then Some (n - 48)
     else if 97 \<le> n \<and> n \<le> 102 then Some (n - 87)
     else if 65 \<le> n \<and> n \<le> 70 then Some (n - 55)
     else None)"

fun hex_EncodeToString :: "byte list \<Rightarrow> string" where
  "hex_EncodeToString [] = []"
| "hex_EncodeToString (b # bs) =
     hex_digit (unat b div 16) # hex_digit (unat b mod 16) # hex_EncodeToString bs"

fun hex_DecodeString :: "string \<Rightarrow> err + byte list" where
  "hex_DecodeString [] = Inr []"
| "hex_DecodeString [c] =
     (case hex_value c of None \<Rightarrow> Inl (Err ''encoding/hex: invalid byte'')
      | Some _ \<Rightarrow> Inl (Err ''encoding/hex: odd length hex string''))"
| "hex_DecodeString (c # d # cs) =
     (case (hex_value c, hex_value d) of
        (Some h, Some l) \<Rightarrow>
          (case hex_DecodeString cs of Inl e \<Rightarrow> Inl e | Inr bs \<Rightarrow> Inr (of_nat (16 * h + l) # bs))
      | _ \<Rightarrow> Inl (Err ''encoding/hex: invalid byte''))"

lemma hex_value_digit: "d < 16 \<Longrightarrow> hex_value (hex_digit d) = Some d"
  by (auto simp: hex_value_def hex_digit_def Let_def)

lemma hex_roundtrip [simp]: "hex_DecodeString (hex_EncodeToString bs) = Inr bs"
proof (induction bs)
  case Nil
  show ?case by simp
next
  case (Cons b bs)
  have "unat b < 256"
    using unsigned_less [where 'a = nat, of b] by simp
  then have "unat b div 16 < 16"
    by simp
  moreover have "unat b mod 16 < 16"
    by simp
  moreover have "16 * (unat b div 16) + unat b mod 16 = unat b"
    by simp
  ultimately show ?case
    using Cons.IH by (simp add: hex_value_digit)
qed

lemma length_hex_EncodeToString [simp]: "length (hex_EncodeToString bs) = 2 * length bs"
  by (induction bs) simp_all

lemma hex_Encode_eq_Nil [simp]: "hex_EncodeToString bs = [] \<longleftrightarrow> bs = []"
  by (cases bs) simp_all

lemma hex_DecodeString_length: "hex_DecodeString s = Inr bs \<Longrightarrow> length s = 2 * length bs"
  by (induction s arbitrary: bs rule: hex_DecodeString.induct)
     (auto split: option.splits sum.splits)

section \<open>Lists\<close>

text \<open>
  Tables are lists of rows; an update replaces the row with a key, an upsert
  replaces it or appends it. \<open>kf\<close> reads a row's primary key.
\<close>

definition tbl_get :: "('r \<Rightarrow> string) \<Rightarrow> string \<Rightarrow> 'r list \<Rightarrow> 'r option" where
  "tbl_get kf k rs = find (\<lambda>r. kf r = k) rs"

definition tbl_upd :: "('r \<Rightarrow> string) \<Rightarrow> string \<Rightarrow> ('r \<Rightarrow> 'r) \<Rightarrow> 'r list \<Rightarrow> 'r list" where
  "tbl_upd kf k f rs = map (\<lambda>r. if kf r = k then f r else r) rs"

definition tbl_upsert :: "('r \<Rightarrow> string) \<Rightarrow> ('r \<Rightarrow> 'r) \<Rightarrow> 'r \<Rightarrow> 'r list \<Rightarrow> 'r list" where
  "tbl_upsert kf f r rs =
     (if tbl_get kf (kf r) rs = None then rs @ [r] else tbl_upd kf (kf r) f rs)"

definition tbl_del :: "('r \<Rightarrow> string) \<Rightarrow> string \<Rightarrow> 'r list \<Rightarrow> 'r list" where
  "tbl_del kf k rs = filter (\<lambda>r. kf r \<noteq> k) rs"

definition tbl_ok :: "('r \<Rightarrow> string) \<Rightarrow> 'r list \<Rightarrow> bool" where
  "tbl_ok kf rs \<longleftrightarrow> distinct (map kf rs)"

lemma tbl_get_Nil [simp]: "tbl_get kf k [] = None"
  by (simp add: tbl_get_def)

lemma tbl_get_Cons: "tbl_get kf k (r # rs) = (if kf r = k then Some r else tbl_get kf k rs)"
  by (simp add: tbl_get_def)

lemma tbl_get_None_iff: "tbl_get kf k rs = None \<longleftrightarrow> k \<notin> kf ` set rs"
  by (induction rs) (auto simp: tbl_get_Cons)

lemma tbl_get_SomeD: "tbl_get kf k rs = Some r \<Longrightarrow> r \<in> set rs \<and> kf r = k"
  by (induction rs) (auto simp: tbl_get_Cons split: if_splits)

lemma tbl_get_append:
  "tbl_get kf k (rs @ ss) = (case tbl_get kf k rs of None \<Rightarrow> tbl_get kf k ss | Some r \<Rightarrow> Some r)"
  by (induction rs) (auto simp: tbl_get_Cons)

lemma tbl_get_upd:
  assumes "\<And>r. kf r = k \<Longrightarrow> kf (f r) = k"
  shows "tbl_get kf j (tbl_upd kf k f rs) =
           (if j = k then map_option f (tbl_get kf k rs) else tbl_get kf j rs)"
  using assms by (induction rs) (auto simp: tbl_upd_def tbl_get_Cons)

lemma tbl_get_upsert:
  assumes "\<And>x. kf x = kf r \<Longrightarrow> kf (f x) = kf r"
  shows "tbl_get kf j (tbl_upsert kf f r rs) =
           (if j = kf r then (case tbl_get kf j rs of None \<Rightarrow> Some r | Some x \<Rightarrow> Some (f x))
            else tbl_get kf j rs)"
  using assms
  by (auto simp: tbl_upsert_def tbl_get_append tbl_get_Cons tbl_get_upd split: option.splits)

lemma tbl_get_del:
  "tbl_get kf j (tbl_del kf k rs) = (if j = k then None else tbl_get kf j rs)"
  by (induction rs) (auto simp: tbl_del_def tbl_get_Cons)

lemma map_tbl_upd:
  assumes "\<And>r. kf r = k \<Longrightarrow> kf (f r) = k"
  shows "map kf (tbl_upd kf k f rs) = map kf rs"
  using assms by (induction rs) (auto simp: tbl_upd_def)

lemma tbl_ok_upd:
  assumes "\<And>r. kf r = k \<Longrightarrow> kf (f r) = k"
  shows "tbl_ok kf (tbl_upd kf k f rs) = tbl_ok kf rs"
  using assms by (simp add: tbl_ok_def map_tbl_upd)

lemma tbl_ok_upsert:
  assumes "\<And>x. kf x = kf r \<Longrightarrow> kf (f x) = kf r" and "tbl_ok kf rs"
  shows "tbl_ok kf (tbl_upsert kf f r rs)"
proof (cases "tbl_get kf (kf r) rs = None")
  case True
  then show ?thesis
    using assms(2) by (auto simp: tbl_upsert_def tbl_ok_def tbl_get_None_iff)
next
  case False
  have "tbl_ok kf (tbl_upd kf (kf r) f rs)"
    using assms by (simp add: tbl_ok_upd)
  with False show ?thesis by (simp only: tbl_upsert_def if_False)
qed

lemma tbl_ok_del: "tbl_ok kf rs \<Longrightarrow> tbl_ok kf (tbl_del kf k rs)"
  by (induction rs) (auto simp: tbl_ok_def tbl_del_def)

lemma tbl_upd_idem:
  assumes "\<And>x. kf x = k \<Longrightarrow> kf (f x) = k" and "\<And>x. f (f x) = f x"
  shows "tbl_upd kf k f (tbl_upd kf k f rs) = tbl_upd kf k f rs"
  using assms by (induction rs) (auto simp: tbl_upd_def)

lemma tbl_get_if_ok: "tbl_ok kf rs \<Longrightarrow> r \<in> set rs \<Longrightarrow> tbl_get kf (kf r) rs = Some r"
  by (induction rs) (auto simp: tbl_ok_def tbl_get_Cons image_iff)

end
