(* ===== verification/Storage.thy ===== *)
theory Storage
  imports Prelude
begin

text \<open>
  \<open>internal/mpc/storage\<close>: the rows of the metadata database and of the session
  cache, the statements \<open>PostgreSQLStore\<close> sends (with the constraints the
  migration declares) and the commands \<open>RedisStore\<close> sends.

  The world is what all nodes share: the three tables of
  \<open>migrations/20251127140052-create-mpc-tables.sql\<close>, the Redis key space and the
  clock. Times are counted in microseconds, the resolution of the timestamp
  columns. Every call to the database or the cache may fail: \<open>pg_fault n\<close> and
  \<open>rd_fault n\<close> say whether the \<open>n\<close>-th call does, with which text, and whether the
  server had applied the command before the failure was seen. Nil and empty
  slices and maps are not told apart, and a JSON column gives back what was put
  into it.
\<close>

section \<open>Rows (interface.go)\<close>

type_synonym time = int

datatype json = JNull | JBool bool | JNum int | JStr string
  | JArr "json list" | JObj "(string \<times> json) list"

record KeyMetadata =
  km_KeyID :: string
  km_PublicKey :: string
  km_Algorithm :: string
  km_Curve :: string
  km_Threshold :: int
  km_TotalNodes :: int
  km_ChainType :: string
  km_Address :: string
  km_Status :: string
  km_Description :: string
  km_Tags :: "(string \<times> string) list"
  km_CreatedAt :: time
  km_UpdatedAt :: time
  km_DeletionDate :: "time option"

record NodeInfo =
  ni_NodeID :: string
  ni_NodeType :: string
  ni_Endpoint :: string
  ni_PublicKey :: string
  ni_Status :: string
  ni_Capabilities :: "string list"
  ni_Metadata :: "(string \<times> json) list"
  ni_RegisteredAt :: time
  ni_LastHeartbeat :: "time option"

record SigningSession =
  ss_SessionID :: string
  ss_KeyID :: string
  ss_Protocol :: string
  ss_Status :: string
  ss_Threshold :: int
  ss_TotalNodes :: int
  ss_ParticipatingNodes :: "string list"
  ss_CurrentRound :: int
  ss_TotalRounds :: int
  ss_Signature :: string
  ss_CreatedAt :: time
  ss_CompletedAt :: "time option"
  ss_DurationMs :: int

record KeyFilter =
  kf_ChainType :: string
  kf_Status :: string
  kf_TagKey :: string
  kf_TagValue :: string
  kf_Limit :: int
  kf_Offset :: int

record NodeFilter =
  nf_NodeType :: string
  nf_Status :: string
  nf_Limit :: int
  nf_Offset :: int

section \<open>The shared world\<close>

datatype rvalue = RSession SigningSession | RLock

record world =
  keys_t :: "KeyMetadata list"
  nodes_t :: "NodeInfo list"
  sess_t :: "SigningSession list"
  rkeys :: "string \<Rightarrow> (rvalue \<times> time option) option"
  now :: time
  pg_fault :: "nat \<Rightarrow> (string \<times> bool) option"
  pg_calls :: nat
  rd_fault :: "nat \<Rightarrow> (string \<times> bool) option"
  rd_calls :: nat
  uuid_src :: "nat \<Rightarrow> string"
  uuid_n :: nat

text \<open>\<open>uuid.New().String()\<close> and \<open>time.Sleep\<close>.\<close>

definition uuid_New :: "world \<Rightarrow> string \<times> world" where
  "uuid_New w = (uuid_src w (uuid_n w), w\<lparr>uuid_n := Suc (uuid_n w)\<rparr>)"

definition time_Sleep :: "int \<Rightarrow> world \<Rightarrow> world" where
  "time_Sleep d w = w\<lparr>now := now w + max 0 d\<rparr>"

definition pg_call :: "(world \<Rightarrow> (world, 'a) res) \<Rightarrow> world \<Rightarrow> (world, 'a) res" where
  "pg_call stmt w =
     (let w1 = w\<lparr>pg_calls := Suc (pg_calls w)\<rparr>
      in case pg_fault w (pg_calls w) of
           None \<Rightarrow> stmt w1
         | Some (e, applied) \<Rightarrow> (Inl (Err e), if applied then snd (stmt w1) else w1))"

definition rd_call :: "(world \<Rightarrow> (world, 'a) res) \<Rightarrow> world \<Rightarrow> (world, 'a) res" where
  "rd_call cmd w =
     (let w1 = w\<lparr>rd_calls := Suc (rd_calls w)\<rparr>
      in case rd_fault w (rd_calls w) of
           None \<Rightarrow> cmd w1
         | Some (e, applied) \<Rightarrow> (Inl (Err e), if applied then snd (cmd w1) else w1))"

section \<open>PostgreSQLStore: keys (postgresql.go)\<close>

text \<open>Columns of type \<open>integer\<close> hold 32 bits.\<close>

definition int4_ok :: "int \<Rightarrow> bool" where
  "int4_ok n \<longleftrightarrow> - 2147483648 \<le> n \<and> n \<le> 2147483647"

definition key_row_ok :: "KeyMetadata \<Rightarrow> bool" where
  "key_row_ok k \<longleftrightarrow> int4_ok (km_Threshold k) \<and> int4_ok (km_TotalNodes k)"

definition get_key :: "world \<Rightarrow> string \<Rightarrow> KeyMetadata option" where
  "get_key w k = tbl_get km_KeyID k (keys_t w)"

text \<open>\<open>ON CONFLICT (key_id) DO UPDATE\<close> leaves \<open>created_at\<close> and \<open>deletion_date\<close> alone.\<close>

definition key_conflict :: "KeyMetadata \<Rightarrow> KeyMetadata \<Rightarrow> KeyMetadata" where
  "key_conflict excluded old =
     excluded\<lparr>km_CreatedAt := km_CreatedAt old, km_DeletionDate := km_DeletionDate old\<rparr>"

definition put_key :: "KeyMetadata \<Rightarrow> world \<Rightarrow> world" where
  "put_key key w =
     (let r = key\<lparr>km_DeletionDate := None\<rparr>
      in w\<lparr>keys_t := tbl_upsert km_KeyID (key_conflict r) r (keys_t w)\<rparr>)"

definition sql_upsert_key :: "KeyMetadata \<Rightarrow> world \<Rightarrow> (world, nat) res" where
  "sql_upsert_key key w =
     (if key_row_ok key then (Inr 1, put_key key w)
      else (Inl (Err ''pq: integer out of range''), w))"

definition pg_SaveKeyMetadata :: "world \<Rightarrow> KeyMetadata \<Rightarrow> (world, unit) res" where
  "pg_SaveKeyMetadata w key =
     or_wrap (pg_call (sql_upsert_key key) w)
       (''failed to save key metadata for key_id: '' @ km_KeyID key)
       (\<lambda>rowsAffected w.
          if rowsAffected = 0
          then (Inl (Err (''no rows affected when saving key metadata for key_id: '' @ km_KeyID key)), w)
          else (Inr (), w))"

definition pg_GetKeyMetadata :: "world \<Rightarrow> string \<Rightarrow> (world, KeyMetadata) res" where
  "pg_GetKeyMetadata w keyID =
     or_wrap (pg_call (\<lambda>w. (Inr (get_key w keyID), w)) w) ''failed to get key metadata''
       (\<lambda>row w. case row of None \<Rightarrow> (Inl (Err ''key not found''), w) | Some key \<Rightarrow> (Inr key, w))"

text \<open>\<open>UPDATE keys SET ... WHERE key_id = $1\<close>: no matching row is no error.\<close>

definition set_key :: "KeyMetadata \<Rightarrow> world \<Rightarrow> world" where
  "set_key key w =
     w\<lparr>keys_t := tbl_upd km_KeyID (km_KeyID key)
                   (\<lambda>old. key\<lparr>km_CreatedAt := km_CreatedAt old\<rparr>) (keys_t w)\<rparr>"

definition sql_update_key :: "KeyMetadata \<Rightarrow> world \<Rightarrow> (world, unit) res" where
  "sql_update_key key w =
     (if key_row_ok key then (Inr (), set_key key w)
      else (Inl (Err ''pq: integer out of range''), w))"

definition pg_UpdateKeyMetadata :: "world \<Rightarrow> KeyMetadata \<Rightarrow> (world, unit) res" where
  "pg_UpdateKeyMetadata w key =
     or_wrap (pg_call (sql_update_key key) w) ''failed to update key metadata'' (\<lambda>_ w. (Inr (), w))"

text \<open>\<open>signing_sessions.key_id\<close> is declared \<open>ON DELETE CASCADE\<close>.\<close>

definition del_key :: "string \<Rightarrow> world \<Rightarrow> world" where
  "del_key keyID w =
     w\<lparr>keys_t := tbl_del km_KeyID keyID (keys_t w),
       sess_t := filter (\<lambda>s. ss_KeyID s \<noteq> keyID) (sess_t w)\<rparr>"

definition pg_DeleteKeyMetadata :: "world \<Rightarrow> string \<Rightarrow> (world, unit) res" where
  "pg_DeleteKeyMetadata w keyID =
     or_wrap (pg_call (\<lambda>w. (Inr (), del_key keyID w)) w) ''failed to delete key metadata''
       (\<lambda>_ w. (Inr (), w))"

text \<open>
  \<open>ORDER BY created_at DESC LIMIT $l OFFSET $o\<close>; rows with equal times come in
  table order. Only the chain type and the status become conditions of the
  query; the tag fields of the filter are never read.
\<close>

definition page :: "int \<Rightarrow> int \<Rightarrow> 'r list \<Rightarrow> 'r list" where
  "page limit offset rs = take (nat limit) (drop (nat offset) rs)"

definition eff_limit :: "int \<Rightarrow> int" where
  "eff_limit l = (if l \<le> 0 then 50 else l)"

definition sql_select_keys :: "string \<Rightarrow> string \<Rightarrow> int \<Rightarrow> int \<Rightarrow> world \<Rightarrow> (world, KeyMetadata list) res" where
  "sql_select_keys chain status limit offset w =
     (if offset < 0 then (Inl (Err ''pq: OFFSET must not be negative''), w)
      else (Inr (page limit offset
                  (sort_key (\<lambda>k. - km_CreatedAt k)
                    (filter (\<lambda>k. (chain \<noteq> [] \<longrightarrow> km_ChainType k = chain)
                               \<and> (status \<noteq> [] \<longrightarrow> km_Status k = status)) (keys_t w)))), w))"

definition pg_ListKeys :: "world \<Rightarrow> KeyFilter option \<Rightarrow> (world, KeyMetadata list) res" where
  "pg_ListKeys w filter0 =
     (let f = (case filter0 of None \<Rightarrow> \<lparr>kf_ChainType = [], kf_Status = [], kf_TagKey = [],
                                        kf_TagValue = [], kf_Limit = 50, kf_Offset = 0\<rparr>
               | Some f \<Rightarrow> f)
      in or_wrap (pg_call (sql_select_keys (kf_ChainType f) (kf_Status f)
                             (eff_limit (kf_Limit f)) (kf_Offset f)) w)
           ''failed to list keys'' (\<lambda>ks w. (Inr ks, w)))"

section \<open>PostgreSQLStore: nodes\<close>

definition get_node :: "world \<Rightarrow> string \<Rightarrow> NodeInfo option" where
  "get_node w n = tbl_get ni_NodeID n (nodes_t w)"

text \<open>\<open>ON CONFLICT (node_id) DO UPDATE\<close> leaves \<open>registered_at\<close> alone.\<close>

definition node_conflict :: "NodeInfo \<Rightarrow> NodeInfo \<Rightarrow> NodeInfo" where
  "node_conflict excluded old = excluded\<lparr>ni_RegisteredAt := ni_RegisteredAt old\<rparr>"

definition put_node :: "NodeInfo \<Rightarrow> world \<Rightarrow> world" where
  "put_node n w = w\<lparr>nodes_t := tbl_upsert ni_NodeID (node_conflict n) n (nodes_t w)\<rparr>"

definition pg_SaveNode :: "world \<Rightarrow> NodeInfo \<Rightarrow> (world, unit) res" where
  "pg_SaveNode w n =
     or_wrap (pg_call (\<lambda>w. (Inr (), put_node n w)) w) ''failed to save node'' (\<lambda>_ w. (Inr (), w))"

definition pg_GetNode :: "world \<Rightarrow> string \<Rightarrow> (world, NodeInfo) res" where
  "pg_GetNode w nodeID =
     or_wrap (pg_call (\<lambda>w. (Inr (get_node w nodeID), w)) w) ''failed to get node''
       (\<lambda>row w. case row of None \<Rightarrow> (Inl (Err ''node not found''), w) | Some n \<Rightarrow> (Inr n, w))"

definition set_node :: "NodeInfo \<Rightarrow> world \<Rightarrow> world" where
  "set_node n w =
     w\<lparr>nodes_t := tbl_upd ni_NodeID (ni_NodeID n) (node_conflict n) (nodes_t w)\<rparr>"

definition pg_UpdateNode :: "world \<Rightarrow> NodeInfo \<Rightarrow> (world, unit) res" where
  "pg_UpdateNode w n =
     or_wrap (pg_call (\<lambda>w. (Inr (), set_node n w)) w) ''failed to update node'' (\<lambda>_ w. (Inr (), w))"

definition sql_select_nodes :: "string \<Rightarrow> string \<Rightarrow> int \<Rightarrow> int \<Rightarrow> world \<Rightarrow> (world, NodeInfo list) res" where
  "sql_select_nodes ntype status limit offset w =
     (if offset < 0 then (Inl (Err ''pq: OFFSET must not be negative''), w)
      else (Inr (page limit offset
                  (sort_key (\<lambda>n. - ni_RegisteredAt n)
                    (filter (\<lambda>n. (ntype \<noteq> [] \<longrightarrow> ni_NodeType n = ntype)
                               \<and> (status \<noteq> [] \<longrightarrow> ni_Status n = status)) (nodes_t w)))), w))"

definition pg_ListNodes :: "world \<Rightarrow> NodeFilter option \<Rightarrow> (world, NodeInfo list) res" where
  "pg_ListNodes w filter0 =
     (let f = (case filter0 of None \<Rightarrow> \<lparr>nf_NodeType = [], nf_Status = [], nf_Limit = 50, nf_Offset = 0\<rparr>
               | Some f \<Rightarrow> f)
      in or_wrap (pg_call (sql_select_nodes (nf_NodeType f) (nf_Status f)
                             (eff_limit (nf_Limit f)) (nf_Offset f)) w)
           ''failed to list nodes'' (\<lambda>ns w. (Inr ns, w)))"

definition pg_UpdateNodeHeartbeat :: "world \<Rightarrow> string \<Rightarrow> (world, unit) res" where
  "pg_UpdateNodeHeartbeat w nodeID =
     or_wrap (pg_call (\<lambda>w. (Inr (), w\<lparr>nodes_t := tbl_upd ni_NodeID nodeID
                 (\<lambda>n. n\<lparr>ni_LastHeartbeat := Some (now w)\<rparr>) (nodes_t w)\<rparr>)) w)
       ''failed to update node heartbeat'' (\<lambda>_ w. (Inr (), w))"

section \<open>PostgreSQLStore: signing sessions\<close>

definition get_sess :: "world \<Rightarrow> string \<Rightarrow> SigningSession option" where
  "get_sess w s = tbl_get ss_SessionID s (sess_t w)"

definition sess_row_ok :: "SigningSession \<Rightarrow> bool" where
  "sess_row_ok s \<longleftrightarrow> int4_ok (ss_Threshold s) \<and> int4_ok (ss_TotalNodes s)
     \<and> int4_ok (ss_CurrentRound s) \<and> int4_ok (ss_TotalRounds s) \<and> int4_ok (ss_DurationMs s)"

text \<open>Both statements leave the \<open>created_at\<close> of an existing row alone.\<close>

definition sess_conflict :: "SigningSession \<Rightarrow> SigningSession \<Rightarrow> SigningSession" where
  "sess_conflict excluded old = excluded\<lparr>ss_CreatedAt := ss_CreatedAt old\<rparr>"

definition put_sess :: "SigningSession \<Rightarrow> world \<Rightarrow> world" where
  "put_sess s w = w\<lparr>sess_t := tbl_upsert ss_SessionID (sess_conflict s) s (sess_t w)\<rparr>"

definition fk_error :: err where
  "fk_error = Err ''pq: insert or update on table signing_sessions violates foreign key constraint''"

definition sql_upsert_session :: "SigningSession \<Rightarrow> world \<Rightarrow> (world, unit) res" where
  "sql_upsert_session s w =
     (if \<not> sess_row_ok s then (Inl (Err ''pq: integer out of range''), w)
      else if get_key w (ss_KeyID s) = None then (Inl fk_error, w)
      else (Inr (), put_sess s w))"

text \<open>The text of a database error decides how it is wrapped.\<close>

definition save_session_error :: "SigningSession \<Rightarrow> err \<Rightarrow> err" where
  "save_session_error s e =
     (let t = err_text e in
      if Contains t ''foreign key'' \<or> Contains t ''violates foreign key constraint''
      then wrap_err (''failed to save signing session: foreign key constraint violation - key_id ''
                     @ ss_KeyID s @ '' does not exist in keys table'') e
      else if Contains t ''unique constraint'' \<or> Contains t ''duplicate key''
      then wrap_err (''failed to save signing session: unique constraint violation - session_id ''
                     @ ss_SessionID s @ '' already exists'') e
      else wrap_err (''failed to save signing session (session_id: '' @ ss_SessionID s
                     @ '', key_id: '' @ ss_KeyID s @ '')'') e)"

definition no_key_text :: "string \<Rightarrow> string" where
  "no_key_text keyID =
     ''key_id '' @ keyID @ '' does not exist in keys table, cannot create signing session. ''
     @ ''This usually means: 1) the placeholder key was not created successfully, ''
     @ ''2) the key was created in a different transaction that hasn'' @ [CHR 0x27]
     @ ''t committed yet, or 3) there'' @ [CHR 0x27] @ ''s a database connection/transaction isolation issue''"

definition pg_SaveSigningSession :: "world \<Rightarrow> SigningSession \<Rightarrow> (world, unit) res" where
  "pg_SaveSigningSession w s =
     or_wrap (pg_call (\<lambda>w. (Inr (get_key w (ss_KeyID s) \<noteq> None), w)) w)
       (''failed to check if key_id '' @ ss_KeyID s @ '' exists in keys table'')
       (\<lambda>keyExists w.
          if \<not> keyExists
          then (Inl (Err (no_key_text (ss_KeyID s))), w)
          else case pg_call (sql_upsert_session s) w of
                 (Inl e, w) \<Rightarrow> (Inl (save_session_error s e), w)
               | (Inr _, w) \<Rightarrow> (Inr (), w))"

definition pg_GetSigningSession :: "world \<Rightarrow> string \<Rightarrow> (world, SigningSession) res" where
  "pg_GetSigningSession w sessionID =
     or_wrap (pg_call (\<lambda>w. (Inr (get_sess w sessionID), w)) w) ''failed to get signing session''
       (\<lambda>row w. case row of None \<Rightarrow> (Inl (Err ''session not found''), w) | Some s \<Rightarrow> (Inr s, w))"

definition set_sess :: "SigningSession \<Rightarrow> world \<Rightarrow> world" where
  "set_sess s w =
     w\<lparr>sess_t := tbl_upd ss_SessionID (ss_SessionID s) (sess_conflict s) (sess_t w)\<rparr>"

definition sql_update_session :: "SigningSession \<Rightarrow> world \<Rightarrow> (world, unit) res" where
  "sql_update_session s w =
     (if \<not> sess_row_ok s then (Inl (Err ''pq: integer out of range''), w)
      else if get_sess w (ss_SessionID s) \<noteq> None \<and> get_key w (ss_KeyID s) = None then (Inl fk_error, w)
      else (Inr (), set_sess s w))"

definition pg_UpdateSigningSession :: "world \<Rightarrow> SigningSession \<Rightarrow> (world, unit) res" where
  "pg_UpdateSigningSession w s =
     or_wrap (pg_call (sql_update_session s) w) ''failed to update signing session'' (\<lambda>_ w. (Inr (), w))"

section \<open>RedisStore (redis.go)\<close>

definition session_key :: "string \<Rightarrow> string" where
  "session_key sessionID = ''mpc:session:'' @ sessionID"

definition lock_key :: "string \<Rightarrow> string" where
  "lock_key key = ''mpc:lock:'' @ key"

text \<open>A key is live until its expiry; a non-positive TTL means no expiry (go-redis).\<close>

definition rlive :: "world \<Rightarrow> string \<Rightarrow> rvalue option" where
  "rlive w k = (case rkeys w k of
     None \<Rightarrow> None
   | Some (v, None) \<Rightarrow> Some v
   | Some (v, Some t) \<Rightarrow> if now w < t then Some v else None)"

definition rexpiry :: "world \<Rightarrow> int \<Rightarrow> time option" where
  "rexpiry w ttl = (if ttl > 0 then Some (now w + ttl) else None)"

definition redis_Set :: "string \<Rightarrow> rvalue \<Rightarrow> int \<Rightarrow> world \<Rightarrow> world" where
  "redis_Set k v ttl w = w\<lparr>rkeys := (rkeys w)(k \<mapsto> (v, rexpiry w ttl))\<rparr>"

definition redis_Del :: "string \<Rightarrow> world \<Rightarrow> world" where
  "redis_Del k w = w\<lparr>rkeys := (rkeys w)(k := None)\<rparr>"

definition rds_SaveSession :: "world \<Rightarrow> SigningSession \<Rightarrow> int \<Rightarrow> (world, unit) res" where
  "rds_SaveSession w s ttl =
     or_wrap (rd_call (\<lambda>w. (Inr (), redis_Set (session_key (ss_SessionID s)) (RSession s) ttl w)) w)
       ''failed to save session'' (\<lambda>_ w. (Inr (), w))"

definition rds_GetSession :: "world \<Rightarrow> string \<Rightarrow> (world, SigningSession) res" where
  "rds_GetSession w sessionID =
     or_wrap (rd_call (\<lambda>w. (Inr (rlive w (session_key sessionID)), w)) w) ''failed to get session''
       (\<lambda>data w. case data of
           None \<Rightarrow> (Inl (Err ''session not found''), w)
         | Some (RSession s) \<Rightarrow> (Inr s, w)
         | Some RLock \<Rightarrow> (Inl (Wrap (Err ''json'') ''failed to unmarshal session''), w))"

definition rds_UpdateSession :: "world \<Rightarrow> SigningSession \<Rightarrow> int \<Rightarrow> (world, unit) res" where
  "rds_UpdateSession w s ttl = rds_SaveSession w s ttl"

definition rds_DeleteSession :: "world \<Rightarrow> string \<Rightarrow> (world, unit) res" where
  "rds_DeleteSession w sessionID =
     or_wrap (rd_call (\<lambda>w. (Inr (), redis_Del (session_key sessionID) w)) w)
       ''failed to delete session'' (\<lambda>_ w. (Inr (), w))"

definition redis_SetNX :: "string \<Rightarrow> rvalue \<Rightarrow> int \<Rightarrow> world \<Rightarrow> (world, bool) res" where
  "redis_SetNX k v ttl w =
     (if rlive w k = None then (Inr True, redis_Set k v ttl w) else (Inr False, w))"

definition rds_AcquireLock :: "world \<Rightarrow> string \<Rightarrow> int \<Rightarrow> (world, bool) res" where
  "rds_AcquireLock w key ttl =
     or_wrap (rd_call (redis_SetNX (lock_key key) RLock ttl) w) ''failed to acquire lock''
       (\<lambda>b w. (Inr b, w))"

definition rds_ReleaseLock :: "world \<Rightarrow> string \<Rightarrow> (world, unit) res" where
  "rds_ReleaseLock w key =
     or_wrap (rd_call (\<lambda>w. (Inr (), redis_Del (lock_key key) w)) w) ''failed to release lock''
       (\<lambda>_ w. (Inr (), w))"

end
