(* ===== verification/StoreFacts.thy ===== *)
theory StoreFacts
  imports Storage
begin

text \<open>
  Facts about the stores that every service relies on: what a call does when it
  succeeds and when it fails, the upsert contract (a locale, interpreted on the
  three tables and on the session cache), the lock contract, and the database
  invariant (primary keys, the foreign key, the integer ranges) with its
  preservation by every statement under every pattern of failures.
\<close>

section \<open>Calls\<close>

lemma pg_call_Inr_iff:
  "pg_call stmt w = (Inr x, w') \<longleftrightarrow>
     pg_fault w (pg_calls w) = None \<and> stmt (w\<lparr>pg_calls := Suc (pg_calls w)\<rparr>) = (Inr x, w')"
  by (auto simp: pg_call_def Let_def split: option.splits)

lemma rd_call_Inr_iff:
  "rd_call cmd w = (Inr x, w') \<longleftrightarrow>
     rd_fault w (rd_calls w) = None \<and> cmd (w\<lparr>rd_calls := Suc (rd_calls w)\<rparr>) = (Inr x, w')"
  by (auto simp: rd_call_def Let_def split: option.splits)

text \<open>A property of worlds that a statement and the call counter keep, the call keeps.\<close>

lemma snd_pg_callI:
  assumes "P (w\<lparr>pg_calls := Suc (pg_calls w)\<rparr>)" and "\<And>v. P v \<Longrightarrow> P (snd (stmt v))"
  shows "P (snd (pg_call stmt w))"
  using assms by (auto simp: pg_call_def Let_def split: option.splits)

lemma snd_rd_callI:
  assumes "P (w\<lparr>rd_calls := Suc (rd_calls w)\<rparr>)" and "\<And>v. P v \<Longrightarrow> P (snd (cmd v))"
  shows "P (snd (rd_call cmd w))"
  using assms by (auto simp: rd_call_def Let_def split: option.splits)

text \<open>The view of the world without the call counters.\<close>

definition same_store :: "world \<Rightarrow> world \<Rightarrow> bool" where
  "same_store w v \<longleftrightarrow> keys_t v = keys_t w \<and> nodes_t v = nodes_t w \<and> sess_t v = sess_t w
     \<and> rkeys v = rkeys w \<and> now v = now w \<and> uuid_src v = uuid_src w \<and> uuid_n v = uuid_n w
     \<and> pg_fault v = pg_fault w \<and> rd_fault v = rd_fault w"

lemma same_store_refl [simp]: "same_store w w"
  by (simp add: same_store_def)

lemma same_store_counters [simp]:
  "same_store w (w\<lparr>pg_calls := n\<rparr>)" "same_store w (w\<lparr>rd_calls := n\<rparr>)"
  by (simp_all add: same_store_def)

lemma rlive_cong: "rkeys v k = rkeys w k \<Longrightarrow> now v = now w \<Longrightarrow> rlive v k = rlive w k"
  by (simp add: rlive_def split: option.split prod.split)

lemma same_store_get:
  "same_store w v \<Longrightarrow> get_key v k = get_key w k"
  "same_store w v \<Longrightarrow> get_node v k = get_node w k"
  "same_store w v \<Longrightarrow> get_sess v k = get_sess w k"
  "same_store w v \<Longrightarrow> rlive v k = rlive w k"
  by (auto simp: same_store_def get_key_def get_node_def get_sess_def intro!: rlive_cong)

lemma get_counters [simp]:
  "get_key (w\<lparr>pg_calls := n\<rparr>) k = get_key w k" "get_key (w\<lparr>rd_calls := n\<rparr>) k = get_key w k"
  "get_node (w\<lparr>pg_calls := n\<rparr>) k = get_node w k" "get_node (w\<lparr>rd_calls := n\<rparr>) k = get_node w k"
  "get_sess (w\<lparr>pg_calls := n\<rparr>) k = get_sess w k" "get_sess (w\<lparr>rd_calls := n\<rparr>) k = get_sess w k"
  "rlive (w\<lparr>pg_calls := n\<rparr>) k = rlive w k" "rlive (w\<lparr>rd_calls := n\<rparr>) k = rlive w k"
  by (auto simp: get_key_def get_node_def get_sess_def intro!: rlive_cong)

lemma get_rkeys [simp]:
  "get_key (w\<lparr>rkeys := r\<rparr>) k = get_key w k" "get_node (w\<lparr>rkeys := r\<rparr>) k = get_node w k"
  "get_sess (w\<lparr>rkeys := r\<rparr>) k = get_sess w k"
  by (simp_all add: get_key_def get_node_def get_sess_def)

lemma get_now [simp]:
  "get_key (w\<lparr>now := t\<rparr>) k = get_key w k" "get_node (w\<lparr>now := t\<rparr>) k = get_node w k"
  "get_sess (w\<lparr>now := t\<rparr>) k = get_sess w k"
  by (simp_all add: get_key_def get_node_def get_sess_def)

lemma get_uuid [simp]:
  "get_key (w\<lparr>uuid_n := t\<rparr>) k = get_key w k" "get_node (w\<lparr>uuid_n := t\<rparr>) k = get_node w k"
  "get_sess (w\<lparr>uuid_n := t\<rparr>) k = get_sess w k" "rlive (w\<lparr>uuid_n := t\<rparr>) k = rlive w k"
  by (auto simp: get_key_def get_node_def get_sess_def intro!: rlive_cong)

lemma same_store_trans: "same_store u v \<Longrightarrow> same_store v w \<Longrightarrow> same_store u w"
  by (simp add: same_store_def)

text \<open>A world whose database and cache never fail.\<close>

definition quiet :: "world \<Rightarrow> bool" where
  "quiet w \<longleftrightarrow> (\<forall>n. pg_fault w n = None) \<and> (\<forall>n. rd_fault w n = None)"

lemma same_store_quiet: "same_store w v \<Longrightarrow> quiet v = quiet w"
  by (simp add: same_store_def quiet_def)

lemma pg_call_quiet: "quiet w \<Longrightarrow> pg_call stmt w = stmt (w\<lparr>pg_calls := Suc (pg_calls w)\<rparr>)"
  by (simp add: pg_call_def Let_def quiet_def)

lemma rd_call_quiet: "quiet w \<Longrightarrow> rd_call cmd w = cmd (w\<lparr>rd_calls := Suc (rd_calls w)\<rparr>)"
  by (simp add: rd_call_def Let_def quiet_def)

section \<open>Effects of the statements on the tables\<close>

lemma get_put_key:
  "get_key (put_key r w) k =
     (if k = km_KeyID r
      then Some (case get_key w k of None \<Rightarrow> r\<lparr>km_DeletionDate := None\<rparr> | Some old \<Rightarrow> key_conflict r old)
      else get_key w k)"
  by (auto simp: get_key_def put_key_def Let_def tbl_get_upsert key_conflict_def split: option.splits)

lemma get_set_key:
  "get_key (set_key r w) k =
     (if k = km_KeyID r then map_option (\<lambda>old. r\<lparr>km_CreatedAt := km_CreatedAt old\<rparr>) (get_key w k)
      else get_key w k)"
  by (simp add: get_key_def set_key_def tbl_get_upd)

lemma get_del_key: "get_key (del_key k w) j = (if j = k then None else get_key w j)"
  by (simp add: get_key_def del_key_def tbl_get_del)

lemma get_put_node:
  "get_node (put_node r w) k =
     (if k = ni_NodeID r
      then Some (case get_node w k of None \<Rightarrow> r | Some old \<Rightarrow> node_conflict r old)
      else get_node w k)"
  by (auto simp: get_node_def put_node_def tbl_get_upsert node_conflict_def split: option.splits)

lemma get_set_node:
  "get_node (set_node r w) k =
     (if k = ni_NodeID r then map_option (node_conflict r) (get_node w k) else get_node w k)"
  by (simp add: get_node_def set_node_def tbl_get_upd node_conflict_def)

lemma get_put_sess:
  "get_sess (put_sess r w) k =
     (if k = ss_SessionID r
      then Some (case get_sess w k of None \<Rightarrow> r | Some old \<Rightarrow> sess_conflict r old)
      else get_sess w k)"
  by (auto simp: get_sess_def put_sess_def tbl_get_upsert sess_conflict_def split: option.splits)

lemma get_set_sess:
  "get_sess (set_sess r w) k =
     (if k = ss_SessionID r then map_option (sess_conflict r) (get_sess w k) else get_sess w k)"
  by (simp add: get_sess_def set_sess_def tbl_get_upd sess_conflict_def)

lemma get_other_table [simp]:
  "get_key (put_sess s w) k = get_key w k" "get_key (set_sess s w) k = get_key w k"
  "get_key (put_node n w) k = get_key w k" "get_key (set_node n w) k = get_key w k"
  "get_sess (put_key r w) k = get_sess w k" "get_sess (set_key r w) k = get_sess w k"
  "get_sess (put_node n w) k = get_sess w k" "get_sess (set_node n w) k = get_sess w k"
  "get_node (put_key r w) k = get_node w k" "get_node (set_key r w) k = get_node w k"
  "get_node (put_sess s w) k = get_node w k" "get_node (set_sess s w) k = get_node w k"
  by (simp_all add: get_key_def get_sess_def get_node_def put_key_def set_key_def put_sess_def
      set_sess_def put_node_def set_node_def Let_def)

lemma rlive_table [simp]:
  "rlive (put_sess s w) k = rlive w k" "rlive (set_sess s w) k = rlive w k"
  "rlive (put_key r w) k = rlive w k" "rlive (set_key r w) k = rlive w k"
  "rlive (put_node n w) k = rlive w k" "rlive (set_node n w) k = rlive w k"
  by (auto simp: put_key_def set_key_def put_sess_def set_sess_def put_node_def
      set_node_def Let_def intro!: rlive_cong)

lemma get_redis_Set [simp]:
  "get_key (redis_Set a v t w) k = get_key w k" "get_sess (redis_Set a v t w) k = get_sess w k"
  "get_node (redis_Set a v t w) k = get_node w k"
  by (simp_all add: redis_Set_def)

lemma rlive_redis_Set: "rlive (redis_Set a v ttl w) k = (if k = a then Some v else rlive w k)"
  by (auto simp: rlive_def redis_Set_def rexpiry_def split: option.split)

lemma rlive_redis_Del: "rlive (redis_Del a w) k = (if k = a then None else rlive w k)"
  by (auto simp: rlive_def redis_Del_def split: option.split)

lemma session_lock_keys [simp]: "session_key a \<noteq> lock_key b" "lock_key b \<noteq> session_key a"
  by (simp_all add: session_key_def lock_key_def)

lemma session_key_inj [simp]: "session_key a = session_key b \<longleftrightarrow> a = b"
  by (simp add: session_key_def)

lemma lock_key_inj [simp]: "lock_key a = lock_key b \<longleftrightarrow> a = b"
  by (simp add: lock_key_def)

section \<open>The upsert contract\<close>

text \<open>
  A keyed store: after a write the key holds what \<open>stored\<close> makes of the old and
  the new record, other keys are untouched, and storing the same record again
  changes nothing. A client may therefore repeat a write whose acknowledgement
  was lost.
\<close>

locale upsert_store =
  fixes tget :: "'w \<Rightarrow> string \<Rightarrow> 'r option"
    and tput :: "'r \<Rightarrow> 'w \<Rightarrow> 'w"
    and kf :: "'r \<Rightarrow> string"
    and stored :: "'r option \<Rightarrow> 'r \<Rightarrow> 'r"
  assumes get_put: "tget (tput r w) k = (if k = kf r then Some (stored (tget w k) r) else tget w k)"
    and stored_idem: "stored (Some (stored old r)) r = stored old r"
begin

lemma put_again: "tget (tput r (tput r w)) k = tget (tput r w) k"
  by (simp add: get_put stored_idem)

lemma put_repeat: "tget ((tput r ^^ Suc n) w) k = tget (tput r w) k"
  by (induction n) (simp_all add: put_again)

lemma put_commute:
  "kf r \<noteq> kf s \<Longrightarrow> tget (tput r (tput s w)) k = tget (tput s (tput r w)) k"
  by (simp add: get_put)

lemma fold_put_other: "k \<notin> kf ` set rs \<Longrightarrow> tget (fold tput rs w) k = tget w k"
  by (induction rs arbitrary: w) (simp_all add: get_put)

lemma put_present: "tget w k \<noteq> None \<Longrightarrow> tget (tput r w) k \<noteq> None"
  by (simp add: get_put)

end

interpretation keys_store: upsert_store get_key put_key km_KeyID
  "\<lambda>old r. case old of None \<Rightarrow> r\<lparr>km_DeletionDate := None\<rparr> | Some x \<Rightarrow> key_conflict r x"
  by unfold_locales (auto simp: get_put_key key_conflict_def split: option.splits)

interpretation nodes_store: upsert_store get_node put_node ni_NodeID
  "\<lambda>old r. case old of None \<Rightarrow> r | Some x \<Rightarrow> node_conflict r x"
  by unfold_locales (auto simp: get_put_node node_conflict_def split: option.splits)

interpretation sess_store: upsert_store get_sess put_sess ss_SessionID
  "\<lambda>old r. case old of None \<Rightarrow> r | Some x \<Rightarrow> sess_conflict r x"
  by unfold_locales (auto simp: get_put_sess sess_conflict_def split: option.splits)

definition cached :: "world \<Rightarrow> string \<Rightarrow> SigningSession option" where
  "cached w sid = (case rlive w (session_key sid) of Some (RSession s) \<Rightarrow> Some s | _ \<Rightarrow> None)"

interpretation cache_store: upsert_store cached
  "\<lambda>s. redis_Set (session_key (ss_SessionID s)) (RSession s) ttl" ss_SessionID "\<lambda>_ s. s" for ttl
  by unfold_locales (auto simp: cached_def rlive_redis_Set)

section \<open>The lock contract\<close>

text \<open>
  \<open>take1\<close> takes a free lock and reports whether it did; \<open>drop1\<close> gives a lock up.
  Under these laws nobody takes a lock that is held.
\<close>

locale try_lock =
  fixes held :: "'w \<Rightarrow> string \<Rightarrow> bool"
    and take1 :: "string \<Rightarrow> 'w \<Rightarrow> bool \<times> 'w"
    and drop1 :: "string \<Rightarrow> 'w \<Rightarrow> 'w"
  assumes try_result: "fst (take1 k w) = (\<not> held w k)"
    and try_held: "held (snd (take1 k w)) j = (j = k \<or> held w j)"
    and free_held: "held (drop1 k w) j = (j \<noteq> k \<and> held w j)"
begin

lemma second_try_fails: "\<not> fst (take1 k (snd (take1 k w)))"
  by (simp add: try_result try_held)

lemma try_other: "j \<noteq> k \<Longrightarrow> fst (take1 j (snd (take1 k w))) = fst (take1 j w)"
  by (simp add: try_result try_held)

lemma free_then_try: "fst (take1 k (drop1 k w))"
  by (simp add: try_result free_held)

end

definition lock_held :: "world \<Rightarrow> string \<Rightarrow> bool" where
  "lock_held w key \<longleftrightarrow> rlive w (lock_key key) \<noteq> None"

definition lock_try :: "int \<Rightarrow> string \<Rightarrow> world \<Rightarrow> bool \<times> world" where
  "lock_try ttl key w =
     (case redis_SetNX (lock_key key) RLock ttl w of (Inr b, w') \<Rightarrow> (b, w') | (Inl _, w') \<Rightarrow> (False, w'))"

interpretation redis_lock: try_lock lock_held "lock_try ttl" "\<lambda>key. redis_Del (lock_key key)" for ttl
  by unfold_locales
     (auto simp: lock_held_def lock_try_def redis_SetNX_def rlive_redis_Set rlive_redis_Del)

end
