(* ===== verification/DbInvariant.thy ===== *)
theory DbInvariant
  imports StoreFacts
begin

text \<open>
  The invariant of the metadata database: primary keys are unique, every session
  refers to a key that exists, integer columns are in range. Every method of
  \<open>PostgreSQLStore\<close> keeps it, whatever calls fail, whether or not a failed call
  took effect, and however the methods are interleaved.
\<close>

definition db_inv :: "world \<Rightarrow> bool" where
  "db_inv w \<longleftrightarrow> tbl_ok km_KeyID (keys_t w) \<and> tbl_ok ni_NodeID (nodes_t w)
     \<and> tbl_ok ss_SessionID (sess_t w)
     \<and> (\<forall>k \<in> set (keys_t w). key_row_ok k)
     \<and> (\<forall>s \<in> set (sess_t w). sess_row_ok s \<and> get_key w (ss_KeyID s) \<noteq> None)"

lemma db_inv_cong:
  assumes "keys_t v = keys_t w" and "nodes_t v = nodes_t w" and "sess_t v = sess_t w"
  shows "db_inv v = db_inv w"
  using assms by (simp add: db_inv_def get_key_def)

lemma db_inv_counters [simp]:
  "db_inv (w\<lparr>pg_calls := n\<rparr>) = db_inv w" "db_inv (w\<lparr>rd_calls := n\<rparr>) = db_inv w"
  "db_inv (w\<lparr>now := t\<rparr>) = db_inv w" "db_inv (w\<lparr>rkeys := r\<rparr>) = db_inv w"
  "db_inv (w\<lparr>uuid_n := n\<rparr>) = db_inv w"
  by (rule db_inv_cong; simp)+

section \<open>Statements\<close>

lemma set_tbl_upd: "r \<in> set (tbl_upd kf k f rs) \<Longrightarrow> r \<in> set rs \<or> (\<exists>x \<in> set rs. kf x = k \<and> r = f x)"
  by (auto simp: tbl_upd_def)

lemma set_tbl_upsert:
  "r \<in> set (tbl_upsert kf f x rs) \<Longrightarrow> r \<in> set rs \<or> r = x \<or> (\<exists>y \<in> set rs. kf y = kf x \<and> r = f y)"
  by (auto simp: tbl_upsert_def dest: set_tbl_upd split: if_splits)

lemma db_inv_put_key:
  assumes "db_inv w" and "key_row_ok key"
  shows "db_inv (put_key key w)"
proof -
  let ?r = "key\<lparr>km_DeletionDate := None\<rparr>"
  have "tbl_ok km_KeyID (tbl_upsert km_KeyID (key_conflict ?r) ?r (keys_t w))"
    using assms(1) by (intro tbl_ok_upsert) (auto simp: db_inv_def key_conflict_def)
  moreover have "\<forall>k \<in> set (tbl_upsert km_KeyID (key_conflict ?r) ?r (keys_t w)). key_row_ok k"
    using assms by (auto simp: db_inv_def key_row_ok_def key_conflict_def dest!: set_tbl_upsert)
  moreover have "get_key (put_key key w) k \<noteq> None" if "get_key w k \<noteq> None" for k
    using that by (simp add: get_put_key)
  ultimately show ?thesis
    using assms(1) by (simp add: db_inv_def put_key_def Let_def)
qed

lemma db_inv_set_key:
  assumes "db_inv w" and "key_row_ok key"
  shows "db_inv (set_key key w)"
proof -
  let ?f = "\<lambda>old. key\<lparr>km_CreatedAt := km_CreatedAt old\<rparr>"
  have "\<forall>k \<in> set (tbl_upd km_KeyID (km_KeyID key) ?f (keys_t w)). key_row_ok k"
    using assms by (auto simp: db_inv_def key_row_ok_def dest!: set_tbl_upd)
  moreover have "get_key (set_key key w) k \<noteq> None" if "get_key w k \<noteq> None" for k
    using that by (auto simp: get_set_key)
  ultimately show ?thesis
    using assms(1) by (simp add: db_inv_def set_key_def tbl_ok_upd)
qed

lemma db_inv_del_key:
  assumes "db_inv w"
  shows "db_inv (del_key k w)"
proof -
  have "tbl_ok ss_SessionID (filter P (sess_t w))" for P
    using assms by (simp add: db_inv_def tbl_ok_def distinct_map_filter)
  moreover have "get_key (del_key k w) (ss_KeyID s) \<noteq> None"
    if "s \<in> set (sess_t w)" "ss_KeyID s \<noteq> k" for s
    using that assms by (simp add: get_del_key db_inv_def)
  moreover have "\<forall>x \<in> set (tbl_del km_KeyID k (keys_t w)). key_row_ok x"
    using assms by (auto simp: db_inv_def tbl_del_def)
  ultimately show ?thesis
    using assms by (auto simp: db_inv_def del_key_def tbl_ok_del)
qed

lemma db_inv_put_node: "db_inv w \<Longrightarrow> db_inv (put_node n w)"
  by (simp add: db_inv_def put_node_def get_key_def tbl_ok_upsert node_conflict_def)

lemma db_inv_upd_nodes:
  assumes "db_inv w" and "\<And>n. ni_NodeID n = k \<Longrightarrow> ni_NodeID (f n) = k"
  shows "db_inv (w\<lparr>nodes_t := tbl_upd ni_NodeID k f (nodes_t w)\<rparr>)"
  using assms by (simp add: db_inv_def get_key_def tbl_ok_upd)

lemma db_inv_set_node: "db_inv w \<Longrightarrow> db_inv (set_node n w)"
  by (simp add: set_node_def db_inv_upd_nodes node_conflict_def)

lemma db_inv_put_sess:
  assumes "db_inv w" and "sess_row_ok s" and "get_key w (ss_KeyID s) \<noteq> None"
  shows "db_inv (put_sess s w)"
proof -
  have "tbl_ok ss_SessionID (tbl_upsert ss_SessionID (sess_conflict s) s (sess_t w))"
    using assms(1) by (intro tbl_ok_upsert) (auto simp: db_inv_def sess_conflict_def)
  moreover have "sess_row_ok x \<and> get_key w (ss_KeyID x) \<noteq> None"
    if "x \<in> set (tbl_upsert ss_SessionID (sess_conflict s) s (sess_t w))" for x
    using set_tbl_upsert [OF that] assms by (auto simp: db_inv_def sess_row_ok_def sess_conflict_def)
  ultimately show ?thesis
    using assms(1) by (simp add: db_inv_def put_sess_def get_key_def)
qed

lemma db_inv_set_sess:
  assumes "db_inv w" and "sess_row_ok s"
    and "get_sess w (ss_SessionID s) \<noteq> None \<Longrightarrow> get_key w (ss_KeyID s) \<noteq> None"
  shows "db_inv (set_sess s w)"
proof -
  have "sess_row_ok x \<and> get_key w (ss_KeyID x) \<noteq> None"
    if "x \<in> set (tbl_upd ss_SessionID (ss_SessionID s) (sess_conflict s) (sess_t w))" for x
  proof (cases "x \<in> set (sess_t w)")
    case True
    then show ?thesis using assms(1) by (auto simp: db_inv_def)
  next
    case False
    with set_tbl_upd [OF that] obtain y
      where y: "y \<in> set (sess_t w)" "ss_SessionID y = ss_SessionID s" "x = sess_conflict s y"
      by blast
    from y(1,2) have "ss_SessionID s \<in> ss_SessionID ` set (sess_t w)"
      by (metis imageI)
    then have "get_sess w (ss_SessionID s) \<noteq> None"
      unfolding get_sess_def tbl_get_None_iff by simp
    with y assms show ?thesis
      by (simp add: sess_row_ok_def sess_conflict_def)
  qed
  moreover have "tbl_ok ss_SessionID (tbl_upd ss_SessionID (ss_SessionID s) (sess_conflict s) (sess_t w))"
    using assms(1) by (simp add: tbl_ok_upd sess_conflict_def db_inv_def)
  ultimately show ?thesis
    using assms(1) by (simp add: db_inv_def set_sess_def get_key_def)
qed

section \<open>Methods\<close>

text \<open>Whatever follows a call keeps the invariant when it only returns or fails.\<close>

lemma db_inv_pg_call:
  assumes "db_inv w" and "\<And>v. db_inv v \<Longrightarrow> db_inv (snd (stmt v))"
  shows "db_inv (snd (pg_call stmt w))"
  using assms by (simp add: snd_pg_callI [where P = db_inv])

lemma db_inv_rd_call:
  assumes "db_inv w" and "\<And>v. db_inv v \<Longrightarrow> db_inv (snd (cmd v))"
  shows "db_inv (snd (rd_call cmd w))"
  using assms by (simp add: snd_rd_callI [where P = db_inv])

lemmas db_inv_or_wrap = snd_or_wrapI [where P = db_inv]

named_theorems db_inv_intros "every store method keeps db_inv"

lemma db_inv_pg_SaveKeyMetadata [db_inv_intros]: "db_inv w \<Longrightarrow> db_inv (snd (pg_SaveKeyMetadata w k))"
  unfolding pg_SaveKeyMetadata_def
  by (intro db_inv_or_wrap db_inv_pg_call) (auto simp: sql_upsert_key_def db_inv_put_key)

lemma db_inv_pg_GetKeyMetadata [db_inv_intros]: "db_inv w \<Longrightarrow> db_inv (snd (pg_GetKeyMetadata w k))"
  unfolding pg_GetKeyMetadata_def
  by (intro db_inv_or_wrap db_inv_pg_call) (auto split: option.splits)

lemma db_inv_pg_UpdateKeyMetadata [db_inv_intros]:
  "db_inv w \<Longrightarrow> db_inv (snd (pg_UpdateKeyMetadata w k))"
  unfolding pg_UpdateKeyMetadata_def
  by (intro db_inv_or_wrap db_inv_pg_call) (auto simp: sql_update_key_def db_inv_set_key)

lemma db_inv_pg_DeleteKeyMetadata [db_inv_intros]:
  "db_inv w \<Longrightarrow> db_inv (snd (pg_DeleteKeyMetadata w k))"
  unfolding pg_DeleteKeyMetadata_def
  by (intro db_inv_or_wrap db_inv_pg_call) (auto simp: db_inv_del_key)

lemma db_inv_pg_ListKeys [db_inv_intros]: "db_inv w \<Longrightarrow> db_inv (snd (pg_ListKeys w f))"
  unfolding pg_ListKeys_def Let_def
  by (intro db_inv_or_wrap db_inv_pg_call) (auto simp: sql_select_keys_def)

lemma db_inv_pg_SaveNode [db_inv_intros]: "db_inv w \<Longrightarrow> db_inv (snd (pg_SaveNode w n))"
  unfolding pg_SaveNode_def by (intro db_inv_or_wrap db_inv_pg_call) (auto simp: db_inv_put_node)

lemma db_inv_pg_GetNode [db_inv_intros]: "db_inv w \<Longrightarrow> db_inv (snd (pg_GetNode w n))"
  unfolding pg_GetNode_def by (intro db_inv_or_wrap db_inv_pg_call) (auto split: option.splits)

lemma db_inv_pg_UpdateNode [db_inv_intros]: "db_inv w \<Longrightarrow> db_inv (snd (pg_UpdateNode w n))"
  unfolding pg_UpdateNode_def by (intro db_inv_or_wrap db_inv_pg_call) (auto simp: db_inv_set_node)

lemma db_inv_pg_ListNodes [db_inv_intros]: "db_inv w \<Longrightarrow> db_inv (snd (pg_ListNodes w f))"
  unfolding pg_ListNodes_def Let_def
  by (intro db_inv_or_wrap db_inv_pg_call) (auto simp: sql_select_nodes_def)

lemma db_inv_pg_UpdateNodeHeartbeat [db_inv_intros]:
  "db_inv w \<Longrightarrow> db_inv (snd (pg_UpdateNodeHeartbeat w n))"
  unfolding pg_UpdateNodeHeartbeat_def
  by (intro db_inv_or_wrap db_inv_pg_call) (auto intro!: db_inv_upd_nodes)

lemma db_inv_sql_upsert_session: "db_inv w \<Longrightarrow> db_inv (snd (sql_upsert_session s w))"
  by (auto simp: sql_upsert_session_def db_inv_put_sess)

lemma db_inv_pg_SaveSigningSession [db_inv_intros]:
  assumes "db_inv w"
  shows "db_inv (snd (pg_SaveSigningSession w s))"
proof -
  have "db_inv (snd (case pg_call (sql_upsert_session s) v of
            (Inl e, w) \<Rightarrow> (Inl (save_session_error s e), w) | (Inr _, w) \<Rightarrow> (Inr (), w)))"
    if "db_inv v" for v :: world
    using db_inv_pg_call [OF that, of "sql_upsert_session s", OF db_inv_sql_upsert_session]
    by (auto split: prod.splits sum.splits)
  with assms show ?thesis
    unfolding pg_SaveSigningSession_def
    by (intro db_inv_or_wrap db_inv_pg_call) auto
qed

lemma db_inv_pg_GetSigningSession [db_inv_intros]:
  "db_inv w \<Longrightarrow> db_inv (snd (pg_GetSigningSession w s))"
  unfolding pg_GetSigningSession_def by (intro db_inv_or_wrap db_inv_pg_call) (auto split: option.splits)

lemma db_inv_pg_UpdateSigningSession [db_inv_intros]:
  "db_inv w \<Longrightarrow> db_inv (snd (pg_UpdateSigningSession w s))"
  unfolding pg_UpdateSigningSession_def
  by (intro db_inv_or_wrap db_inv_pg_call) (auto simp: sql_update_session_def intro!: db_inv_set_sess)

section \<open>Runs of the store\<close>

text \<open>
  One step is one method called by any node, or time passing. \<open>store_run w v\<close>:
  \<open>v\<close> is reached from \<open>w\<close> by some sequence of steps.
\<close>

inductive store_step :: "world \<Rightarrow> world \<Rightarrow> bool" where
  "store_step w (snd (pg_SaveKeyMetadata w k))"
| "store_step w (snd (pg_GetKeyMetadata w kid))"
| "store_step w (snd (pg_UpdateKeyMetadata w k))"
| "store_step w (snd (pg_DeleteKeyMetadata w kid))"
| "store_step w (snd (pg_ListKeys w kf))"
| "store_step w (snd (pg_SaveNode w n))"
| "store_step w (snd (pg_GetNode w nid))"
| "store_step w (snd (pg_UpdateNode w n))"
| "store_step w (snd (pg_ListNodes w nf))"
| "store_step w (snd (pg_UpdateNodeHeartbeat w nid))"
| "store_step w (snd (pg_SaveSigningSession w s))"
| "store_step w (snd (pg_GetSigningSession w sid))"
| "store_step w (snd (pg_UpdateSigningSession w s))"
| "store_step w (time_Sleep d w)"

inductive store_run :: "world \<Rightarrow> world \<Rightarrow> bool" where
  refl: "store_run w w"
| step: "store_run w v \<Longrightarrow> store_step v u \<Longrightarrow> store_run w u"

lemma db_inv_time_Sleep [db_inv_intros]: "db_inv w \<Longrightarrow> db_inv (time_Sleep d w)"
  by (simp add: time_Sleep_def)

lemma store_step_db_inv: "store_step w v \<Longrightarrow> db_inv w \<Longrightarrow> db_inv v"
  by (induction rule: store_step.induct) (auto intro: db_inv_intros)

lemma store_run_db_inv: "store_run w v \<Longrightarrow> db_inv w \<Longrightarrow> db_inv v"
  by (induction rule: store_run.induct) (auto intro: store_step_db_inv)

end
