(* ===== verification/StorageProps.thy ===== *)
theory StorageProps
  imports DbInvariant
begin

text \<open>
  The properties of \<open>internal/mpc/storage\<close>: the database invariant over every
  run, writes that may be repeated, the pages of a listing, and what the Redis
  lock excludes and what it does not.
\<close>

section \<open>The database\<close>


definition plain_world :: world where
  "plain_world = \<lparr>keys_t = [], nodes_t = [], sess_t = [], rkeys = (\<lambda>_. None), now = 0,
     pg_fault = (\<lambda>n. if n = 1 then Some (''connection reset'', True) else None), pg_calls = 0,
     rd_fault = (\<lambda>_. None), rd_calls = 0, uuid_src = (\<lambda>n. nat_digits n), uuid_n = 0\<rparr>"

definition plain_key :: KeyMetadata where
  "plain_key = \<lparr>km_KeyID = ''key-1'', km_PublicKey = ''02ab'', km_Algorithm = ''ECDSA'',
     km_Curve = ''secp256k1'', km_Threshold = 2, km_TotalNodes = 3, km_ChainType = ''bitcoin'',
     km_Address = [], km_Status = ''Active'', km_Description = [], km_Tags = [], km_CreatedAt = 5,
     km_UpdatedAt = 5, km_DeletionDate = None\<rparr>"


text \<open>
  Saving key metadata may be repeated. If a first save failed but had been
  applied, or was lost, a second save that succeeds leaves the row that one
  successful save leaves; the creation time and the deletion date of a row that
  was there before survive both.
\<close>

theorem save_key_retry_safe:
  assumes "pg_fault w (pg_calls w) = Some (e, applied)" and "pg_fault w (Suc (pg_calls w)) = None"
    and "key_row_ok key"
  shows "fst (pg_SaveKeyMetadata w key) \<noteq> Inr ()
    \<and> fst (pg_SaveKeyMetadata (snd (pg_SaveKeyMetadata w key)) key) = Inr ()
    \<and> get_key (snd (pg_SaveKeyMetadata (snd (pg_SaveKeyMetadata w key)) key)) k = get_key (put_key key w) k"
proof -
  have put: "put_key key (w\<lparr>pg_calls := n\<rparr>) = (put_key key w)\<lparr>pg_calls := n\<rparr>" for w n
    by (simp add: put_key_def Let_def)
  have "pg_fault (put_key key w) = pg_fault w" "pg_calls (put_key key w) = pg_calls w" for w
    by (simp_all add: put_key_def Let_def)
  with assms keys_store.put_again [of key w k] show ?thesis
    by (cases applied) (simp_all add: pg_SaveKeyMetadata_def pg_call_def Let_def sql_upsert_key_def put)
qed

lemma save_key_retry_safe_witness:
  "let w = snd (pg_GetKeyMetadata plain_world ''x''); v = snd (pg_SaveKeyMetadata w plain_key)
   in fst (pg_SaveKeyMetadata w plain_key) \<noteq> Inr () \<and> fst (pg_SaveKeyMetadata v plain_key) = Inr ()
      \<and> get_key (snd (pg_SaveKeyMetadata v plain_key)) ''key-1'' = Some plain_key"
proof -
  let ?w = "snd (pg_GetKeyMetadata plain_world ''x'')"
  have w: "?w = plain_world\<lparr>pg_calls := 1\<rparr>"
    by (simp add: pg_GetKeyMetadata_def pg_call_def plain_world_def get_key_def)
  have "get_key (put_key plain_key ?w) ''key-1'' = Some plain_key"
    by (simp add: w get_put_key) (simp add: get_key_def plain_world_def plain_key_def)
  then show ?thesis
    using save_key_retry_safe [of ?w "''connection reset''" True plain_key "''key-1''"]
    by (simp add: Let_def w) (simp add: plain_world_def plain_key_def key_row_ok_def int4_ok_def)
qed

section \<open>Listings\<close>

definition key_matches :: "KeyFilter \<Rightarrow> KeyMetadata \<Rightarrow> bool" where
  "key_matches f k \<longleftrightarrow> (kf_ChainType f \<noteq> [] \<longrightarrow> km_ChainType k = kf_ChainType f)
     \<and> (kf_Status f \<noteq> [] \<longrightarrow> km_Status k = kf_Status f)"

definition all_matching :: "world \<Rightarrow> KeyFilter \<Rightarrow> KeyMetadata list" where
  "all_matching w f = sort_key (\<lambda>k. - km_CreatedAt k) (filter (key_matches f) (keys_t w))"

lemma pages_concat:
  "0 < l \<Longrightarrow> concat (map (\<lambda>i. page l (int i * l) xs) [0..<n]) = take (n * nat l) xs"
proof (induction n)
  case 0
  then show ?case by simp
next
  case (Suc n)
  have "nat (int n * l) = n * nat l"
    by (simp add: nat_mult_distrib)
  with Suc show ?case
    by (simp add: page_def take_add add.commute [of "nat l"])
qed

lemma pg_ListKeys_value:
  assumes "pg_fault w (pg_calls w) = None" and "0 \<le> kf_Offset f"
  shows "pg_ListKeys w (Some f) = (Inr (page (eff_limit (kf_Limit f)) (kf_Offset f) (all_matching w f)),
    w\<lparr>pg_calls := Suc (pg_calls w)\<rparr>)"
  using assms by (simp add: pg_ListKeys_def pg_call_def Let_def sql_select_keys_def all_matching_def
      key_matches_def [abs_def])

text \<open>
  The pages of a key listing, read one after the other with a positive
  limit, are together exactly the matching keys of the table, each as often as it
  is there, newest first; the tag filter has no influence on any page.
\<close>

theorem list_keys_pages:
  assumes "\<And>n. pg_fault w n = None" and "0 < l" and "length (keys_t w) \<le> n * nat l"
  shows "concat (map (\<lambda>i. projr (fst (pg_ListKeys w
             (Some (f\<lparr>kf_Limit := l, kf_Offset := int i * l, kf_TagKey := tk, kf_TagValue := tv\<rparr>))))) [0..<n])
           = all_matching w f
    \<and> mset (all_matching w f) = mset (filter (key_matches f) (keys_t w))
    \<and> sorted (map (\<lambda>k. - km_CreatedAt k) (all_matching w f))"
proof -
  let ?f = "\<lambda>i. f\<lparr>kf_Limit := l, kf_Offset := int i * l, kf_TagKey := tk, kf_TagValue := tv\<rparr>"
  have "all_matching w (?f i) = all_matching w f" for i
    by (simp add: all_matching_def key_matches_def [abs_def])
  then have page: "projr (fst (pg_ListKeys w (Some (?f i)))) = page l (int i * l) (all_matching w f)" for i
    using assms(1,2) by (subst pg_ListKeys_value) (simp_all add: eff_limit_def)
  have "length (all_matching w f) \<le> n * nat l"
    by (simp add: all_matching_def) (rule order_trans [OF length_filter_le assms(3)])
  with assms(2) have "concat (map (\<lambda>i. projr (fst (pg_ListKeys w (Some (?f i))))) [0..<n]) = all_matching w f"
    unfolding page by (simp only: pages_concat take_all)
  moreover have "mset (all_matching w f) = mset (filter (key_matches f) (keys_t w))"
    by (simp add: all_matching_def)
  moreover have "sorted (map (\<lambda>k. - km_CreatedAt k) (all_matching w f))"
    by (simp only: all_matching_def sorted_sort_key)
  ultimately show ?thesis by blast
qed

lemma list_keys_pages_witness:
  "let w = plain_world\<lparr>keys_t := [plain_key, plain_key\<lparr>km_KeyID := ''key-2'', km_CreatedAt := 9\<rparr>],
                       pg_fault := (\<lambda>_. None)\<rparr>;
       f = \<lparr>kf_ChainType = ''bitcoin'', kf_Status = [], kf_TagKey = ''env'', kf_TagValue = ''prod'',
            kf_Limit = 1, kf_Offset = 0\<rparr>
   in length (all_matching w f) = 2"
proof -
  let ?w = "plain_world\<lparr>keys_t := [plain_key, plain_key\<lparr>km_KeyID := ''key-2'', km_CreatedAt := 9\<rparr>],
                       pg_fault := (\<lambda>_. None)\<rparr>"
  let ?f = "\<lparr>kf_ChainType = ''bitcoin'', kf_Status = [], kf_TagKey = ''env'', kf_TagValue = ''prod'',
            kf_Limit = 1, kf_Offset = 0\<rparr>"
  have "mset (all_matching ?w ?f) = mset (filter (key_matches ?f) (keys_t ?w))"
    by (rule list_keys_pages [of ?w 1 2, THEN conjunct2, THEN conjunct1]) simp_all
  then have "size (mset (all_matching ?w ?f)) = size (mset (filter (key_matches ?f) (keys_t ?w)))"
    by simp
  then show ?thesis
    by (simp add: key_matches_def plain_key_def)
qed

section \<open>The lock\<close>

text \<open>
  A lock that was acquired with a positive lifetime excludes every other
  acquisition until the lifetime is over, and no longer; releasing it needs no
  ownership: any caller's release, and nothing but a release or the end of the
  lifetime, makes it free again.
\<close>

theorem lock_excludes_until_expiry:
  assumes "quiet w" and "rds_AcquireLock w key ttl = (Inr True, w1)" and "0 < ttl" and "0 \<le> d"
  shows "fst (rds_AcquireLock (time_Sleep d w1) key ttl') = Inr (ttl \<le> d)
    \<and> (other \<noteq> key \<longrightarrow> fst (rds_AcquireLock (snd (rds_ReleaseLock w1 other)) key ttl') = Inr False)
    \<and> fst (rds_AcquireLock (snd (rds_ReleaseLock w1 key)) key ttl') = Inr True"
proof -
  have w1: "w1 = redis_Set (lock_key key) RLock ttl (w\<lparr>rd_calls := Suc (rd_calls w)\<rparr>)"
    using assms(1,2)
    by (simp add: rds_AcquireLock_def rd_call_quiet redis_SetNX_def or_wrap_def split: if_splits)
  have q: "rd_fault w n = None" for n
    using assms(1) by (simp add: quiet_def)
  have f: "rd_fault w1 n = None" for n
    by (simp add: w1 redis_Set_def q)
  have try1: "fst (rds_AcquireLock v key ttl') = Inr (rlive v (lock_key key) = None)"
    if "\<And>n. rd_fault v n = None" for v :: world
    using that by (simp add: rds_AcquireLock_def rd_call_def Let_def redis_SetNX_def)
  have "rlive (time_Sleep d w1) (lock_key key) = None \<longleftrightarrow> ttl \<le> d"
    using assms(3,4) by (auto simp: w1 time_Sleep_def rlive_def redis_Set_def rexpiry_def)
  moreover have "rlive w1 (lock_key key) \<noteq> None"
    by (simp add: w1 rlive_redis_Set)
  moreover have "snd (rds_ReleaseLock w1 k) = redis_Del (lock_key k) (w1\<lparr>rd_calls := Suc (rd_calls w1)\<rparr>)" for k
    by (simp add: rds_ReleaseLock_def rd_call_def f)
  moreover have "rd_fault (time_Sleep d w1) n = None"
    "rd_fault (redis_Del (lock_key k) (w1\<lparr>rd_calls := m\<rparr>)) n = None" for n k m
    by (simp_all add: time_Sleep_def redis_Del_def f)
  ultimately show ?thesis
    by (simp add: try1 rlive_redis_Del)
qed

lemma lock_excludes_until_expiry_witness:
  "fst (rds_AcquireLock (time_Sleep 4 (snd (rds_AcquireLock (plain_world\<lparr>pg_fault := (\<lambda>_. None)\<rparr>) ''k'' 5))) ''k'' 5) = Inr False"
proof -
  let ?w = "plain_world\<lparr>pg_fault := (\<lambda>_. None)\<rparr>"
  have "quiet ?w" "rds_AcquireLock ?w ''k'' 5 = (Inr True, snd (rds_AcquireLock ?w ''k'' 5))"
    by (simp_all add: quiet_def plain_world_def rds_AcquireLock_def rd_call_def redis_SetNX_def rlive_def)
  from lock_excludes_until_expiry [OF this, of 4 5 "''j''"] show ?thesis by simp
qed

end
