(* ===== verification/Session.thy ===== *)
theory Session
  imports DbInvariant
begin

text \<open>
  \<open>internal/mpc/session\<close>: the session manager (\<open>manager.go\<close>) over the database
  and the cache, and the round progress and write-ahead log of the state store
  (\<open>store.go\<close>). Operations keep the code's names behind the prefixes \<open>sm_\<close> for
  the manager and \<open>st_\<close> for the state store; \<open>timeout\<close> is the manager's
  configured session timeout. Log lines and the Prometheus histogram are not part
  of the model.
\<close>

section \<open>Types (types.go)\<close>

record Session =
  se_SessionID :: string
  se_KeyID :: string
  se_Protocol :: string
  se_Status :: string
  se_Threshold :: int
  se_TotalNodes :: int
  se_ParticipatingNodes :: "string list"
  se_CurrentRound :: int
  se_TotalRounds :: int
  se_Signature :: string
  se_CreatedAt :: time
  se_CompletedAt :: "time option"
  se_DurationMs :: int
  se_ExpiresAt :: time

definition SessionStatusPending :: string where "SessionStatusPending = ''pending''"
definition SessionStatusActive :: string where "SessionStatusActive = ''active''"
definition SessionStatusCompleted :: string where "SessionStatusCompleted = ''completed''"
definition SessionStatusFailed :: string where "SessionStatusFailed = ''failed''"
definition SessionStatusCancelled :: string where "SessionStatusCancelled = ''cancelled''"
definition SessionStatusTimeout :: string where "SessionStatusTimeout = ''timeout''"

lemmas status_defs = SessionStatusPending_def SessionStatusActive_def SessionStatusCompleted_def
  SessionStatusFailed_def SessionStatusCancelled_def SessionStatusTimeout_def

record RoundProgress =
  rp_SessionID :: string
  rp_KeyID :: string
  rp_Protocol :: string
  rp_Status :: string
  rp_Threshold :: int
  rp_TotalNodes :: int
  rp_Round :: int
  rp_TotalRounds :: int
  rp_NodeIDs :: "string list"
  rp_Message :: string
  rp_Duration :: int
  rp_UpdatedAt :: time
  rp_ExpiresAt :: time

record WALRecord =
  wr_Sequence :: int
  wr_SessionID :: string
  wr_Round :: int
  wr_Payload :: "byte list"
  wr_CreatedAt :: "time option"  \<comment> \<open>\<open>None\<close>: the zero time\<close>

section \<open>Conversions\<close>

definition minutes :: "int \<Rightarrow> int" where "minutes n = n * 60000000"

definition milliseconds :: "int \<Rightarrow> int" where "milliseconds d = go_div d 1000"

definition toStorageSession :: "Session \<Rightarrow> SigningSession" where
  "toStorageSession s =
     \<lparr>ss_SessionID = se_SessionID s, ss_KeyID = se_KeyID s, ss_Protocol = se_Protocol s,
      ss_Status = se_Status s, ss_Threshold = se_Threshold s, ss_TotalNodes = se_TotalNodes s,
      ss_ParticipatingNodes = se_ParticipatingNodes s, ss_CurrentRound = se_CurrentRound s,
      ss_TotalRounds = se_TotalRounds s, ss_Signature = se_Signature s,
      ss_CreatedAt = se_CreatedAt s, ss_CompletedAt = se_CompletedAt s,
      ss_DurationMs = se_DurationMs s\<rparr>"

definition convertStorageSession :: "SigningSession \<Rightarrow> Session" where
  "convertStorageSession s =
     \<lparr>se_SessionID = ss_SessionID s, se_KeyID = ss_KeyID s, se_Protocol = ss_Protocol s,
      se_Status = ss_Status s, se_Threshold = ss_Threshold s, se_TotalNodes = ss_TotalNodes s,
      se_ParticipatingNodes = ss_ParticipatingNodes s, se_CurrentRound = ss_CurrentRound s,
      se_TotalRounds = ss_TotalRounds s, se_Signature = ss_Signature s,
      se_CreatedAt = ss_CreatedAt s, se_CompletedAt = ss_CompletedAt s,
      se_DurationMs = ss_DurationMs s, se_ExpiresAt = ss_CreatedAt s + minutes 5\<rparr>"

section \<open>Manager (manager.go)\<close>

definition sm_CreateSession ::
  "int \<Rightarrow> world \<Rightarrow> string \<Rightarrow> string \<Rightarrow> int \<Rightarrow> int \<Rightarrow> (world, Session) res" where
  "sm_CreateSession timeout w keyID protocol threshold totalNodes =
     (let (u, w) = uuid_New w;
          session = \<lparr>se_SessionID = ''session-'' @ u, se_KeyID = keyID, se_Protocol = protocol,
            se_Status = SessionStatusPending, se_Threshold = threshold, se_TotalNodes = totalNodes,
            se_ParticipatingNodes = [], se_CurrentRound = 0, se_TotalRounds = 4, se_Signature = [],
            se_CreatedAt = now w, se_CompletedAt = None, se_DurationMs = 0,
            se_ExpiresAt = now w + timeout\<rparr>
      in or_wrap (pg_SaveSigningSession w (toStorageSession session)) ''failed to save session to database''
           (\<lambda>_ w. or_wrap (rds_SaveSession w (toStorageSession session) timeout)
              ''failed to save session to cache'' (\<lambda>_ w. (Inr session, w))))"

text \<open>
  The save loop of \<open>CreateKeyGenSession\<close>: \<open>n\<close> attempts are left; a failed attempt
  that is not the last sleeps and doubles the delay.
\<close>

fun kg_save_loop :: "nat \<Rightarrow> int \<Rightarrow> SigningSession \<Rightarrow> world \<Rightarrow> (world, unit) res" where
  "kg_save_loop 0 delay s w = (Inr (), w)"
| "kg_save_loop (Suc n) delay s w =
     (case pg_SaveSigningSession w s of
        (Inr _, w) \<Rightarrow> (Inr (), w)
      | (Inl e, w) \<Rightarrow> if n = 0 then (Inl e, w) else kg_save_loop n (2 * delay) s (time_Sleep delay w))"

definition sm_CreateKeyGenSession ::
  "int \<Rightarrow> world \<Rightarrow> string \<Rightarrow> string \<Rightarrow> int \<Rightarrow> int \<Rightarrow> string list \<Rightarrow> (world, Session) res" where
  "sm_CreateKeyGenSession timeout w keyID protocol threshold totalNodes nodeIDs =
     (let protocol = (if protocol = [] then ''keygen'' else protocol);
          session = \<lparr>se_SessionID = keyID, se_KeyID = keyID, se_Protocol = protocol,
            se_Status = SessionStatusPending, se_Threshold = threshold, se_TotalNodes = totalNodes,
            se_ParticipatingNodes = nodeIDs, se_CurrentRound = 0, se_TotalRounds = 4, se_Signature = [],
            se_CreatedAt = now w, se_CompletedAt = None, se_DurationMs = 0,
            se_ExpiresAt = now w + timeout\<rparr>;
          stored = toStorageSession session
      in or_wrap (kg_save_loop 3 100000 stored w)
           ''failed to save keygen session to database after retries''
           (\<lambda>_ w. or_wrap (pg_GetSigningSession w keyID) ''session saved but verification failed''
              (\<lambda>_ w. (Inr session, snd (rds_SaveSession w stored timeout)))))"

definition sm_GetSession :: "world \<Rightarrow> string \<Rightarrow> (world, Session) res" where
  "sm_GetSession w sessionID =
     (case rds_GetSession w sessionID of
        (Inr s, w) \<Rightarrow> (Inr (convertStorageSession s), w)
      | (Inl _, w) \<Rightarrow>
          or_wrap (pg_GetSigningSession w sessionID)
            (''failed to get session '' @ sessionID @ '' from both Redis and PostgreSQL'')
            (\<lambda>s w. (Inr (convertStorageSession s), w)))"

definition sm_UpdateSession :: "world \<Rightarrow> Session \<Rightarrow> (world, unit) res" where
  "sm_UpdateSession w session =
     or_wrap (pg_UpdateSigningSession w (toStorageSession session)) ''failed to update session in database''
       (\<lambda>_ w. let remainingTTL = se_ExpiresAt session - now w
              in if remainingTTL > 0
                 then or_wrap (rds_UpdateSession w (toStorageSession session) remainingTTL)
                        ''failed to update session in cache'' (\<lambda>_ w. (Inr (), w))
                 else (Inr (), w))"

definition joinable :: "string \<Rightarrow> bool" where
  "joinable status \<longleftrightarrow> status = SessionStatusPending \<or> status = SessionStatusActive"

definition sm_JoinSession :: "world \<Rightarrow> string \<Rightarrow> string \<Rightarrow> (world, unit) res" where
  "sm_JoinSession w sessionID nodeID =
     or_wrap (sm_GetSession w sessionID) ''failed to get session''
       (\<lambda>session w.
          if \<not> joinable (se_Status session)
          then (Inl (Err (''session is not joinable: status='' @ se_Status session)), w)
          else if nodeID \<in> set (se_ParticipatingNodes session) then (Inr (), w)
          else or_wrap (sm_UpdateSession w
                 (session\<lparr>se_ParticipatingNodes := se_ParticipatingNodes session @ [nodeID],
                          se_Status := SessionStatusActive\<rparr>))
                 ''failed to update session'' (\<lambda>_ w. (Inr (), w)))"

definition complete_fields :: "string \<Rightarrow> time \<Rightarrow> Session \<Rightarrow> Session" where
  "complete_fields signature t session =
     session\<lparr>se_Status := SessionStatusCompleted, se_Signature := signature,
             se_CompletedAt := Some t, se_DurationMs := milliseconds (t - se_CreatedAt session)\<rparr>"

definition sm_CompleteSession :: "world \<Rightarrow> string \<Rightarrow> string \<Rightarrow> (world, unit) res" where
  "sm_CompleteSession w sessionID signature =
     or_wrap (sm_GetSession w sessionID) ''failed to get session''
       (\<lambda>session w. or_wrap (sm_UpdateSession w (complete_fields signature (now w) session))
          ''failed to update session'' (\<lambda>_ w. (Inr (), w)))"

definition sm_CompleteKeygenSession :: "world \<Rightarrow> string \<Rightarrow> string \<Rightarrow> (world, unit) res" where
  "sm_CompleteKeygenSession w keyID publicKey =
     or_wrap (sm_GetSession w keyID) ''failed to get keygen session''
       (\<lambda>session w.
          if \<not> joinable (se_Status session)
          then (Inl (Err (''cannot complete session in status '' @ se_Status session)), w)
          else let t = now w in
            or_wrap (sm_UpdateSession w (complete_fields publicKey t session))
              ''failed to update keygen session''
              (\<lambda>_ w. or_wrap (pg_GetKeyMetadata w keyID) ''failed to get key metadata''
                (\<lambda>keyMeta w. or_wrap (pg_UpdateKeyMetadata w
                     (keyMeta\<lparr>km_PublicKey := publicKey, km_Status := ''Active'', km_UpdatedAt := t\<rparr>))
                   ''failed to update key metadata'' (\<lambda>_ w. (Inr (), w)))))"

definition sm_CancelSession :: "world \<Rightarrow> string \<Rightarrow> (world, unit) res" where
  "sm_CancelSession w sessionID =
     or_wrap (sm_GetSession w sessionID) ''failed to get session''
       (\<lambda>session w. or_wrap (sm_UpdateSession w (session\<lparr>se_Status := SessionStatusCancelled\<rparr>))
          ''failed to update session'' (\<lambda>_ w. (Inr (), w)))"

text \<open>\<open>CheckTimeout\<close> returns a flag beside its error.\<close>

definition sm_CheckTimeout :: "world \<Rightarrow> string \<Rightarrow> (bool \<times> err option) \<times> world" where
  "sm_CheckTimeout w sessionID =
     (case sm_GetSession w sessionID of
        (Inl e, w) \<Rightarrow> ((False, Some (wrap_err ''failed to get session'' e)), w)
      | (Inr session, w) \<Rightarrow>
          if now w > se_ExpiresAt session
          then (case sm_UpdateSession w (session\<lparr>se_Status := SessionStatusTimeout\<rparr>) of
                  (Inl e, w) \<Rightarrow> ((True, Some (wrap_err ''failed to update session'' e)), w)
                | (Inr _, w) \<Rightarrow> ((True, None), w))
          else ((False, None), w))"

section \<open>State store: round progress (store.go)\<close>

definition apply_progress :: "RoundProgress \<Rightarrow> SigningSession \<Rightarrow> SigningSession" where
  "apply_progress p s =
     (let s = (if rp_Round p > 0 then s\<lparr>ss_CurrentRound := rp_Round p\<rparr> else s);
          s = (if rp_TotalRounds p > 0 then s\<lparr>ss_TotalRounds := rp_TotalRounds p\<rparr> else s);
          s = (if rp_NodeIDs p \<noteq> [] then s\<lparr>ss_ParticipatingNodes := rp_NodeIDs p\<rparr> else s);
          s = (if rp_Status p \<noteq> [] then s\<lparr>ss_Status := rp_Status p\<rparr> else s);
          s = (if rp_Duration p > 0 then s\<lparr>ss_DurationMs := milliseconds (rp_Duration p)\<rparr> else s)
      in if rp_Message p \<noteq> [] then s\<lparr>ss_Signature := rp_Message p\<rparr> else s)"

definition st_SaveRoundProgress :: "world \<Rightarrow> RoundProgress option \<Rightarrow> (world, unit) res" where
  "st_SaveRoundProgress w progress0 =
     (case progress0 of
        None \<Rightarrow> (Inl (Err ''round progress is nil''), w)
      | Some p \<Rightarrow>
          if rp_SessionID p = [] then (Inl (Err ''session id is empty''), w)
          else or_wrap (pg_GetSigningSession w (rp_SessionID p)) ''get signing session''
            (\<lambda>stored w.
               let stored = apply_progress p stored
               in or_wrap (pg_UpdateSigningSession w stored) ''update session in metadata store''
                    (\<lambda>_ w. let ttl = rp_ExpiresAt p - now w; ttl = (if ttl \<le> 0 then minutes 1 else ttl)
                           in or_wrap (rds_UpdateSession w stored ttl) ''update session cache''
                                (\<lambda>_ w. (Inr (), w)))))"

definition convertRoundProgress :: "time \<Rightarrow> SigningSession \<Rightarrow> RoundProgress" where
  "convertRoundProgress t s =
     \<lparr>rp_SessionID = ss_SessionID s, rp_KeyID = ss_KeyID s, rp_Protocol = ss_Protocol s,
      rp_Status = ss_Status s, rp_Threshold = ss_Threshold s, rp_TotalNodes = ss_TotalNodes s,
      rp_Round = ss_CurrentRound s, rp_TotalRounds = ss_TotalRounds s,
      rp_NodeIDs = ss_ParticipatingNodes s, rp_Message = ss_Signature s,
      rp_Duration = ss_DurationMs s * 1000, rp_UpdatedAt = ss_CreatedAt s + ss_DurationMs s * 1000,
      rp_ExpiresAt = t + minutes 5\<rparr>"

definition st_LoadRoundProgress :: "world \<Rightarrow> string \<Rightarrow> (world, RoundProgress) res" where
  "st_LoadRoundProgress w sessionID =
     (if sessionID = [] then (Inl (Err ''session id is empty''), w)
      else case rds_GetSession w sessionID of
          (Inr s, w) \<Rightarrow> (Inr (convertRoundProgress (now w) s), w)
        | (Inl _, w) \<Rightarrow> or_wrap (pg_GetSigningSession w sessionID) ''get session''
            (\<lambda>s w. (Inr (convertRoundProgress (now w) s), w)))"

section \<open>State store: write-ahead log\<close>

text \<open>The in-memory maps of one process; a missing key reads as the empty list or 0.\<close>

record wal_state =
  wal :: "string \<Rightarrow> WALRecord list"
  walSequences :: "string \<Rightarrow> int"

definition NewStateStore :: wal_state where
  "NewStateStore = \<lparr>wal = (\<lambda>_. []), walSequences = (\<lambda>_. 0)\<rparr>"

definition st_AppendWAL :: "time \<Rightarrow> wal_state \<Rightarrow> WALRecord option \<Rightarrow> (wal_state, WALRecord) res" where
  "st_AppendWAL t s record0 =
     (case record0 of
        None \<Rightarrow> (Inl (Err ''wal record is nil''), s)
      | Some r \<Rightarrow>
          if wr_SessionID r = [] then (Inl (Err ''wal record missing session id''), s)
          else let sid = wr_SessionID r;
                   r = r\<lparr>wr_Sequence := walSequences s sid + 1\<rparr>;
                   s = s\<lparr>walSequences := (walSequences s)(sid := wr_Sequence r)\<rparr>;
                   r = (if wr_CreatedAt r = None then r\<lparr>wr_CreatedAt := Some t\<rparr> else r)
               in (Inr r, s\<lparr>wal := (wal s)(sid := wal s sid @ [r])\<rparr>))"

definition st_ReplayWAL :: "wal_state \<Rightarrow> string \<Rightarrow> (wal_state, WALRecord list) res" where
  "st_ReplayWAL s sessionID =
     (if sessionID = [] then (Inl (Err ''session id is empty''), s)
      else (Inr (wal s sessionID),
            s\<lparr>wal := (wal s)(sessionID := []), walSequences := (walSequences s)(sessionID := 0)\<rparr>))"

end
