(* ===== verification/SessionFacts.thy ===== *)
theory SessionFacts
  imports Session
begin

text \<open>
  What the session manager guarantees: the effect of each call on the shared
  store, the agreement of cache and database, and the life of a session and of
  the key a keygen session creates.
\<close>

section \<open>Effects of the store calls\<close>

lemma pg_GetSigningSession_cases:
  assumes "pg_GetSigningSession w sid = (r, w')"
  shows "same_store w w'"
    and "\<And>s. r = Inr s \<Longrightarrow> get_sess w sid = Some s"
    and "\<And>e. r = Inl e \<Longrightarrow> quiet w \<Longrightarrow> get_sess w sid = None"
  using assms
  by (auto simp: pg_GetSigningSession_def pg_call_def Let_def or_wrap_def quiet_def
      split: option.splits prod.splits sum.splits)

lemma rds_GetSession_cases:
  assumes "rds_GetSession w sid = (r, w')"
  shows "same_store w w'"
    and "\<And>s. r = Inr s \<Longrightarrow> cached w sid = Some s"
    and "\<And>e. r = Inl e \<Longrightarrow> quiet w \<Longrightarrow> cached w sid = None"
  using assms
  by (auto simp: rds_GetSession_def rd_call_def Let_def or_wrap_def quiet_def cached_def
      split: option.splits prod.splits sum.splits rvalue.splits)

lemma pg_UpdateSigningSession_cases:
  assumes "pg_UpdateSigningSession w s = (r, w')"
  shows "r = Inr () \<Longrightarrow> same_store (set_sess s w) w'"
    and "\<And>e. r = Inl e \<Longrightarrow> quiet w \<Longrightarrow> same_store w w'"
  using assms
  by (auto simp: pg_UpdateSigningSession_def sql_update_session_def pg_call_def Let_def or_wrap_def
      quiet_def same_store_def set_sess_def split: option.splits prod.splits sum.splits if_splits)

lemma upsert_session_call:
  assumes "pg_call (sql_upsert_session s) w = (r, w')"
  shows "r = Inr () \<Longrightarrow> same_store (put_sess s w) w' \<and> sess_row_ok s \<and> get_key w (ss_KeyID s) \<noteq> None"
    and "same_store w w' \<or> same_store (put_sess s w) w'"
    and "\<And>e. r = Inl e \<Longrightarrow> quiet w \<Longrightarrow> same_store w w'"
  using assms
  by (auto simp: sql_upsert_session_def pg_call_def Let_def
      quiet_def same_store_def put_sess_def split: option.splits if_splits)

lemma same_store_put_sess: "same_store v w \<Longrightarrow> same_store (put_sess s v) (put_sess s w)"
  by (simp add: same_store_def put_sess_def)

lemma pg_SaveSigningSession_cases:
  assumes "pg_SaveSigningSession w s = (r, w')"
  shows "r = Inr () \<Longrightarrow> same_store (put_sess s w) w' \<and> sess_row_ok s \<and> get_key w (ss_KeyID s) \<noteq> None"
    and "same_store w w' \<or> same_store (put_sess s w) w'"
    and "\<And>e. r = Inl e \<Longrightarrow> quiet w \<Longrightarrow> same_store w w'"
proof -
  let ?chk = "\<lambda>w. (Inr (get_key w (ss_KeyID s) \<noteq> None), w) :: (world, bool) res"
  obtain b w1 where chk: "pg_call ?chk w = (b, w1)"
    by (cases "pg_call ?chk w")
  then have w1: "same_store w w1"
    by (auto simp: pg_call_def Let_def split: option.splits)
  obtain r2 w2 where ins: "pg_call (sql_upsert_session s) w1 = (r2, w2)"
    by (cases "pg_call (sql_upsert_session s) w1")
  note i = upsert_session_call [OF ins]
  have dec: "(r = Inr () \<and> r2 = Inr () \<and> w' = w2) \<or> (\<exists>e. r = Inl e \<and> (w' = w1 \<or> w' = w2 \<and> (\<exists>e2. r2 = Inl e2)))"
    using assms chk ins
    by (auto simp: pg_SaveSigningSession_def or_wrap_def split: sum.splits if_splits)
  note put = same_store_put_sess [OF w1, of s]
  show "same_store (put_sess s w) w' \<and> sess_row_ok s \<and> get_key w (ss_KeyID s) \<noteq> None" if "r = Inr ()"
    using dec that i(1) same_store_trans [OF put] same_store_get(1) [OF w1] by auto
  show "same_store w w' \<or> same_store (put_sess s w) w'"
    using dec w1 i(2) same_store_trans [OF put] same_store_trans [OF w1] by blast
  show "same_store w w'" if "r = Inl e" "quiet w" for e
    using dec that w1 i(3) same_store_trans [OF w1] same_store_quiet [OF w1] by auto
qed

lemma rds_SaveSession_cases:
  assumes "rds_SaveSession w s ttl = (r, w')"
  shows "r = Inr () \<Longrightarrow> same_store (redis_Set (session_key (ss_SessionID s)) (RSession s) ttl w) w'"
    and "\<And>e. r = Inl e \<Longrightarrow> quiet w \<Longrightarrow> same_store w w'"
    and "quiet w \<Longrightarrow> r = Inr ()"
    and "same_store w w' \<or> same_store (redis_Set (session_key (ss_SessionID s)) (RSession s) ttl w) w'"
  using assms
  by (auto simp: rds_SaveSession_def rd_call_def Let_def or_wrap_def rexpiry_def
      quiet_def same_store_def redis_Set_def split: option.splits prod.splits sum.splits if_splits)

lemma pg_GetKeyMetadata_cases:
  assumes "pg_GetKeyMetadata w kid = (r, w')"
  shows "same_store w w'"
    and "\<And>k. r = Inr k \<Longrightarrow> get_key w kid = Some k"
    and "\<And>e. r = Inl e \<Longrightarrow> quiet w \<Longrightarrow> get_key w kid = None"
  using assms
  by (auto simp: pg_GetKeyMetadata_def pg_call_def Let_def or_wrap_def quiet_def
      split: option.splits prod.splits sum.splits)

lemma pg_UpdateKeyMetadata_cases:
  assumes "pg_UpdateKeyMetadata w k = (r, w')"
  shows "r = Inr () \<Longrightarrow> same_store (set_key k w) w'"
    and "\<And>e. r = Inl e \<Longrightarrow> quiet w \<Longrightarrow> same_store w w'"
  using assms
  by (auto simp: pg_UpdateKeyMetadata_def sql_update_key_def pg_call_def Let_def or_wrap_def
      quiet_def same_store_def set_key_def split: option.splits prod.splits sum.splits if_splits)

lemma pg_SaveKeyMetadata_cases:
  assumes "pg_SaveKeyMetadata w k = (r, w')"
  shows "r = Inr () \<Longrightarrow> same_store (put_key k w) w'"
    and "\<And>e. r = Inl e \<Longrightarrow> quiet w \<Longrightarrow> same_store w w'"
  using assms
  by (auto simp: pg_SaveKeyMetadata_def sql_upsert_key_def pg_call_def Let_def or_wrap_def
      quiet_def same_store_def put_key_def split: option.splits prod.splits sum.splits if_splits)

section \<open>Reading and updating a session\<close>

lemma convert_toStorage [simp]: "toStorageSession (convertStorageSession s) = s"
  by (simp add: toStorageSession_def convertStorageSession_def)

lemma sm_GetSession_cases:
  assumes "sm_GetSession w sid = (r, w')"
  shows "same_store w w'"
    and "\<And>s. r = Inr s \<Longrightarrow>
           \<exists>row. (cached w sid = Some row \<or> get_sess w sid = Some row) \<and> s = convertStorageSession row"
    and "\<And>e. r = Inl e \<Longrightarrow> quiet w \<Longrightarrow> get_sess w sid = None"
proof -
  obtain r1 w1 where get: "rds_GetSession w sid = (r1, w1)"
    by (cases "rds_GetSession w sid")
  note g = rds_GetSession_cases [OF get]
  show "same_store w w'"
    using assms get g(1) pg_GetSigningSession_cases(1) [of w1 sid]
    by (auto simp: sm_GetSession_def or_wrap_def intro: same_store_trans split: sum.splits prod.splits)
  show "\<exists>row. (cached w sid = Some row \<or> get_sess w sid = Some row) \<and> s = convertStorageSession row"
    if "r = Inr s" for s
    using assms get g that pg_GetSigningSession_cases(2) [of w1 sid] same_store_get(3) [OF g(1)]
    by (fastforce simp: sm_GetSession_def or_wrap_def split: sum.splits prod.splits)
  show "get_sess w sid = None" if "r = Inl e" "quiet w" for e
    using assms get that pg_GetSigningSession_cases(3) [of w1 sid] same_store_get(3) [OF g(1)]
      same_store_quiet [OF g(1)]
    by (auto simp: sm_GetSession_def or_wrap_def split: sum.splits prod.splits)
qed

text \<open>What a successful update leaves in the shared store.\<close>

definition upd_effect :: "Session \<Rightarrow> world \<Rightarrow> world" where
  "upd_effect s w =
     (let v = set_sess (toStorageSession s) w; ttl = se_ExpiresAt s - now w
      in if ttl > 0 then redis_Set (session_key (se_SessionID s)) (RSession (toStorageSession s)) ttl v else v)"

lemma toStorage_id [simp]: "ss_SessionID (toStorageSession s) = se_SessionID s"
  by (simp add: toStorageSession_def)

lemma now_set_sess [simp]: "now (set_sess s w) = now w"
  by (simp add: set_sess_def)

lemma same_store_redis_Set:
  "same_store v w \<Longrightarrow> same_store (redis_Set k x ttl v) (redis_Set k x ttl w)"
  by (simp add: same_store_def redis_Set_def rexpiry_def)

lemma sm_UpdateSession_cases:
  assumes "sm_UpdateSession w s = (r, w')"
  shows "r = Inr () \<Longrightarrow> same_store (upd_effect s w) w'"
    and "\<And>e. r = Inl e \<Longrightarrow> quiet w \<Longrightarrow> same_store w w'"
proof -
  obtain r1 w1 where upd: "pg_UpdateSigningSession w (toStorageSession s) = (r1, w1)"
    by (cases "pg_UpdateSigningSession w (toStorageSession s)")
  obtain r2 w2 where sav: "rds_SaveSession w1 (toStorageSession s) (se_ExpiresAt s - now w1) = (r2, w2)"
    by (cases "rds_SaveSession w1 (toStorageSession s) (se_ExpiresAt s - now w1)")
  note u = pg_UpdateSigningSession_cases [OF upd] and v = rds_SaveSession_cases [OF sav]
  show "same_store (upd_effect s w) w'" if "r = Inr ()"
  proof -
    from assms upd that have r1: "r1 = Inr ()"
      by (auto simp: sm_UpdateSession_def or_wrap_def split: sum.splits)
    note same = u(1) [OF r1]
    then have "now w1 = now w"
      by (simp add: same_store_def)
    with assms upd sav r1 that same v(1) show ?thesis
      by (auto simp: sm_UpdateSession_def upd_effect_def Let_def rds_UpdateSession_def or_wrap_def
          intro: same_store_trans same_store_redis_Set split: if_splits sum.splits)
  qed
  show "same_store w w'" if "r = Inl e" "quiet w" for e
  proof (cases r1)
    case (Inl e1)
    with assms upd u(2) [OF Inl that(2)] show ?thesis
      by (simp add: sm_UpdateSession_def)
  next
    case (Inr x)
    then have "same_store (set_sess (toStorageSession s) w) w1"
      using u(1) by simp
    with that(2) have "quiet w1"
      by (simp add: same_store_def quiet_def set_sess_def)
    with assms upd sav Inr that(1) v(3) show ?thesis
      by (auto simp: sm_UpdateSession_def Let_def rds_UpdateSession_def split: if_splits)
  qed
qed

end
