(* ===== verification/SessionCoherence.thy ===== *)
theory SessionCoherence
  imports SessionFacts
begin

text \<open>
  The cache and the database tell the same story. \<open>coh\<close> says that every session
  in the cache expires within five minutes of its creation and, while it is live,
  equals the database row up to the creation time (an upsert keeps the row's own).
  Every operation of the manager keeps it when the configured timeout is at most
  five minutes, the lifetime \<open>convertStorageSession\<close> assumes.
\<close>

section \<open>The invariant\<close>

definition same_session :: "SigningSession \<Rightarrow> SigningSession \<Rightarrow> bool" where
  "same_session s row \<longleftrightarrow> s\<lparr>ss_CreatedAt := ss_CreatedAt row\<rparr> = row"

lemma same_session_refl [simp]: "same_session s s"
  by (simp add: same_session_def)

lemma same_session_conflict [simp]: "same_session s (sess_conflict s row)"
  by (simp add: same_session_def sess_conflict_def)

lemma same_session_id: "same_session s row \<Longrightarrow> ss_SessionID row = ss_SessionID s"
  unfolding same_session_def by (metis SigningSession.select_convs(1) SigningSession.surjective
      SigningSession.update_convs(11))

definition coh :: "world \<Rightarrow> bool" where
  "coh w \<longleftrightarrow> (\<forall>sid v t. rkeys w (session_key sid) = Some (v, t) \<longrightarrow>
     (\<exists>s e. v = RSession s \<and> t = Some e \<and> ss_SessionID s = sid
        \<and> e \<le> ss_CreatedAt s + minutes 5
        \<and> (now w < e \<longrightarrow> (\<exists>row. get_sess w sid = Some row \<and> same_session s row))))"

lemma coh_same_store: "same_store w v \<Longrightarrow> coh v = coh w"
  using same_store_get(3) [of w v] by (simp add: coh_def same_store_def)

lemma cohD:
  assumes "coh w" and "cached w sid = Some s"
  shows "ss_SessionID s = sid" and "now w < ss_CreatedAt s + minutes 5"
    and "\<exists>row. get_sess w sid = Some row \<and> same_session s row"
proof -
  from assms(2) obtain t where rk: "rkeys w (session_key sid) = Some (RSession s, t)"
    and live: "case t of None \<Rightarrow> True | Some e \<Rightarrow> now w < e"
    by (auto simp: cached_def rlive_def split: option.splits if_splits rvalue.splits)
  from assms(1) rk obtain e where "t = Some e" "ss_SessionID s = sid" "e \<le> ss_CreatedAt s + minutes 5"
    and "now w < e \<longrightarrow> (\<exists>row. get_sess w sid = Some row \<and> same_session s row)"
    unfolding coh_def by blast
  with live show "ss_SessionID s = sid" "now w < ss_CreatedAt s + minutes 5"
    "\<exists>row. get_sess w sid = Some row \<and> same_session s row"
    by auto
qed

text \<open>The two shapes of a write: row and cache entry, or the row alone once the entry is dead.\<close>

lemma coh_write:
  assumes "coh w" and "get_sess v (ss_SessionID s) = Some row" and "same_session s row"
    and "\<And>sid. sid \<noteq> ss_SessionID s \<Longrightarrow> get_sess v sid = get_sess w sid"
    and "rkeys v = rkeys w" and "now v = now w"
    and "0 < ttl" and "now w + ttl \<le> ss_CreatedAt s + minutes 5"
  shows "coh (redis_Set (session_key (ss_SessionID s)) (RSession s) ttl v)"
  unfolding coh_def
proof (intro allI impI)
  fix sid x t
  assume a: "rkeys (redis_Set (session_key (ss_SessionID s)) (RSession s) ttl v) (session_key sid) = Some (x, t)"
  show "\<exists>s' e. x = RSession s' \<and> t = Some e \<and> ss_SessionID s' = sid \<and> e \<le> ss_CreatedAt s' + minutes 5
      \<and> (now (redis_Set (session_key (ss_SessionID s)) (RSession s) ttl v) < e
         \<longrightarrow> (\<exists>row. get_sess (redis_Set (session_key (ss_SessionID s)) (RSession s) ttl v) sid = Some row
               \<and> same_session s' row))"
  proof (cases "sid = ss_SessionID s")
    case True
    with a assms show ?thesis
      by (auto simp: redis_Set_def rexpiry_def)
  next
    case False
    with a have "rkeys w (session_key sid) = Some (x, t)"
      by (simp add: redis_Set_def assms(5))
    with assms(1,4,6) False show ?thesis
      unfolding coh_def by (fastforce simp: redis_Set_def)
  qed
qed

lemma coh_row_only:
  assumes "coh w" and "cached w sid = None"
    and "\<And>j. j \<noteq> sid \<Longrightarrow> get_sess v j = get_sess w j"
    and "rkeys v = rkeys w" and "now v = now w"
  shows "coh v"
  unfolding coh_def
proof (intro allI impI)
  fix j x t
  assume "rkeys v (session_key j) = Some (x, t)"
  with assms(4) have rk: "rkeys w (session_key j) = Some (x, t)"
    by simp
  with assms(1) obtain s e where e: "x = RSession s" "t = Some e" "ss_SessionID s = j"
    "e \<le> ss_CreatedAt s + minutes 5"
    "now w < e \<longrightarrow> (\<exists>row. get_sess w j = Some row \<and> same_session s row)"
    unfolding coh_def by blast
  moreover have "\<not> now w < e" if "j = sid"
    using assms(2) rk e(1,2) that by (auto simp: cached_def rlive_def split: if_splits)
  ultimately show "\<exists>s e. x = RSession s \<and> t = Some e \<and> ss_SessionID s = j \<and> e \<le> ss_CreatedAt s + minutes 5
      \<and> (now v < e \<longrightarrow> (\<exists>row. get_sess v j = Some row \<and> same_session s row))"
    using assms(3) [of j] assms(5) by (cases "j = sid") auto
qed

lemma coh_time_Sleep: "coh w \<Longrightarrow> coh (time_Sleep d w)"
  unfolding coh_def time_Sleep_def
  by (clarsimp, drule spec, drule spec, drule spec, drule (1) mp) (auto simp: max_def split: if_splits)

lemma coh_uuid [simp]: "coh (w\<lparr>uuid_n := n\<rparr>) = coh w"
  by (simp add: coh_def)

section \<open>Updates of a session that was read\<close>

text \<open>A read session, changed in no more than status, nodes, signature, times and rounds.\<close>

definition edits :: "Session \<Rightarrow> Session \<Rightarrow> bool" where
  "edits s s' \<longleftrightarrow> se_SessionID s' = se_SessionID s \<and> se_KeyID s' = se_KeyID s
     \<and> se_CreatedAt s' = se_CreatedAt s \<and> se_ExpiresAt s' = se_ExpiresAt s"

lemma sm_GetSession_quiet:
  assumes "quiet w"
  shows "fst (sm_GetSession w sid) =
    (case cached w sid of
       Some s \<Rightarrow> Inr (convertStorageSession s)
     | None \<Rightarrow> (case get_sess w sid of
         Some s \<Rightarrow> Inr (convertStorageSession s)
       | None \<Rightarrow> Inl (Wrap (Err ''session not found'')
                   (''failed to get session '' @ sid @ '' from both Redis and PostgreSQL''))))"
proof -
  have "quiet (w\<lparr>rd_calls := n\<rparr>)" for n
    using assms by (simp add: quiet_def)
  then show ?thesis
    using assms
    by (auto simp: sm_GetSession_def rds_GetSession_def pg_GetSigningSession_def rd_call_quiet
        pg_call_quiet cached_def split: option.splits rvalue.splits)
qed

lemma convert_sel:
  "se_SessionID (convertStorageSession r) = ss_SessionID r"
  "se_CreatedAt (convertStorageSession r) = ss_CreatedAt r"
  "se_ExpiresAt (convertStorageSession r) = ss_CreatedAt r + minutes 5"
  by (simp_all add: convertStorageSession_def)

lemma read_row:
  assumes "coh w" and "quiet w" and "sm_GetSession w sid = (Inr s, w1)"
  shows "\<exists>row. get_sess w sid = Some row \<and> same_session (toStorageSession s) row
    \<and> se_SessionID s = sid \<and> se_ExpiresAt s = se_CreatedAt s + minutes 5
    \<and> (cached w sid \<noteq> None \<longrightarrow> now w < se_ExpiresAt s)
    \<and> (cached w sid = None \<longrightarrow> s = convertStorageSession row)"
proof -
  have "Inr s = fst (sm_GetSession w sid)"
    by (simp add: assms(3))
  then have read: "Inr s = (case cached w sid of
       Some s \<Rightarrow> Inr (convertStorageSession s)
     | None \<Rightarrow> (case get_sess w sid of
         Some s \<Rightarrow> Inr (convertStorageSession s)
       | None \<Rightarrow> Inl (Wrap (Err ''session not found'')
                   (''failed to get session '' @ sid @ '' from both Redis and PostgreSQL''))))"
    by (simp only: sm_GetSession_quiet [OF assms(2)])
  show ?thesis
  proof (cases "cached w sid")
    case (Some r)
    from read Some have "s = convertStorageSession r"
      by simp
    with cohD [OF assms(1) Some] Some show ?thesis
      by (auto simp: convert_sel)
  next
    case None
    with read obtain r where r: "get_sess w sid = Some r" "s = convertStorageSession r"
      by (auto split: option.splits)
    then have "ss_SessionID r = sid"
      by (simp add: get_sess_def tbl_get_SomeD)
    with r None show ?thesis
      by (auto simp: convert_sel)
  qed
qed

text \<open>Reading a session, changing fields and updating it: the shape of every manager operation.\<close>

lemma coh_update:
  assumes "coh w" and "quiet w" and "sm_GetSession w sid = (Inr s, w1)" and "edits s s'"
    and "sm_UpdateSession w1 s' = (r, w2)"
  shows "coh w2" and "quiet w2"
    and "r = Inr () \<Longrightarrow> get_sess w sid \<noteq> None
           \<and> get_sess w2 sid = map_option (sess_conflict (toStorageSession s')) (get_sess w sid)"
    and "\<And>j. r = Inr () \<Longrightarrow> j \<noteq> sid \<Longrightarrow> get_sess w2 j = get_sess w j"
    and "keys_t w2 = keys_t w" and "now w2 = now w"
proof -
  from assms(1-3) obtain row where row: "get_sess w sid = Some row"
    and same: "same_session (toStorageSession s) row"
    and id: "se_SessionID s = sid" and exp: "se_ExpiresAt s = se_CreatedAt s + minutes 5"
    and live: "cached w sid \<noteq> None \<longrightarrow> now w < se_ExpiresAt s"
    using read_row by blast
  note g = sm_GetSession_cases(1) [OF assms(3)]
  then have q1: "quiet w1" and coh1: "coh w1" and now1: "now w1 = now w" and k1: "keys_t w1 = keys_t w"
    using assms(1,2) same_store_quiet [OF g] coh_same_store [OF g] g by (simp_all add: same_store_def)
  note e = assms(4) [unfolded edits_def]
  note u = sm_UpdateSession_cases [OF assms(5)]
  have c1: "cached w1 j = cached w j" for j
    using g by (simp add: cached_def same_store_get(4))
  let ?row = "sess_conflict (toStorageSession s') row"
  have get1: "get_sess (set_sess (toStorageSession s') w1) sid = Some ?row"
    "\<And>j. j \<noteq> sid \<Longrightarrow> get_sess (set_sess (toStorageSession s') w1) j = get_sess w1 j"
    using row e id same_store_get(3) [OF g] by (simp_all add: get_set_sess)
  have "coh (upd_effect s' w1)"
  proof (cases "se_ExpiresAt s' - now w1 > 0")
    case True
    have "coh (redis_Set (session_key (ss_SessionID (toStorageSession s'))) (RSession (toStorageSession s'))
            (se_ExpiresAt s' - now w1) (set_sess (toStorageSession s') w1))"
      by (rule coh_write [OF coh1, where row = ?row])
         (use get1 e id exp True in \<open>simp_all add: set_sess_def toStorageSession_def get_sess_def\<close>)
    with True show ?thesis
      by (simp add: upd_effect_def Let_def)
  next
    case False
    then have "cached w1 sid = None"
      using live c1 e now1 by (metis diff_gt_0_iff_gt)
    then have "coh (set_sess (toStorageSession s') w1)"
      by (rule coh_row_only [OF coh1]) (use get1 in \<open>simp_all add: set_sess_def\<close>)
    with False show ?thesis
      by (simp add: upd_effect_def Let_def)
  qed
  moreover have "quiet (upd_effect s' w1)" "keys_t (upd_effect s' w1) = keys_t w" "now (upd_effect s' w1) = now w"
    using q1 now1 k1 by (simp_all add: upd_effect_def Let_def quiet_def set_sess_def redis_Set_def)
  moreover obtain v where "v = upd_effect s' w1 \<or> v = w1" and v: "same_store v w2"
    using u q1 by (cases r) auto
  ultimately have "coh v" "quiet v" "keys_t v = keys_t w" "now v = now w"
    using coh1 q1 now1 k1 by auto
  then show "coh w2" "quiet w2" "keys_t w2 = keys_t w" "now w2 = now w"
    using v same_store_quiet [OF v] coh_same_store [OF v] by (simp_all add: same_store_def)
  assume ok: "r = Inr ()"
  have get2: "get_sess w2 j = get_sess (set_sess (toStorageSession s') w1) j" for j
    using same_store_get(3) [OF u(1) [OF ok]] by (simp add: upd_effect_def Let_def)
  show "get_sess w sid \<noteq> None
      \<and> get_sess w2 sid = map_option (sess_conflict (toStorageSession s')) (get_sess w sid)"
    using row get1(1) get2 by simp
  show "get_sess w2 j = get_sess w j" if "j \<noteq> sid" for j
    using that get1(2) get2 same_store_get(3) [OF g] by simp
qed

section \<open>Creating a session\<close>

lemma pg_SaveSigningSession_quiet:
  assumes "quiet w"
  shows "fst (pg_SaveSigningSession w s) = Inr () \<longleftrightarrow> sess_row_ok s \<and> get_key w (ss_KeyID s) \<noteq> None"
proof -
  have "quiet (w\<lparr>pg_calls := n\<rparr>)" for n
    using assms by (simp add: quiet_def)
  then show ?thesis
    using assms by (auto simp: pg_SaveSigningSession_def pg_call_quiet sql_upsert_session_def)
qed

text \<open>In a world without failures, repeating a rejected insert does not help.\<close>

lemma kg_save_loop_quiet:
  assumes "quiet w" and "kg_save_loop n d s w = (Inr (), w')" and "n \<noteq> 0"
  shows "pg_SaveSigningSession w s = (Inr (), w')"
  using assms
proof (induction n arbitrary: d w)
  case 0
  then show ?case by simp
next
  case (Suc n)
  obtain r w1 where sav: "pg_SaveSigningSession w s = (r, w1)"
    by (cases "pg_SaveSigningSession w s")
  show ?case
  proof (cases r)
    case (Inr x)
    with sav Suc.prems show ?thesis by simp
  next
    case (Inl e)
    note same = pg_SaveSigningSession_cases(3) [OF sav Inl Suc.prems(1)]
    let ?v = "time_Sleep d w1"
    have q: "quiet ?v" and k: "get_key ?v kid = get_key w kid" for kid
      using same_store_quiet [OF same] same_store_get(1) [OF same] Suc.prems(1)
      by (simp_all add: time_Sleep_def quiet_def)
    from Suc.prems(2) sav Inl have "n \<noteq> 0" and loop: "kg_save_loop n (2 * d) s ?v = (Inr (), w')"
      by (simp_all split: if_splits)
    from Suc.IH [OF q loop \<open>n \<noteq> 0\<close>] have "fst (pg_SaveSigningSession ?v s) = Inr ()"
      by simp
    then have "fst (pg_SaveSigningSession w s) = Inr ()"
      using pg_SaveSigningSession_quiet [OF q] pg_SaveSigningSession_quiet [OF Suc.prems(1)] k by simp
    with sav Inl show ?thesis by simp
  qed
qed

lemma kg_save_loop_quiet_fail:
  assumes "quiet w" and "coh w" and "kg_save_loop n d s w = (Inl e, w')"
  shows "coh w'" and "quiet w'"
  using assms
proof (induction n arbitrary: d w)
  case 0
  { case 1 with 0 show ?case by simp }
  { case 2 with 0 show ?case by simp }
next
  case (Suc n)
  have aux: "coh w' \<and> quiet w'"
    if prems: "quiet w" "coh w" "kg_save_loop (Suc n) d s w = (Inl e, w')" for w d
  proof -
    obtain r w1 where sav: "pg_SaveSigningSession w s = (r, w1)"
      by (cases "pg_SaveSigningSession w s")
    with prems obtain e1 where r: "r = Inl e1"
      by (cases r) auto
    note same = pg_SaveSigningSession_cases(3) [OF sav r prems(1)]
    then have 1: "coh w1" "quiet w1"
      using same_store_quiet [OF same] coh_same_store [OF same] prems by simp_all
    then have "coh (time_Sleep d w1)" "quiet (time_Sleep d w1)"
      using coh_time_Sleep [of w1 d] by (auto simp: quiet_def time_Sleep_def)
    with 1 prems(3) sav r Suc.IH [of "time_Sleep d w1" "2 * d"] show ?thesis
      by (auto split: if_splits)
  qed
  { case 1 then show ?case using aux by blast }
  { case 2 then show ?case using aux by blast }
qed

lemma coh_create:
  assumes "coh w" and "quiet w" and "pg_SaveSigningSession w s = (Inr (), w1)"
    and "same_store w1 w2" and "rds_SaveSession w2 s timeout = (r, w3)"
    and "0 < timeout" and "timeout \<le> minutes 5" and "ss_CreatedAt s = now w"
  shows "coh w3" and "quiet w3"
proof -
  have put: "same_store (put_sess s w) w1"
    using pg_SaveSigningSession_cases(1) [OF assms(3)] by simp
  note put2 = same_store_trans [OF put assms(4)]
  have q2: "quiet w2"
    using same_store_quiet [OF put2] assms(2) by (simp add: quiet_def put_sess_def)
  have "r = Inr ()"
    using rds_SaveSession_cases(3) [OF assms(5) q2] .
  note cache = rds_SaveSession_cases(1) [OF assms(5) this]
  let ?row = "case get_sess w (ss_SessionID s) of None \<Rightarrow> s | Some old \<Rightarrow> sess_conflict s old"
  have "coh (redis_Set (session_key (ss_SessionID s)) (RSession s) timeout w2)"
  proof (rule coh_write [OF assms(1), where row = ?row])
    show "get_sess w2 (ss_SessionID s) = Some ?row"
      using same_store_get(3) [OF put2] by (simp add: get_put_sess)
    show "same_session s ?row"
      by (simp split: option.split)
    show "get_sess w2 sid = get_sess w sid" if "sid \<noteq> ss_SessionID s" for sid
      using that same_store_get(3) [OF put2] by (simp add: get_put_sess)
    show "rkeys w2 = rkeys w" "now w2 = now w"
      using put2 by (simp_all add: same_store_def put_sess_def)
  qed (use assms in simp_all)
  moreover have "quiet (redis_Set (session_key (ss_SessionID s)) (RSession s) timeout w2)"
    using q2 by (simp add: quiet_def redis_Set_def)
  ultimately show "coh w3" "quiet w3"
    using coh_same_store [OF cache] same_store_quiet [OF cache] by simp_all
qed

lemma quiet_uuid [simp]: "quiet (w\<lparr>uuid_n := n\<rparr>) = quiet w"
  by (simp add: quiet_def)

lemma coh_sm_CreateSession:
  assumes "coh w" and "quiet w" and "0 < timeout" and "timeout \<le> minutes 5"
  shows "coh (snd (sm_CreateSession timeout w kid p t n)) \<and> quiet (snd (sm_CreateSession timeout w kid p t n))"
proof -
  let ?v = "w\<lparr>uuid_n := Suc (uuid_n w)\<rparr>"
  define s where "s = toStorageSession \<lparr>se_SessionID = ''session-'' @ uuid_src w (uuid_n w), se_KeyID = kid,
     se_Protocol = p, se_Status = SessionStatusPending, se_Threshold = t, se_TotalNodes = n,
     se_ParticipatingNodes = [], se_CurrentRound = 0, se_TotalRounds = 4, se_Signature = [],
     se_CreatedAt = now ?v, se_CompletedAt = None, se_DurationMs = 0, se_ExpiresAt = now ?v + timeout\<rparr>"
  have created: "ss_CreatedAt s = now ?v"
    by (simp add: s_def toStorageSession_def)
  have v: "coh ?v" "quiet ?v"
    using assms by simp_all
  obtain r w1 where sav: "pg_SaveSigningSession ?v s = (r, w1)"
    by (cases "pg_SaveSigningSession ?v s")
  obtain r2 w2 where red: "rds_SaveSession w1 s timeout = (r2, w2)"
    by (cases "rds_SaveSession w1 s timeout")
  have final: "snd (sm_CreateSession timeout w kid p t n) = (if r = Inr () then w2 else w1)"
    using sav red
    by (cases r; cases r2) (simp_all add: sm_CreateSession_def uuid_New_def Let_def s_def)
  show ?thesis
  proof (cases r)
    case (Inl e)
    note same = pg_SaveSigningSession_cases(3) [OF sav Inl v(2)]
    with final Inl v coh_same_store [OF same] same_store_quiet [OF same] show ?thesis
      by simp
  next
    case (Inr x)
    with final coh_create [OF v _ same_store_refl red assms(3,4) created] sav show ?thesis
      by simp
  qed
qed

lemma coh_sm_CreateKeyGenSession:
  assumes "coh w" and "quiet w" and "0 < timeout" and "timeout \<le> minutes 5"
  shows "coh (snd (sm_CreateKeyGenSession timeout w kid p t n ns))
       \<and> quiet (snd (sm_CreateKeyGenSession timeout w kid p t n ns))"
proof -
  define s where "s = toStorageSession \<lparr>se_SessionID = kid, se_KeyID = kid,
     se_Protocol = (if p = [] then ''keygen'' else p), se_Status = SessionStatusPending,
     se_Threshold = t, se_TotalNodes = n, se_ParticipatingNodes = ns, se_CurrentRound = 0,
     se_TotalRounds = 4, se_Signature = [], se_CreatedAt = now w, se_CompletedAt = None,
     se_DurationMs = 0, se_ExpiresAt = now w + timeout\<rparr>"
  have created: "ss_CreatedAt s = now w" and sid: "ss_SessionID s = kid"
    by (simp_all add: s_def toStorageSession_def)
  obtain r w1 where loop: "kg_save_loop 3 100000 s w = (r, w1)"
    by (cases "kg_save_loop 3 100000 s w")
  obtain r2 w2 where ver: "pg_GetSigningSession w1 kid = (r2, w2)"
    by (cases "pg_GetSigningSession w1 kid")
  obtain r3 w3 where red: "rds_SaveSession w2 s timeout = (r3, w3)"
    by (cases "rds_SaveSession w2 s timeout")
  have final: "snd (sm_CreateKeyGenSession timeout w kid p t n ns) =
      (if r = Inr () then if isl r2 then w2 else w3 else w1)"
    using loop ver red
    by (cases r; cases r2) (simp_all add: sm_CreateKeyGenSession_def Let_def s_def)
  note same = pg_GetSigningSession_cases [OF ver]
  show ?thesis
  proof (cases r)
    case (Inl e)
    with loop final kg_save_loop_quiet_fail [OF assms(2,1)] show ?thesis
      by simp
  next
    case (Inr x)
    with loop have "kg_save_loop 3 100000 s w = (Inr (), w1)"
      by simp
    then have sav: "pg_SaveSigningSession w s = (Inr (), w1)"
      using kg_save_loop_quiet [OF assms(2)] by simp
    then have put: "same_store (put_sess s w) w1"
      using pg_SaveSigningSession_cases(1) by blast
    then have "quiet w1"
      using assms(2) same_store_quiet [OF put] by (simp add: quiet_def put_sess_def)
    moreover have "get_sess w1 kid \<noteq> None"
      using same_store_get(3) [OF put] sid by (simp add: get_put_sess)
    ultimately have "\<not> isl r2"
      using same(3) by (cases r2) auto
    with final Inr coh_create [OF assms(1,2) sav same(1) red assms(3,4) created] show ?thesis
      by simp
  qed
qed

section \<open>Every operation of the manager\<close>

lemma coh_read: "coh w \<Longrightarrow> quiet w \<Longrightarrow> same_store w v \<Longrightarrow> coh v \<and> quiet v"
  by (simp add: coh_same_store same_store_quiet)

definition coh_quiet :: "world \<Rightarrow> bool" where
  "coh_quiet w \<longleftrightarrow> coh w \<and> quiet w"

lemma coh_read_edit:
  assumes "coh_quiet w" and "\<And>s v. edits s (f s v)"
  shows "coh_quiet (snd (or_wrap (sm_GetSession w sid) m1
           (\<lambda>s w1. if g s then (Inl (h s), w1) else if g2 s then (Inr (), w1)
                   else or_wrap (sm_UpdateSession w1 (f s w1)) m2 (\<lambda>_ w. (Inr (), w)))))"
proof -
  have w: "coh w" "quiet w"
    using assms(1) by (simp_all add: coh_quiet_def)
  obtain r w1 where get: "sm_GetSession w sid = (r, w1)"
    by (cases "sm_GetSession w sid")
  note read = coh_read [OF w sm_GetSession_cases(1) [OF get]]
  show ?thesis
  proof (cases r)
    case (Inl e)
    with get read show ?thesis by (simp add: coh_quiet_def)
  next
    case (Inr s)
    obtain r2 w2 where upd: "sm_UpdateSession w1 (f s w1) = (r2, w2)"
      by (cases "sm_UpdateSession w1 (f s w1)")
    note u = coh_update [OF w get [unfolded Inr] assms(2) upd]
    have "snd (or_wrap (r2, w2) m2 (\<lambda>_ w. (Inr (), w))) = w2"
      by (cases r2) simp_all
    with get Inr read upd u(1,2) show ?thesis
      by (simp add: coh_quiet_def)
  qed
qed

lemma edits_status [simp]: "edits s (s\<lparr>se_Status := x\<rparr>)"
  by (simp add: edits_def)

lemma edits_join [simp]: "edits s (s\<lparr>se_Status := x, se_ParticipatingNodes := ns\<rparr>)"
  by (simp add: edits_def)

lemma edits_complete [simp]: "edits s (complete_fields sig t s)"
  by (simp add: edits_def complete_fields_def)

lemma coh_sm_JoinSession: "coh_quiet w \<Longrightarrow> coh_quiet (snd (sm_JoinSession w sid nid))"
  unfolding sm_JoinSession_def by (rule coh_read_edit) (simp_all add: edits_def)

lemma coh_sm_CancelSession: "coh_quiet w \<Longrightarrow> coh_quiet (snd (sm_CancelSession w sid))"
  unfolding sm_CancelSession_def
  using coh_read_edit [where ?g = "\<lambda>s. False" and ?g2.0 = "\<lambda>s. False" and ?w = w
      and ?f = "\<lambda>s v. s\<lparr>se_Status := SessionStatusCancelled\<rparr>"]
  by simp

lemma coh_sm_CompleteSession: "coh_quiet w \<Longrightarrow> coh_quiet (snd (sm_CompleteSession w sid sig))"
  unfolding sm_CompleteSession_def
  using coh_read_edit [where ?g = "\<lambda>s. False" and ?g2.0 = "\<lambda>s. False" and ?w = w
      and ?f = "\<lambda>s v. complete_fields sig (now v) s"]
  by simp

lemma coh_sm_CheckTimeout:
  assumes "coh_quiet w"
  shows "coh_quiet (snd (sm_CheckTimeout w sid))"
proof -
  have w: "coh w" "quiet w"
    using assms by (simp_all add: coh_quiet_def)
  obtain r w1 where get: "sm_GetSession w sid = (r, w1)"
    by (cases "sm_GetSession w sid")
  note read = coh_read [OF w sm_GetSession_cases(1) [OF get]]
  show ?thesis
  proof (cases r)
    case (Inl e)
    with get read show ?thesis by (simp add: sm_CheckTimeout_def coh_quiet_def)
  next
    case (Inr s)
    obtain r2 w2 where upd: "sm_UpdateSession w1 (s\<lparr>se_Status := SessionStatusTimeout\<rparr>) = (r2, w2)"
      by (cases "sm_UpdateSession w1 (s\<lparr>se_Status := SessionStatusTimeout\<rparr>)")
    note u = coh_update [OF w get [unfolded Inr] edits_status upd]
    from get Inr read upd u(1,2) show ?thesis
      by (cases r2) (simp_all add: sm_CheckTimeout_def coh_quiet_def)
  qed
qed

lemma coh_keys: 
  assumes "coh_quiet w" and "sess_t v = sess_t w" "rkeys v = rkeys w" "now v = now w"
    "pg_fault v = pg_fault w" "rd_fault v = rd_fault w"
  shows "coh_quiet v"
  using assms by (simp add: coh_quiet_def coh_def quiet_def get_sess_def)

lemma coh_key_update:
  assumes "coh_quiet w"
  shows "coh_quiet (snd (pg_UpdateKeyMetadata w k))" and "coh_quiet (snd (pg_GetKeyMetadata w kid))"
proof -
  obtain r v where upd: "pg_UpdateKeyMetadata w k = (r, v)"
    by (cases "pg_UpdateKeyMetadata w k")
  have "same_store (set_key k w) v \<or> same_store w v"
    using pg_UpdateKeyMetadata_cases [OF upd] assms by (cases r) (auto simp: coh_quiet_def)
  then have "sess_t v = sess_t w" "rkeys v = rkeys w" "now v = now w"
    "pg_fault v = pg_fault w" "rd_fault v = rd_fault w"
    by (auto simp: same_store_def set_key_def)
  from coh_keys [OF assms this] upd show "coh_quiet (snd (pg_UpdateKeyMetadata w k))"
    by simp
  obtain r v where get: "pg_GetKeyMetadata w kid = (r, v)"
    by (cases "pg_GetKeyMetadata w kid")
  from coh_read [OF _ _ pg_GetKeyMetadata_cases(1) [OF get]] assms get
  show "coh_quiet (snd (pg_GetKeyMetadata w kid))"
    by (simp add: coh_quiet_def)
qed

lemma coh_sm_CompleteKeygenSession:
  assumes "coh_quiet w"
  shows "coh_quiet (snd (sm_CompleteKeygenSession w kid pk))"
proof -
  have w: "coh w" "quiet w"
    using assms by (simp_all add: coh_quiet_def)
  obtain r w1 where get: "sm_GetSession w kid = (r, w1)"
    by (cases "sm_GetSession w kid")
  note read = coh_read [OF w sm_GetSession_cases(1) [OF get]]
  show ?thesis
  proof (cases r)
    case (Inl e)
    with get read show ?thesis by (simp add: sm_CompleteKeygenSession_def coh_quiet_def)
  next
    case (Inr s)
    obtain r2 w2 where upd: "sm_UpdateSession w1 (complete_fields pk (now w1) s) = (r2, w2)"
      by (cases "sm_UpdateSession w1 (complete_fields pk (now w1) s)")
    note u = coh_update [OF w get [unfolded Inr] edits_complete upd]
    then have w2: "coh_quiet w2"
      by (simp add: coh_quiet_def)
    have "coh_quiet (snd (or_wrap (pg_GetKeyMetadata w2 kid) m1
        (\<lambda>k w. or_wrap (pg_UpdateKeyMetadata w (f k)) m2 (\<lambda>_ w. (Inr (), w)))))" for m1 m2 f
      by (rule snd_or_wrapI [where P = coh_quiet], simp add: coh_key_update w2,
          rule snd_or_wrapI [where P = coh_quiet]) (simp_all add: coh_key_update)
    with get Inr read upd w2 show ?thesis
      by (cases r2) (simp_all add: sm_CompleteKeygenSession_def Let_def coh_quiet_def)
  qed
qed

section \<open>Runs of the manager\<close>

text \<open>
  One step is one call of a manager operation by any node, or time passing. The
  configured timeout is the first argument.
\<close>

inductive sm_step :: "int \<Rightarrow> world \<Rightarrow> world \<Rightarrow> bool" where
  "sm_step timeout w (snd (sm_CreateSession timeout w kid p t n))"
| "sm_step timeout w (snd (sm_CreateKeyGenSession timeout w kid p t n ns))"
| "sm_step timeout w (snd (sm_GetSession w sid))"
| "sm_step timeout w (snd (sm_JoinSession w sid nid))"
| "sm_step timeout w (snd (sm_CompleteSession w sid sig))"
| "sm_step timeout w (snd (sm_CompleteKeygenSession w sid pk))"
| "sm_step timeout w (snd (sm_CancelSession w sid))"
| "sm_step timeout w (snd (sm_CheckTimeout w sid))"
| "sm_step timeout w (time_Sleep d w)"

inductive sm_run :: "int \<Rightarrow> world \<Rightarrow> world \<Rightarrow> bool" where
  refl: "sm_run timeout w w"
| step: "sm_run timeout w v \<Longrightarrow> sm_step timeout v u \<Longrightarrow> sm_run timeout w u"

lemma coh_sm_GetSession: "coh_quiet w \<Longrightarrow> coh_quiet (snd (sm_GetSession w sid))"
  using coh_read [OF _ _ sm_GetSession_cases(1) [OF prod.collapse [symmetric]]]
  by (simp add: coh_quiet_def)

lemma coh_time: "coh_quiet w \<Longrightarrow> coh_quiet (time_Sleep d w)"
  using coh_time_Sleep [of w d] by (simp add: coh_quiet_def quiet_def time_Sleep_def)

lemma coh_quiet_create:
  assumes "0 < timeout" and "timeout \<le> minutes 5" and "coh_quiet w"
  shows "coh_quiet (snd (sm_CreateSession timeout w kid p t n))"
    and "coh_quiet (snd (sm_CreateKeyGenSession timeout w kid p t n ns))"
  using assms coh_sm_CreateSession coh_sm_CreateKeyGenSession by (simp_all add: coh_quiet_def)

lemma sm_step_coh:
  "sm_step timeout w v \<Longrightarrow> 0 < timeout \<Longrightarrow> timeout \<le> minutes 5 \<Longrightarrow> coh_quiet w \<Longrightarrow> coh_quiet v"
  by (induction rule: sm_step.induct)
     (simp_all add: coh_sm_GetSession coh_sm_JoinSession coh_sm_CompleteSession coh_sm_CancelSession
        coh_sm_CompleteKeygenSession coh_sm_CheckTimeout coh_time coh_quiet_create)

lemma sm_run_coh:
  "sm_run timeout w v \<Longrightarrow> 0 < timeout \<Longrightarrow> timeout \<le> minutes 5 \<Longrightarrow> coh_quiet w \<Longrightarrow> coh_quiet v"
  by (induction rule: sm_run.induct) (auto intro: sm_step_coh)

end
