(* ===== verification/SessionProps.thy ===== *)
theory SessionProps
  imports SessionCoherence
begin

text \<open>
  The properties of \<open>internal/mpc/session\<close>: agreement of cache and database over
  every run, what joining and completing do and refuse, what creation retries,
  and the write-ahead log as a refinement of one abstract log.
\<close>

section \<open>Reads and updates in a world without failures\<close>

lemma same_session_sel:
  assumes "same_session (toStorageSession s) row"
  shows "se_Status s = ss_Status row" "se_ParticipatingNodes s = ss_ParticipatingNodes row"
    "se_KeyID s = ss_KeyID row" "se_SessionID s = ss_SessionID row" "se_Signature s = ss_Signature row"
    "sess_conflict (toStorageSession s) row = row"
    "sess_row_ok (toStorageSession s) = sess_row_ok row"
  using assms
  by (cases row; auto simp: same_session_def toStorageSession_def sess_conflict_def sess_row_ok_def)+

lemma read_present:
  assumes "coh w" and "quiet w" and "get_sess w sid = Some row"
  shows "\<exists>s w1. sm_GetSession w sid = (Inr s, w1) \<and> same_store w w1
           \<and> same_session (toStorageSession s) row \<and> se_SessionID s = sid"
proof (cases "sm_GetSession w sid")
  case (Pair r w1)
  note g = sm_GetSession_cases [OF Pair]
  from g(3) assms(2,3) obtain s where r: "r = Inr s"
    by (cases r) auto
  with read_row [OF assms(1,2) Pair [unfolded r]] assms(3) g(1) Pair show ?thesis
    by auto
qed

lemma read_absent:
  assumes "coh w" and "quiet w" and "get_sess w sid = None"
  shows "isl (fst (sm_GetSession w sid))"
proof (cases "sm_GetSession w sid")
  case (Pair r w1)
  with read_row [OF assms(1,2)] assms(3) show ?thesis
    by (cases r) fastforce+
qed

lemma sm_UpdateSession_quiet:
  assumes "quiet w"
  shows "fst (sm_UpdateSession w s) = Inr () \<longleftrightarrow>
    sess_row_ok (toStorageSession s) \<and>
    (get_sess w (se_SessionID s) \<noteq> None \<longrightarrow> get_key w (se_KeyID s) \<noteq> None)"
proof -
  have key: "ss_KeyID (toStorageSession s) = se_KeyID s"
    by (simp add: toStorageSession_def)
  have q: "quiet (w\<lparr>pg_calls := n\<rparr>)" "quiet (set_sess r (w\<lparr>pg_calls := n\<rparr>))" for n r
    using assms by (simp_all add: quiet_def set_sess_def)
  have save: "rds_UpdateSession (set_sess r (w\<lparr>pg_calls := n\<rparr>)) x t = (Inr (),
      redis_Set (session_key (ss_SessionID x)) (RSession x) t
        (set_sess r (w\<lparr>pg_calls := n\<rparr>)\<lparr>rd_calls := Suc (rd_calls w)\<rparr>))" for r n x t
    by (simp add: rds_UpdateSession_def rds_SaveSession_def rd_call_quiet q) (simp add: set_sess_def)
  show ?thesis
    by (auto simp: sm_UpdateSession_def pg_UpdateSigningSession_def sql_update_session_def
        pg_call_quiet assms key Let_def fk_error_def save)
qed

section \<open>Cache and database\<close>


definition empty_world :: world where
  "empty_world = \<lparr>keys_t = [], nodes_t = [], sess_t = [], rkeys = (\<lambda>_. None), now = 0,
     pg_fault = (\<lambda>_. None), pg_calls = 0, rd_fault = (\<lambda>_. None), rd_calls = 0,
     uuid_src = (\<lambda>n. nat_digits n), uuid_n = 0\<rparr>"

definition sample_key :: KeyMetadata where
  "sample_key = \<lparr>km_KeyID = ''key-1'', km_PublicKey = [], km_Algorithm = ''ECDSA'',
     km_Curve = ''secp256k1'', km_Threshold = 2, km_TotalNodes = 3, km_ChainType = [],
     km_Address = [], km_Status = ''Pending'', km_Description = [], km_Tags = [], km_CreatedAt = 0,
     km_UpdatedAt = 0, km_DeletionDate = None\<rparr>"

definition sample_world :: world where
  "sample_world = empty_world\<lparr>keys_t := [sample_key]\<rparr>"

lemma sample_world_ok: "coh sample_world" "quiet sample_world" "db_inv sample_world"
  by (simp_all add: sample_world_def empty_world_def coh_def quiet_def db_inv_def tbl_ok_def
      sample_key_def key_row_ok_def int4_ok_def)


section \<open>A timeout above five minutes\<close>

lemma cached_same: "same_store w v \<Longrightarrow> cached v sid = cached w sid"
  by (simp add: cached_def same_store_get(4))

text \<open>The session \<open>CreateSession\<close> builds, and its effect when nothing fails.\<close>

definition new_session :: "int \<Rightarrow> world \<Rightarrow> string \<Rightarrow> string \<Rightarrow> int \<Rightarrow> int \<Rightarrow> Session" where
  "new_session timeout w kid p t n =
     \<lparr>se_SessionID = ''session-'' @ uuid_src w (uuid_n w), se_KeyID = kid, se_Protocol = p,
      se_Status = SessionStatusPending, se_Threshold = t, se_TotalNodes = n,
      se_ParticipatingNodes = [], se_CurrentRound = 0, se_TotalRounds = 4, se_Signature = [],
      se_CreatedAt = now w, se_CompletedAt = None, se_DurationMs = 0, se_ExpiresAt = now w + timeout\<rparr>"

lemma create_session_effect:
  fixes timeout :: int and p :: string
  assumes "quiet w" and "get_key w kid \<noteq> None" and "int4_ok t" and "int4_ok n"
  defines "s \<equiv> new_session timeout w kid p t n"
  shows "\<exists>w1. sm_CreateSession timeout w kid p t n = (Inr s, w1) \<and>
    same_store (redis_Set (session_key (se_SessionID s)) (RSession (toStorageSession s)) timeout
                 (put_sess (toStorageSession s) (w\<lparr>uuid_n := Suc (uuid_n w)\<rparr>))) w1"
proof -
  let ?v = "w\<lparr>uuid_n := Suc (uuid_n w)\<rparr>" and ?s = "toStorageSession s"
  have ok: "sess_row_ok ?s" "get_key ?v (ss_KeyID ?s) \<noteq> None" "quiet ?v"
    using assms by (simp_all add: sess_row_ok_def new_session_def toStorageSession_def int4_ok_def)
  obtain r w1 where sav: "pg_SaveSigningSession ?v ?s = (r, w1)"
    by (cases "pg_SaveSigningSession ?v ?s")
  with ok pg_SaveSigningSession_quiet [OF ok(3), of ?s] have r: "r = Inr ()"
    by simp
  note put = pg_SaveSigningSession_cases(1) [OF sav r, THEN conjunct1]
  have q1: "quiet w1"
    using same_store_quiet [OF put] assms(1) by (simp add: quiet_def put_sess_def)
  obtain r2 w2 where red: "rds_SaveSession w1 ?s timeout = (r2, w2)"
    by (cases "rds_SaveSession w1 ?s timeout")
  note c = rds_SaveSession_cases [OF red]
  have r2: "r2 = Inr ()"
    using c(3) q1 by blast
  have "sm_CreateSession timeout w kid p t n = (Inr s, w2)"
    using sav red r r2
    by (simp add: sm_CreateSession_def uuid_New_def Let_def s_def new_session_def)
  moreover have "same_store (redis_Set (session_key (ss_SessionID ?s)) (RSession ?s) timeout (put_sess ?s ?v)) w2"
    using c(1) [OF r2] same_store_redis_Set [OF put] by (blast intro: same_store_trans)
  ultimately show ?thesis
    by auto
qed

text \<open>
  With a configured timeout above five minutes the cache goes stale. A
  session completed after its five minutes, but within the timeout, is completed
  in the database, and reading it still gives the pending session out of the
  cache: \<open>convertStorageSession\<close> gives every session five minutes whatever the
  timeout, so \<open>UpdateSession\<close> finds no time left and skips the cache.
\<close>

theorem long_timeout_serves_stale_session:
  assumes "quiet w" and "get_key w kid \<noteq> None" and "int4_ok t" and "int4_ok n"
    and "minutes 5 \<le> d" and "d < timeout" and "d < 2147483648000"
    and "get_sess w (''session-'' @ uuid_src w (uuid_n w)) = None"
  shows "\<exists>s w1 w2. sm_CreateSession timeout w kid p t n = (Inr s, w1)
    \<and> sm_CompleteSession (time_Sleep d w1) (se_SessionID s) sig = (Inr (), w2)
    \<and> map_option ss_Status (get_sess w2 (se_SessionID s)) = Some SessionStatusCompleted
    \<and> map_sum id se_Status (fst (sm_GetSession w2 (se_SessionID s))) = Inr SessionStatusPending"
proof -
  define s where "s = new_session timeout w kid p t n"
  let ?sid = "se_SessionID s" and ?s = "toStorageSession s"
  from create_session_effect [OF assms(1-4)] obtain w1
    where create: "sm_CreateSession timeout w kid p t n = (Inr s, w1)"
    and same1: "same_store (redis_Set (session_key ?sid) (RSession ?s) timeout
                 (put_sess ?s (w\<lparr>uuid_n := Suc (uuid_n w)\<rparr>))) w1"
    unfolding s_def by blast
  define v where "v = time_Sleep d w1"
  have pos: "0 < d" "0 < timeout"
    using assms(5,6) by (simp_all add: minutes_def)
  have q: "quiet v"
    using same1 assms(1) by (simp add: v_def time_Sleep_def same_store_def quiet_def redis_Set_def put_sess_def)
  have now: "now v = se_CreatedAt s + d"
    using same1 pos by (simp add: v_def time_Sleep_def same_store_def redis_Set_def put_sess_def s_def new_session_def)
  have cache: "cached v ?sid = Some ?s"
    using same1 pos assms(6) 
    by (simp add: v_def time_Sleep_def same_store_def redis_Set_def put_sess_def cached_def rlive_def rexpiry_def)
  have row: "get_sess v ?sid = Some ?s"
    using assms(8) same_store_get(3) [OF same1]
    by (simp add: v_def time_Sleep_def get_put_sess s_def new_session_def)
  have key: "get_key v kid \<noteq> None"
    using assms(2) same_store_get(1) [OF same1] by (simp add: v_def time_Sleep_def)
  let ?c = "convertStorageSession ?s"
  let ?d = "complete_fields sig (now v) ?c"
  obtain r v1 where get: "sm_GetSession v ?sid = (r, v1)"
    by (cases "sm_GetSession v ?sid")
  have r: "r = Inr ?c"
    using sm_GetSession_quiet [OF q, of ?sid] cache get by simp
  note same2 = sm_GetSession_cases(1) [OF get]
  have q1: "quiet v1"
    using same_store_quiet [OF same2] q by simp
  have ms: "se_CreatedAt ?c = se_CreatedAt s" "milliseconds d = d div 1000" "d div 1000 < 2147483648"
    using pos assms(7) by (simp_all add: convert_sel toStorageSession_def milliseconds_def go_div_nonneg)
  have ok: "sess_row_ok (toStorageSession ?d)"
    using assms(3,4) ms now pos
    by (simp add: sess_row_ok_def complete_fields_def toStorageSession_def convertStorageSession_def
        s_def new_session_def int4_ok_def)
  have dfields: "se_SessionID ?d = ?sid" "se_KeyID ?d = kid" "se_ExpiresAt ?d = se_CreatedAt s + minutes 5"
    "se_Status ?d = SessionStatusCompleted"
    by (simp_all add: complete_fields_def convertStorageSession_def toStorageSession_def s_def new_session_def)
  obtain r2 v2 where upd: "sm_UpdateSession v1 ?d = (r2, v2)"
    by (cases "sm_UpdateSession v1 ?d")
  have r2: "r2 = Inr ()"
    using sm_UpdateSession_quiet [OF q1, of ?d] ok key upd dfields same_store_get(1) [OF same2] by simp
  have now1: "now v1 = now v"
    using same2 by (simp add: same_store_def)
  have same3: "same_store (set_sess (toStorageSession ?d) v1) v2"
    using sm_UpdateSession_cases(1) [OF upd r2] dfields assms(5) now now1
    by (simp add: upd_effect_def Let_def)
  have comp: "sm_CompleteSession v ?sid sig = (Inr (), v2)"
    using get r upd r2 now1 by (simp add: sm_CompleteSession_def)
  have "ss_Status (toStorageSession ?d) = SessionStatusCompleted"
    using dfields by (simp add: toStorageSession_def)
  then have "map_option ss_Status (get_sess v2 ?sid) = Some SessionStatusCompleted"
    using same_store_get(3) [OF same3] same_store_get(3) [OF same2] row dfields
    by (simp add: get_set_sess sess_conflict_def)
  moreover have "cached v2 ?sid = Some ?s"
    using cached_same [OF same3] cached_same [OF same2] cache by (simp add: cached_def)
  then have "map_sum id se_Status (fst (sm_GetSession v2 ?sid)) = Inr SessionStatusPending"
    using sm_GetSession_quiet [of v2 ?sid] q1 same_store_quiet [OF same3]
    by (simp add: quiet_def set_sess_def convertStorageSession_def toStorageSession_def s_def new_session_def)
  ultimately show ?thesis
    using create comp v_def by blast
qed

lemma long_timeout_serves_stale_session_witness:
  "\<exists>s w1 w2. sm_CreateSession (minutes 10) sample_world ''key-1'' ''gg20'' 2 3 = (Inr s, w1)
    \<and> sm_CompleteSession (time_Sleep (minutes 6) w1) (se_SessionID s) ''ab'' = (Inr (), w2)
    \<and> map_option ss_Status (get_sess w2 (se_SessionID s)) = Some SessionStatusCompleted
    \<and> map_sum id se_Status (fst (sm_GetSession w2 (se_SessionID s))) = Inr SessionStatusPending"
  by (rule long_timeout_serves_stale_session)
     (simp_all add: sample_world_ok minutes_def int4_ok_def,
      simp_all add: sample_world_def empty_world_def get_key_def get_sess_def tbl_get_Cons sample_key_def)

section \<open>Joining\<close>

text \<open>
  Joining a pending or active session adds the node once, at the end, and
  makes the session active; a node that is already in changes nothing; the list
  of nodes stays free of duplicates and no other session changes.
\<close>

theorem join_adds_node_once:
  assumes "coh w" and "quiet w" and "db_inv w" and "get_sess w sid = Some row"
    and "joinable (ss_Status row)"
  shows "\<exists>v row'. sm_JoinSession w sid nid = (Inr (), v) \<and> get_sess v sid = Some row'
    \<and> row' = (if nid \<in> set (ss_ParticipatingNodes row) then row
              else row\<lparr>ss_ParticipatingNodes := ss_ParticipatingNodes row @ [nid],
                       ss_Status := SessionStatusActive\<rparr>)
    \<and> (distinct (ss_ParticipatingNodes row) \<longrightarrow> distinct (ss_ParticipatingNodes row'))
    \<and> (\<forall>j. j \<noteq> sid \<longrightarrow> get_sess v j = get_sess w j) \<and> coh v \<and> quiet v"
proof -
  from read_present [OF assms(1,2,4)] obtain s w1 where get: "sm_GetSession w sid = (Inr s, w1)"
    and same: "same_store w w1" and row: "same_session (toStorageSession s) row"
    and id: "se_SessionID s = sid"
    by blast
  note sel = same_session_sel [OF row]
  show ?thesis
  proof (cases "nid \<in> set (ss_ParticipatingNodes row)")
    case True
    with get sel assms(5) have "sm_JoinSession w sid nid = (Inr (), w1)"
      by (simp add: sm_JoinSession_def)
    with True assms(1,2,4) same_store_get(3) [OF same] coh_same_store [OF same] same_store_quiet [OF same]
    show ?thesis by simp
  next
    case False
    let ?s = "s\<lparr>se_ParticipatingNodes := se_ParticipatingNodes s @ [nid], se_Status := SessionStatusActive\<rparr>"
    obtain r v where upd: "sm_UpdateSession w1 ?s = (r, v)"
      by (cases "sm_UpdateSession w1 ?s")
    have in_t: "row \<in> set (sess_t w)"
      using assms(4) by (auto simp: get_sess_def dest: tbl_get_SomeD)
    with assms(3) have "sess_row_ok row" "get_key w (ss_KeyID row) \<noteq> None"
      by (auto simp: db_inv_def)
    then have "sess_row_ok (toStorageSession ?s)" "get_key w1 (se_KeyID s) \<noteq> None"
      using sel(3,7) same_store_get(1) [OF same] by (simp_all add: sess_row_ok_def toStorageSession_def)
    then have r: "r = Inr ()"
      using sm_UpdateSession_quiet [of w1 ?s] upd same_store_quiet [OF same] assms(2) by simp
    have edit: "edits s ?s"
      by (simp add: edits_def)
    note u = coh_update [OF assms(1,2) get edit upd]
    have "sess_conflict (toStorageSession ?s) row =
        row\<lparr>ss_ParticipatingNodes := ss_ParticipatingNodes row @ [nid], ss_Status := SessionStatusActive\<rparr>"
      using sel(2,6) by (cases row) (auto simp: sess_conflict_def toStorageSession_def)
    with u(3) [OF r] assms(4) have new: "get_sess v sid = Some (row\<lparr>ss_ParticipatingNodes :=
          ss_ParticipatingNodes row @ [nid], ss_Status := SessionStatusActive\<rparr>)"
      by simp
    have "sm_JoinSession w sid nid = (Inr (), v)"
      using get sel assms(5) False upd r by (simp add: sm_JoinSession_def)
    with new False u(1,2) u(4) [OF r] show ?thesis
      by simp
  qed
qed

definition sample_row :: SigningSession where
  "sample_row = \<lparr>ss_SessionID = ''s'', ss_KeyID = ''key-1'', ss_Protocol = ''gg20'',
     ss_Status = ''pending'', ss_Threshold = 2, ss_TotalNodes = 3, ss_ParticipatingNodes = [''n1''],
     ss_CurrentRound = 0, ss_TotalRounds = 4, ss_Signature = [], ss_CreatedAt = 0,
     ss_CompletedAt = None, ss_DurationMs = 0\<rparr>"

definition sample_world_with :: "string \<Rightarrow> world" where
  "sample_world_with status = sample_world\<lparr>sess_t := [sample_row\<lparr>ss_Status := status\<rparr>]\<rparr>"

lemma sample_world_with_ok:
  "coh (sample_world_with st)" "quiet (sample_world_with st)" "db_inv (sample_world_with st)"
  "get_sess (sample_world_with st) ''s'' = Some (sample_row\<lparr>ss_Status := st\<rparr>)"
  "get_key (sample_world_with st) ''key-1'' = Some sample_key"
  by (simp_all add: sample_world_with_def sample_world_def empty_world_def coh_def quiet_def
      db_inv_def tbl_ok_def sample_key_def key_row_ok_def int4_ok_def sample_row_def sess_row_ok_def
      get_key_def get_sess_def tbl_get_Cons)

lemma join_adds_node_once_witness:
  "\<exists>v row'. sm_JoinSession (sample_world_with ''pending'') ''s'' ''n2'' = (Inr (), v)
    \<and> get_sess v ''s'' = Some row' \<and> ss_ParticipatingNodes row' = [''n1'', ''n2'']"
  using join_adds_node_once [OF sample_world_with_ok(1-4), of "''pending''" "''n2''"]
  by (auto simp: joinable_def status_defs sample_row_def)

lemma terminal_closed_keygen:
  assumes "coh w" and "quiet w" and "get_sess w sid = Some row" and "\<not> joinable (ss_Status row)"
  shows "fst (sm_CompleteKeygenSession w sid pk) = Inl (Err (''cannot complete session in status '' @ ss_Status row))"
    and "same_store w (snd (sm_CompleteKeygenSession w sid pk))"
proof -
  from read_present [OF assms(1-3)] obtain s w1 where "sm_GetSession w sid = (Inr s, w1)"
    and "same_store w w1" and row: "same_session (toStorageSession s) row"
    by blast
  with same_session_sel(1) [OF row] assms(4)
  show "fst (sm_CompleteKeygenSession w sid pk) = Inl (Err (''cannot complete session in status '' @ ss_Status row))"
    and "same_store w (snd (sm_CompleteKeygenSession w sid pk))"
    by (simp_all add: sm_CompleteKeygenSession_def)
qed

text \<open>
  A session in a terminal status (completed, failed, cancelled or timed out)
  can be neither joined nor completed as a keygen session: both calls return the
  status in their error and leave every table and the cache as they were.
\<close>

theorem terminal_session_is_closed:
  assumes "coh w" and "quiet w" and "get_sess w sid = Some row" and "\<not> joinable (ss_Status row)"
  shows "fst (sm_JoinSession w sid nid) = Inl (Err (''session is not joinable: status='' @ ss_Status row))
    \<and> fst (sm_CompleteKeygenSession w sid pk) = Inl (Err (''cannot complete session in status '' @ ss_Status row))
    \<and> same_store w (snd (sm_JoinSession w sid nid))
    \<and> same_store w (snd (sm_CompleteKeygenSession w sid pk))"
proof -
  from read_present [OF assms(1-3)] obtain s w1 where get: "sm_GetSession w sid = (Inr s, w1)"
    and same: "same_store w w1" and row: "same_session (toStorageSession s) row"
    by blast
  with same_session_sel(1) [OF row] assms(4) show ?thesis
    by (simp add: sm_JoinSession_def sm_CompleteKeygenSession_def)
qed

lemma terminal_session_is_closed_witness:
  "fst (sm_JoinSession (sample_world_with ''cancelled'') ''s'' ''n2'')
     = Inl (Err (''session is not joinable: status='' @ ''cancelled''))"
  using terminal_session_is_closed [OF sample_world_with_ok(1,2,4), of "''cancelled''" "''n2''"]
  by (simp add: joinable_def status_defs sample_row_def)

section \<open>Completing a signing session\<close>

text \<open>
  Completing a signing session writes the signature, the completion time and
  the duration, whatever the session's status was: a session that has been
  cancelled or has timed out becomes completed.
\<close>

theorem complete_session_ignores_status:
  assumes "coh w" and "quiet w" and "db_inv w" and "get_sess w sid = Some row"
    and "ss_CreatedAt row \<le> now w" and "now w - ss_CreatedAt row < 2147483648000"
    and "cached w sid = None"
  shows "\<exists>v. sm_CompleteSession w sid sig = (Inr (), v)
    \<and> get_sess v sid = Some (row\<lparr>ss_Status := SessionStatusCompleted, ss_Signature := sig,
         ss_CompletedAt := Some (now w), ss_DurationMs := (now w - ss_CreatedAt row) div 1000\<rparr>)"
proof -
  have q: "fst (sm_GetSession w sid) = Inr (convertStorageSession row)"
    using sm_GetSession_quiet [OF assms(2), of sid] assms(4,7) by simp
  then obtain w1 where get: "sm_GetSession w sid = (Inr (convertStorageSession row), w1)"
    by (cases "sm_GetSession w sid") simp
  note same = sm_GetSession_cases(1) [OF get]
  have now1: "now w1 = now w"
    using same by (simp add: same_store_def)
  let ?s = "complete_fields sig (now w) (convertStorageSession row)"
  let ?r = "row\<lparr>ss_Status := SessionStatusCompleted, ss_Signature := sig,
         ss_CompletedAt := Some (now w), ss_DurationMs := (now w - ss_CreatedAt row) div 1000\<rparr>"
  have ms: "milliseconds (now w - ss_CreatedAt row) = (now w - ss_CreatedAt row) div 1000"
    using assms(5) by (simp add: milliseconds_def go_div_nonneg)
  then have st: "toStorageSession ?s = ?r"
    by (simp add: complete_fields_def toStorageSession_def convertStorageSession_def)
  obtain r v where upd: "sm_UpdateSession w1 ?s = (r, v)"
    by (cases "sm_UpdateSession w1 ?s")
  have "row \<in> set (sess_t w)"
    using assms(4) by (auto simp: get_sess_def dest: tbl_get_SomeD)
  with assms(3) have "sess_row_ok row" "get_key w (ss_KeyID row) \<noteq> None"
    by (auto simp: db_inv_def)
  moreover have "int4_ok (x div 1000)" if "0 \<le> x" "x < 2147483648000" for x :: int
  proof -
    have "0 \<le> x div 1000" "x div 1000 < 2147483648"
      using that by simp_all
    then show ?thesis by (simp add: int4_ok_def)
  qed
  then have "int4_ok ((now w - ss_CreatedAt row) div 1000)"
    using assms(5,6) by simp
  ultimately have "sess_row_ok ?r" "get_key w1 (se_KeyID ?s) \<noteq> None"
    using same_store_get(1) [OF same]
    by (simp_all add: sess_row_ok_def complete_fields_def convertStorageSession_def)
  then have r: "r = Inr ()"
    using sm_UpdateSession_quiet [of w1 ?s] upd st same_store_quiet [OF same] assms(2) by simp
  have "get_sess v sid = Some (sess_conflict ?r row)"
    using coh_update(3) [OF assms(1,2) get edits_complete upd r] assms(4) st by simp
  moreover have "sess_conflict ?r row = ?r"
    by (simp add: sess_conflict_def)
  ultimately show ?thesis
    using get upd r now1 by (simp add: sm_CompleteSession_def)
qed

lemma complete_session_ignores_status_witness:
  "\<exists>v. sm_CompleteSession (sample_world_with ''cancelled'') ''s'' ''ab'' = (Inr (), v)
    \<and> map_option ss_Status (get_sess v ''s'') = Some ''completed''"
  using complete_session_ignores_status [OF sample_world_with_ok(1-4), of "''cancelled''" "''ab''"]
  by (force simp: cached_def rlive_def sample_row_def status_defs sample_world_with_def
      sample_world_def empty_world_def)

section \<open>Keygen sessions\<close>

lemma pg_SaveSigningSession_time:
  "snd (pg_SaveSigningSession w s) = v \<Longrightarrow> now v = now w \<and> keys_t v = keys_t w"
  using pg_SaveSigningSession_cases(2) [OF prod.collapse [symmetric], of w s]
  by (auto simp: same_store_def put_sess_def)

text \<open>
  The retry loop under any pattern of failures: it succeeds exactly when one of
  its attempts does, and \<open>n\<close> attempts sleep \<open>d + 2d + ...\<close>, in all
  \<open>(2 ^ (n - 1) - 1) * d\<close>.
\<close>

lemma kg_save_loop_time:
  assumes "kg_save_loop (Suc n) d s w = (r, v)" and "0 \<le> d"
  shows "now w \<le> now v" and "now v \<le> now w + (2 ^ n - 1) * d"
  using assms
proof (induction n arbitrary: d w)
  case 0
  {
    case 1
    with pg_SaveSigningSession_time [of w s] show ?case
      by (auto split: prod.splits sum.splits)
  next
    case 2
    with pg_SaveSigningSession_time [of w s] show ?case
      by (auto split: prod.splits sum.splits)
  }
next
  case (Suc n)
  have step: "now w \<le> now v \<and> now v \<le> now w + (2 ^ Suc n - 1) * d"
    if run: "kg_save_loop (Suc (Suc n)) d s w = (r, v)" and "0 \<le> d" for d w
  proof (cases "pg_SaveSigningSession w s")
    case (Pair r1 w1)
    have t: "now w1 = now w"
      using Pair pg_SaveSigningSession_time [of w s w1] by simp
    show ?thesis
    proof (cases r1)
      case (Inr x)
      with run Pair t \<open>0 \<le> d\<close> show ?thesis
        by (auto simp: mult_nonneg_nonneg)
    next
      case (Inl e)
      with run Pair have "kg_save_loop (Suc n) (2 * d) s (time_Sleep d w1) = (r, v)"
        by (simp only: kg_save_loop.simps(2) [of "Suc n"] prod.case sum.case) simp
      from Suc.IH [OF this] \<open>0 \<le> d\<close> t show ?thesis
        by (simp add: time_Sleep_def algebra_simps)
    qed
  qed
  { case 1 then show ?case using step by blast }
  { case 2 then show ?case using step by blast }
qed

lemma kg_save_loop_found:
  assumes "kg_save_loop n d s w = (Inr (), v)" and "n \<noteq> 0"
  shows "get_sess v (ss_SessionID s) \<noteq> None \<and> get_key w (ss_KeyID s) \<noteq> None \<and> sess_row_ok s"
  using assms
proof (induction n arbitrary: d w)
  case 0
  then show ?case by simp
next
  case (Suc n)
  obtain r w1 where sav: "pg_SaveSigningSession w s = (r, w1)"
    by (cases "pg_SaveSigningSession w s")
  note c = pg_SaveSigningSession_cases [OF sav]
  show ?case
  proof (cases r)
    case (Inr x)
    then have "same_store (put_sess s w) w1 \<and> sess_row_ok s \<and> get_key w (ss_KeyID s) \<noteq> None" and "v = w1"
      using c(1) sav Suc.prems by simp_all
    then show ?thesis
      using same_store_get(3) [of "put_sess s w" w1] by (simp add: get_put_sess)
  next
    case (Inl e)
    with sav Suc.prems have n: "n \<noteq> 0"
      and loop: "kg_save_loop n (2 * d) s (time_Sleep d w1) = (Inr (), v)"
      by (simp_all split: if_splits)
    have "get_key (time_Sleep d w1) k = get_key w k" for k
      using pg_SaveSigningSession_time [of w s w1] sav by (simp add: time_Sleep_def get_key_def)
    with Suc.IH [OF loop n] show ?thesis
      by simp
  qed
qed

lemma keygen_session_facts:
  assumes "sm_CreateKeyGenSession timeout w kid p t n ns = (r, v)"
  shows "(case r of
      Inl e \<Rightarrow> True
    | Inr s \<Rightarrow> se_SessionID s = kid \<and> se_KeyID s = kid \<and> se_Status s = SessionStatusPending
        \<and> se_ParticipatingNodes s = ns \<and> get_sess v kid \<noteq> None \<and> get_key w kid \<noteq> None)
    \<and> now w \<le> now v \<and> now v \<le> now w + 300000"
proof -
  define s where "s = toStorageSession \<lparr>se_SessionID = kid, se_KeyID = kid,
     se_Protocol = (if p = [] then ''keygen'' else p), se_Status = SessionStatusPending,
     se_Threshold = t, se_TotalNodes = n, se_ParticipatingNodes = ns, se_CurrentRound = 0,
     se_TotalRounds = 4, se_Signature = [], se_CreatedAt = now w, se_CompletedAt = None,
     se_DurationMs = 0, se_ExpiresAt = now w + timeout\<rparr>"
  have ids: "ss_SessionID s = kid" "ss_KeyID s = kid"
    by (simp_all add: s_def toStorageSession_def)
  obtain r1 w1 where loop: "kg_save_loop 3 100000 s w = (r1, w1)"
    by (cases "kg_save_loop 3 100000 s w")
  obtain r2 w2 where ver: "pg_GetSigningSession w1 kid = (r2, w2)"
    by (cases "pg_GetSigningSession w1 kid")
  obtain r3 w3 where red: "rds_SaveSession w2 s timeout = (r3, w3)"
    by (cases "rds_SaveSession w2 s timeout")
  have time1: "now w \<le> now w1" "now w1 \<le> now w + 300000"
    using kg_save_loop_time [of 2 100000 s w r1 w1] loop by (simp_all add: numeral_eq_Suc)
  have same2: "same_store w1 w2"
    using pg_GetSigningSession_cases(1) [OF ver] .
  have same3: "get_sess w3 kid = get_sess w2 kid" "now w3 = now w2"
    using rds_SaveSession_cases(4) [OF red] same_store_get(3) [of w2 w3]
      same_store_get(3) [of "redis_Set (session_key (ss_SessionID s)) (RSession s) timeout w2" w3]
    by (auto simp: same_store_def redis_Set_def)
  note run = assms [unfolded sm_CreateKeyGenSession_def Let_def, folded s_def]
  show ?thesis
  proof (cases r1)
    case (Inl e)
    with run loop time1 show ?thesis by (auto simp: s_def)
  next
    case (Inr x)
    with loop have found: "get_sess w1 kid \<noteq> None" "get_key w kid \<noteq> None"
      using kg_save_loop_found [of 3 100000 s w w1] ids by simp_all
    have now2: "now w2 = now w1"
      using same2 by (simp add: same_store_def)
    show ?thesis
      using run loop Inr ver red time1 now2 same3 found same_store_get(3) [OF same2]
      by (cases r2) (auto simp: s_def)
  qed
qed

text \<open>
  Creating a keygen session, under any pattern of database and cache
  failures: when it succeeds, the key row exists, the session has the key's id,
  it is pending, its row was read back from the database, and the cache's answer
  did not matter; in all cases the retries take at most 300 milliseconds.
\<close>

theorem create_keygen_session_persists:
  assumes "sm_CreateKeyGenSession timeout w kid p t n ns = (r, v)"
  shows "(case r of
      Inl e \<Rightarrow> True
    | Inr s \<Rightarrow> se_SessionID s = kid \<and> se_KeyID s = kid \<and> se_Status s = SessionStatusPending
        \<and> se_ParticipatingNodes s = ns \<and> get_sess v kid \<noteq> None \<and> get_key w kid \<noteq> None)
    \<and> now w \<le> now v \<and> now v \<le> now w + 300000"
  by (rule keygen_session_facts [OF assms])

lemma create_keygen_session_persists_witness:
  "let (r, v) = sm_CreateKeyGenSession (minutes 5) sample_world ''key-1'' [] 2 3 [''n1'', ''n2'']
   in (case r of Inl e \<Rightarrow> True | Inr s \<Rightarrow> get_sess v ''key-1'' \<noteq> None) \<and> now v \<le> 300000"
  using create_keygen_session_persists [of "minutes 5" sample_world "''key-1''" "[]" 2 3 "[''n1'', ''n2'']"
      "fst (sm_CreateKeyGenSession (minutes 5) sample_world ''key-1'' [] 2 3 [''n1'', ''n2''])"
      "snd (sm_CreateKeyGenSession (minutes 5) sample_world ''key-1'' [] 2 3 [''n1'', ''n2''])"]
  by (auto simp: sample_world_def empty_world_def split: sum.splits prod.splits)

lemma complete_keygen_InrD:
  assumes "sm_CompleteKeygenSession w kid pk = (r, v)" and "coh w"
    and "\<And>e. r = Inl e \<Longrightarrow> \<exists>e'. e = Wrap e' ''failed to update key metadata''"
  shows "\<exists>row k. get_sess v kid = Some row \<and> ss_Status row = SessionStatusCompleted
       \<and> ss_Signature row = pk \<and> get_key w kid = Some k
       \<and> (r = Inr () \<longrightarrow> get_key v kid
            = Some (k\<lparr>km_PublicKey := pk, km_Status := ''Active'', km_UpdatedAt := now w\<rparr>))"
proof -
  obtain r0 w1 where get: "sm_GetSession w kid = (r0, w1)"
    by (cases "sm_GetSession w kid")
  note g = sm_GetSession_cases [OF get]
  from assms(1,3) get obtain s where r0: "r0 = Inr s" and st: "joinable (se_Status s)"
    by (cases r0; cases "joinable (se_Status (projr r0))")
       (auto simp: sm_CompleteKeygenSession_def elim: wrap_err.elims)
  from g(2) [OF r0] obtain row where row: "cached w kid = Some row \<or> get_sess w kid = Some row"
    and s: "s = convertStorageSession row" by blast
  have id: "ss_SessionID row = kid" and old: "get_sess w kid \<noteq> None"
    using row cohD(1,3) [OF assms(2), of kid row] by (auto simp: get_sess_def dest: tbl_get_SomeD)
  have now1: "now w1 = now w"
    using g(1) by (simp add: same_store_def)
  let ?s = "complete_fields pk (now w) s"
  obtain r1 w2 where upd: "sm_UpdateSession w1 ?s = (r1, w2)"
    by (cases "sm_UpdateSession w1 ?s")
  obtain r2 w3 where gk: "pg_GetKeyMetadata w2 kid = (r2, w3)"
    by (cases "pg_GetKeyMetadata w2 kid")
  note run = assms(1) [unfolded sm_CompleteKeygenSession_def, simplified get r0 st or_wrap_simps Let_def now1 upd]
  from run assms(3) st now1 upd have r1: "r1 = Inr ()"
    by (cases r1) (auto elim: wrap_err.elims)
  from run assms(3) st now1 upd r1 gk obtain k where r2: "r2 = Inr k"
    by (cases r2) (auto elim: wrap_err.elims)
  let ?k = "k\<lparr>km_PublicKey := pk, km_Status := ''Active'', km_UpdatedAt := now w\<rparr>"
  obtain r3 w4 where uk: "pg_UpdateKeyMetadata w3 ?k = (r3, w4)"
    by (cases "pg_UpdateKeyMetadata w3 ?k")
  have v: "v = w4" and r: "r = Inr () \<longrightarrow> r3 = Inr ()"
    using run st now1 upd r1 gk r2 uk by (cases r3; auto)+
  have same2: "same_store (upd_effect ?s w1) w2"
    using sm_UpdateSession_cases(1) [OF upd r1] .
  note same3 = pg_GetKeyMetadata_cases(1) [OF gk]
  have k: "get_key w kid = Some k"
    using pg_GetKeyMetadata_cases(2) [OF gk r2] same_store_get(1) [OF same2] same_store_get(1) [OF g(1)]
    by (simp add: upd_effect_def Let_def split: if_splits)
  then have kid: "km_KeyID k = kid"
    by (auto simp: get_key_def dest: tbl_get_SomeD)
  have sid: "ss_SessionID (toStorageSession ?s) = kid"
    using id s by (simp add: complete_fields_def convert_sel)
  obtain old' where "get_sess w1 kid = Some old'"
    using old same_store_get(3) [OF g(1)] by auto
  then have "get_sess w3 kid = Some (sess_conflict (toStorageSession ?s) old')"
    using same_store_get(3) [OF same2] same_store_get(3) [OF same3] sid
    by (simp add: upd_effect_def Let_def get_set_sess)
  moreover have "get_sess w4 kid = get_sess w3 kid"
    using uk by (auto simp: pg_UpdateKeyMetadata_def sql_update_key_def pg_call_def Let_def or_wrap_def
        set_key_def get_sess_def split: option.splits prod.splits sum.splits if_splits)
  ultimately have "\<exists>row. get_sess v kid = Some row \<and> ss_Status row = SessionStatusCompleted \<and> ss_Signature row = pk"
    using v by (simp add: sess_conflict_def toStorageSession_def complete_fields_def)
  moreover have "get_key v kid = Some ?k" if "r = Inr ()"
  proof -
    have "same_store (set_key ?k w3) w4"
      using pg_UpdateKeyMetadata_cases(1) [OF uk] r that by simp
    then have "get_key v kid = map_option (\<lambda>old. ?k\<lparr>km_CreatedAt := km_CreatedAt old\<rparr>) (get_key w3 kid)"
      using same_store_get(1) v kid by (simp add: get_set_key)
    moreover have "get_key w3 kid = Some k"
      using pg_GetKeyMetadata_cases(2) [OF gk r2] same_store_get(1) [OF same3] by simp
    ultimately show ?thesis
      by simp
  qed
  ultimately show ?thesis
    using k by blast
qed

text \<open>
  When completing a keygen session succeeds, whatever calls failed on the
  way, the session is completed with the public key as its signature field and
  the key row has the public key and the status \<open>Active\<close>; nothing else of the
  key row but its update time has changed.
\<close>

theorem complete_keygen_activates_key:
  assumes "sm_CompleteKeygenSession w kid pk = (Inr (), v)" and "coh w"
  shows "\<exists>row k. get_sess v kid = Some row \<and> ss_Status row = SessionStatusCompleted
       \<and> ss_Signature row = pk \<and> get_key w kid = Some k
       \<and> get_key v kid = Some (k\<lparr>km_PublicKey := pk, km_Status := ''Active'', km_UpdatedAt := now w\<rparr>)"
  using complete_keygen_InrD [OF assms] by auto

definition sample_keygen :: world where
  "sample_keygen = sample_world\<lparr>sess_t := [sample_row\<lparr>ss_SessionID := ''key-1''\<rparr>]\<rparr>"

lemma sample_keygen_coh: "coh sample_keygen" "quiet sample_keygen"
  by (simp_all add: sample_keygen_def sample_world_def empty_world_def coh_def quiet_def)

lemmas sample_defs = sample_keygen_def sample_world_def empty_world_def sample_row_def sample_key_def

lemma sample_keygen_completes:
  "fst (sm_CompleteKeygenSession sample_keygen ''key-1'' ''02ab'') = Inr ()"
  by (simp add: sm_CompleteKeygenSession_def sm_GetSession_def rds_GetSession_def rd_call_def
      pg_GetSigningSession_def pg_call_def Let_def sample_defs rlive_def get_sess_def tbl_get_Cons
      convertStorageSession_def joinable_def status_defs sm_UpdateSession_def complete_fields_def
      pg_UpdateSigningSession_def sql_update_session_def toStorageSession_def sess_row_ok_def int4_ok_def
      milliseconds_def go_div_def get_key_def set_sess_def rds_UpdateSession_def rds_SaveSession_def
      redis_Set_def pg_GetKeyMetadata_def pg_UpdateKeyMetadata_def sql_update_key_def key_row_ok_def
      minutes_def)

lemma complete_keygen_activates_key_witness:
  "\<exists>k. get_key (snd (sm_CompleteKeygenSession sample_keygen ''key-1'' ''02ab'')) ''key-1'' = Some k
     \<and> km_Status k = ''Active'' \<and> km_PublicKey k = ''02ab''"
proof -
  let ?v = "snd (sm_CompleteKeygenSession sample_keygen ''key-1'' ''02ab'')"
  have "sm_CompleteKeygenSession sample_keygen ''key-1'' ''02ab'' = (Inr (), ?v)"
    using sample_keygen_completes by (simp add: prod_eq_iff)
  from complete_keygen_activates_key [OF this sample_keygen_coh(1)] obtain k where
    "get_key ?v ''key-1'' = Some (k\<lparr>km_PublicKey := ''02ab'', km_Status := ''Active'',
        km_UpdatedAt := now sample_keygen\<rparr>)"
    by blast
  then show ?thesis by simp
qed

text \<open>
  Completing a keygen session is not retryable. When the key row could not
  be updated, the session has already been completed; from then on, in every
  world with that session row, completing it again fails with the session's
  status and the key row stays as it is, so the key never becomes active.
\<close>

theorem interrupted_completion_is_final:
  assumes "sm_CompleteKeygenSession w kid pk = (Inl (Wrap e ''failed to update key metadata''), v)"
    and "coh w" and "coh u" and "quiet u" and "get_sess u kid = get_sess v kid"
  shows "fst (sm_CompleteKeygenSession u kid pk')
           = Inl (Err ''cannot complete session in status completed'')
    \<and> get_key (snd (sm_CompleteKeygenSession u kid pk')) kid = get_key u kid"
proof -
  from complete_keygen_InrD [OF assms(1,2)] obtain row
    where row: "get_sess u kid = Some row" and st: "ss_Status row = SessionStatusCompleted"
    using assms(5) by auto
  then have closed: "\<not> joinable (ss_Status row)"
    by (simp add: joinable_def status_defs)
  note t = terminal_closed_keygen [OF assms(3,4) row closed, of pk']
  with st same_store_get(1) show ?thesis
    by (simp add: status_defs)
qed

definition flaky_keygen :: world where
  "flaky_keygen = sample_keygen\<lparr>pg_fault := (\<lambda>n. if n = 3 then Some (''connection reset'', False) else None)\<rparr>"

lemma flaky_keygen_fails:
  "fst (sm_CompleteKeygenSession flaky_keygen ''key-1'' ''02ab'')
     = Inl (Wrap (Wrap (Err ''connection reset'') ''failed to update key metadata'') ''failed to update key metadata'')"
  by (simp add: flaky_keygen_def sm_CompleteKeygenSession_def sm_GetSession_def rds_GetSession_def rd_call_def
      pg_GetSigningSession_def pg_call_def Let_def sample_defs rlive_def get_sess_def tbl_get_Cons
      convertStorageSession_def joinable_def status_defs sm_UpdateSession_def complete_fields_def
      pg_UpdateSigningSession_def sql_update_session_def toStorageSession_def sess_row_ok_def int4_ok_def
      milliseconds_def go_div_def get_key_def set_sess_def rds_UpdateSession_def rds_SaveSession_def
      redis_Set_def pg_GetKeyMetadata_def pg_UpdateKeyMetadata_def sql_update_key_def key_row_ok_def
      minutes_def)

lemma interrupted_completion_is_final_witness:
  "\<exists>u. get_key u ''key-1'' = Some sample_key
     \<and> fst (sm_CompleteKeygenSession u ''key-1'' ''02ab'')
           = Inl (Err ''cannot complete session in status completed'')
     \<and> get_key (snd (sm_CompleteKeygenSession u ''key-1'' ''02ab'')) ''key-1'' = Some sample_key"
proof -
  let ?v = "snd (sm_CompleteKeygenSession flaky_keygen ''key-1'' ''02ab'')"
  let ?u = "sample_world\<lparr>sess_t := sess_t ?v\<rparr>"
  have 1: "sm_CompleteKeygenSession flaky_keygen ''key-1'' ''02ab'' = (Inl (Wrap (Wrap (Err ''connection reset'')
      ''failed to update key metadata'') ''failed to update key metadata''), ?v)"
    using flaky_keygen_fails by (simp add: prod_eq_iff)
  have 2: "coh flaky_keygen" "coh ?u" "quiet ?u" "get_sess ?u ''key-1'' = get_sess ?v ''key-1''"
    "get_key ?u ''key-1'' = Some sample_key"
    by (simp_all add: flaky_keygen_def sample_defs coh_def quiet_def get_sess_def get_key_def tbl_get_Cons)
  show ?thesis
    using interrupted_completion_is_final [OF 1 2(1-4)] 2(5) by fastforce
qed

section \<open>The write-ahead log\<close>

text \<open>
  The contract of the log: entries are appended to their session's list, draining
  a session returns its list and empties it. \<open>entries\<close> is the abstract log.
\<close>

locale session_log =
  fixes entries :: "'s \<Rightarrow> string \<Rightarrow> 'e list"
    and add :: "string \<Rightarrow> 'e \<Rightarrow> 's \<Rightarrow> 's"
    and drain :: "string \<Rightarrow> 's \<Rightarrow> 'e list \<times> 's"
    and valid :: "string \<Rightarrow> bool"
  assumes add_entries: "valid k \<Longrightarrow> entries (add k e s) j = (if j = k then entries s k @ [e] else entries s j)"
    and add_invalid: "\<not> valid k \<Longrightarrow> entries (add k e s) j = entries s j"
    and drain_fst: "valid k \<Longrightarrow> fst (drain k s) = entries s k"
    and drain_entries: "valid k \<Longrightarrow> entries (snd (drain k s)) j = (if j = k then [] else entries s j)"
begin

lemma fold_add:
  "valid k \<Longrightarrow> entries (fold (\<lambda>(j, e). add j e) es s) k = entries s k @ map snd (filter (\<lambda>(j, e). j = k) es)"
proof (induction es arbitrary: s)
  case Nil
  then show ?case by simp
next
  case (Cons x es)
  obtain j e where "x = (j, e)" by (cases x)
  with Cons show ?case
    by (cases "valid j") (auto simp: add_entries add_invalid)
qed

lemma drain_fold:
  "valid k \<Longrightarrow> entries s k = [] \<Longrightarrow>
     fst (drain k (fold (\<lambda>(j, e). add j e) es s)) = map snd (filter (\<lambda>(j, e). j = k) es)"
  by (simp add: drain_fst fold_add)

lemma drain_twice: "valid k \<Longrightarrow> fst (drain k (snd (drain k s))) = []"
  by (simp add: drain_fst drain_entries)

end

text \<open>The log of \<open>StateStore\<close>: what a record says apart from the number and time the store gives it.\<close>

definition wal_append :: "time \<Rightarrow> string \<Rightarrow> int \<times> byte list \<Rightarrow> wal_state \<Rightarrow> wal_state" where
  "wal_append t k e s =
     snd (st_AppendWAL t s (Some \<lparr>wr_Sequence = 0, wr_SessionID = k, wr_Round = fst e,
                                  wr_Payload = snd e, wr_CreatedAt = None\<rparr>))"

definition wal_entries :: "wal_state \<Rightarrow> string \<Rightarrow> (int \<times> byte list) list" where
  "wal_entries s k = map (\<lambda>r. (wr_Round r, wr_Payload r)) (wal s k)"

definition wal_drain :: "string \<Rightarrow> wal_state \<Rightarrow> (int \<times> byte list) list \<times> wal_state" where
  "wal_drain k s = (case st_ReplayWAL s k of
     (Inl _, s') \<Rightarrow> ([], s')
   | (Inr rs, s') \<Rightarrow> (map (\<lambda>r. (wr_Round r, wr_Payload r)) rs, s'))"

interpretation wal_log: session_log wal_entries "wal_append t" wal_drain "\<lambda>k. k \<noteq> []" for t
  by unfold_locales
     (auto simp: wal_entries_def wal_append_def wal_drain_def st_AppendWAL_def st_ReplayWAL_def Let_def)



datatype wal_op = AppendOp time "WALRecord option" | ReplayOp string

fun wal_exec :: "wal_op \<Rightarrow> wal_state \<Rightarrow> wal_state" where
  "wal_exec (AppendOp t r) s = snd (st_AppendWAL t s r)"
| "wal_exec (ReplayOp k) s = snd (st_ReplayWAL s k)"

definition wal_inv :: "wal_state \<Rightarrow> bool" where
  "wal_inv s \<longleftrightarrow> (\<forall>k. map wr_Sequence (wal s k) = [1..walSequences s k]
                   \<and> 0 \<le> walSequences s k \<and> (\<forall>r \<in> set (wal s k). wr_SessionID r = k \<and> wr_CreatedAt r \<noteq> None))"

lemma upto_snoc: "0 \<le> n \<Longrightarrow> [1..n + 1] = [1..n] @ [n + 1 :: int]"
  using upto_rec2 [of 1 "n + 1"] by simp

lemma wal_exec_inv: "wal_inv s \<Longrightarrow> wal_inv (wal_exec op s)"
  by (cases op) (auto simp: wal_inv_def st_AppendWAL_def st_ReplayWAL_def Let_def upto_snoc split: option.splits)

text \<open>
  After any sequence of appends and replays, valid or refused, the records
  of every session carry the numbers 1, 2, 3, ... without a gap or a repetition,
  the session's own id and a creation time.
\<close>

theorem wal_sequences_gapless:
  "wal_inv (fold wal_exec ops NewStateStore)"
proof -
  have step: "wal_inv s \<Longrightarrow> wal_inv (fold wal_exec ops s)" for s
    by (induction ops arbitrary: s) (simp_all add: wal_exec_inv)
  show ?thesis
    by (rule step) (simp add: wal_inv_def NewStateStore_def)
qed

end
