(* ===== verification/KeyShareFS.thy ===== *)
theory KeyShareFS
  imports Prelude
begin

text \<open>
  \<open>internal/mpc/storage/key_share_storage.go\<close>: key shares and key data in
  encrypted files. The file system is a tree of directories and files; every
  system call may fail with a text of its own, and a failing write may leave any
  prefix of its data behind. AES-GCM and scrypt are parameters: \<open>gcm_seal\<close> and
  \<open>gcm_open\<close> take the key, the nonce and the text.
\<close>

section \<open>Paths (path/filepath)\<close>

type_synonym path = "bool \<times> string list"  \<comment> \<open>absolute or not, and the clean elements\<close>

fun split_slash :: "string \<Rightarrow> string \<Rightarrow> string list" where
  "split_slash acc [] = [rev acc]"
| "split_slash acc (c # cs) = (if c = CHR ''/'' then rev acc # split_slash [] cs else split_slash (c # acc) cs)"

text \<open>\<open>filepath.Clean\<close> on the elements: \<open>.\<close> and empty elements go, \<open>..\<close> takes one back.\<close>

fun clean_elems :: "bool \<Rightarrow> string list \<Rightarrow> string list \<Rightarrow> string list" where
  "clean_elems rooted acc [] = rev acc"
| "clean_elems rooted acc (e # es) =
     (if e = [] \<or> e = ''.'' then clean_elems rooted acc es
      else if e = ''..''
      then (case acc of
              [] \<Rightarrow> clean_elems rooted (if rooted then [] else [e]) es
            | a # as \<Rightarrow> if a = ''..'' then clean_elems rooted (e # acc) es else clean_elems rooted as es)
      else clean_elems rooted (e # acc) es)"

definition filepath_Join :: "string list \<Rightarrow> path" where
  "filepath_Join parts =
     (case filter (\<lambda>p. p \<noteq> []) parts of
        [] \<Rightarrow> (False, [])
      | p # ps \<Rightarrow> let rooted = (hd p = CHR ''/'')
                  in (rooted, clean_elems rooted [] (concat (map (split_slash []) (p # ps)))))"

definition filepath_Dir :: "path \<Rightarrow> path" where
  "filepath_Dir p = (fst p, butlast (snd p))"

definition filepath_Base :: "path \<Rightarrow> string" where
  "filepath_Base p = (if snd p = [] then (if fst p then ''/'' else ''.'') else last (snd p))"

text \<open>\<open>path + suffix\<close> on a clean path that has an element.\<close>

definition path_add :: "path \<Rightarrow> string \<Rightarrow> path" where
  "path_add p suffix = (fst p, butlast (snd p) @ [last (snd p) @ suffix])"

section \<open>The file system (os)\<close>

datatype fnode = FDir | FFile "byte list"

record fsys =
  fs_tree :: "(path \<times> fnode) list"
  fs_fault :: "nat \<Rightarrow> (string \<times> nat) option"
  fs_calls :: nat
  rand_src :: "nat \<Rightarrow> err + byte list"
  rand_n :: nat

definition fs_get :: "fsys \<Rightarrow> path \<Rightarrow> fnode option" where
  "fs_get s p = map_of (fs_tree s) p"

definition fs_put :: "path \<Rightarrow> fnode \<Rightarrow> fsys \<Rightarrow> fsys" where
  "fs_put p x s = s\<lparr>fs_tree := (p, x) # filter (\<lambda>e. fst e \<noteq> p) (fs_tree s)\<rparr>"

definition fs_del :: "path \<Rightarrow> fsys \<Rightarrow> fsys" where
  "fs_del p s = s\<lparr>fs_tree := filter (\<lambda>e. fst e \<noteq> p) (fs_tree s)\<rparr>"

definition is_dir :: "fsys \<Rightarrow> path \<Rightarrow> bool" where
  "is_dir s p \<longleftrightarrow> snd p = [] \<or> fs_get s p = Some FDir"

definition ENOENT :: err where "ENOENT = Err ''no such file or directory''"
definition ENOTDIR :: err where "ENOTDIR = Err ''not a directory''"
definition EISDIR :: err where "EISDIR = Err ''is a directory''"
definition ENOTEMPTY :: err where "ENOTEMPTY = Err ''directory not empty''"

definition os_IsNotExist :: "err \<Rightarrow> bool" where
  "os_IsNotExist e \<longleftrightarrow> e = ENOENT"

text \<open>A system call: counted, and failing when the fault stream says so.\<close>

definition fs_call :: "(fsys \<Rightarrow> (fsys, 'a) res) \<Rightarrow> (nat \<Rightarrow> fsys \<Rightarrow> fsys) \<Rightarrow> fsys \<Rightarrow> (fsys, 'a) res" where
  "fs_call op torn s =
     (let s1 = s\<lparr>fs_calls := Suc (fs_calls s)\<rparr>
      in case fs_fault s (fs_calls s) of
           None \<Rightarrow> op s1
         | Some (e, n) \<Rightarrow> (Inl (Err e), torn n s1))"

fun mkdirs :: "bool \<Rightarrow> string list \<Rightarrow> string list \<Rightarrow> fsys \<Rightarrow> (fsys, unit) res" where
  "mkdirs rooted acc [] s = (Inr (), s)"
| "mkdirs rooted acc (e # es) s =
     (let p = (rooted, acc @ [e])
      in case fs_get s p of
           Some FDir \<Rightarrow> mkdirs rooted (acc @ [e]) es s
         | Some (FFile _) \<Rightarrow> (Inl ENOTDIR, s)
         | None \<Rightarrow> mkdirs rooted (acc @ [e]) es (fs_put p FDir s))"

definition os_MkdirAll :: "path \<Rightarrow> fsys \<Rightarrow> (fsys, unit) res" where
  "os_MkdirAll p = fs_call (mkdirs (fst p) [] (snd p)) (\<lambda>_ s. s)"

definition os_WriteFile :: "path \<Rightarrow> byte list \<Rightarrow> fsys \<Rightarrow> (fsys, unit) res" where
  "os_WriteFile p bs =
     fs_call (\<lambda>s. if \<not> is_dir s (filepath_Dir p) then (Inl ENOENT, s)
                  else if is_dir s p then (Inl EISDIR, s)
                  else (Inr (), fs_put p (FFile bs) s))
             (\<lambda>n s. if is_dir s (filepath_Dir p) \<and> \<not> is_dir s p then fs_put p (FFile (take n bs)) s else s)"

definition os_Rename :: "path \<Rightarrow> path \<Rightarrow> fsys \<Rightarrow> (fsys, unit) res" where
  "os_Rename a b =
     fs_call (\<lambda>s. case fs_get s a of
                None \<Rightarrow> (Inl ENOENT, s)
              | Some x \<Rightarrow> if is_dir s b then (Inl EISDIR, s) else (Inr (), fs_put b x (fs_del a s)))
             (\<lambda>_ s. s)"

definition under_file :: "fsys \<Rightarrow> path \<Rightarrow> bool" where
  "under_file s p \<longleftrightarrow> (\<exists>n \<in> set [1..<length (snd p)]. \<exists>bs. fs_get s (fst p, take n (snd p)) = Some (FFile bs))"

definition os_ReadFile :: "path \<Rightarrow> fsys \<Rightarrow> (fsys, byte list) res" where
  "os_ReadFile p =
     fs_call (\<lambda>s. case fs_get s p of
                Some (FFile bs) \<Rightarrow> (Inr bs, s)
              | Some FDir \<Rightarrow> (Inl EISDIR, s)
              | None \<Rightarrow> (Inl (if under_file s p then ENOTDIR else ENOENT), s))
             (\<lambda>_ s. s)"

definition dir_empty :: "fsys \<Rightarrow> path \<Rightarrow> bool" where
  "dir_empty s p \<longleftrightarrow> (\<forall>e \<in> set (fs_tree s). snd (fst e) \<noteq> [] \<longrightarrow> filepath_Dir (fst e) \<noteq> p)"

definition os_Remove :: "path \<Rightarrow> fsys \<Rightarrow> (fsys, unit) res" where
  "os_Remove p =
     fs_call (\<lambda>s. case fs_get s p of
                None \<Rightarrow> (Inl (if under_file s p then ENOTDIR else ENOENT), s)
              | Some (FFile _) \<Rightarrow> (Inr (), fs_del p s)
              | Some FDir \<Rightarrow> if dir_empty s p then (Inr (), fs_del p s) else (Inl ENOTEMPTY, s))
             (\<lambda>_ s. s)"

text \<open>\<open>os.Open\<close> of a directory and \<open>Readdirnames(1)\<close>: whether it reports \<open>io.EOF\<close>.\<close>

definition os_OpenDir :: "path \<Rightarrow> fsys \<Rightarrow> (fsys, unit) res" where
  "os_OpenDir p = fs_call (\<lambda>s. if is_dir s p then (Inr (), s) else (Inl ENOENT, s)) (\<lambda>_ s. s)"

definition os_ReaddirEOF :: "path \<Rightarrow> fsys \<Rightarrow> (fsys, bool) res" where
  "os_ReaddirEOF p = fs_call (\<lambda>s. (Inr (dir_empty s p), s)) (\<lambda>_ s. s)"

section \<open>Encryption\<close>

record gcm_lib =
  gcm_seal :: "byte list \<Rightarrow> byte list \<Rightarrow> byte list \<Rightarrow> byte list"
  gcm_open :: "byte list \<Rightarrow> byte list \<Rightarrow> byte list \<Rightarrow> byte list option"

definition NonceSize :: nat where "NonceSize = 12"

record FileSystemKeyShareStorage =
  fss_basePath :: string
  fss_encryptionKey :: "byte list"

definition aes_NewCipher :: "byte list \<Rightarrow> err + unit" where
  "aes_NewCipher key =
     (if length key \<in> {16, 24, 32} then Inr ()
      else Inl (Err (''crypto/aes: invalid key size '' @ nat_digits (length key))))"

definition ks_encrypt ::
  "gcm_lib \<Rightarrow> FileSystemKeyShareStorage \<Rightarrow> byte list \<Rightarrow> fsys \<Rightarrow> (fsys, byte list) res" where
  "ks_encrypt lib st plaintext s =
     (case aes_NewCipher (fss_encryptionKey st) of
        Inl e \<Rightarrow> (Inl (wrap_err ''failed to create cipher'' e), s)
      | Inr _ \<Rightarrow>
          let r = rand_src s (rand_n s); s = s\<lparr>rand_n := Suc (rand_n s)\<rparr>
          in case r of
               Inl e \<Rightarrow> (Inl (wrap_err ''failed to generate nonce'' e), s)
             | Inr nonce \<Rightarrow> (Inr (nonce @ gcm_seal lib (fss_encryptionKey st) nonce plaintext), s))"

definition ks_decrypt :: "gcm_lib \<Rightarrow> FileSystemKeyShareStorage \<Rightarrow> byte list \<Rightarrow> err + byte list" where
  "ks_decrypt lib st ciphertext =
     pure_wrap (aes_NewCipher (fss_encryptionKey st)) ''failed to create cipher''
       (\<lambda>_. if length ciphertext < NonceSize then Inl (Err ''ciphertext too short'')
            else case gcm_open lib (fss_encryptionKey st) (take NonceSize ciphertext) (drop NonceSize ciphertext) of
                   None \<Rightarrow> Inl (Wrap (Err ''cipher: message authentication failed'') ''failed to decrypt'')
                 | Some p \<Rightarrow> Inr p)"

section \<open>The storage\<close>

definition NewFileSystemKeyShareStorage ::
  "(string \<Rightarrow> string \<Rightarrow> err + byte list) \<Rightarrow> string \<Rightarrow> string \<Rightarrow> fsys \<Rightarrow> (fsys, FileSystemKeyShareStorage) res" where
  "NewFileSystemKeyShareStorage scrypt_Key basePath encryptionKey s =
     (case scrypt_Key encryptionKey ''mpc-key-share-salt'' of
        Inl e \<Rightarrow> (Inl (wrap_err ''failed to derive encryption key'' e), s)
      | Inr key \<Rightarrow>
          or_wrap (os_MkdirAll (filepath_Join [basePath]) s) ''failed to create base path''
            (\<lambda>_ s. (Inr \<lparr>fss_basePath = basePath, fss_encryptionKey = key\<rparr>, s)))"

definition getFilePath :: "FileSystemKeyShareStorage \<Rightarrow> string \<Rightarrow> string \<Rightarrow> path" where
  "getFilePath st keyID nodeID = filepath_Join [fss_basePath st, keyID, nodeID @ ''.enc'']"

definition keyDataPath :: "FileSystemKeyShareStorage \<Rightarrow> string \<Rightarrow> string \<Rightarrow> path" where
  "keyDataPath st keyID nodeID = filepath_Join [fss_basePath st, keyID, nodeID @ ''.keydata.enc'']"

text \<open>Both kinds of store write a temporary file and rename it.\<close>

definition write_atomic :: "path \<Rightarrow> byte list \<Rightarrow> string \<Rightarrow> fsys \<Rightarrow> (fsys, unit) res" where
  "write_atomic filePath encrypted what s =
     or_wrap (os_MkdirAll (filepath_Dir filePath) s) ''failed to create directory''
       (\<lambda>_ s. or_wrap (os_WriteFile (path_add filePath ''.tmp'') encrypted s) what
         (\<lambda>_ s. or_wrap (os_Rename (path_add filePath ''.tmp'') filePath s) ''failed to rename temp file''
           (\<lambda>_ s. (Inr (), s))))"

definition StoreKeyShare ::
  "gcm_lib \<Rightarrow> FileSystemKeyShareStorage \<Rightarrow> fsys \<Rightarrow> string \<Rightarrow> string \<Rightarrow> byte list \<Rightarrow> (fsys, unit) res" where
  "StoreKeyShare lib st s keyID nodeID share =
     or_wrap (ks_encrypt lib st share s) ''failed to encrypt key share''
       (\<lambda>encrypted s. write_atomic (getFilePath st keyID nodeID) encrypted ''failed to write encrypted share'' s)"

definition GetKeyShare ::
  "gcm_lib \<Rightarrow> FileSystemKeyShareStorage \<Rightarrow> fsys \<Rightarrow> string \<Rightarrow> string \<Rightarrow> (fsys, byte list) res" where
  "GetKeyShare lib st s keyID nodeID =
     (case os_ReadFile (getFilePath st keyID nodeID) s of
        (Inl e, s) \<Rightarrow> (Inl (if os_IsNotExist e then Err ''key share not found''
                            else wrap_err ''failed to read encrypted share'' e), s)
      | (Inr encrypted, s) \<Rightarrow>
          (pure_wrap (ks_decrypt lib st encrypted) ''failed to decrypt key share'' Inr, s))"

definition DeleteKeyShare ::
  "FileSystemKeyShareStorage \<Rightarrow> fsys \<Rightarrow> string \<Rightarrow> string \<Rightarrow> (fsys, unit) res" where
  "DeleteKeyShare st s keyID nodeID =
     (let filePath = getFilePath st keyID nodeID; dirPath = filepath_Dir filePath
      in case os_Remove filePath s of
           (Inl e, s) \<Rightarrow> if os_IsNotExist e then (Inr (), s)
                         else (Inl (wrap_err ''failed to delete key share'' e), s)
         | (Inr _, s) \<Rightarrow>
             (case os_OpenDir dirPath s of
                (Inl _, s) \<Rightarrow> (Inr (), s)
              | (Inr _, s) \<Rightarrow>
                  (case os_ReaddirEOF dirPath s of
                     (Inr True, s) \<Rightarrow> (Inr (), snd (os_Remove dirPath s))
                   | (_, s) \<Rightarrow> (Inr (), s))))"

text \<open>
  \<open>filepath.Walk\<close> visits the entries below the base path in lexical order; its
  reads of directories count as one call.
\<close>

definition below :: "path \<Rightarrow> path \<Rightarrow> bool" where
  "below base p \<longleftrightarrow> fst p = fst base \<and> take (length (snd base)) (snd p) = snd base"

definition walk_files :: "path \<Rightarrow> fsys \<Rightarrow> path list" where
  "walk_files base s =
     map (Pair (fst base)) (sort (map (snd \<circ> fst)
       (filter (\<lambda>e. below base (fst e) \<and> snd e \<noteq> FDir) (fs_tree s))))"

definition ListKeyShares :: "FileSystemKeyShareStorage \<Rightarrow> fsys \<Rightarrow> string \<Rightarrow> (fsys, string list) res" where
  "ListKeyShares st s nodeID =
     or_wrap (fs_call (\<lambda>s. if fs_get s (filepath_Join [fss_basePath st]) = None \<and> snd (filepath_Join [fss_basePath st]) \<noteq> []
                           then (Inl ENOENT, s)
                           else (Inr (walk_files (filepath_Join [fss_basePath st]) s), s)) (\<lambda>_ s. s) s)
       ''failed to list key shares''
       (\<lambda>ps s. (Inr (map (filepath_Base \<circ> filepath_Dir)
                     (filter (\<lambda>p. filepath_Base p = nodeID @ ''.enc'') ps)), s))"

definition StoreKeyData ::
  "gcm_lib \<Rightarrow> FileSystemKeyShareStorage \<Rightarrow> fsys \<Rightarrow> string \<Rightarrow> string \<Rightarrow> byte list \<Rightarrow> (fsys, unit) res" where
  "StoreKeyData lib st s keyID nodeID keyData =
     or_wrap (ks_encrypt lib st keyData s) ''failed to encrypt key data''
       (\<lambda>encrypted s. write_atomic (keyDataPath st keyID nodeID) encrypted ''failed to write encrypted key data'' s)"

definition GetKeyData ::
  "gcm_lib \<Rightarrow> FileSystemKeyShareStorage \<Rightarrow> fsys \<Rightarrow> string \<Rightarrow> string \<Rightarrow> (fsys, byte list) res" where
  "GetKeyData lib st s keyID nodeID =
     (case os_ReadFile (keyDataPath st keyID nodeID) s of
        (Inl e, s) \<Rightarrow> (Inl (if os_IsNotExist e then Err ''key data not found''
                            else wrap_err ''failed to read encrypted key data'' e), s)
      | (Inr encrypted, s) \<Rightarrow>
          (pure_wrap (ks_decrypt lib st encrypted) ''failed to decrypt key data'' Inr, s))"

text \<open>A share that reads as hexadecimal must decode to 32 bytes, any other must have 32.\<close>

definition ValidateKeyShare :: "byte list \<Rightarrow> err + unit" where
  "ValidateKeyShare share =
     (if share = [] then Inl (Err ''key share is empty'')
      else case hex_DecodeString (string_of_bytes share) of
          Inr decoded \<Rightarrow> if length decoded < 32
            then Inl (Err (''key share too short: '' @ nat_digits (length decoded) @ '' bytes'')) else Inr ()
        | Inl _ \<Rightarrow> if length share < 32
            then Inl (Err (''key share too short: '' @ nat_digits (length share) @ '' bytes'')) else Inr ())"

end
