(* ===== verification/KeyShareProps.thy ===== *)
theory KeyShareProps
  imports KeyShareFS
begin

text \<open>
  The properties of the key share files: a store is all or nothing under every
  failure, what was stored is read back, and which identifiers name which files.
\<close>

section \<open>Names of files\<close>

lemma split_slash_app:
  assumes "CHR ''/'' \<notin> set suf"
  shows "\<exists>es e. \<forall>suf. CHR ''/'' \<notin> set suf \<longrightarrow> split_slash acc (s @ suf) = es @ [e @ suf]"
proof (induction s arbitrary: acc)
  case Nil
  have "split_slash acc suf = [rev acc @ suf]" if "CHR ''/'' \<notin> set suf" for suf
    using that by (induction suf arbitrary: acc) auto
  then show ?case by (intro exI [of _ "[]"] exI [of _ "rev acc"]) simp
next
  case (Cons c s)
  show ?case
  proof (cases "c = CHR ''/''")
    case True
    obtain es e where "\<forall>suf. CHR ''/'' \<notin> set suf \<longrightarrow> split_slash [] (s @ suf) = es @ [e @ suf]"
      using Cons by blast
    with True show ?thesis
      by (intro exI [of _ "rev acc # es"] exI [of _ e]) simp
  next
    case False
    obtain es e where "\<forall>suf. CHR ''/'' \<notin> set suf \<longrightarrow> split_slash (c # acc) (s @ suf) = es @ [e @ suf]"
      using Cons by blast
    with False show ?thesis
      by (intro exI [of _ es] exI [of _ e]) simp
  qed
qed

lemma split_slash_plain: "CHR ''/'' \<notin> set s \<Longrightarrow> split_slash acc s = [rev acc @ s]"
  by (induction s arbitrary: acc) auto

lemma clean_elems_snoc:
  "x \<noteq> [] \<Longrightarrow> x \<noteq> ''.'' \<Longrightarrow> x \<noteq> ''..'' \<Longrightarrow> clean_elems r acc (es @ [x]) = clean_elems r acc es @ [x]"
  by (induction r acc es rule: clean_elems.induct) (auto split: list.splits)

text \<open>The last element of a share's path is the last part of the node id with the extension.\<close>

lemma join_last:
  assumes "name \<noteq> []" and "ext \<noteq> []" and "CHR ''/'' \<notin> set ext" and "4 \<le> length ext"
  shows "\<exists>r es e. \<forall>suf. CHR ''/'' \<notin> set suf \<and> 4 \<le> length suf \<longrightarrow>
           filepath_Join [base, k, n @ suf] = (r, es @ [e @ suf])"
proof -
  obtain es e where sp: "\<And>suf. CHR ''/'' \<notin> set suf \<Longrightarrow> split_slash [] (n @ suf) = es @ [e @ suf]"
    using split_slash_app [OF assms(3), of "[]" n] by blast
  let ?front = "filter (\<lambda>p. p \<noteq> []) [base, k]"
  have cl: "clean_elems r [] (xs @ es @ [e @ suf]) = clean_elems r [] (xs @ es) @ [e @ suf]"
    if "4 \<le> length suf" for r xs suf
  proof -
    have "e @ suf \<noteq> []" "e @ suf \<noteq> ''.''" "e @ suf \<noteq> ''..''"
      using that by (auto simp: append_eq_Cons_conv)
    then show ?thesis
      using clean_elems_snoc [of "e @ suf" r "[]" "xs @ es"] by simp
  qed
  show ?thesis
  proof (cases ?front)
    case Nil
    then have "base = []" "k = []" by (simp_all split: if_splits)
    have hd: "hd (n @ suf) = (if n = [] then hd suf else hd n)" for suf by simp
    show ?thesis
    proof (cases "n = []")
      case True
      have "filepath_Join [base, k, n @ suf] = (False, clean_elems False [] es @ [e @ suf])"
        if "CHR ''/'' \<notin> set suf \<and> 4 \<le> length suf" for suf
      proof -
        from that have "suf \<noteq> []" by auto
        then have "hd suf \<noteq> CHR ''/''"
          using that hd_in_set [of suf] by metis
        with \<open>suf \<noteq> []\<close> True that sp [of suf] cl [of suf False "[]"] \<open>base = []\<close> \<open>k = []\<close> show ?thesis
          by (simp add: filepath_Join_def)
      qed
      then show ?thesis by blast
    next
      case False
      have "filepath_Join [base, k, n @ suf] =
          (hd n = CHR ''/'', clean_elems (hd n = CHR ''/'') [] es @ [e @ suf])"
        if "CHR ''/'' \<notin> set suf \<and> 4 \<le> length suf" for suf
        using False that sp [of suf] cl [of suf "hd n = CHR ''/''" "[]"] \<open>base = []\<close> \<open>k = []\<close>
        by (simp add: filepath_Join_def Let_def)
      then show ?thesis by blast
    qed
  next
    case (Cons p ps)
    let ?r = "hd p = CHR ''/''"
    let ?xs = "concat (map (split_slash []) (p # ps))"
    have "filepath_Join [base, k, n @ suf] = (?r, clean_elems ?r [] (?xs @ es) @ [e @ suf])"
      if "CHR ''/'' \<notin> set suf \<and> 4 \<le> length suf" for suf
    proof -
      from that have "suf \<noteq> []" by auto
      then have "filter (\<lambda>p. p \<noteq> []) [base, k, n @ suf] = (p # ps) @ [n @ suf]"
        using Cons by (simp split: if_splits)
      with that sp [of suf] cl [of suf ?r ?xs] show ?thesis
        by (simp add: filepath_Join_def Let_def)
    qed
    then show ?thesis by blast
  qed
qed

lemma path_names:
  "\<exists>r es e. getFilePath st k n = (r, es @ [e @ ''.enc'']) \<and> keyDataPath st k n = (r, es @ [e @ ''.keydata.enc''])"
proof -
  obtain r es e where "\<forall>suf. CHR ''/'' \<notin> set suf \<and> 4 \<le> length suf \<longrightarrow>
      filepath_Join [fss_basePath st, k, n @ suf] = (r, es @ [e @ suf])"
    using join_last [of "''a''" "''.enc''" "fss_basePath st" k n] by auto
  then show ?thesis
    unfolding getFilePath_def keyDataPath_def by (intro exI [of _ r] exI [of _ es] exI [of _ e]) simp
qed

text \<open>A path of the storage: it has an element and the last one ends with \<open>.enc\<close>.\<close>

definition enc_path :: "path \<Rightarrow> bool" where
  "enc_path p \<longleftrightarrow> (\<exists>es e. snd p = es @ [e @ ''.enc''])"

lemma enc_paths [simp]: "enc_path (getFilePath st k n)" "enc_path (keyDataPath st k n)"
proof -
  obtain r es e where p: "getFilePath st k n = (r, es @ [e @ ''.enc''])"
    "keyDataPath st k n = (r, es @ [e @ ''.keydata.enc''])"
    using path_names by blast
  show "enc_path (getFilePath st k n)"
    using p(1) unfolding enc_path_def by auto
  have "e @ ''.keydata.enc'' = (e @ ''.keydata'') @ ''.enc''"
    by simp
  with p(2) show "enc_path (keyDataPath st k n)"
    unfolding enc_path_def by (metis snd_conv)
qed

lemma enc_path_tmp: "enc_path p \<Longrightarrow> enc_path q \<Longrightarrow> path_add p ''.tmp'' \<noteq> q"
proof
  assume "enc_path p" "enc_path q" "path_add p ''.tmp'' = q"
  then obtain es e es' e' where "snd p = es @ [e @ ''.enc'']" "snd q = es' @ [e' @ ''.enc'']" by (auto simp: enc_path_def)
  with \<open>path_add p ''.tmp'' = q\<close> have "e @ ''.enc.tmp'' = e' @ ''.enc''"
    by (auto simp: path_add_def)
  then have "rev (e @ ''.enc.tmp'') = rev (e' @ ''.enc'')"
    by (simp only:)
  then show False by simp
qed

section \<open>Files\<close>

definition content :: "fsys \<Rightarrow> path \<Rightarrow> byte list option" where
  "content s p = (case fs_get s p of Some (FFile bs) \<Rightarrow> Some bs | _ \<Rightarrow> None)"

lemma map_of_without: "map_of (filter (\<lambda>e. fst e \<noteq> p) t) q = (if q = p then None else map_of t q)"
  by (induction t) auto

lemma fs_get_put: "fs_get (fs_put p x s) q = (if q = p then Some x else fs_get s q)"
  by (simp add: fs_get_def fs_put_def map_of_without)

lemma fs_get_del: "fs_get (fs_del p s) q = (if q = p then None else fs_get s q)"
  by (simp add: fs_get_def fs_del_def map_of_without)

lemma fs_get_calls [simp]: "fs_get (s\<lparr>fs_calls := n\<rparr>) p = fs_get s p" "fs_get (s\<lparr>rand_n := n\<rparr>) p = fs_get s p"
  by (simp_all add: fs_get_def)

lemma content_calls [simp]: "content (s\<lparr>fs_calls := n\<rparr>) p = content s p" "content (s\<lparr>rand_n := n\<rparr>) p = content s p"
  by (simp_all add: content_def)

lemma content_new_dir: "fs_get s q = None \<Longrightarrow> content (fs_put q FDir s) p = content s p"
  by (simp add: content_def fs_get_put)

lemma mkdirs_content: "mkdirs r acc es s = (x, s') \<Longrightarrow> content s' p = content s p"
proof (induction es arbitrary: acc s)
  case Nil
  then show ?case by simp
next
  case (Cons e es)
  show ?case
  proof (cases "fs_get s (r, acc @ [e])")
    case None
    with Cons.prems Cons.IH [of "acc @ [e]" "fs_put (r, acc @ [e]) FDir s"] show ?thesis
      by (simp add: content_new_dir)
  next
    case (Some y)
    with Cons.prems Cons.IH [of "acc @ [e]" s] show ?thesis
      by (cases y) simp_all
  qed
qed

lemma os_MkdirAll_content: "os_MkdirAll d s = (x, s') \<Longrightarrow> content s' p = content s p"
  by (auto simp: os_MkdirAll_def fs_call_def Let_def split: option.splits dest: mkdirs_content [of _ _ _ _ _ _ p])

lemma os_WriteFile_content:
  "os_WriteFile q bs s = (x, s') \<Longrightarrow> p \<noteq> q \<Longrightarrow> content s' p = content s p"
  "os_WriteFile q bs s = (Inr (), s') \<Longrightarrow> content s' q = Some bs"
  by (auto simp: os_WriteFile_def fs_call_def Let_def content_def fs_get_put split: option.splits if_splits)

lemma os_Rename_content:
  assumes "os_Rename a b s = (x, s')"
  shows "p \<noteq> a \<Longrightarrow> p \<noteq> b \<Longrightarrow> content s' p = content s p"
    and "a \<noteq> b \<Longrightarrow> x = Inr () \<Longrightarrow> content s' b = content s a"
    and "a \<noteq> b \<Longrightarrow> x \<noteq> Inr () \<Longrightarrow> content s' b = content s b"
  using assms
  by (auto simp: os_Rename_def fs_call_def Let_def content_def fs_get_put fs_get_del
      split: option.splits if_splits)

text \<open>The contract of the temporary file and the rename.\<close>

lemma write_atomic_content:
  assumes "write_atomic f bs what s = (x, s')" and "enc_path f"
  shows "enc_path p \<Longrightarrow> p \<noteq> f \<Longrightarrow> content s' p = content s p"
    and "x = Inr () \<Longrightarrow> content s' f = Some bs"
    and "x \<noteq> Inr () \<Longrightarrow> content s' f = content s f"
proof -
  let ?t = "path_add f ''.tmp''"
  obtain x1 s1 where 1: "os_MkdirAll (filepath_Dir f) s = (x1, s1)"
    by (cases "os_MkdirAll (filepath_Dir f) s")
  obtain x2 s2 where 2: "os_WriteFile ?t bs s1 = (x2, s2)"
    by (cases "os_WriteFile ?t bs s1")
  obtain x3 s3 where 3: "os_Rename ?t f s2 = (x3, s3)"
    by (cases "os_Rename ?t f s2")
  have t: "p \<noteq> ?t" if "enc_path p" for p
    using enc_path_tmp [OF assms(2) that] by blast
  note c = os_MkdirAll_content [OF 1]
  have run: "(x = Inr () \<and> x1 = Inr () \<and> x2 = Inr () \<and> x3 = Inr () \<and> s' = s3) \<or>
      (x \<noteq> Inr () \<and> (s' = s1 \<or> s' = s2 \<or> s' = s3 \<and> x3 \<noteq> Inr ()))"
    using assms(1) 1 2 3
    by (cases x1; cases x2; cases x3; auto simp: write_atomic_def)
  show "content s' p = content s p" if "enc_path p" "p \<noteq> f"
    using run c(1) [of p] os_WriteFile_content(1) [OF 2 t [OF that(1)]]
      os_Rename_content(1) [OF 3 t [OF that(1)] that(2)] by auto
  show "content s' f = Some bs" if "x = Inr ()"
    using run that os_WriteFile_content(2) [of ?t bs s1 s2] 2 os_Rename_content(2) [OF 3]
      t [OF assms(2)] by auto
  show "content s' f = content s f" if "x \<noteq> Inr ()"
    using run that c(1) [of f] os_WriteFile_content(1) [OF 2 t [OF assms(2)]]
      os_Rename_content(3) [OF 3] t [OF assms(2)] by auto
qed

section \<open>Shares\<close>

definition gcm_ok :: "gcm_lib \<Rightarrow> bool" where
  "gcm_ok lib \<longleftrightarrow> (\<forall>key nonce p. length nonce = NonceSize \<longrightarrow>
     gcm_open lib key nonce (gcm_seal lib key nonce p) = Some p)"

definition rand_ok :: "fsys \<Rightarrow> bool" where
  "rand_ok s \<longleftrightarrow> (\<forall>n bs. rand_src s n = Inr bs \<longrightarrow> length bs = NonceSize)"

text \<open>The share and the key data the files hold, read without a fault.\<close>

definition opened :: "gcm_lib \<Rightarrow> FileSystemKeyShareStorage \<Rightarrow> fsys \<Rightarrow> path \<Rightarrow> byte list option" where
  "opened lib st s p =
     (case content s p of None \<Rightarrow> None
      | Some bs \<Rightarrow> (case ks_decrypt lib st bs of Inl _ \<Rightarrow> None | Inr x \<Rightarrow> Some x))"

definition stored_share :: "gcm_lib \<Rightarrow> FileSystemKeyShareStorage \<Rightarrow> fsys \<Rightarrow> string \<Rightarrow> string \<Rightarrow> byte list option" where
  "stored_share lib st s k n = opened lib st s (getFilePath st k n)"

definition stored_data :: "gcm_lib \<Rightarrow> FileSystemKeyShareStorage \<Rightarrow> fsys \<Rightarrow> string \<Rightarrow> string \<Rightarrow> byte list option" where
  "stored_data lib st s k n = opened lib st s (keyDataPath st k n)"

lemma ks_encrypt_decrypt:
  assumes "ks_encrypt lib st x s = (r, s')" and "gcm_ok lib" and "rand_ok s"
  shows "r = Inr bs \<Longrightarrow> ks_decrypt lib st bs = Inr x" and "content s' p = content s p" and "rand_ok s'"
  using assms
  by (auto simp: ks_encrypt_def ks_decrypt_def Let_def gcm_ok_def rand_ok_def pure_wrap_def split: sum.splits)

lemma rand_src_frame:
  "rand_src (snd (write_atomic f bs what s)) = rand_src s"
proof -
  have m: "rand_src (snd (mkdirs r acc es s)) = rand_src s" for r acc es s
    by (induction es arbitrary: acc s)
       (auto simp: Let_def fs_put_def split: option.splits fnode.splits)
  have 1: "rand_src (snd (os_MkdirAll d s)) = rand_src s" for d s
    using m by (auto simp: os_MkdirAll_def fs_call_def Let_def split: option.splits)
  have 2: "rand_src (snd (os_WriteFile p b s)) = rand_src s" for p b s
    by (auto simp: os_WriteFile_def fs_call_def Let_def fs_put_def split: option.splits)
  have 3: "rand_src (snd (os_Rename a b s)) = rand_src s" for a b s
    by (auto simp: os_Rename_def fs_call_def Let_def fs_put_def fs_del_def split: option.splits)
  have "(\<lambda>v. rand_src v = rand_src s) (snd (write_atomic f bs what s))"
    unfolding write_atomic_def
    by (rule snd_or_wrapI [where P = "\<lambda>v. rand_src v = rand_src s"], simp add: 1)
       (rule snd_or_wrapI [where P = "\<lambda>v. rand_src v = rand_src s"], simp add: 2,
        rule snd_or_wrapI [where P = "\<lambda>v. rand_src v = rand_src s"], simp_all add: 3)
  then show ?thesis by simp
qed

lemma store_at:
  assumes "or_wrap (ks_encrypt lib st x s) m (\<lambda>enc s. write_atomic f enc what s) = (r, s')"
    and "gcm_ok lib" and "rand_ok s" and "enc_path f"
  shows "opened lib st s' f = (if r = Inr () then Some x else opened lib st s f)"
    and "enc_path p \<Longrightarrow> p \<noteq> f \<Longrightarrow> opened lib st s' p = opened lib st s p"
    and "rand_ok s'"
proof -
  obtain r1 s1 where enc: "ks_encrypt lib st x s = (r1, s1)"
    by (cases "ks_encrypt lib st x s")
  note e = ks_encrypt_decrypt [OF enc assms(2,3)]
  have "(opened lib st s' f = (if r = Inr () then Some x else opened lib st s f))
      \<and> (enc_path p \<longrightarrow> p \<noteq> f \<longrightarrow> opened lib st s' p = opened lib st s p) \<and> rand_ok s'"
  proof (cases r1)
    case (Inl err)
    with assms(1) enc e(2,3) show ?thesis by (auto simp: opened_def)
  next
    case (Inr bs)
    with assms(1) enc have run: "write_atomic f bs what s1 = (r, s')"
      by simp
    note w = write_atomic_content [OF run assms(4)]
    have "rand_ok s'"
      using e(3) rand_src_frame [of f bs what s1] run by (simp add: rand_ok_def)
    moreover have "opened lib st s' f = Some x" if "r = Inr ()"
      using w(2) [OF that] e(1) [OF Inr] by (simp add: opened_def)
    moreover have "opened lib st s' f = opened lib st s f" if "r \<noteq> Inr ()"
      using w(3) [OF that] e(2) by (simp add: opened_def)
    moreover have "opened lib st s' p = opened lib st s p" if "enc_path p" "p \<noteq> f"
      using w(1) [OF that] e(2) by (simp add: opened_def)
    ultimately show ?thesis by simp
  qed
  then show "opened lib st s' f = (if r = Inr () then Some x else opened lib st s f)"
    "enc_path p \<Longrightarrow> p \<noteq> f \<Longrightarrow> opened lib st s' p = opened lib st s p" "rand_ok s'"
    by blast+
qed

lemmas store_share_at = store_at [OF _ _ _ enc_paths(1)]
lemmas store_data_at = store_at [OF _ _ _ enc_paths(2)]

lemma GetKeyShare_reads:
  assumes "fs_fault s (fs_calls s) = None"
  shows "case stored_share lib st s k n of
           Some x \<Rightarrow> fst (GetKeyShare lib st s k n) = Inr x
         | None \<Rightarrow> isl (fst (GetKeyShare lib st s k n))"
  using assms
  by (auto simp: GetKeyShare_def os_ReadFile_def fs_call_def Let_def stored_share_def opened_def
      content_def pure_wrap_def split: option.splits fnode.splits sum.splits)

text \<open>
  C3: Storing a key share is all or nothing. Whatever system call fails, and
  however much of its data a failing write leaves behind, the share that is
  readable afterwards is the new one exactly when the store reported success and
  the old one otherwise; every other share and every key data file of another
  path is as before.
\<close>

theorem store_key_share_atomic:
  assumes "StoreKeyShare lib st s k n share = (r, s')" and "gcm_ok lib" and "rand_ok s"
  shows "stored_share lib st s' k n = (if r = Inr () then Some share else stored_share lib st s k n)
    \<and> (\<forall>k' n'. getFilePath st k' n' \<noteq> getFilePath st k n \<longrightarrow>
          stored_share lib st s' k' n' = stored_share lib st s k' n')
    \<and> (\<forall>k' n'. keyDataPath st k' n' \<noteq> getFilePath st k n \<longrightarrow>
          stored_data lib st s' k' n' = stored_data lib st s k' n')"
proof (intro conjI allI impI)
  note at = store_share_at [OF assms(1) [unfolded StoreKeyShare_def] assms(2,3)]
  show "stored_share lib st s' k n = (if r = Inr () then Some share else stored_share lib st s k n)"
    using at(1) by (simp add: stored_share_def)
  show "stored_share lib st s' k' n' = stored_share lib st s k' n'"
    if "getFilePath st k' n' \<noteq> getFilePath st k n" for k' n'
    using at(2) [OF enc_paths(1) that] by (simp add: stored_share_def)
  show "stored_data lib st s' k' n' = stored_data lib st s k' n'"
    if "keyDataPath st k' n' \<noteq> getFilePath st k n" for k' n'
    using at(2) [OF enc_paths(2) that] by (simp add: stored_data_def)
qed

text \<open>A library and a disk for the examples: sealing prepends nothing and adds a tag byte.\<close>

definition toy_gcm :: gcm_lib where
  "toy_gcm = \<lparr>gcm_seal = (\<lambda>key nonce p. p @ [7]),
              gcm_open = (\<lambda>key nonce c. if c \<noteq> [] \<and> last c = 7 then Some (butlast c) else None)\<rparr>"

definition toy_fs :: "(nat \<Rightarrow> (string \<times> nat) option) \<Rightarrow> fsys" where
  "toy_fs fault = \<lparr>fs_tree = [((True, [''data'']), FDir)], fs_fault = fault, fs_calls = 0,
     rand_src = (\<lambda>_. Inr (replicate 12 0)), rand_n = 0\<rparr>"

definition toy_storage :: FileSystemKeyShareStorage where
  "toy_storage = \<lparr>fss_basePath = ''/data'', fss_encryptionKey = replicate 32 1\<rparr>"

lemma toy_ok: "gcm_ok toy_gcm" "rand_ok (toy_fs fault)"
  by (simp_all add: gcm_ok_def rand_ok_def toy_gcm_def toy_fs_def NonceSize_def)

lemma store_key_share_atomic_witness:
  "stored_share toy_gcm toy_storage
     (snd (StoreKeyShare toy_gcm toy_storage (toy_fs (\<lambda>n. if n = 1 then Some (''no space'', 3) else None))
        ''k'' ''n'' [1, 2])) ''k'' ''n''
   = (if fst (StoreKeyShare toy_gcm toy_storage (toy_fs (\<lambda>n. if n = 1 then Some (''no space'', 3) else None))
        ''k'' ''n'' [1, 2]) = Inr () then Some [1, 2]
      else stored_share toy_gcm toy_storage (toy_fs (\<lambda>n. if n = 1 then Some (''no space'', 3) else None)) ''k'' ''n'')"
  using store_key_share_atomic [OF prod.collapse [symmetric] toy_ok] by blast

text \<open>A file that decrypts to \<open>x\<close> is read as \<open>x\<close> when the read does not fail.\<close>

lemma data_read_back:
  assumes "opened lib st s (keyDataPath st k n) = Some x" and "fs_fault s (fs_calls s) = None"
  shows "fst (GetKeyData lib st s k n) = Inr x"
  using assms by (auto simp: GetKeyData_def os_ReadFile_def fs_call_def Let_def opened_def
      content_def pure_wrap_def split: option.splits fnode.splits sum.splits)

text \<open>
  Key data is read back: after a store that succeeded, reading without a
  fault returns what was stored, and the same for a share; a store of key data
  does not disturb the shares under other paths.
\<close>

theorem key_data_roundtrip:
  assumes "StoreKeyData lib st s k n x = (Inr (), s')" and "gcm_ok lib" and "rand_ok s"
    and "fs_fault s' (fs_calls s') = None"
  shows "fst (GetKeyData lib st s' k n) = Inr x
    \<and> (\<forall>k' n'. getFilePath st k' n' \<noteq> keyDataPath st k n \<longrightarrow>
          stored_share lib st s' k' n' = stored_share lib st s k' n')"
proof -
  note at = store_data_at [OF assms(1) [unfolded StoreKeyData_def] assms(2,3)]
  have "opened lib st s' (keyDataPath st k n) = Some x"
    using at(1) by simp
  with assms(4) have "fst (GetKeyData lib st s' k n) = Inr x" by (intro data_read_back)
  then show ?thesis
    using at(2) [OF enc_paths(1)] by (simp add: stored_share_def)
qed

lemma toy_store_data:
  "StoreKeyData toy_gcm toy_storage (toy_fs (\<lambda>_. None)) ''k'' ''n'' [1, 2]
     = (Inr (), snd (StoreKeyData toy_gcm toy_storage (toy_fs (\<lambda>_. None)) ''k'' ''n'' [1, 2]))"
  "fs_fault (snd (StoreKeyData toy_gcm toy_storage (toy_fs (\<lambda>_. None)) ''k'' ''n'' [1, 2])) m = None"
  by (simp_all add: StoreKeyData_def ks_encrypt_def aes_NewCipher_def toy_storage_def toy_fs_def toy_gcm_def
      write_atomic_def keyDataPath_def filepath_Join_def filepath_Dir_def os_MkdirAll_def fs_call_def
      fs_get_def os_WriteFile_def os_Rename_def path_add_def is_dir_def fs_put_def fs_del_def)

lemma key_data_roundtrip_witness:
  "fst (GetKeyData toy_gcm toy_storage
     (snd (StoreKeyData toy_gcm toy_storage (toy_fs (\<lambda>_. None)) ''k'' ''n'' [1, 2])) ''k'' ''n'') = Inr [1, 2]"
  using key_data_roundtrip [OF toy_store_data(1) toy_ok toy_store_data(2)] by blast

section \<open>Identifiers and paths\<close>

text \<open>An identifier that is a single path element of its own.\<close>

definition plain :: "string \<Rightarrow> bool" where
  "plain s \<longleftrightarrow> s \<noteq> [] \<and> CHR ''/'' \<notin> set s \<and> s \<noteq> ''.'' \<and> s \<noteq> ''..''"

lemma join_plain:
  assumes "plain k" and "plain m" and "k \<noteq> [] \<longrightarrow> hd k \<noteq> CHR ''/''"
  shows "filepath_Join [base, k, m] = (fst (filepath_Join [base]), snd (filepath_Join [base]) @ [k, m])"
proof -
  have sp: "split_slash [] k = [k]" "split_slash [] m = [m]"
    using assms by (simp_all add: plain_def split_slash_plain)
  have "clean_elems r [] (es @ [k, m]) = clean_elems r [] es @ [k, m]" for r es
    using clean_elems_snoc [of m r "[]" "es @ [k]"] clean_elems_snoc [of k r "[]" es] assms(1,2)
    by (simp add: plain_def)
  from this [of _ "[]"] this sp assms show ?thesis
    by (auto simp: filepath_Join_def Let_def plain_def)
qed

lemma plain_hd: "plain k \<Longrightarrow> hd k \<noteq> CHR ''/''"
  by (metis hd_in_set plain_def)

lemma plain_ext:
  "CHR ''/'' \<notin> set n \<Longrightarrow> plain (n @ ''.enc'')" "CHR ''/'' \<notin> set n \<Longrightarrow> plain (n @ ''.keydata.enc'')"
  by (auto simp: plain_def append_eq_Cons_conv)

lemma plain_paths:
  assumes "plain a" and "CHR ''/'' \<notin> set b"
  shows "getFilePath st a b = (fst (filepath_Join [fss_basePath st]),
                               snd (filepath_Join [fss_basePath st]) @ [a, b @ ''.enc''])"
    and "keyDataPath st a b = (fst (filepath_Join [fss_basePath st]),
                               snd (filepath_Join [fss_basePath st]) @ [a, b @ ''.keydata.enc''])"
  using assms plain_hd [OF assms(1)] by (simp_all add: getFilePath_def keyDataPath_def join_plain plain_ext)

lemma plain_paths_inj:
  assumes "plain k" and "CHR ''/'' \<notin> set n" and "plain k'" and "CHR ''/'' \<notin> set n'"
  shows "getFilePath st k n = getFilePath st k' n' \<longleftrightarrow> k = k' \<and> n = n'"
  by (simp add: plain_paths assms)

text \<open>
  With a key id that is one path element (not empty, no slash, neither \<open>.\<close>
  nor \<open>..\<close>) and node ids without a slash, shares and key data stay in the key's
  own directory below the base path, different key and node ids name different
  files, and a share's file is a key data file only for a node id that ends with
  \<open>.keydata\<close>. For such a node id they are the same file, whatever the ids are.
\<close>

theorem plain_ids_name_own_files:
  assumes "plain k" and "CHR ''/'' \<notin> set n" and "plain k'" and "CHR ''/'' \<notin> set n'"
  shows "getFilePath st k n = (fst (filepath_Join [fss_basePath st]),
                               snd (filepath_Join [fss_basePath st]) @ [k, n @ ''.enc''])
    \<and> (getFilePath st k n = getFilePath st k' n' \<longleftrightarrow> k = k' \<and> n = n')
    \<and> (getFilePath st k n = keyDataPath st k' n' \<longleftrightarrow> k = k' \<and> n = n' @ ''.keydata'')"
proof -
  have "n @ ''.enc'' = n' @ ''.keydata.enc'' \<longleftrightarrow> n = n' @ ''.keydata''"
  proof
    assume "n @ ''.enc'' = n' @ ''.keydata.enc''"
    then have "n @ ''.enc'' = (n' @ ''.keydata'') @ ''.enc''" by simp
    then show "n = n' @ ''.keydata''" by (simp only: append_same_eq)
  qed simp
  then show ?thesis
    by (simp add: plain_paths assms)
qed

lemma toy_base: "filepath_Join [fss_basePath toy_storage] = (True, [''data''])"
  by (simp add: toy_storage_def filepath_Join_def)

lemma plain_ids_name_own_files_witness:
  "getFilePath toy_storage ''key-1'' ''node-1'' = (True, [''data'', ''key-1'', ''node-1.enc''])
    \<and> getFilePath toy_storage ''key-1'' ''n.keydata'' = keyDataPath toy_storage ''key-1'' ''n''"
  using plain_ids_name_own_files [of "''key-1''" "''node-1''" "''key-1''" "''node-1''" toy_storage, THEN conjunct1]
    plain_ids_name_own_files [of "''key-1''" "''n.keydata''" "''key-1''" "''n''" toy_storage, THEN conjunct2, THEN conjunct2]
  by (simp add: plain_def toy_base)

section \<open>The store contract and its loops\<close>

text \<open>
  \<open>for nodeID, share := range shares { if err := put(...); err != nil { return errors.Wrapf(...) } }\<close>,
  the shares in the order the map gives them.
\<close>

fun store_shares :: "(string \<Rightarrow> 'd \<Rightarrow> 's \<Rightarrow> ('s, unit) res) \<Rightarrow> (string \<times> 'd) list \<Rightarrow> 's \<Rightarrow> ('s, unit) res" where
  "store_shares put [] s = (Inr (), s)"
| "store_shares put ((nodeID, share) # rest) s =
     or_wrap (put nodeID share s) (''failed to store key share for node '' @ nodeID)
       (\<lambda>_ s. store_shares put rest s)"

locale share_store =
  fixes put :: "string \<Rightarrow> string \<Rightarrow> 'd \<Rightarrow> 's \<Rightarrow> ('s, unit) res"
    and view :: "'s \<Rightarrow> string \<Rightarrow> string \<Rightarrow> 'd option"
    and inv :: "'s \<Rightarrow> bool"
    and good :: "string \<Rightarrow> string \<Rightarrow> bool"
  assumes put_inv: "inv s \<Longrightarrow> inv (snd (put k n x s))"
    and put_view: "inv s \<Longrightarrow> view (snd (put k n x s)) k n
          = (if fst (put k n x s) = Inr () then Some x else view s k n)"
    and put_other: "inv s \<Longrightarrow> good k n \<Longrightarrow> good k' n' \<Longrightarrow> (k', n') \<noteq> (k, n) \<Longrightarrow>
          view (snd (put k n x s)) k' n' = view s k' n'"
begin

lemma loop_frame:
  assumes "inv s" and "\<forall>(n, x) \<in> set sh. good k n" and "good k' n'" and "k' \<noteq> k \<or> n' \<notin> fst ` set sh"
  shows "inv (snd (store_shares (put k) sh s)) \<and> view (snd (store_shares (put k) sh s)) k' n' = view s k' n'"
  using assms
proof (induction sh arbitrary: s)
  case Nil
  then show ?case by simp
next
  case (Cons p sh)
  obtain n x where p: "p = (n, x)" by (cases p)
  obtain r s1 where put: "put k n x s = (r, s1)" by (cases "put k n x s")
  have 1: "inv s1" "view s1 k' n' = view s k' n'"
    using put_inv [of s k n x] put_other [of s k n k' n' x] Cons.prems p put by auto
  with Cons.IH [of s1] Cons.prems p put show ?case
    by (cases r) auto
qed

lemma loop_stores:
  assumes "inv s" and "\<forall>(n, x) \<in> set sh. good k n" and "distinct (map fst sh)"
    and "store_shares (put k) sh s = (Inr (), s')" and "(n, x) \<in> set sh"
  shows "view s' k n = Some x"
  using assms
proof (induction sh arbitrary: s)
  case Nil
  then show ?case by simp
next
  case (Cons p sh)
  obtain m y where p: "p = (m, y)" by (cases p)
  obtain r s1 where put: "put k m y s = (r, s1)" by (cases "put k m y s")
  with Cons.prems p have r: "r = Inr ()" and rest: "store_shares (put k) sh s1 = (Inr (), s')"
    by (cases r; simp)+
  have i: "inv s1" "view s1 k m = Some y"
    using put_inv [of s k m y] put_view [of s k m y] Cons.prems(1) put r by auto
  show ?case
  proof (cases "n = m")
    case True
    with Cons.prems p have "x = y" by (force simp: image_iff)
    moreover have "view s' k m = view s1 k m"
      using loop_frame [OF i(1), of sh k k m] Cons.prems p rest by auto
    ultimately show ?thesis using i True by simp
  next
    case False
    with Cons.IH [OF i(1)] Cons.prems p rest show ?thesis by auto
  qed
qed

end

interpretation fs_store: share_store "\<lambda>k n x s. StoreKeyShare lib st s k n x" "stored_share lib st"
    "\<lambda>s. gcm_ok lib \<and> rand_ok s" "\<lambda>k n. plain k \<and> CHR ''/'' \<notin> set n" for lib st
proof unfold_locales
  fix s k n x
  assume s: "gcm_ok lib \<and> rand_ok s"
  note at = store_share_at [OF prod.collapse [symmetric, of "StoreKeyShare lib st s k n x", unfolded StoreKeyShare_def]
      conjunct1 [OF s] conjunct2 [OF s], folded StoreKeyShare_def]
  show "gcm_ok lib \<and> rand_ok (snd (StoreKeyShare lib st s k n x))"
    using s at(3) by simp
  show "stored_share lib st (snd (StoreKeyShare lib st s k n x)) k n =
      (if fst (StoreKeyShare lib st s k n x) = Inr () then Some x else stored_share lib st s k n)"
    using at(1) by (simp add: stored_share_def)
  show "stored_share lib st (snd (StoreKeyShare lib st s k n x)) k' n' = stored_share lib st s k' n'"
    if "plain k \<and> CHR ''/'' \<notin> set n" "plain k' \<and> CHR ''/'' \<notin> set n'" "(k', n') \<noteq> (k, n)" for k' n'
  proof -
    have "getFilePath st k' n' = getFilePath st k n \<longleftrightarrow> k' = k \<and> n' = n"
      using plain_paths_inj that by blast
    with at(2) [OF enc_paths(1)] that(3) show ?thesis
      by (auto simp: stored_share_def)
  qed
qed

section \<open>Validation\<close>

text \<open>
  \<open>ValidateKeyShare\<close> accepts a share exactly when it is not empty and its raw
  key material has at least 32 bytes: the decoded bytes when the share reads as
  hexadecimal, the share itself when it does not. The encoding of a share is
  accepted when and only when the share has 32 bytes.
\<close>

theorem validate_key_share:
  "(ValidateKeyShare share = Inr () \<longleftrightarrow> share \<noteq> [] \<and>
      32 \<le> (case hex_DecodeString (string_of_bytes share) of Inr d \<Rightarrow> length d | Inl _ \<Rightarrow> length share))
   \<and> (ValidateKeyShare (bytes_of (hex_EncodeToString raw)) = Inr () \<longleftrightarrow> 32 \<le> length raw)"
proof -
  have e: "ValidateKeyShare share = Inr () \<longleftrightarrow> share \<noteq> [] \<and>
      32 \<le> (case hex_DecodeString (string_of_bytes share) of Inr d \<Rightarrow> length d | Inl _ \<Rightarrow> length share)"
    for share
    by (auto simp: ValidateKeyShare_def split: sum.splits)
  have "bytes_of (hex_EncodeToString raw) \<noteq> [] \<longleftrightarrow> raw \<noteq> []"
    by (simp add: bytes_of_def)
  then show ?thesis
    by (auto simp: e)
qed

end
