(* ===== verification/Chain.thy ===== *)
theory Chain
  imports Prelude
begin

text \<open>
  \<open>internal/mpc/chain\<close>: address generation and the simplified transactions of the
  Bitcoin and the Ethereum adapter. The hash functions, Base58 and RLP come from
  libraries; they are the fields of \<open>chain_lib\<close>. An index that runs out of a slice
  is a panic.
\<close>

section \<open>Types (interface.go)\<close>

record BuildTxRequest =
  bt_From :: string
  bt_To :: string
  bt_Amount :: "int option"
  bt_Nonce :: "64 word"
  bt_FeeRate :: "64 word"
  bt_Data :: "byte list"

record Transaction =
  tx_Raw :: string
  tx_Hash :: string

datatype rlp_item = RUint "64 word" | RStr string | RBig int | RBytes "byte list" | RList "rlp_item list"

record chain_lib =
  cl_sha256 :: "byte list \<Rightarrow> byte list"
  cl_ripemd160 :: "byte list \<Rightarrow> byte list"
  cl_keccak256 :: "byte list \<Rightarrow> byte list"
  cl_base58 :: "byte list \<Rightarrow> string"
  cl_doublehash_str :: "byte list \<Rightarrow> string"
  cl_rlp :: "rlp_item \<Rightarrow> err + byte list"

section \<open>Bitcoin (bitcoin.go)\<close>

text \<open>The adapter's parameters: \<open>PubKeyHashAddrID\<close> of the network; a nil argument is the main net, 0.\<close>

definition NewBitcoinAdapter :: "byte option \<Rightarrow> byte" where
  "NewBitcoinAdapter params = (case params of None \<Rightarrow> 0 | Some i \<Rightarrow> i)"

definition btc_payload :: "chain_lib \<Rightarrow> byte \<Rightarrow> byte list \<Rightarrow> byte list" where
  "btc_payload lib addrID pubKey =
     (let hash160 = cl_ripemd160 lib (cl_sha256 lib pubKey);
          versionByte = (if addrID \<noteq> 0 then addrID else 0);
          versionedPayload = versionByte # hash160;
          checksum = take 4 (cl_sha256 lib (cl_sha256 lib versionedPayload))
      in versionedPayload @ checksum)"

definition btc_GenerateAddress :: "chain_lib \<Rightarrow> byte \<Rightarrow> byte list \<Rightarrow> err + string" where
  "btc_GenerateAddress lib addrID pubKey =
     (if pubKey = [] then Inl (Err ''public key is required'')
      else Inr (cl_base58 lib (btc_payload lib addrID pubKey)))"

definition btc_BuildTransaction :: "chain_lib \<Rightarrow> BuildTxRequest option \<Rightarrow> err + Transaction" where
  "btc_BuildTransaction lib req0 =
     (case req0 of
        None \<Rightarrow> Inl (Err ''build request is nil'')
      | Some req \<Rightarrow>
          (case bt_Amount req of
             None \<Rightarrow> Inl (Err ''amount is required'')
           | Some amount \<Rightarrow>
               let raw = ''btc-tx|from:'' @ bt_From req @ ''|to:'' @ bt_To req @ ''|amount:'' @ itoa amount
                     @ ''|nonce:'' @ nat_digits (unat (bt_Nonce req))
                     @ ''|feerate:'' @ nat_digits (unat (bt_FeeRate req))
                     @ ''|data:'' @ hex_EncodeToString (bt_Data req)
               in Inr \<lparr>tx_Raw = raw, tx_Hash = cl_doublehash_str lib (bytes_of raw)\<rparr>))"

section \<open>Ethereum (ethereum.go)\<close>

definition NewEthereumAdapter :: "int option \<Rightarrow> int" where
  "NewEthereumAdapter chainID = (case chainID of None \<Rightarrow> 1 | Some i \<Rightarrow> i)"

text \<open>\<open>uncompressed[len(uncompressed)-64:]\<close> panics when there are less than 64 bytes.\<close>

definition eth_GenerateAddress :: "chain_lib \<Rightarrow> byte list \<Rightarrow> err + string" where
  "eth_GenerateAddress lib pubKey =
     (if pubKey = [] then Inl (Err ''public key is required'')
      else let uncompressed = (if hd pubKey = 4 \<and> length pubKey = 65 then drop 1 pubKey else pubKey)
           in if length uncompressed < 64
              then Inl (Panic ''runtime error: slice bounds out of range'')
              else Inr (''0x'' @ hex_EncodeToString
                     (drop 12 (cl_keccak256 lib (drop (length uncompressed - 64) uncompressed)))))"

definition eth_BuildTransaction :: "chain_lib \<Rightarrow> int \<Rightarrow> BuildTxRequest option \<Rightarrow> err + Transaction" where
  "eth_BuildTransaction lib chainID req0 =
     (case req0 of
        None \<Rightarrow> Inl (Err ''build request is nil'')
      | Some req \<Rightarrow>
          (case bt_Amount req of
             None \<Rightarrow> Inl (Err ''amount is required'')
           | Some amount \<Rightarrow>
               pure_wrap (cl_rlp lib (RList [RUint (bt_Nonce req), RUint (bt_FeeRate req), RUint 21000,
                    RStr (bt_To req), RBig amount, RBytes (bt_Data req), RBig chainID, RUint 0, RUint 0]))
                 ''failed to RLP encode tx payload''
                 (\<lambda>raw. Inr \<lparr>tx_Raw = ''0x'' @ hex_EncodeToString raw,
                             tx_Hash = ''0x'' @ hex_EncodeToString (cl_keccak256 lib raw)\<rparr>)))"

section \<open>Properties\<close>

text \<open>
  The Ethereum address of a key is the last 20 bytes of the Keccak hash of
  its 64 coordinate bytes, written as 0x and 40 digits. With and without the
  leading byte 4 the key has the same address. A key shorter than 64 bytes, such
  as a 33-byte compressed key, gives neither an address nor an error: the
  function panics.
\<close>

theorem eth_address_of_key:
  assumes "\<And>x. length (cl_keccak256 lib x) = 32" and "length xy = 64"
  shows "eth_GenerateAddress lib (4 # xy) = Inr (''0x'' @ hex_EncodeToString (drop 12 (cl_keccak256 lib xy)))
    \<and> eth_GenerateAddress lib xy = eth_GenerateAddress lib (4 # xy)
    \<and> length (projr (eth_GenerateAddress lib xy)) = 42
    \<and> (pub \<noteq> [] \<and> length pub < 64 \<longrightarrow> is_panic (projl (eth_GenerateAddress lib pub)))"
proof -
  have "xy \<noteq> []"
    using assms(2) by auto
  then show ?thesis
    using assms by (auto simp: eth_GenerateAddress_def Let_def)
qed

definition toy_chain :: chain_lib where
  "toy_chain = \<lparr>cl_sha256 = (\<lambda>x. replicate 31 0 @ [of_nat (length x)]),
     cl_ripemd160 = (\<lambda>x. replicate 20 (last x)), cl_keccak256 = (\<lambda>x. replicate 32 (hd x)),
     cl_base58 = hex_EncodeToString, cl_doublehash_str = hex_EncodeToString,
     cl_rlp = (\<lambda>x. Inr [])\<rparr>"

lemma eth_address_of_key_witness:
  "length (projr (eth_GenerateAddress toy_chain (replicate 64 1))) = 42
    \<and> is_panic (projl (eth_GenerateAddress toy_chain (replicate 33 2)))"
  using eth_address_of_key [of toy_chain "replicate 64 1" "replicate 33 2"]
  by (auto simp: toy_chain_def)

text \<open>
  The payload of a Bitcoin address is the version byte, the 20-byte hash of
  the key and the first four bytes of the double hash of both, 25 bytes; its
  checksum checks, and with Base58 undone the hash of the key is read back.
\<close>

theorem btc_address_payload:
  assumes "\<And>x. length (cl_sha256 lib x) = 32" and "\<And>x. length (cl_ripemd160 lib x) = 20"
    and "\<And>x. decode (cl_base58 lib x) = x" and "pub \<noteq> []"
  shows "\<exists>a. btc_GenerateAddress lib i pub = Inr a \<and> length (decode a) = 25
    \<and> hd (decode a) = i \<and> take 20 (drop 1 (decode a)) = cl_ripemd160 lib (cl_sha256 lib pub)
    \<and> drop 21 (decode a) = take 4 (cl_sha256 lib (cl_sha256 lib (take 21 (decode a))))"
  using assms by (simp add: btc_GenerateAddress_def btc_payload_def Let_def)

lemma btc_address_payload_witness:
  "\<exists>a. btc_GenerateAddress toy_chain 0 [2, 3] = Inr a \<and> length (projr (hex_DecodeString a)) = 25"
  using btc_address_payload [of toy_chain "\<lambda>a. projr (hex_DecodeString a)" "[2, 3]" 0]
  by (auto simp: toy_chain_def)

end
