(* ===== verification/KeyService.thy ===== *)
theory KeyService
  imports SessionProps KeyShareProps Chain
begin

text \<open>
  \<open>internal/mpc/key\<close>: the key service (\<open>service.go\<close>) and the DKG service
  (\<open>dkg.go\<close>). A node's state is the shared world and its own disk. The protocol
  engine is the parameter \<open>ke_generate\<close>, as it is an interface in the code; the
  maps it returns come as lists in the order the loop visits them. The service's
  \<open>KeyMetadata\<close> has the fields of the storage's and is copied field by field; one
  record stands for both.
\<close>

section \<open>Protocol types (protocol/types.go)\<close>

record PublicKey =
  pk_Bytes :: "byte list"
  pk_Hex :: string

record KeyShare =
  sh_ShareID :: string
  sh_NodeID :: string
  sh_Share :: "byte list"
  sh_Index :: int

record KeyGenRequest =
  kg_KeyID :: string
  kg_Algorithm :: string
  kg_Curve :: string
  kg_Threshold :: int
  kg_TotalNodes :: int
  kg_NodeIDs :: "string list"

record KeyGenResponse =
  kr_KeyShares :: "(string \<times> KeyShare option) list"
  kr_PublicKey :: "PublicKey option"

section \<open>Types (types.go) and the node's state\<close>

record CreateKeyRequest =
  cr_KeyID :: string
  cr_Algorithm :: string
  cr_Curve :: string
  cr_Threshold :: int
  cr_TotalNodes :: int
  cr_ChainType :: string
  cr_Description :: string
  cr_Tags :: "(string \<times> string) list"

record mpc_state =
  net :: world
  disk :: fsys

record key_env =
  ke_gcm :: gcm_lib
  ke_store :: FileSystemKeyShareStorage
  ke_chain :: chain_lib
  ke_dkg :: bool  \<comment> \<open>\<open>dkgService != nil\<close>\<close>
  ke_generate :: "KeyGenRequest \<Rightarrow> mpc_state \<Rightarrow> (mpc_state, KeyGenResponse) res"

definition on_net :: "(world \<Rightarrow> (world, 'a) res) \<Rightarrow> mpc_state \<Rightarrow> (mpc_state, 'a) res" where
  "on_net f s = (let (r, w) = f (net s) in (r, s\<lparr>net := w\<rparr>))"

definition on_disk :: "(fsys \<Rightarrow> (fsys, 'a) res) \<Rightarrow> mpc_state \<Rightarrow> (mpc_state, 'a) res" where
  "on_disk f s = (let (r, d) = f (disk s) in (r, s\<lparr>disk := d\<rparr>))"

definition nil_deref :: err where
  "nil_deref = Panic ''runtime error: invalid memory address or nil pointer dereference''"

section \<open>DKG service (dkg.go)\<close>

definition ExecuteDKG :: "key_env \<Rightarrow> mpc_state \<Rightarrow> string \<Rightarrow> CreateKeyRequest \<Rightarrow> (mpc_state, KeyGenResponse) res" where
  "ExecuteDKG env s keyID req =
     or_wrap (on_net (\<lambda>w. pg_GetSigningSession w keyID) s) ''failed to get DKG session''
       (\<lambda>session s.
          let nodeIDs = ss_ParticipatingNodes session
          in if nodeIDs = [] then (Inl (Err ''no participating nodes in DKG session''), s)
             else if int (length nodeIDs) < cr_Threshold req
             then (Inl (Err (''insufficient participating nodes: need at least '' @ itoa (cr_Threshold req)
                     @ '', have '' @ nat_digits (length nodeIDs))), s)
             else or_wrap (ke_generate env
                    \<lparr>kg_KeyID = keyID, kg_Algorithm = cr_Algorithm req, kg_Curve = cr_Curve req,
                     kg_Threshold = cr_Threshold req, kg_TotalNodes = cr_TotalNodes req,
                     kg_NodeIDs = nodeIDs\<rparr> s) ''failed to execute DKG protocol''
               (\<lambda>resp s.
                  \<comment> \<open>the log line reads \<open>dkgResp.PublicKey.Hex\<close> before the checks\<close>
                  case kr_PublicKey resp of
                    None \<Rightarrow> (Inl nil_deref, s)
                  | Some pk \<Rightarrow>
                      if kr_KeyShares resp = [] then (Inl (Err ''no key shares generated''), s)
                      else if pk_Hex pk = [] then (Inl (Err ''invalid public key from DKG''), s)
                      else (Inr resp, s)))"

definition put_share ::
  "key_env \<Rightarrow> string \<Rightarrow> string \<Rightarrow> KeyShare option \<Rightarrow> mpc_state \<Rightarrow> (mpc_state, unit) res" where
  "put_share env keyID nodeID share s =
     (case share of
        None \<Rightarrow> (Inl nil_deref, s)
      | Some sh \<Rightarrow> on_disk (\<lambda>d. StoreKeyShare (ke_gcm env) (ke_store env) d keyID nodeID (sh_Share sh)) s)"

definition DistributeKeyShares ::
  "key_env \<Rightarrow> string \<Rightarrow> (string \<times> KeyShare option) list \<Rightarrow> mpc_state \<Rightarrow> (mpc_state, unit) res" where
  "DistributeKeyShares env keyID keyShares s = store_shares (put_share env keyID) keyShares s"

text \<open>The loop stops at the threshold, and skips a share it cannot read.\<close>

fun recover_loop ::
  "key_env \<Rightarrow> string \<Rightarrow> int \<Rightarrow> int \<Rightarrow> string list \<Rightarrow> byte list list \<Rightarrow> mpc_state \<Rightarrow> byte list list \<times> mpc_state" where
  "recover_loop env keyID threshold i [] shares s = (shares, s)"
| "recover_loop env keyID threshold i (nodeID # rest) shares s =
     (if i \<ge> threshold then (shares, s)
      else case on_disk (\<lambda>d. GetKeyShare (ke_gcm env) (ke_store env) d keyID nodeID) s of
             (Inl _, s) \<Rightarrow> recover_loop env keyID threshold (i + 1) rest shares s
           | (Inr share, s) \<Rightarrow> recover_loop env keyID threshold (i + 1) rest (shares @ [share]) s)"

definition RecoverKeyShare ::
  "key_env \<Rightarrow> mpc_state \<Rightarrow> string \<Rightarrow> string list \<Rightarrow> int \<Rightarrow> (mpc_state, KeyShare) res" where
  "RecoverKeyShare env s keyID nodeIDs threshold =
     (if threshold < 0 then (Inl (Panic ''runtime error: makeslice: cap out of range''), s)
      else let (shares, s) = recover_loop env keyID threshold 0 nodeIDs [] s
           in if int (length shares) < threshold
              then (Inl (Err (''insufficient shares for recovery: need '' @ itoa threshold
                      @ '', have '' @ nat_digits (length shares))), s)
              else (Inl (Err ''key share recovery not yet implemented - requires Shamir secret sharing''), s))"

definition RotateKey :: "mpc_state \<Rightarrow> string \<Rightarrow> (mpc_state, unit) res" where
  "RotateKey s keyID = (Inl (Err ''key rotation not yet implemented''), s)"

section \<open>Key service (service.go)\<close>

definition new_key_id :: "CreateKeyRequest \<Rightarrow> mpc_state \<Rightarrow> string \<times> mpc_state" where
  "new_key_id req s =
     (if cr_KeyID req = []
      then let (u, w) = uuid_New (net s) in (''key-'' @ u, s\<lparr>net := w\<rparr>)
      else (cr_KeyID req, s))"

text \<open>The engine through the DKG service, or directly with no node list.\<close>

definition run_dkg :: "key_env \<Rightarrow> mpc_state \<Rightarrow> string \<Rightarrow> CreateKeyRequest \<Rightarrow> (mpc_state, KeyGenResponse) res" where
  "run_dkg env s keyID req =
     (if ke_dkg env
      then or_wrap (ExecuteDKG env s keyID req) ''failed to execute DKG'' (\<lambda>r s. (Inr r, s))
      else or_wrap (ke_generate env
             \<lparr>kg_KeyID = keyID, kg_Algorithm = cr_Algorithm req, kg_Curve = cr_Curve req,
              kg_Threshold = cr_Threshold req, kg_TotalNodes = cr_TotalNodes req, kg_NodeIDs = []\<rparr> s)
             ''failed to generate key shares'' (\<lambda>r s. (Inr r, s)))"

definition key_of_request :: "CreateKeyRequest \<Rightarrow> string \<Rightarrow> string \<Rightarrow> string \<Rightarrow> time \<Rightarrow> KeyMetadata" where
  "key_of_request req keyID pubKey status t =
     \<lparr>km_KeyID = keyID, km_PublicKey = pubKey, km_Algorithm = cr_Algorithm req, km_Curve = cr_Curve req,
      km_Threshold = cr_Threshold req, km_TotalNodes = cr_TotalNodes req,
      km_ChainType = cr_ChainType req, km_Address = [], km_Status = status,
      km_Description = cr_Description req, km_Tags = cr_Tags req, km_CreatedAt = t, km_UpdatedAt = t,
      km_DeletionDate = None\<rparr>"

definition CreateKey :: "key_env \<Rightarrow> mpc_state \<Rightarrow> CreateKeyRequest \<Rightarrow> (mpc_state, KeyMetadata) res" where
  "CreateKey env s req =
     (let (keyID, s) = new_key_id req s
      in or_return (run_dkg env s keyID req)
           (\<lambda>resp s. or_return (store_shares (put_share env keyID) (kr_KeyShares resp) s)
             (\<lambda>_ s. case kr_PublicKey resp of
                None \<Rightarrow> (Inl nil_deref, s)
              | Some pk \<Rightarrow>
                  let keyMetadata = key_of_request req keyID (pk_Hex pk) ''Active'' (now (net s))
                  in or_wrap (on_net (\<lambda>w. pg_SaveKeyMetadata w keyMetadata) s) ''failed to save key metadata''
                       (\<lambda>_ s. (Inr keyMetadata, s)))))"

definition CreatePlaceholderKey :: "mpc_state \<Rightarrow> CreateKeyRequest \<Rightarrow> (mpc_state, KeyMetadata) res" where
  "CreatePlaceholderKey s req =
     (let (keyID, s) = new_key_id req s;
          keyMetadata = key_of_request req keyID ''pending'' ''Pending'' (now (net s))
      in or_wrap (on_net (\<lambda>w. pg_SaveKeyMetadata w keyMetadata) s) ''failed to save placeholder key metadata''
           (\<lambda>_ s. or_wrap (on_net (\<lambda>w. pg_GetKeyMetadata w keyID) s) ''key saved but verification failed''
             (\<lambda>savedKey s. (Inr keyMetadata, s))))"

text \<open>The adapter of a chain type: the switch of both address paths.\<close>

definition chain_address :: "chain_lib \<Rightarrow> string \<Rightarrow> (byte list \<Rightarrow> err + string) option" where
  "chain_address lib chainType =
     (if chainType \<in> {''bitcoin'', ''btc''} then Some (btc_GenerateAddress lib (NewBitcoinAdapter (Some 0)))
      else if chainType \<in> {''ethereum'', ''eth'', ''evm''} then Some (eth_GenerateAddress lib)
      else None)"

text \<open>Address generation during key creation: errors are skipped, a panic is not.\<close>

definition creation_address :: "key_env \<Rightarrow> string \<Rightarrow> string \<Rightarrow> string \<Rightarrow> err + string" where
  "creation_address env chainType pubHex oldAddress =
     (if chainType = [] then Inr oldAddress
      else case hex_DecodeString pubHex of
          Inl _ \<Rightarrow> Inr oldAddress
        | Inr pub \<Rightarrow> (case chain_address (ke_chain env) chainType of
              None \<Rightarrow> Inr oldAddress
            | Some gen \<Rightarrow> (case gen pub of
                  Inr a \<Rightarrow> Inr a
                | Inl (Panic p) \<Rightarrow> Inl (Panic p)
                | Inl _ \<Rightarrow> Inr oldAddress)))"

definition CreateKeyWithExistingMetadata ::
  "key_env \<Rightarrow> mpc_state \<Rightarrow> CreateKeyRequest \<Rightarrow> (mpc_state, KeyMetadata) res" where
  "CreateKeyWithExistingMetadata env s req =
     (let keyID = cr_KeyID req
      in if keyID = [] then (Inl (Err ''keyID is required for CreateKeyWithExistingMetadata''), s)
         else or_wrap (on_net (\<lambda>w. pg_GetKeyMetadata w keyID) s) ''failed to get existing key metadata''
           (\<lambda>existingKey s.
              if km_Status existingKey \<noteq> ''Pending''
              then (Inl (Err (''key '' @ keyID @ '' is not in Pending status'')), s)
              else or_return (run_dkg env s keyID req)
                (\<lambda>resp s. or_return (store_shares (put_share env keyID) (kr_KeyShares resp) s)
                  (\<lambda>_ s. case kr_PublicKey resp of
                     None \<Rightarrow> (Inl nil_deref, s)
                   | Some pk \<Rightarrow>
                       let storageKey = (key_of_request req keyID (pk_Hex pk) ''Active'' (now (net s)))
                             \<lparr>km_Address := km_Address existingKey, km_CreatedAt := km_CreatedAt existingKey,
                              km_DeletionDate := km_DeletionDate existingKey\<rparr>
                       in case creation_address env (cr_ChainType req) (pk_Hex pk) (km_Address existingKey) of
                            Inl p \<Rightarrow> (Inl p, s)
                          | Inr address \<Rightarrow>
                              let storageKey = storageKey\<lparr>km_Address := address\<rparr>
                              in or_wrap (on_net (\<lambda>w. pg_UpdateKeyMetadata w storageKey) s)
                                   ''failed to update key metadata'' (\<lambda>_ s. (Inr storageKey, s))))))"

definition GetKey :: "mpc_state \<Rightarrow> string \<Rightarrow> (mpc_state, KeyMetadata) res" where
  "GetKey s keyID =
     or_wrap (on_net (\<lambda>w. pg_GetKeyMetadata w keyID) s) ''failed to get key metadata'' (\<lambda>k s. (Inr k, s))"

text \<open>The list of nodes whose shares are to be deleted is empty in the code.\<close>

definition DeleteKey :: "mpc_state \<Rightarrow> string \<Rightarrow> (mpc_state, unit) res" where
  "DeleteKey s keyID =
     or_wrap (GetKey s keyID) ''failed to get key''
       (\<lambda>key s. let t = now (net s)
                in or_wrap (on_net (\<lambda>w. pg_UpdateKeyMetadata w
                       (key\<lparr>km_Status := ''Deleted'', km_DeletionDate := Some t, km_UpdatedAt := t\<rparr>)) s)
                     ''failed to update key status'' (\<lambda>_ s. (Inr (), s)))"

definition ListKeys :: "mpc_state \<Rightarrow> KeyFilter option \<Rightarrow> (mpc_state, KeyMetadata list) res" where
  "ListKeys s filter0 =
     (case filter0 of
        None \<Rightarrow> (Inl nil_deref, s)
      | Some f \<Rightarrow> or_wrap (on_net (\<lambda>w. pg_ListKeys w (Some f)) s) ''failed to list keys'' (\<lambda>ks s. (Inr ks, s)))"

definition GenerateAddress :: "key_env \<Rightarrow> mpc_state \<Rightarrow> string \<Rightarrow> string \<Rightarrow> (mpc_state, string) res" where
  "GenerateAddress env s keyID chainType =
     or_wrap (GetKey s keyID) ''failed to get key''
       (\<lambda>keyMetadata s.
          if km_Address keyMetadata \<noteq> [] \<and> km_ChainType keyMetadata = chainType
          then (Inr (km_Address keyMetadata), s)
          else case hex_DecodeString (km_PublicKey keyMetadata) of
              Inl e \<Rightarrow> (Inl (wrap_err ''failed to decode public key'' e), s)
            | Inr pub \<Rightarrow> (case chain_address (ke_chain env) chainType of
                  None \<Rightarrow> (Inl (Err (''unsupported chain type: '' @ chainType)), s)
                | Some gen \<Rightarrow> (case gen pub of
                      Inl e \<Rightarrow> (Inl (wrap_err ''failed to generate address'' e), s)
                    | Inr address \<Rightarrow>
                        or_wrap (on_net (\<lambda>w. pg_UpdateKeyMetadata w
                            (keyMetadata\<lparr>km_Address := address, km_UpdatedAt := now w\<rparr>)) s)
                          ''failed to update key metadata with address'' (\<lambda>_ s. (Inr address, s)))))"

end
