(* ===== verification/KeyProps.thy ===== *)
theory KeyProps
  imports KeyService StorageProps
begin

text \<open>
  The properties of \<open>internal/mpc/key\<close>: the life of a key row from pending to
  active to deleted, what creation stores, and where the address logic goes
  wrong.
\<close>

section \<open>A node's state over its parts\<close>

lemma on_net_simps [simp]:
  "on_net f s = (r, s') \<longleftrightarrow> (\<exists>w. f (net s) = (r, w) \<and> s' = s\<lparr>net := w\<rparr>)"
  by (auto simp: on_net_def Let_def split: prod.splits)

lemma on_disk_simps [simp]:
  "on_disk f s = (r, s') \<longleftrightarrow> (\<exists>d. f (disk s) = (r, d) \<and> s' = s\<lparr>disk := d\<rparr>)"
  by (auto simp: on_disk_def Let_def split: prod.splits)

lemma on_disk_parts: "fst (on_disk f s) = fst (f (disk s))" "disk (snd (on_disk f s)) = snd (f (disk s))"
  "net (snd (on_disk f s)) = net s"
  by (simp_all add: on_disk_def Let_def split: prod.splits)

lemma on_net_parts: "fst (on_net f s) = fst (f (net s))" "net (snd (on_net f s)) = snd (f (net s))"
  "disk (snd (on_net f s)) = disk s"
  by (simp_all add: on_net_def Let_def split: prod.splits)

text \<open>The node's disk is a share store too.\<close>

interpretation node_shares: share_store "\<lambda>k n x s. on_disk (\<lambda>d. StoreKeyShare lib st d k n x) s"
    "\<lambda>s. stored_share lib st (disk s)" "\<lambda>s. gcm_ok lib \<and> rand_ok (disk s)"
    "\<lambda>k n. plain k \<and> CHR ''/'' \<notin> set n" for lib st
  by unfold_locales
     (simp_all add: on_disk_parts fs_store.put_inv fs_store.put_view fs_store.put_other)

lemma put_share_simps [simp]:
  "put_share env k n (Some sh) s = on_disk (\<lambda>d. StoreKeyShare (ke_gcm env) (ke_store env) d k n (sh_Share sh)) s"
  "put_share env k n None s = (Inl nil_deref, s)"
  by (simp_all add: put_share_def)

lemma put_share_some:
  "store_shares (put_share env k) (map (\<lambda>(n, sh). (n, Some sh)) sh)
     = store_shares (\<lambda>n x. on_disk (\<lambda>d. StoreKeyShare (ke_gcm env) (ke_store env) d k n x))
         (map (\<lambda>(n, sh). (n, sh_Share sh)) sh)"
  by (induction sh) (auto intro!: ext)

lemma put_shares_net: "net (snd (store_shares (put_share env k) sh s)) = net s"
proof (induction sh arbitrary: s)
  case Nil
  then show ?case by simp
next
  case (Cons p sh)
  obtain n y where p: "p = (n, y)" by (cases p)
  obtain r s1 where put: "put_share env k n y s = (r, s1)" by (cases "put_share env k n y s")
  then have "net s1 = net s"
    by (cases y) auto
  with p put Cons [of s1] show ?case
    by (cases r) simp_all
qed

lemma shares_nonnil:
  assumes "store_shares (put_share env k) sh s = (Inr (), s')"
  shows "\<exists>xs. sh = map (\<lambda>(n, x). (n, Some x)) xs"
  using assms
proof (induction sh arbitrary: s)
  case Nil
  then show ?case by simp
next
  case (Cons p sh)
  obtain n y where p: "p = (n, y)" by (cases p)
  with Cons.prems obtain x s1 where x: "y = Some x" and "store_shares (put_share env k) sh s1 = (Inr (), s')"
    by (cases y) (auto simp: or_wrap_def split: prod.splits sum.splits)
  with Cons.IH obtain xs where "sh = map (\<lambda>(n, x). (n, Some x)) xs" by blast
  with p x show ?case
    by (intro exI [of _ "(n, x) # xs"]) simp
qed

text \<open>After the loop every share is on the disk, whatever else was there.\<close>

lemma shares_readable:
  assumes "store_shares (put_share env k) sh s = (Inr (), s')"
    and "gcm_ok (ke_gcm env)" and "rand_ok (disk s)" and "plain k"
    and "distinct (map fst sh)" and "\<forall>n \<in> fst ` set sh. CHR ''/'' \<notin> set n"
    and "(n, x) \<in> set sh"
  shows "\<exists>y. x = Some y \<and> stored_share (ke_gcm env) (ke_store env) (disk s') k n = Some (sh_Share y)"
proof -
  from shares_nonnil [OF assms(1)] obtain xs where xs: "sh = map (\<lambda>(n, x). (n, Some x)) xs" ..
  let ?ys = "map (\<lambda>(n, sh). (n, sh_Share sh)) xs"
  have fst: "map fst ?ys = map fst sh"
    by (simp add: xs case_prod_unfold comp_def)
  have run: "store_shares (\<lambda>n x. on_disk (\<lambda>d. StoreKeyShare (ke_gcm env) (ke_store env) d k n x)) ?ys s = (Inr (), s')"
    using assms(1) by (simp only: xs put_share_some)
  from assms(7) xs obtain y where y: "x = Some y" "(n, sh_Share y) \<in> set ?ys"
    by force
  have "fst ` set ?ys = fst ` set sh"
    using arg_cong [OF fst, of set] by (simp only: set_map)
  then have good: "\<forall>(n, x) \<in> set ?ys. plain k \<and> CHR ''/'' \<notin> set n"
    using assms(4,6) by (metis (no_types, lifting) case_prodI2 fst_conv imageI)
  have "distinct (map fst ?ys)"
    using assms(5) fst by simp
  from node_shares.loop_stores [OF _ good this run y(2)] assms(2,3) y(1) show ?thesis
    by simp
qed

section \<open>The protocol engine\<close>

text \<open>
  What the key service relies on: the engine leaves the tables and the failure
  pattern of the world alone, draws proper nonces, and returns one share per node
  id, node ids being free of slashes.
\<close>

definition engine_ok :: "key_env \<Rightarrow> bool" where
  "engine_ok env \<longleftrightarrow> (\<forall>r v.
     keys_t (net (snd (ke_generate env r v))) = keys_t (net v)
     \<and> pg_fault (net (snd (ke_generate env r v))) = pg_fault (net v)
     \<and> rd_fault (net (snd (ke_generate env r v))) = rd_fault (net v)
     \<and> (rand_ok (disk v) \<longrightarrow> rand_ok (disk (snd (ke_generate env r v))))
     \<and> (\<forall>rsp v'. ke_generate env r v = (Inr rsp, v') \<longrightarrow> distinct (map fst (kr_KeyShares rsp))
          \<and> (\<forall>n \<in> fst ` set (kr_KeyShares rsp). CHR ''/'' \<notin> set n)))"

lemma run_dkg_keeps:
  assumes "run_dkg env s kid req = (r, s')" and "engine_ok env"
  shows "keys_t (net s') = keys_t (net s)" and "rand_ok (disk s) \<Longrightarrow> rand_ok (disk s')"
    and "quiet (net s) \<Longrightarrow> quiet (net s')"
    and "\<And>rsp. r = Inr rsp \<Longrightarrow> distinct (map fst (kr_KeyShares rsp))
          \<and> (\<forall>n \<in> fst ` set (kr_KeyShares rsp). CHR ''/'' \<notin> set n)"
proof -
  let ?Q = "\<lambda>s0 r s'. keys_t (net s') = keys_t (net s0) \<and> (rand_ok (disk s0) \<longrightarrow> rand_ok (disk s'))
      \<and> (quiet (net s0) \<longrightarrow> quiet (net s'))
      \<and> (\<forall>rsp. r = Inr rsp \<longrightarrow> distinct (map fst (kr_KeyShares rsp))
          \<and> (\<forall>n \<in> fst ` set (kr_KeyShares rsp). CHR ''/'' \<notin> set n))"
  have gen: "?Q v x v'" if "ke_generate env q v = (x, v')" for q v x v'
    using assms(2) that unfolding engine_ok_def quiet_def by (metis snd_conv)
  have exe: "?Q s x v'" if "ExecuteDKG env s kid req = (x, v')" for x v'
  proof -
    obtain r0 w where get: "pg_GetSigningSession (net s) kid = (r0, w)"
      by (cases "pg_GetSigningSession (net s) kid")
    have same: "same_store (net s) w"
      using pg_GetSigningSession_cases(1) [OF get] .
    then have w: "keys_t w = keys_t (net s)" "quiet w = quiet (net s)"
      using same_store_quiet [OF same] by (simp_all add: same_store_def)
    show ?thesis
    proof (cases r0)
      case (Inl e)
      with that get w show ?thesis by (auto simp: ExecuteDKG_def on_net_def)
    next
      case (Inr ses)
      let ?q = "\<lparr>kg_KeyID = kid, kg_Algorithm = cr_Algorithm req, kg_Curve = cr_Curve req,
                     kg_Threshold = cr_Threshold req, kg_TotalNodes = cr_TotalNodes req,
                     kg_NodeIDs = ss_ParticipatingNodes ses\<rparr>"
      obtain r1 v1 where g: "ke_generate env ?q (s\<lparr>net := w\<rparr>) = (r1, v1)"
        by (cases "ke_generate env ?q (s\<lparr>net := w\<rparr>)")
      from gen [OF g] w that get Inr g show ?thesis
        by (cases r1) (auto simp: ExecuteDKG_def on_net_def Let_def split: if_splits option.splits)
    qed
  qed
  have "?Q s r s'"
  proof (cases "ke_dkg env")
    case True
    obtain x v' where e: "ExecuteDKG env s kid req = (x, v')"
      by (cases "ExecuteDKG env s kid req")
    from exe [OF e] assms(1) True e show ?thesis
      by (cases x) (auto simp: run_dkg_def)
  next
    case False
    let ?q = "\<lparr>kg_KeyID = kid, kg_Algorithm = cr_Algorithm req, kg_Curve = cr_Curve req,
              kg_Threshold = cr_Threshold req, kg_TotalNodes = cr_TotalNodes req, kg_NodeIDs = []\<rparr>"
    obtain x v' where g: "ke_generate env ?q s = (x, v')"
      by (cases "ke_generate env ?q s")
    from gen [OF g] assms(1) False g show ?thesis
      by (cases x) (auto simp: run_dkg_def)
  qed
  then show "keys_t (net s') = keys_t (net s)" and "rand_ok (disk s) \<Longrightarrow> rand_ok (disk s')"
    and "quiet (net s) \<Longrightarrow> quiet (net s')"
    and "\<And>rsp. r = Inr rsp \<Longrightarrow> distinct (map fst (kr_KeyShares rsp))
          \<and> (\<forall>n \<in> fst ` set (kr_KeyShares rsp). CHR ''/'' \<notin> set n)"
    by blast+
qed

section \<open>Creating a key\<close>

lemma on_net_GetKey:
  assumes "on_net (\<lambda>w. pg_GetKeyMetadata w kid) s = (r, s1)"
  shows "same_store (net s) (net s1)" and "disk s1 = disk s"
    and "\<And>k. r = Inr k \<Longrightarrow> get_key (net s) kid = Some k \<and> km_KeyID k = kid"
    and "quiet (net s) \<Longrightarrow> get_key (net s) kid = Some k \<Longrightarrow> r = Inr k"
proof -
  obtain w where w: "pg_GetKeyMetadata (net s) kid = (r, w)" "s1 = s\<lparr>net := w\<rparr>"
    using assms by auto
  note c = pg_GetKeyMetadata_cases [OF w(1)]
  show "same_store (net s) (net s1)" "disk s1 = disk s"
    using c(1) w(2) by simp_all
  show "get_key (net s) kid = Some k \<and> km_KeyID k = kid" if "r = Inr k" for k
    using c(2) [OF that] by (auto simp: get_key_def dest: tbl_get_SomeD)
  show "r = Inr k" if "quiet (net s)" "get_key (net s) kid = Some k"
    using c(2,3) that by (cases r) auto
qed

lemma on_net_UpdateKey:
  assumes "on_net (\<lambda>w. pg_UpdateKeyMetadata w k) s = (r, s1)"
  shows "r = Inr () \<Longrightarrow> get_key (net s1) (km_KeyID k)
           = map_option (\<lambda>old. k\<lparr>km_CreatedAt := km_CreatedAt old\<rparr>) (get_key (net s) (km_KeyID k))"
    and "r = Inr () \<Longrightarrow> same_store (set_key k (net s)) (net s1)"
    and "r \<noteq> Inr () \<Longrightarrow> quiet (net s) \<Longrightarrow> same_store (net s) (net s1)" and "disk s1 = disk s"
    and "quiet (net s) \<Longrightarrow> r = Inr () \<longleftrightarrow> key_row_ok k"
proof -
  obtain w where w: "pg_UpdateKeyMetadata (net s) k = (r, w)" "s1 = s\<lparr>net := w\<rparr>"
    using assms by auto
  note c = pg_UpdateKeyMetadata_cases [OF w(1)]
  show 1: "same_store (set_key k (net s)) (net s1)" if "r = Inr ()"
    using c(1) that w(2) by simp
  show "get_key (net s1) (km_KeyID k)
           = map_option (\<lambda>old. k\<lparr>km_CreatedAt := km_CreatedAt old\<rparr>) (get_key (net s) (km_KeyID k))"
    if "r = Inr ()"
    using same_store_get(1) [OF 1 [OF that]] by (simp add: get_set_key)
  show "same_store (net s) (net s1)" if "r \<noteq> Inr ()" "quiet (net s)"
    using c(2) that w(2) by (cases r) auto
  show "disk s1 = disk s"
    using w(2) by simp
  show "r = Inr () \<longleftrightarrow> key_row_ok k" if "quiet (net s)"
    using w that by (auto simp: pg_UpdateKeyMetadata_def sql_update_key_def pg_call_quiet or_wrap_def split: if_splits)
qed

text \<open>The steps of a creation that gets as far as the engine's answer.\<close>

lemma existing_run:
  assumes "CreateKeyWithExistingMetadata env s req = (r, s')" and "engine_ok env"
  shows "(\<exists>e. r = Inl e) \<and> keys_t (net s') = keys_t (net s) \<or>
    (\<exists>old rsp pk s1 s2 s3 a. get_key (net s) (cr_KeyID req) = Some old \<and> km_KeyID old = cr_KeyID req
       \<and> km_Status old = ''Pending'' \<and> same_store (net s) (net s1) \<and> disk s1 = disk s
       \<and> run_dkg env s1 (cr_KeyID req) req = (Inr rsp, s2) \<and> kr_PublicKey rsp = Some pk
       \<and> store_shares (put_share env (cr_KeyID req)) (kr_KeyShares rsp) s2 = (Inr (), s3)
       \<and> creation_address env (cr_ChainType req) (pk_Hex pk) (km_Address old) = Inr a
       \<and> (let k = (key_of_request req (cr_KeyID req) (pk_Hex pk) ''Active'' (now (net s3)))
                     \<lparr>km_CreatedAt := km_CreatedAt old, km_DeletionDate := km_DeletionDate old, km_Address := a\<rparr>
          in \<exists>r4. on_net (\<lambda>w. pg_UpdateKeyMetadata w k) s3 = (r4, s')
               \<and> r = (case r4 of Inl e \<Rightarrow> Inl (wrap_err ''failed to update key metadata'' e) | Inr _ \<Rightarrow> Inr k)))"
proof (cases "cr_KeyID req = []")
  case True
  with assms(1) show ?thesis by (intro disjI1) (auto simp: CreateKeyWithExistingMetadata_def)
next
  case False
  let ?id = "cr_KeyID req"
  obtain r0 s1 where get: "on_net (\<lambda>w. pg_GetKeyMetadata w ?id) s = (r0, s1)"
    by (cases "on_net (\<lambda>w. pg_GetKeyMetadata w ?id) s")
  note g = on_net_GetKey [OF get]
  have k1: "keys_t (net s1) = keys_t (net s)"
    using g(1) by (simp add: same_store_def)
  note run = assms(1) [unfolded CreateKeyWithExistingMetadata_def Let_def, simplified False if_False get]
  show ?thesis
  proof (cases "\<exists>old. r0 = Inr old \<and> km_Status old = ''Pending''")
    case False
    with run k1 show ?thesis by (cases r0) auto
  next
    case True
    then obtain old where old: "r0 = Inr old" "km_Status old = ''Pending''" by blast
    obtain r2 s2 where dkg: "run_dkg env s1 ?id req = (r2, s2)"
      by (cases "run_dkg env s1 ?id req")
    have k2: "keys_t (net s2) = keys_t (net s)"
      using run_dkg_keeps(1) [OF dkg assms(2)] k1 by simp
    show ?thesis
    proof (cases r2)
      case (Inl e)
      with run old dkg k2 show ?thesis by auto
    next
      case (Inr rsp)
      obtain r3 s3 where st: "store_shares (put_share env ?id) (kr_KeyShares rsp) s2 = (r3, s3)"
        by (cases "store_shares (put_share env ?id) (kr_KeyShares rsp) s2")
      have k3: "keys_t (net s3) = keys_t (net s)"
        using put_shares_net [of env ?id "kr_KeyShares rsp" s2] st k2 by simp
      show ?thesis
      proof (cases "\<exists>pk a. r3 = Inr () \<and> kr_PublicKey rsp = Some pk
          \<and> creation_address env (cr_ChainType req) (pk_Hex pk) (km_Address old) = Inr a")
        case False
        with run old dkg Inr st k3 show ?thesis
          by (cases r3; cases "kr_PublicKey rsp")
             (auto split: sum.splits)
      next
        case True
        then obtain pk a where pk: "r3 = Inr ()" "kr_PublicKey rsp = Some pk"
          "creation_address env (cr_ChainType req) (pk_Hex pk) (km_Address old) = Inr a"
          by blast
        let ?k = "(key_of_request req ?id (pk_Hex pk) ''Active'' (now (net s3)))
                     \<lparr>km_CreatedAt := km_CreatedAt old, km_DeletionDate := km_DeletionDate old, km_Address := a\<rparr>"
        obtain r4 s4 where upd: "on_net (\<lambda>w. pg_UpdateKeyMetadata w ?k) s3 = (r4, s4)"
          by (cases "on_net (\<lambda>w. pg_UpdateKeyMetadata w ?k) s3")
        have "(r, s') = (case r4 of Inl e \<Rightarrow> Inl (wrap_err ''failed to update key metadata'' e) | Inr _ \<Rightarrow> Inr ?k, s4)"
          using run old dkg Inr st pk upd by (cases r4) (simp_all del: on_net_simps)
        with upd pk st dkg Inr old g show ?thesis
          by (intro disjI2 exI [of _ old] exI [of _ rsp] exI [of _ pk] exI [of _ s1] exI [of _ s2]
              exI [of _ s3] exI [of _ a]) (auto simp: Let_def simp del: on_net_simps)
      qed
    qed
  qed
qed


text \<open>An engine and a state for the examples.\<close>

definition toy_answer :: "byte list \<Rightarrow> KeyGenResponse" where
  "toy_answer pub = \<lparr>kr_KeyShares = [(''n1'', Some \<lparr>sh_ShareID = ''s'', sh_NodeID = ''n1'', sh_Share = [9], sh_Index = 1\<rparr>)],
     kr_PublicKey = Some \<lparr>pk_Bytes = pub, pk_Hex = hex_EncodeToString pub\<rparr>\<rparr>"

definition toy_env :: "byte list \<Rightarrow> key_env" where
  "toy_env pub = \<lparr>ke_gcm = toy_gcm, ke_store = toy_storage, ke_chain = toy_chain, ke_dkg = False,
     ke_generate = (\<lambda>r s. (Inr (toy_answer pub), s))\<rparr>"

definition toy_state :: mpc_state where
  "toy_state = \<lparr>net = sample_world, disk = toy_fs (\<lambda>_. None)\<rparr>"

definition toy_request :: "string \<Rightarrow> CreateKeyRequest" where
  "toy_request chain = \<lparr>cr_KeyID = ''key-1'', cr_Algorithm = ''ECDSA'', cr_Curve = ''secp256k1'',
     cr_Threshold = 2, cr_TotalNodes = 3, cr_ChainType = chain, cr_Description = [], cr_Tags = []\<rparr>"

lemma toy_env_ok: "engine_ok (toy_env pub)" "gcm_ok (ke_gcm (toy_env pub))" "rand_ok (disk toy_state)"
    "plain (cr_KeyID (toy_request c))" "quiet (net toy_state)"
  by (simp_all add: engine_ok_def toy_env_def toy_answer_def toy_ok toy_state_def toy_request_def plain_def
      sample_world_ok)


text \<open>
  With an Ethereum chain type, creating a key panics when the engine gives a
  compressed public key (33 bytes, what the engines give): the shares have been
  stored, the row stays pending without a public key, and no error is returned.
\<close>

theorem ethereum_key_creation_panics:
  assumes "on_net (\<lambda>w. pg_GetKeyMetadata w (cr_KeyID req)) s = (Inr old, s1)" and "km_Status old = ''Pending''"
    and "cr_KeyID req \<noteq> []" and "cr_ChainType req \<in> {''ethereum'', ''eth'', ''evm''}"
    and "run_dkg env s1 (cr_KeyID req) req = (Inr rsp, s2)"
    and "kr_PublicKey rsp = Some \<lparr>pk_Bytes = pub, pk_Hex = hex_EncodeToString pub\<rparr>" and "length pub = 33"
    and "store_shares (put_share env (cr_KeyID req)) (kr_KeyShares rsp) s2 = (Inr (), s3)"
  shows "\<exists>m. CreateKeyWithExistingMetadata env s req = (Inl (Panic m), s3)"
proof -
  have "pub \<noteq> []"
    using assms(7) by auto
  then have "eth_GenerateAddress (ke_chain env) pub = Inl (Panic ''runtime error: slice bounds out of range'')"
    using assms(7) by (simp add: eth_GenerateAddress_def)
  moreover have "chain_address (ke_chain env) (cr_ChainType req) = Some (eth_GenerateAddress (ke_chain env))"
    "cr_ChainType req \<noteq> []"
    using assms(4) by (auto simp: chain_address_def)
  ultimately show ?thesis
    using assms by (simp add: CreateKeyWithExistingMetadata_def Let_def creation_address_def del: on_net_simps)
qed

lemma toy_get: "on_net (\<lambda>w. pg_GetKeyMetadata w ''key-1'') toy_state
    = (Inr sample_key, toy_state\<lparr>net := sample_world\<lparr>pg_calls := 1\<rparr>\<rparr>)"
  by (simp add: toy_state_def sample_world_def empty_world_def pg_GetKeyMetadata_def pg_call_def get_key_def
      tbl_get_Cons sample_key_def)

lemma toy_store: "fst (store_shares (put_share (toy_env pub) ''key-1'') (kr_KeyShares (toy_answer pub))
    (toy_state\<lparr>net := w\<rparr>)) = Inr ()"
  by (simp add: toy_answer_def toy_env_def StoreKeyShare_def ks_encrypt_def aes_NewCipher_def toy_storage_def toy_fs_def toy_gcm_def
      write_atomic_def getFilePath_def filepath_Join_def filepath_Dir_def os_MkdirAll_def fs_call_def toy_state_def
      fs_get_def os_WriteFile_def os_Rename_def path_add_def is_dir_def fs_put_def fs_del_def on_disk_def or_wrap_def)

lemma ethereum_key_creation_panics_witness:
  "\<exists>m. fst (CreateKeyWithExistingMetadata (toy_env (replicate 33 2)) toy_state (toy_request ''ethereum''))
         = Inl (Panic m)"
proof -
  let ?pub = "replicate 33 2 :: byte list" and ?s1 = "toy_state\<lparr>net := sample_world\<lparr>pg_calls := 1\<rparr>\<rparr>"
  obtain s3 where "store_shares (put_share (toy_env ?pub) ''key-1'') (kr_KeyShares (toy_answer ?pub)) ?s1 = (Inr (), s3)"
    using toy_store [of ?pub] by (metis prod.collapse)
  then show ?thesis
    using ethereum_key_creation_panics [of "toy_request ''ethereum''" toy_state sample_key ?s1 "toy_env ?pub"
        "toy_answer ?pub" ?s1 ?pub s3] toy_get
    by (auto simp: toy_request_def sample_key_def run_dkg_def toy_env_def toy_answer_def simp del: on_net_simps)
qed

section \<open>Addresses\<close>

text \<open>Generating an address when the stored one does not answer the request.\<close>

lemma generate_address_run:
  assumes "quiet (net s)" and "get_key (net s) kid = Some k" and "key_row_ok k"
    and "\<not> (km_Address k \<noteq> [] \<and> km_ChainType k = c)"
    and "hex_DecodeString (km_PublicKey k) = Inr pub" and "chain_address (ke_chain env) c = Some gen"
    and "gen pub = Inr a"
  shows "\<exists>s'. GenerateAddress env s kid c = (Inr a, s') \<and> quiet (net s')
    \<and> get_key (net s') kid = Some (k\<lparr>km_Address := a, km_UpdatedAt := now (net s)\<rparr>)"
proof -
  let ?w1 = "net s\<lparr>pg_calls := Suc (pg_calls (net s))\<rparr>"
  let ?k = "k\<lparr>km_Address := a, km_UpdatedAt := now (net s)\<rparr>"
  have get: "GetKey s kid = (Inr k, s\<lparr>net := ?w1\<rparr>)"
    using assms(1,2) by (simp add: GetKey_def pg_GetKeyMetadata_def pg_call_quiet on_net_def)
  have q: "quiet ?w1"
    using assms(1) by (simp add: quiet_def)
  have id: "km_KeyID k = kid"
    using assms(2) by (auto simp: get_key_def dest: tbl_get_SomeD)
  have ok: "key_row_ok ?k"
    using assms(3) by (simp add: key_row_ok_def)
  have "GenerateAddress env s kid c = (Inr a, s\<lparr>net := set_key ?k (?w1\<lparr>pg_calls := Suc (Suc (pg_calls (net s)))\<rparr>)\<rparr>)"
    using get assms(4-7) q ok
    by (auto simp: GenerateAddress_def pg_UpdateKeyMetadata_def pg_call_quiet sql_update_key_def on_net_def
        simp del: on_net_simps)
  moreover have "quiet (set_key ?k (?w1\<lparr>pg_calls := Suc (Suc (pg_calls (net s)))\<rparr>))"
    using assms(1) by (simp add: quiet_def set_key_def)
  moreover have "get_key (set_key ?k (?w1\<lparr>pg_calls := Suc (Suc (pg_calls (net s)))\<rparr>)) kid = Some ?k"
    using assms(2) id by (simp add: get_set_key)
  ultimately show ?thesis
    by auto
qed

text \<open>
  Asking for a key's address on another chain spoils its own: the new address
  is stored in the row without its chain type, and from then on asking for the
  address on the key's own chain returns the other chain's address.
\<close>

theorem address_of_other_chain_is_kept:
  assumes "quiet (net s)" and "get_key (net s) kid = Some k" and "key_row_ok k"
    and "km_ChainType k = ''bitcoin''" and "hex_DecodeString (km_PublicKey k) = Inr pub"
    and "eth_GenerateAddress (ke_chain env) pub = Inr a" and "a \<noteq> []"
  shows "\<exists>s1 s2. GenerateAddress env s kid ''ethereum'' = (Inr a, s1)
    \<and> GenerateAddress env s1 kid ''bitcoin'' = (Inr a, s2)"
proof -
  have c: "chain_address (ke_chain env) ''ethereum'' = Some (eth_GenerateAddress (ke_chain env))"
    by (simp add: chain_address_def)
  obtain s1 where s1: "GenerateAddress env s kid ''ethereum'' = (Inr a, s1)" "quiet (net s1)"
    "get_key (net s1) kid = Some (k\<lparr>km_Address := a, km_UpdatedAt := now (net s)\<rparr>)"
    using generate_address_run [OF assms(1-3) _ assms(5) c assms(6)] assms(4) by auto
  have "fst (GenerateAddress env s1 kid ''bitcoin'') = Inr a"
    using s1(2,3) assms(4,7)
    by (simp add: GenerateAddress_def GetKey_def pg_GetKeyMetadata_def pg_call_quiet on_net_def del: on_net_simps)
  with s1(1) show ?thesis
    by (metis prod.collapse)
qed

lemma address_of_other_chain_is_kept_witness:
  "let s = toy_state\<lparr>net := sample_world\<lparr>keys_t := [plain_key\<lparr>km_PublicKey := hex_EncodeToString (replicate 64 1)\<rparr>]\<rparr>\<rparr>
   in \<exists>a s1 s2. GenerateAddress (toy_env []) s ''key-1'' ''ethereum'' = (Inr a, s1)
        \<and> GenerateAddress (toy_env []) s1 ''key-1'' ''bitcoin'' = (Inr a, s2)"
  unfolding Let_def
  by (intro exI [of _ "''0x'' @ hex_EncodeToString (replicate 20 1)"] address_of_other_chain_is_kept
        [where k = "plain_key\<lparr>km_PublicKey := hex_EncodeToString (replicate 64 1)\<rparr>" and pub = "replicate 64 1"])
     (simp_all add: toy_state_def sample_world_def empty_world_def quiet_def get_key_def tbl_get_Cons
       plain_key_def key_row_ok_def int4_ok_def toy_env_def toy_chain_def eth_GenerateAddress_def
       del: hex_EncodeToString.simps)

section \<open>Deleting a key\<close>

lemma delete_key_marks:
  assumes "quiet (net s)" and "get_key (net s) kid = Some k" and "key_row_ok k"
  shows "fst (DeleteKey s kid) = Inr ()
    \<and> get_key (net (snd (DeleteKey s kid))) kid = Some (k\<lparr>km_Status := ''Deleted'',
         km_DeletionDate := Some (now (net s)), km_UpdatedAt := now (net s)\<rparr>)
    \<and> disk (snd (DeleteKey s kid)) = disk s"
proof -
  let ?w1 = "net s\<lparr>pg_calls := Suc (pg_calls (net s))\<rparr>"
  let ?k = "k\<lparr>km_Status := ''Deleted'', km_DeletionDate := Some (now (net s)), km_UpdatedAt := now (net s)\<rparr>"
  have get: "GetKey s kid = (Inr k, s\<lparr>net := ?w1\<rparr>)"
    using assms(1,2) by (simp add: GetKey_def pg_GetKeyMetadata_def pg_call_quiet on_net_def)
  have q: "quiet ?w1"
    using assms(1) by (simp add: quiet_def)
  have k: "km_KeyID k = kid" "key_row_ok ?k"
    using assms(2,3) by (auto simp: get_key_def key_row_ok_def dest: tbl_get_SomeD)
  with get q have "DeleteKey s kid = (Inr (), s\<lparr>net := set_key ?k (?w1\<lparr>pg_calls := Suc (Suc (pg_calls (net s)))\<rparr>)\<rparr>)"
    by (simp add: DeleteKey_def pg_UpdateKeyMetadata_def pg_call_quiet sql_update_key_def on_net_def Let_def)
  moreover have "get_key (set_key ?k (?w1\<lparr>pg_calls := Suc (Suc (pg_calls (net s)))\<rparr>)) kid = Some ?k"
    using assms(2) k(1) by (simp add: get_set_key)
  ultimately show ?thesis
    by simp
qed

text \<open>
  Deleting a key marks its row \<open>Deleted\<close> with the time of the call and keeps
  everything else: the row itself, its public key, and every share on the disk.
  It can be repeated, and it fails exactly when there is no such row.
\<close>

theorem delete_key_is_soft:
  assumes "quiet (net s)" and "db_inv (net s)"
  shows "case get_key (net s) kid of
      None \<Rightarrow> isl (fst (DeleteKey s kid))
    | Some k \<Rightarrow> fst (DeleteKey s kid) = Inr ()
        \<and> get_key (net (snd (DeleteKey s kid))) kid = Some (k\<lparr>km_Status := ''Deleted'',
             km_DeletionDate := Some (now (net s)), km_UpdatedAt := now (net s)\<rparr>)
        \<and> disk (snd (DeleteKey s kid)) = disk s"
proof (cases "get_key (net s) kid")
  case None
  with assms(1) show ?thesis
    by (simp add: DeleteKey_def GetKey_def pg_GetKeyMetadata_def pg_call_quiet on_net_def)
next
  case (Some k)
  then have "key_row_ok k"
    using assms(2) by (auto simp: db_inv_def get_key_def dest: tbl_get_SomeD)
  with Some delete_key_marks [OF assms(1) Some] show ?thesis
    by simp
qed

lemma delete_key_is_soft_witness:
  "fst (DeleteKey toy_state ''key-1'') = Inr ()"
proof -
  have "get_key (net toy_state) ''key-1'' = Some sample_key"
    by (simp add: toy_state_def sample_world_def empty_world_def get_key_def tbl_get_Cons sample_key_def)
  moreover have "quiet (net toy_state)" "db_inv (net toy_state)"
    by (simp_all add: toy_state_def sample_world_ok)
  ultimately show ?thesis
    using delete_key_is_soft [of toy_state "''key-1''"] by simp
qed

text \<open>
  Creating a placeholder with the id of an existing key overwrites that key:
  an active key becomes pending and its public key is replaced by the word
  pending, whatever its shares are.
\<close>

theorem placeholder_overwrites_key:
  assumes "quiet (net s)" and "get_key (net s) (cr_KeyID req) = Some k" and "cr_KeyID req \<noteq> []"
    and "int4_ok (cr_Threshold req)" and "int4_ok (cr_TotalNodes req)"
  shows "\<exists>row. fst (CreatePlaceholderKey s req) = Inr (key_of_request req (cr_KeyID req) ''pending'' ''Pending'' (now (net s)))
    \<and> get_key (net (snd (CreatePlaceholderKey s req))) (cr_KeyID req) = Some row
    \<and> km_Status row = ''Pending'' \<and> km_PublicKey row = ''pending''
    \<and> km_CreatedAt row = km_CreatedAt k \<and> km_DeletionDate row = km_DeletionDate k"
proof -
  let ?k = "key_of_request req (cr_KeyID req) ''pending'' ''Pending'' (now (net s))"
  let ?w1 = "put_key ?k (net s\<lparr>pg_calls := Suc (pg_calls (net s))\<rparr>)"
  have ok: "key_row_ok ?k" "km_KeyID ?k = cr_KeyID req"
    using assms(4,5) by (simp_all add: key_row_ok_def key_of_request_def)
  have sav: "pg_SaveKeyMetadata (net s) ?k = (Inr (), ?w1)"
    using assms(1) ok by (simp add: pg_SaveKeyMetadata_def pg_call_quiet sql_upsert_key_def)
  have row: "get_key ?w1 (cr_KeyID req) = Some (key_conflict (?k\<lparr>km_DeletionDate := None\<rparr>) k)"
    using assms(2) ok(2) keys_store.get_put [of ?k "net s\<lparr>pg_calls := Suc (pg_calls (net s))\<rparr>" "cr_KeyID req"]
    by (simp add: key_of_request_def)
  have q: "quiet ?w1"
    using assms(1) by (simp add: quiet_def put_key_def Let_def)
  then have "pg_GetKeyMetadata ?w1 (cr_KeyID req)
      = (Inr (key_conflict (?k\<lparr>km_DeletionDate := None\<rparr>) k), ?w1\<lparr>pg_calls := Suc (pg_calls ?w1)\<rparr>)"
    using row by (simp add: pg_GetKeyMetadata_def pg_call_quiet)
  with sav assms(3) have "CreatePlaceholderKey s req = (Inr ?k, s\<lparr>net := ?w1\<lparr>pg_calls := Suc (pg_calls ?w1)\<rparr>\<rparr>)"
    by (simp add: CreatePlaceholderKey_def new_key_id_def on_net_def Let_def)
  with row show ?thesis
    by (simp add: key_conflict_def key_of_request_def)
qed

lemma placeholder_overwrites_key_witness:
  "\<exists>row. get_key (net (snd (CreatePlaceholderKey (toy_state\<lparr>net := sample_world\<lparr>keys_t := [plain_key]\<rparr>\<rparr>)
        (toy_request []))) ) ''key-1'' = Some row \<and> km_PublicKey row = ''pending''"
  using placeholder_overwrites_key [of "toy_state\<lparr>net := sample_world\<lparr>keys_t := [plain_key]\<rparr>\<rparr>" "toy_request []" plain_key]
  by (auto simp: toy_state_def toy_request_def sample_world_def empty_world_def quiet_def get_key_def
      tbl_get_Cons plain_key_def int4_ok_def)

section \<open>Distributed key generation\<close>

text \<open>
  Distributed key generation runs only with a session that names at least
  the threshold of nodes, hands exactly those nodes to the engine, and succeeds
  only with at least one share and a public key; an answer without a public key
  is a nil dereference (the log line before the check reads it).
\<close>

theorem execute_dkg_guards:
  assumes "ExecuteDKG env s kid req = (r, s')"
  shows "case r of
      Inr rsp \<Rightarrow> (\<exists>ses s1. get_sess (net s) kid = Some ses \<and> ss_ParticipatingNodes ses \<noteq> []
          \<and> cr_Threshold req \<le> int (length (ss_ParticipatingNodes ses))
          \<and> ke_generate env \<lparr>kg_KeyID = kid, kg_Algorithm = cr_Algorithm req, kg_Curve = cr_Curve req,
               kg_Threshold = cr_Threshold req, kg_TotalNodes = cr_TotalNodes req,
               kg_NodeIDs = ss_ParticipatingNodes ses\<rparr> s1 = (Inr rsp, s')
          \<and> kr_KeyShares rsp \<noteq> [] \<and> (\<exists>pk. kr_PublicKey rsp = Some pk \<and> pk_Hex pk \<noteq> []))
    | Inl e \<Rightarrow> e = nil_deref \<longrightarrow> (\<exists>q s1 rsp. ke_generate env q s1 = (Inr rsp, s') \<and> kr_PublicKey rsp = None)
          \<or> (\<exists>q s1. ke_generate env q s1 = (Inl nil_deref, s'))"
proof -
  obtain r0 w where get: "pg_GetSigningSession (net s) kid = (r0, w)"
    by (cases "pg_GetSigningSession (net s) kid")
  note run = assms [unfolded ExecuteDKG_def on_net_def Let_def, simplified get]
  show ?thesis
  proof (cases r0)
    case (Inl e)
    have "is_panic e = False"
      using get Inl by (auto simp: pg_GetSigningSession_def pg_call_def Let_def or_wrap_def
          split: option.splits prod.splits sum.splits)
    then have "wrap_err m e \<noteq> nil_deref" for m
      by (metis is_panic.simps(1) is_panic_wrap_err nil_deref_def)
    with run Inl show ?thesis by auto
  next
    case (Inr ses)
    have ses: "get_sess (net s) kid = Some ses"
      using pg_GetSigningSession_cases(2) [OF get] Inr by blast
    let ?q = "\<lparr>kg_KeyID = kid, kg_Algorithm = cr_Algorithm req, kg_Curve = cr_Curve req,
               kg_Threshold = cr_Threshold req, kg_TotalNodes = cr_TotalNodes req,
               kg_NodeIDs = ss_ParticipatingNodes ses\<rparr>"
    obtain r1 s1 where gen: "ke_generate env ?q (s\<lparr>net := w\<rparr>) = (r1, s1)"
      by (cases "ke_generate env ?q (s\<lparr>net := w\<rparr>)")
    show ?thesis
    proof (cases r1)
      case (Inl e)
      have "wrap_err ''failed to execute DKG protocol'' e = nil_deref \<longrightarrow> e = nil_deref"
        by (cases e) (simp_all add: nil_deref_def)
      moreover have "(\<exists>m. r = Inl (Err m)) \<or> r = Inl (wrap_err ''failed to execute DKG protocol'' e) \<and> s' = s1"
        using run \<open>r0 = Inr ses\<close> gen Inl by (auto split: if_splits)
      ultimately show ?thesis
        using gen Inl by (auto simp: nil_deref_def)
    next
      case (Inr rsp)
      show ?thesis
      proof (cases "kr_PublicKey rsp")
        case None
        with run \<open>r0 = Inr ses\<close> gen Inr have "(\<exists>m. r = Inl (Err m)) \<or> r = Inl nil_deref \<and> s' = s1"
          by (auto split: if_splits)
        moreover have "\<exists>q v rsp. ke_generate env q v = (Inr rsp, s1) \<and> kr_PublicKey rsp = None"
          using gen Inr None by blast
        ultimately show ?thesis
        proof (elim disjE exE conjE)
          fix m
          assume "r = Inl (Err m)"
          then show ?thesis by (simp add: nil_deref_def)
        next
          fix q v rsp'
          assume "r = Inl nil_deref" "s' = s1" "ke_generate env q v = (Inr rsp', s1)" "kr_PublicKey rsp' = None"
          then show ?thesis by (simp only: sum.case) blast
        qed
      next
        case (Some pk)
        with run \<open>r0 = Inr ses\<close> gen ses Inr show ?thesis
          by (auto simp: nil_deref_def split: if_splits)
      qed
    qed
  qed
qed

lemma execute_dkg_guards_witness:
  "\<exists>rsp. fst (ExecuteDKG (toy_env [2, 3]) (toy_state\<lparr>net := sample_keygen\<rparr>) ''key-1''
        (toy_request []\<lparr>cr_Threshold := 1\<rparr>)) = Inr rsp \<and> kr_KeyShares rsp \<noteq> []"
proof -
  let ?x = "ExecuteDKG (toy_env [2, 3]) (toy_state\<lparr>net := sample_keygen\<rparr>) ''key-1'' (toy_request []\<lparr>cr_Threshold := 1\<rparr>)"
  have "fst ?x = Inr (toy_answer [2, 3])"
    by (simp add: ExecuteDKG_def on_net_def pg_GetSigningSession_def pg_call_def Let_def sample_keygen_def
        sample_world_def empty_world_def get_sess_def tbl_get_Cons sample_row_def toy_request_def toy_env_def
        toy_answer_def)
  then have "?x = (Inr (toy_answer [2, 3]), snd ?x)"
    by (simp add: prod_eq_iff)
  from execute_dkg_guards [OF this] \<open>fst ?x = Inr (toy_answer [2, 3])\<close> show ?thesis
    by auto
qed

end
