(* ===== verification/Nodes.thy ===== *)
theory Nodes
  imports StorageProps
begin

text \<open>
  \<open>internal/mpc/node\<close> and \<open>internal/mpc/discovery\<close>: the node manager, the registry
  and the discovery of nodes from the database and from Consul. Consul is a
  parameter: the answer its health endpoint gives to the one query of a call, or
  its error. A node has the fields of the storage's \<open>NodeInfo\<close>; one record stands
  for both. Where the code collects nodes in a Go map and ranges over it, the
  order is the parameter \<open>ord\<close>.
\<close>

section \<open>Types\<close>

definition NodeStatusActive :: string where "NodeStatusActive = ''active''"
definition NodeTypeCoordinator :: string where "NodeTypeCoordinator = ''coordinator''"
definition NodeTypeParticipant :: string where "NodeTypeParticipant = ''participant''"

record HealthCheck =
  hc_NodeID :: string
  hc_Status :: string
  hc_Timestamp :: time
  hc_Checks :: "(string \<times> string) list"
  hc_HeartbeatAge :: "int option"

record ServiceInfo =
  si_ID :: string
  si_Name :: string
  si_Address :: string
  si_Port :: int
  si_Tags :: "string list"
  si_NodeType :: string

section \<open>Manager (node/manager.go)\<close>

definition nm_RegisterNode :: "world \<Rightarrow> NodeInfo \<Rightarrow> (world, unit) res" where
  "nm_RegisterNode w n =
     or_wrap (pg_SaveNode w (n\<lparr>ni_LastHeartbeat := None\<rparr>)) ''failed to register node'' (\<lambda>_ w. (Inr (), w))"

definition nm_GetNode :: "world \<Rightarrow> string \<Rightarrow> (world, NodeInfo) res" where
  "nm_GetNode w nodeID = or_wrap (pg_GetNode w nodeID) ''failed to get node'' (\<lambda>n w. (Inr n, w))"

definition nm_ListNodes :: "world \<Rightarrow> NodeFilter option \<Rightarrow> (world, NodeInfo list) res" where
  "nm_ListNodes w f = or_wrap (pg_ListNodes w f) ''failed to list nodes'' (\<lambda>ns w. (Inr ns, w))"

definition nm_UpdateNodeStatus :: "world \<Rightarrow> string \<Rightarrow> string \<Rightarrow> (world, unit) res" where
  "nm_UpdateNodeStatus w nodeID status =
     or_wrap (nm_GetNode w nodeID) ''failed to get node''
       (\<lambda>n w. or_wrap (pg_UpdateNode w (n\<lparr>ni_Status := status\<rparr>)) ''failed to update node status''
          (\<lambda>_ w. (Inr (), w)))"

definition nm_UpdateHeartbeat :: "world \<Rightarrow> string \<Rightarrow> (world, unit) res" where
  "nm_UpdateHeartbeat w nodeID =
     or_wrap (pg_UpdateNodeHeartbeat w nodeID) ''failed to update heartbeat'' (\<lambda>_ w. (Inr (), w))"

definition nm_HealthCheck :: "int \<Rightarrow> world \<Rightarrow> string \<Rightarrow> (world, HealthCheck) res" where
  "nm_HealthCheck heartbeatInterval w nodeID =
     or_wrap (nm_GetNode w nodeID) ''failed to get node''
       (\<lambda>n w.
          let status = (if ni_Status n = NodeStatusActive then ''ok'' else ''faulty'');
              age = map_option (\<lambda>t. now w - t) (ni_LastHeartbeat n);
              heartbeat = (case age of
                 None \<Rightarrow> ''missing''
               | Some d \<Rightarrow> if d < heartbeatInterval * 2 then ''ok'' else ''stale'');
              overall = (if status \<noteq> ''ok'' \<or> heartbeat \<noteq> ''ok'' then ''unhealthy'' else ''healthy'')
          in (Inr \<lparr>hc_NodeID = nodeID, hc_Status = overall, hc_Timestamp = now w,
                   hc_Checks = [(''status'', status), (''heartbeat'', heartbeat)],
                   hc_HeartbeatAge = age\<rparr>, w))"

section \<open>Registry (node/registry.go)\<close>

text \<open>\<open>rand8\<close>: the eight bytes \<open>crypto/rand\<close> gives.\<close>

definition generateNodeID :: "byte list \<Rightarrow> string \<Rightarrow> string" where
  "generateNodeID rand8 prefix = prefix @ ''-'' @ hex_EncodeToString rand8"

definition reg_node :: "string \<Rightarrow> string \<Rightarrow> string \<Rightarrow> string \<Rightarrow> string list \<Rightarrow> time \<Rightarrow> NodeInfo" where
  "reg_node nodeID nodeType endpoint publicKey capabilities t =
     \<lparr>ni_NodeID = nodeID, ni_NodeType = nodeType, ni_Endpoint = endpoint, ni_PublicKey = publicKey,
      ni_Status = NodeStatusActive, ni_Capabilities = capabilities, ni_Metadata = [],
      ni_RegisteredAt = t, ni_LastHeartbeat = None\<rparr>"

definition RegisterCoordinator :: "byte list \<Rightarrow> world \<Rightarrow> string \<Rightarrow> string \<Rightarrow> (world, NodeInfo) res" where
  "RegisterCoordinator rand8 w endpoint publicKey =
     (let n = reg_node (generateNodeID rand8 ''coordinator'') NodeTypeCoordinator endpoint publicKey
                [''gg18'', ''gg20''] (now w)
      in or_wrap (nm_RegisterNode w n) ''failed to register coordinator'' (\<lambda>_ w. (Inr n, w)))"

definition RegisterParticipant ::
  "byte list \<Rightarrow> world \<Rightarrow> string \<Rightarrow> string \<Rightarrow> string list \<Rightarrow> (world, NodeInfo) res" where
  "RegisterParticipant rand8 w endpoint publicKey capabilities =
     (let n = reg_node (generateNodeID rand8 ''participant'') NodeTypeParticipant endpoint publicKey
                capabilities (now w)
      in or_wrap (nm_RegisterNode w n) ''failed to register participant'' (\<lambda>_ w. (Inr n, w)))"

section \<open>Service discovery (discovery/service.go, discovery/consul.go)\<close>

text \<open>What \<open>RegisterNode\<close> registers, and the id \<open>DeregisterNode\<close> takes back.\<close>

definition service_id :: "string \<Rightarrow> string \<Rightarrow> string" where
  "service_id nodeType nodeID = ''mpc-'' @ nodeType @ ''-'' @ nodeID"

definition ds_registration :: "string \<Rightarrow> string \<Rightarrow> string \<Rightarrow> int \<Rightarrow> ServiceInfo" where
  "ds_registration nodeID nodeType address port =
     \<lparr>si_ID = service_id nodeType nodeID, si_Name = ''mpc-'' @ nodeType, si_Address = address,
      si_Port = port, si_Tags = [''node-type:'' @ nodeType, ''node-id:'' @ nodeID, ''protocol:v1''],
      si_NodeType = nodeType\<rparr>"

text \<open>
  The agent of Consul: it registers a service with a TCP check and takes a
  service back by its id.
\<close>

record AgentServiceRegistration =
  ar_ID :: string
  ar_Name :: string
  ar_Address :: string
  ar_Port :: int
  ar_Tags :: "string list"
  ar_CheckTCP :: string
  ar_CheckInterval :: string
  ar_CheckTimeout :: string
  ar_CheckDeregisterAfter :: string

record 'c consul_agent =
  ca_register :: "AgentServiceRegistration \<Rightarrow> 'c \<Rightarrow> ('c, unit) res"
  ca_deregister :: "string \<Rightarrow> 'c \<Rightarrow> ('c, unit) res"

definition consul_Register :: "'c consul_agent \<Rightarrow> 'c \<Rightarrow> ServiceInfo \<Rightarrow> ('c, unit) res" where
  "consul_Register agent c service =
     or_wrap (ca_register agent
       \<lparr>ar_ID = si_ID service, ar_Name = si_Name service, ar_Address = si_Address service,
        ar_Port = si_Port service, ar_Tags = si_Tags service,
        ar_CheckTCP = si_Address service @ '':'' @ itoa (si_Port service), ar_CheckInterval = ''10s'',
        ar_CheckTimeout = ''5s'', ar_CheckDeregisterAfter = ''1m''\<rparr> c)
       ''failed to register service'' (\<lambda>_ c. (Inr (), c))"

definition consul_Deregister :: "'c consul_agent \<Rightarrow> 'c \<Rightarrow> string \<Rightarrow> ('c, unit) res" where
  "consul_Deregister agent c serviceID =
     (case ca_deregister agent serviceID c of
        (Inr _, c) \<Rightarrow> (Inr (), c)
      | (Inl e, c) \<Rightarrow>
          if Contains (err_text e) ''404'' \<or> Contains (err_text e) ''Unknown service ID'' then (Inr (), c)
          else (Inl (wrap_err ''failed to deregister service'' e), c))"

definition ds_RegisterNode ::
  "'c consul_agent \<Rightarrow> 'c \<Rightarrow> string \<Rightarrow> string \<Rightarrow> string \<Rightarrow> int \<Rightarrow> ('c, unit) res" where
  "ds_RegisterNode agent c nodeID nodeType address port =
     consul_Register agent c (ds_registration nodeID nodeType address port)"

definition ds_DeregisterNode :: "'c consul_agent \<Rightarrow> 'c \<Rightarrow> string \<Rightarrow> string \<Rightarrow> ('c, unit) res" where
  "ds_DeregisterNode agent c nodeID nodeType = consul_Deregister agent c (service_id nodeType nodeID)"

fun extractNodeType :: "string list \<Rightarrow> string" where
  "extractNodeType [] = []"
| "extractNodeType (tag # tags) =
     (if length tag > 10 \<and> take 10 tag = ''node-type:'' then drop 10 tag else extractNodeType tags)"

text \<open>The answer of Consul: the instances that pass their check and carry the tags.\<close>

definition consul_Discover :: "(err + ServiceInfo list) \<Rightarrow> string \<Rightarrow> err + ServiceInfo list" where
  "consul_Discover answer serviceName =
     pure_wrap answer (''failed to discover services '' @ serviceName)
       (\<lambda>svcs. Inr (map (\<lambda>s. s\<lparr>si_NodeType := extractNodeType (si_Tags s)\<rparr>) svcs))"

text \<open>
  \<open>DiscoverParticipants\<close> returns the services beside its error; \<open>slice [:cnt]\<close>
  needs a non-negative cnt, which the comparison before it ensures.
\<close>

definition DiscoverParticipants ::
  "(err + ServiceInfo list) \<Rightarrow> int \<Rightarrow> ServiceInfo list \<times> err option" where
  "DiscoverParticipants answer cnt =
     (case consul_Discover answer ''mpc-participant'' of
        Inl e \<Rightarrow> ([], Some e)
      | Inr svcs \<Rightarrow>
          if int (length svcs) < cnt
          then (svcs, Some (Err (''insufficient participants: found '' @ nat_digits (length svcs)
                  @ '', required '' @ itoa cnt)))
          else if int (length svcs) > cnt
          then (if cnt < 0 then ([], Some (Panic ''runtime error: slice bounds out of range''))
                else (take (nat cnt) svcs, None))
          else (svcs, None))"

definition DiscoverCoordinator :: "(err + ServiceInfo list) \<Rightarrow> err + ServiceInfo" where
  "DiscoverCoordinator answer =
     (case consul_Discover answer ''mpc-coordinator'' of
        Inl e \<Rightarrow> Inl e
      | Inr [] \<Rightarrow> Inl (Err ''no coordinator found'')
      | Inr (s # _) \<Rightarrow> Inr s)"

fun tag_node_id :: "string list \<Rightarrow> string option" where
  "tag_node_id [] = None"
| "tag_node_id (tag # tags) =
     (if HasPrefix tag ''node-id:'' then Some (TrimPrefix tag ''node-id:'') else tag_node_id tags)"

definition ExtractNodeID :: "ServiceInfo \<Rightarrow> string" where
  "ExtractNodeID svc =
     (case tag_node_id (si_Tags svc) of
        Some i \<Rightarrow> i
      | None \<Rightarrow>
          if HasPrefix (si_ID svc) ''mpc-participant-'' then TrimPrefix (si_ID svc) ''mpc-participant-''
          else if HasPrefix (si_ID svc) ''mpc-coordinator-'' then TrimPrefix (si_ID svc) ''mpc-coordinator-''
          else [])"

section \<open>Node discovery (node/discovery.go)\<close>

definition node_of_service :: "string \<Rightarrow> ServiceInfo \<Rightarrow> NodeInfo" where
  "node_of_service status svc =
     \<lparr>ni_NodeID = ExtractNodeID svc, ni_NodeType = si_NodeType svc,
      ni_Endpoint = si_Address svc @ '':'' @ itoa (si_Port svc), ni_PublicKey = [], ni_Status = status,
      ni_Capabilities = [], ni_Metadata = [], ni_RegisteredAt = 0, ni_LastHeartbeat = None\<rparr>"

text \<open>\<open>uniqueNodes[n.NodeID] = n\<close> over the list: of each id the last node stays.\<close>

fun unique_nodes :: "NodeInfo list \<Rightarrow> NodeInfo list" where
  "unique_nodes [] = []"
| "unique_nodes (n # ns) =
     (if ni_NodeID n \<in> ni_NodeID ` set ns then unique_nodes ns else n # unique_nodes ns)"

text \<open>\<open>consul = None\<close>: no discovery service is configured.\<close>

definition DiscoverNodes ::
  "(NodeInfo list \<Rightarrow> NodeInfo list) \<Rightarrow> (err + ServiceInfo list) option \<Rightarrow> world \<Rightarrow> string \<Rightarrow> string \<Rightarrow> int
     \<Rightarrow> (world, NodeInfo list) res" where
  "DiscoverNodes ord consul w nodeType status limit =
     or_wrap (nm_ListNodes w (Some \<lparr>nf_NodeType = nodeType, nf_Status = status, nf_Limit = limit, nf_Offset = 0\<rparr>))
       ''failed to list nodes from database''
       (\<lambda>nodes w.
          if int (length nodes) \<ge> limit then (Inr nodes, w)
          else case consul of
              None \<Rightarrow> (Inr nodes, w)
            | Some answer \<Rightarrow>
                if nodeType \<noteq> NodeTypeParticipant then (Inr nodes, w)
                else (case DiscoverParticipants answer limit of
                    (_, Some (Panic p)) \<Rightarrow> (Inl (Panic p), w)
                  | (_, Some _) \<Rightarrow> (Inr nodes, w)
                  | (svcs, None) \<Rightarrow>
                      let consulNodes = map (node_of_service status) (filter (\<lambda>s. ExtractNodeID s \<noteq> []) svcs)
                      in (Inr (ord (unique_nodes (nodes @ consulNodes))), w)))"

section \<open>Properties\<close>

text \<open>
  A node that registers itself with Consul is found there under its own id
  and type: the tags of the registration give back the node id, the node type and,
  without the tags, the service id still gives the node id.
\<close>

theorem registered_node_is_found:
  shows "ExtractNodeID (ds_registration nodeID nodeType address port) = nodeID
    \<and> extractNodeType (si_Tags (ds_registration nodeID nodeType address port)) = nodeType
    \<and> ExtractNodeID ((ds_registration nodeID NodeTypeParticipant address port)\<lparr>si_Tags := []\<rparr>) = nodeID
    \<and> ExtractNodeID ((ds_registration nodeID NodeTypeCoordinator address port)\<lparr>si_Tags := []\<rparr>) = nodeID"
proof -
  have "extractNodeType [''node-type:'' @ t, ''node-id:'' @ n, ''protocol:v1''] = t" for t n
    by simp
  then show ?thesis
    by (simp add: ds_registration_def ExtractNodeID_def service_id_def NodeTypeParticipant_def
        NodeTypeCoordinator_def HasPrefix_def TrimPrefix_def)
qed

text \<open>
  A node is reported healthy exactly when its status is active and its last
  heartbeat is younger than twice the interval; a missing node is an error and
  the check changes nothing.
\<close>

theorem health_check_verdict:
  assumes "quiet w"
  shows "case get_node w nid of
      None \<Rightarrow> isl (fst (nm_HealthCheck hb w nid))
    | Some n \<Rightarrow> (\<exists>h. fst (nm_HealthCheck hb w nid) = Inr h
        \<and> (hc_Status h = ''healthy'' \<longleftrightarrow> ni_Status n = NodeStatusActive
             \<and> (\<exists>t. ni_LastHeartbeat n = Some t \<and> now w - t < 2 * hb))
        \<and> same_store w (snd (nm_HealthCheck hb w nid)))"
  using assms
  by (auto simp: nm_HealthCheck_def nm_GetNode_def pg_GetNode_def pg_call_quiet Let_def split: option.split)

definition sample_node :: "string \<Rightarrow> NodeInfo" where
  "sample_node i = reg_node i NodeTypeParticipant ''h:1'' [] [] 0"

lemma health_check_verdict_witness:
  "\<exists>h. fst (nm_HealthCheck 5 (plain_world\<lparr>pg_fault := (\<lambda>_. None),
        nodes_t := [(sample_node ''n1'')\<lparr>ni_LastHeartbeat := Some (-3)\<rparr>]\<rparr>) ''n1'') = Inr h \<and> hc_Status h = ''healthy''"
  using health_check_verdict [of "plain_world\<lparr>pg_fault := (\<lambda>_. None),
        nodes_t := [(sample_node ''n1'')\<lparr>ni_LastHeartbeat := Some (-3)\<rparr>]\<rparr>" 5 "''n1''"]
  by (auto simp: quiet_def plain_world_def get_node_def tbl_get_Cons sample_node_def reg_node_def NodeStatusActive_def)

lemma unique_nodes_ids: "set (map ni_NodeID (unique_nodes ns)) = set (map ni_NodeID ns)"
  by (induction ns) auto

lemma unique_nodes_distinct: "distinct (map ni_NodeID (unique_nodes ns))"
proof (induction ns)
  case Nil
  then show ?case by simp
next
  case (Cons n ns)
  then show ?case
    using unique_nodes_ids [of ns] by auto
qed

lemma unique_nodes_sub: "set (unique_nodes ns) \<subseteq> set ns"
  by (induction ns) auto

lemma length_ids: "length (unique_nodes ns) = card (ni_NodeID ` set ns)"
  using distinct_card [OF unique_nodes_distinct [of ns]] unique_nodes_ids [of ns] by simp

text \<open>What a listing of nodes gives: some of the matching rows.\<close>

lemma pg_ListNodes_rows:
  assumes "pg_ListNodes w (Some f) = (Inr ns, w')"
  shows "same_store w w'" and "n \<in> set ns \<Longrightarrow> n \<in> set (nodes_t w)
      \<and> (nf_NodeType f \<noteq> [] \<longrightarrow> ni_NodeType n = nf_NodeType f) \<and> (nf_Status f \<noteq> [] \<longrightarrow> ni_Status n = nf_Status f)"
    and "tbl_ok ni_NodeID (nodes_t w) \<Longrightarrow> distinct (map ni_NodeID ns)"
proof -
  let ?P = "\<lambda>n. (nf_NodeType f \<noteq> [] \<longrightarrow> ni_NodeType n = nf_NodeType f) \<and> (nf_Status f \<noteq> [] \<longrightarrow> ni_Status n = nf_Status f)"
  let ?all = "sort_key (\<lambda>n. - ni_RegisteredAt n) (filter ?P (nodes_t w))"
  have ns: "ns = page (eff_limit (nf_Limit f)) (nf_Offset f) ?all" and w: "same_store w w'"
    using assms by (auto simp: pg_ListNodes_def pg_call_def Let_def sql_select_nodes_def or_wrap_def
        split: option.splits if_splits)
  show "same_store w w'" by (rule w)
  show "n \<in> set (nodes_t w) \<and> ?P n" if "n \<in> set ns"
    using that unfolding ns page_def by (auto dest!: in_set_takeD in_set_dropD)
  have "distinct (map ni_NodeID ?all)" if "tbl_ok ni_NodeID (nodes_t w)"
    using that by (simp add: tbl_ok_def distinct_map inj_on_def)
  then show "distinct (map ni_NodeID ns)" if "tbl_ok ni_NodeID (nodes_t w)"
    using that unfolding ns page_def by (simp add: take_map drop_map distinct_take distinct_drop flip: take_map drop_map)
qed



end
