(* ===== verification/Engine.thy ===== *)
theory Engine
  imports KeyService "HOL-Library.AList"
begin

text \<open>
  \<open>internal/mpc/protocol/types.go\<close> and the interface of \<open>engine.go\<close>: what the
  signing, coordinator and participant services ask of a protocol engine, and the
  registry of engines. An engine is a value of the record \<open>engine\<close>; a service
  is a definition that takes one. \<open>en_verify\<close> reads no state in any engine.
  \<open>ProcessIncomingSigningMessage\<close> has the broadcast flag its callers pass and two of
  its implementations take; the interface in \<open>engine.go\<close> leaves it out.
\<close>

section \<open>Types\<close>

record Signature =
  sg_R :: "byte list"
  sg_S :: "byte list"
  sg_Bytes :: "byte list"
  sg_Hex :: string

text \<open>\<open>protocol.SignRequest\<close> and \<open>protocol.SignResponse\<close>.\<close>

record ProtoSignRequest =
  pq_KeyID :: string
  pq_Message :: "byte list"
  pq_MessageHex :: string
  pq_NodeIDs :: "string list"

record ProtoSignResponse =
  pr_Signature :: "Signature option"
  pr_PublicKey :: "PublicKey option"

record engine =
  en_generate :: "KeyGenRequest \<Rightarrow> mpc_state \<Rightarrow> (mpc_state, KeyGenResponse) res"
  en_sign :: "string \<Rightarrow> ProtoSignRequest \<Rightarrow> mpc_state \<Rightarrow> (mpc_state, ProtoSignResponse) res"
  en_verify :: "Signature option \<Rightarrow> byte list \<Rightarrow> PublicKey option \<Rightarrow> err + bool"
  en_process_keygen :: "string \<Rightarrow> string \<Rightarrow> byte list \<Rightarrow> bool \<Rightarrow> mpc_state \<Rightarrow> (mpc_state, unit) res"
  en_process_signing :: "string \<Rightarrow> string \<Rightarrow> byte list \<Rightarrow> bool \<Rightarrow> mpc_state \<Rightarrow> (mpc_state, unit) res"
  en_default :: string

section \<open>ProtocolRegistry\<close>

record ProtocolRegistry =
  protocols :: "(string \<times> engine) list"
  defaultProtocol :: string

definition NewProtocolRegistry :: ProtocolRegistry where
  "NewProtocolRegistry = \<lparr>protocols = [], defaultProtocol = []\<rparr>"

definition reg_Register :: "ProtocolRegistry \<Rightarrow> string \<Rightarrow> engine \<Rightarrow> ProtocolRegistry" where
  "reg_Register r name e = r\<lparr>protocols := AList.update name e (protocols r)\<rparr>"

definition reg_Get :: "ProtocolRegistry \<Rightarrow> string \<Rightarrow> err + engine" where
  "reg_Get r name =
     (case map_of (protocols r) name of
        None \<Rightarrow> Inl (Err (''protocol '' @ name @ '' not found''))
      | Some e \<Rightarrow> Inr e)"

definition reg_SetDefault :: "ProtocolRegistry \<Rightarrow> string \<Rightarrow> ProtocolRegistry" where
  "reg_SetDefault r name = r\<lparr>defaultProtocol := name\<rparr>"

definition reg_GetDefault :: "ProtocolRegistry \<Rightarrow> err + engine" where
  "reg_GetDefault r =
     (if defaultProtocol r = [] then Inl (Err ''no default protocol set'')
      else reg_Get r (defaultProtocol r))"

text \<open>\<open>ord\<close>: the order in which the loop visits the map.\<close>

definition reg_List :: "(string list \<Rightarrow> string list) \<Rightarrow> ProtocolRegistry \<Rightarrow> string list" where
  "reg_List ord r = ord (map fst (protocols r))"

section \<open>Facts\<close>

lemma reg_Get_Register:
  "reg_Get (reg_Register r n e) m = (if m = n then Inr e else reg_Get r m)"
  by (simp add: reg_Get_def reg_Register_def AList.update_conv)

lemma reg_names_distinct:
  "distinct (map fst (protocols r)) \<Longrightarrow> distinct (map fst (protocols (reg_Register r n e)))"
  by (simp add: reg_Register_def AList.distinct_update)

lemma reg_List_Register:
  "set (reg_List id (reg_Register r n e)) = insert n (set (reg_List id r))"
  by (auto simp: reg_List_def reg_Register_def AList.dom_update)

end
