(* ===== verification/Signing.thy ===== *)
theory Signing
  imports Engine Nodes
begin

text \<open>
  \<open>internal/mpc/signing\<close>: threshold signing through a leader node
  (\<open>service.go\<close>), batches, verification, and the engine-driven signer
  (\<open>threshold_sign.go\<close>). The gRPC call to the leader is the parameter
  \<open>sv_StartSign\<close>; what the other nodes do while this one sleeps is
  \<open>sv_others\<close>. The time stamps of the responses are kept unformatted.
\<close>

section \<open>Types (types.go) and the service\<close>

record SignRequest =
  sq_KeyID :: string
  sq_Message :: "byte list"
  sq_MessageHex :: string
  sq_MessageType :: string
  sq_ChainType :: string

record SignResponse =
  sr_Signature :: string
  sr_KeyID :: string
  sr_PublicKey :: string
  sr_Message :: string
  sr_ChainType :: string
  sr_SessionID :: string
  sr_SignedAt :: time
  sr_ParticipatingNodes :: "string list"

record BatchSignResponse =
  br_Signatures :: "SignResponse list"
  br_Total :: int
  br_Success :: int
  br_Failed :: int

record VerifyRequest =
  vq_Signature :: string
  vq_Message :: "byte list"
  vq_MessageHex :: string
  vq_PublicKey :: string
  vq_Algorithm :: string
  vq_ChainType :: string

record VerifyResponse =
  vr_Valid :: bool
  vr_PublicKey :: string
  vr_Address :: string
  vr_VerifiedAt :: time

text \<open>The messages of the \<open>StartSign\<close> call.\<close>

record StartSignRequest =
  st_SessionId :: string
  st_KeyId :: string
  st_Message :: "byte list"
  st_MessageHex :: string
  st_Protocol :: string
  st_Threshold :: int
  st_TotalNodes :: int
  st_NodeIds :: "string list"

record StartResponse =
  sp_Started :: bool
  sp_Message :: string

record sign_service =
  sv_engine :: engine
  sv_default :: string
  sv_timeout :: int
  sv_ord :: "NodeInfo list \<Rightarrow> NodeInfo list"
  sv_consul :: "(err + ServiceInfo list) option"
  sv_StartSign :: "string \<Rightarrow> StartSignRequest \<Rightarrow> mpc_state \<Rightarrow> (mpc_state, StartResponse) res"
  sv_others :: "mpc_state \<Rightarrow> mpc_state"

section \<open>Protocol choice and the message\<close>

definition inferProtocol :: "string \<Rightarrow> string \<Rightarrow> string \<Rightarrow> string" where
  "inferProtocol algorithm curve dflt =
     (let a = ToLower algorithm; c = ToLower curve
      in if (a = ''eddsa'' \<or> a = ''schnorr'') \<and> (c = ''ed25519'' \<or> c = ''secp256k1'') then ''frost''
         else if a = ''ecdsa'' \<and> c = ''secp256k1''
         then (if dflt = ''gg18'' \<or> dflt = ''gg20'' then dflt else ''gg20'')
         else if dflt \<noteq> [] then dflt
         else ''gg20'')"

text \<open>The message of a request: the hex text when there is one, the bytes otherwise.\<close>

definition request_message :: "string \<Rightarrow> byte list \<Rightarrow> err + byte list" where
  "request_message messageHex message =
     (if messageHex \<noteq> []
      then (case hex_DecodeString messageHex of
              Inl e \<Rightarrow> Inl (wrap_err ''failed to decode message hex'' e) | Inr m \<Rightarrow> Inr m)
      else Inr message)"

section \<open>ThresholdSign (service.go)\<close>

text \<open>The session is marked failed; an error of the update is not looked at.\<close>

definition mark_failed :: "Session \<Rightarrow> mpc_state \<Rightarrow> mpc_state" where
  "mark_failed session s = snd (on_net (\<lambda>w. sm_UpdateSession w (session\<lparr>se_Status := ''failed''\<rparr>)) s)"

text \<open>
  \<open>time.Sleep(pollInterval)\<close>: the other nodes act, and at least two seconds
  have passed when the loop looks at the clock again.
\<close>

definition pollInterval :: int where "pollInterval = 2000000"

definition poll_pause :: "(mpc_state \<Rightarrow> mpc_state) \<Rightarrow> mpc_state \<Rightarrow> mpc_state" where
  "poll_pause others s =
     (let s' = others s
      in s'\<lparr>net := (net s')\<lparr>now := max (now (net s')) (now (net s) + pollInterval)\<rparr>\<rparr>)"

lemma now_pg_call_read: "now (snd (pg_call (\<lambda>w. (Inr (f w), w)) w)) = now w"
  by (simp add: pg_call_def Let_def split: option.splits)

lemma now_rd_call_read: "now (snd (rd_call (\<lambda>w. (Inr (f w), w)) w)) = now w"
  by (simp add: rd_call_def Let_def split: option.splits)

lemma now_sm_GetSession: "now (snd (sm_GetSession w sid)) = now w"
proof -
  have "now (snd (rds_GetSession w sid)) = now w"
    unfolding rds_GetSession_def
    by (rule snd_or_wrapI [where P = "\<lambda>v. now v = now w"])
       (auto simp: now_rd_call_read split: option.splits rvalue.splits)
  moreover have "now (snd (pg_GetSigningSession v sid)) = now v" for v
    unfolding pg_GetSigningSession_def
    by (rule snd_or_wrapI [where P = "\<lambda>u. now u = now v"])
       (auto simp: now_pg_call_read split: option.splits)
  ultimately show ?thesis
    by (auto simp: sm_GetSession_def or_wrap_def split: prod.splits sum.splits) (metis snd_conv)+
qed

text \<open>The wait for the signature: the session is read every two seconds until the deadline.\<close>

function await_signature ::
  "(mpc_state \<Rightarrow> mpc_state) \<Rightarrow> time \<Rightarrow> string \<Rightarrow> mpc_state \<Rightarrow> (mpc_state, string) res" where
  "await_signature others deadline sessionID s =
     (if \<not> now (net s) < deadline then (Inr [], s)
      else case on_net (\<lambda>w. sm_GetSession w sessionID) s of
          (Inl e, s1) \<Rightarrow> (Inl (wrap_err ''failed to get session status'' e), s1)
        | (Inr updated, s1) \<Rightarrow>
            if se_Status updated = ''completed'' \<and> se_Signature updated \<noteq> []
            then (Inr (se_Signature updated), s1)
            else if se_Status updated = ''failed'' then (Inl (Err ''signing session failed''), s1)
            else await_signature others deadline sessionID (poll_pause others s1))"
  by pat_completeness auto
termination
proof (relation "measure (\<lambda>(others, deadline, sid, s). nat (deadline - now (net s)))", goal_cases)
  case 1
  show ?case by simp
next
  case (2 others deadline sid s r s1 updated)
  from 2(2) have "now (net s1) = now (net s)"
    using now_sm_GetSession [of "net s" sid]
    by (auto simp: on_net_def Let_def split: prod.splits)
  with 2(1) show ?case
    by (auto simp: poll_pause_def Let_def pollInterval_def)
qed

declare await_signature.simps [simp del]

definition maxWaitTime :: int where "maxWaitTime = minutes 5"

text \<open>The call of the leader: an error and a refusal mark the session failed.\<close>

definition start_sign ::
  "sign_service \<Rightarrow> string \<Rightarrow> KeyMetadata \<Rightarrow> Session \<Rightarrow> string \<Rightarrow> byte list \<Rightarrow> string list \<Rightarrow> mpc_state \<Rightarrow> (mpc_state, unit) res" where
  "start_sign sv keyID key session protocolName message nodes s =
     (case sv_StartSign sv (hd nodes)
             \<lparr>st_SessionId = se_SessionID session, st_KeyId = keyID, st_Message = message,
              st_MessageHex = hex_EncodeToString message, st_Protocol = protocolName,
              st_Threshold = int32 (km_Threshold key), st_TotalNodes = int32 (km_TotalNodes key),
              st_NodeIds = nodes\<rparr> s of
        (Inl e, s) \<Rightarrow> (Inl (wrap_err ''failed to call StartSign on leader participant'' e), mark_failed session s)
      | (Inr resp, s) \<Rightarrow>
          if \<not> sp_Started resp
          then (Inl (Err (''StartSign failed: '' @ sp_Message resp)), mark_failed session s)
          else (Inr (), s))"

text \<open>The signature object and the check of a hex signature against a hex public key.\<close>

definition signature_of :: "string \<Rightarrow> byte list \<Rightarrow> Signature" where
  "signature_of sigHex sigBytes =
     (if length sigBytes \<ge> 64
      then \<lparr>sg_R = take 32 sigBytes, sg_S = take 32 (drop 32 sigBytes), sg_Bytes = sigBytes, sg_Hex = sigHex\<rparr>
      else \<lparr>sg_R = [], sg_S = [], sg_Bytes = sigBytes, sg_Hex = sigHex\<rparr>)"

definition check_signature :: "engine \<Rightarrow> string \<Rightarrow> string \<Rightarrow> byte list \<Rightarrow> err + unit" where
  "check_signature en pubHex sigHex message =
     pure_wrap (hex_DecodeString pubHex) ''failed to decode public key hex''
       (\<lambda>pubKeyBytes. pure_wrap (hex_DecodeString sigHex) ''failed to decode signature hex''
         (\<lambda>sigBytes. pure_wrap
            (en_verify en (Some (signature_of sigHex sigBytes)) message
               (Some \<lparr>pk_Bytes = pubKeyBytes, pk_Hex = pubHex\<rparr>))
            ''failed to verify signature''
            (\<lambda>valid. if valid then Inr () else Inl (Err ''signature verification failed''))))"

definition sign_response ::
  "SignRequest \<Rightarrow> KeyMetadata \<Rightarrow> Session \<Rightarrow> string \<Rightarrow> byte list \<Rightarrow> string list \<Rightarrow> time \<Rightarrow> SignResponse" where
  "sign_response req key session sigHex message nodes t =
     \<lparr>sr_Signature = sigHex, sr_KeyID = sq_KeyID req, sr_PublicKey = km_PublicKey key,
      sr_Message = hex_EncodeToString message, sr_ChainType = sq_ChainType req,
      sr_SessionID = se_SessionID session, sr_SignedAt = t, sr_ParticipatingNodes = nodes\<rparr>"

text \<open>Steps 6 to 9: call the leader, wait, verify, answer.\<close>

definition run_signing ::
  "sign_service \<Rightarrow> SignRequest \<Rightarrow> KeyMetadata \<Rightarrow> Session \<Rightarrow> string \<Rightarrow> byte list \<Rightarrow> string list
     \<Rightarrow> mpc_state \<Rightarrow> (mpc_state, SignResponse) res" where
  "run_signing sv req key session protocolName message nodes s =
     or_return (start_sign sv (sq_KeyID req) key session protocolName message nodes s)
       (\<lambda>_ s. or_return (await_signature (sv_others sv) (now (net s) + maxWaitTime) (se_SessionID session) s)
          (\<lambda>signatureHex s.
             if signatureHex = [] then (Inl (Err ''signing timeout''), mark_failed session s)
             else case check_signature (sv_engine sv) (km_PublicKey key) signatureHex message of
                 Inl e \<Rightarrow> (Inl e, s)
               | Inr _ \<Rightarrow> (Inr (sign_response req key session signatureHex message nodes (now (net s))), s)))"

text \<open>\<open>ParticipatingNodes\<close> becomes the first \<open>threshold\<close> nodes found.\<close>

definition pick_nodes :: "int \<Rightarrow> NodeInfo list \<Rightarrow> string list" where
  "pick_nodes threshold participants = map ni_NodeID (take (nat threshold) participants)"

text \<open>Steps 4 to 9 with the nodes that discovery has found.\<close>

definition sign_with_nodes ::
  "sign_service \<Rightarrow> SignRequest \<Rightarrow> KeyMetadata \<Rightarrow> string \<Rightarrow> Session \<Rightarrow> NodeInfo list \<Rightarrow> mpc_state
     \<Rightarrow> (mpc_state, SignResponse) res" where
  "sign_with_nodes sv req key protocolName session participants s =
     (let threshold = km_Threshold key
      in if int (length participants) < threshold
         then (Inl (Err (''insufficient active nodes: need '' @ itoa threshold
                 @ '', have '' @ nat_digits (length participants))), s)
         else if threshold < 0 then (Inl (Panic ''runtime error: makeslice: cap out of range''), s)
         else let nodes = pick_nodes threshold participants;
                  session = session\<lparr>se_ParticipatingNodes := nodes\<rparr>
         in or_wrap (on_net (\<lambda>w. sm_UpdateSession w session) s)
              ''failed to update session with participating nodes''
           (\<lambda>_ s. case request_message (sq_MessageHex req) (sq_Message req) of
               Inl e \<Rightarrow> (Inl e, s)
             | Inr message \<Rightarrow>
                 if nodes = [] then (Inl (Err ''no participating nodes available''), s)
                 else run_signing sv req key session protocolName message nodes s))"

definition ThresholdSign :: "sign_service \<Rightarrow> mpc_state \<Rightarrow> SignRequest \<Rightarrow> (mpc_state, SignResponse) res" where
  "ThresholdSign sv s req =
     or_wrap (GetKey s (sq_KeyID req)) ''failed to get key''
       (\<lambda>key s.
          let protocolName = inferProtocol (km_Algorithm key) (km_Curve key) (sv_default sv)
          in or_wrap (on_net (\<lambda>w. sm_CreateSession (sv_timeout sv) w (sq_KeyID req) protocolName
                        (km_Threshold key) (km_TotalNodes key)) s) ''failed to create signing session''
           (\<lambda>session s. or_wrap (on_net (\<lambda>w. DiscoverNodes (sv_ord sv) (sv_consul sv) w
                          NodeTypeParticipant NodeStatusActive (km_Threshold key)) s)
                ''failed to discover participants'' (sign_with_nodes sv req key protocolName session)))"

section \<open>BatchSign\<close>

text \<open>
  One goroutine per message writes its slot of \<open>results\<close> or of \<open>errors\<close>. The
  calls are run one after another here, in the order \<open>schedule\<close> lists their
  indices; \<open>WaitGroup\<close> waits for all of them, so a schedule is a permutation of
  the indices. A panic in a goroutine ends the process.
\<close>

record batch_slots =
  bs_results :: "SignResponse option list"
  bs_errors :: "err option list"

fun batch_run ::
  "sign_service \<Rightarrow> SignRequest list \<Rightarrow> nat list \<Rightarrow> batch_slots \<Rightarrow> mpc_state \<Rightarrow> (mpc_state, batch_slots) res" where
  "batch_run sv msgs [] b s = (Inr b, s)"
| "batch_run sv msgs (i # is) b s =
     (case ThresholdSign sv s (msgs ! i) of
        (Inl (Panic p), s) \<Rightarrow> (Inl (Panic p), s)
      | (Inl e, s) \<Rightarrow> batch_run sv msgs is (b\<lparr>bs_errors := (bs_errors b)[i := Some e]\<rparr>) s
      | (Inr resp, s) \<Rightarrow> batch_run sv msgs is (b\<lparr>bs_results := (bs_results b)[i := Some resp]\<rparr>) s)"

text \<open>The count of the results: an index with an error is a failure, one with a result a success.\<close>

fun batch_tally :: "batch_slots \<Rightarrow> nat list \<Rightarrow> BatchSignResponse \<Rightarrow> BatchSignResponse" where
  "batch_tally b [] r = r"
| "batch_tally b (i # is) r =
     (if bs_errors b ! i \<noteq> None then batch_tally b is (r\<lparr>br_Failed := br_Failed r + 1\<rparr>)
      else case bs_results b ! i of
          None \<Rightarrow> batch_tally b is r
        | Some resp \<Rightarrow> batch_tally b is (r\<lparr>br_Success := br_Success r + 1,
                                            br_Signatures := br_Signatures r @ [resp]\<rparr>))"

definition BatchSign ::
  "sign_service \<Rightarrow> nat list \<Rightarrow> mpc_state \<Rightarrow> SignRequest list \<Rightarrow> (mpc_state, BatchSignResponse) res" where
  "BatchSign sv schedule s msgs =
     (if msgs = [] then (Inl (Err ''no messages to sign''), s)
      else or_return (batch_run sv msgs schedule
                        \<lparr>bs_results = replicate (length msgs) None, bs_errors = replicate (length msgs) None\<rparr> s)
        (\<lambda>b s. (Inr (batch_tally b [0 ..< length msgs]
                   \<lparr>br_Signatures = [], br_Total = int (length msgs), br_Success = 0, br_Failed = 0\<rparr>), s)))"

section \<open>Verify\<close>

definition Verify :: "engine \<Rightarrow> time \<Rightarrow> VerifyRequest \<Rightarrow> err + VerifyResponse" where
  "Verify en t req =
     pure_wrap (hex_DecodeString (vq_Signature req)) ''failed to decode signature hex''
       (\<lambda>sigBytes.
          if length sigBytes < 64 then Inl (Err ''invalid signature length'')
          else pure_wrap (hex_DecodeString (vq_PublicKey req)) ''failed to decode public key hex''
            (\<lambda>pubKeyBytes. case request_message (vq_MessageHex req) (vq_Message req) of
                Inl e \<Rightarrow> Inl e
              | Inr message \<Rightarrow> pure_wrap
                  (en_verify en (Some \<lparr>sg_R = take 32 sigBytes, sg_S = take 32 (drop 32 sigBytes),
                                       sg_Bytes = sigBytes, sg_Hex = vq_Signature req\<rparr>)
                     message (Some \<lparr>pk_Bytes = pubKeyBytes, pk_Hex = vq_PublicKey req\<rparr>))
                  ''failed to verify signature''
                  (\<lambda>valid. Inr \<lparr>vr_Valid = valid, vr_PublicKey = vq_PublicKey req, vr_Address = [],
                                vr_VerifiedAt = t\<rparr>)))"

section \<open>ThresholdSigner (threshold_sign.go)\<close>

text \<open>The public key handed to the engine has its hex text only.\<close>

definition ts_Sign :: "engine \<Rightarrow> int \<Rightarrow> mpc_state \<Rightarrow> SignRequest \<Rightarrow> (mpc_state, SignResponse) res" where
  "ts_Sign en timeout s req =
     or_wrap (GetKey s (sq_KeyID req)) ''failed to get key''
       (\<lambda>key s. or_wrap (on_net (\<lambda>w. sm_CreateSession timeout w (sq_KeyID req) ''gg20''
                   (km_Threshold key) (km_TotalNodes key)) s) ''failed to create signing session''
         (\<lambda>session s. case request_message (sq_MessageHex req) (sq_Message req) of
             Inl e \<Rightarrow> (Inl e, s)
           | Inr message \<Rightarrow>
              (case en_sign en (se_SessionID session)
                      \<lparr>pq_KeyID = sq_KeyID req, pq_Message = message,
                       pq_MessageHex = hex_EncodeToString message,
                       pq_NodeIDs = se_ParticipatingNodes session\<rparr> s of
                 (Inl e, s) \<Rightarrow> (Inl (wrap_err ''failed to execute threshold signing'' e), mark_failed session s)
               | (Inr resp, s) \<Rightarrow>
                   (case en_verify (en) (pr_Signature resp) message
                           (Some \<lparr>pk_Bytes = [], pk_Hex = km_PublicKey key\<rparr>) of
                      Inl e \<Rightarrow> (Inl (wrap_err ''failed to verify signature'' e), s)
                    | Inr valid \<Rightarrow>
                        if \<not> valid then (Inl (Err ''signature verification failed''), s)
                        else (case pr_Signature resp of
                            None \<Rightarrow> (Inl nil_deref, s)
                          | Some sig \<Rightarrow>
                              or_wrap (on_net (\<lambda>w. sm_CompleteSession w (se_SessionID session) (sg_Hex sig)) s)
                                ''failed to complete session''
                                (\<lambda>_ s. (Inr (sign_response req key session (sg_Hex sig) message
                                         (se_ParticipatingNodes session) (now (net s))), s)))))))"

end
