(* ===== verification/Coordinator.thy ===== *)
theory Coordinator
  imports Signing
begin

text \<open>
  \<open>internal/mpc/coordinator\<close> and \<open>internal/mpc/participant\<close>: the creation of
  signing and DKG sessions with the notice to the leader, and what a participant
  does in both protocols. The notice runs in a goroutine whose result is only
  logged: \<open>CreateDKGSession\<close> returns the call it has started beside its value, and
  \<open>run_start_dkg\<close> is its effect whenever it takes place.
\<close>

section \<open>Coordinator: types (types.go)\<close>

record CreateSessionRequest =
  cs_KeyID :: string
  cs_Message :: "byte list"
  cs_Protocol :: string
  cs_Timeout :: int

record CreateDKGSessionRequest =
  cd_KeyID :: string
  cd_Algorithm :: string
  cd_Curve :: string
  cd_Protocol :: string
  cd_Threshold :: int
  cd_TotalNodes :: int
  cd_NodeIDs :: "string list"

record DKGSession =
  dk_SessionID :: string
  dk_KeyID :: string
  dk_Protocol :: string
  dk_Status :: string
  dk_Threshold :: int
  dk_TotalNodes :: int
  dk_ParticipatingNodes :: "string list"
  dk_CurrentRound :: int
  dk_TotalRounds :: int
  dk_PublicKey :: string
  dk_CreatedAt :: time
  dk_CompletedAt :: "time option"
  dk_DurationMs :: int
  dk_ExpiresAt :: time

record StartDKGRequest =
  sd_SessionId :: string
  sd_KeyId :: string
  sd_Algorithm :: string
  sd_Curve :: string
  sd_Threshold :: int
  sd_TotalNodes :: int
  sd_NodeIds :: "string list"

record coordinator =
  co_default :: string  \<comment> \<open>\<open>protocolEngine.DefaultProtocol()\<close>\<close>
  co_timeout :: int
  co_ord :: "NodeInfo list \<Rightarrow> NodeInfo list"
  co_consul :: "(err + ServiceInfo list) option"
  co_StartDKG :: "string \<Rightarrow> StartDKGRequest \<Rightarrow> mpc_state \<Rightarrow> (mpc_state, StartResponse) res"

section \<open>Coordinator (service.go)\<close>

text \<open>The coordinator's copy of a session has the fields of the manager's; \<open>Session\<close> stands for both.\<close>

definition CreateSigningSession ::
  "coordinator \<Rightarrow> mpc_state \<Rightarrow> CreateSessionRequest \<Rightarrow> (mpc_state, Session) res" where
  "CreateSigningSession co s req =
     or_wrap (GetKey s (cs_KeyID req)) ''failed to get key''
       (\<lambda>key s. let protocol = (if cs_Protocol req = [] then co_default co else cs_Protocol req)
                in or_wrap (on_net (\<lambda>w. sm_CreateSession (co_timeout co) w (cs_KeyID req) protocol
                              (km_Threshold key) (km_TotalNodes key)) s) ''failed to create session''
                     (\<lambda>session s. (Inr session, s)))"

text \<open>The nodes of a DKG session: those of the request, or all that discovery returns, sorted.\<close>

definition dkg_nodes :: "coordinator \<Rightarrow> mpc_state \<Rightarrow> CreateDKGSessionRequest \<Rightarrow> (mpc_state, string list) res" where
  "dkg_nodes co s req =
     (if cd_NodeIDs req \<noteq> [] then (Inr (cd_NodeIDs req), s)
      else or_wrap (on_net (\<lambda>w. DiscoverNodes (co_ord co) (co_consul co) w NodeTypeParticipant
                      NodeStatusActive (cd_TotalNodes req)) s) ''failed to discover participants''
        (\<lambda>participants s.
           if int (length participants) < cd_TotalNodes req
           then (Inl (Err (''insufficient active participants: need '' @ itoa (cd_TotalNodes req)
                   @ '', have '' @ nat_digits (length participants))), s)
           else (Inr (sort (map ni_NodeID participants)), s)))"

text \<open>The call \<open>NotifyParticipantsForDKG\<close> starts, or its error.\<close>

definition NotifyParticipantsForDKG ::
  "CreateDKGSessionRequest \<Rightarrow> string list \<Rightarrow> err + string \<times> StartDKGRequest" where
  "NotifyParticipantsForDKG req nodeIDs =
     (case nodeIDs of
        [] \<Rightarrow> Inl (Err ''no participants to notify'')
      | leader # _ \<Rightarrow> Inr (leader,
          \<lparr>sd_SessionId = cd_KeyID req, sd_KeyId = cd_KeyID req, sd_Algorithm = cd_Algorithm req,
           sd_Curve = cd_Curve req, sd_Threshold = int32 (cd_Threshold req),
           sd_TotalNodes = int32 (cd_TotalNodes req), sd_NodeIds = nodeIDs\<rparr>))"

definition run_start_dkg :: "coordinator \<Rightarrow> string \<times> StartDKGRequest \<Rightarrow> mpc_state \<Rightarrow> mpc_state" where
  "run_start_dkg co notice s = snd (co_StartDKG co (fst notice) (snd notice) s)"

definition dkg_session_of :: "Session \<Rightarrow> DKGSession" where
  "dkg_session_of x =
     \<lparr>dk_SessionID = se_SessionID x, dk_KeyID = se_KeyID x, dk_Protocol = se_Protocol x,
      dk_Status = se_Status x, dk_Threshold = se_Threshold x, dk_TotalNodes = se_TotalNodes x,
      dk_ParticipatingNodes = se_ParticipatingNodes x, dk_CurrentRound = se_CurrentRound x,
      dk_TotalRounds = se_TotalRounds x, dk_PublicKey = [], dk_CreatedAt = se_CreatedAt x,
      dk_CompletedAt = None, dk_DurationMs = 0, dk_ExpiresAt = se_ExpiresAt x\<rparr>"

definition CreateDKGSession ::
  "coordinator \<Rightarrow> mpc_state \<Rightarrow> CreateDKGSessionRequest
     \<Rightarrow> (mpc_state, DKGSession \<times> (string \<times> StartDKGRequest)) res" where
  "CreateDKGSession co s req =
     or_return (dkg_nodes co s req)
       (\<lambda>nodeIDs s.
          let protocol = (if cd_Protocol req = [] then co_default co else cd_Protocol req)
          in or_wrap (on_net (\<lambda>w. sm_CreateKeyGenSession (co_timeout co) w (cd_KeyID req) protocol
                        (cd_Threshold req) (cd_TotalNodes req) nodeIDs) s) ''failed to create DKG session''
           (\<lambda>session s. case NotifyParticipantsForDKG req nodeIDs of
               Inl e \<Rightarrow> (Inl (wrap_err ''failed to notify participants'' e),
                          snd (on_net (\<lambda>w. sm_CancelSession w (se_SessionID session)) s))
             | Inr notice \<Rightarrow> (Inr (dkg_session_of session, notice), s)))"

section \<open>Participant (types.go, service.go, protocol_participant.go)\<close>

record NodeKeyShare =
  ks_KeyID :: string
  ks_NodeID :: string
  ks_Share :: "byte list"
  ks_Index :: int

record SignatureShare =
  ssh_SessionID :: string
  ssh_NodeID :: string
  ssh_Share :: "byte list"
  ssh_Round :: int

record participant =
  pa_nodeID :: string
  pa_gcm :: gcm_lib
  pa_store :: FileSystemKeyShareStorage
  pa_engine :: engine

definition pa_StoreKeyShare :: "participant \<Rightarrow> mpc_state \<Rightarrow> string \<Rightarrow> NodeKeyShare \<Rightarrow> (mpc_state, unit) res" where
  "pa_StoreKeyShare pa s keyID share =
     or_wrap (on_disk (\<lambda>d. StoreKeyShare (pa_gcm pa) (pa_store pa) d keyID (ks_NodeID share) (ks_Share share)) s)
       ''failed to store key share'' (\<lambda>_ s. (Inr (), s))"

definition pa_GetKeyShare :: "participant \<Rightarrow> mpc_state \<Rightarrow> string \<Rightarrow> (mpc_state, NodeKeyShare) res" where
  "pa_GetKeyShare pa s keyID =
     or_wrap (on_disk (\<lambda>d. GetKeyShare (pa_gcm pa) (pa_store pa) d keyID (pa_nodeID pa)) s)
       ''failed to get key share''
       (\<lambda>share s. (Inr \<lparr>ks_KeyID = keyID, ks_NodeID = pa_nodeID pa, ks_Share = share, ks_Index = 0\<rparr>, s))"

definition ParticipateKeyGen ::
  "participant \<Rightarrow> mpc_state \<Rightarrow> string \<Rightarrow> KeyGenRequest \<Rightarrow> (mpc_state, NodeKeyShare) res" where
  "ParticipateKeyGen pa s sessionID req =
     or_wrap (en_generate (pa_engine pa) req s) ''failed to generate key share''
       (\<lambda>resp s. case map_of (kr_KeyShares resp) (pa_nodeID pa) of
           None \<Rightarrow> (Inl (Err (''key share not found for node '' @ pa_nodeID pa)), s)
         | Some None \<Rightarrow> (Inl nil_deref, s)
         | Some (Some nodeShare) \<Rightarrow>
             let keyShare = \<lparr>ks_KeyID = kg_KeyID req, ks_NodeID = pa_nodeID pa,
                             ks_Share = sh_Share nodeShare, ks_Index = sh_Index nodeShare\<rparr>
             in or_wrap (pa_StoreKeyShare pa s (kg_KeyID req) keyShare) ''failed to store key share''
                  (\<lambda>_ s. (Inr keyShare, s)))"

text \<open>\<open>sigBytes, _ := hex.DecodeString(..)\<close> keeps the bytes before an error.\<close>

fun hex_prefix :: "string \<Rightarrow> byte list" where
  "hex_prefix (c # d # cs) =
     (case (hex_value c, hex_value d) of
        (Some h, Some l) \<Rightarrow> of_nat (16 * h + l) # hex_prefix cs
      | _ \<Rightarrow> [])"
| "hex_prefix _ = []"

definition ParticipateSign ::
  "participant \<Rightarrow> mpc_state \<Rightarrow> string \<Rightarrow> string \<Rightarrow> byte list \<Rightarrow> string list \<Rightarrow> (mpc_state, SignatureShare) res" where
  "ParticipateSign pa s sessionID keyID message nodeIDs =
     or_wrap (pa_GetKeyShare pa s keyID) ''failed to get key share''
       (\<lambda>_ s. or_wrap (en_sign (pa_engine pa) sessionID
            \<lparr>pq_KeyID = keyID, pq_Message = message, pq_MessageHex = [], pq_NodeIDs = nodeIDs\<rparr> s)
          ''failed to execute threshold signing''
          (\<lambda>resp s. case pr_Signature resp of
              None \<Rightarrow> (Inl nil_deref, s)
            | Some sig \<Rightarrow> (Inr \<lparr>ssh_SessionID = sessionID, ssh_NodeID = pa_nodeID pa,
                                ssh_Share = hex_prefix (sg_Hex sig), ssh_Round = 0\<rparr>, s)))"

end
