(* ===== verification/Tss.thy ===== *)
theory Tss
  imports Engine
begin

text \<open>
  \<open>internal/mpc/protocol/tss_adapter.go\<close>: the party manager that runs tss-lib
  parties for the ECDSA protocols (GG18, GG20) and the EdDSA one (FROST). The
  library is a parameter: a local party is a value of \<open>'p\<close>, made by the
  constructors of \<open>tss_lib\<close> and changed by \<open>UpdateFromBytes\<close>; its saved data is
  a \<open>'d\<close>; what it sends and how it ends arrive as events. A Go \<open>select\<close> takes any
  ready case, so a run of a protocol is an explicit sequence of events.
  A Go channel is a value of the store \<open>chans\<close>, shared by reference: a loop keeps
  its channel when the map no longer names it. The maps that are ranged over are
  lists; \<open>tl_range\<close> is the order of the range.
\<close>

section \<open>Types\<close>

record PartyID =
  pt_Id :: string
  pt_Moniker :: string
  pt_Key :: nat

datatype curve = S256 | Edwards

record Parameters =
  tp_curve :: curve
  tp_parties :: "PartyID list"
  tp_this :: PartyID
  tp_count :: nat
  tp_threshold :: int

record SignatureData =
  sd_Signature :: "byte list"
  sd_R :: "byte list"
  sd_S :: "byte list"

record ('p, 'd) tss_lib =
  tl_sha256 :: "byte list \<Rightarrow> byte list"
  tl_sort :: "PartyID list \<Rightarrow> PartyID list"
  tl_range :: "(string \<times> PartyID) list \<Rightarrow> (string \<times> PartyID) list"
  tl_range_ids :: "(string \<times> string) list \<Rightarrow> (string \<times> string) list"
  tl_keygen :: "Parameters \<Rightarrow> 'p"
  tl_signing :: "nat \<Rightarrow> Parameters \<Rightarrow> 'd \<Rightarrow> 'p"
  tl_update :: "'p \<Rightarrow> byte list \<Rightarrow> PartyID \<Rightarrow> bool \<Rightarrow> 'p \<times> bool"

record incomingMessage =
  im_bytes :: "byte list"
  im_from :: string
  im_broadcast :: bool

record chan =
  ch_buf :: "incomingMessage list"
  ch_cap :: nat
  ch_closed :: bool

record 'p tssPartyManager =
  nodeIDToPartyID :: "(string \<times> PartyID) list"
  partyIDToNodeID :: "(string \<times> string) list"
  activeKeygen :: "string \<Rightarrow> 'p option"
  activeSigning :: "string \<Rightarrow> 'p option"
  activeEdDSAKeygen :: "string \<Rightarrow> 'p option"
  activeEdDSASigning :: "string \<Rightarrow> 'p option"
  incomingKeygenMessages :: "string \<Rightarrow> nat option"
  incomingSigningMessages :: "string \<Rightarrow> nat option"
  sessionIDMap :: "string \<Rightarrow> string option"
  chans :: "chan list"

definition newTSSPartyManager :: "'p tssPartyManager" where
  "newTSSPartyManager =
     \<lparr>nodeIDToPartyID = [], partyIDToNodeID = [], activeKeygen = (\<lambda>_. None), activeSigning = (\<lambda>_. None),
      activeEdDSAKeygen = (\<lambda>_. None), activeEdDSASigning = (\<lambda>_. None),
      incomingKeygenMessages = (\<lambda>_. None), incomingSigningMessages = (\<lambda>_. None),
      sessionIDMap = (\<lambda>_. None), chans = []\<rparr>"

section \<open>Party IDs\<close>

text \<open>\<open>new(big.Int).SetBytes\<close>: the big-endian value.\<close>

definition be_value :: "byte list \<Rightarrow> nat" where
  "be_value bs = foldl (\<lambda>n b. n * 256 + unat b) 0 bs"

definition party_of_node :: "('p, 'd) tss_lib \<Rightarrow> string \<Rightarrow> PartyID" where
  "party_of_node lib nodeID =
     \<lparr>pt_Id = nodeID, pt_Moniker = nodeID, pt_Key = be_value (tl_sha256 lib (bytes_of nodeID))\<rparr>"

fun setupPartyIDs :: "('p, 'd) tss_lib \<Rightarrow> string list \<Rightarrow> 'p tssPartyManager \<Rightarrow> 'p tssPartyManager" where
  "setupPartyIDs lib [] m = m"
| "setupPartyIDs lib (n # ns) m =
     (if map_of (nodeIDToPartyID m) n \<noteq> None then setupPartyIDs lib ns m
      else let p = party_of_node lib n
           in setupPartyIDs lib ns
                (m\<lparr>nodeIDToPartyID := nodeIDToPartyID m @ [(n, p)],
                   partyIDToNodeID := AList.update (pt_Id p) n (partyIDToNodeID m)\<rparr>))"

text \<open>The error text of the code lists the known and the requested nodes as well.\<close>

fun collect_parties :: "'p tssPartyManager \<Rightarrow> string list \<Rightarrow> err + PartyID list" where
  "collect_parties m [] = Inr []"
| "collect_parties m (n # ns) =
     (case map_of (nodeIDToPartyID m) n of
        None \<Rightarrow> Inl (Err (''party ID not found for node: '' @ n))
      | Some p \<Rightarrow> (case collect_parties m ns of Inl e \<Rightarrow> Inl e | Inr ps \<Rightarrow> Inr (p # ps)))"

definition getPartyIDs :: "('p, 'd) tss_lib \<Rightarrow> 'p tssPartyManager \<Rightarrow> string list \<Rightarrow> err + PartyID list" where
  "getPartyIDs lib m nodeIDs =
     (case collect_parties m nodeIDs of Inl e \<Rightarrow> Inl e | Inr ps \<Rightarrow> Inr (tl_sort lib ps))"

definition getPartyID :: "'p tssPartyManager \<Rightarrow> string \<Rightarrow> PartyID option" where
  "getPartyID m nodeID = map_of (nodeIDToPartyID m) nodeID"

definition getNodeID :: "'p tssPartyManager \<Rightarrow> string \<Rightarrow> string option" where
  "getNodeID m partyID = map_of (partyIDToNodeID m) partyID"

section \<open>Channels and queues\<close>

definition make_chan :: "'p tssPartyManager \<Rightarrow> nat \<times> 'p tssPartyManager" where
  "make_chan m = (length (chans m), m\<lparr>chans := chans m @ [\<lparr>ch_buf = [], ch_cap = 100, ch_closed = False\<rparr>]\<rparr>)"

definition close_chan :: "nat \<Rightarrow> 'p tssPartyManager \<Rightarrow> 'p tssPartyManager" where
  "close_chan c m = m\<lparr>chans := (chans m)[c := (chans m ! c)\<lparr>ch_closed := True\<rparr>]\<rparr>"

text \<open>A non-blocking send: on a closed channel it panics, on a full one it takes the default case.\<close>

datatype send_result = Sent | QueueFull | SendPanic

definition try_send :: "nat \<Rightarrow> incomingMessage \<Rightarrow> 'p tssPartyManager \<Rightarrow> send_result \<times> 'p tssPartyManager" where
  "try_send c msg m =
     (let ch = chans m ! c
      in if ch_closed ch then (SendPanic, m)
         else if length (ch_buf ch) < ch_cap ch
         then (Sent, m\<lparr>chans := (chans m)[c := ch\<lparr>ch_buf := ch_buf ch @ [msg]\<rparr>]\<rparr>)
         else (QueueFull, m))"

text \<open>A receive: it blocks on an empty open channel; \<open>None\<close> is the receive from a closed, drained one.\<close>

datatype recv_result = Blocks | Received "incomingMessage option"

definition try_recv :: "nat \<Rightarrow> 'p tssPartyManager \<Rightarrow> recv_result \<times> 'p tssPartyManager" where
  "try_recv c m =
     (let ch = chans m ! c
      in case ch_buf ch of
           [] \<Rightarrow> (if ch_closed ch then Received None else Blocks, m)
         | msg # rest \<Rightarrow> (Received (Some msg), m\<lparr>chans := (chans m)[c := ch\<lparr>ch_buf := rest\<rparr>]\<rparr>))"

definition open_keygen_queue :: "string \<Rightarrow> 'p tssPartyManager \<Rightarrow> nat \<times> 'p tssPartyManager" where
  "open_keygen_queue keyID m =
     (case incomingKeygenMessages m keyID of
        Some c \<Rightarrow> (c, m)
      | None \<Rightarrow> let (c, m) = make_chan m
                in (c, m\<lparr>incomingKeygenMessages := (incomingKeygenMessages m)(keyID \<mapsto> c)\<rparr>))"

definition drop_keygen_queue :: "string \<Rightarrow> 'p tssPartyManager \<Rightarrow> 'p tssPartyManager" where
  "drop_keygen_queue keyID m =
     (case incomingKeygenMessages m keyID of
        None \<Rightarrow> m
      | Some c \<Rightarrow> let m = close_chan c m
                  in m\<lparr>incomingKeygenMessages := (incomingKeygenMessages m)(keyID := None)\<rparr>)"

definition open_signing_queue :: "string \<Rightarrow> 'p tssPartyManager \<Rightarrow> nat \<times> 'p tssPartyManager" where
  "open_signing_queue sessionID m =
     (case incomingSigningMessages m sessionID of
        Some c \<Rightarrow> (c, m)
      | None \<Rightarrow> let (c, m) = make_chan m
                in (c, m\<lparr>incomingSigningMessages := (incomingSigningMessages m)(sessionID \<mapsto> c)\<rparr>))"

definition drop_signing_queue :: "string \<Rightarrow> 'p tssPartyManager \<Rightarrow> 'p tssPartyManager" where
  "drop_signing_queue sessionID m =
     (case incomingSigningMessages m sessionID of
        None \<Rightarrow> m
      | Some c \<Rightarrow> let m = close_chan c m
                  in m\<lparr>incomingSigningMessages := (incomingSigningMessages m)(sessionID := None)\<rparr>)"

section \<open>Events and routing\<close>

text \<open>
  What wakes the main loop of a run: the context, the timer, a message of the party
  (its targets; none for a broadcast), its result, its error (with the culprits
  when the library names them).
\<close>

datatype ('m, 'd) tss_event =
  CtxDone string | TimerFired | OutMsg "PartyID list" 'm | EndMsg "'d option" | ErrMsg string "string option"

type_synonym ('m, 'w) router = "string \<Rightarrow> string \<Rightarrow> 'm \<Rightarrow> bool \<Rightarrow> 'w \<Rightarrow> ('w, unit) res"

definition mapped_session :: "'p tssPartyManager \<Rightarrow> string \<Rightarrow> string" where
  "mapped_session m k = (case sessionIDMap m k of None \<Rightarrow> k | Some sid \<Rightarrow> sid)"

text \<open>A directed message: the first target that is unknown or cannot be reached ends the run.\<close>

fun route_targets ::
  "('m, 'w) router \<Rightarrow> 'p tssPartyManager \<Rightarrow> (PartyID \<Rightarrow> string \<Rightarrow> string) \<Rightarrow> (PartyID \<Rightarrow> string) \<Rightarrow> string
     \<Rightarrow> 'm \<Rightarrow> PartyID list \<Rightarrow> 'w \<Rightarrow> ('w, unit) res" where
  "route_targets router m failed missing sid msg [] w = (Inr (), w)"
| "route_targets router m failed missing sid msg (to # tos) w =
     (case getNodeID m (pt_Id to) of
        None \<Rightarrow> (Inl (Err (missing to)), w)
      | Some n \<Rightarrow> (case router sid n msg False w of
            (Inl e, w) \<Rightarrow> (Inl (wrap_err (failed to n) e), w)
          | (Inr _, w) \<Rightarrow> route_targets router m failed missing sid msg tos w))"

text \<open>A key generation broadcast goes to every known node but this one; errors are logged.\<close>

fun broadcast_lenient ::
  "('m, 'w) router \<Rightarrow> 'p tssPartyManager \<Rightarrow> string \<Rightarrow> 'm \<Rightarrow> PartyID list \<Rightarrow> 'w \<Rightarrow> 'w" where
  "broadcast_lenient router m sid msg [] w = w"
| "broadcast_lenient router m sid msg (p # ps) w =
     (case getNodeID m (pt_Id p) of
        None \<Rightarrow> broadcast_lenient router m sid msg ps w
      | Some n \<Rightarrow> broadcast_lenient router m sid msg ps (snd (router sid n msg True w)))"

definition other_parties :: "('p, 'd) tss_lib \<Rightarrow> 'p tssPartyManager \<Rightarrow> string \<Rightarrow> PartyID list" where
  "other_parties lib m this = map snd (filter (\<lambda>(n, _). n \<noteq> this) (tl_range lib (nodeIDToPartyID m)))"

text \<open>A signing broadcast stops at the first node that cannot be reached.\<close>

fun broadcast_strict ::
  "('m, 'w) router \<Rightarrow> string \<Rightarrow> 'm \<Rightarrow> string list \<Rightarrow> 'w \<Rightarrow> ('w, unit) res" where
  "broadcast_strict router sid msg [] w = (Inr (), w)"
| "broadcast_strict router sid msg (n # ns) w =
     (case router sid n msg True w of
        (Inl e, w) \<Rightarrow> (Inl (wrap_err (''broadcast signing msg to node '' @ n) e), w)
      | (Inr _, w) \<Rightarrow> broadcast_strict router sid msg ns w)"

definition other_nodes :: "('p, 'd) tss_lib \<Rightarrow> 'p tssPartyManager \<Rightarrow> string \<Rightarrow> string list" where
  "other_nodes lib m this = filter (\<lambda>n. n \<noteq> this) (map snd (tl_range_ids lib (partyIDToNodeID m)))"

section \<open>Preparing a run\<close>

text \<open>The parties of a run and the parameters handed to the library.\<close>

definition prepare ::
  "('p, 'd) tss_lib \<Rightarrow> curve \<Rightarrow> string list \<Rightarrow> (nat \<Rightarrow> int) \<Rightarrow> string \<Rightarrow> 'p tssPartyManager
     \<Rightarrow> ('p tssPartyManager, Parameters) res" where
  "prepare lib curve nodeIDs threshold this m =
     (let m = setupPartyIDs lib nodeIDs m
      in case getPartyIDs lib m nodeIDs of
           Inl e \<Rightarrow> (Inl (wrap_err ''get party IDs'' e), m)
         | Inr parties \<Rightarrow>
             (case getPartyID m this of
                None \<Rightarrow> (Inl (Err (''this node ID not found: '' @ this)), m)
              | Some p \<Rightarrow> (Inr \<lparr>tp_curve = curve, tp_parties = parties, tp_this = p,
                                tp_count = length parties, tp_threshold = threshold (length parties)\<rparr>, m)))"

text \<open>\<open>executeKeygen\<close> up to its loops: the channel its messages will come through.\<close>

definition begin_keygen ::
  "('p, 'd) tss_lib \<Rightarrow> string \<Rightarrow> string list \<Rightarrow> int \<Rightarrow> string \<Rightarrow> 'p tssPartyManager
     \<Rightarrow> ('p tssPartyManager, nat) res" where
  "begin_keygen lib keyID nodeIDs threshold this m =
     (if activeKeygen m keyID \<noteq> None
      then (Inl (Err (''DKG instance already exists for keyID '' @ keyID
              @ '' (sync.Once should have prevented this)'')), m)
      else or_return (prepare lib S256 (sort nodeIDs) (\<lambda>_. threshold) this m)
        (\<lambda>params m.
           let m = m\<lparr>activeKeygen := (activeKeygen m)(keyID \<mapsto> tl_keygen lib params),
                     sessionIDMap := (sessionIDMap m)(keyID \<mapsto> keyID)\<rparr>;
               (c, m) = open_keygen_queue keyID m
           in (Inr c, m)))"

definition begin_eddsa_keygen ::
  "('p, 'd) tss_lib \<Rightarrow> string \<Rightarrow> string list \<Rightarrow> int \<Rightarrow> string \<Rightarrow> 'p tssPartyManager
     \<Rightarrow> ('p tssPartyManager, nat) res" where
  "begin_eddsa_keygen lib keyID nodeIDs threshold this m =
     or_return (prepare lib Edwards nodeIDs (\<lambda>_. threshold) this m)
       (\<lambda>params m.
          let m = m\<lparr>activeEdDSAKeygen := (activeEdDSAKeygen m)(keyID \<mapsto> tl_keygen lib params),
                    sessionIDMap := (sessionIDMap m)(keyID \<mapsto> keyID)\<rparr>;
              (c, m) = open_keygen_queue keyID m
          in (Inr c, m))"

definition message_number :: "('p, 'd) tss_lib \<Rightarrow> byte list \<Rightarrow> nat" where
  "message_number lib message = be_value (tl_sha256 lib message)"

definition begin_signing ::
  "('p, 'd) tss_lib \<Rightarrow> string \<Rightarrow> byte list \<Rightarrow> string list \<Rightarrow> string \<Rightarrow> 'd \<Rightarrow> 'p tssPartyManager
     \<Rightarrow> ('p tssPartyManager, nat) res" where
  "begin_signing lib sessionID message nodeIDs this keyData m =
     or_return (prepare lib S256 nodeIDs (\<lambda>n. int n - 1) this m)
       (\<lambda>params m.
          let m = m\<lparr>activeSigning := (activeSigning m)(sessionID \<mapsto>
                        tl_signing lib (message_number lib message) params keyData),
                    sessionIDMap := (sessionIDMap m)(sessionID \<mapsto> sessionID)\<rparr>;
              (c, m) = open_signing_queue sessionID m
          in (Inr c, m))"

text \<open>The EdDSA signing run has no queue and no loop that reads messages.\<close>

definition begin_eddsa_signing ::
  "('p, 'd) tss_lib \<Rightarrow> string \<Rightarrow> byte list \<Rightarrow> string list \<Rightarrow> string \<Rightarrow> 'd \<Rightarrow> 'p tssPartyManager
     \<Rightarrow> ('p tssPartyManager, unit) res" where
  "begin_eddsa_signing lib sessionID message nodeIDs this keyData m =
     or_return (prepare lib Edwards nodeIDs (\<lambda>n. int n - 1) this m)
       (\<lambda>params m. (Inr (),
          m\<lparr>activeEdDSASigning := (activeEdDSASigning m)(sessionID \<mapsto>
                tl_signing lib (message_number lib message) params keyData),
            sessionIDMap := (sessionIDMap m)(sessionID \<mapsto> sessionID)\<rparr>))"

section \<open>Main loops\<close>

text \<open>
  One turn of a main loop: \<open>None\<close> goes on waiting, \<open>Some r\<close> returns. Only a result
  and an error of the party clean up the party and its queue.
\<close>

definition keygen_main ::
  "('p, 'd) tss_lib \<Rightarrow> ('m, 'w) router option \<Rightarrow> string \<Rightarrow> string \<Rightarrow> ('m, 'd) tss_event
     \<Rightarrow> 'p tssPartyManager \<times> 'w \<Rightarrow> (err + 'd) option \<times> 'p tssPartyManager \<times> 'w" where
  "keygen_main lib router keyID this ev s =
     (let (m, w) = s;
          done = drop_keygen_queue keyID (m\<lparr>activeKeygen := (activeKeygen m)(keyID := None)\<rparr>)
      in case ev of
           CtxDone e \<Rightarrow> (Some (Inl (Err e)), m, w)
         | TimerFired \<Rightarrow> (Some (Inl (Err ''keygen timeout'')), m, w)
         | OutMsg targets msg \<Rightarrow>
             (case router of
                None \<Rightarrow> (Some (Inl (Err (''messageRouter is nil (keyID: '' @ keyID @ '', thisNodeID: '' @ this @ '')''))), m, w)
              | Some route \<Rightarrow>
                  let sid = mapped_session m keyID
                  in if targets = [] then (None, m, broadcast_lenient route m sid msg (other_parties lib m this) w)
                     else (case route_targets route m
                              (\<lambda>to n. ''route message to node '' @ n @ '' (keyID: '' @ keyID @ '', thisNodeID: ''
                                 @ this @ '', partyID: '' @ pt_Id to @ '', sessionID: '' @ sid @ '')'')
                              (\<lambda>to. ''party ID to node ID mapping not found: '' @ pt_Id to)
                              sid msg targets w of
                         (Inl e, w) \<Rightarrow> (Some (Inl e), m, w)
                       | (Inr _, w) \<Rightarrow> (None, m, w)))
         | EndMsg None \<Rightarrow> (Some (Inl (Err ''keygen returned nil save data'')), done, w)
         | EndMsg (Some d) \<Rightarrow> (Some (Inr d), done, w)
         | ErrMsg e _ \<Rightarrow> (Some (Inl (Wrap (Err e) ''keygen error'')), done, w))"

definition eddsa_keygen_main ::
  "('p, 'd) tss_lib \<Rightarrow> ('m, 'w) router option \<Rightarrow> string \<Rightarrow> string \<Rightarrow> ('m, 'd) tss_event
     \<Rightarrow> 'p tssPartyManager \<times> 'w \<Rightarrow> (err + 'd) option \<times> 'p tssPartyManager \<times> 'w" where
  "eddsa_keygen_main lib router keyID this ev s =
     (let (m, w) = s;
          done = drop_keygen_queue keyID (m\<lparr>activeEdDSAKeygen := (activeEdDSAKeygen m)(keyID := None)\<rparr>)
      in case ev of
           CtxDone e \<Rightarrow> (Some (Inl (Err e)), m, w)
         | TimerFired \<Rightarrow> (Some (Inl (Err ''EdDSA keygen timeout'')), m, w)
         | OutMsg targets msg \<Rightarrow>
             (case router of
                None \<Rightarrow> (Some (Inl (Err (''messageRouter is nil (keyID: '' @ keyID @ '', thisNodeID: '' @ this @ '')''))), m, w)
              | Some route \<Rightarrow>
                  let sid = mapped_session m keyID
                  in if targets = [] then (None, m, broadcast_lenient route m sid msg (other_parties lib m this) w)
                     else (case route_targets route m
                              (\<lambda>to n. ''route EdDSA DKG message to node '' @ n)
                              (\<lambda>to. ''party ID to node ID mapping not found: '' @ pt_Id to)
                              sid msg targets w of
                         (Inl e, w) \<Rightarrow> (Some (Inl e), m, w)
                       | (Inr _, w) \<Rightarrow> (None, m, w)))
         | EndMsg None \<Rightarrow> (Some (Inl (Err ''EdDSA keygen returned nil save data'')), done, w)
         | EndMsg (Some d) \<Rightarrow> (Some (Inr d), done, w)
         | ErrMsg e _ \<Rightarrow> (Some (Inl (Wrap (Err e) ''EdDSA keygen error'')), done, w))"

record SigningOptions =
  so_Timeout :: int
  so_EnableIdentifiableAbort :: bool
  so_ProtocolName :: string

definition DefaultSigningOptions :: SigningOptions where
  "DefaultSigningOptions = \<lparr>so_Timeout = 120000000, so_EnableIdentifiableAbort = False, so_ProtocolName = ''GG18''\<rparr>"

definition GG20SigningOptions :: SigningOptions where
  "GG20SigningOptions = \<lparr>so_Timeout = 60000000, so_EnableIdentifiableAbort = True, so_ProtocolName = ''GG20''\<rparr>"

definition FROSTSigningOptions :: SigningOptions where
  "FROSTSigningOptions = \<lparr>so_Timeout = 60000000, so_EnableIdentifiableAbort = False, so_ProtocolName = ''FROST''\<rparr>"

text \<open>The defaults \<open>executeSigning\<close> puts in for a zero timeout and an empty name.\<close>

definition effective_options :: "SigningOptions \<Rightarrow> SigningOptions" where
  "effective_options opts =
     (let opts = (if so_Timeout opts = 0 then opts\<lparr>so_Timeout := 120000000\<rparr> else opts)
      in if so_ProtocolName opts = [] then opts\<lparr>so_ProtocolName := ''TSS''\<rparr> else opts)"

definition signing_error :: "SigningOptions \<Rightarrow> string \<Rightarrow> string option \<Rightarrow> err" where
  "signing_error opts e culprits =
     Wrap (Err e) (case (so_EnableIdentifiableAbort opts, culprits) of
       (True, Some cs) \<Rightarrow> so_ProtocolName opts @ '' signing error (identifiable abort: '' @ cs @ '')''
     | _ \<Rightarrow> so_ProtocolName opts @ '' signing error'')"

text \<open>\<open>executeSigning\<close>: without a router the messages of the party are only logged.\<close>

definition signing_main ::
  "('p, 'd) tss_lib \<Rightarrow> ('m, 'w) router option \<Rightarrow> SigningOptions \<Rightarrow> string \<Rightarrow> string \<Rightarrow> ('m, SignatureData) tss_event
     \<Rightarrow> 'p tssPartyManager \<times> 'w \<Rightarrow> (err + SignatureData) option \<times> 'p tssPartyManager \<times> 'w" where
  "signing_main lib router opts sessionID this ev s =
     (let (m, w) = s;
          done = drop_signing_queue sessionID (m\<lparr>activeSigning := (activeSigning m)(sessionID := None)\<rparr>)
      in case ev of
           CtxDone e \<Rightarrow> (Some (Inl (Err e)), m, w)
         | TimerFired \<Rightarrow> (Some (Inl (Err (so_ProtocolName opts @ '' signing timeout''))), m, w)
         | OutMsg targets msg \<Rightarrow>
             (case router of
                None \<Rightarrow> (None, m, w)
              | Some route \<Rightarrow>
                  let sid = mapped_session m sessionID;
                      (r, w) = (if targets = [] then broadcast_strict route sid msg (other_nodes lib m this) w
                                else route_targets route m (\<lambda>to n. ''route message to node '' @ n)
                                       (\<lambda>to. ''party ID to node ID mapping not found: '' @ pt_Id to)
                                       sid msg targets w)
                  in (case r of Inl e \<Rightarrow> (Some (Inl e), m, w) | Inr _ \<Rightarrow> (None, m, w)))
         | EndMsg None \<Rightarrow> (Some (Inl (Err (so_ProtocolName opts @ '' signing returned nil signature data''))), done, w)
         | EndMsg (Some d) \<Rightarrow> (Some (Inr d), done, w)
         | ErrMsg e culprits \<Rightarrow> (Some (Inl (signing_error opts e culprits)), done, w))"

text \<open>\<open>executeEdDSASigning\<close>: a message goes to its targets; a broadcast has none.\<close>

definition eddsa_signing_main ::
  "('p, 'd) tss_lib \<Rightarrow> ('m, 'w) router option \<Rightarrow> SigningOptions \<Rightarrow> string \<Rightarrow> string \<Rightarrow> ('m, SignatureData) tss_event
     \<Rightarrow> 'p tssPartyManager \<times> 'w \<Rightarrow> (err + SignatureData) option \<times> 'p tssPartyManager \<times> 'w" where
  "eddsa_signing_main lib router opts sessionID this ev s =
     (let (m, w) = s;
          done = m\<lparr>activeEdDSASigning := (activeEdDSASigning m)(sessionID := None)\<rparr>
      in case ev of
           CtxDone e \<Rightarrow> (Some (Inl (Err e)), m, w)
         | TimerFired \<Rightarrow> (Some (Inl (Err (so_ProtocolName opts @ '' signing timeout''))), m, w)
         | OutMsg targets msg \<Rightarrow>
             (case router of
                None \<Rightarrow> (None, m, w)
              | Some route \<Rightarrow>
                  (case route_targets route m (\<lambda>to n. ''route message to node '' @ n)
                          (\<lambda>to. ''party ID to node ID mapping not found: '' @ pt_Id to)
                          (mapped_session m sessionID) msg targets w of
                     (Inl e, w) \<Rightarrow> (Some (Inl e), m, w)
                   | (Inr _, w) \<Rightarrow> (None, m, w)))
         | EndMsg None \<Rightarrow> (Some (Inl (Err (so_ProtocolName opts @ '' signing returned nil signature data''))), done, w)
         | EndMsg (Some d) \<Rightarrow> (Some (Inr d), done, w)
         | ErrMsg e culprits \<Rightarrow> (Some (Inl (signing_error opts e culprits)), done, w))"

section \<open>Loops that hand messages to the party\<close>

text \<open>
  One turn of the reading loop. It ends when its channel is closed and drained;
  a message without a party or from an unknown node is dropped, and so is one the
  party does not accept.
\<close>

datatype loop_state = Reading nat | Stopped

definition inject ::
  "('p, 'd) tss_lib \<Rightarrow> 'p tssPartyManager \<Rightarrow> 'p option \<Rightarrow> incomingMessage \<Rightarrow> 'p option" where
  "inject lib m party msg =
     (case party of
        None \<Rightarrow> None
      | Some p \<Rightarrow> (case getPartyID m (im_from msg) of
            None \<Rightarrow> Some p
          | Some from \<Rightarrow> Some (fst (tl_update lib p (im_bytes msg) from (im_broadcast msg)))))"

definition keygen_receive ::
  "('p, 'd) tss_lib \<Rightarrow> string \<Rightarrow> loop_state \<times> 'p tssPartyManager \<Rightarrow> loop_state \<times> 'p tssPartyManager" where
  "keygen_receive lib keyID s =
     (case s of
        (Stopped, m) \<Rightarrow> (Stopped, m)
      | (Reading c, m) \<Rightarrow>
          (case try_recv c m of
             (Blocks, m) \<Rightarrow> (Reading c, m)
           | (Received None, m) \<Rightarrow> (Stopped, m)
           | (Received (Some msg), m) \<Rightarrow>
               (Reading c, m\<lparr>activeKeygen := (activeKeygen m)(keyID := inject lib m (activeKeygen m keyID) msg)\<rparr>)))"

definition eddsa_keygen_receive ::
  "('p, 'd) tss_lib \<Rightarrow> string \<Rightarrow> loop_state \<times> 'p tssPartyManager \<Rightarrow> loop_state \<times> 'p tssPartyManager" where
  "eddsa_keygen_receive lib keyID s =
     (case s of
        (Stopped, m) \<Rightarrow> (Stopped, m)
      | (Reading c, m) \<Rightarrow>
          (case try_recv c m of
             (Blocks, m) \<Rightarrow> (Reading c, m)
           | (Received None, m) \<Rightarrow> (Stopped, m)
           | (Received (Some msg), m) \<Rightarrow>
               (Reading c, m\<lparr>activeEdDSAKeygen :=
                  (activeEdDSAKeygen m)(keyID := inject lib m (activeEdDSAKeygen m keyID) msg)\<rparr>)))"

text \<open>The signing loop looks for another channel under its session when its own is closed.\<close>

definition signing_receive ::
  "('p, 'd) tss_lib \<Rightarrow> string \<Rightarrow> loop_state \<times> 'p tssPartyManager \<Rightarrow> loop_state \<times> 'p tssPartyManager" where
  "signing_receive lib sessionID s =
     (case s of
        (Stopped, m) \<Rightarrow> (Stopped, m)
      | (Reading c, m) \<Rightarrow>
          (case try_recv c m of
             (Blocks, m) \<Rightarrow> (Reading c, m)
           | (Received None, m) \<Rightarrow>
               (case incomingSigningMessages m sessionID of None \<Rightarrow> (Stopped, m) | Some c' \<Rightarrow> (Reading c', m))
           | (Received (Some msg), m) \<Rightarrow>
               (Reading c, m\<lparr>activeSigning := (activeSigning m)(sessionID := inject lib m (activeSigning m sessionID) msg)\<rparr>)))"

section \<open>Incoming messages\<close>

text \<open>
  The wait for the queue: what each wake-up of the select finds. It polls every
  10 ms; the timer fires after 5 s for key generation and 10 s for signing.
  \<open>None\<close>: still waiting at the end of the list.
\<close>

datatype wake = Tick "nat option" | WaitTimeout "nat option" | WaitCancelled string

fun wait_keygen_queue :: "string \<Rightarrow> nat \<Rightarrow> wake list \<Rightarrow> (err + nat) option" where
  "wait_keygen_queue sid n [] = None"
| "wait_keygen_queue sid n (Tick (Some c) # ws) = Some (Inr c)"
| "wait_keygen_queue sid n (Tick None # ws) = wait_keygen_queue sid (Suc n) ws"
| "wait_keygen_queue sid n (WaitTimeout _ # ws) =
     Some (Inl (Err (''timeout waiting for keygen message queue (session '' @ sid @ '', waited ''
       @ nat_digits n @ '' iterations)'')))"
| "wait_keygen_queue sid n (WaitCancelled e # ws) = Some (Inl (Err e))"

text \<open>The signing wait looks once more when its timer fires.\<close>

fun wait_signing_queue :: "string \<Rightarrow> nat \<Rightarrow> wake list \<Rightarrow> (err + nat) option" where
  "wait_signing_queue sid n [] = None"
| "wait_signing_queue sid n (Tick (Some c) # ws) = Some (Inr c)"
| "wait_signing_queue sid n (Tick None # ws) = wait_signing_queue sid (Suc n) ws"
| "wait_signing_queue sid n (WaitTimeout (Some c) # ws) = Some (Inr c)"
| "wait_signing_queue sid n (WaitTimeout None # ws) =
     Some (Inl (Err (''timeout waiting for signing message queue (session '' @ sid @ '', waited ''
       @ nat_digits n @ '' iterations)'')))"
| "wait_signing_queue sid n (WaitCancelled e # ws) = Some (Inl (Err e))"

text \<open>
  A handler finds the channel, and sends later: the manager's lock is not held in
  between. \<open>find_*\<close> is the first half, \<open>enqueue_*\<close> the second.
\<close>

definition find_keygen_queue :: "'p tssPartyManager \<Rightarrow> string \<Rightarrow> wake list \<Rightarrow> (err + nat) option" where
  "find_keygen_queue m sid ws =
     (case incomingKeygenMessages m sid of Some c \<Rightarrow> Some (Inr c) | None \<Rightarrow> wait_keygen_queue sid 0 ws)"

definition find_signing_queue :: "'p tssPartyManager \<Rightarrow> string \<Rightarrow> wake list \<Rightarrow> (err + nat) option" where
  "find_signing_queue m sid ws =
     (case incomingSigningMessages m sid of Some c \<Rightarrow> Some (Inr c) | None \<Rightarrow> wait_signing_queue sid 0 ws)"

definition send_panic :: err where
  "send_panic = Panic ''send on closed channel''"

definition enqueue ::
  "string \<Rightarrow> string \<Rightarrow> nat \<Rightarrow> incomingMessage \<Rightarrow> 'p tssPartyManager \<Rightarrow> ('p tssPartyManager, unit) res" where
  "enqueue kind sid c msg m =
     (case try_send c msg m of
        (Sent, m) \<Rightarrow> (Inr (), m)
      | (QueueFull, m) \<Rightarrow> (Inl (Err (kind @ '' message queue full for session '' @ sid)), m)
      | (SendPanic, m) \<Rightarrow> (Inl send_panic, m))"

text \<open>Both halves with nothing in between.\<close>

definition ProcessIncomingKeygenMessage ::
  "string \<Rightarrow> incomingMessage \<Rightarrow> wake list \<Rightarrow> 'p tssPartyManager \<Rightarrow> ('p tssPartyManager, unit) res option" where
  "ProcessIncomingKeygenMessage sid msg ws m =
     (case find_keygen_queue m sid ws of
        None \<Rightarrow> None
      | Some (Inl e) \<Rightarrow> Some (Inl e, m)
      | Some (Inr c) \<Rightarrow> Some (enqueue ''keygen'' sid c msg m))"

definition ProcessIncomingSigningMessage ::
  "string \<Rightarrow> incomingMessage \<Rightarrow> wake list \<Rightarrow> 'p tssPartyManager \<Rightarrow> ('p tssPartyManager, unit) res option" where
  "ProcessIncomingSigningMessage sid msg ws m =
     (case find_signing_queue m sid ws of
        None \<Rightarrow> None
      | Some (Inl e) \<Rightarrow> Some (Inl e, m)
      | Some (Inr c) \<Rightarrow> Some (enqueue ''signing'' sid c msg m))"

section \<open>Runs\<close>

text \<open>
  A run is driven by a schedule: turns of the main loop and of the reading loop,
  and handlers that find the queue (\<open>Arrive\<close>) and send to it later (\<open>Deliver i\<close>, the
  \<open>i\<close>-th of those that have found it). A panic ends the process.
\<close>

datatype ('m, 'd) action = Main "('m, 'd) tss_event" | Receive | Arrive incomingMessage | Deliver nat

record ('p, 'd, 'w) tss_run =
  tr_pm :: "'p tssPartyManager"
  tr_wire :: 'w
  tr_loop :: loop_state
  tr_pending :: "(nat \<times> incomingMessage) list"
  tr_result :: "(err + 'd) option"
  tr_crash :: bool

definition start_run :: "loop_state \<Rightarrow> 'p tssPartyManager \<Rightarrow> 'w \<Rightarrow> ('p, 'd, 'w) tss_run" where
  "start_run l m w = \<lparr>tr_pm = m, tr_wire = w, tr_loop = l, tr_pending = [], tr_result = None, tr_crash = False\<rparr>"

fun run_act ::
  "(('m, 'd) tss_event \<Rightarrow> 'p tssPartyManager \<times> 'w \<Rightarrow> (err + 'd) option \<times> 'p tssPartyManager \<times> 'w)
     \<Rightarrow> (loop_state \<times> 'p tssPartyManager \<Rightarrow> loop_state \<times> 'p tssPartyManager)
     \<Rightarrow> ('p tssPartyManager \<Rightarrow> nat option)
     \<Rightarrow> ('m, 'd) action \<Rightarrow> ('p, 'd, 'w) tss_run \<Rightarrow> ('p, 'd, 'w) tss_run" where
  "run_act main recv queue (Main ev) r =
     (if tr_crash r \<or> tr_result r \<noteq> None then r
      else let (res, m, w) = main ev (tr_pm r, tr_wire r)
           in r\<lparr>tr_pm := m, tr_wire := w, tr_result := res\<rparr>)"
| "run_act main recv queue Receive r =
     (if tr_crash r then r
      else let (l, m) = recv (tr_loop r, tr_pm r) in r\<lparr>tr_pm := m, tr_loop := l\<rparr>)"
| "run_act main recv queue (Arrive msg) r =
     (if tr_crash r then r
      else case queue (tr_pm r) of
          None \<Rightarrow> r
        | Some c \<Rightarrow> r\<lparr>tr_pending := tr_pending r @ [(c, msg)]\<rparr>)"
| "run_act main recv queue (Deliver i) r =
     (if tr_crash r \<or> i \<ge> length (tr_pending r) then r
      else let (c, msg) = tr_pending r ! i;
               (res, m) = enqueue [] [] c msg (tr_pm r)
           in r\<lparr>tr_pm := m, tr_pending := take i (tr_pending r) @ drop (Suc i) (tr_pending r),
                tr_crash := (res = Inl send_panic)\<rparr>)"

definition keygen_run where
  "keygen_run lib router keyID this =
     fold (run_act (keygen_main lib router keyID this) (keygen_receive lib keyID)
             (\<lambda>m. incomingKeygenMessages m keyID))"

definition eddsa_keygen_run where
  "eddsa_keygen_run lib router keyID this =
     fold (run_act (eddsa_keygen_main lib router keyID this) (eddsa_keygen_receive lib keyID)
             (\<lambda>m. incomingKeygenMessages m keyID))"

definition signing_run where
  "signing_run lib router opts sessionID this =
     fold (run_act (signing_main lib router opts sessionID this) (signing_receive lib sessionID)
             (\<lambda>m. incomingSigningMessages m sessionID))"

text \<open>The EdDSA signing run reads nothing; its handlers look for a signing queue like all others.\<close>

definition eddsa_signing_run where
  "eddsa_signing_run lib router opts sessionID this =
     fold (run_act (eddsa_signing_main lib router opts sessionID this) (\<lambda>s. s)
             (\<lambda>m. incomingSigningMessages m sessionID))"

text \<open>The whole of each operation along a schedule; \<open>None\<close>: it is still waiting.\<close>

type_synonym ('p, 'd, 'w) outcome = "(err + 'd) option \<times> 'p tssPartyManager \<times> 'w"

definition outcome_of :: "('p, 'd, 'w) tss_run \<Rightarrow> ('p, 'd, 'w) outcome" where
  "outcome_of r = (tr_result r, tr_pm r, tr_wire r)"

definition executeKeygen ::
  "('p, 'd) tss_lib \<Rightarrow> ('m, 'w) router option \<Rightarrow> string \<Rightarrow> string list \<Rightarrow> int \<Rightarrow> string
     \<Rightarrow> ('m, 'd) action list \<Rightarrow> 'p tssPartyManager \<Rightarrow> 'w \<Rightarrow> ('p, 'd, 'w) outcome" where
  "executeKeygen lib router keyID nodeIDs threshold this acts m w =
     (case begin_keygen lib keyID nodeIDs threshold this m of
        (Inl e, m) \<Rightarrow> (Some (Inl e), m, w)
      | (Inr c, m) \<Rightarrow> outcome_of (keygen_run lib router keyID this acts (start_run (Reading c) m w)))"

definition executeEdDSAKeygen ::
  "('p, 'd) tss_lib \<Rightarrow> ('m, 'w) router option \<Rightarrow> string \<Rightarrow> string list \<Rightarrow> int \<Rightarrow> string
     \<Rightarrow> ('m, 'd) action list \<Rightarrow> 'p tssPartyManager \<Rightarrow> 'w \<Rightarrow> ('p, 'd, 'w) outcome" where
  "executeEdDSAKeygen lib router keyID nodeIDs threshold this acts m w =
     (case begin_eddsa_keygen lib keyID nodeIDs threshold this m of
        (Inl e, m) \<Rightarrow> (Some (Inl e), m, w)
      | (Inr c, m) \<Rightarrow> outcome_of (eddsa_keygen_run lib router keyID this acts (start_run (Reading c) m w)))"

definition executeSigning ::
  "('p, 'd) tss_lib \<Rightarrow> ('m, 'w) router option \<Rightarrow> SigningOptions \<Rightarrow> string \<Rightarrow> byte list \<Rightarrow> string list \<Rightarrow> string
     \<Rightarrow> 'd \<Rightarrow> ('m, SignatureData) action list \<Rightarrow> 'p tssPartyManager \<Rightarrow> 'w \<Rightarrow> ('p, SignatureData, 'w) outcome" where
  "executeSigning lib router opts sessionID message nodeIDs this keyData acts m w =
     (case begin_signing lib sessionID message nodeIDs this keyData m of
        (Inl e, m) \<Rightarrow> (Some (Inl e), m, w)
      | (Inr c, m) \<Rightarrow> outcome_of (signing_run lib router (effective_options opts) sessionID this acts
                                    (start_run (Reading c) m w)))"

definition executeEdDSASigning ::
  "('p, 'd) tss_lib \<Rightarrow> ('m, 'w) router option \<Rightarrow> SigningOptions \<Rightarrow> string \<Rightarrow> byte list \<Rightarrow> string list \<Rightarrow> string
     \<Rightarrow> 'd \<Rightarrow> ('m, SignatureData) action list \<Rightarrow> 'p tssPartyManager \<Rightarrow> 'w \<Rightarrow> ('p, SignatureData, 'w) outcome" where
  "executeEdDSASigning lib router opts sessionID message nodeIDs this keyData acts m w =
     (case begin_eddsa_signing lib sessionID message nodeIDs this keyData m of
        (Inl e, m) \<Rightarrow> (Some (Inl e), m, w)
      | (Inr _, m) \<Rightarrow> outcome_of (eddsa_signing_run lib router opts sessionID this acts (start_run Stopped m w)))"

section \<open>Conversions\<close>

text \<open>\<open>big.Int.Bytes\<close>: the big-endian digits without leading zeros.\<close>

fun be_bytes :: "nat \<Rightarrow> byte list" where
  "be_bytes n = (if n = 0 then [] else be_bytes (n div 256) @ [of_nat (n mod 256)])"

declare be_bytes.simps [simp del]

definition pad32 :: "byte list \<Rightarrow> byte list" where
  "pad32 bs = replicate (32 - length bs) 0 @ bs"

text \<open>
  The compressed public key as the code builds it; the prefix is chosen by the low
  bit of Y, and X is padded when it is shorter than 32 bytes.
\<close>

definition compress_point :: "nat \<Rightarrow> nat \<Rightarrow> byte list" where
  "compress_point x y =
     (let pubKeyBytes = (if even y then 2 # be_bytes x else 3 # be_bytes x)
      in if length (be_bytes x) < 32
         then (if even y then 2 # pad32 (be_bytes x) else 3 # pad32 (be_bytes x))
         else pubKeyBytes)"

text \<open>What the conversion reads of \<open>LocalPartySaveData\<close>; a point the library cannot convert is \<open>None\<close>.\<close>

record save_view =
  sv_Point :: "(nat \<times> nat) option"
  sv_Xi :: nat
  sv_ShareID :: int

text \<open>\<open>int(ShareID.Int64())\<close>: the low 64 bits in two's complement.\<close>

definition int64 :: "int \<Rightarrow> int" where
  "int64 n = signed_take_bit 63 n"

definition convertTSSKeyData :: "string \<Rightarrow> save_view \<Rightarrow> string \<Rightarrow> err + KeyShare \<times> PublicKey" where
  "convertTSSKeyData keyID d this =
     (case sv_Point d of
        None \<Rightarrow> Inl (Err ''failed to convert ECPoint to ECDSA public key'')
      | Some (x, y) \<Rightarrow>
          let pub = compress_point x y; xi = be_bytes (sv_Xi d); shareID = int64 (sv_ShareID d)
          in if length xi > 32 then Inl (Panic ''runtime error: slice bounds out of range'')
             else Inr (\<lparr>sh_ShareID = keyID @ ''-'' @ this, sh_NodeID = this, sh_Share = pad32 xi,
                        sh_Index = (if shareID < 0 then 1 else shareID)\<rparr>,
                       \<lparr>pk_Bytes = pub, pk_Hex = hex_EncodeToString pub\<rparr>))"

definition padScalarBytes :: "byte list \<Rightarrow> byte list" where
  "padScalarBytes src =
     (if length src \<ge> 32 then drop (length src - 32) src else replicate (32 - length src) 0 @ src)"

definition buildDERSignature :: "byte list \<Rightarrow> byte list \<Rightarrow> byte list" where
  "buildDERSignature r s =
     0x30 # of_nat (length r + length s + 4) # 0x02 # of_nat (length r) # r
       @ 0x02 # of_nat (length s) # s"

definition convertTSSSignature :: "SignatureData option \<Rightarrow> err + Signature" where
  "convertTSSSignature sigData =
     (case sigData of
        None \<Rightarrow> Inl (Err ''signature data is nil'')
      | Some d \<Rightarrow>
          let r = padScalarBytes (sd_R d); s = padScalarBytes (sd_S d); der = buildDERSignature r s
          in Inr \<lparr>sg_R = r, sg_S = s, sg_Bytes = der, sg_Hex = hex_EncodeToString der\<rparr>)"

end
