(* ===== verification/Protocol.thy ===== *)
theory Protocol
  imports Tss
begin

text \<open>
  \<open>internal/mpc/protocol/gg18.go\<close>, \<open>gg20.go\<close> and \<open>frost.go\<close>: the three
  protocol engines over the party manager. An engine keeps its key records in
  memory, runs its party manager (along a schedule, as in \<open>Tss\<close>) and stores
  key data on the node's disk. Parameters: \<open>data_lib\<close> (what the code reads of the
  library's key data, and its encoding by gob or JSON), \<open>verify_lib\<close> (parsing and
  verifying signatures) and the clock in nanoseconds that names keys without an id.
\<close>

section \<open>State\<close>

record 'd data_lib =
  dl_view :: "'d \<Rightarrow> save_view"
  dl_encode :: "'d \<Rightarrow> err + byte list"
  dl_decode :: "byte list \<Rightarrow> err + 'd"
  dl_edpub :: "'d \<Rightarrow> byte list option"  \<comment> \<open>\<open>PublicKeyToStandardEd25519\<close>; \<open>None\<close>: \<open>EDDSAPub\<close> is nil\<close>
  dl_edsig :: "byte list \<Rightarrow> err + byte list"  \<comment> \<open>\<open>SignatureToStandardEd25519\<close>\<close>

record ('sg, 'pk) verify_lib =
  vl_sha256 :: "byte list \<Rightarrow> byte list"
  vl_ParseDERSignature :: "byte list \<Rightarrow> err + 'sg"
  vl_ParsePubKey :: "byte list \<Rightarrow> err + 'pk"
  vl_Verify :: "'sg \<Rightarrow> byte list \<Rightarrow> 'pk \<Rightarrow> bool"
  vl_ed25519 :: "byte list \<Rightarrow> byte list \<Rightarrow> byte list \<Rightarrow> bool"

record 'd gg18KeyRecord =
  kr_KeyData :: "'d option"
  kr_PubKey :: PublicKey
  kr_Threshold :: int
  kr_TotalNodes :: int
  kr_NodeIDs :: "string list"

record 'd frostKeyRecord = "'d gg18KeyRecord" +
  kr_Curve :: string

record ('p, 'r, 'w) engine_state =
  es_keyRecords :: "string \<Rightarrow> 'r option"
  es_pm :: "'p tssPartyManager"
  es_wire :: 'w
  es_disk :: fsys

record ('p, 'd, 'm, 'w) engine_config =
  ec_curve :: string
  ec_this :: string
  ec_router :: "('m, 'w) router option"
  ec_store :: "FileSystemKeyShareStorage option"
  ec_gcm :: gcm_lib
  ec_tss :: "('p, 'd) tss_lib"
  ec_data :: "'d data_lib"

definition saveKeyRecord :: "string \<Rightarrow> 'r \<Rightarrow> ('p, 'r, 'w) engine_state \<Rightarrow> ('p, 'r, 'w) engine_state" where
  "saveKeyRecord keyID rec s = s\<lparr>es_keyRecords := (es_keyRecords s)(keyID \<mapsto> rec)\<rparr>"

definition getKeyRecord :: "string \<Rightarrow> ('p, 'r, 'w) engine_state \<Rightarrow> 'r option" where
  "getKeyRecord keyID s = es_keyRecords s keyID"

section \<open>Checks and helpers (gg18.go)\<close>

definition generateKeyID :: "int \<Rightarrow> string" where
  "generateKeyID nanos = ''key-'' @ itoa nanos"

definition count_mismatch :: "int \<Rightarrow> string list \<Rightarrow> err" where
  "count_mismatch totalNodes ids =
     Err (''node IDs count mismatch: expected '' @ itoa totalNodes @ '', got '' @ nat_digits (length ids))"

definition normalizeNodeIDs :: "string list \<Rightarrow> int \<Rightarrow> err + string list" where
  "normalizeNodeIDs ids totalNodes =
     (if ids = [] then
        (if totalNodes < 0 then Inl (Panic ''runtime error: makeslice: len out of range'')
         else Inr (map (\<lambda>i. ''node-'' @ pad2 (nat_digits (i + 1))) [0 ..< nat totalNodes]))
      else if int (length ids) \<noteq> totalNodes then Inl (count_mismatch totalNodes ids)
      else Inr ids)"

definition gg18_ValidateKeyGenRequest :: "KeyGenRequest \<Rightarrow> err + unit" where
  "gg18_ValidateKeyGenRequest req =
     (if kg_Algorithm req \<noteq> ''ECDSA'' then Inl (Err (''unsupported algorithm: '' @ kg_Algorithm req))
      else if kg_Curve req \<noteq> ''secp256k1'' then Inl (Err (''unsupported curve: '' @ kg_Curve req))
      else if kg_Threshold req < 2 then Inl (Err ''threshold must be at least 2'')
      else if kg_TotalNodes req < kg_Threshold req then Inl (Err ''total nodes must be at least threshold'')
      else if kg_NodeIDs req \<noteq> [] \<and> int (length (kg_NodeIDs req)) \<noteq> kg_TotalNodes req
      then Inl (count_mismatch (kg_TotalNodes req) (kg_NodeIDs req))
      else Inr ())"

definition gg18_ValidateSignRequest :: "ProtoSignRequest \<Rightarrow> err + unit" where
  "gg18_ValidateSignRequest req =
     (if pq_KeyID req = [] then Inl (Err ''key ID is required'')
      else if pq_Message req = [] \<and> pq_MessageHex req = [] then Inl (Err ''message is required'')
      else if pq_NodeIDs req = [] then Inl (Err ''node IDs are required'')
      else Inr ())"

definition resolveMessagePayload :: "ProtoSignRequest \<Rightarrow> err + byte list" where
  "resolveMessagePayload req =
     (if pq_Message req \<noteq> [] then Inr (pq_Message req)
      else if pq_MessageHex req \<noteq> []
      then (case hex_DecodeString (TrimPrefix (pq_MessageHex req) ''0x'') of
              Inl e \<Rightarrow> Inl (wrap_err ''invalid message hex'' e) | Inr msg \<Rightarrow> Inr msg)
      else Inl (Err ''message payload is empty''))"

definition verifyECDSASignature ::
  "('sg, 'pk) verify_lib \<Rightarrow> Signature option \<Rightarrow> byte list \<Rightarrow> PublicKey option \<Rightarrow> err + bool" where
  "verifyECDSASignature lib sig msg pubKey =
     (if sig = None \<or> sg_Bytes (the sig) = [] then Inl (Err ''signature bytes missing'')
      else if msg = [] then Inl (Err ''message is empty'')
      else if pubKey = None \<or> pk_Bytes (the pubKey) = [] then Inl (Err ''public key is empty'')
      else pure_wrap (vl_ParseDERSignature lib (sg_Bytes (the sig))) ''parse signature''
        (\<lambda>parsedSig. pure_wrap (vl_ParsePubKey lib (pk_Bytes (the pubKey))) ''parse pub key''
          (\<lambda>parsedPub. Inr (vl_Verify lib parsedSig (vl_sha256 lib msg) parsedPub))))"

text \<open>Encoding of key data; an empty text is refused before it is decoded.\<close>

definition serializeLocalPartySaveData :: "'d data_lib \<Rightarrow> 'd \<Rightarrow> err + byte list" where
  "serializeLocalPartySaveData dl d = pure_wrap (dl_encode dl d) ''failed to encode LocalPartySaveData'' Inr"

definition deserializeLocalPartySaveData :: "'d data_lib \<Rightarrow> byte list \<Rightarrow> err + 'd" where
  "deserializeLocalPartySaveData dl bs =
     (if bs = [] then Inl (Err ''data is empty'')
      else pure_wrap (dl_decode dl bs) ''failed to decode LocalPartySaveData'' Inr)"

section \<open>GG18\<close>

type_synonym ('p, 'r, 'w, 'a) engine_res = "(err + 'a) option \<times> ('p, 'r, 'w) engine_state"

text \<open>The key data on disk, when the engine has a storage.\<close>

definition persist ::
  "('p, 'd, 'm, 'w) engine_config \<Rightarrow> (err + byte list) \<Rightarrow> string \<Rightarrow> ('p, 'r, 'w) engine_state
     \<Rightarrow> (('p, 'r, 'w) engine_state, unit) res" where
  "persist cfg encoded keyID s =
     (case ec_store cfg of
        None \<Rightarrow> (Inr (), s)
      | Some st \<Rightarrow> (case encoded of
            Inl e \<Rightarrow> (Inl (wrap_err ''failed to serialize LocalPartySaveData'' e), s)
          | Inr bs \<Rightarrow>
              (case StoreKeyData (ec_gcm cfg) st (es_disk s) keyID (ec_this cfg) bs of
                 (Inl e, d) \<Rightarrow> (Inl (wrap_err ''failed to store LocalPartySaveData'' e), s\<lparr>es_disk := d\<rparr>)
               | (Inr _, d) \<Rightarrow> (Inr (), s\<lparr>es_disk := d\<rparr>))))"

text \<open>What \<open>GenerateKeyShare\<close> does with the data of a finished run.\<close>

definition gg18_finish ::
  "('p, 'd, 'm, 'w) engine_config \<Rightarrow> KeyGenRequest \<Rightarrow> string \<Rightarrow> string list \<Rightarrow> 'd
     \<Rightarrow> ('p, 'd gg18KeyRecord, 'w) engine_state \<Rightarrow> (('p, 'd gg18KeyRecord, 'w) engine_state, KeyGenResponse) res" where
  "gg18_finish cfg req keyID nodeIDs keyData s =
     (case convertTSSKeyData keyID (dl_view (ec_data cfg) keyData) (ec_this cfg) of
        Inl e \<Rightarrow> (Inl (wrap_err ''convert tss key data'' e), s)
      | Inr (keyShare, publicKey) \<Rightarrow>
          let s = saveKeyRecord keyID \<lparr>kr_KeyData = Some keyData, kr_PubKey = publicKey,
                    kr_Threshold = kg_Threshold req, kr_TotalNodes = kg_TotalNodes req,
                    kr_NodeIDs = nodeIDs\<rparr> s
          in or_return (persist cfg (serializeLocalPartySaveData (ec_data cfg) keyData) keyID s)
               (\<lambda>_ s. (Inr \<lparr>kr_KeyShares = [(ec_this cfg, Some keyShare)], kr_PublicKey = Some publicKey\<rparr>, s)))"

definition gg18_GenerateKeyShare ::
  "('p, 'd, 'm, 'w) engine_config \<Rightarrow> int \<Rightarrow> ('m, 'd) action list \<Rightarrow> KeyGenRequest
     \<Rightarrow> ('p, 'd gg18KeyRecord, 'w) engine_state \<Rightarrow> ('p, 'd gg18KeyRecord, 'w, KeyGenResponse) engine_res" where
  "gg18_GenerateKeyShare cfg nanos acts req s =
     (case gg18_ValidateKeyGenRequest req of
        Inl e \<Rightarrow> (Some (Inl (wrap_err ''invalid key generation request'' e)), s)
      | Inr _ \<Rightarrow>
          let keyID = (if kg_KeyID req = [] then ''gg18-key-'' @ generateKeyID nanos else kg_KeyID req)
          in case normalizeNodeIDs (kg_NodeIDs req) (kg_TotalNodes req) of
               Inl e \<Rightarrow> (Some (Inl (wrap_err ''invalid node IDs'' e)), s)
             | Inr nodeIDs \<Rightarrow>
                 (case executeKeygen (ec_tss cfg) (ec_router cfg) keyID nodeIDs (kg_Threshold req) (ec_this cfg)
                         acts (es_pm s) (es_wire s) of
                    (None, m, w) \<Rightarrow> (None, s\<lparr>es_pm := m, es_wire := w\<rparr>)
                  | (Some (Inl e), m, w) \<Rightarrow>
                      (Some (Inl (wrap_err ''execute tss-lib keygen'' e)), s\<lparr>es_pm := m, es_wire := w\<rparr>)
                  | (Some (Inr keyData), m, w) \<Rightarrow>
                      let (r, s) = gg18_finish cfg req keyID nodeIDs keyData (s\<lparr>es_pm := m, es_wire := w\<rparr>)
                      in (Some r, s)))"

text \<open>A key that is not in memory is loaded from the storage, with no threshold and no nodes.\<close>

definition gg18_record ::
  "('p, 'd, 'm, 'w) engine_config \<Rightarrow> string \<Rightarrow> ('p, 'd gg18KeyRecord, 'w) engine_state
     \<Rightarrow> (('p, 'd gg18KeyRecord, 'w) engine_state, 'd gg18KeyRecord) res" where
  "gg18_record cfg keyID s =
     (case getKeyRecord keyID s of
        Some rec \<Rightarrow> (Inr rec, s)
      | None \<Rightarrow> (case ec_store cfg of
            None \<Rightarrow> (Inl (Err (''key '' @ keyID @ '' not found'')), s)
          | Some st \<Rightarrow>
              (case GetKeyData (ec_gcm cfg) st (es_disk s) keyID (ec_this cfg) of
                 (Inl e, d) \<Rightarrow> (Inl (wrap_err (''key '' @ keyID @ '' not found in memory or storage'') e), s\<lparr>es_disk := d\<rparr>)
               | (Inr bs, d) \<Rightarrow>
                   let s = s\<lparr>es_disk := d\<rparr>
                   in case deserializeLocalPartySaveData (ec_data cfg) bs of
                        Inl e \<Rightarrow> (Inl (wrap_err ''failed to deserialize LocalPartySaveData'' e), s)
                      | Inr keyData \<Rightarrow>
                          (case sv_Point (dl_view (ec_data cfg) keyData) of
                             None \<Rightarrow> (Inl (Err ''failed to extract public key from LocalPartySaveData''), s)
                           | Some (x, y) \<Rightarrow>
                               let pub = compress_point x y;
                                   rec = \<lparr>kr_KeyData = Some keyData,
                                          kr_PubKey = \<lparr>pk_Bytes = pub, pk_Hex = hex_EncodeToString pub\<rparr>,
                                          kr_Threshold = 0, kr_TotalNodes = 0, kr_NodeIDs = []\<rparr>
                               in (Inr rec, saveKeyRecord keyID rec s)))))"

text \<open>Signing with a record: the options and the text of the error are the protocol's.\<close>

definition ecdsa_sign ::
  "('p, 'd, 'm, 'w) engine_config \<Rightarrow> SigningOptions \<Rightarrow> string \<Rightarrow> string \<Rightarrow> ('m, SignatureData) action list
     \<Rightarrow> ProtoSignRequest \<Rightarrow> 'd gg18KeyRecord \<Rightarrow> ('p, 'r, 'w) engine_state
     \<Rightarrow> ('p, 'r, 'w, ProtoSignResponse) engine_res" where
  "ecdsa_sign cfg opts failed sessionID acts req rec s =
     (case kr_KeyData rec of
        None \<Rightarrow> (Some (Inl (Err ''key data not found in record'')), s)
      | Some keyData \<Rightarrow>
          (case resolveMessagePayload req of
             Inl e \<Rightarrow> (Some (Inl (wrap_err ''resolve message payload'' e)), s)
           | Inr message \<Rightarrow>
               (case executeSigning (ec_tss cfg) (ec_router cfg) opts sessionID message (pq_NodeIDs req)
                       (ec_this cfg) keyData acts (es_pm s) (es_wire s) of
                  (None, m, w) \<Rightarrow> (None, s\<lparr>es_pm := m, es_wire := w\<rparr>)
                | (Some (Inl e), m, w) \<Rightarrow> (Some (Inl (wrap_err failed e)), s\<lparr>es_pm := m, es_wire := w\<rparr>)
                | (Some (Inr sigData), m, w) \<Rightarrow>
                    (case convertTSSSignature (Some sigData) of
                       Inl e \<Rightarrow> (Some (Inl (wrap_err ''convert tss signature'' e)), s\<lparr>es_pm := m, es_wire := w\<rparr>)
                     | Inr sig \<Rightarrow> (Some (Inr \<lparr>pr_Signature = Some sig, pr_PublicKey = Some (kr_PubKey rec)\<rparr>),
                                     s\<lparr>es_pm := m, es_wire := w\<rparr>)))))"

definition gg18_ThresholdSign ::
  "('p, 'd, 'm, 'w) engine_config \<Rightarrow> string \<Rightarrow> ('m, SignatureData) action list \<Rightarrow> ProtoSignRequest
     \<Rightarrow> ('p, 'd gg18KeyRecord, 'w) engine_state \<Rightarrow> ('p, 'd gg18KeyRecord, 'w, ProtoSignResponse) engine_res" where
  "gg18_ThresholdSign cfg sessionID acts req s =
     (case gg18_ValidateSignRequest req of
        Inl e \<Rightarrow> (Some (Inl (wrap_err ''invalid sign request'' e)), s)
      | Inr _ \<Rightarrow> (case gg18_record cfg (pq_KeyID req) s of
            (Inl e, s) \<Rightarrow> (Some (Inl e), s)
          | (Inr rec, s) \<Rightarrow>
              ecdsa_sign cfg DefaultSigningOptions ''execute tss-lib signing'' sessionID acts req rec s))"

section \<open>GG20 (gg20.go)\<close>

text \<open>Key generation is GG18's; signing knows the keys in memory only.\<close>

definition gg20_GenerateKeyShare ::
  "('p, 'd, 'm, 'w) engine_config \<Rightarrow> int \<Rightarrow> ('m, 'd) action list \<Rightarrow> KeyGenRequest
     \<Rightarrow> ('p, 'd gg18KeyRecord, 'w) engine_state \<Rightarrow> ('p, 'd gg18KeyRecord, 'w, KeyGenResponse) engine_res" where
  "gg20_GenerateKeyShare cfg nanos acts req s = gg18_GenerateKeyShare cfg nanos acts req s"

definition gg20_ThresholdSign ::
  "('p, 'd, 'm, 'w) engine_config \<Rightarrow> string \<Rightarrow> ('m, SignatureData) action list \<Rightarrow> ProtoSignRequest
     \<Rightarrow> ('p, 'd gg18KeyRecord, 'w) engine_state \<Rightarrow> ('p, 'd gg18KeyRecord, 'w, ProtoSignResponse) engine_res" where
  "gg20_ThresholdSign cfg sessionID acts req s =
     (case gg18_ValidateSignRequest req of
        Inl e \<Rightarrow> (Some (Inl (wrap_err ''invalid sign request'' e)), s)
      | Inr _ \<Rightarrow> (case getKeyRecord (pq_KeyID req) s of
            None \<Rightarrow> (Some (Inl (Err (''key '' @ pq_KeyID req @ '' not found''))), s)
          | Some rec \<Rightarrow>
              ecdsa_sign cfg GG20SigningOptions ''execute GG20 signing'' sessionID acts req rec s))"

section \<open>FROST (frost.go)\<close>

definition frost_ValidateKeyGenRequest :: "KeyGenRequest \<Rightarrow> err + unit" where
  "frost_ValidateKeyGenRequest req =
     (let curveLower = ToLower (kg_Curve req)
      in if kg_Curve req \<noteq> [] \<and> curveLower \<noteq> ''ed25519''
         then (if curveLower = ''secp256k1''
               then Inl (Err (''FROST DKG does not support secp256k1 curve (only Ed25519 is supported for DKG). ''
                      @ ''Use Ed25519 for DKG, or use GG18/GG20 protocol for secp256k1''))
               else Inl (Err (''unsupported curve for FROST DKG: '' @ kg_Curve req
                      @ '' (only Ed25519 is supported for DKG)'')))
         else if kg_Algorithm req \<noteq> [] \<and> kg_Algorithm req \<noteq> ''Schnorr'' \<and> kg_Algorithm req \<noteq> ''EdDSA''
         then Inl (Err (''unsupported algorithm for FROST: '' @ kg_Algorithm req @ '' (supported: Schnorr, EdDSA)''))
         else if kg_Threshold req < 2 then Inl (Err ''threshold must be at least 2'')
         else if kg_TotalNodes req < kg_Threshold req then Inl (Err ''total nodes must be at least threshold'')
         else Inr ())"

definition validateSignRequest :: "ProtoSignRequest option \<Rightarrow> err + unit" where
  "validateSignRequest req0 =
     (case req0 of
        None \<Rightarrow> Inl (Err ''sign request is nil'')
      | Some req \<Rightarrow>
          if pq_KeyID req = [] then Inl (Err ''key ID is required'')
          else if pq_Message req = [] \<and> pq_MessageHex req = [] then Inl (Err ''message is required'')
          else if pq_NodeIDs req = [] then Inl (Err ''node IDs are required'')
          else Inr ())"

text \<open>One share object per node, without share bytes; of equal node ids the last stays.\<close>

definition frost_share :: "string \<Rightarrow> nat \<Rightarrow> string \<Rightarrow> KeyShare" where
  "frost_share keyID idx nodeID =
     \<lparr>sh_ShareID = keyID @ ''-'' @ pad2 (nat_digits (idx + 1)), sh_NodeID = nodeID, sh_Share = [],
      sh_Index = int idx + 1\<rparr>"

fun frost_shares :: "string \<Rightarrow> nat \<Rightarrow> string list \<Rightarrow> (string \<times> KeyShare option) list \<Rightarrow> (string \<times> KeyShare option) list" where
  "frost_shares keyID idx [] acc = acc"
| "frost_shares keyID idx (n # ns) acc =
     frost_shares keyID (Suc idx) ns (AList.update n (Some (frost_share keyID idx n)) acc)"

definition convertFROSTKeyData ::
  "'d data_lib \<Rightarrow> string \<Rightarrow> 'd \<Rightarrow> string list \<Rightarrow> err + (string \<times> KeyShare option) list \<times> PublicKey" where
  "convertFROSTKeyData dl keyID saveData nodeIDs =
     (case dl_edpub dl saveData of
        None \<Rightarrow> Inl (Err ''EDDSAPub is nil'')
      | Some pub \<Rightarrow> Inr (frost_shares keyID 0 nodeIDs [], \<lparr>pk_Bytes = pub, pk_Hex = hex_EncodeToString pub\<rparr>))"

definition convertFROSTSignature :: "'d data_lib \<Rightarrow> SignatureData option \<Rightarrow> err + Signature" where
  "convertFROSTSignature dl sigData =
     (case sigData of
        None \<Rightarrow> Inl (Err ''signature data is nil'')
      | Some d \<Rightarrow> pure_wrap (dl_edsig dl (sd_Signature d)) ''failed to convert signature to standard Ed25519 format''
          (\<lambda>std. Inr \<lparr>sg_R = take 32 std, sg_S = take 32 (drop 32 std), sg_Bytes = std,
                      sg_Hex = hex_EncodeToString std\<rparr>))"

text \<open>Key generation: the record's curve is always Ed25519, and a missing storage is an error here.\<close>

definition frost_finish ::
  "('p, 'd, 'm, 'w) engine_config \<Rightarrow> KeyGenRequest \<Rightarrow> string \<Rightarrow> string list \<Rightarrow> 'd
     \<Rightarrow> ('p, 'd frostKeyRecord, 'w) engine_state \<Rightarrow> (('p, 'd frostKeyRecord, 'w) engine_state, KeyGenResponse) res" where
  "frost_finish cfg req keyID nodeIDs keyData s =
     (case convertFROSTKeyData (ec_data cfg) keyID keyData nodeIDs of
        Inl e \<Rightarrow> (Inl (wrap_err ''convert FROST key data'' e), s)
      | Inr (keyShares, publicKey) \<Rightarrow>
          let s = saveKeyRecord keyID \<lparr>kr_KeyData = Some keyData, kr_PubKey = publicKey,
                    kr_Threshold = kg_Threshold req, kr_TotalNodes = kg_TotalNodes req,
                    kr_NodeIDs = nodeIDs, kr_Curve = ''ed25519''\<rparr> s
          in if ec_store cfg = None
             then (Inl (Err ''keyShareStorage is nil, cannot store LocalPartySaveData''), s)
             else or_return (persist cfg (pure_wrap (dl_encode (ec_data cfg) keyData)
                               ''failed to marshal LocalPartySaveData to JSON'' Inr) keyID s)
               (\<lambda>_ s. (Inr \<lparr>kr_KeyShares = keyShares, kr_PublicKey = Some publicKey\<rparr>, s)))"

definition frost_GenerateKeyShare ::
  "('p, 'd, 'm, 'w) engine_config \<Rightarrow> int \<Rightarrow> ('m, 'd) action list \<Rightarrow> KeyGenRequest
     \<Rightarrow> ('p, 'd frostKeyRecord, 'w) engine_state \<Rightarrow> ('p, 'd frostKeyRecord, 'w, KeyGenResponse) engine_res" where
  "frost_GenerateKeyShare cfg nanos acts req s =
     (case frost_ValidateKeyGenRequest req of
        Inl e \<Rightarrow> (Some (Inl (wrap_err ''invalid key generation request'' e)), s)
      | Inr _ \<Rightarrow>
          let keyID = (if kg_KeyID req = [] then ''frost-key-'' @ generateKeyID nanos else kg_KeyID req)
          in case normalizeNodeIDs (kg_NodeIDs req) (kg_TotalNodes req) of
               Inl e \<Rightarrow> (Some (Inl (wrap_err ''invalid node IDs'' e)), s)
             | Inr nodeIDs \<Rightarrow>
                 (case executeEdDSAKeygen (ec_tss cfg) (ec_router cfg) keyID nodeIDs (kg_Threshold req) (ec_this cfg)
                         acts (es_pm s) (es_wire s) of
                    (None, m, w) \<Rightarrow> (None, s\<lparr>es_pm := m, es_wire := w\<rparr>)
                  | (Some (Inl e), m, w) \<Rightarrow>
                      (Some (Inl (wrap_err ''execute FROST keygen'' e)), s\<lparr>es_pm := m, es_wire := w\<rparr>)
                  | (Some (Inr keyData), m, w) \<Rightarrow>
                      let (r, s) = frost_finish cfg req keyID nodeIDs keyData (s\<lparr>es_pm := m, es_wire := w\<rparr>)
                      in (Some r, s)))"

definition frost_record_curve :: "string \<Rightarrow> string" where
  "frost_record_curve curve =
     (let c = ToLower curve in if c \<noteq> ''ed25519'' \<and> c \<noteq> ''secp256k1'' then ''ed25519'' else c)"

definition frost_record ::
  "('p, 'd, 'm, 'w) engine_config \<Rightarrow> string \<Rightarrow> ('p, 'd frostKeyRecord, 'w) engine_state
     \<Rightarrow> (('p, 'd frostKeyRecord, 'w) engine_state, 'd frostKeyRecord) res" where
  "frost_record cfg keyID s =
     (case getKeyRecord keyID s of
        Some rec \<Rightarrow> (Inr rec, s)
      | None \<Rightarrow> (case ec_store cfg of
            None \<Rightarrow> (Inl (Err (''key '' @ keyID @ '' not found in memory and keyShareStorage is nil'')), s)
          | Some st \<Rightarrow>
              (case GetKeyData (ec_gcm cfg) st (es_disk s) keyID (ec_this cfg) of
                 (Inl e, d) \<Rightarrow> (Inl (wrap_err (''key '' @ keyID @ '' not found in memory or storage'') e), s\<lparr>es_disk := d\<rparr>)
               | (Inr bs, d) \<Rightarrow>
                   let s = s\<lparr>es_disk := d\<rparr>
                   in case (if bs = [] then Inl (Err ''data is empty'')
                            else pure_wrap (dl_decode (ec_data cfg) bs)
                                   ''failed to unmarshal LocalPartySaveData from JSON'' Inr) of
                        Inl e \<Rightarrow> (Inl (wrap_err ''failed to deserialize EdDSA LocalPartySaveData'' e), s)
                      | Inr keyData \<Rightarrow>
                          (case dl_edpub (ec_data cfg) keyData of
                             None \<Rightarrow> (Inl (Err ''EDDSAPub is nil in EdDSA LocalPartySaveData''), s)
                           | Some pub \<Rightarrow>
                               let rec = \<lparr>kr_KeyData = Some keyData,
                                          kr_PubKey = \<lparr>pk_Bytes = pub, pk_Hex = hex_EncodeToString pub\<rparr>,
                                          kr_Threshold = 0, kr_TotalNodes = 0, kr_NodeIDs = [],
                                          kr_Curve = frost_record_curve (ec_curve cfg)\<rparr>
                               in (Inr rec, saveKeyRecord keyID rec s)))))"

definition frost_ThresholdSign ::
  "('p, 'd, 'm, 'w) engine_config \<Rightarrow> string \<Rightarrow> ('m, SignatureData) action list \<Rightarrow> ProtoSignRequest
     \<Rightarrow> ('p, 'd frostKeyRecord, 'w) engine_state \<Rightarrow> ('p, 'd frostKeyRecord, 'w, ProtoSignResponse) engine_res" where
  "frost_ThresholdSign cfg sessionID acts req s =
     (case validateSignRequest (Some req) of
        Inl e \<Rightarrow> (Some (Inl (wrap_err ''invalid sign request'' e)), s)
      | Inr _ \<Rightarrow> (case frost_record cfg (pq_KeyID req) s of
            (Inl e, s) \<Rightarrow> (Some (Inl e), s)
          | (Inr rec, s) \<Rightarrow> (case kr_KeyData rec of
                None \<Rightarrow> (Some (Inl (Err ''key data not found in record'')), s)
              | Some keyData \<Rightarrow> (case resolveMessagePayload req of
                    Inl e \<Rightarrow> (Some (Inl (wrap_err ''resolve message payload'' e)), s)
                  | Inr message \<Rightarrow>
                      (case executeEdDSASigning (ec_tss cfg) (ec_router cfg) FROSTSigningOptions sessionID message
                              (pq_NodeIDs req) (ec_this cfg) keyData acts (es_pm s) (es_wire s) of
                         (None, m, w) \<Rightarrow> (None, s\<lparr>es_pm := m, es_wire := w\<rparr>)
                       | (Some (Inl e), m, w) \<Rightarrow>
                           (Some (Inl (wrap_err ''execute FROST signing'' e)), s\<lparr>es_pm := m, es_wire := w\<rparr>)
                       | (Some (Inr sigData), m, w) \<Rightarrow>
                           (case convertFROSTSignature (ec_data cfg) (Some sigData) of
                              Inl e \<Rightarrow> (Some (Inl (wrap_err ''convert FROST signature'' e)), s\<lparr>es_pm := m, es_wire := w\<rparr>)
                            | Inr sig \<Rightarrow> (Some (Inr \<lparr>pr_Signature = Some sig, pr_PublicKey = Some (kr_PubKey rec)\<rparr>),
                                            s\<lparr>es_pm := m, es_wire := w\<rparr>)))))))"

section \<open>Verification in FROST\<close>

definition verifyEd25519Signature ::
  "('sg, 'pk) verify_lib \<Rightarrow> Signature \<Rightarrow> byte list \<Rightarrow> PublicKey \<Rightarrow> err + bool" where
  "verifyEd25519Signature lib sig msg pubKey =
     (if length (pk_Bytes pubKey) \<noteq> 32
      then Inl (Err (''invalid Ed25519 public key length: expected 32 bytes, got '' @ nat_digits (length (pk_Bytes pubKey))))
      else if length (sg_Bytes sig) \<noteq> 64
      then Inl (Err (''invalid Ed25519 signature length: expected 64 bytes, got '' @ nat_digits (length (sg_Bytes sig))))
      else Inr (vl_ed25519 lib (pk_Bytes pubKey) msg (sg_Bytes sig)))"

definition verifySecp256k1SchnorrSignature ::
  "('sg, 'pk) verify_lib \<Rightarrow> Signature \<Rightarrow> byte list \<Rightarrow> PublicKey \<Rightarrow> err + bool" where
  "verifySecp256k1SchnorrSignature lib sig msg pubKey =
     (if length (sg_Bytes sig) \<noteq> 64
      then Inl (Err (''invalid secp256k1 Schnorr signature length: expected 64 bytes, got ''
             @ nat_digits (length (sg_Bytes sig))))
      else case vl_ParsePubKey lib (pk_Bytes pubKey) of
          Inl e \<Rightarrow> Inl (wrap_err ''failed to parse secp256k1 public key'' e)
        | Inr _ \<Rightarrow> verifyECDSASignature lib (Some sig) msg (Some pubKey))"

definition verifySchnorrSignature ::
  "('sg, 'pk) verify_lib \<Rightarrow> Signature option \<Rightarrow> byte list \<Rightarrow> PublicKey option \<Rightarrow> string \<Rightarrow> err + bool" where
  "verifySchnorrSignature lib sig msg pubKey curve =
     (if sig = None \<or> sg_Bytes (the sig) = [] then Inl (Err ''signature bytes missing'')
      else if msg = [] then Inl (Err ''message is empty'')
      else if pubKey = None \<or> pk_Bytes (the pubKey) = [] then Inl (Err ''public key is empty'')
      else if ToLower curve = ''ed25519'' then verifyEd25519Signature lib (the sig) msg (the pubKey)
      else if ToLower curve = ''secp256k1'' then verifySecp256k1SchnorrSignature lib (the sig) msg (the pubKey)
      else verifyEd25519Signature lib (the sig) msg (the pubKey))"

definition frost_VerifySignature ::
  "('sg, 'pk) verify_lib \<Rightarrow> string \<Rightarrow> Signature option \<Rightarrow> byte list \<Rightarrow> PublicKey option \<Rightarrow> err + bool" where
  "frost_VerifySignature lib curve sig msg pubKey =
     (case pubKey of
        None \<Rightarrow> Inl nil_deref
      | Some pk \<Rightarrow>
          let n = length (pk_Bytes pk)
          in verifySchnorrSignature lib sig msg pubKey
               (if n = 32 then ''ed25519''
                else if n = 33 \<or> n = 65 then ''secp256k1''
                else frost_record_curve curve))"

section \<open>What every engine answers about itself\<close>

definition gg18_DefaultProtocol :: string where "gg18_DefaultProtocol = ''gg18''"
definition gg20_DefaultProtocol :: string where "gg20_DefaultProtocol = ''gg20''"
definition frost_DefaultProtocol :: string where "frost_DefaultProtocol = ''frost''"

definition gg18_RotateKey :: "string \<Rightarrow> err + unit" where
  "gg18_RotateKey keyID = Inl (Err ''GG18 key rotation not yet implemented'')"

definition frost_RotateKey :: "string \<Rightarrow> err + unit" where
  "frost_RotateKey keyID = Inl (Err ''FROST key rotation not yet implemented'')"

end
