(* ===== verification/SigningProps.thy ===== *)
theory SigningProps
  imports Coordinator Protocol KeyProps
begin

text \<open>
  What threshold signing promises: the signature it returns was read from a
  completed session and verified, the wait ends after at most 150 polls, and a
  batch counts every request once. With it the facts on the wait and on the slots
  of a batch.
\<close>

section \<open>The wait\<close>

definition poll_read :: "string \<Rightarrow> mpc_state \<Rightarrow> mpc_state" where
  "poll_read sid s = snd (on_net (\<lambda>w. sm_GetSession w sid) s)"

definition poll_step :: "(mpc_state \<Rightarrow> mpc_state) \<Rightarrow> string \<Rightarrow> mpc_state \<Rightarrow> mpc_state" where
  "poll_step others sid s = poll_pause others (poll_read sid s)"

lemma poll_step_time: "now (net s) + pollInterval \<le> now (net (poll_step others sid s))"
proof -
  have "now (net (poll_read sid s)) = now (net s)"
    by (simp only: poll_read_def on_net_parts now_sm_GetSession)
  then show ?thesis
    by (simp add: poll_step_def poll_pause_def Let_def)
qed

lemma await_over: "\<not> now (net s) < deadline \<Longrightarrow> await_signature others deadline sid s = (Inr [], s)"
  by (subst await_signature.simps) simp

lemma await_read:
  assumes "now (net s) < deadline" and "fst (sm_GetSession (net s) sid) = r"
  shows "await_signature others deadline sid s =
    (case r of Inl e \<Rightarrow> (Inl (wrap_err ''failed to get session status'' e), poll_read sid s)
     | Inr u \<Rightarrow> if se_Status u = ''completed'' \<and> se_Signature u \<noteq> [] then (Inr (se_Signature u), poll_read sid s)
               else if se_Status u = ''failed'' then (Inl (Err ''signing session failed''), poll_read sid s)
               else await_signature others deadline sid (poll_step others sid s))"
proof -
  have g: "on_net (\<lambda>w. sm_GetSession w sid) s = (r, poll_read sid s)"
    by (rule prod_eqI) (simp_all only: on_net_parts assms(2) poll_read_def fst_conv snd_conv)
  show ?thesis
    by (subst await_signature.simps) (simp only: assms(1) g poll_step_def split: prod.split sum.split, simp)
qed

lemma await_signature_found:
  assumes "await_signature others deadline sid s = (Inr sig, s')" and "sig \<noteq> []"
  shows "\<exists>w u. fst (sm_GetSession w sid) = Inr u \<and> se_Status u = ''completed'' \<and> se_Signature u = sig"
  using assms(1)
proof (induction "nat (deadline - now (net s))" arbitrary: s rule: less_induct)
  case less
  show ?case
  proof (cases "now (net s) < deadline")
    case False
    with less.prems assms(2) show ?thesis by (simp add: await_over)
  next
    case True
    obtain r where r: "fst (sm_GetSession (net s) sid) = r" by blast
    note eq = await_read [OF True r, of others]
    from less.prems eq obtain u where u: "r = Inr u"
      by (cases r) simp_all
    show ?thesis
    proof (cases "se_Status u = ''completed'' \<and> se_Signature u \<noteq> []")
      case True
      with less.prems eq u have "se_Signature u = sig" by simp
      with True r u show ?thesis by blast
    next
      case False
      with less.prems eq u have "await_signature others deadline sid (poll_step others sid s) = (Inr sig, s')"
        by (simp split: if_splits)
      moreover have "nat (deadline - now (net (poll_step others sid s))) < nat (deadline - now (net s))"
        using True poll_step_time [of s others sid] by (simp add: pollInterval_def)
      ultimately show ?thesis by (rule less.hyps [rotated])
    qed
  qed
qed

lemma await_signature_polls:
  assumes "deadline \<le> now (net s) + int k * pollInterval"
  shows "\<exists>n. (n \<le> k \<and> snd (await_signature others deadline sid s) = (poll_step others sid ^^ n) s
                \<and> deadline \<le> now (net ((poll_step others sid ^^ n) s)))
         \<or> (n < k \<and> snd (await_signature others deadline sid s) = poll_read sid ((poll_step others sid ^^ n) s))"
  using assms
proof (induction k arbitrary: s)
  case 0
  then have d: "deadline \<le> now (net s)" by simp
  then have "snd (await_signature others deadline sid s) = s"
    by (subst await_signature.simps) simp
  with d have "snd (await_signature others deadline sid s) = (poll_step others sid ^^ 0) s
      \<and> deadline \<le> now (net ((poll_step others sid ^^ 0) s))" by simp
  then show ?case by blast
next
  case (Suc k)
  obtain r where r: "fst (sm_GetSession (net s) sid) = r" by blast
  consider (over) "deadline \<le> now (net s)"
    | (here) "snd (await_signature others deadline sid s) = poll_read sid s"
    | (again) "snd (await_signature others deadline sid s)
                 = snd (await_signature others deadline sid (poll_step others sid s))"
    using await_read [OF _ r, of deadline others]
    by (cases "now (net s) < deadline"; cases r) (auto split: if_splits)
  then show ?case
  proof cases
    case over
    then have "snd (await_signature others deadline sid s) = (poll_step others sid ^^ 0) s
      \<and> deadline \<le> now (net ((poll_step others sid ^^ 0) s))"
      by (subst await_signature.simps) simp
    then show ?thesis by blast
  next
    case here
    then have "snd (await_signature others deadline sid s) = poll_read sid ((poll_step others sid ^^ 0) s)"
      by simp
    then show ?thesis by blast
  next
    case again
    have "deadline \<le> now (net (poll_step others sid s)) + int k * pollInterval"
      using Suc.prems poll_step_time [of s others sid] by (simp add: algebra_simps)
    from Suc.IH [OF this] obtain n where
      "(n \<le> k \<and> snd (await_signature others deadline sid (poll_step others sid s))
            = (poll_step others sid ^^ n) (poll_step others sid s)
          \<and> deadline \<le> now (net ((poll_step others sid ^^ n) (poll_step others sid s))))
       \<or> (n < k \<and> snd (await_signature others deadline sid (poll_step others sid s))
            = poll_read sid ((poll_step others sid ^^ n) (poll_step others sid s)))" by blast
    then have "(Suc n \<le> Suc k \<and> snd (await_signature others deadline sid s) = (poll_step others sid ^^ Suc n) s
          \<and> deadline \<le> now (net ((poll_step others sid ^^ Suc n) s)))
       \<or> (Suc n < Suc k \<and> snd (await_signature others deadline sid s)
            = poll_read sid ((poll_step others sid ^^ Suc n) s))"
      using again by (simp add: funpow_swap1)
    then show ?thesis by blast
  qed
qed


section \<open>Threshold signing\<close>

lemma check_signature_Inr:
  "check_signature en pub sig message = Inr x \<longleftrightarrow>
     (\<exists>pubBytes sigBytes. hex_DecodeString pub = Inr pubBytes \<and> hex_DecodeString sig = Inr sigBytes
       \<and> en_verify en (Some (signature_of sig sigBytes)) message
           (Some \<lparr>pk_Bytes = pubBytes, pk_Hex = pub\<rparr>) = Inr True)"
  by (auto simp: check_signature_def pure_wrap_def split: sum.splits if_splits)

lemma run_signing_InrE:
  assumes "run_signing sv req key session protocolName message nodes s = (Inr resp, s')"
  obtains sig t where "resp = sign_response req key session sig message nodes t" and "sig \<noteq> []"
    and "check_signature (sv_engine sv) (km_PublicKey key) sig message = Inr ()"
    and "\<exists>w u. fst (sm_GetSession w (se_SessionID session)) = Inr u \<and> se_Status u = ''completed'' \<and> se_Signature u = sig"
proof -
  from assms [unfolded run_signing_def] obtain s1 where
    1: "or_return (await_signature (sv_others sv) (now (net s1) + maxWaitTime) (se_SessionID session) s1)
          (\<lambda>signatureHex s. if signatureHex = [] then (Inl (Err ''signing timeout''), mark_failed session s)
             else case check_signature (sv_engine sv) (km_PublicKey key) signatureHex message of
                 Inl e \<Rightarrow> (Inl e, s)
               | Inr _ \<Rightarrow> (Inr (sign_response req key session signatureHex message nodes (now (net s))), s))
        = (Inr resp, s')"
    by (rule or_return_InrE) blast
  then obtain sig s2 where a: "await_signature (sv_others sv) (now (net s1) + maxWaitTime) (se_SessionID session) s1
      = (Inr sig, s2)"
    and k: "(if sig = [] then (Inl (Err ''signing timeout''), mark_failed session s2)
             else case check_signature (sv_engine sv) (km_PublicKey key) sig message of
                 Inl e \<Rightarrow> (Inl e, s2)
               | Inr _ \<Rightarrow> (Inr (sign_response req key session sig message nodes (now (net s2))), s2))
        = (Inr resp, s')"
    by (rule or_return_InrE) blast
  from k have ne: "sig \<noteq> []" by auto
  from k ne have "check_signature (sv_engine sv) (km_PublicKey key) sig message = Inr ()"
    and "resp = sign_response req key session sig message nodes (now (net s2))"
    by (auto split: sum.splits)
  with ne await_signature_found [OF a ne] show ?thesis by (rule_tac that) auto
qed


text \<open>
  A run: two nodes, a key that has been deleted (its status is not looked at), and a
  leader that completes the session when it is called.
\<close>

definition toy_signer :: engine where
  "toy_signer = \<lparr>en_generate = (\<lambda>_ s. (Inr (toy_answer [2]), s)),
     en_sign = (\<lambda>_ _ s. (Inr \<lparr>pr_Signature = Some (signature_of ''ab'' [0xab]), pr_PublicKey = None\<rparr>, s)),
     en_verify = (\<lambda>_ _ _. Inr True), en_process_keygen = (\<lambda>_ _ _ _ s. (Inr (), s)),
     en_process_signing = (\<lambda>_ _ _ _ s. (Inr (), s)), en_default = ''gg20''\<rparr>"

definition toy_leader :: "string \<Rightarrow> StartSignRequest \<Rightarrow> mpc_state \<Rightarrow> (mpc_state, StartResponse) res" where
  "toy_leader n rq s = (Inr \<lparr>sp_Started = True, sp_Message = []\<rparr>,
     snd (on_net (\<lambda>w. sm_CompleteSession w (st_SessionId rq) ''ab'') s))"

definition toy_service :: sign_service where
  "toy_service = \<lparr>sv_engine = toy_signer, sv_default = ''gg20'', sv_timeout = minutes 5, sv_ord = (\<lambda>ns. ns),
     sv_consul = None, sv_StartSign = toy_leader, sv_others = (\<lambda>s. s)\<rparr>"

definition toy_sign_state :: mpc_state where
  "toy_sign_state = \<lparr>net = empty_world\<lparr>keys_t := [plain_key\<lparr>km_Status := ''Deleted''\<rparr>],
     nodes_t := [sample_node ''n1'', sample_node ''n2'']\<rparr>, disk = toy_fs (\<lambda>_. None)\<rparr>"

definition toy_sign_request :: SignRequest where
  "toy_sign_request = \<lparr>sq_KeyID = ''key-1'', sq_Message = [1], sq_MessageHex = [], sq_MessageType = [],
     sq_ChainType = []\<rparr>"

definition toy_sign_response :: SignResponse where
  "toy_sign_response = \<lparr>sr_Signature = ''ab'', sr_KeyID = ''key-1'', sr_PublicKey = ''02ab'', sr_Message = ''01'',
     sr_ChainType = [], sr_SessionID = ''session-0'', sr_SignedAt = 0, sr_ParticipatingNodes = [''n1'', ''n2'']\<rparr>"

lemma toy_sign_run: "fst (ThresholdSign toy_service toy_sign_state toy_sign_request) = Inr toy_sign_response"
  by code_simp


section \<open>Batches\<close>

text \<open>What the goroutine of message \<open>i\<close> leaves in its slot.\<close>

definition slot_filled :: "SignRequest list \<Rightarrow> batch_slots \<Rightarrow> nat \<Rightarrow> bool" where
  "slot_filled msgs b i \<longleftrightarrow>
     (bs_errors b ! i = None \<longrightarrow> (\<exists>r. bs_results b ! i = Some r \<and> sr_KeyID r = sq_KeyID (msgs ! i)))"

definition same_slot :: "batch_slots \<Rightarrow> batch_slots \<Rightarrow> nat \<Rightarrow> bool" where
  "same_slot b c i \<longleftrightarrow> bs_errors c ! i = bs_errors b ! i \<and> bs_results c ! i = bs_results b ! i"

lemma response_names_key: "ThresholdSign sv s req = (Inr resp, s') \<Longrightarrow> sr_KeyID resp = sq_KeyID req"
  by (auto simp: ThresholdSign_def sign_with_nodes_def Let_def sign_response_def
      elim!: or_wrap_InrE run_signing_InrE split: if_splits sum.splits)

lemma batch_run_fills:
  assumes "batch_run sv msgs is b s = (Inr b', s')" and "distinct is"
    and "\<forall>i \<in> set is. i < length (bs_errors b) \<and> i < length (bs_results b)"
  shows "(\<forall>i \<in> set is. slot_filled msgs b' i) \<and> (\<forall>i. i \<notin> set is \<longrightarrow> same_slot b b' i)
    \<and> length (bs_errors b') = length (bs_errors b) \<and> length (bs_results b') = length (bs_results b)"
  using assms
proof (induction "is" arbitrary: b s)
  case Nil
  then show ?case by (simp add: same_slot_def)
next
  case (Cons i js)
  obtain r s1 where t: "ThresholdSign sv s (msgs ! i) = (r, s1)" by fastforce
  define c where "c = (case r of Inl e \<Rightarrow> b\<lparr>bs_errors := (bs_errors b)[i := Some e]\<rparr>
                        | Inr x \<Rightarrow> b\<lparr>bs_results := (bs_results b)[i := Some x]\<rparr>)"
  from Cons.prems(1) t have run: "batch_run sv msgs js c s1 = (Inr b', s')"
    by (cases r; cases "projl r") (auto simp: c_def split: sum.splits)
  have len: "length (bs_errors c) = length (bs_errors b)" "length (bs_results c) = length (bs_results b)"
    by (cases r; simp add: c_def)+
  have rest: "i \<notin> set js" "distinct js"
    using Cons.prems(2) by simp_all
  have here: "slot_filled msgs c i"
    using Cons.prems(3) t response_names_key [of sv s "msgs ! i"]
    by (cases r) (auto simp: c_def slot_filled_def)
  have others: "j \<noteq> i \<Longrightarrow> same_slot b c j" for j
    by (cases r) (auto simp: c_def same_slot_def)
  have ih: "(\<forall>j \<in> set js. slot_filled msgs b' j) \<and> (\<forall>j. j \<notin> set js \<longrightarrow> same_slot c b' j)
    \<and> length (bs_errors b') = length (bs_errors c) \<and> length (bs_results b') = length (bs_results c)"
    by (rule Cons.IH [OF run rest(2)]) (use Cons.prems(3) len in auto)
  then have "same_slot c b' i" using rest(1) by blast
  with here have "slot_filled msgs b' i"
    by (simp add: slot_filled_def same_slot_def)
  with ih others len show ?case
    by (auto simp: same_slot_def)
qed

text \<open>The successes of the count: the indices without an error that have a result.\<close>

definition success_slots :: "batch_slots \<Rightarrow> nat list \<Rightarrow> nat list" where
  "success_slots b is = filter (\<lambda>i. bs_errors b ! i = None) is"

lemma batch_tally_spec:
  assumes "\<forall>i \<in> set is. slot_filled msgs b i"
  shows "br_Total (batch_tally b is r) = br_Total r
    \<and> br_Success (batch_tally b is r) = br_Success r + int (length (success_slots b is))
    \<and> br_Failed (batch_tally b is r) = br_Failed r + int (length is) - int (length (success_slots b is))
    \<and> map sr_KeyID (br_Signatures (batch_tally b is r))
        = map sr_KeyID (br_Signatures r) @ map (\<lambda>i. sq_KeyID (msgs ! i)) (success_slots b is)"
  using assms
proof (induction b "is" r rule: batch_tally.induct)
  case (1 b r)
  then show ?case by (simp add: success_slots_def)
next
  case (2 b i js r)
  show ?case
  proof (cases "bs_errors b ! i = None")
    case True
    with 2(4) obtain x where "bs_results b ! i = Some x" "sr_KeyID x = sq_KeyID (msgs ! i)"
      by (auto simp: slot_filled_def)
    with True 2(3) [of x] 2(4) show ?thesis by (simp add: success_slots_def)
  next
    case False
    with 2(1) 2(4) show ?thesis by (simp add: success_slots_def)
  qed
qed

text \<open>
  Whatever the order in which the goroutines of a batch run, every request is
  counted exactly once: the total is the number of messages, successes and failures
  add up to it, there is one signature per success, and the signatures come in the
  order of the requests they answer.
\<close>

theorem batch_counts_every_request:
  assumes "BatchSign sv schedule s msgs = (Inr r, s')" and "mset schedule = mset [0 ..< length msgs]"
  shows "br_Total r = int (length msgs) \<and> br_Success r + br_Failed r = br_Total r
    \<and> int (length (br_Signatures r)) = br_Success r
    \<and> (\<exists>P. map sr_KeyID (br_Signatures r) = map (\<lambda>i. sq_KeyID (msgs ! i)) (filter P [0 ..< length msgs]))"
proof -
  let ?b0 = "\<lparr>bs_results = replicate (length msgs) None, bs_errors = replicate (length msgs) None\<rparr> :: batch_slots"
  let ?r0 = "\<lparr>br_Signatures = [], br_Total = int (length msgs), br_Success = 0, br_Failed = 0\<rparr> :: BatchSignResponse"
  from assms(1) obtain b s1 where run: "batch_run sv msgs schedule ?b0 s = (Inr b, s1)"
    and r: "r = batch_tally b [0 ..< length msgs] ?r0"
    by (auto simp: BatchSign_def elim!: or_return_InrE split: if_splits)
  have sched: "set schedule = {0 ..< length msgs}" "distinct schedule"
    using assms(2) by (metis set_mset_mset set_upt, metis mset_eq_imp_distinct_iff distinct_upt)
  have filled: "\<forall>i \<in> set [0 ..< length msgs]. slot_filled msgs b i"
    using batch_run_fills [OF run sched(2)] sched(1) by simp
  note t = batch_tally_spec [OF filled, of ?r0, folded r]
  then have "length (br_Signatures r) = length (success_slots b [0 ..< length msgs])"
    by (metis append_Nil length_map list.map(1) BatchSignResponse.select_convs(1))
  with t show ?thesis
    by (auto simp: success_slots_def)
qed

lemma batch_counts_every_request_witness:
  "br_Total (projr (fst (BatchSign toy_service [0] toy_sign_state [toy_sign_request]))) = 1"
proof -
  obtain x where x: "ThresholdSign toy_service toy_sign_state toy_sign_request = (Inr toy_sign_response, x)"
    using toy_sign_run by (metis prod.collapse)
  obtain r s1 where b: "BatchSign toy_service [0] toy_sign_state [toy_sign_request] = (Inr r, s1)"
    by (simp add: BatchSign_def x)
  from batch_counts_every_request [OF this] have "br_Total r = 1" by simp
  with b show ?thesis by simp
qed

end
