(* ===== verification/Grpc.thy ===== *)
theory Grpc
  imports Coordinator
begin

text \<open>
  \<open>internal/mpc/grpc\<close>: what a node sends (\<open>client.go\<close>) and how it serves what it
  receives (\<open>server.go\<close>), and the message router of \<open>internal/api/providers.go\<close>.
  The server's handlers start goroutines: \<open>nd_tasks\<close> lists those started, in
  order, and \<open>run_task\<close> is the effect of one. A \<open>sync.Once\<close> of a session is used up
  when the session is in \<open>nd_dkgStartOnce\<close> or \<open>nd_signStartOnce\<close>. A remote call is the
  parameter \<open>ce_call\<close>; certificates are loaded and connections made by parameters as well.
  The listening socket and the life of the server are in theory \<open>Startup\<close>.
\<close>

section \<open>Messages\<close>

record ShareRequest =
  rq_SessionId :: string
  rq_NodeId :: string
  rq_ShareData :: "byte list"
  rq_Round :: int

record ShareResponse =
  rp_Accepted :: bool
  rp_Text :: string
  rp_NextRound :: int

record ShareMessage =
  sm_ShareData :: "byte list"
  sm_Round :: int

section \<open>Client (client.go)\<close>

record ClientConfig =
  cc_TLSEnabled :: bool
  cc_TLSCertFile :: string
  cc_TLSKeyFile :: string
  cc_TLSCACertFile :: string
  cc_Timeout :: int
  cc_KeepAlive :: int

record GRPCClient =
  gc_clients :: "(string \<times> string) list"  \<comment> \<open>node id to the endpoint of its connection\<close>
  gc_cfg :: ClientConfig
  gc_thisNodeID :: string

text \<open>The credentials of a connection: the file of the authority that is trusted, or none.\<close>

datatype credentials = TrustedCA string | InsecureCredentials

record DialOptions =
  do_credentials :: credentials
  do_Time :: int
  do_Timeout :: int

record client_env =
  ce_ord :: "NodeInfo list \<Rightarrow> NodeInfo list"
  ce_discovery :: bool  \<comment> \<open>\<open>nodeDiscovery != nil\<close>\<close>
  ce_consul :: "(err + ServiceInfo list) option"
  ce_loadCA :: "string \<Rightarrow> err + unit"  \<comment> \<open>\<open>credentials.NewClientTLSFromFile\<close>\<close>
  ce_dial :: "DialOptions \<Rightarrow> string \<Rightarrow> err + unit"
  ce_call :: "string \<Rightarrow> ShareRequest \<Rightarrow> mpc_state \<Rightarrow> (mpc_state, ShareResponse) res"

text \<open>The node among those discovery returns: participants first, then coordinators.\<close>

fun discover_node ::
  "client_env \<Rightarrow> string \<Rightarrow> string list \<Rightarrow> err \<Rightarrow> world \<Rightarrow> (world, NodeInfo) res" where
  "discover_node env nodeID [] e w = (Inl e, w)"
| "discover_node env nodeID (ty # tys) e w =
     (case DiscoverNodes (ce_ord env) (ce_consul env) w ty NodeStatusActive 3 of
        (Inl _, w) \<Rightarrow> discover_node env nodeID tys e w
      | (Inr ns, w) \<Rightarrow> (case find (\<lambda>n. ni_NodeID n = nodeID) ns of
            Some n \<Rightarrow> (Inr n, w)
          | None \<Rightarrow> discover_node env nodeID tys e w))"

definition lookup_node :: "client_env \<Rightarrow> string \<Rightarrow> world \<Rightarrow> (world, NodeInfo) res" where
  "lookup_node env nodeID w =
     (case nm_GetNode w nodeID of
        (Inr n, w) \<Rightarrow> (Inr n, w)
      | (Inl e, w) \<Rightarrow>
          or_wrap (if ce_discovery env
                   then discover_node env nodeID [NodeTypeParticipant, NodeTypeCoordinator] e w
                   else (Inl e, w))
            (''failed to get node info for '' @ nodeID @ '' (not found in database or Consul)'')
            (\<lambda>n w. (Inr n, w)))"

definition dial_options :: "client_env \<Rightarrow> ClientConfig \<Rightarrow> err + DialOptions" where
  "dial_options env cfg =
     (if cc_TLSEnabled cfg
      then pure_wrap (ce_loadCA env (cc_TLSCACertFile cfg)) ''failed to load TLS credentials''
        (\<lambda>_. Inr \<lparr>do_credentials = TrustedCA (cc_TLSCACertFile cfg), do_Time = cc_KeepAlive cfg, do_Timeout = cc_Timeout cfg\<rparr>)
      else Inr \<lparr>do_credentials = InsecureCredentials, do_Time = cc_KeepAlive cfg, do_Timeout = cc_Timeout cfg\<rparr>)"

text \<open>A connection is found or made; it is kept under the node's id.\<close>

definition getOrCreateConnection ::
  "client_env \<Rightarrow> string \<Rightarrow> GRPCClient \<times> mpc_state \<Rightarrow> (GRPCClient \<times> mpc_state, string) res" where
  "getOrCreateConnection env nodeID cs =
     (let (c, s) = cs
      in case map_of (gc_clients c) nodeID of
           Some endpoint \<Rightarrow> (Inr endpoint, c, s)
         | None \<Rightarrow>
             (case on_net (lookup_node env nodeID) s of
                (Inl e, s) \<Rightarrow> (Inl e, c, s)
              | (Inr n, s) \<Rightarrow>
                  (case dial_options env (gc_cfg c) of
                     Inl e \<Rightarrow> (Inl e, c, s)
                   | Inr opts \<Rightarrow>
                       (case ce_dial env opts (ni_Endpoint n) of
                          Inl e \<Rightarrow> (Inl (wrap_err (''failed to connect to node '' @ nodeID @ '' at '' @ ni_Endpoint n) e), c, s)
                        | Inr _ \<Rightarrow> (Inr (ni_Endpoint n),
                             c\<lparr>gc_clients := AList.update nodeID (ni_Endpoint n) (gc_clients c)\<rparr>, s)))))"

text \<open>The calls that start a key generation or a signing; \<open>rpc\<close> is the remote call.\<close>

definition send_start ::
  "client_env \<Rightarrow> (string \<Rightarrow> 'q \<Rightarrow> mpc_state \<Rightarrow> (mpc_state, 'r) res) \<Rightarrow> string \<Rightarrow> 'q \<Rightarrow> GRPCClient \<times> mpc_state
     \<Rightarrow> (GRPCClient \<times> mpc_state, 'r) res" where
  "send_start env rpc nodeID req cs =
     or_wrap (getOrCreateConnection env nodeID cs) (''failed to get connection to node '' @ nodeID)
       (\<lambda>endpoint (c, s). let (resp, s) = rpc endpoint req s in (resp, c, s))"

definition SendStartDKG ::
  "client_env \<Rightarrow> (string \<Rightarrow> StartDKGRequest \<Rightarrow> mpc_state \<Rightarrow> (mpc_state, StartResponse) res) \<Rightarrow> string \<Rightarrow> StartDKGRequest
     \<Rightarrow> GRPCClient \<times> mpc_state \<Rightarrow> (GRPCClient \<times> mpc_state, StartResponse) res" where
  "SendStartDKG = send_start"

definition SendStartSign ::
  "client_env \<Rightarrow> (string \<Rightarrow> StartSignRequest \<Rightarrow> mpc_state \<Rightarrow> (mpc_state, StartResponse) res) \<Rightarrow> string \<Rightarrow> StartSignRequest
     \<Rightarrow> GRPCClient \<times> mpc_state \<Rightarrow> (GRPCClient \<times> mpc_state, StartResponse) res" where
  "SendStartSign = send_start"

text \<open>\<open>wire\<close> is the answer of \<open>msg.WireBytes()\<close>, \<open>targets\<close> the length of \<open>msg.GetTo()\<close>.\<close>

definition SendSigningMessage ::
  "client_env \<Rightarrow> string \<Rightarrow> (err + byte list) \<Rightarrow> string \<Rightarrow> GRPCClient \<times> mpc_state \<Rightarrow> (GRPCClient \<times> mpc_state, unit) res" where
  "SendSigningMessage env nodeID wire sessionID cs =
     (if nodeID = gc_thisNodeID (fst cs) then (Inr (), cs)
      else or_wrap (getOrCreateConnection env nodeID cs) (''failed to get connection to node '' @ nodeID)
        (\<lambda>endpoint (c, s). case wire of
            Inl e \<Rightarrow> (Inl (wrap_err ''failed to serialize tss message'' e), c, s)
          | Inr msgBytes \<Rightarrow>
              (case ce_call env endpoint \<lparr>rq_SessionId = sessionID, rq_NodeId = gc_thisNodeID c,
                      rq_ShareData = msgBytes, rq_Round = 0\<rparr> s of
                 (Inl e, s) \<Rightarrow> (Inl (wrap_err (''failed to send signing message to node '' @ nodeID) e), c, s)
               | (Inr _, s) \<Rightarrow> (Inr (), c, s))))"

definition keygen_round :: "nat \<Rightarrow> bool \<Rightarrow> int" where
  "keygen_round targets isBroadcast = (if targets = 0 \<or> isBroadcast then -1 else 0)"

definition SendKeygenMessage ::
  "client_env \<Rightarrow> string \<Rightarrow> (err + byte list) \<Rightarrow> nat \<Rightarrow> string \<Rightarrow> bool \<Rightarrow> GRPCClient \<times> mpc_state
     \<Rightarrow> (GRPCClient \<times> mpc_state, unit) res" where
  "SendKeygenMessage env nodeID wire targets sessionID isBroadcast cs =
     (if nodeID = gc_thisNodeID (fst cs) then (Inr (), cs)
      else or_wrap (getOrCreateConnection env nodeID cs) (''failed to get connection to node '' @ nodeID)
        (\<lambda>endpoint (c, s). case wire of
            Inl e \<Rightarrow> (Inl (wrap_err ''failed to serialize tss message'' e), c, s)
          | Inr msgBytes \<Rightarrow>
              (case ce_call env endpoint \<lparr>rq_SessionId = sessionID, rq_NodeId = gc_thisNodeID c,
                      rq_ShareData = msgBytes, rq_Round = keygen_round targets isBroadcast\<rparr> s of
                 (Inl e, s) \<Rightarrow> (Inl (wrap_err (''failed to send keygen message to node '' @ nodeID
                                  @ '' (sessionID: '' @ sessionID @ '')'') e), c, s)
               | (Inr resp, s) \<Rightarrow>
                   if rp_Accepted resp then (Inr (), c, s)
                   else (Inl (Err (''node '' @ nodeID @ '' rejected keygen message: '' @ rp_Text resp)), c, s))))"

text \<open>The sender of the start notice is given as the target node.\<close>

definition SendDKGStartNotification ::
  "client_env \<Rightarrow> string \<Rightarrow> string \<Rightarrow> GRPCClient \<times> mpc_state \<Rightarrow> (GRPCClient \<times> mpc_state, unit) res" where
  "SendDKGStartNotification env nodeID sessionID cs =
     or_wrap (getOrCreateConnection env nodeID cs) (''failed to get connection to node '' @ nodeID)
       (\<lambda>endpoint (c, s).
          case ce_call env endpoint \<lparr>rq_SessionId = sessionID, rq_NodeId = nodeID,
                 rq_ShareData = bytes_of ''DKG_START'', rq_Round = 0\<rparr> s of
            (Inl e, s) \<Rightarrow> (Inl (wrap_err (''failed to send DKG start notification to node '' @ nodeID
                             @ '' (sessionID: '' @ sessionID @ '')'') e), c, s)
          | (Inr _, s) \<Rightarrow> (Inr (), c, s))"

text \<open>\<open>conn.Close()\<close> is the parameter \<open>close\<close>; its error leaves the entry in place.\<close>

definition CloseConnection ::
  "(string \<Rightarrow> err + unit) \<Rightarrow> string \<Rightarrow> GRPCClient \<Rightarrow> (GRPCClient, unit) res" where
  "CloseConnection close nodeID c =
     (case map_of (gc_clients c) nodeID of
        None \<Rightarrow> (Inr (), c)
      | Some endpoint \<Rightarrow> (case close nodeID of
            Inl e \<Rightarrow> (Inl (wrap_err (''failed to close connection to node '' @ nodeID) e), c)
          | Inr _ \<Rightarrow> (Inr (), c\<lparr>gc_clients := AList.delete nodeID (gc_clients c)\<rparr>)))"

text \<open>\<open>Close\<close> forgets every connection, also those whose closing failed.\<close>

definition close_errors :: "(string \<Rightarrow> err + unit) \<Rightarrow> (string \<times> string) list \<Rightarrow> err list" where
  "close_errors close cs =
     concat (map (\<lambda>(nodeID, _). case close nodeID of
        Inl e \<Rightarrow> [wrap_err (''failed to close connection to node '' @ nodeID) e] | Inr _ \<Rightarrow> []) cs)"

definition client_Close :: "(err list \<Rightarrow> string) \<Rightarrow> (string \<Rightarrow> err + unit) \<Rightarrow> GRPCClient \<Rightarrow> (GRPCClient, unit) res" where
  "client_Close print close c =
     (let errs = close_errors close (gc_clients c); c = c\<lparr>gc_clients := []\<rparr>
      in if errs \<noteq> [] then (Inl (Err (''errors closing connections: '' @ print errs)), c) else (Inr (), c))"

text \<open>
  The message router of the engines: a session id that starts with \<open>key-\<close> is a key
  generation; the first four bytes are taken of any id that is not empty.
\<close>

definition messageRouter ::
  "client_env \<Rightarrow> string \<Rightarrow> string \<Rightarrow> (err + byte list) \<Rightarrow> nat \<Rightarrow> bool \<Rightarrow> GRPCClient \<times> mpc_state
     \<Rightarrow> (GRPCClient \<times> mpc_state, unit) res" where
  "messageRouter env sessionID nodeID wire targets isBroadcast cs =
     (if sessionID = [] then SendSigningMessage env nodeID wire sessionID cs
      else if length sessionID < 4 then (Inl (Panic ''runtime error: slice bounds out of range''), cs)
      else if take 4 sessionID = ''key-'' then SendKeygenMessage env nodeID wire targets sessionID isBroadcast cs
      else SendSigningMessage env nodeID wire sessionID cs)"

section \<open>Server: state and goroutines (server.go)\<close>

record ServerConfig =
  sg_Port :: int
  sg_TLSEnabled :: bool
  sg_TLSCertFile :: string
  sg_TLSKeyFile :: string
  sg_TLSCACertFile :: string
  sg_MaxConnAge :: int
  sg_KeepAlive :: int

text \<open>The options of a server; times are nanoseconds.\<close>

datatype ServerOption =
    Creds string string
  | KeepaliveParams int int int int  \<comment> \<open>connection age, its grace, time, timeout\<close>
  | KeepaliveEnforcement int bool
  | MaxRecvMsgSize int
  | MaxSendMsgSize int

text \<open>\<open>load\<close> is \<open>credentials.NewServerTLSFromFile\<close>.\<close>

definition GetServerOptions :: "(string \<Rightarrow> string \<Rightarrow> err + unit) \<Rightarrow> ServerConfig \<Rightarrow> err + ServerOption list" where
  "GetServerOptions load cfg =
     (let rest = [KeepaliveParams (sg_MaxConnAge cfg) 30000000000 (sg_KeepAlive cfg) 20000000000,
                  KeepaliveEnforcement 10000000000 True, MaxRecvMsgSize (10 * 1024 * 1024), MaxSendMsgSize (10 * 1024 * 1024)]
      in if sg_TLSEnabled cfg
         then pure_wrap (load (sg_TLSCertFile cfg) (sg_TLSKeyFile cfg)) ''failed to load TLS credentials''
                (\<lambda>_. Inr (Creds (sg_TLSCertFile cfg) (sg_TLSKeyFile cfg) # rest))
         else Inr rest)"

record GRPCServer =
  gs_engine :: engine
  gs_registry :: "ProtocolRegistry option"
  gs_store :: "FileSystemKeyShareStorage option"
  gs_gcm :: gcm_lib
  gs_nodeID :: string

text \<open>A started goroutine: the request of the call, or the session of the message, that started it.\<close>

datatype task = DKGTask string StartDKGRequest | AutoDKGTask string Session | SignTask string StartSignRequest

record node_state =
  nd_dkgStartOnce :: "string list"
  nd_signStartOnce :: "string list"
  nd_tasks :: "task list"
  nd_mpc :: mpc_state

definition on_mpc :: "(mpc_state \<Rightarrow> (mpc_state, 'a) res) \<Rightarrow> node_state \<Rightarrow> (node_state, 'a) res" where
  "on_mpc f n = (let (r, s) = f (nd_mpc n) in (r, n\<lparr>nd_mpc := s\<rparr>))"

text \<open>\<open>LoadOrStore\<close> and \<open>once.Do\<close> with a body that starts one goroutine.\<close>

definition start_dkg_once :: "string \<Rightarrow> task \<Rightarrow> node_state \<Rightarrow> bool \<times> node_state" where
  "start_dkg_once sid t n =
     (if sid \<in> set (nd_dkgStartOnce n) then (False, n)
      else (True, n\<lparr>nd_dkgStartOnce := sid # nd_dkgStartOnce n, nd_tasks := nd_tasks n @ [t]\<rparr>))"

definition start_sign_once :: "string \<Rightarrow> task \<Rightarrow> node_state \<Rightarrow> bool \<times> node_state" where
  "start_sign_once sid t n =
     (if sid \<in> set (nd_signStartOnce n) then (False, n)
      else (True, n\<lparr>nd_signStartOnce := sid # nd_signStartOnce n, nd_tasks := nd_tasks n @ [t]\<rparr>))"

definition inferProtocolForDKG :: "string \<Rightarrow> string \<Rightarrow> string" where
  "inferProtocolForDKG algorithm curve =
     (let a = ToLower algorithm; c = ToLower curve
      in if (a = ''eddsa'' \<or> a = ''schnorr'') \<and> (c = ''ed25519'' \<or> c = ''secp256k1'') then ''frost''
         else if a = ''ecdsa'' \<and> (c = ''secp256k1'' \<or> c = ''secp256r1'') then ''gg20''
         else ''gg20'')"

text \<open>The engine of a protocol: the registry's when there is one and it has it.\<close>

definition engine_or_default :: "GRPCServer \<Rightarrow> string \<Rightarrow> engine" where
  "engine_or_default srv name =
     (case gs_registry srv of
        None \<Rightarrow> gs_engine srv
      | Some r \<Rightarrow> (case reg_Get r name of Inl _ \<Rightarrow> gs_engine srv | Inr e \<Rightarrow> e))"

definition start_dkg_engine :: "GRPCServer \<Rightarrow> StartDKGRequest \<Rightarrow> engine" where
  "start_dkg_engine srv req = engine_or_default srv (inferProtocolForDKG (sd_Algorithm req) (sd_Curve req))"

definition session_engine :: "GRPCServer \<Rightarrow> string \<Rightarrow> engine" where
  "session_engine srv protocol = (if protocol = [] then gs_engine srv else engine_or_default srv protocol)"

text \<open>Shares of a result are stored one by one; an error is logged.\<close>

fun store_all ::
  "GRPCServer \<Rightarrow> string \<Rightarrow> (string \<times> KeyShare option) list \<Rightarrow> mpc_state \<Rightarrow> (mpc_state, unit) res" where
  "store_all srv keyID [] s = (Inr (), s)"
| "store_all srv keyID ((n, share) # rest) s =
     (case (gs_store srv, share) of
        (None, _) \<Rightarrow> (Inr (), s)
      | (Some st, None) \<Rightarrow> (Inl nil_deref, s)
      | (Some st, Some sh) \<Rightarrow>
          store_all srv keyID rest
            (snd (on_disk (\<lambda>d. StoreKeyShare (gs_gcm srv) st d keyID n (sh_Share sh)) s)))"

text \<open>What both key generation goroutines do with their result; errors are logged.\<close>

definition finish_dkg ::
  "GRPCServer \<Rightarrow> string \<Rightarrow> (err + KeyGenResponse) \<Rightarrow> mpc_state \<Rightarrow> (mpc_state, unit) res" where
  "finish_dkg srv keyID res s =
     (case res of
        Inl (Panic p) \<Rightarrow> (Inl (Panic p), s)
      | Inl _ \<Rightarrow> (Inr (), s)
      | Inr resp \<Rightarrow>
          (case kr_PublicKey resp of
             None \<Rightarrow> (Inr (), s)
           | Some pk \<Rightarrow>
               if pk_Hex pk = [] then (Inr (), s)
               else or_return (store_all srv keyID (kr_KeyShares resp) s)
                 (\<lambda>_ s. (Inr (), snd (on_net (\<lambda>w. sm_CompleteKeygenSession w keyID (pk_Hex pk)) s)))))"

definition dkg_request :: "StartDKGRequest \<Rightarrow> KeyGenRequest" where
  "dkg_request req =
     \<lparr>kg_KeyID = sd_KeyId req, kg_Algorithm = sd_Algorithm req, kg_Curve = sd_Curve req,
      kg_Threshold = sd_Threshold req, kg_TotalNodes = sd_TotalNodes req, kg_NodeIDs = sd_NodeIds req\<rparr>"

text \<open>The request made from a session: the protocol's name decides algorithm and curve.\<close>

definition auto_dkg_request :: "Session \<Rightarrow> KeyGenRequest" where
  "auto_dkg_request sess =
     (let frost = ToLower (se_Protocol sess) = ''frost''
      in \<lparr>kg_KeyID = se_KeyID sess, kg_Algorithm = (if frost then ''EdDSA'' else ''ECDSA''),
          kg_Curve = (if frost then ''ed25519'' else ''secp256k1''), kg_Threshold = se_Threshold sess,
          kg_TotalNodes = se_TotalNodes sess, kg_NodeIDs = se_ParticipatingNodes sess\<rparr>)"

definition dkg_task :: "GRPCServer \<Rightarrow> StartDKGRequest \<Rightarrow> mpc_state \<Rightarrow> (mpc_state, unit) res" where
  "dkg_task srv req s =
     (let (r, s) = en_generate (start_dkg_engine srv req) (dkg_request req) s
      in finish_dkg srv (sd_KeyId req) r s)"

definition auto_dkg_task :: "GRPCServer \<Rightarrow> Session \<Rightarrow> mpc_state \<Rightarrow> (mpc_state, unit) res" where
  "auto_dkg_task srv sess s =
     (let (r, s) = en_generate (session_engine srv (ToLower (se_Protocol sess))) (auto_dkg_request sess) s
      in finish_dkg srv (se_KeyID sess) r s)"

text \<open>The signing goroutine: an error marks the session failed, a signature completes it.\<close>

definition sign_task :: "GRPCServer \<Rightarrow> string \<Rightarrow> StartSignRequest \<Rightarrow> mpc_state \<Rightarrow> (mpc_state, unit) res" where
  "sign_task srv sessionID req s =
     (case (if st_Message req = [] \<and> st_MessageHex req \<noteq> [] then hex_DecodeString (st_MessageHex req)
            else Inr (st_Message req)) of
        Inl _ \<Rightarrow> (Inr (), s)
      | Inr msg \<Rightarrow>
          (case en_sign (session_engine srv (st_Protocol req)) sessionID
                  \<lparr>pq_KeyID = st_KeyId req, pq_Message = msg, pq_MessageHex = st_MessageHex req,
                   pq_NodeIDs = st_NodeIds req\<rparr> s of
             (Inl (Panic p), s) \<Rightarrow> (Inl (Panic p), s)
           | (Inl _, s) \<Rightarrow>
               (case on_net (\<lambda>w. sm_GetSession w sessionID) s of
                  (Inl _, s) \<Rightarrow> (Inr (), s)
                | (Inr sess, s) \<Rightarrow> (Inr (), mark_failed sess s))
           | (Inr resp, s) \<Rightarrow>
               (case pr_Signature resp of
                  None \<Rightarrow> (Inr (), s)
                | Some sig \<Rightarrow>
                    if sg_Hex sig = [] then (Inr (), s)
                    else (Inr (), snd (on_net (\<lambda>w. sm_CompleteSession w sessionID (sg_Hex sig)) s)))))"

fun run_task :: "GRPCServer \<Rightarrow> task \<Rightarrow> mpc_state \<Rightarrow> (mpc_state, unit) res" where
  "run_task srv (DKGTask sid req) s = dkg_task srv req s"
| "run_task srv (AutoDKGTask sid sess) s = auto_dkg_task srv sess s"
| "run_task srv (SignTask sid req) s = sign_task srv sid req s"

section \<open>Server: calls\<close>

definition started :: "string \<Rightarrow> StartResponse" where
  "started text = \<lparr>sp_Started = True, sp_Message = text\<rparr>"

definition StartDKG :: "StartDKGRequest \<Rightarrow> node_state \<Rightarrow> StartResponse \<times> node_state" where
  "StartDKG req n =
     (let sid = (if sd_SessionId req = [] then sd_KeyId req else sd_SessionId req);
          (first, n) = start_dkg_once sid (DKGTask sid req) n
      in (if first then started ''DKG started in background'' else started ''DKG already started'', n))"

definition StartSign :: "StartSignRequest \<Rightarrow> node_state \<Rightarrow> StartResponse \<times> node_state" where
  "StartSign req n =
     (let sid = (if st_SessionId req = [] then st_KeyId req else st_SessionId req);
          have_n = int (length (st_NodeIds req))
      in if st_Threshold req > 0 \<and> have_n < st_Threshold req
         then (\<lparr>sp_Started = False, sp_Message = ''insufficient node_ids: need >= '' @ itoa (st_Threshold req)
                  @ '', got '' @ itoa have_n\<rparr>, n)
         else if st_TotalNodes req > 0 \<and> have_n > st_TotalNodes req
         then (\<lparr>sp_Started = False, sp_Message = ''too many node_ids: total_nodes='' @ itoa (st_TotalNodes req)
                  @ '', got='' @ itoa have_n\<rparr>, n)
         else let (first, n) = start_sign_once sid (SignTask sid req) n
              in (if first then started ''Signing started in background'' else started ''Signing already started'', n))"

definition isKeygenSession :: "string \<Rightarrow> Session \<Rightarrow> bool" where
  "isKeygenSession sessionID sess \<longleftrightarrow> sessionID = se_KeyID sess \<or> HasPrefix (ToLower sessionID) ''key-''"

text \<open>A control text of a key generation message, before any protocol message is handled.\<close>

datatype control = StartNotice | Complete string | NoControl

definition control_of :: "byte list \<Rightarrow> control" where
  "control_of shareData =
     (let data = string_of_bytes shareData
      in if shareData = [] then NoControl
         else if data = ''DKG_START'' then StartNotice
         else if HasPrefix data ''DKG_COMPLETE:'' then Complete (TrimPrefix data ''DKG_COMPLETE:'')
         else NoControl)"

definition lookup_text :: "string \<Rightarrow> string \<Rightarrow> string \<Rightarrow> string" where
  "lookup_text sessionID from this =
     ''failed to get session '' @ sessionID @ '' for protocol message from node '' @ from @ '' (this node: '' @ this
     @ ''). Possible causes: 1) session was not created by coordinator, 2) session was created but not yet visible ''
     @ ''due to database replication lag, 3) session expired or was deleted''"

text \<open>A key generation session with nodes and a threshold starts this node's key generation.\<close>

definition auto_start :: "string \<Rightarrow> Session \<Rightarrow> node_state \<Rightarrow> node_state" where
  "auto_start sessionID sess n =
     (if se_ParticipatingNodes sess \<noteq> [] \<and> se_Threshold sess > 0 \<and> se_TotalNodes sess > 0
      then snd (start_dkg_once sessionID (AutoDKGTask sessionID sess) n) else n)"

definition handleProtocolMessage ::
  "GRPCServer \<Rightarrow> string \<Rightarrow> string \<Rightarrow> ShareMessage \<Rightarrow> node_state \<Rightarrow> (node_state, unit) res" where
  "handleProtocolMessage srv sessionID from shareMsg n =
     or_wrap (on_mpc (on_net (\<lambda>w. sm_GetSession w sessionID)) n) (lookup_text sessionID from (gs_nodeID srv))
       (\<lambda>sess n.
          let isBroadcast = (sm_Round shareMsg = -1); data = sm_ShareData shareMsg
          in if isKeygenSession sessionID sess then
               (case control_of data of
                  StartNotice \<Rightarrow> (Inr (), n)
                | Complete pubKey \<Rightarrow>
                    or_wrap (on_mpc (on_net (\<lambda>w. sm_CompleteKeygenSession w sessionID pubKey)) n)
                      ''failed to complete keygen session'' (\<lambda>_ n. (Inr (), n))
                | NoControl \<Rightarrow>
                    or_wrap (on_mpc (en_process_keygen (session_engine srv (ToLower (se_Protocol sess)))
                               sessionID from data isBroadcast) (auto_start sessionID sess n))
                      ''failed to process keygen message'' (\<lambda>_ n. (Inr (), n)))
             else or_wrap (on_mpc (en_process_signing (session_engine srv (se_Protocol sess))
                             sessionID from data isBroadcast) n)
                    ''failed to process signing message'' (\<lambda>_ n. (Inr (), n)))"

text \<open>An error becomes the text of a refusal; a panic ends the process.\<close>

definition SubmitSignatureShare :: "GRPCServer \<Rightarrow> ShareRequest \<Rightarrow> node_state \<Rightarrow> (node_state, ShareResponse) res" where
  "SubmitSignatureShare srv req n =
     (case handleProtocolMessage srv (rq_SessionId req) (rq_NodeId req)
             \<lparr>sm_ShareData = rq_ShareData req, sm_Round = rq_Round req\<rparr> n of
        (Inl (Panic p), n) \<Rightarrow> (Inl (Panic p), n)
      | (Inl e, n) \<Rightarrow> (Inr \<lparr>rp_Accepted = False, rp_Text = err_text e, rp_NextRound = rq_Round req\<rparr>, n)
      | (Inr _, n) \<Rightarrow> (Inr \<lparr>rp_Accepted = True, rp_Text = ''share accepted'',
                            rp_NextRound = int32 (rq_Round req + 1)\<rparr>, n))"

definition Heartbeat :: "GRPCServer \<Rightarrow> bool \<times> string" where
  "Heartbeat srv = (True, gs_nodeID srv)"

section \<open>Server: the session stream\<close>

text \<open>Messages of a stream; the kinds the server does not look at are \<open>Other\<close>.\<close>

datatype stream_in = JoinRequest string string | Share ShareMessage | HeartbeatRequest string | Other

record Confirmation =
  cf_SessionId :: string
  cf_Status :: string
  cf_Threshold :: int
  cf_TotalNodes :: int
  cf_Participants :: "string list"
  cf_CurrentRound :: int

datatype stream_out = Confirm Confirmation | ProtocolError string | HeartbeatEcho string

text \<open>
  The loop over the messages that follow; \<open>send\<close> is the stream's \<open>Send\<close>: what it
  answers to the \<open>i\<close>-th message sent. The end of the stream ends the loop without an error.
\<close>

fun stream_loop ::
  "GRPCServer \<Rightarrow> (nat \<Rightarrow> err + unit) \<Rightarrow> string \<Rightarrow> string \<Rightarrow> stream_in list \<Rightarrow> stream_out list \<Rightarrow> node_state
     \<Rightarrow> (err + unit) \<times> stream_out list \<times> node_state" where
  "stream_loop srv send sid from [] out n = (Inr (), out, n)"
| "stream_loop srv send sid from (Share msg # rest) out n =
     (case handleProtocolMessage srv sid from msg n of
        (Inr _, n) \<Rightarrow> stream_loop srv send sid from rest out n
      | (Inl (Panic p), n) \<Rightarrow> (Inl (Panic p), out, n)
      | (Inl e, n) \<Rightarrow> (case send (length out) of
            Inl se \<Rightarrow> (Inl (wrap_err ''failed to send error message'' se), out, n)
          | Inr _ \<Rightarrow> stream_loop srv send sid from rest (out @ [ProtocolError (err_text e)]) n))"
| "stream_loop srv send sid from (HeartbeatRequest h # rest) out n =
     (case send (length out) of
        Inl se \<Rightarrow> (Inl (wrap_err ''failed to send heartbeat response'' se), out, n)
      | Inr _ \<Rightarrow> stream_loop srv send sid from rest (out @ [HeartbeatEcho h]) n)"
| "stream_loop srv send sid from (JoinRequest a b # rest) out n = stream_loop srv send sid from rest out n"
| "stream_loop srv send sid from (Other # rest) out n = stream_loop srv send sid from rest out n"

definition JoinSigningSession ::
  "GRPCServer \<Rightarrow> (nat \<Rightarrow> err + unit) \<Rightarrow> (err + stream_in) \<Rightarrow> stream_in list \<Rightarrow> node_state
     \<Rightarrow> (err + unit) \<times> stream_out list \<times> node_state" where
  "JoinSigningSession srv send first rest n =
     (case first of
        Inl e \<Rightarrow> (Inl (wrap_err ''failed to receive join request'' e), [], n)
      | Inr (JoinRequest sid from) \<Rightarrow>
          (case on_mpc (on_net (\<lambda>w. sm_GetSession w sid)) n of
             (Inl e, n) \<Rightarrow> (Inl (wrap_err ''session not found'' e), [], n)
           | (Inr sess, n) \<Rightarrow>
               (case send 0 of
                  Inl e \<Rightarrow> (Inl (wrap_err ''failed to send confirmation'' e), [], n)
                | Inr _ \<Rightarrow> stream_loop srv send sid from rest
                    [Confirm \<lparr>cf_SessionId = sid, cf_Status = se_Status sess, cf_Threshold = int32 (se_Threshold sess),
                              cf_TotalNodes = int32 (se_TotalNodes sess),
                              cf_Participants = se_ParticipatingNodes sess,
                              cf_CurrentRound = int32 (se_CurrentRound sess)\<rparr>] n))
      | Inr _ \<Rightarrow> (Inl (Err ''first message must be a join request''), [], n))"

end
