(* ===== verification/DkgProps.thy ===== *)
theory DkgProps
  imports SigningProps Grpc
begin

text \<open>
  Distributed key generation across components: the session the coordinator
  creates and the notice to its leader, what the engines accept, when the server
  starts a key generation, and what its goroutines leave behind.
\<close>

section \<open>The coordinator\<close>

lemma create_dkg_InrE:
  assumes "CreateDKGSession co s req = (Inr (d, notice), s')"
  obtains s1 w2 nodes session where "dkg_nodes co s req = (Inr nodes, s1)"
    and "sm_CreateKeyGenSession (co_timeout co) (net s1) (cd_KeyID req)
           (if cd_Protocol req = [] then co_default co else cd_Protocol req)
           (cd_Threshold req) (cd_TotalNodes req) nodes = (Inr session, w2)"
    and "s' = s1\<lparr>net := w2\<rparr>" and "NotifyParticipantsForDKG req nodes = Inr notice" and "d = dkg_session_of session"
proof -
  from assms obtain nodes s1 session s2 where
    n: "dkg_nodes co s req = (Inr nodes, s1)" and
    k: "on_net (\<lambda>w. sm_CreateKeyGenSession (co_timeout co) w (cd_KeyID req)
           (if cd_Protocol req = [] then co_default co else cd_Protocol req)
           (cd_Threshold req) (cd_TotalNodes req) nodes) s1 = (Inr session, s2)" and
    r: "(case NotifyParticipantsForDKG req nodes of
           Inl e \<Rightarrow> (Inl (wrap_err ''failed to notify participants'' e),
                      snd (on_net (\<lambda>w. sm_CancelSession w (se_SessionID session)) s2))
         | Inr notice \<Rightarrow> (Inr (dkg_session_of session, notice), s2)) = (Inr (d, notice), s')"
    unfolding CreateDKGSession_def Let_def by (elim or_return_InrE or_wrap_InrE)
  from r have "NotifyParticipantsForDKG req nodes = Inr notice" "d = dkg_session_of session" "s2 = s'"
    by (auto split: sum.splits)
  moreover from k obtain w2 where "sm_CreateKeyGenSession (co_timeout co) (net s1) (cd_KeyID req)
           (if cd_Protocol req = [] then co_default co else cd_Protocol req)
           (cd_Threshold req) (cd_TotalNodes req) nodes = (Inr session, w2)" "s2 = s1\<lparr>net := w2\<rparr>"
    by (auto simp: on_net_def Let_def split: prod.splits)
  ultimately show ?thesis using n that by blast
qed

lemma notify_Inr:
  "NotifyParticipantsForDKG req nodes = Inr (leader, rq) \<longleftrightarrow>
     nodes \<noteq> [] \<and> leader = hd nodes \<and>
     rq = \<lparr>sd_SessionId = cd_KeyID req, sd_KeyId = cd_KeyID req, sd_Algorithm = cd_Algorithm req,
           sd_Curve = cd_Curve req, sd_Threshold = int32 (cd_Threshold req),
           sd_TotalNodes = int32 (cd_TotalNodes req), sd_NodeIds = nodes\<rparr>"
  by (cases nodes) (auto simp: NotifyParticipantsForDKG_def)

lemma dkg_nodes_Inr:
  assumes "dkg_nodes co s req = (Inr nodes, s1)"
  shows "if cd_NodeIDs req \<noteq> [] then nodes = cd_NodeIDs req
         else sorted nodes \<and> cd_TotalNodes req \<le> int (length nodes)"
  using assms by (auto simp: dkg_nodes_def elim!: or_wrap_InrE split: if_splits)

text \<open>
  A DKG session that the coordinator creates carries the key's id, is pending
  and is in the database; the notice goes to the first of its nodes and names the
  same nodes. Nodes found by discovery are sorted, so that the leader is the least of
  them, and there are at least as many as the request asks for; nodes given in the
  request are taken as they are.
\<close>

theorem create_dkg_session_result:
  assumes "CreateDKGSession co s req = (Inr (d, leader, rq), s')"
  shows "dk_SessionID d = cd_KeyID req \<and> dk_KeyID d = cd_KeyID req \<and> dk_Status d = SessionStatusPending
    \<and> get_sess (net s') (cd_KeyID req) \<noteq> None
    \<and> dk_ParticipatingNodes d \<noteq> [] \<and> leader = hd (dk_ParticipatingNodes d)
    \<and> sd_NodeIds rq = dk_ParticipatingNodes d \<and> sd_SessionId rq = cd_KeyID req
    \<and> (if cd_NodeIDs req \<noteq> [] then dk_ParticipatingNodes d = cd_NodeIDs req
       else cd_TotalNodes req \<le> int (length (dk_ParticipatingNodes d))
          \<and> (\<forall>n \<in> set (dk_ParticipatingNodes d). leader \<le> n))"
  using assms
proof (rule create_dkg_InrE)
  fix s1 w2 nodes session
  assume n: "dkg_nodes co s req = (Inr nodes, s1)"
    and k: "sm_CreateKeyGenSession (co_timeout co) (net s1) (cd_KeyID req)
           (if cd_Protocol req = [] then co_default co else cd_Protocol req)
           (cd_Threshold req) (cd_TotalNodes req) nodes = (Inr session, w2)"
    and s': "s' = s1\<lparr>net := w2\<rparr>" and nt: "NotifyParticipantsForDKG req nodes = Inr (leader, rq)"
    and d: "d = dkg_session_of session"
  from keygen_session_facts [OF k] have
    "se_SessionID session = cd_KeyID req" "se_KeyID session = cd_KeyID req"
    "se_Status session = SessionStatusPending" "se_ParticipatingNodes session = nodes"
    "get_sess w2 (cd_KeyID req) \<noteq> None"
    by simp_all
  moreover from dkg_nodes_Inr [OF n] have "cd_NodeIDs req = [] \<Longrightarrow> nodes \<noteq> [] \<Longrightarrow> m \<in> set nodes \<Longrightarrow> hd nodes \<le> m" for m
    by (cases nodes) auto
  ultimately show ?thesis
    using dkg_nodes_Inr [OF n] nt [unfolded notify_Inr] s' d by (auto simp: dkg_session_of_def)
qed

text \<open>A coordinator that knows three nodes from Consul, and the node \<open>n1\<close> with small stand-ins for the libraries.\<close>

definition toy_service_info :: "string \<Rightarrow> ServiceInfo" where
  "toy_service_info n = ds_registration n NodeTypeParticipant ''h'' 9090"

definition toy_coordinator :: coordinator where
  "toy_coordinator = \<lparr>co_default = ''gg20'', co_timeout = minutes 5, co_ord = (\<lambda>ns. ns),
     co_consul = Some (Inr (map toy_service_info [''n1'', ''n2'', ''n3''])),
     co_StartDKG = (\<lambda>_ _ s. (Inr \<lparr>sp_Started = True, sp_Message = []\<rparr>, s))\<rparr>"

definition toy_dkg_request :: "string list \<Rightarrow> CreateDKGSessionRequest" where
  "toy_dkg_request ns = \<lparr>cd_KeyID = ''key-1'', cd_Algorithm = ''ECDSA'', cd_Curve = ''secp256k1'', cd_Protocol = [],
     cd_Threshold = 2, cd_TotalNodes = 3, cd_NodeIDs = ns\<rparr>"

definition toy_nodes_state :: mpc_state where
  "toy_nodes_state = toy_state\<lparr>net := sample_world\<lparr>nodes_t := [sample_node ''n9'']\<rparr>\<rparr>"

definition toy_dkg_session :: "string list \<Rightarrow> DKGSession" where
  "toy_dkg_session ns = \<lparr>dk_SessionID = ''key-1'', dk_KeyID = ''key-1'', dk_Protocol = ''gg20'',
     dk_Status = ''pending'', dk_Threshold = 2, dk_TotalNodes = 3, dk_ParticipatingNodes = ns,
     dk_CurrentRound = 0, dk_TotalRounds = 4, dk_PublicKey = [], dk_CreatedAt = 0, dk_CompletedAt = None,
     dk_DurationMs = 0, dk_ExpiresAt = minutes 5\<rparr>"

definition toy_notice :: "string list \<Rightarrow> StartDKGRequest" where
  "toy_notice ns = \<lparr>sd_SessionId = ''key-1'', sd_KeyId = ''key-1'', sd_Algorithm = ''ECDSA'', sd_Curve = ''secp256k1'',
     sd_Threshold = 2, sd_TotalNodes = 3, sd_NodeIds = ns\<rparr>"

lemma toy_dkg_extra:
  "fst (CreateDKGSession toy_coordinator toy_nodes_state (toy_dkg_request [''n1'', ''n2'', ''n3'', ''n9'']))
     = Inr (toy_dkg_session [''n1'', ''n2'', ''n3'', ''n9''], ''n1'', toy_notice [''n1'', ''n2'', ''n3'', ''n9''])"
  by code_simp

lemma toy_dkg_given:
  "fst (CreateDKGSession toy_coordinator toy_nodes_state (toy_dkg_request [''n2'', ''n1'', ''n3'']))
     = Inr (toy_dkg_session [''n2'', ''n1'', ''n3''], ''n2'', toy_notice [''n2'', ''n1'', ''n3''])"
  by code_simp

lemma create_dkg_session_result_witness:
  "get_sess (net (snd (CreateDKGSession toy_coordinator toy_nodes_state (toy_dkg_request [''n2'', ''n1'', ''n3'']))))
     ''key-1'' \<noteq> None"
proof -
  obtain s' where "CreateDKGSession toy_coordinator toy_nodes_state (toy_dkg_request [''n2'', ''n1'', ''n3''])
     = (Inr (toy_dkg_session [''n2'', ''n1'', ''n3''], ''n2'', toy_notice [''n2'', ''n1'', ''n3'']), s')"
    using toy_dkg_given by (metis prod.collapse)
  with create_dkg_session_result [OF this] show ?thesis by (simp add: toy_dkg_request_def)
qed

section \<open>What the engines accept\<close>

text \<open>
  The coordinator does not compare the number of a DKG session's nodes with the
  total the request asks for (nodes of the request are taken as they are, and
  discovery is only checked from below). A session with another number of nodes is
  created and announced, but no engine runs it: the check of the node count refuses
  the leader's request before anything is sent, in GG18, GG20 and FROST.
\<close>

theorem dkg_session_of_wrong_size_cannot_run:
  assumes "CreateDKGSession co s req = (Inr (d, leader, rq), s')"
    and "int (length (dk_ParticipatingNodes d)) \<noteq> cd_TotalNodes req"
    and "- (2 ^ 31) \<le> cd_TotalNodes req" and "cd_TotalNodes req < 2 ^ 31"
  shows "(\<exists>e. gg18_GenerateKeyShare cfg t acts (dkg_request rq) st = (Some (Inl e), st))
    \<and> (\<exists>e. gg20_GenerateKeyShare cfg t acts (dkg_request rq) st = (Some (Inl e), st))
    \<and> (\<exists>e. frost_GenerateKeyShare fcfg t facts (dkg_request rq) fs = (Some (Inl e), fs))"
  using assms(1)
proof (rule create_dkg_InrE)
  fix s1 w2 nodes session
  assume k: "sm_CreateKeyGenSession (co_timeout co) (net s1) (cd_KeyID req)
           (if cd_Protocol req = [] then co_default co else cd_Protocol req)
           (cd_Threshold req) (cd_TotalNodes req) nodes = (Inr session, w2)"
    and nt: "NotifyParticipantsForDKG req nodes = Inr (leader, rq)" and d: "d = dkg_session_of session"
  from keygen_session_facts [OF k] have "se_ParticipatingNodes session = nodes" by simp
  with assms(2) d have ne: "int (length nodes) \<noteq> cd_TotalNodes req" by (simp add: dkg_session_of_def)
  from nt [unfolded notify_Inr] have r: "kg_NodeIDs (dkg_request rq) = nodes" "nodes \<noteq> []"
    "kg_TotalNodes (dkg_request rq) = cd_TotalNodes req"
    using int32_id [OF assms(3,4)] by (auto simp: dkg_request_def)
  have "isl (gg18_ValidateKeyGenRequest (dkg_request rq))"
    using r ne by (simp add: gg18_ValidateKeyGenRequest_def)
  then have g: "\<exists>e. gg18_GenerateKeyShare cfg t acts (dkg_request rq) st = (Some (Inl e), st)"
    by (auto simp: gg18_GenerateKeyShare_def isl_def)
  have "isl (normalizeNodeIDs (kg_NodeIDs (dkg_request rq)) (kg_TotalNodes (dkg_request rq)))"
    using r ne by (simp add: normalizeNodeIDs_def)
  then have f: "\<exists>e. frost_GenerateKeyShare fcfg t facts (dkg_request rq) fs = (Some (Inl e), fs)"
    by (auto simp: frost_GenerateKeyShare_def isl_def Let_def split: sum.split)
  from g f show ?thesis by (simp add: gg20_GenerateKeyShare_def)
qed

definition toy_data :: "nat data_lib" where
  "toy_data = \<lparr>dl_view = (\<lambda>d. \<lparr>sv_Point = Some (d, d), sv_Xi = d, sv_ShareID = 1\<rparr>), dl_encode = (\<lambda>d. Inr [of_nat d]),
     dl_decode = (\<lambda>bs. Inr (unat (hd bs))), dl_edpub = (\<lambda>d. Some (replicate 32 (of_nat d))),
     dl_edsig = (\<lambda>bs. if length bs = 64 then Inr bs else Inl (Err ''length''))\<rparr>"

definition toy_tss :: "(nat list, nat) tss_lib" where
  "toy_tss = \<lparr>tl_sha256 = (\<lambda>bs. bs), tl_sort = sort_key pt_Key, tl_range = (\<lambda>xs. xs), tl_range_ids = (\<lambda>xs. xs),
     tl_keygen = (\<lambda>_. []), tl_signing = (\<lambda>_ _ _. []), tl_update = (\<lambda>p bs _ _. (p @ map unat bs, True))\<rparr>"

definition toy_engine :: "(nat list, nat, nat, nat) engine_config" where
  "toy_engine = \<lparr>ec_curve = ''secp256k1'', ec_this = ''n1'', ec_router = Some (\<lambda>_ _ _ _ w. (Inr (), w)),
     ec_store = Some toy_storage, ec_gcm = toy_gcm, ec_tss = toy_tss, ec_data = toy_data\<rparr>"

definition toy_engine_state :: "(nat list, 'r, nat) engine_state" where
  "toy_engine_state = \<lparr>es_keyRecords = (\<lambda>_. None), es_pm = newTSSPartyManager, es_wire = 0,
     es_disk = toy_fs (\<lambda>_. None)\<rparr>"

lemma dkg_session_of_wrong_size_cannot_run_witness:
  "\<exists>e. gg20_GenerateKeyShare toy_engine 0 [] (dkg_request (toy_notice [''n1'', ''n2'', ''n3'', ''n9''])) toy_engine_state
     = (Some (Inl e), toy_engine_state)"
proof -
  obtain s' where "CreateDKGSession toy_coordinator toy_nodes_state (toy_dkg_request [''n1'', ''n2'', ''n3'', ''n9''])
     = (Inr (toy_dkg_session [''n1'', ''n2'', ''n3'', ''n9''], ''n1'', toy_notice [''n1'', ''n2'', ''n3'', ''n9'']), s')"
    using toy_dkg_extra by (metis prod.collapse)
  from dkg_session_of_wrong_size_cannot_run [OF this, of toy_engine 0 "[]" toy_engine_state toy_engine "[]" toy_engine_state]
  show ?thesis by (simp add: toy_dkg_session_def toy_dkg_request_def)
qed

section \<open>The server starts each session once\<close>

definition dkg_sid :: "task \<Rightarrow> string option" where
  "dkg_sid t = (case t of DKGTask sid _ \<Rightarrow> Some sid | AutoDKGTask sid _ \<Rightarrow> Some sid | SignTask _ _ \<Rightarrow> None)"

definition sign_sid :: "task \<Rightarrow> string option" where
  "sign_sid t = (case t of SignTask sid _ \<Rightarrow> Some sid | _ \<Rightarrow> None)"

lemma task_sids [simp]:
  "dkg_sid (DKGTask a r) = Some a" "dkg_sid (AutoDKGTask a x) = Some a" "dkg_sid (SignTask a q) = None"
  "sign_sid (DKGTask a r) = None" "sign_sid (AutoDKGTask a x) = None" "sign_sid (SignTask a q) = Some a"
  by (simp_all add: dkg_sid_def sign_sid_def)

text \<open>
  What can happen on a node: the three calls, a message of a session stream, and
  anything that changes the shared world or the disk (other nodes, the goroutines).
\<close>

inductive node_step :: "GRPCServer \<Rightarrow> node_state \<Rightarrow> node_state \<Rightarrow> bool" for srv where
  "node_step srv n (snd (StartDKG req n))"
| "node_step srv n (snd (StartSign sreq n))"
| "node_step srv n (snd (SubmitSignatureShare srv share n))"
| "node_step srv n (snd (handleProtocolMessage srv sid from msg n))"
| "node_step srv n (n\<lparr>nd_mpc := s\<rparr>)"

inductive node_run :: "GRPCServer \<Rightarrow> node_state \<Rightarrow> node_state \<Rightarrow> bool" for srv where
  refl: "node_run srv n n"
| step: "node_run srv n m \<Longrightarrow> node_step srv m k \<Longrightarrow> node_run srv n k"

definition once_inv :: "node_state \<Rightarrow> bool" where
  "once_inv n \<longleftrightarrow>
     (\<forall>sid. length (filter (\<lambda>t. dkg_sid t = Some sid) (nd_tasks n)) \<le> 1
        \<and> (sid \<notin> set (nd_dkgStartOnce n) \<longrightarrow> filter (\<lambda>t. dkg_sid t = Some sid) (nd_tasks n) = [])
        \<and> length (filter (\<lambda>t. sign_sid t = Some sid) (nd_tasks n)) \<le> 1
        \<and> (sid \<notin> set (nd_signStartOnce n) \<longrightarrow> filter (\<lambda>t. sign_sid t = Some sid) (nd_tasks n) = []))"

lemma once_inv_mpc [simp]: "once_inv (n\<lparr>nd_mpc := s\<rparr>) = once_inv n"
  by (simp add: once_inv_def)

lemma once_start_dkg: "once_inv n \<Longrightarrow> dkg_sid t = Some sid \<Longrightarrow> sign_sid t = None \<Longrightarrow> once_inv (snd (start_dkg_once sid t n))"
  by (auto simp: once_inv_def start_dkg_once_def)

lemma once_start_sign: "once_inv n \<Longrightarrow> sign_sid t = Some sid \<Longrightarrow> dkg_sid t = None \<Longrightarrow> once_inv (snd (start_sign_once sid t n))"
  by (auto simp: once_inv_def start_sign_once_def)

lemma once_StartDKG: "once_inv n \<Longrightarrow> once_inv (snd (StartDKG req n))"
  using once_start_dkg [of n] by (simp add: StartDKG_def Let_def split_beta)

lemma once_StartSign: "once_inv n \<Longrightarrow> once_inv (snd (StartSign req n))"
  using once_start_sign [of n] by (simp add: StartSign_def Let_def split_beta)

lemma once_on_mpc: "once_inv n \<Longrightarrow> once_inv (snd (on_mpc f n))"
  by (simp add: on_mpc_def split_beta)

lemma once_handle: "once_inv n \<Longrightarrow> once_inv (snd (handleProtocolMessage srv sid from msg n))"
proof -
  have auto: "once_inv m \<Longrightarrow> once_inv (auto_start sid sess m)" for sess m
    using once_start_dkg [of m] by (simp add: auto_start_def)
  assume "once_inv n"
  then show ?thesis
    unfolding handleProtocolMessage_def
    by (intro snd_or_wrapI [where P = once_inv] once_on_mpc)
       (auto simp: Let_def split: control.split
             intro!: snd_or_wrapI [where P = once_inv] once_on_mpc auto)
qed

lemma once_Submit: "once_inv n \<Longrightarrow> once_inv (snd (SubmitSignatureShare srv req n))"
  using once_handle [of n srv "rq_SessionId req" "rq_NodeId req"
      "\<lparr>sm_ShareData = rq_ShareData req, sm_Round = rq_Round req\<rparr>"]
  by (auto simp: SubmitSignatureShare_def split: prod.splits sum.splits err.splits)

lemma node_run_once: "node_run srv n m \<Longrightarrow> once_inv n \<Longrightarrow> once_inv m"
proof (induction rule: node_run.induct)
  case (step n m k)
  then show ?case
    by (auto elim!: node_step.cases intro: once_StartDKG once_StartSign once_Submit once_handle)
qed


definition toy_server :: GRPCServer where
  "toy_server = \<lparr>gs_engine = toy_signer, gs_registry = None, gs_store = Some toy_storage, gs_gcm = toy_gcm,
     gs_nodeID = ''n1''\<rparr>"

definition toy_node :: node_state where
  "toy_node = \<lparr>nd_dkgStartOnce = [], nd_signStartOnce = [], nd_tasks = [],
     nd_mpc = toy_state\<lparr>net := sample_keygen\<rparr>\<rparr>"


section \<open>Completion messages\<close>

lemma on_mpc_net:
  "on_mpc (on_net f) n = (fst (f (net (nd_mpc n))), n\<lparr>nd_mpc := (nd_mpc n)\<lparr>net := snd (f (net (nd_mpc n)))\<rparr>\<rparr>)"
  by (simp add: on_mpc_def on_net_def split_beta Let_def del: on_net_simps)

lemma control_complete: "control_of (bytes_of (''DKG_COMPLETE:'' @ pk)) = Complete pk"
proof -
  have "bytes_of (''DKG_COMPLETE:'' @ pk) \<noteq> []" by (simp add: bytes_of_def)
  then show ?thesis
    by (simp only: control_of_def string_of_bytes_of Let_def if_False HasPrefix_append TrimPrefix_append if_True) simp
qed

lemma handle_complete:
  assumes "control_of (sm_ShareData msg) = Complete pk" and "HasPrefix (ToLower kid) ''key-''"
    and "sm_GetSession (net (nd_mpc n)) kid = (g, w1)"
    and "handleProtocolMessage srv kid from msg n = (Inr (), n')"
  shows "fst (sm_CompleteKeygenSession w1 kid pk) = Inr ()
    \<and> n' = n\<lparr>nd_mpc := (nd_mpc n)\<lparr>net := snd (sm_CompleteKeygenSession w1 kid pk)\<rparr>\<rparr>"
proof -
  from assms(3,4) obtain x where g: "g = Inr x"
    by (cases g) (simp_all add: handleProtocolMessage_def on_mpc_net)
  let ?m = "n\<lparr>nd_mpc := (nd_mpc n)\<lparr>net := w1\<rparr>\<rparr>"
  have "handleProtocolMessage srv kid from msg n
      = or_wrap (on_mpc (on_net (\<lambda>w. sm_CompleteKeygenSession w kid pk)) ?m) ''failed to complete keygen session''
          (\<lambda>_ n. (Inr (), n))"
    using assms(1,2) unfolding handleProtocolMessage_def on_mpc_net assms(3) g
    by (simp add: isKeygenSession_def)
  with assms(4) show ?thesis
    unfolding on_mpc_net by (auto simp: or_wrap_def split: sum.splits)
qed

text \<open>
  Any message that starts with \<open>DKG_COMPLETE:\<close> sets the public key of a key whose
  generation is pending: from whatever node it says it comes, and with no engine, no
  share and no task involved. If the server accepts it, the key is active with the
  text of the message as its public key, and the session is completed.
\<close>

theorem completion_message_sets_public_key:
  assumes "SubmitSignatureShare srv \<lparr>rq_SessionId = kid, rq_NodeId = from,
             rq_ShareData = bytes_of (''DKG_COMPLETE:'' @ pk), rq_Round = r\<rparr> n = (Inr resp, n')"
    and "rp_Accepted resp" and "HasPrefix (ToLower kid) ''key-''" and "coh (net (nd_mpc n))"
  shows "\<exists>k row. get_key (net (nd_mpc n)) kid = Some k
    \<and> get_key (net (nd_mpc n')) kid
        = Some (k\<lparr>km_PublicKey := pk, km_Status := ''Active'', km_UpdatedAt := now (net (nd_mpc n))\<rparr>)
    \<and> get_sess (net (nd_mpc n')) kid = Some row \<and> ss_Status row = SessionStatusCompleted
    \<and> nd_tasks n' = nd_tasks n \<and> disk (nd_mpc n') = disk (nd_mpc n)"
proof -
  let ?w = "net (nd_mpc n)" and ?msg = "\<lparr>sm_ShareData = bytes_of (''DKG_COMPLETE:'' @ pk), sm_Round = r\<rparr>"
  obtain g w1 where get: "sm_GetSession ?w kid = (g, w1)" by fastforce
  note same = sm_GetSession_cases(1) [OF get]
  from assms(1,2) have h: "handleProtocolMessage srv kid from ?msg n = (Inr (), n')"
    unfolding SubmitSignatureShare_def by (auto split: prod.splits sum.splits err.splits)
  obtain c w2 where comp: "sm_CompleteKeygenSession w1 kid pk = (c, w2)" by fastforce
  have "control_of (sm_ShareData ?msg) = Complete pk"
    by (simp only: ShareMessage.select_convs control_complete)
  from handle_complete [OF this assms(3) get h] comp
  have c: "c = Inr ()" and n': "n' = n\<lparr>nd_mpc := (nd_mpc n)\<lparr>net := w2\<rparr>\<rparr>" by simp_all
  have "coh w1" using coh_same_store [OF same] assms(4) by simp
  from complete_keygen_InrD [OF comp this] c obtain k row where
    "get_sess w2 kid = Some row" "ss_Status row = SessionStatusCompleted" "get_key w1 kid = Some k"
    "get_key w2 kid = Some (k\<lparr>km_PublicKey := pk, km_Status := ''Active'', km_UpdatedAt := now w1\<rparr>)"
    by auto
  moreover have "get_key w1 kid = get_key ?w kid" by (rule same_store_get(1) [OF same])
  moreover have "now w1 = now ?w" using same by (simp add: same_store_def)
  ultimately show ?thesis using n' by simp
qed

definition forged :: ShareRequest where
  "forged = \<lparr>rq_SessionId = ''key-1'', rq_NodeId = ''anyone'', rq_ShareData = bytes_of (''DKG_COMPLETE:'' @ ''02ff''),
     rq_Round = 0\<rparr>"

lemma forged_accepted:
  "map_sum id rp_Accepted (fst (SubmitSignatureShare toy_server forged toy_node)) = Inr True"
  by code_simp

lemma completion_message_sets_public_key_witness:
  "\<exists>k. get_key (net (nd_mpc (snd (SubmitSignatureShare toy_server forged toy_node)))) ''key-1'' = Some k
     \<and> km_PublicKey k = ''02ff'' \<and> km_Status k = ''Active''"
proof -
  obtain resp n' where run: "SubmitSignatureShare toy_server forged toy_node = (Inr resp, n')" and acc: "rp_Accepted resp"
    using forged_accepted by (cases "SubmitSignatureShare toy_server forged toy_node"; cases "fst (SubmitSignatureShare toy_server forged toy_node)") auto
  have pre: "HasPrefix (ToLower ''key-1'') ''key-''" by code_simp
  have coh: "coh (net (nd_mpc toy_node))" using sample_keygen_coh by (simp add: toy_node_def)
  from completion_message_sets_public_key [OF run [unfolded forged_def] acc pre coh] run
  show ?thesis by auto
qed

section \<open>What the key generation goroutine leaves\<close>

lemma store_all_net: "net (snd (store_all srv kid shares s)) = net s"
  by (induction shares arbitrary: s)
     (auto simp: on_disk_parts on_disk_def split_beta Let_def split: option.splits simp del: on_disk_simps)

lemma store_all_Inr:
  assumes "\<forall>(n, sh) \<in> set shares. sh \<noteq> None"
  shows "fst (store_all srv kid shares s) = Inr ()"
  using assms by (induction shares arbitrary: s) (auto split: option.splits)

text \<open>
  The goroutine of a key generation completes the session and activates the key
  whether or not this node could store its share: the result on the shared database
  is the same for every state of the disk, a disk on which every write fails
  included.
\<close>

theorem keygen_completes_without_its_share:
  assumes "kr_PublicKey resp = Some pk" and "pk_Hex pk \<noteq> []" and "\<forall>(n, sh) \<in> set (kr_KeyShares resp). sh \<noteq> None"
    and "sm_CompleteKeygenSession (net s) kid (pk_Hex pk) = (Inr (), v)" and "coh (net s)"
  shows "fst (finish_dkg srv kid (Inr resp) s) = Inr () \<and> net (snd (finish_dkg srv kid (Inr resp) s)) = v
    \<and> (\<exists>k. get_key v kid = Some k \<and> km_Status k = ''Active'' \<and> km_PublicKey k = pk_Hex pk)"
proof -
  obtain s1 where st: "store_all srv kid (kr_KeyShares resp) s = (Inr (), s1)"
    using store_all_Inr [OF assms(3)] by (metis prod.collapse)
  then have same: "net s1 = net s" using store_all_net [of srv kid "kr_KeyShares resp" s] by simp
  have "on_net (\<lambda>w. sm_CompleteKeygenSession w kid (pk_Hex pk)) s1 = (Inr (), s1\<lparr>net := v\<rparr>)"
    unfolding on_net_def same assms(4) by simp
  then have "finish_dkg srv kid (Inr resp) s = (Inr (), s1\<lparr>net := v\<rparr>)"
    using assms(1,2) st by (simp add: finish_dkg_def del: on_net_simps)
  with complete_keygen_InrD [OF assms(4,5)] show ?thesis by auto
qed

text \<open>A disk on which the first write fails.\<close>

definition broken_state :: mpc_state where
  "broken_state = \<lparr>net = sample_keygen, disk = toy_fs (\<lambda>n. if n = 1 then Some (''no space left on device'', 0) else None)\<rparr>"

lemma keygen_completes_without_its_share_witness:
  "fst (StoreKeyShare toy_gcm toy_storage (disk broken_state) ''key-1'' ''n1'' [9])
     = Inl (Wrap (Err ''no space left on device'') ''failed to write encrypted share'')
   \<and> (\<exists>k. get_key (net (snd (finish_dkg toy_server ''key-1'' (Inr (toy_answer [2])) broken_state))) ''key-1'' = Some k
     \<and> km_Status k = ''Active'')"
proof -
  have full: "fst (StoreKeyShare toy_gcm toy_storage (disk broken_state) ''key-1'' ''n1'' [9])
     = Inl (Wrap (Err ''no space left on device'') ''failed to write encrypted share'')"
    by code_simp
  have hex: "hex_EncodeToString [2] = ''02''" by code_simp
  have key: "kr_PublicKey (toy_answer [2]) = Some \<lparr>pk_Bytes = [2], pk_Hex = ''02''\<rparr>"
    by (simp add: toy_answer_def hex del: hex_EncodeToString.simps)
  have sh: "\<forall>(n, sh) \<in> set (kr_KeyShares (toy_answer [2])). sh \<noteq> None"
    by (simp add: toy_answer_def)
  have ok: "fst (sm_CompleteKeygenSession (net broken_state) ''key-1'' ''02'') = Inr ()"
    by code_simp
  obtain v where "sm_CompleteKeygenSession (net broken_state) ''key-1'' ''02'' = (Inr (), v)"
    using ok by (metis prod.collapse)
  then show ?thesis
    using keygen_completes_without_its_share [OF key _ sh, of broken_state "''key-1''" v toy_server] sample_keygen_coh full
    by (auto simp: broken_state_def)
qed

section \<open>Signing messages\<close>

text \<open>
  A signing message loses its broadcast mark and the answer to it: whether the
  engine broadcasts it or not, the same request with round 0 goes out; the sender
  reports success also when the receiving node refuses it; and the receiving server
  hands it to its engine as a direct message.
\<close>

theorem signing_messages_lose_broadcast_and_refusal:
  assumes "4 \<le> length sid" and "take 4 sid \<noteq> ''key-''" and "nid \<noteq> gc_thisNodeID (fst cs)"
    and "getOrCreateConnection env nid cs = (Inr ep, c1, s1)"
    and "ce_call env ep \<lparr>rq_SessionId = sid, rq_NodeId = gc_thisNodeID c1, rq_ShareData = bs, rq_Round = 0\<rparr> s1
           = (Inr resp, s2)"
    and "sm_GetSession (net (nd_mpc n)) sid = (Inr sess, w1)" and "\<not> isKeygenSession sid sess"
  shows "messageRouter env sid nid (Inr bs) targets isBroadcast cs = (Inr (), c1, s2)
    \<and> fst (handleProtocolMessage srv sid from \<lparr>sm_ShareData = bs, sm_Round = 0\<rparr> n)
        = (case fst (en_process_signing (session_engine srv (se_Protocol sess)) sid from bs False
                       ((nd_mpc n)\<lparr>net := w1\<rparr>)) of
             Inl e \<Rightarrow> Inl (wrap_err ''failed to process signing message'' e) | Inr _ \<Rightarrow> Inr ())"
proof -
  have "sid \<noteq> []" "\<not> length sid < 4" using assms(1) by auto
  with assms(2-5) have "messageRouter env sid nid (Inr bs) targets isBroadcast cs = (Inr (), c1, s2)"
    by (simp add: messageRouter_def SendSigningMessage_def)
  moreover have "fst (handleProtocolMessage srv sid from \<lparr>sm_ShareData = bs, sm_Round = 0\<rparr> n)
        = (case fst (en_process_signing (session_engine srv (se_Protocol sess)) sid from bs False
                       ((nd_mpc n)\<lparr>net := w1\<rparr>)) of
             Inl e \<Rightarrow> Inl (wrap_err ''failed to process signing message'' e) | Inr _ \<Rightarrow> Inr ())"
    using assms(7) unfolding handleProtocolMessage_def on_mpc_net assms(6)
    by (simp add: on_mpc_def split_beta or_wrap_def split: sum.split)
  ultimately show ?thesis ..
qed

definition toy_client_cfg :: ClientConfig where
  "toy_client_cfg = \<lparr>cc_TLSEnabled = False, cc_TLSCertFile = [], cc_TLSKeyFile = [], cc_TLSCACertFile = [],
     cc_Timeout = 600000000000, cc_KeepAlive = 600000000000\<rparr>"

definition toy_client_env :: client_env where
  "toy_client_env = \<lparr>ce_ord = (\<lambda>ns. ns), ce_discovery = False, ce_consul = None, ce_loadCA = (\<lambda>_. Inr ()), ce_dial = (\<lambda>_ _. Inr ()),
     ce_call = (\<lambda>_ _ s. (Inr \<lparr>rp_Accepted = False, rp_Text = ''queue full'', rp_NextRound = 0\<rparr>, s))\<rparr>"

definition toy_signing_node :: node_state where
  "toy_signing_node = toy_node\<lparr>nd_mpc := toy_state\<lparr>net := sample_world\<lparr>sess_t := [sample_row\<lparr>ss_SessionID := ''session-0''\<rparr>]\<rparr>\<rparr>\<rparr>"

lemma signing_messages_lose_broadcast_and_refusal_witness:
  "fst (messageRouter toy_client_env ''session-0'' ''n2'' (Inr [1]) 0 True
     (\<lparr>gc_clients = [(''n2'', ''h:1'')], gc_cfg = toy_client_cfg, gc_thisNodeID = ''n1''\<rparr>, toy_state)) = Inr ()"
proof -
  let ?c = "\<lparr>gc_clients = [(''n2'', ''h:1'')], gc_cfg = toy_client_cfg, gc_thisNodeID = ''n1''\<rparr> :: GRPCClient"
  let ?read = "sm_GetSession (net (nd_mpc toy_signing_node)) ''session-0''"
  have con: "getOrCreateConnection toy_client_env ''n2'' (?c, toy_state) = (Inr ''h:1'', ?c, toy_state)"
    by (simp add: getOrCreateConnection_def)
  have call: "ce_call toy_client_env ''h:1'' q s = (Inr \<lparr>rp_Accepted = False, rp_Text = ''queue full'', rp_NextRound = 0\<rparr>, s)" for q s
    by (simp add: toy_client_env_def)
  have "map_sum id (isKeygenSession ''session-0'') (fst ?read) = Inr False"
    by code_simp
  then obtain sess w1 where rd: "?read = (Inr sess, w1)" and nk: "\<not> isKeygenSession ''session-0'' sess"
    by (cases ?read; cases "fst ?read") auto
  show ?thesis
    using signing_messages_lose_broadcast_and_refusal
      [OF _ _ _ con call [of "\<lparr>rq_SessionId = ''session-0'', rq_NodeId = gc_thisNodeID ?c, rq_ShareData = [1], rq_Round = 0\<rparr>" toy_state]
          rd nk, of 0 True toy_server "''n2''"]
    by simp
qed

end
