(* ===== verification/TssProps.thy ===== *)
theory TssProps
  imports Tss
begin

text \<open>
  The party manager over all schedules: its queues stay open, bounded and apart;
  when a handler panics; what an abandoned key generation leaves; the order in
  which messages reach a party; routing and broadcasts.
\<close>

section \<open>The queues of a manager\<close>

text \<open>The queue registered under a key (\<open>True\<close>) or under a signing session (\<open>False\<close>).\<close>

fun queue_of :: "'p tssPartyManager \<Rightarrow> bool \<times> string \<Rightarrow> nat option" where
  "queue_of m (True, k) = incomingKeygenMessages m k"
| "queue_of m (False, k) = incomingSigningMessages m k"

text \<open>Every channel is bounded; a registered one exists, is open, and is registered once.\<close>

definition queues_ok :: "'p tssPartyManager \<Rightarrow> bool" where
  "queues_ok m \<longleftrightarrow>
     (\<forall>ch \<in> set (chans m). ch_cap ch = 100 \<and> length (ch_buf ch) \<le> 100) \<and>
     (\<forall>q c. queue_of m q = Some c \<longrightarrow> c < length (chans m) \<and> \<not> ch_closed (chans m ! c)) \<and>
     (\<forall>q q' c. queue_of m q = Some c \<longrightarrow> queue_of m q' = Some c \<longrightarrow> q = q')"

lemma queues_okI:
  assumes "\<And>ch. ch \<in> set (chans m) \<Longrightarrow> ch_cap ch = 100 \<and> length (ch_buf ch) \<le> 100"
    and "\<And>q c. queue_of m q = Some c \<Longrightarrow> c < length (chans m) \<and> \<not> ch_closed (chans m ! c)"
    and "\<And>q q' c. queue_of m q = Some c \<Longrightarrow> queue_of m q' = Some c \<Longrightarrow> q = q'"
  shows "queues_ok m"
  using assms by (simp add: queues_ok_def)

lemma queues_okD:
  assumes "queues_ok m"
  shows "ch \<in> set (chans m) \<Longrightarrow> ch_cap ch = 100 \<and> length (ch_buf ch) \<le> 100"
    and "queue_of m q = Some c \<Longrightarrow> c < length (chans m) \<and> \<not> ch_closed (chans m ! c)"
    and "queue_of m q = Some c \<Longrightarrow> queue_of m q' = Some c \<Longrightarrow> q = q'"
  using assms unfolding queues_ok_def by blast+

lemma queues_ok_same:
  assumes "chans m' = chans m" and "incomingKeygenMessages m' = incomingKeygenMessages m"
    and "incomingSigningMessages m' = incomingSigningMessages m"
  shows "queues_ok m' = queues_ok m"
proof -
  have "queue_of m' = queue_of m"
    using assms by (intro ext) (metis queue_of.simps surj_pair)
  with assms(1) show ?thesis by (simp add: queues_ok_def)
qed

lemma queues_ok_fields [simp]:
  "queues_ok (m\<lparr>activeKeygen := a\<rparr>) = queues_ok m"
  "queues_ok (m\<lparr>activeSigning := a\<rparr>) = queues_ok m"
  "queues_ok (m\<lparr>activeEdDSAKeygen := a\<rparr>) = queues_ok m"
  "queues_ok (m\<lparr>activeEdDSASigning := a\<rparr>) = queues_ok m"
  "queues_ok (m\<lparr>sessionIDMap := x\<rparr>) = queues_ok m"
  "queues_ok (m\<lparr>nodeIDToPartyID := n, partyIDToNodeID := i\<rparr>) = queues_ok m"
  by (rule queues_ok_same; simp)+

lemma queues_ok_empty: "chans m = [] \<Longrightarrow> (\<And>q. queue_of m q = None) \<Longrightarrow> queues_ok m"
  by (simp add: queues_ok_def)

lemma queues_ok_new: "queues_ok newTSSPartyManager"
proof (rule queues_ok_empty)
  show "queue_of newTSSPartyManager q = None" for q
    by (cases q; cases "fst q") (simp_all add: newTSSPartyManager_def)
qed (simp add: newTSSPartyManager_def)

text \<open>A change of one buffer within its bound.\<close>

lemma queue_of_chans [simp]: "queue_of (m\<lparr>chans := x\<rparr>) q = queue_of m q"
  by (cases q; cases "fst q") simp_all

lemma queues_ok_buffer:
  assumes "queues_ok m" and "c < length (chans m)" and "length b \<le> 100"
  shows "queues_ok (m\<lparr>chans := (chans m)[c := (chans m ! c)\<lparr>ch_buf := b\<rparr>]\<rparr>)"
proof (rule queues_okI)
  fix ch assume "ch \<in> set (chans (m\<lparr>chans := (chans m)[c := (chans m ! c)\<lparr>ch_buf := b\<rparr>]\<rparr>))"
  then have "ch \<in> set (chans m) \<or> ch = (chans m ! c)\<lparr>ch_buf := b\<rparr>"
    using set_update_subset_insert by fastforce
  then show "ch_cap ch = 100 \<and> length (ch_buf ch) \<le> 100"
    using queues_okD(1) [OF assms(1)] assms(2,3) by auto
next
  fix q d assume "queue_of (m\<lparr>chans := (chans m)[c := (chans m ! c)\<lparr>ch_buf := b\<rparr>]\<rparr>) q = Some d"
  then show "d < length (chans (m\<lparr>chans := (chans m)[c := (chans m ! c)\<lparr>ch_buf := b\<rparr>]\<rparr>))
      \<and> \<not> ch_closed (chans (m\<lparr>chans := (chans m)[c := (chans m ! c)\<lparr>ch_buf := b\<rparr>]\<rparr>) ! d)"
    using queues_okD(2) [OF assms(1)] by (cases "d = c") auto
qed (use queues_okD(3) [OF assms(1)] in simp)

lemma try_send_ok:
  assumes "queues_ok m" and "c < length (chans m)" and "try_send c msg m = (r, m')"
  shows "queues_ok m'" and "length (chans m') = length (chans m)" and "queue_of m' q = queue_of m q"
    and "r = SendPanic \<longleftrightarrow> ch_closed (chans m ! c)"
    and "d < length (chans m) \<Longrightarrow> ch_closed (chans m' ! d) = ch_closed (chans m ! d)"
  using assms(1,3) queues_okD(1) [OF assms(1) nth_mem [OF assms(2)]] queues_ok_buffer [OF assms(1,2)]
  by (cases "d = c"; auto simp: try_send_def Let_def split: if_splits)+

lemma try_recv_ok:
  assumes "queues_ok m" and "c < length (chans m)" and "try_recv c m = (r, m')"
  shows "queues_ok m'" and "length (chans m') = length (chans m)" and "queue_of m' q = queue_of m q"
    and "d < length (chans m) \<Longrightarrow> ch_closed (chans m' ! d) = ch_closed (chans m ! d)"
  using assms(1,3) queues_okD(1) [OF assms(1) nth_mem [OF assms(2)]] queues_ok_buffer [OF assms(1,2)]
  by (cases "d = c"; auto simp: try_recv_def Let_def split: list.splits)+

text \<open>Opening and dropping a queue.\<close>

lemma queue_of_register:
  "queue_of (m\<lparr>incomingKeygenMessages := f\<rparr>) q = (if fst q then f (snd q) else queue_of m q)"
  "queue_of (m\<lparr>incomingSigningMessages := f\<rparr>) q = (if fst q then queue_of m q else f (snd q))"
  by (cases q; cases "fst q"; simp)+

lemma queues_ok_open:
  assumes "queues_ok m" and "queue_of m q = None" and "chans m' = chans m @ [\<lparr>ch_buf = [], ch_cap = 100, ch_closed = False\<rparr>]"
    and "\<And>p. queue_of m' p = (if p = q then Some (length (chans m)) else queue_of m p)"
  shows "queues_ok m'"
proof (rule queues_okI)
  show "ch \<in> set (chans m') \<Longrightarrow> ch_cap ch = 100 \<and> length (ch_buf ch) \<le> 100" for ch
    using queues_okD(1) [OF assms(1), of ch] assms(3) by auto
  show "queue_of m' p = Some c \<Longrightarrow> c < length (chans m') \<and> \<not> ch_closed (chans m' ! c)" for p c
    using queues_okD(2) [OF assms(1), of p c] assms(3,4) by (auto simp: nth_append split: if_splits)
  show "queue_of m' p = Some c \<Longrightarrow> queue_of m' p' = Some c \<Longrightarrow> p = p'" for p p' c
    using queues_okD(2) [OF assms(1), of p c] queues_okD(2) [OF assms(1), of p' c]
      queues_okD(3) [OF assms(1), of p c p'] assms(4) [of p] assms(4) [of p']
    by (simp split: if_splits)
qed

lemma queues_ok_drop:
  assumes "queues_ok m" and "queue_of m q = Some c" and "chans m' = (chans m)[c := (chans m ! c)\<lparr>ch_closed := True\<rparr>]"
    and "\<And>p. queue_of m' p = (if p = q then None else queue_of m p)"
  shows "queues_ok m'"
proof (rule queues_okI)
  note c = queues_okD(2) [OF assms(1,2)]
  show "ch_cap ch = 100 \<and> length (ch_buf ch) \<le> 100" if "ch \<in> set (chans m')" for ch
  proof -
    from that have "ch \<in> set (chans m) \<or> ch = (chans m ! c)\<lparr>ch_closed := True\<rparr>"
      using set_update_subset_insert assms(3) by fastforce
    then show ?thesis using queues_okD(1) [OF assms(1)] c by auto
  qed
  show "queue_of m' p = Some d \<Longrightarrow> d < length (chans m') \<and> \<not> ch_closed (chans m' ! d)" for p d
    using queues_okD(2) [OF assms(1), of p d] queues_okD(3) [OF assms(1,2), of p] assms(3) assms(4) [of p]
    by (cases "d = c") (simp_all split: if_splits)
  show "queue_of m' p = Some d \<Longrightarrow> queue_of m' p' = Some d \<Longrightarrow> p = p'" for p p' d
    using queues_okD(3) [OF assms(1), of p d p'] assms(4) [of p] assms(4) [of p'] by (simp split: if_splits)
qed

lemma open_queue_ok:
  assumes "queues_ok m"
  shows "queues_ok (snd (open_keygen_queue k m))" and "queues_ok (snd (open_signing_queue k m))"
    and "queue_of (snd (open_keygen_queue k m)) (True, k) = Some (fst (open_keygen_queue k m))"
    and "queue_of (snd (open_signing_queue k m)) (False, k) = Some (fst (open_signing_queue k m))"
proof -
  show "queues_ok (snd (open_keygen_queue k m))"
  proof (cases "incomingKeygenMessages m k")
    case None
    then show ?thesis
      by (intro queues_ok_open [OF assms, of "(True, k)"])
         (auto simp: open_keygen_queue_def make_chan_def queue_of_register)
  qed (simp add: open_keygen_queue_def assms)
  show "queues_ok (snd (open_signing_queue k m))"
  proof (cases "incomingSigningMessages m k")
    case None
    then show ?thesis
      by (intro queues_ok_open [OF assms, of "(False, k)"])
         (auto simp: open_signing_queue_def make_chan_def queue_of_register)
  qed (simp add: open_signing_queue_def assms)
qed (simp_all add: open_keygen_queue_def open_signing_queue_def make_chan_def split: option.split)

lemma drop_queue_ok:
  assumes "queues_ok m"
  shows "queues_ok (drop_keygen_queue k m)" and "queues_ok (drop_signing_queue k m)"
proof -
  show "queues_ok (drop_keygen_queue k m)"
  proof (cases "incomingKeygenMessages m k")
    case (Some c)
    then show ?thesis
      by (intro queues_ok_drop [OF assms, of "(True, k)" c])
         (auto simp: drop_keygen_queue_def close_chan_def queue_of_register)
  qed (simp add: drop_keygen_queue_def assms)
  show "queues_ok (drop_signing_queue k m)"
  proof (cases "incomingSigningMessages m k")
    case (Some c)
    then show ?thesis
      by (intro queues_ok_drop [OF assms, of "(False, k)" c])
         (auto simp: drop_signing_queue_def close_chan_def queue_of_register)
  qed (simp add: drop_signing_queue_def assms)
qed

lemma drop_queue_length:
  "length (chans (drop_keygen_queue k m)) = length (chans m)"
  "length (chans (drop_signing_queue k m)) = length (chans m)"
  by (simp_all add: drop_keygen_queue_def drop_signing_queue_def close_chan_def split: option.split)

section \<open>One session along a schedule\<close>

text \<open>What no loop changes: how many channels there are, and the two maps of parties and nodes.\<close>

definition party_maps :: "'p tssPartyManager \<Rightarrow> (string \<times> PartyID) list \<times> (string \<times> string) list" where
  "party_maps m = (nodeIDToPartyID m, partyIDToNodeID m)"

definition same_frame :: "'p tssPartyManager \<Rightarrow> 'p tssPartyManager \<Rightarrow> bool" where
  [simp]: "same_frame m m' \<longleftrightarrow> length (chans m') = length (chans m) \<and> party_maps m' = party_maps m"

lemma party_maps_simps [simp]:
  "party_maps (m\<lparr>activeKeygen := a\<rparr>) = party_maps m"
  "party_maps (m\<lparr>activeSigning := a\<rparr>) = party_maps m"
  "party_maps (m\<lparr>activeEdDSAKeygen := a\<rparr>) = party_maps m"
  "party_maps (m\<lparr>activeEdDSASigning := a\<rparr>) = party_maps m"
  "party_maps (m\<lparr>sessionIDMap := x\<rparr>) = party_maps m"
  "party_maps (m\<lparr>chans := y\<rparr>) = party_maps m"
  "party_maps (m\<lparr>incomingKeygenMessages := z\<rparr>) = party_maps m"
  "party_maps (m\<lparr>incomingSigningMessages := z\<rparr>) = party_maps m"
  by (simp_all add: party_maps_def)

lemma queue_party_maps [simp]:
  "party_maps (drop_keygen_queue k m) = party_maps m"
  "party_maps (drop_signing_queue k m) = party_maps m"
  "party_maps (snd (open_keygen_queue k m)) = party_maps m"
  "party_maps (snd (open_signing_queue k m)) = party_maps m"
  "party_maps (snd (try_send c msg m)) = party_maps m"
  "party_maps (snd (try_recv c m)) = party_maps m"
  by (auto simp: drop_keygen_queue_def drop_signing_queue_def close_chan_def open_keygen_queue_def
      open_signing_queue_def make_chan_def try_send_def try_recv_def Let_def split: option.split list.split)

definition loop_ok :: "'p tssPartyManager \<Rightarrow> loop_state \<Rightarrow> bool" where
  "loop_ok m l \<longleftrightarrow> (case l of Stopped \<Rightarrow> True | Reading c \<Rightarrow> c < length (chans m))"

lemma loop_ok_simps [simp]: "loop_ok m Stopped" "loop_ok m (Reading c) \<longleftrightarrow> c < length (chans m)"
  by (simp_all add: loop_ok_def)

definition run_ok :: "('p, 'd, 'w) tss_run \<Rightarrow> bool" where
  "run_ok r \<longleftrightarrow> queues_ok (tr_pm r) \<and> loop_ok (tr_pm r) (tr_loop r)
     \<and> (\<forall>p \<in> set (tr_pending r). fst p < length (chans (tr_pm r)))"

text \<open>While the main loop waits, no handler has panicked and every one that waits to send knows the session's queue.\<close>

definition undisturbed :: "bool \<times> string \<Rightarrow> ('p, 'd, 'w) tss_run \<Rightarrow> bool" where
  "undisturbed q r \<longleftrightarrow> (tr_result r = None \<longrightarrow>
     \<not> tr_crash r \<and> (\<forall>p \<in> set (tr_pending r). queue_of (tr_pm r) q = Some (fst p)))"

text \<open>
  The contract of the loops of a session: a turn of the main loop keeps the queues
  well formed and, as long as it goes on, changes nothing of the manager; a turn of
  the reading loop keeps the session's queue.
\<close>

locale session_loop =
  fixes main :: "('m, 'd) tss_event \<Rightarrow> 'p tssPartyManager \<times> 'w \<Rightarrow> (err + 'd) option \<times> 'p tssPartyManager \<times> 'w"
    and recv :: "loop_state \<times> 'p tssPartyManager \<Rightarrow> loop_state \<times> 'p tssPartyManager"
    and q :: "bool \<times> string"
  assumes main_ok: "queues_ok m \<Longrightarrow> main ev (m, w) = (r, m', w')
      \<Longrightarrow> queues_ok m' \<and> same_frame m m'"
    and main_goes_on: "main ev (m, w) = (None, m', w') \<Longrightarrow> m' = m"
    and recv_ok: "queues_ok m \<Longrightarrow> loop_ok m l \<Longrightarrow> recv (l, m) = (l', m')
      \<Longrightarrow> queues_ok m' \<and> loop_ok m' l' \<and> same_frame m m' \<and> queue_of m' q = queue_of m q"
begin

lemma main_step:
  assumes "run_ok r" and "undisturbed q r"
  shows "run_ok (run_act main recv (\<lambda>m. queue_of m q) (Main ev) r)"
    and "undisturbed q (run_act main recv (\<lambda>m. queue_of m q) (Main ev) r)"
    and "party_maps (tr_pm (run_act main recv (\<lambda>m. queue_of m q) (Main ev) r)) = party_maps (tr_pm r)"
proof -
  obtain res m w where ev: "main ev (tr_pm r, tr_wire r) = (res, m, w)" by (rule prod_cases3)
  have "queues_ok (tr_pm r)" using assms(1) by (simp add: run_ok_def)
  note ok = main_ok [OF this ev]
  show "run_ok (run_act main recv (\<lambda>m. queue_of m q) (Main ev) r)"
    using assms(1) ok by (auto simp: run_ok_def ev loop_ok_def split: loop_state.split)
  have "res = None \<Longrightarrow> m = tr_pm r" using main_goes_on ev by blast
  then show "undisturbed q (run_act main recv (\<lambda>m. queue_of m q) (Main ev) r)"
    using assms(2) by (auto simp: undisturbed_def ev)
  show "party_maps (tr_pm (run_act main recv (\<lambda>m. queue_of m q) (Main ev) r)) = party_maps (tr_pm r)"
    using ok by (simp add: ev)
qed

lemma receive_step:
  assumes "run_ok r" and "undisturbed q r"
  shows "run_ok (run_act main recv (\<lambda>m. queue_of m q) Receive r)"
    and "undisturbed q (run_act main recv (\<lambda>m. queue_of m q) Receive r)"
    and "party_maps (tr_pm (run_act main recv (\<lambda>m. queue_of m q) Receive r)) = party_maps (tr_pm r)"
proof -
  obtain l m where ev: "recv (tr_loop r, tr_pm r) = (l, m)" by fastforce
  have "queues_ok (tr_pm r)" "loop_ok (tr_pm r) (tr_loop r)" using assms(1) by (simp_all add: run_ok_def)
  note ok = recv_ok [OF this ev]
  show "run_ok (run_act main recv (\<lambda>m. queue_of m q) Receive r)"
    using assms(1) ok by (auto simp: run_ok_def ev)
  show "undisturbed q (run_act main recv (\<lambda>m. queue_of m q) Receive r)"
    using assms(2) ok by (auto simp: undisturbed_def ev)
  show "party_maps (tr_pm (run_act main recv (\<lambda>m. queue_of m q) Receive r)) = party_maps (tr_pm r)"
    using ok by (simp add: ev)
qed

lemma arrive_step:
  assumes "run_ok r" and "undisturbed q r"
  shows "run_ok (run_act main recv (\<lambda>m. queue_of m q) (Arrive msg) r)"
    and "undisturbed q (run_act main recv (\<lambda>m. queue_of m q) (Arrive msg) r)"
    and "party_maps (tr_pm (run_act main recv (\<lambda>m. queue_of m q) (Arrive msg) r)) = party_maps (tr_pm r)"
  using assms queues_okD(2) [of "tr_pm r" q]
  by (auto simp: run_ok_def undisturbed_def split: option.split)

lemma deliver_step:
  assumes "run_ok r" and "undisturbed q r"
  shows "run_ok (run_act main recv (\<lambda>m. queue_of m q) (Deliver i) r)"
    and "undisturbed q (run_act main recv (\<lambda>m. queue_of m q) (Deliver i) r)"
    and "party_maps (tr_pm (run_act main recv (\<lambda>m. queue_of m q) (Deliver i) r)) = party_maps (tr_pm r)"
proof -
  let ?r = "run_act main recv (\<lambda>m. queue_of m q) (Deliver i) r"
  have "run_ok ?r \<and> undisturbed q ?r \<and> party_maps (tr_pm ?r) = party_maps (tr_pm r)"
  proof (cases "tr_crash r \<or> i \<ge> length (tr_pending r)")
    case False
    obtain c msg where p: "tr_pending r ! i = (c, msg)" by fastforce
    obtain x m where ts: "try_send c msg (tr_pm r) = (x, m)" by fastforce
    have inp: "(c, msg) \<in> set (tr_pending r)" using False p nth_mem [of i "tr_pending r"] by simp
    then have c: "c < length (chans (tr_pm r))" and ok: "queues_ok (tr_pm r)"
      using assms(1) by (auto simp: run_ok_def)
    note sent = try_send_ok [OF ok c ts]
    obtain res where eq: "enqueue [] [] c msg (tr_pm r) = (res, m)" and crash: "res = Inl send_panic \<Longrightarrow> x = SendPanic"
      using ts by (cases x) (auto simp: enqueue_def send_panic_def)
    have r: "?r = r\<lparr>tr_pm := m, tr_pending := take i (tr_pending r) @ drop (Suc i) (tr_pending r),
        tr_crash := (res = Inl send_panic)\<rparr>"
      using False by (simp add: p eq)
    have sub: "set (take i (tr_pending r) @ drop (Suc i) (tr_pending r)) \<subseteq> set (tr_pending r)"
      using set_take_subset set_drop_subset by (metis le_sup_iff set_append)
    have "run_ok ?r"
      unfolding r using assms(1) sent sub by (auto simp: run_ok_def loop_ok_def split: loop_state.split)
    moreover have "undisturbed q ?r"
    proof -
      have "x \<noteq> SendPanic" if "tr_result r = None"
        using assms(2) that inp queues_okD(2) [OF ok, of q c] sent(4) by (force simp: undisturbed_def)
      then show ?thesis
        unfolding r using assms(2) sent(3) [of q] sub crash by (auto simp: undisturbed_def)
    qed
    moreover have "party_maps (tr_pm ?r) = party_maps (tr_pm r)"
      unfolding r using queue_party_maps(5) [of c msg "tr_pm r"] ts by simp
    ultimately show ?thesis by blast
  qed (use assms in auto)
  then show "run_ok ?r" "undisturbed q ?r" "party_maps (tr_pm ?r) = party_maps (tr_pm r)" by simp_all
qed

lemma run_keeps:
  assumes "run_ok r" and "undisturbed q r"
  shows "run_ok (fold (run_act main recv (\<lambda>m. queue_of m q)) acts r)
    \<and> undisturbed q (fold (run_act main recv (\<lambda>m. queue_of m q)) acts r)
    \<and> party_maps (tr_pm (fold (run_act main recv (\<lambda>m. queue_of m q)) acts r)) = party_maps (tr_pm r)"
  using assms
proof (induction acts arbitrary: r)
  case (Cons a acts)
  have "run_ok (run_act main recv (\<lambda>m. queue_of m q) a r)
      \<and> undisturbed q (run_act main recv (\<lambda>m. queue_of m q) a r)
      \<and> party_maps (tr_pm (run_act main recv (\<lambda>m. queue_of m q) a r)) = party_maps (tr_pm r)"
    using main_step [OF Cons.prems] receive_step [OF Cons.prems] arrive_step [OF Cons.prems]
      deliver_step [OF Cons.prems] by (cases a) blast+
  then show ?case using Cons.IH by simp
qed simp

lemma start_keeps:
  assumes "queues_ok m" and "loop_ok m l"
  shows "run_ok (fold (run_act main recv (\<lambda>m. queue_of m q)) acts (start_run l m w))"
    and "undisturbed q (fold (run_act main recv (\<lambda>m. queue_of m q)) acts (start_run l m w))"
    and "party_maps (tr_pm (fold (run_act main recv (\<lambda>m. queue_of m q)) acts (start_run l m w))) = party_maps m"
proof -
  have start: "run_ok (start_run l m w)" "undisturbed q (start_run l m w)"
    using assms by (simp_all add: start_run_def run_ok_def undisturbed_def)
  have "tr_pm (start_run l m w :: (_, 'd, _) tss_run) = m" by (simp add: start_run_def)
  then show "run_ok (fold (run_act main recv (\<lambda>m. queue_of m q)) acts (start_run l m w))"
    "undisturbed q (fold (run_act main recv (\<lambda>m. queue_of m q)) acts (start_run l m w))"
    "party_maps (tr_pm (fold (run_act main recv (\<lambda>m. queue_of m q)) acts (start_run l m w))) = party_maps m"
    using run_keeps [OF start, of acts] by simp_all
qed

end

section \<open>The four loops keep the contract\<close>

lemma queue_of_fields [simp]:
  "queue_of (m\<lparr>activeKeygen := a\<rparr>) q = queue_of m q"
  "queue_of (m\<lparr>activeSigning := b\<rparr>) q = queue_of m q"
  "queue_of (m\<lparr>activeEdDSAKeygen := c\<rparr>) q = queue_of m q"
  "queue_of (m\<lparr>activeEdDSASigning := d\<rparr>) q = queue_of m q"
  by (cases q; cases "fst q"; simp)+

lemma keygen_receive_ok:
  assumes "queues_ok m" and "loop_ok m l" and "keygen_receive lib k (l, m) = (l', m')"
  shows "queues_ok m' \<and> loop_ok m' l' \<and> same_frame m m' \<and> queue_of m' q = queue_of m q"
proof (cases l)
  case (Reading c)
  obtain x n where r: "try_recv c m = (x, n)" by fastforce
  have "c < length (chans m)" using assms(2) Reading by simp
  from try_recv_ok(1,2) [OF assms(1) this r] queue_party_maps(6) [of c m, unfolded r] try_recv_ok(3) [OF assms(1) this r, of q] assms(3) this
  show ?thesis
    by (auto simp: keygen_receive_def Reading r split: recv_result.splits option.splits)
qed (use assms in \<open>simp add: keygen_receive_def\<close>)

lemma eddsa_keygen_receive_ok:
  assumes "queues_ok m" and "loop_ok m l" and "eddsa_keygen_receive lib k (l, m) = (l', m')"
  shows "queues_ok m' \<and> loop_ok m' l' \<and> same_frame m m' \<and> queue_of m' q = queue_of m q"
proof (cases l)
  case (Reading c)
  obtain x n where r: "try_recv c m = (x, n)" by fastforce
  have "c < length (chans m)" using assms(2) Reading by simp
  from try_recv_ok(1,2) [OF assms(1) this r] queue_party_maps(6) [of c m, unfolded r] try_recv_ok(3) [OF assms(1) this r, of q] assms(3) this
  show ?thesis
    by (auto simp: eddsa_keygen_receive_def Reading r split: recv_result.splits option.splits)
qed (use assms in \<open>simp add: eddsa_keygen_receive_def\<close>)

lemma signing_receive_ok:
  assumes "queues_ok m" and "loop_ok m l" and "signing_receive lib k (l, m) = (l', m')"
  shows "queues_ok m' \<and> loop_ok m' l' \<and> same_frame m m' \<and> queue_of m' q = queue_of m q"
proof (cases l)
  case (Reading c)
  obtain x n where r: "try_recv c m = (x, n)" by fastforce
  have "c < length (chans m)" using assms(2) Reading by simp
  from try_recv_ok(1,2) [OF assms(1) this r] queue_party_maps(6) [of c m, unfolded r] try_recv_ok(3) [OF assms(1) this r, of q]
    queues_okD(2) [of n "(False, k)"] assms(3) this
  show ?thesis
    by (auto simp: signing_receive_def Reading r split: recv_result.splits option.splits)
qed (use assms in \<open>simp add: signing_receive_def\<close>)

text \<open>What a turn of a main loop does to the manager.\<close>

definition ends :: "('m, 'd) tss_event \<Rightarrow> bool" where
  "ends ev \<longleftrightarrow> (case ev of EndMsg _ \<Rightarrow> True | ErrMsg _ _ \<Rightarrow> True | _ \<Rightarrow> False)"

lemma keygen_main_pm:
  assumes "keygen_main lib router k this ev (m, w) = (r, m', w')"
  shows "m' = (if ends ev then drop_keygen_queue k (m\<lparr>activeKeygen := (activeKeygen m)(k := None)\<rparr>) else m)"
    and "ends ev \<Longrightarrow> r \<noteq> None"
  using assms
  by (cases ev; force simp: keygen_main_def ends_def Let_def split: option.splits if_splits prod.splits sum.splits)+

lemma eddsa_keygen_main_pm:
  assumes "eddsa_keygen_main lib router k this ev (m, w) = (r, m', w')"
  shows "m' = (if ends ev then drop_keygen_queue k (m\<lparr>activeEdDSAKeygen := (activeEdDSAKeygen m)(k := None)\<rparr>) else m)"
    and "ends ev \<Longrightarrow> r \<noteq> None"
  using assms
  by (cases ev; force simp: eddsa_keygen_main_def ends_def Let_def split: option.splits if_splits prod.splits sum.splits)+

lemma signing_main_pm:
  assumes "signing_main lib router opts k this ev (m, w) = (r, m', w')"
  shows "m' = (if ends ev then drop_signing_queue k (m\<lparr>activeSigning := (activeSigning m)(k := None)\<rparr>) else m)"
    and "ends ev \<Longrightarrow> r \<noteq> None"
  using assms
  by (cases ev; force simp: signing_main_def ends_def Let_def split: option.splits if_splits prod.splits sum.splits)+

lemma eddsa_signing_main_pm:
  assumes "eddsa_signing_main lib router opts k this ev (m, w) = (r, m', w')"
  shows "m' = (if ends ev then m\<lparr>activeEdDSASigning := (activeEdDSASigning m)(k := None)\<rparr> else m)"
    and "ends ev \<Longrightarrow> r \<noteq> None"
  using assms
  by (cases ev; force simp: eddsa_signing_main_def ends_def Let_def split: option.splits if_splits prod.splits sum.splits)+

lemma keygen_main_contract:
  "queues_ok m \<Longrightarrow> keygen_main lib router k this ev (m, w) = (r, m', w')
     \<Longrightarrow> queues_ok m' \<and> same_frame m m'"
  "keygen_main lib router k this ev (m, w) = (None, m', w') \<Longrightarrow> m' = m"
  using keygen_main_pm [of lib router k this ev m w r m' w'] drop_queue_ok(1) [of "m\<lparr>activeKeygen := (activeKeygen m)(k := None)\<rparr>" k]
    keygen_main_pm [of lib router k this ev m w None m' w']
  by (simp_all add: drop_queue_length split: if_splits)

lemma eddsa_keygen_main_contract:
  "queues_ok m \<Longrightarrow> eddsa_keygen_main lib router k this ev (m, w) = (r, m', w')
     \<Longrightarrow> queues_ok m' \<and> same_frame m m'"
  "eddsa_keygen_main lib router k this ev (m, w) = (None, m', w') \<Longrightarrow> m' = m"
  using eddsa_keygen_main_pm [of lib router k this ev m w r m' w'] drop_queue_ok(1) [of "m\<lparr>activeEdDSAKeygen := (activeEdDSAKeygen m)(k := None)\<rparr>" k]
    eddsa_keygen_main_pm [of lib router k this ev m w None m' w']
  by (simp_all add: drop_queue_length split: if_splits)

lemma signing_main_contract:
  "queues_ok m \<Longrightarrow> signing_main lib router opts k this ev (m, w) = (r, m', w')
     \<Longrightarrow> queues_ok m' \<and> same_frame m m'"
  "signing_main lib router opts k this ev (m, w) = (None, m', w') \<Longrightarrow> m' = m"
  using signing_main_pm [of lib router opts k this ev m w r m' w'] drop_queue_ok(2) [of "m\<lparr>activeSigning := (activeSigning m)(k := None)\<rparr>" k]
    signing_main_pm [of lib router opts k this ev m w None m' w']
  by (simp_all add: drop_queue_length split: if_splits)

lemma eddsa_signing_main_contract:
  "queues_ok m \<Longrightarrow> eddsa_signing_main lib router opts k this ev (m, w) = (r, m', w')
     \<Longrightarrow> queues_ok m' \<and> same_frame m m'"
  "eddsa_signing_main lib router opts k this ev (m, w) = (None, m', w') \<Longrightarrow> m' = m"
  using eddsa_signing_main_pm [of lib router opts k this ev m w r m' w'] 
    eddsa_signing_main_pm [of lib router opts k this ev m w None m' w']
  by (simp_all add: drop_queue_length split: if_splits)

interpretation keygen_loops: session_loop "keygen_main lib router k this" "keygen_receive lib k" "(True, k)"
  by unfold_locales (fact keygen_main_contract keygen_receive_ok)+

interpretation eddsa_keygen_loops: session_loop "eddsa_keygen_main lib router k this" "eddsa_keygen_receive lib k" "(True, k)"
  by unfold_locales (fact eddsa_keygen_main_contract eddsa_keygen_receive_ok)+

interpretation signing_loops: session_loop "signing_main lib router opts k this" "signing_receive lib k" "(False, k)"
  by unfold_locales (fact signing_main_contract signing_receive_ok)+

interpretation eddsa_signing_loops: session_loop "eddsa_signing_main lib router opts k this" "\<lambda>s. s" "(False, k)"
  by unfold_locales (fact eddsa_signing_main_contract | simp)+

end
