(* ===== verification/TssClaims.thy ===== *)
theory TssClaims
  imports TssProps
begin

text \<open>
  What the party manager promises over all sessions and schedules, and where it
  breaks: the queues, the panic of a late handler, an abandoned key generation, the
  order of messages, the maps of parties and nodes, and broadcasts.
\<close>

section \<open>Beginning a session\<close>

lemma setupPartyIDs_frame [simp]:
  "queues_ok (setupPartyIDs lib ns m) = queues_ok m"
  "activeKeygen (setupPartyIDs lib ns m) = activeKeygen m"
  "activeEdDSASigning (setupPartyIDs lib ns m) = activeEdDSASigning m"
  by (induction lib ns m rule: setupPartyIDs.induct) (simp_all add: Let_def)

lemma prepare_frame:
  assumes "prepare lib cv ids t this m = (r, m')"
  shows "m' = setupPartyIDs lib ids m"
  using assms by (auto simp: prepare_def Let_def split: sum.splits option.splits)

lemma open_queue_frame [simp]:
  "activeKeygen (snd (open_keygen_queue k m)) = activeKeygen m"
  "activeEdDSAKeygen (snd (open_keygen_queue k m)) = activeEdDSAKeygen m"
  "activeSigning (snd (open_signing_queue k m)) = activeSigning m"
  by (simp_all add: open_keygen_queue_def open_signing_queue_def make_chan_def split: option.split)

lemma prepare_snd [simp]: "snd (prepare lib cv ids t this m) = setupPartyIDs lib ids m"
  by (metis prepare_frame surjective_pairing)

lemma prepare_InlD:
  assumes "prepare lib cv ids t this m = (Inl e, m')"
  shows "(\<exists>e'. e = wrap_err ''get party IDs'' e') \<or> (\<exists>x. e = Err (''this node'' @ x))"
  using assms by (auto simp: prepare_def Let_def split: sum.splits option.splits)

text \<open>A channel is made after the maps and the party are set.\<close>

lemma begin_keygen_cases:
  assumes "begin_keygen lib k ids t this m = (r, m')"
  obtains (exists_already) "activeKeygen m k \<noteq> None" "m' = m"
      "r = Inl (Err (''DKG instance already exists for keyID '' @ k @ '' (sync.Once should have prevented this)''))"
    | (refused) e where "activeKeygen m k = None" "m' = setupPartyIDs lib (sort ids) m" "r = Inl e"
      "(\<exists>e'. e = wrap_err ''get party IDs'' e') \<or> (\<exists>x. e = Err (''this node'' @ x))"
    | (begun) n params where "activeKeygen m k = None" "n = setupPartyIDs lib (sort ids) m"
      "r = Inr (fst (open_keygen_queue k (n\<lparr>activeKeygen := (activeKeygen n)(k \<mapsto> tl_keygen lib params),
                     sessionIDMap := (sessionIDMap n)(k \<mapsto> k)\<rparr>)))"
      "m' = snd (open_keygen_queue k (n\<lparr>activeKeygen := (activeKeygen n)(k \<mapsto> tl_keygen lib params),
                     sessionIDMap := (sessionIDMap n)(k \<mapsto> k)\<rparr>))"
proof (cases "activeKeygen m k")
  case None
  obtain x n where p: "prepare lib S256 (sort ids) (\<lambda>_. t) this m = (x, n)" by fastforce
  note n = prepare_frame [OF p]
  show ?thesis
  proof (cases x)
    case (Inl e)
    show ?thesis
      by (rule refused [of e]) (use assms p n None Inl prepare_InlD [OF p [unfolded Inl]] in \<open>simp_all add: begin_keygen_def\<close>)
  next
    case (Inr params)
    show ?thesis
      by (rule begun [of n params]) (use assms p n None Inr in \<open>simp_all add: begin_keygen_def Let_def split_beta\<close>)
  qed
next
  case (Some p)
  then show ?thesis by (intro exists_already) (use assms in \<open>simp_all add: begin_keygen_def\<close>)
qed

lemma begin_keygen_ok:
  assumes "queues_ok m" and "begin_keygen lib k ids t this m = (r, m')"
  shows "queues_ok m'"
    and "r = Inr c \<Longrightarrow> queue_of m' (True, k) = Some c \<and> c < length (chans m') \<and> activeKeygen m' k \<noteq> None"
proof -
  from assms(2) have "queues_ok m' \<and> (\<forall>c. r = Inr c \<longrightarrow> queue_of m' (True, k) = Some c \<and> activeKeygen m' k \<noteq> None)"
  proof (cases rule: begin_keygen_cases)
    case (begun n params)
    then have "queues_ok n" using assms(1) by simp
    then show ?thesis
      unfolding begun(3,4) using open_queue_ok(1,3) [of "n\<lparr>activeKeygen := (activeKeygen n)(k \<mapsto> tl_keygen lib params),
                     sessionIDMap := (sessionIDMap n)(k \<mapsto> k)\<rparr>" k] by simp
  qed (use assms(1) in auto)
  then show "queues_ok m'"
    and "r = Inr c \<Longrightarrow> queue_of m' (True, k) = Some c \<and> c < length (chans m') \<and> activeKeygen m' k \<noteq> None"
    using queues_okD(2) [where m = m' and q = "(True, k)" and c = c] by auto
qed

text \<open>The contract's facts for the four runs as the code starts them.\<close>

lemmas runs_def = keygen_run_def eddsa_keygen_run_def signing_run_def eddsa_signing_run_def

lemma runs_keep:
  assumes "queues_ok m" and "loop_ok m l"
  shows "run_ok (keygen_run lib router k this acts (start_run l m w))"
    and "run_ok (eddsa_keygen_run lib router k this acts (start_run l m w))"
    and "run_ok (signing_run lib router opts k this sacts (start_run l m w))"
    and "run_ok (eddsa_signing_run lib router opts k this sacts (start_run l m w))"
    and "party_maps (tr_pm (keygen_run lib router k this acts (start_run l m w))) = party_maps m"
    and "party_maps (tr_pm (eddsa_keygen_run lib router k this acts (start_run l m w))) = party_maps m"
    and "party_maps (tr_pm (signing_run lib router opts k this sacts (start_run l m w))) = party_maps m"
    and "party_maps (tr_pm (eddsa_signing_run lib router opts k this sacts (start_run l m w))) = party_maps m"
  using keygen_loops.start_keeps(1,3) [OF assms] eddsa_keygen_loops.start_keeps(1,3) [OF assms]
    signing_loops.start_keeps(1,3) [OF assms] eddsa_signing_loops.start_keeps(1,3) [OF assms]
  by (simp_all add: runs_def)

lemma keygen_run_keeps:
  assumes "queues_ok m" and "begin_keygen lib k ids t this m = (Inr c, m1)"
  shows "run_ok (keygen_run lib router k this acts (start_run (Reading c) m1 w))"
    and "undisturbed (True, k) (keygen_run lib router k this acts (start_run (Reading c) m1 w))"
    and "party_maps (tr_pm (keygen_run lib router k this acts (start_run (Reading c) m1 w))) = party_maps m1"
  using keygen_loops.start_keeps [where m = m1 and l = "Reading c"] begin_keygen_ok(1) [OF assms] begin_keygen_ok(2) [OF assms HOL.refl]
  by (simp_all add: keygen_run_def)

section \<open>A late handler\<close>

text \<open>
  C13: While a key generation waits, along every schedule, no handler panics; and when
  its party ends, by a result or by an error, while a handler stands between finding
  the queue and sending to it, this handler sends on a closed channel: the process
  panics.
\<close>

theorem handler_caught_by_end_panics:
  assumes "queues_ok m" and "begin_keygen lib k ids t this m = (Inr c, m1)"
    and "r = keygen_run lib router k this acts (start_run (Reading c) m1 w)" and "tr_result r = None"
    and "ev = EndMsg d \<or> ev = ErrMsg e culprits"
  shows "\<not> tr_crash r
    \<and> (\<forall>i < length (tr_pending r). tr_crash (keygen_run lib router k this [Main ev, Deliver i] r))"
proof -
  note kept = keygen_run_keeps [OF assms(1,2), of router acts w, folded assms(3)]
  have crash: "\<not> tr_crash r" and pend: "\<And>p. p \<in> set (tr_pending r) \<Longrightarrow> queue_of (tr_pm r) (True, k) = Some (fst p)"
    using kept(2) assms(4) by (auto simp: undisturbed_def)
  have "tr_crash (keygen_run lib router k this [Main ev, Deliver i] r)" if i: "i < length (tr_pending r)" for i
  proof -
    obtain x m2 w2 where ev: "keygen_main lib router k this ev (tr_pm r, tr_wire r) = (x, m2, w2)" by (rule prod_cases3)
    obtain c' msg where p: "tr_pending r ! i = (c', msg)" by fastforce
    have q: "incomingKeygenMessages (tr_pm r) k = Some c'" using pend [OF nth_mem [OF i]] p by simp
    have "c' < length (chans (tr_pm r))" using kept(1) queues_okD(2) [where m = "tr_pm r" and q = "(True, k)" and c = c'] q by (simp add: run_ok_def)
    moreover have "m2 = drop_keygen_queue k ((tr_pm r)\<lparr>activeKeygen := (activeKeygen (tr_pm r))(k := None)\<rparr>)"
      using keygen_main_pm(1) [OF ev] assms(5) by (auto simp: ends_def)
    ultimately have "ch_closed (chans m2 ! c')" by (simp add: drop_keygen_queue_def close_chan_def q)
    then have "enqueue [] [] c' msg m2 = (Inl send_panic, m2)" by (simp add: enqueue_def try_send_def)
    with crash assms(4) i show ?thesis by (simp add: keygen_run_def ev p)
  qed
  with crash show ?thesis by blast
qed

text \<open>A party that keeps the bytes it gets, for the examples.\<close>

definition toy_tss :: "(byte list list, nat) tss_lib" where
  "toy_tss = \<lparr>tl_sha256 = (\<lambda>bs. bs), tl_sort = (\<lambda>ps. ps), tl_range = (\<lambda>x. x), tl_range_ids = (\<lambda>x. x),
     tl_keygen = (\<lambda>_. []), tl_signing = (\<lambda>_ _ _. []), tl_update = (\<lambda>p bs _ _. (p @ [bs], True))\<rparr>"

definition toy_message :: incomingMessage where
  "toy_message = \<lparr>im_bytes = [7], im_from = ''b'', im_broadcast = False\<rparr>"

lemma handler_caught_by_end_panics_witness:
  "tr_crash (keygen_run toy_tss (None :: (nat, nat) router option) ''k'' ''a'' [Main (EndMsg (Some 1)), Deliver 0]
     (keygen_run toy_tss (None :: (nat, nat) router option) ''k'' ''a'' [Arrive toy_message]
        (start_run (Reading 0) (snd (begin_keygen toy_tss ''k'' [''a'', ''b''] 1 ''a'' newTSSPartyManager)) 0)))"
proof -
  let ?b = "begin_keygen toy_tss ''k'' [''a'', ''b''] 1 ''a'' newTSSPartyManager"
  let ?r = "keygen_run toy_tss (None :: (nat, nat) router option) ''k'' ''a'' [Arrive toy_message] (start_run (Reading 0) (snd ?b) 0)"
  have "fst ?b = Inr 0" by code_simp
  then have b: "?b = (Inr 0, snd ?b)" by (metis prod.collapse)
  have "incomingKeygenMessages (snd ?b) ''k'' = Some 0" by code_simp
  then have "tr_result ?r = None" and n: "0 < length (tr_pending ?r)"
    by (simp_all add: keygen_run_def start_run_def)
  from handler_caught_by_end_panics [OF queues_ok_new b HOL.refl this(1) disjI1, of "EndMsg (Some 1)"] n
  show ?thesis by simp
qed

section \<open>An abandoned key generation\<close>

text \<open>The party stays registered as long as the run waits or was given up; it is gone after a result.\<close>

definition party_held :: "string \<Rightarrow> ('p, 'd, 'w) tss_run \<Rightarrow> bool" where
  "party_held k r \<longleftrightarrow>
     (case tr_result r of
        None \<Rightarrow> activeKeygen (tr_pm r) k \<noteq> None
      | Some (Inl (Err e)) \<Rightarrow> e \<noteq> ''keygen returned nil save data'' \<longrightarrow> activeKeygen (tr_pm r) k \<noteq> None
      | Some (Inl _) \<Rightarrow> True
      | Some (Inr _) \<Rightarrow> activeKeygen (tr_pm r) k = None)"

lemma drop_queue_active [simp]:
  "activeKeygen (drop_keygen_queue k m) = activeKeygen m"
  "activeKeygen (snd (try_recv c m)) = activeKeygen m"
  "activeKeygen (snd (try_send c msg m)) = activeKeygen m"
  by (auto simp: drop_keygen_queue_def close_chan_def try_recv_def try_send_def Let_def split: option.split list.split)

lemma enqueue_active [simp]: "activeKeygen (snd (enqueue kind sid c msg m)) = activeKeygen m"
proof -
  obtain x n where t: "try_send c msg m = (x, n)" by fastforce
  then show ?thesis using drop_queue_active(3) [of c msg m] by (cases x) (simp_all add: enqueue_def)
qed

lemma main_holds:
  assumes "party_held k r" and "tr_result r = None"
    and "keygen_main lib router k this ev (tr_pm r, tr_wire r) = (res, m, w)"
  shows "party_held k (r\<lparr>tr_pm := m, tr_wire := w, tr_result := res\<rparr>)"
proof -
  have held: "activeKeygen (tr_pm r) k \<noteq> None" using assms(1,2) by (simp add: party_held_def)
  show ?thesis
  proof (cases "ends ev")
    case True
    then have "m = drop_keygen_queue k ((tr_pm r)\<lparr>activeKeygen := (activeKeygen (tr_pm r))(k := None)\<rparr>)"
      and "(\<exists>d. res = Some (Inr d)) \<or> res = Some (Inl (Err ''keygen returned nil save data'')) \<or> (\<exists>e f. res = Some (Inl (Wrap e f)))"
      using keygen_main_pm(1) [OF assms(3)] assms(3)
      by (cases ev; force simp: ends_def keygen_main_def Let_def split: option.splits)+
    then show ?thesis by (auto simp: party_held_def)
  next
    case False
    then have m: "m = tr_pm r" using keygen_main_pm(1) [OF assms(3)] by simp
    have "res \<noteq> Some (Inr d)" for d
      using False assms(3) by (cases ev; force simp: ends_def keygen_main_def Let_def
        split: option.splits if_splits prod.splits sum.splits)
    then show ?thesis using held m by (auto simp: party_held_def split: option.split sum.split err.split)
  qed
qed

lemma receive_holds:
  assumes "keygen_receive lib k (l, m) = (l', m')"
  shows "activeKeygen m' k = None \<longleftrightarrow> activeKeygen m k = None"
proof (cases l)
  case (Reading c)
  obtain x n where r: "try_recv c m = (x, n)" by fastforce
  then have "activeKeygen n = activeKeygen m" using drop_queue_active(2) by (metis snd_conv)
  then show ?thesis using assms
    by (auto simp: keygen_receive_def Reading r inject_def split: recv_result.splits option.splits)
qed (use assms in \<open>simp add: keygen_receive_def\<close>)

lemma party_held_pm:
  assumes "party_held k r" and "tr_result r' = tr_result r"
    and "activeKeygen (tr_pm r') k = None \<longleftrightarrow> activeKeygen (tr_pm r) k = None"
  shows "party_held k r'"
  using assms by (auto simp: party_held_def split: option.splits sum.splits err.splits)

lemma keygen_act_holds:
  assumes "party_held k r"
  shows "party_held k (run_act (keygen_main lib router k this) (keygen_receive lib k) qf a r)"
proof (cases a)
  case (Main ev)
  obtain res m w where "keygen_main lib router k this ev (tr_pm r, tr_wire r) = (res, m, w)" by (rule prod_cases3)
  with main_holds [OF assms _ this] assms Main show ?thesis by simp
next
  case Receive
  obtain l m where "keygen_receive lib k (tr_loop r, tr_pm r) = (l, m)" by fastforce
  with receive_holds [OF this] assms Receive show ?thesis by (auto intro: party_held_pm)
next
  case (Arrive msg)
  then show ?thesis using assms by (auto intro: party_held_pm split: option.split)
next
  case (Deliver i)
  show ?thesis
  proof (rule party_held_pm [OF assms])
    let ?r = "run_act (keygen_main lib router k this) (keygen_receive lib k) qf a r"
    show "tr_result ?r = tr_result r" by (simp add: Deliver split_beta Let_def)
    show "activeKeygen (tr_pm ?r) k = None \<longleftrightarrow> activeKeygen (tr_pm r) k = None"
      by (simp add: Deliver split_beta Let_def)
  qed
qed

lemma keygen_run_holds:
  assumes "party_held k r"
  shows "party_held k (keygen_run lib router k this acts r)"
  using assms by (induction acts arbitrary: r) (simp_all add: keygen_run_def keygen_act_holds)

text \<open>
  C30: A key generation that is given up, by its context, its timer, a missing router
  or an unknown target, leaves its party behind: every later attempt under the same
  key id is refused without a run, whatever its nodes, threshold and schedule. After
  a result the id is free again.
\<close>

theorem abandoned_keygen_blocks_retry:
  assumes "queues_ok m" and "begin_keygen lib k ids t this m = (Inr c, m1)"
    and "executeKeygen lib router k ids t this acts m w = (Some res, m', w')"
  shows "(\<forall>e. res = Inl (Err e) \<and> e \<noteq> ''keygen returned nil save data'' \<longrightarrow>
        executeKeygen lib router' k ids' t' this' acts' m' v
          = (Some (Inl (Err (''DKG instance already exists for keyID '' @ k
               @ '' (sync.Once should have prevented this)''))), m', v))
    \<and> (\<forall>d. res = Inr d \<longrightarrow> activeKeygen m' k = None)"
proof -
  let ?r = "keygen_run lib router k this acts (start_run (Reading c) m1 w)"
  have "party_held k (start_run (Reading c) m1 w :: ('a, 'b, 'c) tss_run)"
    using begin_keygen_ok(2) [OF assms(1,2) HOL.refl] by (simp add: party_held_def start_run_def)
  note held = keygen_run_holds [OF this, of lib router this acts]
  from assms(3) have "tr_result ?r = Some res" and m': "tr_pm ?r = m'"
    by (simp_all add: executeKeygen_def assms(2) outcome_of_def)
  with held have "case res of Inl (Err e) \<Rightarrow> e \<noteq> ''keygen returned nil save data'' \<longrightarrow> activeKeygen m' k \<noteq> None
      | Inl _ \<Rightarrow> True | Inr _ \<Rightarrow> activeKeygen m' k = None"
    unfolding party_held_def m' by simp
  then show ?thesis by (auto simp: executeKeygen_def begin_keygen_def)
qed

lemma abandoned_keygen_blocks_retry_witness:
  "fst (executeKeygen toy_tss (None :: (nat, nat) router option) ''k'' [''a'', ''b''] 1 ''a'' []
     (fst (snd (executeKeygen toy_tss (None :: (nat, nat) router option) ''k'' [''a'', ''b''] 1 ''a'' [Main TimerFired]
        newTSSPartyManager 0))) 0)
   = Some (Inl (Err ''DKG instance already exists for keyID k (sync.Once should have prevented this)''))"
proof -
  let ?b = "begin_keygen toy_tss ''k'' [''a'', ''b''] 1 ''a'' newTSSPartyManager"
  let ?x = "executeKeygen toy_tss (None :: (nat, nat) router option) ''k'' [''a'', ''b''] 1 ''a'' [Main TimerFired]
        newTSSPartyManager 0"
  have "fst ?b = Inr 0" by code_simp
  then have b: "?b = (Inr 0, snd ?b)" by (metis prod.collapse)
  have "fst ?x = Some (Inl (Err ''keygen timeout''))"
    by (subst executeKeygen_def, subst b) (simp add: keygen_run_def start_run_def outcome_of_def keygen_main_def Let_def)
  then have x: "?x = (Some (Inl (Err ''keygen timeout'')), fst (snd ?x), snd (snd ?x))" by (simp add: prod_eq_iff)
  from abandoned_keygen_blocks_retry [OF queues_ok_new b x, where router' = "None :: (nat, nat) router option"]
  show ?thesis by simp
qed

section \<open>The manager over all sessions\<close>

text \<open>The two maps describe the same nodes: a node's party carries its id, and its party id leads back to it.\<close>

definition maps_ok :: "('p, 'd) tss_lib \<Rightarrow> (string \<times> PartyID) list \<times> (string \<times> string) list \<Rightarrow> bool" where
  "maps_ok lib mp \<longleftrightarrow> (\<forall>n p. map_of (fst mp) n = Some p \<longrightarrow> p = party_of_node lib n \<and> map_of (snd mp) n = Some n)"

definition pm_ok :: "('p, 'd) tss_lib \<Rightarrow> 'p tssPartyManager \<Rightarrow> bool" where
  "pm_ok lib m \<longleftrightarrow> queues_ok m \<and> maps_ok lib (party_maps m)"

lemma map_of_snoc: "map_of (xs @ [(a, b)]) n = (case map_of xs n of None \<Rightarrow> if n = a then Some b else None | Some y \<Rightarrow> Some y)"
  by (simp add: map_of_append map_add_def split: option.split)

lemma setup_maps_ok:
  "maps_ok lib (party_maps m) \<Longrightarrow> maps_ok lib (party_maps (setupPartyIDs lib ns m))"
proof (induction lib ns m rule: setupPartyIDs.induct)
  case (2 lib n ns m)
  show ?case
  proof (cases "map_of (nodeIDToPartyID m) n")
    case None
    let ?m = "m\<lparr>nodeIDToPartyID := nodeIDToPartyID m @ [(n, party_of_node lib n)],
        partyIDToNodeID := AList.update (pt_Id (party_of_node lib n)) n (partyIDToNodeID m)\<rparr>"
    have id: "pt_Id (party_of_node lib n) = n" by (simp add: party_of_node_def)
    have "maps_ok lib (party_maps ?m)"
      using "2.prems" None
      by (auto simp: maps_ok_def party_maps_def map_of_snoc id update_conv' split: option.splits if_splits)
    then show ?thesis using "2.IH"(2) [OF _ HOL.refl] None by (simp add: Let_def)
  next
    case (Some p)
    then show ?thesis using "2.IH"(1) "2.prems" by simp
  qed
qed simp

lemma setup_known:
  "n \<in> set ns \<or> map_of (nodeIDToPartyID m) n \<noteq> None \<Longrightarrow> map_of (nodeIDToPartyID (setupPartyIDs lib ns m)) n \<noteq> None"
  by (induction lib ns m rule: setupPartyIDs.induct) (auto simp: Let_def map_of_snoc split: option.splits)

lemma setup_pm_ok: "pm_ok lib m \<Longrightarrow> pm_ok lib (setupPartyIDs lib ns m)"
  by (simp add: pm_ok_def setup_maps_ok)

lemma pm_ok_fields [simp]:
  "pm_ok lib (m\<lparr>activeKeygen := a\<rparr>) = pm_ok lib m"
  "pm_ok lib (m\<lparr>activeSigning := a\<rparr>) = pm_ok lib m"
  "pm_ok lib (m\<lparr>activeEdDSAKeygen := a\<rparr>) = pm_ok lib m"
  "pm_ok lib (m\<lparr>activeEdDSASigning := a\<rparr>) = pm_ok lib m"
  "pm_ok lib (m\<lparr>sessionIDMap := x\<rparr>) = pm_ok lib m"
  by (simp_all add: pm_ok_def)

lemma open_queue_pm_ok:
  assumes "pm_ok lib m"
  shows "pm_ok lib (snd (open_keygen_queue k m))" "pm_ok lib (snd (open_signing_queue k m))"
    and "loop_ok (snd (open_keygen_queue k m)) (Reading (fst (open_keygen_queue k m)))"
    and "loop_ok (snd (open_signing_queue k m)) (Reading (fst (open_signing_queue k m)))"
proof -
  have ok: "queues_ok m" using assms by (simp add: pm_ok_def)
  show "pm_ok lib (snd (open_keygen_queue k m))" "pm_ok lib (snd (open_signing_queue k m))"
    using open_queue_ok [OF ok] assms by (simp_all add: pm_ok_def)
  show "loop_ok (snd (open_keygen_queue k m)) (Reading (fst (open_keygen_queue k m)))"
    using queues_okD(2) [OF open_queue_ok(1) [OF ok] open_queue_ok(3) [OF ok]] by simp
  show "loop_ok (snd (open_signing_queue k m)) (Reading (fst (open_signing_queue k m)))"
    using queues_okD(2) [OF open_queue_ok(2) [OF ok] open_queue_ok(4) [OF ok]] by simp
qed

text \<open>What the beginning of a session leaves; a channel it returns exists.\<close>

definition begun :: "('p, 'd) tss_lib \<Rightarrow> ('p tssPartyManager, nat) res \<Rightarrow> bool" where
  "begun lib r \<longleftrightarrow> pm_ok lib (snd r) \<and> (\<forall>c. fst r = Inr c \<longrightarrow> loop_ok (snd r) (Reading c))"

lemma prepared_begun:
  assumes "pm_ok lib m" and "\<And>params n. pm_ok lib n \<Longrightarrow> begun lib (f params n)"
  shows "begun lib (or_return (prepare lib cv ns th this m) f)"
proof -
  obtain x n where p: "prepare lib cv ns th this m = (x, n)" by fastforce
  have "pm_ok lib n" using prepare_frame [OF p] setup_pm_ok [OF assms(1)] by simp
  then show ?thesis using assms(2) by (cases x) (simp_all add: p begun_def)
qed

lemma opened_begun:
  assumes "pm_ok lib m"
  shows "begun lib (case open_keygen_queue k m of (c, m) \<Rightarrow> (Inr c, m))"
    and "begun lib (case open_signing_queue k m of (c, m) \<Rightarrow> (Inr c, m))"
  using open_queue_pm_ok [OF assms, of k] by (simp_all add: begun_def split_beta)

lemma begin_pm_ok:
  assumes "pm_ok lib m"
  shows "begun lib (begin_keygen lib k ids t this m)"
    and "begun lib (begin_eddsa_keygen lib k ids t this m)"
    and "begun lib (begin_signing lib k msg ids this d m)"
    and "pm_ok lib (snd (begin_eddsa_signing lib k msg ids this d m))"
proof -
  show "begun lib (begin_keygen lib k ids t this m)"
    unfolding begin_keygen_def Let_def
    using assms by (auto intro!: prepared_begun opened_begun simp: begun_def [of _ "(Inl _, m)"])
  show "begun lib (begin_eddsa_keygen lib k ids t this m)" "begun lib (begin_signing lib k msg ids this d m)"
    unfolding begin_eddsa_keygen_def begin_signing_def Let_def
    by (intro prepared_begun opened_begun assms; simp)+
  obtain x n where p: "prepare lib Edwards ids (\<lambda>n. int n - 1) this m = (x, n)" by fastforce
  have "pm_ok lib n" using prepare_frame [OF p] setup_pm_ok [OF assms] by simp
  then show "pm_ok lib (snd (begin_eddsa_signing lib k msg ids this d m))"
    by (cases x) (simp_all add: begin_eddsa_signing_def p)
qed

text \<open>Each of the four operations keeps the manager in order.\<close>

lemma run_pm_ok:
  assumes "pm_ok lib m" and "run_ok r" and "party_maps (tr_pm r) = party_maps m"
  shows "pm_ok lib (fst (snd (outcome_of r)))"
  using assms by (simp add: pm_ok_def run_ok_def outcome_of_def)

lemma execute_pm_ok:
  assumes "pm_ok lib m"
  shows "pm_ok lib (fst (snd (executeKeygen lib router k ids t this acts m w)))"
    and "pm_ok lib (fst (snd (executeEdDSAKeygen lib router k ids t this acts m w)))"
    and "pm_ok lib (fst (snd (executeSigning lib router opts k msg ids this d sacts m w)))"
    and "pm_ok lib (fst (snd (executeEdDSASigning lib router opts k msg ids this d sacts m w)))"
proof -
  have q: "queues_ok n" if "pm_ok lib n" for n :: "'a tssPartyManager" using that by (simp add: pm_ok_def)
  show "pm_ok lib (fst (snd (executeKeygen lib router k ids t this acts m w)))"
  proof (cases "begin_keygen lib k ids t this m")
    case (Pair x n)
    with begin_pm_ok(1) [OF assms, of k ids t this] have n: "pm_ok lib n" "\<And>c. x = Inr c \<Longrightarrow> loop_ok n (Reading c)"
      by (auto simp: begun_def)
    then show ?thesis
      by (cases x) (auto simp: executeKeygen_def Pair intro!: run_pm_ok [OF n(1)] runs_keep [OF q [OF n(1)]])
  qed
  show "pm_ok lib (fst (snd (executeEdDSAKeygen lib router k ids t this acts m w)))"
  proof (cases "begin_eddsa_keygen lib k ids t this m")
    case (Pair x n)
    with begin_pm_ok(2) [OF assms, of k ids t this] have n: "pm_ok lib n" "\<And>c. x = Inr c \<Longrightarrow> loop_ok n (Reading c)"
      by (auto simp: begun_def)
    then show ?thesis
      by (cases x) (auto simp: executeEdDSAKeygen_def Pair intro!: run_pm_ok [OF n(1)] runs_keep [OF q [OF n(1)]])
  qed
  show "pm_ok lib (fst (snd (executeSigning lib router opts k msg ids this d sacts m w)))"
  proof (cases "begin_signing lib k msg ids this d m")
    case (Pair x n)
    with begin_pm_ok(3) [OF assms, of k msg ids this d] have n: "pm_ok lib n" "\<And>c. x = Inr c \<Longrightarrow> loop_ok n (Reading c)"
      by (auto simp: begun_def)
    then show ?thesis
      by (cases x) (auto simp: executeSigning_def Pair intro!: run_pm_ok [OF n(1)] runs_keep [OF q [OF n(1)]])
  qed
  show "pm_ok lib (fst (snd (executeEdDSASigning lib router opts k msg ids this d sacts m w)))"
  proof (cases "begin_eddsa_signing lib k msg ids this d m")
    case (Pair x n)
    with begin_pm_ok(4) [OF assms, of k msg ids this d] have n: "pm_ok lib n" by simp
    then show ?thesis
      by (cases x) (auto simp: executeEdDSASigning_def Pair intro!: run_pm_ok [OF n] runs_keep [OF q [OF n]])
  qed
qed

text \<open>A message that finds or waits for a queue: what the wait wakes up with was a queue of the manager.\<close>

lemma enqueue_pm_ok:
  assumes "pm_ok lib m" and "c < length (chans m)" and "enqueue kind sid c msg m = (r, m')"
  shows "pm_ok lib m'"
proof -
  obtain x n where t: "try_send c msg m = (x, n)" by fastforce
  then have "m' = n" using assms(3) by (cases x) (simp_all add: enqueue_def)
  moreover have "queues_ok n" using try_send_ok(1) [OF _ assms(2) t] assms(1) by (simp add: pm_ok_def)
  ultimately show ?thesis
    using assms(1) queue_party_maps(5) [of c msg m] t by (simp add: pm_ok_def)
qed

definition woken :: "wake list \<Rightarrow> nat set" where
  "woken ws = {c. Tick (Some c) \<in> set ws \<or> WaitTimeout (Some c) \<in> set ws}"

lemma wait_woken:
  "wait_keygen_queue sid n ws = Some (Inr c) \<Longrightarrow> c \<in> woken ws"
  "wait_signing_queue sid n ws = Some (Inr c) \<Longrightarrow> c \<in> woken ws"
  by (induction sid n ws rule: wait_keygen_queue.induct; force simp: woken_def)
     (induction sid n ws rule: wait_signing_queue.induct; force simp: woken_def)

inductive pm_step ::
  "('p, 'd) tss_lib \<Rightarrow> ('m, 'w) router option \<Rightarrow> 'p tssPartyManager \<times> 'w \<Rightarrow> 'p tssPartyManager \<times> 'w \<Rightarrow> bool"
  for lib :: "('p, 'd) tss_lib" and router :: "('m, 'w) router option" where
  keygen: "pm_step lib router (m, w) (snd (executeKeygen lib router k ids t this acts m w))"
| eddsa_keygen: "pm_step lib router (m, w) (snd (executeEdDSAKeygen lib router k ids t this acts m w))"
| signing: "pm_step lib router (m, w) (snd (executeSigning lib router opts k msg ids this d sacts m w))"
| eddsa_signing: "pm_step lib router (m, w) (snd (executeEdDSASigning lib router opts k msg ids this d sacts m w))"
| keygen_message: "ProcessIncomingKeygenMessage k im ws m = Some (r, m') \<Longrightarrow> \<forall>c \<in> woken ws. c < length (chans m)
    \<Longrightarrow> pm_step lib router (m, w) (m', w)"
| signing_message: "ProcessIncomingSigningMessage k im ws m = Some (r, m') \<Longrightarrow> \<forall>c \<in> woken ws. c < length (chans m)
    \<Longrightarrow> pm_step lib router (m, w) (m', w)"

lemma pm_step_ok:
  assumes "pm_step lib router s s'" and "pm_ok lib (fst s)"
  shows "pm_ok lib (fst s')"
  using assms
proof (induction rule: pm_step.induct)
  case (keygen_message k im ws m r m' w)
  have ok: "queues_ok m" using keygen_message.prems by (simp add: pm_ok_def)
  from keygen_message.hyps(1) show ?case
  proof (auto simp: ProcessIncomingKeygenMessage_def find_keygen_queue_def split: option.splits sum.splits)
    fix c assume "incomingKeygenMessages m k = Some c" "enqueue ''keygen'' k c im m = (r, m')"
    then show "pm_ok lib m'"
      using enqueue_pm_ok [of lib m c] keygen_message.prems queues_okD(2) [OF ok, of "(True, k)" c] by simp
  next
    fix c assume "wait_keygen_queue k 0 ws = Some (Inr c)" "enqueue ''keygen'' k c im m = (r, m')"
    then show "pm_ok lib m'"
      using enqueue_pm_ok [of lib m c] keygen_message.prems keygen_message.hyps(2) wait_woken(1) by force
  qed (use keygen_message.prems in simp_all)
next
  case (signing_message k im ws m r m' w)
  have ok: "queues_ok m" using signing_message.prems by (simp add: pm_ok_def)
  from signing_message.hyps(1) show ?case
  proof (auto simp: ProcessIncomingSigningMessage_def find_signing_queue_def split: option.splits sum.splits)
    fix c assume "incomingSigningMessages m k = Some c" "enqueue ''signing'' k c im m = (r, m')"
    then show "pm_ok lib m'"
      using enqueue_pm_ok [of lib m c] signing_message.prems queues_okD(2) [OF ok, of "(False, k)" c] by simp
  next
    fix c assume "wait_signing_queue k 0 ws = Some (Inr c)" "enqueue ''signing'' k c im m = (r, m')"
    then show "pm_ok lib m'"
      using enqueue_pm_ok [of lib m c] signing_message.prems signing_message.hyps(2) wait_woken(2) by force
  qed (use signing_message.prems in simp_all)
qed (simp_all add: execute_pm_ok)

lemma pm_ok_new: "pm_ok lib newTSSPartyManager"
  using queues_ok_new by (simp add: pm_ok_def maps_ok_def party_maps_def) (simp add: newTSSPartyManager_def)

lemma pm_run_ok:
  assumes "(pm_step lib router)\<^sup>*\<^sup>* (newTSSPartyManager, w0) (m, w)"
  shows "pm_ok lib m"
proof -
  have "pm_ok lib (fst s)" if "(pm_step lib router)\<^sup>*\<^sup>* (newTSSPartyManager, w0) s" for s
    using that by (induction rule: rtranclp_induct) (simp_all add: pm_ok_new pm_step_ok)
  from this [OF assms] show ?thesis by simp
qed


text \<open>Two sessions under one id: a key generation and a signing, both still running.\<close>

definition toy_keygen :: "byte list list tssPartyManager \<times> nat" where
  "toy_keygen = snd (executeKeygen toy_tss (None :: (nat, nat) router option) ''k'' [''a'', ''b''] 1 ''a'' []
     newTSSPartyManager 0)"

definition toy_manager :: "byte list list tssPartyManager \<times> nat" where
  "toy_manager = snd (executeSigning toy_tss (None :: (nat, nat) router option) DefaultSigningOptions ''k'' [1]
     [''a''] ''a'' 5 [] (fst toy_keygen) (snd toy_keygen))"

lemma toy_manager_run:
  "(pm_step toy_tss (None :: (nat, nat) router option))\<^sup>*\<^sup>* (newTSSPartyManager, 0) (fst toy_manager, snd toy_manager)"
proof -
  have "pm_step toy_tss (None :: (nat, nat) router option) (newTSSPartyManager, 0) (fst toy_keygen, snd toy_keygen)"
    unfolding toy_keygen_def prod.collapse by (rule pm_step.keygen)
  moreover have "pm_step toy_tss (None :: (nat, nat) router option) (fst toy_keygen, snd toy_keygen) (fst toy_manager, snd toy_manager)"
    unfolding toy_manager_def prod.collapse [of "snd (executeSigning _ _ _ _ _ _ _ _ _ _ _)"] by (rule pm_step.signing)
  ultimately show ?thesis by (meson converse_rtranclp_into_rtranclp rtranclp.rtrancl_refl)
qed


text \<open>
  C32: The parties handed to the library are the nodes that were asked for, each
  with the key its name hashes to, and every one of them can be routed to: its party
  id leads back to the node. Preparing a session fails only when this node is
  not one the process has heard of, now or in an earlier session.
\<close>

theorem prepared_parties_are_routable:
  assumes "(pm_step lib router)\<^sup>*\<^sup>* (newTSSPartyManager, w0) (m, w)"
    and "\<And>ps. set (tl_sort lib ps) = set ps" and "\<And>ps. length (tl_sort lib ps) = length ps"
    and "prepare lib cv ids threshold this m = (r, m')"
  shows "(case r of
        Inl e \<Rightarrow> this \<notin> set ids \<and> e = Err (''this node ID not found: '' @ this)
      | Inr params \<Rightarrow> set (tp_parties params) = party_of_node lib ` set ids
          \<and> tp_count params = length ids \<and> tp_threshold params = threshold (length ids)
          \<and> tp_this params = party_of_node lib this
          \<and> (\<forall>n \<in> set ids. getNodeID m' (pt_Id (party_of_node lib n)) = Some n))"
proof -
  note m' = prepare_frame [OF assms(4)]
  have ok: "pm_ok lib m'" using setup_pm_ok [OF pm_run_ok [OF assms(1)]] m' by simp
  have known: "map_of (nodeIDToPartyID m') n = Some (party_of_node lib n) \<and> getNodeID m' (pt_Id (party_of_node lib n)) = Some n"
    if "n \<in> set ids" for n
    using ok setup_known [of n ids m lib] that m'
    by (auto simp: pm_ok_def maps_ok_def party_maps_def getNodeID_def party_of_node_def)
  have collect: "collect_parties m' ns = Inr (map (party_of_node lib) ns)" if "set ns \<subseteq> set ids" for ns
    using that known by (induction ns) simp_all
  have self: "map_of (nodeIDToPartyID m') this = Some p \<Longrightarrow> p = party_of_node lib this" for p
    using ok by (simp add: pm_ok_def maps_ok_def party_maps_def)
  have "getPartyIDs lib m' ids = Inr (tl_sort lib (map (party_of_node lib) ids))"
    using collect [of ids] by (simp add: getPartyIDs_def)
  then have run: "(r, m') = (case getPartyID m' this of
        None \<Rightarrow> (Inl (Err (''this node ID not found: '' @ this)), m')
      | Some p \<Rightarrow> (Inr \<lparr>tp_curve = cv, tp_parties = tl_sort lib (map (party_of_node lib) ids), tp_this = p,
                       tp_count = length ids, tp_threshold = threshold (length ids)\<rparr>, m'))"
    using assms(3,4) unfolding prepare_def Let_def m' [symmetric] by (simp add: Let_def split: option.splits)
  show ?thesis
  proof (cases "getPartyID m' this")
    case None
    then have "this \<notin> set ids" using known [of this] by (auto simp: getPartyID_def)
    then show ?thesis using run None by simp
  next
    case (Some p)
    then show ?thesis using run self [of p] known assms(2) by (simp add: getPartyID_def)
  qed
qed

lemma toy_sort: "set (tl_sort toy_tss ps) = set ps" "length (tl_sort toy_tss ps) = length ps"
  by (simp_all add: toy_tss_def)

lemma prepared_parties_are_routable_witness:
  "case fst (prepare toy_tss S256 [''b'', ''c''] (\<lambda>n. int n - 1) ''a'' (fst toy_manager)) of
     Inl e \<Rightarrow> False
   | Inr params \<Rightarrow> tp_parties params = map (party_of_node toy_tss) [''b'', ''c''] \<and> tp_threshold params = 1
       \<and> getNodeID (snd (prepare toy_tss S256 [''b'', ''c''] (\<lambda>n. int n - 1) ''a'' (fst toy_manager)))
            (pt_Id (party_of_node toy_tss ''c'')) = Some ''c''"
proof -
  let ?p = "prepare toy_tss S256 [''b'', ''c''] (\<lambda>n. int n - 1) ''a'' (fst toy_manager)"
  have "map_sum id tp_parties (fst ?p) = Inr (map (party_of_node toy_tss) [''b'', ''c''])" by code_simp
  then obtain params where p: "fst ?p = Inr params" "tp_parties params = map (party_of_node toy_tss) [''b'', ''c'']"
    by (cases "fst ?p") simp_all
  have "?p = (Inr params, snd ?p)" using p(1) by (metis prod.collapse)
  from prepared_parties_are_routable [OF toy_manager_run toy_sort this] p show ?thesis by simp
qed

end
