(* ===== verification/TssFlow.thy ===== *)
theory TssFlow
  imports TssClaims
begin

text \<open>
  What flows through the party manager: the order in which queued messages reach a
  key generation's party, the messages an EdDSA signing does not exchange, and the
  nodes a signing broadcast goes to.
\<close>

section \<open>Messages to a party\<close>

definition send_all :: "nat \<Rightarrow> incomingMessage list \<Rightarrow> 'p tssPartyManager \<Rightarrow> 'p tssPartyManager" where
  "send_all c msgs m = fold (\<lambda>msg m. snd (try_send c msg m)) msgs m"

lemma buffer_id: "ch_buf (chans m ! c) = b \<Longrightarrow> (chans m)[c := (chans m ! c)\<lparr>ch_buf := b\<rparr>] = chans m"
  by (metis chan.surjective chan.update_convs(1) list_update_id)

lemma send_all_value:
  assumes "c < length (chans m)" and "\<not> ch_closed (chans m ! c)"
    and "length (ch_buf (chans m ! c)) + length msgs \<le> ch_cap (chans m ! c)"
  shows "send_all c msgs m = m\<lparr>chans := (chans m)[c := (chans m ! c)\<lparr>ch_buf := ch_buf (chans m ! c) @ msgs\<rparr>]\<rparr>"
  using assms
proof (induction msgs arbitrary: m)
  case Nil
  then show ?case by (simp add: send_all_def buffer_id)
next
  case (Cons msg msgs)
  let ?n = "m\<lparr>chans := (chans m)[c := (chans m ! c)\<lparr>ch_buf := ch_buf (chans m ! c) @ [msg]\<rparr>]\<rparr>"
  have "send_all c (msg # msgs) m = send_all c msgs ?n"
    using Cons.prems by (simp add: send_all_def try_send_def Let_def)
  also have "\<dots> = ?n\<lparr>chans := (chans ?n)[c := (chans ?n ! c)\<lparr>ch_buf := ch_buf (chans ?n ! c) @ msgs\<rparr>]\<rparr>"
    using Cons.prems by (intro Cons.IH) simp_all
  finally show ?case using Cons.prems by simp
qed

lemma inject_same: "nodeIDToPartyID m' = nodeIDToPartyID m \<Longrightarrow> inject lib m' = inject lib m"
  by (intro ext) (simp add: inject_def getPartyID_def split: option.split)

lemma keygen_drain:
  assumes "c < length (chans m)" and "ch_buf (chans m ! c) = msgs"
  shows "(keygen_receive lib k ^^ length msgs) (Reading c, m)
    = (Reading c, m\<lparr>chans := (chans m)[c := (chans m ! c)\<lparr>ch_buf := []\<rparr>],
         activeKeygen := (activeKeygen m)(k := foldl (inject lib m) (activeKeygen m k) msgs)\<rparr>)"
  using assms
proof (induction msgs arbitrary: m)
  case Nil
  then show ?case by (simp add: buffer_id)
next
  case (Cons msg msgs)
  let ?n = "m\<lparr>chans := (chans m)[c := (chans m ! c)\<lparr>ch_buf := msgs\<rparr>],
      activeKeygen := (activeKeygen m)(k := inject lib m (activeKeygen m k) msg)\<rparr>"
  have step: "keygen_receive lib k (Reading c, m) = (Reading c, ?n)"
    using Cons.prems inject_same [of "m\<lparr>chans := (chans m)[c := (chans m ! c)\<lparr>ch_buf := msgs\<rparr>]\<rparr>" m lib]
    by (simp add: keygen_receive_def try_recv_def Let_def)
  have "(keygen_receive lib k ^^ length (msg # msgs)) (Reading c, m) = (keygen_receive lib k ^^ length msgs) (Reading c, ?n)"
    by (simp only: length_Cons funpow_Suc_right o_apply step)
  also have "\<dots> = (Reading c, ?n\<lparr>chans := (chans ?n)[c := (chans ?n ! c)\<lparr>ch_buf := []\<rparr>],
         activeKeygen := (activeKeygen ?n)(k := foldl (inject lib ?n) (activeKeygen ?n k) msgs)\<rparr>)"
    using Cons.prems by (intro Cons.IH) simp_all
  also have "inject lib ?n = inject lib m" by (rule inject_same) simp
  finally show ?case using Cons.prems by (simp add: fun_upd_def cong: if_cong)
qed



section \<open>EdDSA signing\<close>

lemma enqueue_eddsa [simp]: "activeEdDSASigning (snd (enqueue kind sid c msg m)) = activeEdDSASigning m"
  by (cases "try_send c msg m"; cases "fst (try_send c msg m)")
     (auto simp: enqueue_def try_send_def Let_def split: if_splits)

definition untouched :: "string \<Rightarrow> 'p option \<Rightarrow> 'w \<Rightarrow> bool \<Rightarrow> ('p, 'd, 'w) tss_run \<Rightarrow> bool" where
  "untouched k p w silent r \<longleftrightarrow> (activeEdDSASigning (tr_pm r) k = p \<or> activeEdDSASigning (tr_pm r) k = None)
     \<and> (tr_result r = None \<longrightarrow> activeEdDSASigning (tr_pm r) k = p) \<and> (silent \<longrightarrow> tr_wire r = w)"

definition broadcasts_only :: "('m, 'd) action \<Rightarrow> bool" where
  "broadcasts_only a \<longleftrightarrow> (case a of Main (OutMsg targets _) \<Rightarrow> targets = [] | _ \<Rightarrow> True)"

lemma eddsa_act_untouched:
  assumes "untouched k p w silent r" and "silent \<longrightarrow> broadcasts_only a"
  shows "untouched k p w silent (run_act (eddsa_signing_main lib router opts k this) (\<lambda>s. s) qf a r)"
proof (cases a)
  case (Main ev)
  obtain x m v where ev: "eddsa_signing_main lib router opts k this ev (tr_pm r, tr_wire r) = (x, m, v)" by (rule prod_cases3)
  have wire: "silent \<Longrightarrow> v = tr_wire r"
    using assms(2) ev by (cases ev) (auto simp: Main broadcasts_only_def eddsa_signing_main_def Let_def split: option.splits)
  show ?thesis
    using assms(1) wire eddsa_signing_main_pm [OF ev] by (auto simp: Main ev untouched_def split: if_splits)
qed (use assms in \<open>auto simp: untouched_def split_beta Let_def split: option.split\<close>)

lemma eddsa_run_untouched:
  assumes "untouched k p w silent r" and "silent \<longrightarrow> list_all broadcasts_only acts"
  shows "untouched k p w silent (eddsa_signing_run lib router opts k this acts r)"
  using assms by (induction acts arbitrary: r) (simp_all add: eddsa_signing_run_def eddsa_act_untouched)

text \<open>
  An EdDSA (FROST) signing exchanges nothing: no message of another node ever
  reaches its party, along every schedule, and its own broadcasts go to nobody: when
  all it sends are broadcasts the network is as it was.
\<close>

theorem frost_signing_exchanges_nothing:
  assumes "begin_eddsa_signing lib sid message ids this d m = (Inr (), m1)"
    and "executeEdDSASigning lib router opts sid message ids this d acts m w = (res, m', w')"
  shows "(activeEdDSASigning m' sid = activeEdDSASigning m1 sid \<or> res \<noteq> None \<and> activeEdDSASigning m' sid = None)
    \<and> (list_all broadcasts_only acts \<longrightarrow> w' = w)"
proof -
  let ?r = "eddsa_signing_run lib router opts sid this acts (start_run Stopped m1 w)"
  have "untouched sid (activeEdDSASigning m1 sid) w (list_all broadcasts_only acts) (start_run Stopped m1 w)"
    by (simp add: untouched_def start_run_def)
  from eddsa_run_untouched [OF this, of acts lib router opts this]
  have "untouched sid (activeEdDSASigning m1 sid) w (list_all broadcasts_only acts) ?r" by simp
  moreover have "tr_result ?r = res" "tr_pm ?r = m'" "tr_wire ?r = w'"
    using assms by (simp_all add: executeEdDSASigning_def outcome_of_def)
  ultimately show ?thesis by (auto simp: untouched_def)
qed

definition counting_route :: "(nat, nat) router" where
  "counting_route = (\<lambda>_ _ _ _ w. (Inr (), w + 1))"

lemma frost_signing_exchanges_nothing_witness:
  "snd (snd (executeEdDSASigning toy_tss (Some counting_route) FROSTSigningOptions ''s'' [1] [''a'', ''b''] ''a'' 5
     [Main (OutMsg [] 1), Arrive toy_message] newTSSPartyManager 0)) = 0"
proof -
  let ?b = "begin_eddsa_signing toy_tss ''s'' [1] [''a'', ''b''] ''a'' 5 newTSSPartyManager"
  have "fst ?b = Inr ()" by code_simp
  then have b: "?b = (Inr (), snd ?b)" by (metis prod.collapse)
  have "list_all broadcasts_only [Main (OutMsg [] (1 :: nat)), Arrive toy_message :: (nat, SignatureData) action]"
    by (simp add: broadcasts_only_def)
  with frost_signing_exchanges_nothing [OF b prod.collapse [symmetric, THEN trans, OF arg_cong2 [where f = Pair, OF HOL.refl prod.collapse [symmetric]]],
      of "Some counting_route" FROSTSigningOptions "[Main (OutMsg [] 1), Arrive toy_message]" 0]
  show ?thesis by blast
qed

section \<open>Signing broadcasts\<close>

lemma strict_fails:
  assumes "x \<in> set ns" and "\<And>v. \<exists>e v'. route sid x msg True v = (Inl e, v')"
  shows "\<exists>e v'. broadcast_strict route sid msg ns w = (Inl e, v')"
  using assms(1)
proof (induction ns arbitrary: w)
  case (Cons n ns)
  obtain y v where r: "route sid n msg True w = (y, v)" by fastforce
  show ?case
  proof (cases y)
    case (Inr u)
    then have "n \<noteq> x" using assms(2) [of w] r by auto
    then show ?thesis using Cons r Inr by simp
  qed (simp add: r)
qed simp

lemma signing_run_undisturbed:
  assumes "queues_ok m" and "loop_ok m l"
  shows "undisturbed (False, k) (signing_run lib router opts k this acts (start_run l m w))"
  using signing_loops.start_keeps(2) [OF assms] by (simp add: signing_run_def)

lemma begin_signing_maps:
  assumes "begin_signing lib sid message ids this d m = (r, m')"
  shows "party_maps m' = party_maps (setupPartyIDs lib ids m)"
proof -
  obtain x n where p: "prepare lib S256 ids (\<lambda>n. int n - 1) this m = (x, n)" by fastforce
  show ?thesis
    using assms prepare_frame [OF p]
    by (cases x) (auto simp: begin_signing_def p Let_def split_beta)
qed

text \<open>
  A signing broadcast goes to every node the process has heard of, not to the
  signers: when one of them cannot be reached, a node of an earlier session that has
  no part in this signing for instance, the first broadcast of the signing ends it
  with an error.
\<close>

theorem unreachable_stranger_fails_signing:
  assumes "(pm_step lib router)\<^sup>*\<^sup>* (newTSSPartyManager, w0) (m, w)"
    and "map_of (nodeIDToPartyID m) x \<noteq> None" and "x \<noteq> this"
    and "\<And>l. set (tl_range_ids lib l) = set l"
    and "\<And>sid msg v. \<exists>e v'. route sid x msg True v = (Inl e, v')"
    and "executeSigning lib (Some route) opts sid message ids this d acts m w = (None, m', w')"
  shows "\<exists>e w''. executeSigning lib (Some route) opts sid message ids this d (acts @ [Main (OutMsg [] msg)]) m w
    = (Some (Inl e), m', w'')"
proof -
  have ok: "pm_ok lib m" by (rule pm_run_ok [OF assms(1)])
  obtain y m1 where b: "begin_signing lib sid message ids this d m = (y, m1)" by fastforce
  with assms(6) obtain c where y: "y = Inr c" by (cases y) (simp_all add: executeSigning_def)
  have m1: "queues_ok m1" "loop_ok m1 (Reading c)" "maps_ok lib (party_maps m1)"
    using begin_pm_ok(3) [OF ok, of sid message ids this d] b y by (auto simp: begun_def pm_ok_def)
  let ?r = "signing_run lib (Some route) (effective_options opts) sid this acts (start_run (Reading c) m1 w)"
  have res: "tr_result ?r = None" "tr_pm ?r = m'" "tr_wire ?r = w'"
    using assms(6) by (simp_all add: executeSigning_def b y outcome_of_def)
  have crash: "\<not> tr_crash ?r"
    using signing_run_undisturbed [OF m1(1,2), of sid lib "Some route" "effective_options opts" this acts w] res(1)
    by (simp add: undisturbed_def)
  have same: "party_maps m' = party_maps m1" using runs_keep(7) [OF m1(1,2)] res(2) by metis
  have "map_of (nodeIDToPartyID m1) x \<noteq> None"
    using setup_known [of x ids m lib] assms(2) begin_signing_maps [OF b] by (simp add: party_maps_def)
  then have "map_of (partyIDToNodeID m') x = Some x"
    using m1(3) same by (auto simp: maps_ok_def party_maps_def)
  then have "x \<in> set (other_nodes lib m' this)"
    using assms(3) map_of_SomeD by (force simp: other_nodes_def assms(4))
  from strict_fails [OF this, of route "mapped_session m' sid" msg w'] assms(5) obtain e v where
    "broadcast_strict route (mapped_session m' sid) msg (other_nodes lib m' this) w' = (Inl e, v)" by blast
  then have "signing_main lib (Some route) (effective_options opts) sid this (OutMsg [] msg) (m', w') = (Some (Inl e), m', v)"
    by (simp add: signing_main_def)
  then have "executeSigning lib (Some route) opts sid message ids this d (acts @ [Main (OutMsg [] msg)]) m w
      = (Some (Inl e), m', v)"
    using res crash by (simp add: executeSigning_def b y outcome_of_def signing_run_def)
  then show ?thesis by blast
qed

text \<open>The signing by \<open>a\<close> alone, after a key generation with \<open>b\<close>, which is down.\<close>

definition down_route :: "(nat, nat) router" where
  "down_route = (\<lambda>_ n _ _ w. if n = ''b'' then (Inl (Err ''connection refused''), w) else (Inr (), w + 1))"

lemma unreachable_stranger_fails_signing_witness:
  "\<exists>e w''. executeSigning toy_tss (Some down_route) DefaultSigningOptions ''s'' [1] [''a''] ''a'' 5 ([] @ [Main (OutMsg [] 7)])
     (fst toy_manager) (snd toy_manager)
   = (Some (Inl e), fst (snd (executeSigning toy_tss (Some down_route) DefaultSigningOptions ''s'' [1] [''a''] ''a'' 5 []
        (fst toy_manager) (snd toy_manager))), w'')"
proof -
  let ?x = "executeSigning toy_tss (Some down_route) DefaultSigningOptions ''s'' [1] [''a''] ''a'' 5 [] (fst toy_manager) (snd toy_manager)"
  have known: "map_of (nodeIDToPartyID (fst toy_manager)) ''b'' \<noteq> None" by code_simp
  have range: "set (tl_range_ids toy_tss l) = set l" for l by (simp add: toy_tss_def)
  have down: "\<exists>e v'. down_route sid ''b'' msg True v = (Inl e, v')" for sid msg v by (simp add: down_route_def)
  have "fst ?x = None" by code_simp
  then have x: "?x = (None, fst (snd ?x), snd (snd ?x))" by (simp add: prod_eq_iff)
  show ?thesis
    by (rule unreachable_stranger_fails_signing [OF toy_manager_run known _ range down x]) simp
qed

end
