(* ===== verification/ProtocolProps.thy ===== *)
theory ProtocolProps
  imports Protocol SigningProps TssFlow
begin

text \<open>
  The engines: what the conversions of key data and signatures keep, keys across a
  restart of the process, and the engine-driven signer.
\<close>

section \<open>Big-endian numbers\<close>

lemma be_value_Nil [simp]: "be_value [] = 0"
  by (simp add: be_value_def)

lemma be_value_snoc [simp]: "be_value (bs @ [b]) = be_value bs * 256 + unat b"
  by (simp add: be_value_def)

lemma be_value_zeros [simp]: "be_value (replicate n 0 @ bs) = be_value bs"
proof (induction bs rule: rev_induct)
  case Nil
  have "be_value (replicate n 0) = 0" by (induction n) (simp_all add: replicate_append_same [symmetric])
  then show ?case by simp
next
  case (snoc b bs)
  have "be_value (replicate n 0 @ bs @ [b]) = be_value ((replicate n 0 @ bs) @ [b])" by simp
  also have "\<dots> = be_value bs * 256 + unat b" by (simp only: be_value_snoc snoc.IH)
  finally show ?case by simp
qed

lemma be_bytes_0 [simp]: "be_bytes 0 = []"
  by (simp add: be_bytes.simps)

lemma be_bytes_pos: "0 < n \<Longrightarrow> be_bytes n = be_bytes (n div 256) @ [of_nat (n mod 256)]"
  by (subst be_bytes.simps) simp

lemma be_value_bytes [simp]: "be_value (be_bytes n) = n"
proof (induction n rule: less_induct)
  case (less n)
  have "unat (of_nat (n mod 256) :: byte) = n mod 256"
    by (simp add: unsigned_of_nat take_bit_eq_mod)
  then show ?case using less.IH [of "n div 256"] by (cases "n = 0") (simp_all add: be_bytes_pos)
qed

lemma be_bytes_length: "length (be_bytes n) \<le> k \<longleftrightarrow> n < 256 ^ k"
proof (induction k arbitrary: n)
  case 0
  show ?case by (cases "n = 0") (simp_all add: be_bytes_pos)
next
  case (Suc k)
  show ?case
  proof (cases "n = 0")
    case False
    then have "length (be_bytes n) \<le> Suc k \<longleftrightarrow> n div 256 < 256 ^ k"
      using Suc.IH [of "n div 256"] by (simp add: be_bytes_pos)
    then show ?thesis by (simp add: div_less_iff_less_mult mult.commute)
  qed simp
qed

lemma pad32_props: "length bs \<le> 32 \<Longrightarrow> length (pad32 bs) = 32" "be_value (pad32 bs) = be_value bs"
  by (simp_all add: pad32_def)

lemma compress_point_value:
  "\<exists>xs. compress_point x y = (if even y then 2 else 3) # xs \<and> be_value xs = x \<and> (x < 256 ^ 32 \<longrightarrow> length xs = 32)"
proof (cases "length (be_bytes x) < 32")
  case True
  then show ?thesis
    using pad32_props [of "be_bytes x"]
    by (intro exI [of _ "pad32 (be_bytes x)"]) (simp add: compress_point_def)
next
  case False
  then show ?thesis
    using be_bytes_length [of x 32]
    by (intro exI [of _ "be_bytes x"]) (simp add: compress_point_def)
qed

section \<open>Key data and signatures\<close>

text \<open>
  C18: The conversion of key data succeeds exactly when the library gives a point and
  the secret fits 32 bytes; then it loses nothing: the share is the 32-byte big-endian
  secret, the public key the parity of Y and the X coordinate, 33 bytes for a point
  of the field, and the index is not negative.
\<close>

theorem key_data_conversion_lossless:
  "(isl (convertTSSKeyData keyID d this) \<longleftrightarrow> sv_Point d = None \<or> 2 ^ 256 \<le> sv_Xi d)
   \<and> (\<forall>share pub. convertTSSKeyData keyID d this = Inr (share, pub) \<longrightarrow>
        length (sh_Share share) = 32 \<and> be_value (sh_Share share) = sv_Xi d \<and> 0 \<le> sh_Index share
        \<and> (\<exists>x y. sv_Point d = Some (x, y) \<and> hd (pk_Bytes pub) = (if even y then 2 else 3)
             \<and> be_value (tl (pk_Bytes pub)) = x \<and> (x < 2 ^ 256 \<longrightarrow> length (pk_Bytes pub) = 33)))"
proof -
  have fits: "length (be_bytes (sv_Xi d)) \<le> 32 \<longleftrightarrow> sv_Xi d < 2 ^ 256"
    using be_bytes_length [of "sv_Xi d" 32] by (simp add: power_mult [symmetric, of 2 8 32, simplified])
  show ?thesis
  proof (cases "sv_Point d")
    case (Some p)
    obtain x y where p: "p = (x, y)" by fastforce
    obtain xs where "compress_point x y = (if even y then 2 else 3) # xs" "be_value xs = x"
      "x < 256 ^ 32 \<longrightarrow> length xs = 32"
      using compress_point_value by blast
    moreover have "(256 :: nat) ^ 32 = 2 ^ 256" by simp
    ultimately show ?thesis
      using fits pad32_props [of "be_bytes (sv_Xi d)"]
      by (auto simp: convertTSSKeyData_def Some p Let_def not_le)
  qed (simp add: convertTSSKeyData_def)
qed

lemma key_data_conversion_lossless_witness:
  "be_value (tl (pk_Bytes (snd (the (case convertTSSKeyData ''k'' \<lparr>sv_Point = Some (300, 7), sv_Xi = 5, sv_ShareID = 1\<rparr> ''n'' of
      Inl _ \<Rightarrow> None | Inr r \<Rightarrow> Some r))))) = 300"
  using key_data_conversion_lossless [of "''k''" "\<lparr>sv_Point = Some (300, 7), sv_Xi = 5, sv_ShareID = 1\<rparr>" "''n''"]
  by (auto split: sum.split)

text \<open>
  Strict DER, as signature parsers demand it: a sequence of two integers with
  matching lengths, each without a sign bit and without a needless leading zero.
\<close>

definition parse_der :: "byte list \<Rightarrow> (byte list \<times> byte list) option" where
  "parse_der bs =
     (case bs of
        tag # len # rtag # rlen # rest \<Rightarrow>
          let r = take (unat rlen) rest
          in (case drop (unat rlen) rest of
                stag # slen # s \<Rightarrow>
                  if tag = 0x30 \<and> rtag = 0x02 \<and> stag = 0x02 \<and> unat len + 2 = length bs \<and> unat slen = length s
                  then Some (r, s) else None
              | _ \<Rightarrow> None)
      | _ \<Rightarrow> None)"

definition minimal_int :: "byte list \<Rightarrow> bool" where
  "minimal_int bs \<longleftrightarrow> bs \<noteq> [] \<and> hd bs < 0x80 \<and> (hd bs = 0 \<and> 1 < length bs \<longrightarrow> 0x80 \<le> bs ! 1)"

definition strict_der :: "byte list \<Rightarrow> bool" where
  "strict_der bs \<longleftrightarrow> (case parse_der bs of None \<Rightarrow> False | Some (r, s) \<Rightarrow> minimal_int r \<and> minimal_int s)"

lemma padScalarBytes_length [simp]: "length (padScalarBytes bs) = 32"
  by (simp add: padScalarBytes_def)

lemma padScalarBytes_value: "length bs \<le> 32 \<Longrightarrow> be_value (padScalarBytes bs) = be_value bs"
  by (cases "length bs = 32") (simp_all add: padScalarBytes_def)

lemma parse_built:
  assumes "length r = 32" and "length s = 32"
  shows "parse_der (buildDERSignature r s) = Some (r, s)"
  using assms by (simp add: parse_der_def buildDERSignature_def Let_def)

text \<open>
  C20: The signature object an engine makes always has two scalars of 32 bytes and an
  encoding that holds just them; but the encoding is strict DER only when each scalar
  starts with a byte below 0x80 that is not zero, or with a zero before a byte from
  0x80 on. So a scalar of the upper half of the range, of which there are as many as
  of the lower half, makes an encoding that a strict parser refuses.
\<close>

theorem der_is_strict_iff_scalars_minimal:
  "\<exists>sig. convertTSSSignature (Some d) = Inr sig \<and> length (sg_R sig) = 32 \<and> length (sg_S sig) = 32
     \<and> sg_R sig = padScalarBytes (sd_R d) \<and> sg_S sig = padScalarBytes (sd_S d)
     \<and> parse_der (sg_Bytes sig) = Some (sg_R sig, sg_S sig)
     \<and> (strict_der (sg_Bytes sig) \<longleftrightarrow>
          (hd (sg_R sig) < 0x80 \<and> (hd (sg_R sig) \<noteq> 0 \<or> 0x80 \<le> sg_R sig ! 1))
        \<and> (hd (sg_S sig) < 0x80 \<and> (hd (sg_S sig) \<noteq> 0 \<or> 0x80 \<le> sg_S sig ! 1)))"
proof -
  have min: "minimal_int bs \<longleftrightarrow> hd bs < 0x80 \<and> (hd bs \<noteq> 0 \<or> 0x80 \<le> bs ! 1)" if "length bs = 32" for bs :: "byte list"
    using that by (auto simp: minimal_int_def)
  show ?thesis
    by (simp add: convertTSSSignature_def Let_def strict_der_def parse_built min)
qed

text \<open>A signature whose R has its top bit set.\<close>

lemma der_is_strict_iff_scalars_minimal_witness:
  "\<exists>sig. convertTSSSignature (Some \<lparr>sd_Signature = [], sd_R = replicate 32 0x80, sd_S = replicate 32 1\<rparr>) = Inr sig
     \<and> \<not> strict_der (sg_Bytes sig)"
proof -
  have "hd (padScalarBytes (replicate 32 0x80)) = 0x80" by code_simp
  then show ?thesis
    using der_is_strict_iff_scalars_minimal [of "\<lparr>sd_Signature = [], sd_R = replicate 32 0x80, sd_S = replicate 32 1\<rparr>"]
    by auto
qed

section \<open>Keys across a restart\<close>

text \<open>What is left of an engine's state when the process starts again: the disk and the network.\<close>

definition restarted :: "('p, 'r, 'w) engine_state \<Rightarrow> ('p, 'r, 'w) engine_state" where
  "restarted s = s\<lparr>es_keyRecords := (\<lambda>_. None), es_pm := newTSSPartyManager\<rparr>"

lemma persist_stores:
  assumes "persist cfg (serializeLocalPartySaveData (ec_data cfg) d) keyID s = (Inr (), s')"
    and "ec_store cfg = Some st" and "gcm_ok (ec_gcm cfg)" and "rand_ok (es_disk s)"
  shows "\<exists>bs. dl_encode (ec_data cfg) d = Inr bs
    \<and> opened (ec_gcm cfg) st (es_disk s') (keyDataPath st keyID (ec_this cfg)) = Some bs"
proof -
  from assms(1,2) obtain bs where bs: "dl_encode (ec_data cfg) d = Inr bs"
    by (cases "dl_encode (ec_data cfg) d") (simp_all add: persist_def serializeLocalPartySaveData_def pure_wrap_def)
  obtain x dk where st: "StoreKeyData (ec_gcm cfg) st (es_disk s) keyID (ec_this cfg) bs = (x, dk)" by fastforce
  have x: "x = Inr ()" "dk = es_disk s'"
    using assms(1,2) bs st
    by (cases x; auto simp: persist_def serializeLocalPartySaveData_def pure_wrap_def)+
  note at = store_data_at(1) [OF st [unfolded StoreKeyData_def] assms(3,4)]
  with bs x show ?thesis by simp
qed

lemma gg18_finish_InrD:
  assumes "gg18_finish cfg req keyID nodeIDs d s = (Inr resp, s')"
  obtains x y rec where "sv_Point (dl_view (ec_data cfg) d) = Some (x, y)"
    and "kr_PublicKey resp = Some \<lparr>pk_Bytes = compress_point x y, pk_Hex = hex_EncodeToString (compress_point x y)\<rparr>"
    and "persist cfg (serializeLocalPartySaveData (ec_data cfg) d) keyID (saveKeyRecord keyID rec s) = (Inr (), s')"
proof -
  obtain share pub where conv: "convertTSSKeyData keyID (dl_view (ec_data cfg) d) (ec_this cfg) = Inr (share, pub)"
    using assms by (auto simp: gg18_finish_def split: sum.splits)
  then obtain x y where point: "sv_Point (dl_view (ec_data cfg) d) = Some (x, y)"
    and pub: "pub = \<lparr>pk_Bytes = compress_point x y, pk_Hex = hex_EncodeToString (compress_point x y)\<rparr>"
    by (auto simp: convertTSSKeyData_def Let_def split: option.splits if_splits)
  let ?rec = "\<lparr>kr_KeyData = Some d, kr_PubKey = pub, kr_Threshold = kg_Threshold req,
      kr_TotalNodes = kg_TotalNodes req, kr_NodeIDs = nodeIDs\<rparr>"
  have "persist cfg (serializeLocalPartySaveData (ec_data cfg) d) keyID (saveKeyRecord keyID ?rec s) = (Inr (), s')"
    and "kr_PublicKey resp = Some pub"
    using assms conv by (auto simp: gg18_finish_def Let_def elim!: or_return_InrE)
  then show thesis using that [OF point] pub by simp
qed

lemma gg18_GenerateKeyShare_InrD:
  assumes "gg18_GenerateKeyShare cfg nanos acts req s = (Some (Inr resp), s')" and "kg_KeyID req \<noteq> []"
  obtains ids d m w where "gg18_finish cfg req (kg_KeyID req) ids d (s\<lparr>es_pm := m, es_wire := w\<rparr>) = (Inr resp, s')"
proof -
  obtain ids where ids: "gg18_ValidateKeyGenRequest req = Inr ()" "normalizeNodeIDs (kg_NodeIDs req) (kg_TotalNodes req) = Inr ids"
    using assms(1) by (auto simp: gg18_GenerateKeyShare_def Let_def split: sum.splits)
  obtain x m w where run: "executeKeygen (ec_tss cfg) (ec_router cfg) (kg_KeyID req) ids (kg_Threshold req) (ec_this cfg)
      acts (es_pm s) (es_wire s) = (x, m, w)" by (rule prod_cases3)
  from assms ids run obtain d where "x = Some (Inr d)"
    by (auto simp: gg18_GenerateKeyShare_def split: option.splits sum.splits)
  with assms ids run have "gg18_finish cfg req (kg_KeyID req) ids d (s\<lparr>es_pm := m, es_wire := w\<rparr>) = (Inr resp, s')"
    by (simp add: gg18_GenerateKeyShare_def Let_def split_beta prod_eq_iff)
  then show thesis by (rule that)
qed

text \<open>
  C19: A key that GG18 has generated survives a restart: signing finds it on the disk,
  with the key data of the run and the public key that was announced. The same key
  cannot be used by GG20, whose signing knows only the keys in memory: after a restart
  it answers that the key is not found.
\<close>

theorem gg18_key_survives_restart:
  assumes "gg18_GenerateKeyShare cfg nanos acts req s = (Some (Inr resp), s')" and "kg_KeyID req \<noteq> []"
    and "ec_store cfg = Some st" and "gcm_ok (ec_gcm cfg)" and "rand_ok (es_disk s)"
    and "fs_fault (es_disk s') (fs_calls (es_disk s')) = None"
    and "\<And>d bs. dl_encode (ec_data cfg) d = Inr bs \<Longrightarrow> bs \<noteq> [] \<and> dl_decode (ec_data cfg) bs = Inr d"
  shows "(\<exists>rec r'. gg18_record cfg (kg_KeyID req) (restarted s') = (Inr rec, r')
        \<and> kr_PublicKey resp = Some (kr_PubKey rec) \<and> kr_KeyData rec \<noteq> None
        \<and> getKeyRecord (kg_KeyID req) r' = Some rec)
    \<and> (gg18_ValidateSignRequest q = Inr () \<and> pq_KeyID q = kg_KeyID req \<longrightarrow>
        gg20_ThresholdSign cfg sid sacts q (restarted s')
          = (Some (Inl (Err (''key '' @ kg_KeyID req @ '' not found''))), restarted s'))"
proof -
  let ?k = "kg_KeyID req"
  obtain ids d m w where fin: "gg18_finish cfg req ?k ids d (s\<lparr>es_pm := m, es_wire := w\<rparr>) = (Inr resp, s')"
    by (rule gg18_GenerateKeyShare_InrD [OF assms(1,2)])
  obtain x y rec0 where p: "sv_Point (dl_view (ec_data cfg) d) = Some (x, y)"
    and pub: "kr_PublicKey resp = Some \<lparr>pk_Bytes = compress_point x y, pk_Hex = hex_EncodeToString (compress_point x y)\<rparr>"
    and per: "persist cfg (serializeLocalPartySaveData (ec_data cfg) d) ?k
        (saveKeyRecord ?k rec0 (s\<lparr>es_pm := m, es_wire := w\<rparr>)) = (Inr (), s')"
    by (rule gg18_finish_InrD [OF fin])
  obtain bs where bs: "dl_encode (ec_data cfg) d = Inr bs"
    and stored: "opened (ec_gcm cfg) st (es_disk s') (keyDataPath st ?k (ec_this cfg)) = Some bs"
    using persist_stores [OF per assms(3,4)] assms(5) by (auto simp: saveKeyRecord_def)
  note codec = assms(7) [OF bs]
  obtain dk where read: "GetKeyData (ec_gcm cfg) st (es_disk s') ?k (ec_this cfg) = (Inr bs, dk)"
    using data_read_back [OF stored assms(6)] by (metis prod.collapse)
  let ?rec = "\<lparr>kr_KeyData = Some d, kr_PubKey = \<lparr>pk_Bytes = compress_point x y, pk_Hex = hex_EncodeToString (compress_point x y)\<rparr>,
      kr_Threshold = 0, kr_TotalNodes = 0, kr_NodeIDs = []\<rparr>"
  let ?r = "saveKeyRecord ?k ?rec ((restarted s')\<lparr>es_disk := dk\<rparr>)"
  have "gg18_record cfg ?k (restarted s') = (Inr ?rec, ?r)"
    using codec p read assms(3)
    by (simp add: gg18_record_def getKeyRecord_def restarted_def deserializeLocalPartySaveData_def pure_wrap_def Let_def)
  moreover have "kr_PublicKey resp = Some (kr_PubKey ?rec)" "kr_KeyData ?rec \<noteq> None" "getKeyRecord ?k ?r = Some ?rec"
    using pub by (simp_all add: getKeyRecord_def saveKeyRecord_def)
  moreover have "gg20_ThresholdSign cfg sid sacts q (restarted s')
        = (Some (Inl (Err (''key '' @ ?k @ '' not found''))), restarted s')"
    if "gg18_ValidateSignRequest q = Inr ()" "pq_KeyID q = ?k"
    using that by (simp add: gg20_ThresholdSign_def getKeyRecord_def restarted_def)
  ultimately show ?thesis by (intro conjI exI impI) (assumption | blast)+
qed

text \<open>A key generation of two nodes whose party ends with the data 5.\<close>

definition toy_data :: "nat data_lib" where
  "toy_data = \<lparr>dl_view = (\<lambda>d. \<lparr>sv_Point = Some (d, d), sv_Xi = d, sv_ShareID = 1\<rparr>),
     dl_encode = (\<lambda>d. if d < 256 then Inr [of_nat d] else Inl (Err ''too large'')),
     dl_decode = (\<lambda>bs. Inr (unat (hd bs))), dl_edpub = (\<lambda>_. None), dl_edsig = (\<lambda>bs. Inr bs)\<rparr>"

definition toy_config :: "(byte list list, nat, nat, nat) engine_config" where
  "toy_config = \<lparr>ec_curve = ''secp256k1'', ec_this = ''a'', ec_router = None, ec_store = Some toy_storage,
     ec_gcm = toy_gcm, ec_tss = toy_tss, ec_data = toy_data\<rparr>"

definition toy_keygen_request :: KeyGenRequest where
  "toy_keygen_request = \<lparr>kg_KeyID = ''k'', kg_Algorithm = ''ECDSA'', kg_Curve = ''secp256k1'', kg_Threshold = 2,
     kg_TotalNodes = 2, kg_NodeIDs = [''a'', ''b'']\<rparr>"

definition toy_engine :: "(byte list list, nat gg18KeyRecord, nat) engine_state" where
  "toy_engine = \<lparr>es_keyRecords = (\<lambda>_. None), es_pm = newTSSPartyManager, es_wire = 0, es_disk = toy_fs (\<lambda>_. None)\<rparr>"

lemma gg18_key_survives_restart_witness:
  "case fst (gg18_GenerateKeyShare toy_config 0 [Main (EndMsg (Some 5))] toy_keygen_request toy_engine) of
     Some (Inr resp) \<Rightarrow>
       (\<exists>rec r'. gg18_record toy_config ''k'' (restarted (snd (gg18_GenerateKeyShare toy_config 0
            [Main (EndMsg (Some 5))] toy_keygen_request toy_engine))) = (Inr rec, r')
          \<and> kr_PublicKey resp = Some (kr_PubKey rec))
   | _ \<Rightarrow> False"
proof -
  let ?g = "gg18_GenerateKeyShare toy_config 0 [Main (EndMsg (Some 5))] toy_keygen_request toy_engine"
  have "map_option (map_sum id (\<lambda>_. ())) (fst ?g) = Some (Inr ())" by code_simp
  then obtain resp where resp: "fst ?g = Some (Inr resp)"
    by (cases "fst ?g"; cases "the (fst ?g)") auto
  then have g: "?g = (Some (Inr resp), snd ?g)" by (simp add: prod_eq_iff)
  have fine: "fs_fault (es_disk (snd ?g)) (fs_calls (es_disk (snd ?g))) = None" by code_simp
  have codec: "bs \<noteq> [] \<and> dl_decode (ec_data toy_config) bs = Inr d" if "dl_encode (ec_data toy_config) d = Inr bs" for d bs
    using that by (auto simp: toy_config_def toy_data_def unsigned_of_nat take_bit_eq_mod split: if_splits)
  have conf: "kg_KeyID toy_keygen_request \<noteq> []" "ec_store toy_config = Some toy_storage" "gcm_ok (ec_gcm toy_config)"
      "rand_ok (es_disk toy_engine)"
    by (simp_all add: toy_keygen_request_def toy_config_def toy_ok toy_engine_def)
  have "kg_KeyID toy_keygen_request = ''k''" by (simp add: toy_keygen_request_def)
  with gg18_key_survives_restart [OF g conf fine codec] show ?thesis unfolding resp by fastforce
qed

section \<open>The engine-driven signer\<close>

lemma empty_key_not_verified:
  "isl (verifyECDSASignature lib sig msg (Some \<lparr>pk_Bytes = [], pk_Hex = hex\<rparr>))"
  "isl (frost_VerifySignature lib cv sig msg (Some \<lparr>pk_Bytes = [], pk_Hex = hex\<rparr>))"
  by (simp_all add: verifyECDSASignature_def frost_VerifySignature_def verifySchnorrSignature_def)

text \<open>
  \<open>ThresholdSigner.Sign\<close> never returns a signature with any of the three engines,
  whatever the engine signed: it hands the verification a public key without bytes,
  which they all refuse.
\<close>

theorem threshold_signer_never_succeeds:
  assumes "en_verify en = verifyECDSASignature lib \<or> en_verify en = frost_VerifySignature lib cv"
  shows "isl (fst (ts_Sign en timeout s req))"
proof -
  have refused: "en_verify en sig msg (Some \<lparr>pk_Bytes = [], pk_Hex = hex\<rparr>) \<noteq> Inr v" for sig msg hex v
    using assms empty_key_not_verified by (metis sum.disc(2))
  show ?thesis
  proof (rule ccontr)
    assume "\<not> isl (fst (ts_Sign en timeout s req))"
    then obtain r s' where "ts_Sign en timeout s req = (Inr r, s')"
      by (cases "ts_Sign en timeout s req"; cases "fst (ts_Sign en timeout s req)") auto
    then show False
      unfolding ts_Sign_def
      by (elim or_wrap_InrE) (simp add: refused split: sum.splits prod.splits)
  qed
qed

lemma threshold_signer_never_succeeds_witness:
  "isl (fst (ts_Sign (toy_signer\<lparr>en_verify := verifyECDSASignature \<lparr>vl_sha256 = (\<lambda>bs. bs), vl_ParseDERSignature = (\<lambda>bs. Inr bs),
      vl_ParsePubKey = (\<lambda>bs. Inr bs), vl_Verify = (\<lambda>_ _ _. True), vl_ed25519 = (\<lambda>_ _ _. True)\<rparr>\<rparr>) 300 toy_state
      toy_sign_request))"
  by (rule threshold_signer_never_succeeds [OF disjI1]) simp

end
