(* ===== verification/Api.thy ===== *)
theory Api
  imports Coordinator
begin

text \<open>
  The payloads and responses of the wallet's HTTP interface (\<open>internal/types\<close>) with
  their \<open>Validate\<close> methods, and the helpers of \<open>internal/util/http.go\<close> that bind a
  request and write a response. The checks themselves (\<open>validate.Required\<close>,
  \<open>EnumCase\<close>, \<open>MinimumInt\<close>, \<open>FormatOf\<close>, \<open>ValidateName\<close>), \<open>swag\<close>'s pointer helpers and
  the decoding of the request body belong to libraries: they are the record
  \<open>api_lib\<close> and the argument \<open>bound\<close>. A pointer field is an option, a
  \<open>strfmt.DateTime\<close> is \<open>None\<close> for the zero time, and a \<open>strfmt.Base64\<close> is its bytes.
  All checks give \<open>body\<close> as their location, which is left out.
\<close>

section \<open>Replies and validation errors (util/http.go, httperrors)\<close>

datatype verr = Violation string string | CompositeError "verr list" | OtherError err

type_synonym detail = "string \<times> string"

text \<open>
  What a handler returns: a written response, an \<open>HTTPError\<close> with its code and title,
  an \<open>HTTPValidationError\<close>, or another error (a panic unwinds to the recover
  middleware).
\<close>

datatype 'r reply = Reply int 'r | HTTPError int string | HTTPValidationError int "detail list" | Failed err

definition http_error :: "int \<Rightarrow> string \<Rightarrow> err \<Rightarrow> 'r reply" where
  "http_error code title e = (if is_panic e then Failed e else HTTPError code title)"

text \<open>Unknown error types are skipped.\<close>

fun formatValidationErrors :: "verr list \<Rightarrow> detail list" where
  "formatValidationErrors [] = []"
| "formatValidationErrors (CompositeError es # rest) = formatValidationErrors es @ formatValidationErrors rest"
| "formatValidationErrors (Violation name text # rest) = (name, text) # formatValidationErrors rest"
| "formatValidationErrors (OtherError _ # rest) = formatValidationErrors rest"

definition validatePayload :: "verr option \<Rightarrow> 'r reply option" where
  "validatePayload v =
     (case v of
        None \<Rightarrow> None
      | Some (CompositeError es) \<Rightarrow> Some (HTTPValidationError 400 (formatValidationErrors es))
      | Some (Violation name text) \<Rightarrow> Some (HTTPValidationError 400 [(name, text)])
      | Some (OtherError e) \<Rightarrow> Some (Failed (wrap_err ''failed to validate payload'' e)))"

definition BindAndValidateBody :: "err + 'b \<Rightarrow> ('b \<Rightarrow> verr option) \<Rightarrow> 'r reply + 'b" where
  "BindAndValidateBody bound Validate =
     (case bound of
        Inl e \<Rightarrow> Inl (Failed (wrap_err ''failed to bind body'' e))
      | Inr v \<Rightarrow> (case validatePayload (Validate v) of Some r \<Rightarrow> Inl r | None \<Rightarrow> Inr v))"

definition ValidateAndReturn :: "int \<Rightarrow> ('r \<Rightarrow> verr option) \<Rightarrow> 'r \<Rightarrow> 'r reply" where
  "ValidateAndReturn code Validate v =
     (case validatePayload (Validate v) of Some r \<Rightarrow> r | None \<Rightarrow> Reply code v)"

section \<open>The validation library\<close>

record api_lib =
  va_Required :: "string \<Rightarrow> bool \<Rightarrow> verr option"  \<comment> \<open>name; is the value nil?\<close>
  va_EnumCase :: "string \<Rightarrow> string \<Rightarrow> string list \<Rightarrow> verr option"
  va_MinimumInt :: "string \<Rightarrow> int \<Rightarrow> int \<Rightarrow> verr option"
  va_FormatOf :: "string \<Rightarrow> time \<Rightarrow> verr option"
  va_ValidateName :: "string \<Rightarrow> verr \<Rightarrow> verr"
  sw_StringValue :: "string option \<Rightarrow> string"
  sw_Int64Value :: "int option \<Rightarrow> int"

text \<open>Their documented behaviour, the hypothesis of the properties.\<close>

definition api_lib_doc :: "api_lib \<Rightarrow> bool" where
  "api_lib_doc lib \<longleftrightarrow>
     (\<forall>name nil. (va_Required lib name nil = None) = (\<not> nil))
   \<and> (\<forall>name nil e. va_Required lib name nil = Some e \<longrightarrow> (\<exists>t. e = Violation name t))
   \<and> (\<forall>name v vs. (va_EnumCase lib name v vs = None) = (v \<in> set vs))
   \<and> (\<forall>name v vs e. va_EnumCase lib name v vs = Some e \<longrightarrow> (\<exists>t. e = Violation name t))
   \<and> (\<forall>name v m. (va_MinimumInt lib name v m = None) = (m \<le> v))
   \<and> (\<forall>name v m e. va_MinimumInt lib name v m = Some e \<longrightarrow> (\<exists>t. e = Violation name t))
   \<and> (\<forall>name t. va_FormatOf lib name t = None)
   \<and> (\<forall>name n t. \<exists>n' t'. va_ValidateName lib name (Violation n t) = Violation n' t')
   \<and> (\<forall>name es. \<exists>es'. va_ValidateName lib name (CompositeError es) = CompositeError es')
   \<and> (\<forall>x. sw_StringValue lib (Some x) = x) \<and> (\<forall>n. sw_Int64Value lib (Some n) = n)"

text \<open>
  The shapes of the generated methods: a required field, and then its check on the
  value behind the pointer; a field that may be empty; a date; the collected errors.
\<close>

definition nil_panic :: verr where "nil_panic = OtherError nil_deref"

definition required :: "api_lib \<Rightarrow> string \<Rightarrow> 'a option \<Rightarrow> ('a \<Rightarrow> verr option) \<Rightarrow> verr option" where
  "required lib name x check =
     (case va_Required lib name (x = None) of
        Some e \<Rightarrow> Some e
      | None \<Rightarrow> (case x of None \<Rightarrow> Some nil_panic | Some v \<Rightarrow> check v))"

definition present :: "api_lib \<Rightarrow> string \<Rightarrow> 'a option \<Rightarrow> verr option" where
  "present lib name x = va_Required lib name (x = None)"

definition optional_enum :: "api_lib \<Rightarrow> string \<Rightarrow> string \<Rightarrow> string list \<Rightarrow> verr option" where
  "optional_enum lib name v vs = (if v = [] then None else va_EnumCase lib name v vs)"

definition date_time :: "api_lib \<Rightarrow> string \<Rightarrow> time option \<Rightarrow> verr option" where
  "date_time lib name t = (case t of None \<Rightarrow> None | Some t \<Rightarrow> va_FormatOf lib name t)"

definition composite :: "verr option list \<Rightarrow> verr option" where
  "composite checks =
     (let res = List.map_filter id checks
      in if nil_panic \<in> set res then Some nil_panic
         else if res = [] then None else Some (CompositeError res))"

text \<open>The loop over a list of messages: the first item with an error ends it; nil items are skipped.\<close>

fun validate_items :: "api_lib \<Rightarrow> string \<Rightarrow> nat \<Rightarrow> ('a \<Rightarrow> verr option) \<Rightarrow> 'a option list \<Rightarrow> verr option" where
  "validate_items lib name i Validate [] = None"
| "validate_items lib name i Validate (None # xs) = validate_items lib name (Suc i) Validate xs"
| "validate_items lib name i Validate (Some x # xs) =
     (case Validate x of
        Some e \<Rightarrow> Some (case e of OtherError _ \<Rightarrow> e
                        | _ \<Rightarrow> va_ValidateName lib (name @ ''.'' @ nat_digits i) e)
      | None \<Rightarrow> validate_items lib name (Suc i) Validate xs)"

definition validate_list ::
  "api_lib \<Rightarrow> string \<Rightarrow> ('a \<Rightarrow> verr option) \<Rightarrow> 'a option list option \<Rightarrow> verr option" where
  "validate_list lib name Validate xs = required lib name xs (validate_items lib name 0 Validate)"

section \<open>Request payloads\<close>

record PostCreateKeyPayload =
  ck_Algorithm :: "string option"
  ck_ChainType :: "string option"
  ck_Curve :: "string option"
  ck_Description :: string
  ck_Tags :: "(string \<times> string) list option"
  ck_Threshold :: "int option"
  ck_TotalNodes :: "int option"

definition algorithm_enum :: "string list" where "algorithm_enum = [''ECDSA'', ''EdDSA'']"
definition chain_type_enum :: "string list" where
  "chain_type_enum = [''bitcoin'', ''ethereum'', ''bsc'', ''avalanche'']"
definition curve_enum :: "string list" where "curve_enum = [''secp256k1'', ''secp256r1'', ''Ed25519'']"

definition create_key_Validate :: "api_lib \<Rightarrow> PostCreateKeyPayload \<Rightarrow> verr option" where
  "create_key_Validate lib m = composite
     [required lib ''algorithm'' (ck_Algorithm m) (\<lambda>v. va_EnumCase lib ''algorithm'' v algorithm_enum),
      required lib ''chain_type'' (ck_ChainType m) (\<lambda>v. va_EnumCase lib ''chain_type'' v chain_type_enum),
      required lib ''curve'' (ck_Curve m) (\<lambda>v. va_EnumCase lib ''curve'' v curve_enum),
      required lib ''threshold'' (ck_Threshold m) (\<lambda>v. va_MinimumInt lib ''threshold'' v 2),
      required lib ''total_nodes'' (ck_TotalNodes m) (\<lambda>v. va_MinimumInt lib ''total_nodes'' v 2)]"

definition message_type_enum :: "string list" where
  "message_type_enum = [''transaction'', ''message'', ''raw'']"

record PostSignPayload =
  pp_ChainType :: string
  pp_KeyID :: "string option"
  pp_Message :: "byte list option"
  pp_MessageType :: string

definition sign_Validate :: "api_lib \<Rightarrow> PostSignPayload \<Rightarrow> verr option" where
  "sign_Validate lib m = composite
     [present lib ''key_id'' (pp_KeyID m), present lib ''message'' (pp_Message m),
      optional_enum lib ''message_type'' (pp_MessageType m) message_type_enum]"

record BatchMessage =
  bm_Message :: "byte list option"
  bm_MessageType :: string

record PostBatchSignPayload =
  pb_ChainType :: string
  pb_KeyID :: "string option"
  pb_Messages :: "BatchMessage option list option"

definition batch_message_Validate :: "api_lib \<Rightarrow> BatchMessage \<Rightarrow> verr option" where
  "batch_message_Validate lib m = composite
     [present lib ''message'' (bm_Message m),
      optional_enum lib ''message_type'' (bm_MessageType m) message_type_enum]"

definition batch_sign_Validate :: "api_lib \<Rightarrow> PostBatchSignPayload \<Rightarrow> verr option" where
  "batch_sign_Validate lib m = composite
     [present lib ''key_id'' (pb_KeyID m),
      validate_list lib ''messages'' (batch_message_Validate lib) (pb_Messages m)]"

record PostVerifyPayload =
  pv_Algorithm :: string
  pv_ChainType :: string
  pv_Message :: "byte list option"
  pv_PublicKey :: "string option"
  pv_Signature :: "string option"

definition verify_Validate :: "api_lib \<Rightarrow> PostVerifyPayload \<Rightarrow> verr option" where
  "verify_Validate lib m = composite
     [optional_enum lib ''algorithm'' (pv_Algorithm m) algorithm_enum,
      present lib ''message'' (pv_Message m), present lib ''public_key'' (pv_PublicKey m),
      present lib ''signature'' (pv_Signature m)]"

record PostCreateSessionPayload =
  pc_KeyID :: "string option"
  pc_Message :: "byte list option"
  pc_Protocol :: string
  pc_Timeout :: int

definition create_session_Validate :: "api_lib \<Rightarrow> PostCreateSessionPayload \<Rightarrow> verr option" where
  "create_session_Validate lib m = composite
     [present lib ''key_id'' (pc_KeyID m), present lib ''message'' (pc_Message m),
      optional_enum lib ''protocol'' (pc_Protocol m) [''gg18'', ''gg20'', ''frost'']]"

record PostRegisterNodePayload =
  pn_Capabilities :: "string list option"
  pn_Endpoint :: "string option"
  pn_Metadata :: "(string \<times> string) list"
  pn_NodeID :: string
  pn_NodeType :: "string option"
  pn_PublicKey :: "string option"

definition register_node_Validate :: "api_lib \<Rightarrow> PostRegisterNodePayload \<Rightarrow> verr option" where
  "register_node_Validate lib m = composite
     [present lib ''endpoint'' (pn_Endpoint m),
      required lib ''node_type'' (pn_NodeType m)
        (\<lambda>v. va_EnumCase lib ''node_type'' v [''coordinator'', ''participant'']),
      present lib ''public_key'' (pn_PublicKey m)]"

section \<open>Responses\<close>

record CreateKeyResponse =
  rk_Address :: string
  rk_Algorithm :: "string option"
  rk_ChainType :: "string option"
  rk_CreatedAt :: "time option"
  rk_Curve :: "string option"
  rk_Description :: string
  rk_KeyID :: "string option"
  rk_PublicKey :: "string option"
  rk_Status :: "string option"
  rk_Tags :: "(string \<times> string) list option"
  rk_Threshold :: "int option"
  rk_TotalNodes :: "int option"

definition status_enum :: "string list" where
  "status_enum = [''Active'', ''Inactive'', ''PendingDeletion'', ''Deleted'']"

definition create_key_response_Validate :: "api_lib \<Rightarrow> CreateKeyResponse \<Rightarrow> verr option" where
  "create_key_response_Validate lib m = composite
     [present lib ''algorithm'' (rk_Algorithm m), present lib ''chain_type'' (rk_ChainType m),
      date_time lib ''created_at'' (rk_CreatedAt m), present lib ''curve'' (rk_Curve m),
      present lib ''key_id'' (rk_KeyID m), present lib ''public_key'' (rk_PublicKey m),
      required lib ''status'' (rk_Status m) (\<lambda>v. va_EnumCase lib ''status'' v status_enum),
      present lib ''threshold'' (rk_Threshold m), present lib ''total_nodes'' (rk_TotalNodes m)]"

text \<open>\<open>GetKeyResponse\<close> adds the update time, and its status is any string.\<close>

record GetKeyResponse =
  gk_Address :: string
  gk_Algorithm :: "string option"
  gk_ChainType :: "string option"
  gk_CreatedAt :: "time option"
  gk_Curve :: "string option"
  gk_Description :: string
  gk_KeyID :: "string option"
  gk_PublicKey :: "string option"
  gk_Status :: "string option"
  gk_Tags :: "(string \<times> string) list"
  gk_Threshold :: "int option"
  gk_TotalNodes :: "int option"
  gk_UpdatedAt :: "time option"

definition get_key_response_Validate :: "api_lib \<Rightarrow> GetKeyResponse \<Rightarrow> verr option" where
  "get_key_response_Validate lib m = composite
     [present lib ''algorithm'' (gk_Algorithm m), present lib ''chain_type'' (gk_ChainType m),
      date_time lib ''created_at'' (gk_CreatedAt m), present lib ''curve'' (gk_Curve m),
      present lib ''key_id'' (gk_KeyID m), present lib ''public_key'' (gk_PublicKey m),
      present lib ''status'' (gk_Status m), present lib ''threshold'' (gk_Threshold m),
      present lib ''total_nodes'' (gk_TotalNodes m), date_time lib ''updated_at'' (gk_UpdatedAt m)]"

record ListKeysResponse =
  lk_Keys :: "GetKeyResponse option list option"
  lk_Limit :: int
  lk_Offset :: int
  lk_Total :: int

definition list_keys_response_Validate :: "api_lib \<Rightarrow> ListKeysResponse \<Rightarrow> verr option" where
  "list_keys_response_Validate lib m = composite
     [validate_list lib ''keys'' (get_key_response_Validate lib) (lk_Keys m)]"

record GenerateAddressResponse =
  ga_Address :: "string option"
  ga_ChainType :: "string option"
  ga_KeyID :: "string option"

definition address_response_Validate :: "api_lib \<Rightarrow> GenerateAddressResponse \<Rightarrow> verr option" where
  "address_response_Validate lib m = composite
     [present lib ''address'' (ga_Address m), present lib ''chain_type'' (ga_ChainType m),
      present lib ''key_id'' (ga_KeyID m)]"

record ApiSignResponse =
  as_ChainType :: "string option"
  as_KeyID :: "string option"
  as_Message :: "string option"
  as_ParticipatingNodes :: "string list"
  as_PublicKey :: "string option"
  as_SessionID :: "string option"
  as_Signature :: "string option"
  as_SignedAt :: "time option"

definition sign_response_Validate :: "api_lib \<Rightarrow> ApiSignResponse \<Rightarrow> verr option" where
  "sign_response_Validate lib m = composite
     [present lib ''chain_type'' (as_ChainType m), present lib ''key_id'' (as_KeyID m),
      present lib ''message'' (as_Message m), present lib ''public_key'' (as_PublicKey m),
      present lib ''session_id'' (as_SessionID m), present lib ''signature'' (as_Signature m),
      date_time lib ''signed_at'' (as_SignedAt m)]"

record ApiBatchResponse =
  ab_Failed :: "int option"
  ab_Signatures :: "ApiSignResponse option list option"
  ab_Success :: "int option"
  ab_Total :: "int option"

definition batch_response_Validate :: "api_lib \<Rightarrow> ApiBatchResponse \<Rightarrow> verr option" where
  "batch_response_Validate lib m = composite
     [present lib ''failed'' (ab_Failed m),
      validate_list lib ''signatures'' (sign_response_Validate lib) (ab_Signatures m),
      present lib ''success'' (ab_Success m), present lib ''total'' (ab_Total m)]"

text \<open>\<open>verified_at\<close> is a pointer to a date: its format is checked behind the pointer.\<close>

record ApiVerifyResponse =
  av_Address :: string
  av_PublicKey :: "string option"
  av_Valid :: "bool option"
  av_VerifiedAt :: "time option"

definition verify_response_Validate :: "api_lib \<Rightarrow> ApiVerifyResponse \<Rightarrow> verr option" where
  "verify_response_Validate lib m = composite
     [present lib ''public_key'' (av_PublicKey m), present lib ''valid'' (av_Valid m),
      required lib ''verified_at'' (av_VerifiedAt m) (va_FormatOf lib ''verified_at'')]"

record CreateSessionResponse =
  cp_CreatedAt :: "time option"
  cp_ExpiresAt :: "time option"
  cp_KeyID :: "string option"
  cp_ParticipatingNodes :: "string list"
  cp_Protocol :: "string option"
  cp_SessionID :: "string option"
  cp_Status :: "string option"
  cp_Threshold :: "int option"
  cp_Timeout :: int
  cp_TotalNodes :: "int option"

definition create_session_response_Validate :: "api_lib \<Rightarrow> CreateSessionResponse \<Rightarrow> verr option" where
  "create_session_response_Validate lib m = composite
     [date_time lib ''created_at'' (cp_CreatedAt m), date_time lib ''expires_at'' (cp_ExpiresAt m),
      present lib ''key_id'' (cp_KeyID m), present lib ''protocol'' (cp_Protocol m),
      present lib ''session_id'' (cp_SessionID m), present lib ''status'' (cp_Status m),
      present lib ''threshold'' (cp_Threshold m), present lib ''total_nodes'' (cp_TotalNodes m)]"

record GetSessionResponse =
  gs_CompletedAt :: "time option"
  gs_CreatedAt :: "time option"
  gs_CurrentRound :: int
  gs_DurationMs :: int
  gs_KeyID :: "string option"
  gs_ParticipatingNodes :: "string list"
  gs_Protocol :: "string option"
  gs_SessionID :: "string option"
  gs_Signature :: string
  gs_Status :: "string option"
  gs_Threshold :: int
  gs_TotalNodes :: int
  gs_TotalRounds :: int

definition get_session_response_Validate :: "api_lib \<Rightarrow> GetSessionResponse \<Rightarrow> verr option" where
  "get_session_response_Validate lib m = composite
     [date_time lib ''completed_at'' (gs_CompletedAt m), date_time lib ''created_at'' (gs_CreatedAt m),
      present lib ''key_id'' (gs_KeyID m), present lib ''protocol'' (gs_Protocol m),
      present lib ''session_id'' (gs_SessionID m), present lib ''status'' (gs_Status m)]"

text \<open>\<open>RegisterNodeResponse\<close> has the fields of \<open>GetNodeResponse\<close> but the metadata.\<close>

record RegisterNodeResponse =
  rn_Capabilities :: "string list"
  rn_Endpoint :: "string option"
  rn_LastHeartbeat :: "time option"
  rn_NodeID :: "string option"
  rn_NodeType :: "string option"
  rn_PublicKey :: string
  rn_RegisteredAt :: "time option"
  rn_Status :: "string option"

definition register_node_response_Validate :: "api_lib \<Rightarrow> RegisterNodeResponse \<Rightarrow> verr option" where
  "register_node_response_Validate lib m = composite
     [present lib ''endpoint'' (rn_Endpoint m), date_time lib ''last_heartbeat'' (rn_LastHeartbeat m),
      present lib ''node_id'' (rn_NodeID m), present lib ''node_type'' (rn_NodeType m),
      date_time lib ''registered_at'' (rn_RegisteredAt m), present lib ''status'' (rn_Status m)]"

record GetNodeResponse =
  gn_Capabilities :: "string list"
  gn_Endpoint :: "string option"
  gn_LastHeartbeat :: "time option"
  gn_Metadata :: "(string \<times> string) list"
  gn_NodeID :: "string option"
  gn_NodeType :: "string option"
  gn_PublicKey :: string
  gn_RegisteredAt :: "time option"
  gn_Status :: "string option"

definition get_node_response_Validate :: "api_lib \<Rightarrow> GetNodeResponse \<Rightarrow> verr option" where
  "get_node_response_Validate lib m = composite
     [present lib ''endpoint'' (gn_Endpoint m), date_time lib ''last_heartbeat'' (gn_LastHeartbeat m),
      present lib ''node_id'' (gn_NodeID m), present lib ''node_type'' (gn_NodeType m),
      date_time lib ''registered_at'' (gn_RegisteredAt m), present lib ''status'' (gn_Status m)]"

record ListNodesResponse =
  ln_Limit :: int
  ln_Nodes :: "GetNodeResponse option list option"
  ln_Offset :: int
  ln_Total :: int

definition list_nodes_response_Validate :: "api_lib \<Rightarrow> ListNodesResponse \<Rightarrow> verr option" where
  "list_nodes_response_Validate lib m = composite
     [validate_list lib ''nodes'' (get_node_response_Validate lib) (ln_Nodes m)]"

end
