(* ===== verification/Handlers.thy ===== *)
theory Handlers
  imports Api
begin

text \<open>
  The wallet's HTTP handlers, \<open>internal/api/handlers/mpc\<close>. A handler takes what it
  reads of the request (the bound body, path and query parameters) and the state, and
  returns its reply with the new state. The services it calls are the definitions of
  their components; \<open>ah_coordinator\<close> is \<open>None\<close> where the server has no coordinator
  service. Log lines are left out.
\<close>

record api_server =
  ah_lib :: api_lib
  ah_NodeType :: string
  ah_keys :: key_env
  ah_coordinator :: "coordinator option"
  ah_signing :: sign_service

text \<open>\<open>x, err := f(); if err != nil { return e }; k(x)\<close>; a panic passes the test.\<close>

definition or_fail :: "('w, 'a) res \<Rightarrow> (err \<Rightarrow> 'x) \<Rightarrow> ('a \<Rightarrow> 'w \<Rightarrow> 'x \<times> 'w) \<Rightarrow> 'x \<times> 'w" where
  "or_fail r fail k = (case r of (Inl e, s) \<Rightarrow> (fail e, s) | (Inr x, s) \<Rightarrow> k x s)"

text \<open>\<open>var body T; if err := BindAndValidateBody(c, &body); err != nil { return err }\<close>\<close>

definition with_body ::
  "err + 'b \<Rightarrow> ('b \<Rightarrow> verr option) \<Rightarrow> ('b \<Rightarrow> 'r reply \<times> 'w) \<Rightarrow> 'w \<Rightarrow> 'r reply \<times> 'w" where
  "with_body bound Validate k s = (case BindAndValidateBody bound Validate of Inl r \<Rightarrow> (r, s) | Inr v \<Rightarrow> k v)"

text \<open>\<open>strconv.Atoi\<close>: an optional sign and decimal digits, in the range of an int64.\<close>

definition digit_value :: "char \<Rightarrow> int option" where
  "digit_value c = (let n = of_char c in if (48::int) \<le> n \<and> n \<le> 57 then Some (n - 48) else None)"

fun digits_value :: "int \<Rightarrow> string \<Rightarrow> int option" where
  "digits_value acc [] = Some acc"
| "digits_value acc (c # cs) =
     (case digit_value c of None \<Rightarrow> None | Some d \<Rightarrow> digits_value (10 * acc + d) cs)"

definition Atoi :: "string \<Rightarrow> int option" where
  "Atoi s =
     (let (neg, ds) = (case s of [] \<Rightarrow> (False, [])
                       | c # cs \<Rightarrow> if c = CHR ''-'' then (True, cs)
                                   else if c = CHR ''+'' then (False, cs) else (False, s))
      in if ds = [] then None
         else case digits_value 0 ds of
             None \<Rightarrow> None
           | Some n \<Rightarrow> let v = (if neg then - n else n)
                       in if - (2 ^ 63) \<le> v \<and> v < 2 ^ 63 then Some v else None)"

text \<open>A numeric query parameter with its default: one that does not parse is ignored.\<close>

definition query_int :: "string \<Rightarrow> int \<Rightarrow> int" where
  "query_int q dflt = (if q = [] then dflt else case Atoi q of Some v \<Rightarrow> v | None \<Rightarrow> dflt)"

section \<open>Keys (handlers/mpc/keys)\<close>

definition convertTags :: "(string \<times> string) list option \<Rightarrow> (string \<times> string) list" where
  "convertTags tags = (case tags of None \<Rightarrow> [] | Some t \<Rightarrow> t)"

definition key_request :: "api_lib \<Rightarrow> PostCreateKeyPayload \<Rightarrow> string \<Rightarrow> CreateKeyRequest" where
  "key_request lib body keyID =
     \<lparr>cr_KeyID = keyID, cr_Algorithm = sw_StringValue lib (ck_Algorithm body),
      cr_Curve = sw_StringValue lib (ck_Curve body), cr_Threshold = sw_Int64Value lib (ck_Threshold body),
      cr_TotalNodes = sw_Int64Value lib (ck_TotalNodes body),
      cr_ChainType = sw_StringValue lib (ck_ChainType body), cr_Description = ck_Description body,
      cr_Tags = convertTags (ck_Tags body)\<rparr>"

definition dkg_session_request :: "api_lib \<Rightarrow> PostCreateKeyPayload \<Rightarrow> string \<Rightarrow> CreateDKGSessionRequest" where
  "dkg_session_request lib body keyID =
     \<lparr>cd_KeyID = keyID, cd_Algorithm = sw_StringValue lib (ck_Algorithm body),
      cd_Curve = sw_StringValue lib (ck_Curve body), cd_Protocol = [],
      cd_Threshold = sw_Int64Value lib (ck_Threshold body),
      cd_TotalNodes = sw_Int64Value lib (ck_TotalNodes body), cd_NodeIDs = []\<rparr>"

definition create_key_response :: "PostCreateKeyPayload \<Rightarrow> KeyMetadata \<Rightarrow> CreateKeyResponse" where
  "create_key_response body k =
     \<lparr>rk_Address = km_Address k, rk_Algorithm = Some (km_Algorithm k), rk_ChainType = Some (km_ChainType k),
      rk_CreatedAt = Some (km_CreatedAt k), rk_Curve = Some (km_Curve k),
      rk_Description = km_Description k, rk_KeyID = Some (km_KeyID k),
      rk_PublicKey = Some (km_PublicKey k), rk_Status = Some (km_Status k), rk_Tags = ck_Tags body,
      rk_Threshold = Some (km_Threshold k), rk_TotalNodes = Some (km_TotalNodes k)\<rparr>"

text \<open>
  The reply comes with the notice to the leader that \<open>CreateDKGSession\<close> has started,
  if it came to that. The metadata the reply is made from gets the status
  \<open>Inactive\<close>; the stored row keeps its own.
\<close>

type_synonym notice = "string \<times> StartDKGRequest"

definition create_key_session ::
  "api_server \<Rightarrow> coordinator \<Rightarrow> PostCreateKeyPayload \<Rightarrow> mpc_state
     \<Rightarrow> (CreateKeyResponse reply \<times> notice option) \<times> mpc_state" where
  "create_key_session srv co body s =
     (let (u, w) = uuid_New (net s); keyID = ''key-'' @ u; lib = ah_lib srv
      in or_fail (CreatePlaceholderKey (s\<lparr>net := w\<rparr>) (key_request lib body keyID))
           (\<lambda>e. (http_error 500 ''Failed to create placeholder key'' e, None))
           (\<lambda>placeholderKey s.
              case CreateDKGSession co s (dkg_session_request lib body keyID) of
                (Inl e, s) \<Rightarrow>
                  if is_panic e then ((Failed e, None), s)
                  else ((HTTPError 500 ''Failed to create DKG session'', None), snd (DeleteKey s keyID))
              | (Inr (dkgSession, notice), s) \<Rightarrow>
                  ((ValidateAndReturn 201 (create_key_response_Validate lib)
                      (create_key_response body (placeholderKey\<lparr>km_Status := ''Inactive''\<rparr>)),
                    Some notice), s)))"

definition create_key_direct ::
  "api_server \<Rightarrow> PostCreateKeyPayload \<Rightarrow> mpc_state \<Rightarrow> CreateKeyResponse reply \<times> mpc_state" where
  "create_key_direct srv body s =
     or_fail (CreateKey (ah_keys srv) s (key_request (ah_lib srv) body []))
       (http_error 500 ''Failed to create key'')
       (\<lambda>k s. (ValidateAndReturn 201 (create_key_response_Validate (ah_lib srv))
                  (create_key_response body k), s))"

definition postCreateKeyHandler ::
  "api_server \<Rightarrow> err + PostCreateKeyPayload \<Rightarrow> mpc_state
     \<Rightarrow> (CreateKeyResponse reply \<times> notice option) \<times> mpc_state" where
  "postCreateKeyHandler srv bound s =
     (case BindAndValidateBody bound (create_key_Validate (ah_lib srv)) of
        Inl r \<Rightarrow> ((r, None), s)
      | Inr body \<Rightarrow>
          if ah_NodeType srv \<noteq> ''coordinator''
          then ((HTTPError 403 ''Key creation is only allowed on coordinator nodes'', None), s)
          else (case ah_coordinator srv of
              Some co \<Rightarrow> create_key_session srv co body s
            | None \<Rightarrow> let (r, s) = create_key_direct srv body s in ((r, None), s)))"

definition get_key_response :: "KeyMetadata \<Rightarrow> GetKeyResponse" where
  "get_key_response k =
     \<lparr>gk_Address = km_Address k, gk_Algorithm = Some (km_Algorithm k), gk_ChainType = Some (km_ChainType k),
      gk_CreatedAt = Some (km_CreatedAt k), gk_Curve = Some (km_Curve k),
      gk_Description = km_Description k, gk_KeyID = Some (km_KeyID k),
      gk_PublicKey = Some (km_PublicKey k), gk_Status = Some (km_Status k), gk_Tags = km_Tags k,
      gk_Threshold = Some (km_Threshold k), gk_TotalNodes = Some (km_TotalNodes k),
      gk_UpdatedAt = Some (km_UpdatedAt k)\<rparr>"

definition getKeyHandler :: "api_server \<Rightarrow> string \<Rightarrow> mpc_state \<Rightarrow> GetKeyResponse reply \<times> mpc_state" where
  "getKeyHandler srv keyID s =
     (if keyID = [] then (HTTPError 400 ''key_id is required'', s)
      else or_fail (GetKey s keyID) (http_error 404 ''Key not found'')
        (\<lambda>k s. (ValidateAndReturn 200 (get_key_response_Validate (ah_lib srv)) (get_key_response k), s)))"

definition getListKeysHandler ::
  "api_server \<Rightarrow> string \<Rightarrow> string \<Rightarrow> string \<Rightarrow> string \<Rightarrow> mpc_state \<Rightarrow> ListKeysResponse reply \<times> mpc_state" where
  "getListKeysHandler srv chainType status limitStr offsetStr s =
     (let limit = query_int limitStr 50; offset = query_int offsetStr 0;
          f = \<lparr>kf_ChainType = chainType, kf_Status = status, kf_TagKey = [], kf_TagValue = [],
               kf_Limit = limit, kf_Offset = offset\<rparr>
      in or_fail (ListKeys s (Some f)) Failed
           (\<lambda>ks s. (ValidateAndReturn 200 (list_keys_response_Validate (ah_lib srv))
                      \<lparr>lk_Keys = Some (map (Some \<circ> get_key_response) ks), lk_Limit = limit,
                       lk_Offset = offset, lk_Total = int (length ks)\<rparr>, s)))"

definition deleteKeyHandler :: "api_server \<Rightarrow> string \<Rightarrow> mpc_state \<Rightarrow> unit reply \<times> mpc_state" where
  "deleteKeyHandler srv keyID s =
     (if keyID = [] then (HTTPError 400 ''key_id is required'', s)
      else or_fail (DeleteKey s keyID) (http_error 500 ''Failed to delete key'') (\<lambda>_ s. (Reply 200 (), s)))"

definition postGenerateAddressHandler ::
  "api_server \<Rightarrow> string \<Rightarrow> string \<Rightarrow> mpc_state \<Rightarrow> GenerateAddressResponse reply \<times> mpc_state" where
  "postGenerateAddressHandler srv keyID chainType s =
     (if keyID = [] then (HTTPError 400 ''key_id is required'', s)
      else if chainType = [] then (HTTPError 400 ''chain_type is required'', s)
      else or_fail (GenerateAddress (ah_keys srv) s keyID chainType)
        (http_error 500 ''Failed to generate address'')
        (\<lambda>address s. (ValidateAndReturn 200 (address_response_Validate (ah_lib srv))
             \<lparr>ga_Address = Some address, ga_ChainType = Some chainType, ga_KeyID = Some keyID\<rparr>, s)))"

section \<open>Signing (handlers/mpc/signing)\<close>

text \<open>
  \<open>time.Parse(time.RFC3339, t.Format(time.RFC3339))\<close>: the fraction of a second is
  lost, and the parse does not fail, so the branch for an unreadable time is not taken.
\<close>

definition rfc3339 :: "time \<Rightarrow> time" where "rfc3339 t = t div 1000000 * 1000000"

definition api_sign_response :: "SignResponse \<Rightarrow> ApiSignResponse" where
  "api_sign_response r =
     \<lparr>as_ChainType = Some (sr_ChainType r), as_KeyID = Some (sr_KeyID r), as_Message = Some (sr_Message r),
      as_ParticipatingNodes = sr_ParticipatingNodes r, as_PublicKey = Some (sr_PublicKey r),
      as_SessionID = Some (sr_SessionID r), as_Signature = Some (sr_Signature r),
      as_SignedAt = Some (rfc3339 (sr_SignedAt r))\<rparr>"

definition postSignHandler ::
  "api_server \<Rightarrow> err + PostSignPayload \<Rightarrow> mpc_state \<Rightarrow> ApiSignResponse reply \<times> mpc_state" where
  "postSignHandler srv bound s = with_body bound (sign_Validate (ah_lib srv))
     (\<lambda>body. case pp_Message body of
        None \<Rightarrow> (HTTPError 400 ''message is required'', s)
      | Some message \<Rightarrow>
          or_fail (ThresholdSign (ah_signing srv) s
              \<lparr>sq_KeyID = sw_StringValue (ah_lib srv) (pp_KeyID body), sq_Message = message,
               sq_MessageHex = hex_EncodeToString message, sq_MessageType = pp_MessageType body,
               sq_ChainType = pp_ChainType body\<rparr>)
            (http_error 500 ''Failed to sign'')
            (\<lambda>resp s. (ValidateAndReturn 200 (sign_response_Validate (ah_lib srv)) (api_sign_response resp), s))) s"

text \<open>The request list: a message without bytes is skipped, a nil item is dereferenced.\<close>

fun batch_requests ::
  "api_lib \<Rightarrow> PostBatchSignPayload \<Rightarrow> BatchMessage option list \<Rightarrow> err + SignRequest list" where
  "batch_requests lib body [] = Inr []"
| "batch_requests lib body (None # ms) = Inl nil_deref"
| "batch_requests lib body (Some m # ms) =
     (case batch_requests lib body ms of
        Inl e \<Rightarrow> Inl e
      | Inr rs \<Rightarrow> Inr (case bm_Message m of
            None \<Rightarrow> rs
          | Some message \<Rightarrow>
              \<lparr>sq_KeyID = sw_StringValue lib (pb_KeyID body), sq_Message = message,
               sq_MessageHex = hex_EncodeToString message, sq_MessageType = bm_MessageType m,
               sq_ChainType = pb_ChainType body\<rparr> # rs))"

definition batch_response :: "BatchSignResponse \<Rightarrow> ApiBatchResponse" where
  "batch_response r =
     \<lparr>ab_Failed = Some (br_Failed r),
      ab_Signatures = Some (map (Some \<circ> api_sign_response) (br_Signatures r)),
      ab_Success = Some (br_Success r), ab_Total = Some (br_Total r)\<rparr>"

definition postBatchSignHandler ::
  "api_server \<Rightarrow> nat list \<Rightarrow> err + PostBatchSignPayload \<Rightarrow> mpc_state \<Rightarrow> ApiBatchResponse reply \<times> mpc_state" where
  "postBatchSignHandler srv schedule bound s = with_body bound (batch_sign_Validate (ah_lib srv))
     (\<lambda>body. case batch_requests (ah_lib srv) body (case pb_Messages body of None \<Rightarrow> [] | Some ms \<Rightarrow> ms) of
        Inl e \<Rightarrow> (Failed e, s)
      | Inr messages \<Rightarrow>
          if messages = [] then (HTTPError 400 ''no valid messages to sign'', s)
          else or_fail (BatchSign (ah_signing srv) schedule s messages)
            (http_error 500 ''Failed to batch sign'')
            (\<lambda>resp s. (ValidateAndReturn 200 (batch_response_Validate (ah_lib srv)) (batch_response resp), s))) s"

definition postVerifyHandler ::
  "api_server \<Rightarrow> err + PostVerifyPayload \<Rightarrow> mpc_state \<Rightarrow> ApiVerifyResponse reply \<times> mpc_state" where
  "postVerifyHandler srv bound s = with_body bound (verify_Validate (ah_lib srv))
     (\<lambda>body. case pv_Message body of
        None \<Rightarrow> (HTTPError 400 ''message is required'', s)
      | Some message \<Rightarrow>
         (case Verify (sv_engine (ah_signing srv)) (now (net s))
              \<lparr>vq_Signature = sw_StringValue (ah_lib srv) (pv_Signature body), vq_Message = message,
               vq_MessageHex = hex_EncodeToString message,
               vq_PublicKey = sw_StringValue (ah_lib srv) (pv_PublicKey body),
               vq_Algorithm = pv_Algorithm body, vq_ChainType = pv_ChainType body\<rparr> of
            Inl e \<Rightarrow> (http_error 500 ''Failed to verify signature'' e, s)
          | Inr resp \<Rightarrow>
              (ValidateAndReturn 200 (verify_response_Validate (ah_lib srv))
                 \<lparr>av_Address = vr_Address resp, av_PublicKey = Some (vr_PublicKey resp),
                  av_Valid = Some (vr_Valid resp), av_VerifiedAt = Some (rfc3339 (vr_VerifiedAt resp))\<rparr>, s))) s"

section \<open>Sessions (handlers/mpc/sessions)\<close>

definition create_session_response :: "Session \<Rightarrow> int \<Rightarrow> CreateSessionResponse" where
  "create_session_response x timeout =
     \<lparr>cp_CreatedAt = Some (se_CreatedAt x), cp_ExpiresAt = Some (se_ExpiresAt x),
      cp_KeyID = Some (se_KeyID x), cp_ParticipatingNodes = se_ParticipatingNodes x,
      cp_Protocol = Some (se_Protocol x), cp_SessionID = Some (se_SessionID x),
      cp_Status = Some (se_Status x), cp_Threshold = Some (se_Threshold x), cp_Timeout = timeout,
      cp_TotalNodes = Some (se_TotalNodes x)\<rparr>"

definition postCreateSessionHandler ::
  "api_server \<Rightarrow> err + PostCreateSessionPayload \<Rightarrow> mpc_state \<Rightarrow> CreateSessionResponse reply \<times> mpc_state" where
  "postCreateSessionHandler srv bound s = with_body bound (create_session_Validate (ah_lib srv))
     (\<lambda>body. case pc_Message body of
        None \<Rightarrow> (HTTPError 400 ''message is required'', s)
      | Some message \<Rightarrow>
          let protocol = (if pc_Protocol body = [] then ''gg20'' else pc_Protocol body);
              timeout = (if pc_Timeout body = 0 then 300 else pc_Timeout body)
          in case ah_coordinator srv of
              None \<Rightarrow> (Failed nil_deref, s)
            | Some co \<Rightarrow>
                or_fail (CreateSigningSession co s
                    \<lparr>cs_KeyID = sw_StringValue (ah_lib srv) (pc_KeyID body), cs_Message = message,
                     cs_Protocol = protocol, cs_Timeout = timeout\<rparr>)
                  (http_error 500 ''Failed to create session'')
                  (\<lambda>session s. (ValidateAndReturn 201 (create_session_response_Validate (ah_lib srv))
                                  (create_session_response session timeout), s))) s"

definition get_session_response :: "Session \<Rightarrow> GetSessionResponse" where
  "get_session_response x =
     \<lparr>gs_CompletedAt = se_CompletedAt x, gs_CreatedAt = Some (se_CreatedAt x),
      gs_CurrentRound = se_CurrentRound x, gs_DurationMs = se_DurationMs x, gs_KeyID = Some (se_KeyID x),
      gs_ParticipatingNodes = se_ParticipatingNodes x, gs_Protocol = Some (se_Protocol x),
      gs_SessionID = Some (se_SessionID x), gs_Signature = se_Signature x,
      gs_Status = Some (se_Status x), gs_Threshold = se_Threshold x, gs_TotalNodes = se_TotalNodes x,
      gs_TotalRounds = se_TotalRounds x\<rparr>"

definition getSessionHandler :: "api_server \<Rightarrow> string \<Rightarrow> mpc_state \<Rightarrow> GetSessionResponse reply \<times> mpc_state" where
  "getSessionHandler srv sessionID s =
     (if sessionID = [] then (HTTPError 400 ''session_id is required'', s)
      else or_fail (on_net (\<lambda>w. sm_GetSession w sessionID) s) (http_error 404 ''Session not found'')
        (\<lambda>x s. (ValidateAndReturn 200 (get_session_response_Validate (ah_lib srv)) (get_session_response x), s)))"

text \<open>The two replies that are plain maps.\<close>

definition postCancelSessionHandler ::
  "api_server \<Rightarrow> string \<Rightarrow> mpc_state \<Rightarrow> (string \<times> string) list reply \<times> mpc_state" where
  "postCancelSessionHandler srv sessionID s =
     (if sessionID = [] then (HTTPError 400 ''session_id is required'', s)
      else or_fail (on_net (\<lambda>w. sm_CancelSession w sessionID) s) (http_error 500 ''Failed to cancel session'')
        (\<lambda>_ s. (Reply 200 [(''session_id'', sessionID), (''status'', ''cancelled'')], s)))"

definition postJoinSessionHandler ::
  "api_server \<Rightarrow> string \<Rightarrow> string \<Rightarrow> mpc_state \<Rightarrow> (string \<times> string) list reply \<times> mpc_state" where
  "postJoinSessionHandler srv sessionID nodeID s =
     (if sessionID = [] then (HTTPError 400 ''session_id is required'', s)
      else if nodeID = [] then (HTTPError 400 ''node_id is required'', s)
      else or_fail (on_net (\<lambda>w. sm_JoinSession w sessionID nodeID) s)
        (http_error 500 ''Failed to join session'')
        (\<lambda>_ s. (Reply 200 [(''session_id'', sessionID), (''node_id'', nodeID), (''status'', ''joined'')], s)))"

section \<open>Nodes (handlers/mpc/nodes)\<close>

text \<open>Metadata values that are not strings are dropped.\<close>

fun convertMetadata :: "(string \<times> json) list \<Rightarrow> (string \<times> string) list" where
  "convertMetadata [] = []"
| "convertMetadata ((k, JStr v) # m) = (k, v) # convertMetadata m"
| "convertMetadata ((k, _) # m) = convertMetadata m"

definition get_node_response :: "NodeInfo \<Rightarrow> GetNodeResponse" where
  "get_node_response n =
     \<lparr>gn_Capabilities = ni_Capabilities n, gn_Endpoint = Some (ni_Endpoint n),
      gn_LastHeartbeat = ni_LastHeartbeat n, gn_Metadata = convertMetadata (ni_Metadata n),
      gn_NodeID = Some (ni_NodeID n), gn_NodeType = Some (ni_NodeType n), gn_PublicKey = ni_PublicKey n,
      gn_RegisteredAt = Some (ni_RegisteredAt n), gn_Status = Some (ni_Status n)\<rparr>"

definition getNodeHandler :: "api_server \<Rightarrow> string \<Rightarrow> mpc_state \<Rightarrow> GetNodeResponse reply \<times> mpc_state" where
  "getNodeHandler srv nodeID s =
     (if nodeID = [] then (HTTPError 400 ''node_id is required'', s)
      else or_fail (on_net (\<lambda>w. nm_GetNode w nodeID) s) (http_error 404 ''Node not found'')
        (\<lambda>n s. (ValidateAndReturn 200 (get_node_response_Validate (ah_lib srv)) (get_node_response n), s)))"

definition getListNodesHandler ::
  "api_server \<Rightarrow> string \<Rightarrow> string \<Rightarrow> string \<Rightarrow> string \<Rightarrow> mpc_state \<Rightarrow> ListNodesResponse reply \<times> mpc_state" where
  "getListNodesHandler srv nodeType status limitStr offsetStr s =
     (let limit = query_int limitStr 50; offset = query_int offsetStr 0;
          f = \<lparr>nf_NodeType = nodeType, nf_Status = status, nf_Limit = limit, nf_Offset = offset\<rparr>
      in or_fail (on_net (\<lambda>w. nm_ListNodes w (Some f)) s) (http_error 500 ''Failed to list nodes'')
           (\<lambda>ns s. (ValidateAndReturn 200 (list_nodes_response_Validate (ah_lib srv))
                      \<lparr>ln_Limit = limit, ln_Nodes = Some (map (Some \<circ> get_node_response) ns),
                       ln_Offset = offset, ln_Total = int (length ns)\<rparr>, s)))"

record NodeHealth =
  nh_node_id :: string
  nh_status :: string
  nh_node_status :: string
  nh_last_heartbeat :: "time option"
  nh_checked_at :: time

definition getNodeHealthHandler :: "api_server \<Rightarrow> string \<Rightarrow> mpc_state \<Rightarrow> NodeHealth reply \<times> mpc_state" where
  "getNodeHealthHandler srv nodeID s =
     (if nodeID = [] then (HTTPError 400 ''node_id is required'', s)
      else or_fail (on_net (\<lambda>w. nm_GetNode w nodeID) s) (http_error 404 ''Node not found'')
        (\<lambda>n s.
           let healthStatus = (if ni_Status n \<noteq> ''active'' then ''unhealthy'' else ''healthy'');
               healthStatus = (case ni_LastHeartbeat n of
                   Some t \<Rightarrow> if now (net s) - t > minutes 2 then ''unhealthy'' else healthStatus
                 | None \<Rightarrow> ''unhealthy'')
           in (Reply 200 \<lparr>nh_node_id = nodeID, nh_status = healthStatus, nh_node_status = ni_Status n,
                 nh_last_heartbeat = ni_LastHeartbeat n, nh_checked_at = now (net s)\<rparr>, s)))"

definition buildNodeResponse :: "NodeInfo \<Rightarrow> RegisterNodeResponse" where
  "buildNodeResponse n =
     \<lparr>rn_Capabilities = ni_Capabilities n, rn_Endpoint = Some (ni_Endpoint n),
      rn_LastHeartbeat = ni_LastHeartbeat n, rn_NodeID = Some (ni_NodeID n),
      rn_NodeType = Some (ni_NodeType n), rn_PublicKey = ni_PublicKey n,
      rn_RegisteredAt = Some (ni_RegisteredAt n), rn_Status = Some (ni_Status n)\<rparr>"

definition convertCapabilities :: "string list option \<Rightarrow> string list" where
  "convertCapabilities caps = (case caps of None \<Rightarrow> [] | Some cs \<Rightarrow> cs)"

text \<open>The switch on the node type; \<open>*body.Endpoint\<close> and \<open>*body.PublicKey\<close> are dereferenced.\<close>

definition register_by_type ::
  "byte list \<Rightarrow> PostRegisterNodePayload \<Rightarrow> string \<Rightarrow> mpc_state \<Rightarrow> (mpc_state, NodeInfo) res option" where
  "register_by_type rand8 body nodeType s =
     (if nodeType \<in> {''coordinator'', ''participant''}
      then Some (case (pn_Endpoint body, pn_PublicKey body) of
          (Some endpoint, Some publicKey) \<Rightarrow>
            if nodeType = ''coordinator''
            then on_net (\<lambda>w. RegisterCoordinator rand8 w endpoint publicKey) s
            else on_net (\<lambda>w. RegisterParticipant rand8 w endpoint publicKey
                                (convertCapabilities (pn_Capabilities body))) s
        | _ \<Rightarrow> (Inl nil_deref, s))
      else None)"

definition postRegisterNodeHandler ::
  "api_server \<Rightarrow> byte list \<Rightarrow> err + PostRegisterNodePayload \<Rightarrow> mpc_state
     \<Rightarrow> RegisterNodeResponse reply \<times> mpc_state" where
  "postRegisterNodeHandler srv rand8 bound s = with_body bound (register_node_Validate (ah_lib srv))
     (\<lambda>body. case pn_NodeType body of
        None \<Rightarrow> (HTTPError 400 ''node_type is required'', s)
      | Some nodeType \<Rightarrow>
         (case register_by_type rand8 body nodeType s of
            None \<Rightarrow> (HTTPError 400 ''invalid node_type'', s)
          | Some r \<Rightarrow> or_fail r (http_error 500 ''Failed to register node'')
              (\<lambda>n s. (ValidateAndReturn 201 (register_node_response_Validate (ah_lib srv))
                         (buildNodeResponse n), s)))) s"

end
