(* ===== verification/HandlerProps.thy ===== *)
theory HandlerProps
  imports DkgProps Handlers
begin

text \<open>
  The HTTP interface over the services: which bodies a handler accepts, what a reply
  says about the state behind it, and where the interface and the services disagree.
\<close>

section \<open>Validation\<close>

lemma api_lib_doc_D:
  assumes "api_lib_doc lib"
  shows "(va_Required lib name nil = None) = (\<not> nil)"
    and "va_Required lib name nil = Some e \<Longrightarrow> \<exists>t. e = Violation name t"
    and "(va_EnumCase lib name v vs = None) = (v \<in> set vs)"
    and "va_EnumCase lib name v vs = Some e \<Longrightarrow> \<exists>t. e = Violation name t"
    and "(va_MinimumInt lib name n m = None) = (m \<le> n)"
    and "va_MinimumInt lib name n m = Some e \<Longrightarrow> \<exists>t. e = Violation name t"
    and "va_FormatOf lib name d = None"
    and "sw_StringValue lib (Some x) = x" and "sw_Int64Value lib (Some n) = n"
    and "\<exists>n' t'. va_ValidateName lib name (Violation f t) = Violation n' t'"
    and "\<exists>es'. va_ValidateName lib name (CompositeError es) = CompositeError es'"
  using assms by (simp_all add: api_lib_doc_def)

text \<open>A check that passes exactly when \<open>ok\<close>, and otherwise names its field.\<close>

definition names_field :: "string \<Rightarrow> bool \<Rightarrow> verr option \<Rightarrow> bool" where
  "names_field name ok c \<longleftrightarrow> (if ok then c = None else \<exists>t. c = Some (Violation name t))"

lemma names_field_lib:
  assumes "api_lib_doc lib"
  shows "names_field name (\<not> nil) (va_Required lib name nil)"
    and "names_field name (v \<in> set vs) (va_EnumCase lib name v vs)"
    and "names_field name (m \<le> n) (va_MinimumInt lib name n m)"
  using api_lib_doc_D(1-6) [OF assms, of name] unfolding names_field_def
  by (metis not_None_eq)+

lemma names_field_required:
  assumes "api_lib_doc lib" and "\<And>v. x = Some v \<Longrightarrow> names_field name (ok v) (check v)"
  shows "names_field name (\<exists>v. x = Some v \<and> ok v) (required lib name x check)"
  using assms(2) names_field_lib(1) [OF assms(1), of name True] api_lib_doc_D(1) [OF assms(1), of name False]
  by (cases x) (auto simp: names_field_def required_def)

lemma names_field_present:
  "api_lib_doc lib \<Longrightarrow> names_field name (x \<noteq> None) (present lib name x)"
  using names_field_lib(1) [of lib name "x = None"] by (simp add: present_def)

lemma names_field_optional:
  "api_lib_doc lib \<Longrightarrow> names_field name (v = [] \<or> v \<in> set vs) (optional_enum lib name v vs)"
  using names_field_lib(2) [of lib name v vs] by (auto simp: optional_enum_def names_field_def)

lemma date_time_ok: "api_lib_doc lib \<Longrightarrow> date_time lib name t = None"
  by (simp add: date_time_def api_lib_doc_D(7) split: option.split)

text \<open>The names of the fields that fail, in the order of the checks.\<close>

definition failing :: "(string \<times> bool) list \<Rightarrow> string list" where
  "failing fs = map fst (filter (\<lambda>(n, ok). \<not> ok) fs)"

lemma failing_Nil: "failing fs = [] \<longleftrightarrow> (\<forall>(n, ok) \<in> set fs. ok)"
  by (auto simp: failing_def filter_empty_conv)

lemma composite_names:
  assumes "list_all2 (\<lambda>(n, ok) c. names_field n ok c) fs cs"
  shows "if failing fs = [] then composite cs = None
         else \<exists>es. composite cs = Some (CompositeError es) \<and> map fst (formatValidationErrors es) = failing fs"
proof -
  have "nil_panic \<notin> set (List.map_filter id cs) \<and> map fst (formatValidationErrors (List.map_filter id cs)) = failing fs
      \<and> (List.map_filter id cs = [] \<longleftrightarrow> failing fs = [])"
    using assms
    by (induction rule: list_all2_induct)
       (auto simp: names_field_def nil_panic_def failing_def map_filter_simps split: if_splits)
  then show ?thesis
    by (auto simp: composite_def Let_def)
qed

text \<open>What binding a decoded body comes to.\<close>

lemma bind_names:
  assumes "list_all2 (\<lambda>(n, ok) c. names_field n ok c) fs cs" and "Validate body = composite cs"
  shows "if failing fs = [] then BindAndValidateBody (Inr body) Validate = Inr body
         else \<exists>ds. BindAndValidateBody (Inr body) Validate = Inl (HTTPValidationError 400 ds) \<and> map fst ds = failing fs"
  using composite_names [OF assms(1)] assms(2)
  by (auto simp: BindAndValidateBody_def validatePayload_def split: if_splits)

lemma composite_None:
  assumes "\<And>c. c \<in> set cs \<Longrightarrow> c = None"
  shows "composite cs = None"
proof -
  have "List.map_filter id cs = []"
    using assms by (induction cs) (auto simp: map_filter_simps split: option.splits)
  then show ?thesis
    by (simp add: composite_def)
qed

lemma lib_passes:
  assumes "api_lib_doc lib"
  shows "va_Required lib name False = None" and "v \<in> set vs \<Longrightarrow> va_EnumCase lib name v vs = None"
    and "m \<le> n \<Longrightarrow> va_MinimumInt lib name n m = None"
  using api_lib_doc_D(1) [OF assms, of name False] api_lib_doc_D(3) [OF assms, of name v vs]
    api_lib_doc_D(5) [OF assms, of name n m] by simp_all

lemma return_valid: "Validate v = None \<Longrightarrow> ValidateAndReturn code Validate v = Reply code v"
  by (simp add: ValidateAndReturn_def validatePayload_def)

lemma present_ok: "api_lib_doc lib \<Longrightarrow> present lib name (Some x) = None"
  by (simp add: present_def api_lib_doc_D(1))

definition create_key_fields :: "PostCreateKeyPayload \<Rightarrow> (string \<times> bool) list" where
  "create_key_fields body =
     [(''algorithm'', \<exists>v. ck_Algorithm body = Some v \<and> v \<in> set algorithm_enum),
      (''chain_type'', \<exists>v. ck_ChainType body = Some v \<and> v \<in> set chain_type_enum),
      (''curve'', \<exists>v. ck_Curve body = Some v \<and> v \<in> set curve_enum),
      (''threshold'', \<exists>v. ck_Threshold body = Some v \<and> 2 \<le> v),
      (''total_nodes'', \<exists>v. ck_TotalNodes body = Some v \<and> 2 \<le> v)]"

lemma create_key_bind:
  assumes "api_lib_doc lib"
  shows "if failing (create_key_fields body) = []
         then BindAndValidateBody (Inr body) (create_key_Validate lib) = Inr body
         else \<exists>ds. BindAndValidateBody (Inr body) (create_key_Validate lib) = Inl (HTTPValidationError 400 ds)
                 \<and> map fst ds = failing (create_key_fields body)"
proof (rule bind_names)
  show "create_key_Validate lib body = composite
     [required lib ''algorithm'' (ck_Algorithm body) (\<lambda>v. va_EnumCase lib ''algorithm'' v algorithm_enum),
      required lib ''chain_type'' (ck_ChainType body) (\<lambda>v. va_EnumCase lib ''chain_type'' v chain_type_enum),
      required lib ''curve'' (ck_Curve body) (\<lambda>v. va_EnumCase lib ''curve'' v curve_enum),
      required lib ''threshold'' (ck_Threshold body) (\<lambda>v. va_MinimumInt lib ''threshold'' v 2),
      required lib ''total_nodes'' (ck_TotalNodes body) (\<lambda>v. va_MinimumInt lib ''total_nodes'' v 2)]"
    by (simp add: create_key_Validate_def)
qed (simp add: create_key_fields_def names_field_required [OF assms] names_field_lib [OF assms])

section \<open>What creating a DKG session leaves alone\<close>

definition key_frame :: "world \<Rightarrow> world \<Rightarrow> bool" where
  "key_frame w v \<longleftrightarrow> keys_t v = keys_t w \<and> pg_fault v = pg_fault w \<and> rd_fault v = rd_fault w"

lemma key_frame_refl [simp]: "key_frame w w"
  by (simp add: key_frame_def)

lemma key_frame_trans: "key_frame u v \<Longrightarrow> key_frame v w \<Longrightarrow> key_frame u w"
  by (simp add: key_frame_def)

lemma key_frame_same: "same_store w v \<Longrightarrow> key_frame w v"
  by (simp add: key_frame_def same_store_def)

lemma key_frame_quiet: "key_frame w v \<Longrightarrow> quiet v = quiet w"
  by (simp add: key_frame_def quiet_def)

lemma key_frame_calls:
  "key_frame w (snd (pg_SaveSigningSession w s))" "key_frame w (snd (pg_UpdateSigningSession w s))"
  "key_frame w (snd (rds_SaveSession w s ttl))" "key_frame w (time_Sleep d w)"
proof -
  show "key_frame w (snd (pg_SaveSigningSession w s))"
    using pg_SaveSigningSession_cases(2) [OF prod.collapse [symmetric], of w s]
    by (auto simp: key_frame_def same_store_def put_sess_def)
  show "key_frame w (snd (pg_UpdateSigningSession w s))"
    by (simp add: pg_UpdateSigningSession_def sql_update_session_def pg_call_def Let_def or_wrap_def key_frame_def
        set_sess_def split: option.split prod.split sum.split)
  show "key_frame w (snd (rds_SaveSession w s ttl))"
    using rds_SaveSession_cases(4) [OF prod.collapse [symmetric], of w s ttl]
    by (auto simp: key_frame_def same_store_def redis_Set_def)
qed (simp add: key_frame_def time_Sleep_def)

lemma key_frame_reads:
  "key_frame w (snd (pg_GetSigningSession w sid))" "key_frame w (snd (sm_GetSession w sid))"
  "key_frame w (snd (pg_GetKeyMetadata w kid))" "key_frame w (snd (pg_ListNodes w (Some f)))"
proof -
  show "key_frame w (snd (pg_GetSigningSession w sid))"
    using pg_GetSigningSession_cases(1) [OF prod.collapse [symmetric], of w sid] by (rule key_frame_same)
  show "key_frame w (snd (sm_GetSession w sid))"
    using sm_GetSession_cases(1) [OF prod.collapse [symmetric], of w sid] by (rule key_frame_same)
  show "key_frame w (snd (pg_GetKeyMetadata w kid))"
    using pg_GetKeyMetadata_cases(1) [OF prod.collapse [symmetric], of w kid] by (rule key_frame_same)
  show "key_frame w (snd (pg_ListNodes w (Some f)))"
    by (auto simp: pg_ListNodes_def pg_call_def Let_def sql_select_nodes_def or_wrap_def key_frame_def
        split: option.splits if_splits)
qed

lemmas key_frame_simps [simp] =
  key_frame_trans [OF _ key_frame_calls(1)] key_frame_trans [OF _ key_frame_calls(2)]
  key_frame_trans [OF _ key_frame_calls(3)] key_frame_trans [OF _ key_frame_calls(4)]
  key_frame_trans [OF _ key_frame_reads(1)] key_frame_trans [OF _ key_frame_reads(2)]
  key_frame_trans [OF _ key_frame_reads(3)] key_frame_trans [OF _ key_frame_reads(4)]

lemma key_frame_loop [simp]: "key_frame u w \<Longrightarrow> key_frame u (snd (kg_save_loop n d s w))"
proof (induction n arbitrary: d w)
  case (Suc n)
  have "key_frame u (snd (pg_SaveSigningSession w s))"
    using Suc.prems by simp
  then show ?case
    using Suc.IH by (auto split: prod.splits sum.splits)
qed simp

lemma key_frame_sessions [simp]:
  assumes "key_frame u w"
  shows "key_frame u (snd (sm_CreateKeyGenSession timeout w kid p t n ns))"
    and "key_frame u (snd (sm_CancelSession w sid))"
proof -
  show "key_frame u (snd (sm_CreateKeyGenSession timeout w kid p t n ns))"
    unfolding sm_CreateKeyGenSession_def Let_def
    using assms by (intro snd_or_wrapI [where P = "key_frame u"]) auto
  have "key_frame u (snd (sm_UpdateSession v x))" if "key_frame u v" for v x
    unfolding sm_UpdateSession_def Let_def rds_UpdateSession_def
    using that by (intro snd_or_wrapI [where P = "key_frame u"])
      (auto intro!: snd_or_wrapI [where P = "key_frame u"])
  with assms show "key_frame u (snd (sm_CancelSession w sid))"
    unfolding sm_CancelSession_def
    by (intro snd_or_wrapI [where P = "key_frame u"]) auto
qed

lemma key_frame_discover [simp]:
  "key_frame u w \<Longrightarrow> key_frame u (snd (DiscoverNodes ord consul w nt st limit))"
  unfolding DiscoverNodes_def nm_ListNodes_def
  by (intro snd_or_wrapI [where P = "key_frame u"])
     (auto split: option.splits prod.splits err.splits if_splits simp: Let_def)

lemma key_frame_create_dkg: "key_frame (net s) (net (snd (CreateDKGSession co s req)))"
proof -
  let ?P = "\<lambda>v. key_frame (net s) (net v)"
  have nodes: "?P (snd (dkg_nodes co s req))"
    unfolding dkg_nodes_def by (auto intro!: snd_or_wrapI [where P = ?P] simp: on_net_parts)
  show ?thesis
    unfolding CreateDKGSession_def Let_def
    by (rule snd_or_returnI [where P = ?P, OF nodes], rule snd_or_wrapI [where P = ?P])
       (auto simp: on_net_parts split: sum.splits)
qed

section \<open>Errors that are no panics\<close>

definition no_panic :: "('w, 'a) res \<Rightarrow> bool" where
  "no_panic r \<longleftrightarrow> (\<forall>e. fst r = Inl e \<longrightarrow> \<not> is_panic e)"

lemma no_panic_simps [simp]:
  "no_panic (Inr x, w)" "no_panic (Inl (Err m), w)" "no_panic (Inl (wrap_err m e), w) = (\<not> is_panic e)"
  by (simp_all add: no_panic_def)

lemma no_panicD: "r = (Inl e, w) \<Longrightarrow> no_panic r \<Longrightarrow> \<not> is_panic e"
  by (simp add: no_panic_def)

lemma wrap_err_Panic [simp]: "wrap_err m e = Panic p \<longleftrightarrow> e = Panic p"
  by (cases e) simp_all

lemma is_panic_iff: "is_panic e \<longleftrightarrow> (\<exists>p. e = Panic p)"
  by (cases e) simp_all

lemma no_panic_or_wrap:
  "no_panic r \<Longrightarrow> (\<And>x w. r = (Inr x, w) \<Longrightarrow> no_panic (k x w)) \<Longrightarrow> no_panic (or_wrap r m k)"
  by (auto simp: no_panic_def or_wrap_def split: prod.splits sum.splits)

lemma no_panic_pg_call [intro]: "(\<And>v. no_panic (stmt v)) \<Longrightarrow> no_panic (pg_call stmt w)"
  by (auto simp: no_panic_def pg_call_def Let_def split: option.splits)

lemma no_panic_on_net: "no_panic (f (net s)) \<Longrightarrow> no_panic (on_net f s)"
  by (simp add: no_panic_def on_net_parts)

lemma no_panic_store:
  "no_panic (pg_SaveKeyMetadata w k)" "no_panic (pg_GetKeyMetadata w kid)"
  "no_panic (pg_GetSigningSession w sid)" "no_panic (pg_ListNodes w (Some f))"
  "no_panic (pg_SaveSigningSession w ss)"
proof -
  show "no_panic (pg_SaveKeyMetadata w k)"
    unfolding pg_SaveKeyMetadata_def by (intro no_panic_or_wrap no_panic_pg_call) (auto simp: sql_upsert_key_def)
  show "no_panic (pg_GetKeyMetadata w kid)"
    unfolding pg_GetKeyMetadata_def by (intro no_panic_or_wrap no_panic_pg_call) (auto split: option.split)
  show "no_panic (pg_GetSigningSession w sid)"
    unfolding pg_GetSigningSession_def by (intro no_panic_or_wrap no_panic_pg_call) (auto split: option.split)
  show "no_panic (pg_ListNodes w (Some f))"
    unfolding pg_ListNodes_def Let_def by (intro no_panic_or_wrap no_panic_pg_call) (auto simp: sql_select_nodes_def)
  have ins: "no_panic (pg_call (sql_upsert_session ss) v)" for v
    by (intro no_panic_pg_call) (simp add: sql_upsert_session_def fk_error_def)
  show "no_panic (pg_SaveSigningSession w ss)"
    unfolding pg_SaveSigningSession_def using ins
    by (intro no_panic_or_wrap no_panic_pg_call)
       (auto simp: save_session_error_def Let_def dest: no_panicD split: prod.split sum.split)
qed

lemma no_panic_loop: "no_panic (kg_save_loop n d x w)"
proof (induction n arbitrary: d w)
  case (Suc n)
  then show ?case
    using no_panic_store(5) [of w x] by (auto simp: no_panic_def split: prod.split sum.split)
qed simp

lemma no_panic_keygen: "no_panic (sm_CreateKeyGenSession timeout w kid p t n ns)"
  unfolding sm_CreateKeyGenSession_def Let_def
  by (intro no_panic_or_wrap no_panic_loop no_panic_store) simp

lemma no_panic_placeholder: "no_panic (CreatePlaceholderKey s req)"
  unfolding CreatePlaceholderKey_def Let_def
  by (auto intro!: no_panic_or_wrap no_panic_on_net no_panic_store split: prod.split)

lemma create_dkg_panic:
  assumes "CreateDKGSession co s req = (Inl e, s')" and "is_panic e" and "0 \<le> cd_TotalNodes req"
  shows "\<exists>p. co_consul co = Some (Inl (Panic p)) \<and> e = Panic p"
proof -
  have disc: "\<exists>p. co_consul co = Some (Inl (Panic p)) \<and> x = Panic p"
    if "DiscoverNodes (co_ord co) (co_consul co) w nt st (cd_TotalNodes req) = (Inl x, v)" "is_panic x" for w nt st x v
    using that assms(3) no_panicD [OF _ no_panic_store(4)]
    by (auto simp: DiscoverNodes_def nm_ListNodes_def DiscoverParticipants_def consul_Discover_def or_wrap_def
        pure_wrap_def Let_def is_panic_iff split: prod.splits sum.splits option.splits if_splits err.splits)
  from assms(1) consider (nodes) "dkg_nodes co s req = (Inl e, s')" | (sess) n w1 p x w2 where
      "sm_CreateKeyGenSession (co_timeout co) w1 (cd_KeyID req) p (cd_Threshold req) (cd_TotalNodes req) n = (Inl x, w2)"
      "e = wrap_err ''failed to create DKG session'' x"
    | (notify) n x where "NotifyParticipantsForDKG req n = Inl x" "e = wrap_err ''failed to notify participants'' x"
    by (auto simp: CreateDKGSession_def or_return_def or_wrap_def on_net_def Let_def
        split: prod.splits sum.splits)
  then show ?thesis
  proof cases
    case nodes
    with assms(2) show ?thesis
      by (auto simp: dkg_nodes_def or_wrap_def on_net_def Let_def split: prod.splits sum.splits if_splits dest!: disc)
  next
    case (sess n w1 p x w2)
    with assms(2) no_panicD [OF sess(1) no_panic_keygen] show ?thesis by simp
  next
    case (notify n x)
    with assms(2) show ?thesis
      by (auto simp: NotifyParticipantsForDKG_def split: list.splits)
  qed
qed

section \<open>Creating a key over HTTP\<close>

lemma placeholder_run:
  assumes "CreatePlaceholderKey s req = (Inr k, s1)" and "cr_KeyID req \<noteq> []"
  shows "k = key_of_request req (cr_KeyID req) ''pending'' ''Pending'' (now (net s))"
    and "\<exists>row. get_key (net s1) (cr_KeyID req) = Some row \<and> km_Status row = ''Pending'' \<and> key_row_ok row"
    and "quiet (net s1) = quiet (net s)" and "key_row_ok k"
proof -
  let ?k = "key_of_request req (cr_KeyID req) ''pending'' ''Pending'' (now (net s))"
  obtain w1 w2 row where sav: "pg_SaveKeyMetadata (net s) ?k = (Inr (), w1)"
    and get: "pg_GetKeyMetadata w1 (cr_KeyID req) = (Inr row, w2)" and k: "k = ?k" and s1: "s1 = s\<lparr>net := w2\<rparr>"
    using assms by (auto simp: CreatePlaceholderKey_def new_key_id_def Let_def elim!: or_wrap_InrE)
  note c = pg_SaveKeyMetadata_cases(1) [OF sav HOL.refl] and g = pg_GetKeyMetadata_cases [OF get]
  show "k = ?k" by (rule k)
  show "key_row_ok k"
    using sav k by (auto simp: pg_SaveKeyMetadata_def pg_call_Inr_iff sql_upsert_key_def elim!: or_wrap_InrE split: if_splits)
  have ok: "key_row_ok ?k"
    using sav by (auto simp: pg_SaveKeyMetadata_def pg_call_Inr_iff sql_upsert_key_def elim!: or_wrap_InrE split: if_splits)
  have row: "get_key w1 (cr_KeyID req) = get_key (put_key ?k (net s)) (cr_KeyID req)"
    using same_store_get(1) [OF c] by simp
  have w2: "get_key w2 (cr_KeyID req) = get_key w1 (cr_KeyID req)"
    using same_store_get(1) [OF g(1)] by simp
  show "\<exists>row. get_key (net s1) (cr_KeyID req) = Some row \<and> km_Status row = ''Pending'' \<and> key_row_ok row"
    using ok unfolding s1 by (simp add: w2 row get_put_key)
      (auto simp: key_of_request_def key_conflict_def key_row_ok_def split: option.split)
  show "quiet (net s1) = quiet (net s)"
    using same_store_quiet [OF c] same_store_quiet [OF g(1)] s1 by (simp add: quiet_def put_key_def Let_def)
qed

text \<open>The id the next key gets.\<close>

definition fresh_key_id :: "mpc_state \<Rightarrow> string" where
  "fresh_key_id s = ''key-'' @ uuid_src (net s) (uuid_n (net s))"

text \<open>A complete body reads as the request it stands for.\<close>

lemma key_request_fields:
  assumes "api_lib_doc lib" and "failing (create_key_fields body) = []"
  shows "ck_Algorithm body = Some (cr_Algorithm (key_request lib body kid))"
    and "ck_Curve body = Some (cr_Curve (key_request lib body kid))"
    and "ck_Threshold body = Some (cd_Threshold (dkg_session_request lib body kid))"
    and "ck_TotalNodes body = Some (cd_TotalNodes (dkg_session_request lib body kid))"
    and "2 \<le> cd_Threshold (dkg_session_request lib body kid)"
    and "2 \<le> cd_TotalNodes (dkg_session_request lib body kid)"
  using assms(2) by (auto simp: failing_Nil create_key_fields_def key_request_def dkg_session_request_def
      api_lib_doc_D(8,9) [OF assms(1)])

lemma create_key_response_ok:
  assumes "api_lib_doc lib"
  shows "create_key_response_Validate lib (create_key_response body (k\<lparr>km_Status := ''Inactive''\<rparr>)) = None"
proof -
  have "required lib ''status'' (Some ''Inactive'') (\<lambda>v. va_EnumCase lib ''status'' v status_enum) = None"
    by (simp add: required_def status_enum_def lib_passes [OF assms])
  then show ?thesis
    unfolding create_key_response_Validate_def
    by (intro composite_None) (auto simp: create_key_response_def present_ok [OF assms] date_time_ok [OF assms])
qed

text \<open>What a reply to a creation tells about the tables.\<close>

definition key_announced :: "PostCreateKeyPayload \<Rightarrow> string \<Rightarrow> CreateKeyResponse \<Rightarrow> notice \<Rightarrow> world \<Rightarrow> bool" where
  "key_announced body kid v nt w \<longleftrightarrow>
     rk_KeyID v = Some kid \<and> rk_Status v = Some ''Inactive'' \<and> rk_PublicKey v = Some ''pending''
   \<and> (\<exists>k. get_key w kid = Some k \<and> km_Status k = ''Pending'') \<and> get_sess w kid \<noteq> None
   \<and> sd_SessionId (snd nt) = kid \<and> sd_NodeIds (snd nt) \<noteq> [] \<and> sorted (sd_NodeIds (snd nt))
   \<and> fst nt = hd (sd_NodeIds (snd nt))
   \<and> ck_Algorithm body = Some (sd_Algorithm (snd nt)) \<and> ck_Curve body = Some (sd_Curve (snd nt))
   \<and> ck_Threshold body = Some (sd_Threshold (snd nt)) \<and> ck_TotalNodes body = Some (sd_TotalNodes (snd nt))
   \<and> sd_TotalNodes (snd nt) \<le> int (length (sd_NodeIds (snd nt)))"

lemma create_key_session_outcome:
  assumes doc: "api_lib_doc (ah_lib srv)" and full: "failing (create_key_fields body) = []"
    and run: "create_key_session srv co body s = ((r, notice), s')"
  shows "case notice of
      Some nt \<Rightarrow> (\<exists>v. r = Reply 201 v \<and> key_announced body (fresh_key_id s) v nt (net s'))
    | None \<Rightarrow> r = HTTPError 500 ''Failed to create placeholder key''
        \<or> r = HTTPError 500 ''Failed to create DKG session''
          \<and> (quiet (net s) \<longrightarrow> (\<exists>k. get_key (net s') (fresh_key_id s) = Some k \<and> km_Status k = ''Deleted''))
        \<or> (\<exists>p. co_consul co = Some (Inl (Panic p)) \<and> r = Failed (Panic p))"
proof -
  let ?kid = "fresh_key_id s" and ?lib = "ah_lib srv"
  let ?s0 = "s\<lparr>net := net s\<lparr>uuid_n := Suc (uuid_n (net s))\<rparr>\<rparr>"
  let ?req = "key_request ?lib body ?kid" and ?dkg = "dkg_session_request ?lib body ?kid"
  have run: "or_fail (CreatePlaceholderKey ?s0 ?req)
      (\<lambda>e. (http_error 500 ''Failed to create placeholder key'' e, None))
      (\<lambda>placeholderKey s. case CreateDKGSession co s ?dkg of
          (Inl e, s) \<Rightarrow>
            if is_panic e then ((Failed e, None), s)
            else ((HTTPError 500 ''Failed to create DKG session'', None), snd (DeleteKey s ?kid))
        | (Inr (dkgSession, notice), s) \<Rightarrow>
            ((ValidateAndReturn 201 (create_key_response_Validate ?lib)
                (create_key_response body (placeholderKey\<lparr>km_Status := ''Inactive''\<rparr>)), Some notice), s))
      = ((r, notice), s')"
    using run unfolding create_key_session_def uuid_New_def fresh_key_id_def Let_def prod.case .
  have id: "cr_KeyID ?req = ?kid" "?kid \<noteq> []" "cd_KeyID ?dkg = ?kid" "cd_NodeIDs ?dkg = []"
    by (simp_all add: key_request_def dkg_session_request_def fresh_key_id_def)
  note f = key_request_fields [OF doc full]
  show ?thesis
  proof (cases "CreatePlaceholderKey ?s0 ?req")
    case (Pair p s1)
    show ?thesis
    proof (cases p)
      case (Inl e)
      with Pair have "\<not> is_panic e"
        using no_panicD [OF _ no_panic_placeholder] by blast
      with run Pair Inl show ?thesis by (auto simp: or_fail_def http_error_def)
    next
      case (Inr k)
      note pl = placeholder_run [OF Pair [unfolded Inr], unfolded id(1), OF id(2)]
      obtain q s2 where dkg: "CreateDKGSession co s1 ?dkg = (q, s2)" by (cases "CreateDKGSession co s1 ?dkg")
      have frame: "key_frame (net s1) (net s2)"
        using key_frame_create_dkg [of s1 co ?dkg] dkg by simp
      obtain row where row: "get_key (net s2) ?kid = Some row" "km_Status row = ''Pending''" "key_row_ok row"
        using pl(2) frame by (auto simp: key_frame_def get_key_def)
      show ?thesis
      proof (cases q)
        case (Inl e)
        show ?thesis
        proof (cases "is_panic e")
          case True
          have "0 \<le> cd_TotalNodes ?dkg"
            using f(6) [of ?kid] by simp
          from create_dkg_panic [OF dkg [unfolded Inl] True this] True run Pair Inr dkg Inl show ?thesis
            by (auto simp: or_fail_def)
        next
          case False
          have "\<exists>k. get_key (net (snd (DeleteKey s2 ?kid))) ?kid = Some k \<and> km_Status k = ''Deleted''"
            if "quiet (net s)"
            using delete_key_marks [OF _ row(1,3)] that pl(3) key_frame_quiet [OF frame]
            by (simp add: quiet_def)
          moreover have "r = HTTPError 500 ''Failed to create DKG session''" "notice = None"
            "s' = snd (DeleteKey s2 ?kid)"
            using False run by (simp_all add: or_fail_def Pair Inr dkg Inl)
          ultimately show ?thesis
            by simp
        qed
      next
        case (Inr x)
        obtain d leader rq where x: "x = (d, leader, rq)" by (cases x)
        have reply: "r = Reply 201 (create_key_response body (k\<lparr>km_Status := ''Inactive''\<rparr>))"
          "notice = Some (leader, rq)" "s' = s2"
          using run by (simp_all add: or_fail_def Pair \<open>p = Inr k\<close> dkg Inr x return_valid create_key_response_ok [OF doc])
        have "key_announced body ?kid (create_key_response body (k\<lparr>km_Status := ''Inactive''\<rparr>)) (leader, rq) (net s2)"
        proof (rule create_dkg_InrE [OF dkg [unfolded Inr x]])
          fix s3 w2 nodes session
          assume n: "dkg_nodes co s1 ?dkg = (Inr nodes, s3)"
            and c: "sm_CreateKeyGenSession (co_timeout co) (net s3) (cd_KeyID ?dkg)
               (if cd_Protocol ?dkg = [] then co_default co else cd_Protocol ?dkg)
               (cd_Threshold ?dkg) (cd_TotalNodes ?dkg) nodes = (Inr session, w2)"
            and s2: "s2 = s3\<lparr>net := w2\<rparr>" and nt: "NotifyParticipantsForDKG ?dkg nodes = Inr (leader, rq)"
          have "get_sess (net s2) ?kid \<noteq> None"
            using keygen_session_facts [OF c] s2 id(3) by simp
          moreover have "sorted nodes" "cd_TotalNodes ?dkg \<le> int (length nodes)"
            using dkg_nodes_Inr [OF n] id(4) by simp_all
          moreover have "int32 (cd_Threshold ?dkg) = cd_Threshold ?dkg" "int32 (cd_TotalNodes ?dkg) = cd_TotalNodes ?dkg"
            using pl(1,4) by (auto simp: key_row_ok_def int4_ok_def key_of_request_def key_request_def
                dkg_session_request_def intro!: int32_id)
          moreover have "cr_Algorithm ?req = cd_Algorithm ?dkg" "cr_Curve ?req = cd_Curve ?dkg"
            by (simp_all add: key_request_def dkg_session_request_def)
          ultimately show ?thesis
            using nt [unfolded notify_Inr] row(1,2) id(1,3) pl(1) f(1-4) [of ?kid]
            by (simp add: key_announced_def create_key_response_def key_of_request_def)
        qed
        with reply show ?thesis by auto
      qed
    qed
  qed
qed


text \<open>A server with small stand-ins for the libraries.\<close>

definition toy_check :: "string \<Rightarrow> bool \<Rightarrow> verr option" where
  "toy_check name ok = (if ok then None else Some (Violation name ''invalid''))"

definition toy_api_lib :: api_lib where
  "toy_api_lib = \<lparr>va_Required = (\<lambda>name nil. toy_check name (\<not> nil)),
     va_EnumCase = (\<lambda>name v vs. toy_check name (v \<in> set vs)),
     va_MinimumInt = (\<lambda>name v m. toy_check name (m \<le> v)), va_FormatOf = (\<lambda>_ _. None),
     va_ValidateName = (\<lambda>_ e. e), sw_StringValue = (\<lambda>x. case x of None \<Rightarrow> [] | Some v \<Rightarrow> v),
     sw_Int64Value = (\<lambda>x. case x of None \<Rightarrow> 0 | Some v \<Rightarrow> v)\<rparr>"

lemma toy_lib_doc: "api_lib_doc toy_api_lib"
  by (simp add: api_lib_doc_def toy_api_lib_def toy_check_def)

definition toy_api :: api_server where
  "toy_api = \<lparr>ah_lib = toy_api_lib, ah_NodeType = ''coordinator'', ah_keys = toy_env [],
     ah_coordinator = Some (toy_coordinator\<lparr>co_consul := None\<rparr>), ah_signing = toy_service\<rparr>"

definition toy_api_state :: mpc_state where
  "toy_api_state = toy_state\<lparr>net := sample_world\<lparr>nodes_t := [sample_node ''b'', sample_node ''a'']\<rparr>\<rparr>"

definition toy_key_body :: PostCreateKeyPayload where
  "toy_key_body = \<lparr>ck_Algorithm = Some ''ECDSA'', ck_ChainType = Some ''ethereum'', ck_Curve = Some ''secp256k1'',
     ck_Description = [], ck_Tags = None, ck_Threshold = Some 2, ck_TotalNodes = Some 2\<rparr>"

definition toy_key_notice :: "string \<Rightarrow> string \<Rightarrow> notice" where
  "toy_key_notice algorithm curve = (''a'', \<lparr>sd_SessionId = ''key-0'', sd_KeyId = ''key-0'', sd_Algorithm = algorithm,
     sd_Curve = curve, sd_Threshold = 2, sd_TotalNodes = 2, sd_NodeIds = [''a'', ''b'']\<rparr>)"

definition toy_eddsa_body :: PostCreateKeyPayload where
  "toy_eddsa_body = toy_key_body\<lparr>ck_Algorithm := Some ''EdDSA'', ck_Curve := Some ''Ed25519''\<rparr>"

lemma toy_key_created:
  "snd (fst (postCreateKeyHandler toy_api (Inr toy_key_body) toy_api_state)) = Some (toy_key_notice ''ECDSA'' ''secp256k1'')"
  "snd (fst (postCreateKeyHandler toy_api (Inr toy_eddsa_body) toy_api_state)) = Some (toy_key_notice ''EdDSA'' ''Ed25519'')"
  by code_simp+


section \<open>What becomes of an announced key\<close>

lemma announcedD:
  assumes "api_lib_doc (ah_lib srv)" and "ah_coordinator srv = Some co"
    and "postCreateKeyHandler srv (Inr body) s = ((r, Some nt), s')"
  obtains v where "r = Reply 201 v" and "key_announced body (fresh_key_id s) v nt (net s')"
    and "failing (create_key_fields body) = []" and "create_key_session srv co body s = ((r, Some nt), s')"
proof -
  let ?b = "BindAndValidateBody (Inr body) (create_key_Validate (ah_lib srv)) :: CreateKeyResponse reply + PostCreateKeyPayload"
  have bound: "if failing (create_key_fields body) = [] then ?b = Inr body
      else \<exists>ds. ?b = Inl (HTTPValidationError 400 ds) \<and> map fst ds = failing (create_key_fields body)"
    by (rule create_key_bind [OF assms(1)])
  with assms(2,3) have full: "failing (create_key_fields body) = []"
    and run: "create_key_session srv co body s = ((r, Some nt), s')"
    by (auto simp: postCreateKeyHandler_def split: if_splits)
  from create_key_session_outcome [OF assms(1) full run] obtain v where
    "r = Reply 201 v" "key_announced body (fresh_key_id s) v nt (net s')" by auto
  with full run that show ?thesis by blast
qed

lemma announced_request:
  assumes "key_announced body kid v nt w" and "failing (create_key_fields body) = []"
  shows "kg_Algorithm (dkg_request (snd nt)) \<in> {''ECDSA'', ''EdDSA''}"
    and "kg_Curve (dkg_request (snd nt)) \<in> {''secp256k1'', ''secp256r1'', ''Ed25519''}"
    and "2 \<le> kg_Threshold (dkg_request (snd nt))" and "kg_NodeIDs (dkg_request (snd nt)) \<noteq> []"
  using assms by (auto simp: key_announced_def dkg_request_def failing_Nil create_key_fields_def
      algorithm_enum_def curve_enum_def)

text \<open>
  Which of the keys that the HTTP interface accepts and announces an engine will
  generate. GG18 and GG20 accept the leader's request exactly for ECDSA on secp256k1
  with a threshold within the total and as many discovered nodes as the total; FROST
  exactly for EdDSA on Ed25519 with a threshold within the total. A key for
  secp256r1, for a mixed pair of algorithm and curve, or with a threshold above the
  total is announced like any other and stays pending for ever.
\<close>

theorem announced_key_acceptance:
  assumes "api_lib_doc (ah_lib srv)" and "ah_coordinator srv = Some co"
    and "postCreateKeyHandler srv (Inr body) s = ((r, Some (leader, rq)), s')"
  shows "ck_Threshold body = Some (sd_Threshold rq) \<and> ck_TotalNodes body = Some (sd_TotalNodes rq)
    \<and> (gg18_ValidateKeyGenRequest (dkg_request rq) = Inr () \<longleftrightarrow>
         ck_Algorithm body = Some ''ECDSA'' \<and> ck_Curve body = Some ''secp256k1''
         \<and> sd_Threshold rq \<le> sd_TotalNodes rq \<and> int (length (sd_NodeIds rq)) = sd_TotalNodes rq)
    \<and> (frost_ValidateKeyGenRequest (dkg_request rq) = Inr () \<longleftrightarrow>
         ck_Algorithm body = Some ''EdDSA'' \<and> ck_Curve body = Some ''Ed25519''
         \<and> sd_Threshold rq \<le> sd_TotalNodes rq)"
proof -
  from announcedD [OF assms] obtain v where a: "key_announced body (fresh_key_id s) v (leader, rq) (net s')"
    and full: "failing (create_key_fields body) = []" by blast
  note q = announced_request [OF a full, simplified]
  have lower: "ToLower ''secp256k1'' = ''secp256k1''" "ToLower ''secp256r1'' = ''secp256r1''" "ToLower ''Ed25519'' = ''ed25519''"
    by code_simp+
  have f: "ck_Algorithm body = Some (kg_Algorithm (dkg_request rq))" "ck_Curve body = Some (kg_Curve (dkg_request rq))"
    "ck_Threshold body = Some (kg_Threshold (dkg_request rq))" "ck_TotalNodes body = Some (kg_TotalNodes (dkg_request rq))"
    "sd_Threshold rq = kg_Threshold (dkg_request rq)" "sd_TotalNodes rq = kg_TotalNodes (dkg_request rq)"
    "sd_NodeIds rq = kg_NodeIDs (dkg_request rq)"
    using a by (simp_all add: key_announced_def dkg_request_def)
  have g: "gg18_ValidateKeyGenRequest (dkg_request rq) = Inr () \<longleftrightarrow>
      kg_Algorithm (dkg_request rq) = ''ECDSA'' \<and> kg_Curve (dkg_request rq) = ''secp256k1''
      \<and> kg_Threshold (dkg_request rq) \<le> kg_TotalNodes (dkg_request rq)
      \<and> int (length (kg_NodeIDs (dkg_request rq))) = kg_TotalNodes (dkg_request rq)"
    using q(3,4) by (auto simp: gg18_ValidateKeyGenRequest_def)
  have h: "frost_ValidateKeyGenRequest (dkg_request rq) = Inr () \<longleftrightarrow>
      kg_Algorithm (dkg_request rq) = ''EdDSA'' \<and> kg_Curve (dkg_request rq) = ''Ed25519''
      \<and> kg_Threshold (dkg_request rq) \<le> kg_TotalNodes (dkg_request rq)"
    using q(1-3) by (auto simp: frost_ValidateKeyGenRequest_def lower)
  show ?thesis
    using f g h by simp
qed

lemma announced_key_acceptance_witness:
  "gg18_ValidateKeyGenRequest (dkg_request (snd (toy_key_notice ''ECDSA'' ''secp256k1''))) = Inr ()
   \<and> frost_ValidateKeyGenRequest (dkg_request (snd (toy_key_notice ''ECDSA'' ''secp256k1''))) \<noteq> Inr ()"
proof -
  have srv: "api_lib_doc (ah_lib toy_api)" "ah_coordinator toy_api = Some (toy_coordinator\<lparr>co_consul := None\<rparr>)"
    by (simp_all add: toy_api_def toy_lib_doc)
  obtain r s' where "postCreateKeyHandler toy_api (Inr toy_key_body) toy_api_state
      = ((r, Some (fst (toy_key_notice ''ECDSA'' ''secp256k1''), snd (toy_key_notice ''ECDSA'' ''secp256k1''))), s')"
    using toy_key_created(1) by (metis prod.collapse)
  from announced_key_acceptance [OF srv this] show ?thesis
    by (simp add: toy_key_body_def toy_key_notice_def)
qed

text \<open>The session row a successful keygen session leaves.\<close>

lemma kg_save_loop_row:
  assumes "kg_save_loop n d x w = (Inr (), v)" and "n \<noteq> 0"
  shows "\<exists>t. get_sess v (ss_SessionID x) = Some (x\<lparr>ss_CreatedAt := t\<rparr>)"
  using assms
proof (induction n arbitrary: d w)
  case (Suc n)
  obtain r w1 where sav: "pg_SaveSigningSession w x = (r, w1)"
    by (cases "pg_SaveSigningSession w x")
  show ?case
  proof (cases r)
    case (Inr u)
    then have "same_store (put_sess x w) w1" and "v = w1"
      using pg_SaveSigningSession_cases(1) [OF sav] Suc.prems sav by simp_all
    then show ?thesis
      using same_store_get(3) [of "put_sess x w" w1]
      by (auto simp: get_put_sess sess_conflict_def split: option.split intro: exI [of _ "ss_CreatedAt x"])
  next
    case (Inl e)
    with sav Suc show ?thesis
      by (auto split: if_splits)
  qed
qed simp

lemma keygen_session_row:
  assumes "sm_CreateKeyGenSession timeout w kid p t n ns = (Inr x, v)"
  shows "\<exists>row. get_sess v kid = Some row \<and> ss_Protocol row = (if p = [] then ''keygen'' else p)
    \<and> ss_KeyID row = kid \<and> ss_Threshold row = t \<and> ss_TotalNodes row = n \<and> ss_ParticipatingNodes row = ns"
proof -
  define y where "y = toStorageSession \<lparr>se_SessionID = kid, se_KeyID = kid,
     se_Protocol = (if p = [] then ''keygen'' else p), se_Status = SessionStatusPending,
     se_Threshold = t, se_TotalNodes = n, se_ParticipatingNodes = ns, se_CurrentRound = 0,
     se_TotalRounds = 4, se_Signature = [], se_CreatedAt = now w, se_CompletedAt = None,
     se_DurationMs = 0, se_ExpiresAt = now w + timeout\<rparr>"
  obtain w1 w2 z where loop: "kg_save_loop 3 100000 y w = (Inr (), w1)"
    and get: "pg_GetSigningSession w1 kid = (Inr z, w2)" and v: "v = snd (rds_SaveSession w2 y timeout)"
    using assms by (auto simp: sm_CreateKeyGenSession_def Let_def simp flip: y_def elim!: or_wrap_InrE)
  have id: "ss_SessionID y = kid"
    by (simp add: y_def toStorageSession_def)
  from kg_save_loop_row [OF loop] id obtain tm where row: "get_sess w1 kid = Some (y\<lparr>ss_CreatedAt := tm\<rparr>)" by auto
  moreover have "get_sess w2 kid = get_sess w1 kid"
    using same_store_get(3) [OF pg_GetSigningSession_cases(1) [OF get]] .
  moreover have "get_sess v kid = get_sess w2 kid"
    using rds_SaveSession_cases(4) [OF prod.collapse [symmetric], of w2 y timeout] v
      same_store_get(3) [of w2 v kid] same_store_get(3) [of "redis_Set (session_key (ss_SessionID y)) (RSession y) timeout w2" v kid]
    by auto
  ultimately show ?thesis
    by (simp add: y_def toStorageSession_def)
qed

text \<open>
  A key for EdDSA on Ed25519 created over HTTP where the coordinator's default
  protocol is not FROST: the leader takes algorithm and curve from the notice and
  runs FROST; every other node starts from the stored session, whose protocol is the
  coordinator's default, and runs that protocol's engine with a request for ECDSA on
  secp256k1, for the same key, threshold and nodes. The two sides never run the same
  key generation.
\<close>

theorem eddsa_key_splits_engines:
  assumes "api_lib_doc (ah_lib srv)" and "ah_coordinator srv = Some co"
    and "postCreateKeyHandler srv (Inr body) s = ((r, Some (leader, rq)), s')"
    and "ck_Algorithm body = Some ''EdDSA''" and "ck_Curve body = Some ''Ed25519''"
    and "co_default co \<noteq> []" and "ToLower (co_default co) \<noteq> ''frost''"
  shows "start_dkg_engine gsrv rq = engine_or_default gsrv ''frost''
    \<and> kg_Algorithm (dkg_request rq) = ''EdDSA'' \<and> kg_Curve (dkg_request rq) = ''Ed25519''
    \<and> (\<exists>row. get_sess (net s') (fresh_key_id s) = Some row
        \<and> session_engine gsrv (ToLower (se_Protocol (convertStorageSession row))) = engine_or_default gsrv (ToLower (co_default co))
        \<and> auto_dkg_request (convertStorageSession row)
            = dkg_request (rq\<lparr>sd_Algorithm := ''ECDSA'', sd_Curve := ''secp256k1''\<rparr>))"
proof -
  let ?dkg = "dkg_session_request (ah_lib srv) body (fresh_key_id s)"
  from announcedD [OF assms(1-3)] obtain v where a: "key_announced body (fresh_key_id s) v (leader, rq) (net s')"
    and full: "failing (create_key_fields body) = []"
    and run: "create_key_session srv co body s = ((r, Some (leader, rq)), s')" by blast
  obtain s1 d where dkg: "CreateDKGSession co s1 ?dkg = (Inr (d, leader, rq), s')"
    using run by (auto simp: create_key_session_def uuid_New_def Let_def or_fail_def fresh_key_id_def
        split: prod.splits sum.splits if_splits)
  note f = key_request_fields [OF assms(1) full, of "fresh_key_id s"]
  have rq: "sd_Algorithm rq = ''EdDSA''" "sd_Curve rq = ''Ed25519''"
    "sd_Threshold rq = cd_Threshold ?dkg" "sd_TotalNodes rq = cd_TotalNodes ?dkg"
    using a assms(4,5) f(3,4) by (simp_all add: key_announced_def)
  have kid: "cd_KeyID ?dkg = fresh_key_id s" "cd_Protocol ?dkg = []"
    by (simp_all add: dkg_session_request_def)
  show ?thesis
  proof (rule create_dkg_InrE [OF dkg])
    fix s3 w2 nodes session
    assume c: "sm_CreateKeyGenSession (co_timeout co) (net s3) (cd_KeyID ?dkg)
               (if cd_Protocol ?dkg = [] then co_default co else cd_Protocol ?dkg)
               (cd_Threshold ?dkg) (cd_TotalNodes ?dkg) nodes = (Inr session, w2)"
      and s': "s' = s3\<lparr>net := w2\<rparr>" and nt: "NotifyParticipantsForDKG ?dkg nodes = Inr (leader, rq)"
    from keygen_session_row [OF c] kid assms(6) obtain row where row: "get_sess (net s') (fresh_key_id s) = Some row"
      "ss_Protocol row = co_default co" "ss_KeyID row = fresh_key_id s" "ss_Threshold row = cd_Threshold ?dkg"
      "ss_TotalNodes row = cd_TotalNodes ?dkg" "ss_ParticipatingNodes row = nodes"
      using s' by auto
    have ids: "sd_KeyId rq = fresh_key_id s" "sd_NodeIds rq = nodes"
      using nt [unfolded notify_Inr] kid by simp_all
    have "ToLower ''EdDSA'' = ''eddsa''" "ToLower ''Ed25519'' = ''ed25519''"
      by code_simp+
    then have "start_dkg_engine gsrv rq = engine_or_default gsrv ''frost''"
      using rq(1,2) by (simp add: start_dkg_engine_def inferProtocolForDKG_def)
    moreover have "auto_dkg_request (convertStorageSession row) = dkg_request (rq\<lparr>sd_Algorithm := ''ECDSA'', sd_Curve := ''secp256k1''\<rparr>)"
      using row rq(3,4) ids assms(7) by (simp add: auto_dkg_request_def dkg_request_def convertStorageSession_def)
    moreover have "session_engine gsrv (ToLower (se_Protocol (convertStorageSession row))) = engine_or_default gsrv (ToLower (co_default co))"
      using row(2) assms(6) by (simp add: session_engine_def convertStorageSession_def ToLower_def)
    ultimately show ?thesis
      using row(1) rq(1,2) by (auto simp: dkg_request_def)
  qed
qed

lemma eddsa_key_splits_engines_witness:
  "start_dkg_engine toy_server (snd (toy_key_notice ''EdDSA'' ''Ed25519'')) = engine_or_default toy_server ''frost''
   \<and> (\<exists>row. get_sess (net (snd (postCreateKeyHandler toy_api (Inr toy_eddsa_body) toy_api_state)))
          (fresh_key_id toy_api_state) = Some row
        \<and> kg_Algorithm (auto_dkg_request (convertStorageSession row)) = ''ECDSA'')"
proof -
  have srv: "api_lib_doc (ah_lib toy_api)" "ah_coordinator toy_api = Some (toy_coordinator\<lparr>co_consul := None\<rparr>)"
    by (simp_all add: toy_api_def toy_lib_doc)
  obtain r s' where run: "postCreateKeyHandler toy_api (Inr toy_eddsa_body) toy_api_state
      = ((r, Some (fst (toy_key_notice ''EdDSA'' ''Ed25519''), snd (toy_key_notice ''EdDSA'' ''Ed25519''))), s')"
    using toy_key_created(2) by (metis prod.collapse)
  have body: "ck_Algorithm toy_eddsa_body = Some ''EdDSA''" "ck_Curve toy_eddsa_body = Some ''Ed25519''"
    by (simp_all add: toy_eddsa_body_def)
  have dflt: "co_default (toy_coordinator\<lparr>co_consul := None\<rparr>) \<noteq> []"
    "ToLower (co_default (toy_coordinator\<lparr>co_consul := None\<rparr>)) \<noteq> ''frost''"
    by code_simp+
  from eddsa_key_splits_engines [OF srv run body dflt, of toy_server] run show ?thesis
    by (auto simp: dkg_request_def)
qed

section \<open>The health of a node\<close>

text \<open>
  C33: The node endpoint and the node manager judge the health of a node by rules of
  their own: the endpoint by a fixed two minutes, inclusive, the manager by twice the
  configured heartbeat interval, exclusive. For a node that is registered they
  disagree exactly when it is active and the age of its last heartbeat lies between
  the two limits.
\<close>

theorem node_health_verdicts_differ:
  assumes "quiet (net s)" and "get_node (net s) nid = Some n" and "nid \<noteq> []"
  shows "\<exists>h c. fst (getNodeHealthHandler srv nid s) = Reply 200 h \<and> fst (nm_HealthCheck interval (net s) nid) = Inr c
    \<and> (nh_status h = ''healthy'' \<longleftrightarrow> ni_Status n = NodeStatusActive
         \<and> (\<exists>t. ni_LastHeartbeat n = Some t \<and> now (net s) - t \<le> minutes 2))
    \<and> (nh_status h \<noteq> hc_Status c \<longleftrightarrow> ni_Status n = NodeStatusActive
         \<and> (\<exists>t. ni_LastHeartbeat n = Some t
              \<and> (let age = now (net s) - t in
                   2 * interval \<le> age \<and> age \<le> minutes 2 \<or> minutes 2 < age \<and> age < 2 * interval)))"
proof -
  let ?w = "net s\<lparr>pg_calls := Suc (pg_calls (net s))\<rparr>"
  have get: "nm_GetNode (net s) nid = (Inr n, ?w)"
    using assms(1,2) by (simp add: nm_GetNode_def pg_GetNode_def pg_call_quiet)
  show ?thesis
    using assms(3)
    by (cases "ni_LastHeartbeat n")
       (auto simp: getNodeHealthHandler_def nm_HealthCheck_def or_fail_def on_net_def get NodeStatusActive_def Let_def)
qed

lemma node_health_verdicts_differ_witness:
  "let s = toy_state\<lparr>net := sample_world\<lparr>nodes_t := [(sample_node ''n1'')\<lparr>ni_LastHeartbeat := Some (- 90000000)\<rparr>]\<rparr>\<rparr>
   in \<exists>h c. fst (getNodeHealthHandler toy_api ''n1'' s) = Reply 200 h
        \<and> fst (nm_HealthCheck 30000000 (net s) ''n1'') = Inr c \<and> nh_status h \<noteq> hc_Status c"
proof -
  let ?s = "toy_state\<lparr>net := sample_world\<lparr>nodes_t := [(sample_node ''n1'')\<lparr>ni_LastHeartbeat := Some (- 90000000)\<rparr>]\<rparr>\<rparr>"
  have s: "quiet (net ?s)" "get_node (net ?s) ''n1'' = Some ((sample_node ''n1'')\<lparr>ni_LastHeartbeat := Some (- 90000000)\<rparr>)"
    "now (net ?s) = 0"
    using sample_world_ok(2)
    by (simp_all add: quiet_def get_node_def tbl_get_Cons sample_node_def reg_node_def sample_world_def empty_world_def)
  from node_health_verdicts_differ [OF s(1,2), of toy_api 30000000] s(3) show ?thesis
    by (auto simp: Let_def sample_node_def reg_node_def minutes_def)
qed

section \<open>Batches\<close>

definition batch_item_ok :: "BatchMessage \<Rightarrow> bool" where
  "batch_item_ok m \<longleftrightarrow> bm_Message m \<noteq> None \<and> (bm_MessageType m = [] \<or> bm_MessageType m \<in> set message_type_enum)"

lemma batch_message_check:
  assumes "api_lib_doc lib"
  shows "if batch_item_ok m then batch_message_Validate lib m = None
         else \<exists>es. batch_message_Validate lib m = Some (CompositeError es)"
proof -
  have "if failing [(''message'', bm_Message m \<noteq> None),
          (''message_type'', bm_MessageType m = [] \<or> bm_MessageType m \<in> set message_type_enum)] = []
        then batch_message_Validate lib m = None
        else \<exists>es. batch_message_Validate lib m = Some (CompositeError es)"
    unfolding batch_message_Validate_def
    using composite_names [of "[(''message'', bm_Message m \<noteq> None),
        (''message_type'', bm_MessageType m = [] \<or> bm_MessageType m \<in> set message_type_enum)]"
        "[present lib ''message'' (bm_Message m), optional_enum lib ''message_type'' (bm_MessageType m) message_type_enum]"]
      names_field_present [OF assms, of "''message''" "bm_Message m"]
      names_field_optional [OF assms, of "''message_type''" "bm_MessageType m" message_type_enum]
    by (auto split: if_splits)
  then show ?thesis
    by (auto simp: batch_item_ok_def failing_Nil split: if_splits)
qed

lemma batch_items_check:
  assumes "api_lib_doc lib"
  shows "if \<forall>m. Some m \<in> set ms \<longrightarrow> batch_item_ok m
         then validate_items lib name i (batch_message_Validate lib) ms = None
         else \<exists>es. validate_items lib name i (batch_message_Validate lib) ms = Some (CompositeError es)"
proof (induction ms arbitrary: i)
  case (Cons x ms)
  show ?case
  proof (cases x)
    case None
    with Cons [of "Suc i"] show ?thesis by simp
  next
    case (Some m)
    show ?thesis
    proof (cases "batch_item_ok m")
      case True
      with batch_message_check [OF assms, of m] Some Cons [of "Suc i"] show ?thesis by (simp split: if_splits)
    next
      case False
      with batch_message_check [OF assms, of m] obtain es where "batch_message_Validate lib m = Some (CompositeError es)"
        by auto
      with False Some api_lib_doc_D(11) [OF assms, of "name @ ''.'' @ nat_digits i" es] show ?thesis
        by auto
    qed
  qed
qed simp

text \<open>The request one message of a body stands for.\<close>

definition message_request :: "string \<Rightarrow> string \<Rightarrow> BatchMessage \<Rightarrow> SignRequest" where
  "message_request kid chain m =
     \<lparr>sq_KeyID = kid, sq_Message = the (bm_Message m), sq_MessageHex = hex_EncodeToString (the (bm_Message m)),
      sq_MessageType = bm_MessageType m, sq_ChainType = chain\<rparr>"

lemma batch_requests_value:
  assumes "\<forall>m. Some m \<in> set ms \<longrightarrow> batch_item_ok m" and "sw_StringValue lib (pb_KeyID body) = kid"
  shows "batch_requests lib body ms =
     (if None \<in> set ms then Inl nil_deref else Inr (map (message_request kid (pb_ChainType body) \<circ> the) ms))"
  using assms(1)
proof (induction ms)
  case (Cons x ms)
  then have "batch_requests lib body ms =
      (if None \<in> set ms then Inl nil_deref else Inr (map (message_request kid (pb_ChainType body) \<circ> the) ms))"
    by auto
  with Cons.prems assms(2) show ?case
    by (cases x) (auto simp: message_request_def batch_item_ok_def)
qed simp

text \<open>
  C36: A batch of messages to sign. A message without bytes or of an unknown type
  makes the whole batch a 400, and nothing is signed; an item that is \<open>null\<close> passes the
  validation and then crashes the handler, whatever else the batch holds; an empty
  list is a 400. Every other batch is signed as it is: one request per message, in
  order, with the body's key, the message's own bytes and their hex form.
\<close>

theorem batch_handler_outcomes:
  assumes "api_lib_doc (ah_lib srv)" and "pb_KeyID body = Some kid" and "pb_Messages body = Some ms"
  shows "if \<exists>m. Some m \<in> set ms \<and> \<not> batch_item_ok m
    then \<exists>ds. postBatchSignHandler srv schedule (Inr body) s = (HTTPValidationError 400 ds, s)
    else if None \<in> set ms
    then postBatchSignHandler srv schedule (Inr body) s = (Failed nil_deref, s)
    else if ms = []
    then postBatchSignHandler srv schedule (Inr body) s = (HTTPError 400 ''no valid messages to sign'', s)
    else postBatchSignHandler srv schedule (Inr body) s
      = or_fail (BatchSign (ah_signing srv) schedule s (map (message_request kid (pb_ChainType body) \<circ> the) ms))
          (http_error 500 ''Failed to batch sign'')
          (\<lambda>resp s. (ValidateAndReturn 200 (batch_response_Validate (ah_lib srv)) (batch_response resp), s))"
proof -
  let ?lib = "ah_lib srv"
  have key: "present ?lib ''key_id'' (pb_KeyID body) = None"
    using assms(2) by (simp add: present_ok [OF assms(1)])
  have msgs: "validate_list ?lib ''messages'' (batch_message_Validate ?lib) (pb_Messages body)
      = validate_items ?lib ''messages'' 0 (batch_message_Validate ?lib) ms"
    using assms(3) by (simp add: validate_list_def required_def lib_passes [OF assms(1)])
  note items = batch_items_check [OF assms(1), of ms "''messages''" 0]
  have val: "batch_sign_Validate ?lib body = composite [None, validate_items ?lib ''messages'' 0 (batch_message_Validate ?lib) ms]"
    by (simp add: batch_sign_Validate_def key msgs)
  show ?thesis
  proof (cases "\<exists>m. Some m \<in> set ms \<and> \<not> batch_item_ok m")
    case True
    with items obtain es where "validate_items ?lib ''messages'' 0 (batch_message_Validate ?lib) ms = Some (CompositeError es)"
      by (auto split: if_splits)
    with val have "batch_sign_Validate ?lib body = Some (CompositeError [CompositeError es])"
      by (simp add: composite_def map_filter_simps nil_panic_def)
    with True show ?thesis
      by (auto simp: postBatchSignHandler_def with_body_def BindAndValidateBody_def validatePayload_def)
  next
    case False
    then have ok: "\<forall>m. Some m \<in> set ms \<longrightarrow> batch_item_ok m" by blast
    with items val have "batch_sign_Validate ?lib body = None"
      by (simp add: composite_def map_filter_simps)
    moreover have "sw_StringValue ?lib (pb_KeyID body) = kid"
      by (simp add: assms(2) api_lib_doc_D(8) [OF assms(1)])
    ultimately show ?thesis
      using False assms(3) batch_requests_value [OF ok]
      by (auto simp: postBatchSignHandler_def with_body_def BindAndValidateBody_def validatePayload_def)
  qed
qed

definition toy_batch_body :: "BatchMessage option list \<Rightarrow> PostBatchSignPayload" where
  "toy_batch_body ms = \<lparr>pb_ChainType = [], pb_KeyID = Some ''key-1'', pb_Messages = Some ms\<rparr>"

lemma batch_handler_outcomes_witness:
  "postBatchSignHandler toy_api [] (Inr (toy_batch_body [None])) toy_sign_state = (Failed nil_deref, toy_sign_state)"
  using batch_handler_outcomes [of toy_api "toy_batch_body [None]" "''key-1''" "[None]" "[]" toy_sign_state]
  by (simp add: toy_api_def toy_lib_doc toy_batch_body_def)

section \<open>Fields without effect\<close>

definition echo_timeout :: "int \<Rightarrow> CreateSessionResponse reply \<Rightarrow> CreateSessionResponse reply" where
  "echo_timeout timeout r = (case r of
      Reply code v \<Rightarrow> Reply code (v\<lparr>cp_Timeout := if timeout = 0 then 300 else timeout\<rparr>) | _ \<Rightarrow> r)"

lemma echo_error: "validatePayload v = Some r \<Longrightarrow> echo_timeout t r = r"
  by (auto simp: validatePayload_def echo_timeout_def split: option.splits verr.splits)

lemma session_response_echo:
  "ValidateAndReturn code (create_session_response_Validate lib) (create_session_response x (if t = 0 then 300 else t))
     = echo_timeout t (ValidateAndReturn code (create_session_response_Validate lib) (create_session_response x t'))"
proof -
  let ?v = "create_session_response_Validate lib (create_session_response x t')"
  have same: "create_session_response_Validate lib (create_session_response x (if t = 0 then 300 else t)) = ?v"
    by (simp add: create_session_response_Validate_def create_session_response_def)
  show ?thesis
  proof (cases "validatePayload ?v :: CreateSessionResponse reply option")
    case None
    then show ?thesis
      unfolding ValidateAndReturn_def same
      by (simp add: echo_timeout_def create_session_response_def)
  next
    case (Some r)
    then show ?thesis
      unfolding ValidateAndReturn_def same by (simp add: echo_error)
  qed
qed

lemma session_handler_runs:
  assumes "validatePayload (create_session_Validate (ah_lib srv) c) = (None :: CreateSessionResponse reply option)"
    and "pc_Message c = Some m" and "ah_coordinator srv = Some co"
    and "CreateSigningSession co s \<lparr>cs_KeyID = sw_StringValue (ah_lib srv) (pc_KeyID c), cs_Message = [],
           cs_Protocol = (if pc_Protocol c = [] then ''gg20'' else pc_Protocol c), cs_Timeout = 0\<rparr> = out"
  shows "postCreateSessionHandler srv (Inr c) s
    = or_fail out (http_error 500 ''Failed to create session'')
        (\<lambda>session s. (ValidateAndReturn 201 (create_session_response_Validate (ah_lib srv))
           (create_session_response session (if pc_Timeout c = 0 then 300 else pc_Timeout c)), s))"
proof -
  have "CreateSigningSession co s \<lparr>cs_KeyID = k, cs_Message = m, cs_Protocol = p, cs_Timeout = t\<rparr>
      = CreateSigningSession co s \<lparr>cs_KeyID = k, cs_Message = [], cs_Protocol = p, cs_Timeout = 0\<rparr>" for k p t
    unfolding CreateSigningSession_def CreateSessionRequest.select_convs ..
  from this [of "sw_StringValue (ah_lib srv) (pc_KeyID c)" "if pc_Protocol c = [] then ''gg20'' else pc_Protocol c"
      "if pc_Timeout c = 0 then 300 else pc_Timeout c"]
  show ?thesis
    unfolding postCreateSessionHandler_def with_body_def BindAndValidateBody_def assms(4) [symmetric]
    by (simp only: assms(1-3) sum.case option.case Let_def)
qed

lemma session_message_unused:
  assumes "pc_Message body \<noteq> None"
  shows "postCreateSessionHandler srv (Inr (body\<lparr>pc_Message := Some message, pc_Timeout := timeout\<rparr>)) s
    = (let (r, s1) = postCreateSessionHandler srv (Inr body) s in (echo_timeout timeout r, s1))"
proof -
  let ?b = "body\<lparr>pc_Message := Some message, pc_Timeout := timeout\<rparr>"
  obtain m where m: "pc_Message body = Some m" using assms by blast
  have val: "create_session_Validate lib ?b = create_session_Validate lib body" for lib
    using m by (simp add: create_session_Validate_def present_def)
  show ?thesis
  proof (cases "validatePayload (create_session_Validate (ah_lib srv) body) :: CreateSessionResponse reply option")
    case (Some r)
    then show ?thesis
      by (simp add: postCreateSessionHandler_def with_body_def BindAndValidateBody_def val echo_error [OF Some])
  next
    case None
    show ?thesis
    proof (cases "ah_coordinator srv")
      case nobody: None
      with None m show ?thesis
        by (simp add: postCreateSessionHandler_def with_body_def BindAndValidateBody_def val echo_timeout_def)
    next
      case (Some co)
      define out where "out = CreateSigningSession co s \<lparr>cs_KeyID = sw_StringValue (ah_lib srv) (pc_KeyID body),
          cs_Message = [], cs_Protocol = (if pc_Protocol body = [] then ''gg20'' else pc_Protocol body), cs_Timeout = 0\<rparr>"
      have one: "postCreateSessionHandler srv (Inr body) s = or_fail out (http_error 500 ''Failed to create session'')
        (\<lambda>session s. (ValidateAndReturn 201 (create_session_response_Validate (ah_lib srv))
           (create_session_response session (if pc_Timeout body = 0 then 300 else pc_Timeout body)), s))"
        by (rule session_handler_runs [OF None m Some]) (simp add: out_def)
      have two: "postCreateSessionHandler srv (Inr ?b) s = or_fail out (http_error 500 ''Failed to create session'')
        (\<lambda>session s. (ValidateAndReturn 201 (create_session_response_Validate (ah_lib srv))
           (create_session_response session (if timeout = 0 then 300 else timeout)), s))"
        using session_handler_runs [where c = ?b and m = message and out = out, OF _ _ Some] None
        by (simp add: val out_def)
      obtain r s1 where out: "out = (r, s1)" by (rule prod.exhaust)
      show ?thesis
      proof (cases r)
        case (Inl e)
        then show ?thesis
          unfolding one two out Inl by (simp add: or_fail_def echo_timeout_def http_error_def)
      next
        case (Inr x)
        note echo = session_response_echo [of 201 "ah_lib srv" x timeout "if pc_Timeout body = 0 then 300 else pc_Timeout body"]
        show ?thesis
          unfolding one two out Inr or_fail_def prod.case sum.case echo Let_def ..
      qed
    qed
  qed
qed

lemma verify_options_unused:
  assumes "api_lib_doc lib" and "v \<in> set ([] # algorithm_enum)"
  shows "optional_enum lib ''algorithm'' v algorithm_enum = None"
  using assms(2) lib_passes(2) [OF assms(1)] by (auto simp: optional_enum_def)

text \<open>
  Fields of a request that do nothing. Two requests for a signing session that
  differ in message and timeout lead to the same state and the same reply but for the
  echo of the timeout: the session belongs to no message and expires by the server's
  own timeout. The chain type of a verification, and its algorithm where it is a known
  one, do not change the verdict. The node id and the metadata of a registration are
  dropped.
\<close>

theorem request_fields_without_effect:
  assumes "pc_Message sb \<noteq> None" and "api_lib_doc (ah_lib srv)"
    and "pv_Algorithm vb \<in> set ([] # algorithm_enum)" and "algorithm \<in> set ([] # algorithm_enum)"
  shows "postCreateSessionHandler srv (Inr (sb\<lparr>pc_Message := Some message, pc_Timeout := timeout\<rparr>)) s
        = (let (r, s1) = postCreateSessionHandler srv (Inr sb) s in (echo_timeout timeout r, s1))
    \<and> postVerifyHandler srv (Inr (vb\<lparr>pv_ChainType := chain, pv_Algorithm := algorithm\<rparr>)) s
        = postVerifyHandler srv (Inr vb) s
    \<and> postRegisterNodeHandler srv rand8 (Inr (nb\<lparr>pn_NodeID := nid, pn_Metadata := meta\<rparr>)) s
        = postRegisterNodeHandler srv rand8 (Inr nb) s"
proof (intro conjI)
  show "postCreateSessionHandler srv (Inr (sb\<lparr>pc_Message := Some message, pc_Timeout := timeout\<rparr>)) s
        = (let (r, s1) = postCreateSessionHandler srv (Inr sb) s in (echo_timeout timeout r, s1))"
    by (rule session_message_unused [OF assms(1)])
  have val: "verify_Validate (ah_lib srv) (vb\<lparr>pv_ChainType := chain, pv_Algorithm := algorithm\<rparr>) = verify_Validate (ah_lib srv) vb"
    using verify_options_unused [OF assms(2)] assms(3,4) by (simp add: verify_Validate_def)
  have run: "Verify en t \<lparr>vq_Signature = a, vq_Message = m, vq_MessageHex = h, vq_PublicKey = k, vq_Algorithm = x, vq_ChainType = y\<rparr>
      = Verify en t \<lparr>vq_Signature = a, vq_Message = m, vq_MessageHex = h, vq_PublicKey = k, vq_Algorithm = x', vq_ChainType = y'\<rparr>"
    for en t a m h k x y x' y'
    unfolding Verify_def VerifyRequest.select_convs ..
  show "postVerifyHandler srv (Inr (vb\<lparr>pv_ChainType := chain, pv_Algorithm := algorithm\<rparr>)) s = postVerifyHandler srv (Inr vb) s"
    by (simp add: postVerifyHandler_def with_body_def BindAndValidateBody_def val
        run [where x = algorithm and y = chain and x' = "pv_Algorithm vb" and y' = "pv_ChainType vb"] split: option.split)
  show "postRegisterNodeHandler srv rand8 (Inr (nb\<lparr>pn_NodeID := nid, pn_Metadata := meta\<rparr>)) s
        = postRegisterNodeHandler srv rand8 (Inr nb) s"
    by (simp add: postRegisterNodeHandler_def with_body_def BindAndValidateBody_def register_node_Validate_def
        register_by_type_def split: option.split)
qed

definition toy_session_body :: PostCreateSessionPayload where
  "toy_session_body = \<lparr>pc_KeyID = Some ''key-1'', pc_Message = Some [1], pc_Protocol = [], pc_Timeout = 60\<rparr>"

definition toy_verify_body :: PostVerifyPayload where
  "toy_verify_body = \<lparr>pv_Algorithm = ''ECDSA'', pv_ChainType = [], pv_Message = Some [1], pv_PublicKey = Some ''02'',
     pv_Signature = Some ''ab''\<rparr>"

lemma request_fields_without_effect_witness:
  "postCreateSessionHandler toy_api (Inr (toy_session_body\<lparr>pc_Message := Some [2], pc_Timeout := 5\<rparr>)) toy_api_state
     = (let (r, s1) = postCreateSessionHandler toy_api (Inr toy_session_body) toy_api_state in (echo_timeout 5 r, s1))
   \<and> postVerifyHandler toy_api (Inr (toy_verify_body\<lparr>pv_ChainType := ''bitcoin'', pv_Algorithm := ''EdDSA''\<rparr>)) toy_api_state
     = postVerifyHandler toy_api (Inr toy_verify_body) toy_api_state"
  using request_fields_without_effect [where sb = toy_session_body and srv = toy_api and vb = toy_verify_body
      and algorithm = "''EdDSA''" and message = "[2]" and timeout = 5 and s = toy_api_state and chain = "''bitcoin''"]
  by (simp add: toy_api_def toy_lib_doc toy_session_body_def toy_verify_body_def algorithm_enum_def)

section \<open>Addresses\<close>

text \<open>
  The chain types the interface accepts. Only bitcoin and ethereum have an
  address adapter; a key created for bsc or avalanche, which are accepted as well,
  answers every request for its address with a 500, and the tables stay as they are.
\<close>

theorem chain_types_without_adapter:
  assumes "quiet (net s)" and "get_key (net s) kid = Some k" and "kid \<noteq> []" and "km_Address k = []"
  shows "(\<forall>c \<in> set chain_type_enum. chain_address lib c \<noteq> None \<longleftrightarrow> c \<in> {''bitcoin'', ''ethereum''})
    \<and> (\<forall>c \<in> {''bsc'', ''avalanche''}.
         fst (postGenerateAddressHandler srv kid c s) = HTTPError 500 ''Failed to generate address''
         \<and> same_store (net s) (net (snd (postGenerateAddressHandler srv kid c s))))"
proof -
  let ?w = "net s\<lparr>pg_calls := Suc (pg_calls (net s))\<rparr>"
  have get: "GetKey s kid = (Inr k, s\<lparr>net := ?w\<rparr>)"
    using assms(1,2) by (simp add: GetKey_def pg_GetKeyMetadata_def pg_call_quiet on_net_def)
  have hex: "\<not> is_panic e" if "hex_DecodeString h = Inl e" for h e
    using that by (induction h rule: hex_DecodeString.induct) (auto split: option.splits sum.splits if_splits)
  have "fst (postGenerateAddressHandler srv kid c s) = HTTPError 500 ''Failed to generate address''
      \<and> same_store (net s) (net (snd (postGenerateAddressHandler srv kid c s)))"
    if "c \<in> {''bsc'', ''avalanche''}" for c
    using that assms(3,4) hex
    by (auto simp: postGenerateAddressHandler_def GenerateAddress_def get or_fail_def http_error_def chain_address_def
        split: sum.split)
  then show ?thesis
    by (simp add: chain_type_enum_def chain_address_def)
qed

lemma chain_types_without_adapter_witness:
  "fst (postGenerateAddressHandler toy_api ''key-1'' ''bsc'' toy_state) = HTTPError 500 ''Failed to generate address''"
  using chain_types_without_adapter [of toy_state "''key-1''" sample_key toy_chain toy_api]
  by (simp add: toy_state_def sample_world_ok(2)) (simp add: sample_world_def empty_world_def get_key_def tbl_get_Cons sample_key_def)

end
