(* ===== verification/Accounts.thy ===== *)
theory Accounts
  imports Storage
begin

text \<open>
  The user accounts' part of the database: the tables of the migrations of 2020 and
  2025-05, the statements that the generated models (\<open>internal/models\<close>) send for the
  account services, and the transactions of \<open>internal/util/db/db.go\<close>.

  \<open>adb\<close> is what is committed. A transaction keeps its writes in \<open>apending\<close>, a change of
  the tables; it reads the committed tables with its own writes applied (PostgreSQL's
  \<open>read committed\<close>), and a statement on the pool (\<open>s.db\<close>) inside a transaction is
  committed by itself. Every statement, and the commit, may fail: \<open>afault n\<close> says whether
  the \<open>n\<close>-th call to the database does, and whether the server had done it before the
  failure was seen. A row that the database picks among several that match is picked by
  \<open>apick\<close>. \<open>auuid_in\<close> is the input function of the type \<open>uuid\<close>, which gives the stored
  form of a text. Texts are ASCII; nil and empty slices are not told apart.
\<close>

section \<open>Errors\<close>

text \<open>
  An \<open>HTTPError\<close> of \<open>httperrors\<close> with its code and type, an \<open>echo.HTTPError\<close>, another error,
  an error wrapped by \<open>fmt.Errorf\<close> with \<open>%w\<close>, or a panic.
\<close>

datatype fail = HttpErr int string | EchoErr int | GoErr string | WrapErr string fail | PanicErr string

fun root_cause :: "fail \<Rightarrow> fail" where
  "root_cause (WrapErr _ f) = root_cause f"
| "root_cause f = f"

fun fail_panics :: "fail \<Rightarrow> bool" where
  "fail_panics (PanicErr _) = True"
| "fail_panics _ = False"

definition nil_pointer :: fail where
  "nil_pointer = PanicErr ''invalid memory address or nil pointer dereference''"

type_synonym ('w, 'a) ares = "(fail + 'a) \<times> 'w"

text \<open>\<open>x, err := f(); if err != nil { return err }; k(x)\<close>, and with another error returned.\<close>

definition and_then :: "('w, 'a) ares \<Rightarrow> ('a \<Rightarrow> 'w \<Rightarrow> ('w, 'b) ares) \<Rightarrow> ('w, 'b) ares" where
  "and_then r k = (case r of (Inl e, w) \<Rightarrow> (Inl e, w) | (Inr x, w) \<Rightarrow> k x w)"

definition or_else :: "('w, 'a) ares \<Rightarrow> fail \<Rightarrow> ('a \<Rightarrow> 'w \<Rightarrow> ('w, 'b) ares) \<Rightarrow> ('w, 'b) ares" where
  "or_else r f k = (case r of (Inl e, w) \<Rightarrow> (Inl (if fail_panics e then e else f), w) | (Inr x, w) \<Rightarrow> k x w)"

lemma and_then_simps [simp]: "and_then (Inl e, w) k = (Inl e, w)" "and_then (Inr x, w) k = k x w"
  by (simp_all add: and_then_def)

lemma or_else_simps [simp]:
  "or_else (Inl e, w) f k = (Inl (if fail_panics e then e else f), w)" "or_else (Inr x, w) f k = k x w"
  by (simp_all add: or_else_def)

lemma and_then_InrE:
  assumes "and_then r k = (Inr y, w')"
  obtains x w where "r = (Inr x, w)" and "k x w = (Inr y, w')"
  using assms by (auto simp: and_then_def split: prod.splits sum.splits)

lemma or_else_InrE:
  assumes "or_else r f k = (Inr y, w')"
  obtains x w where "r = (Inr x, w)" and "k x w = (Inr y, w')"
  using assms by (auto simp: or_else_def split: prod.splits sum.splits)

lemma snd_and_thenI:
  assumes "P (snd r)" and "\<And>x w. r = (Inr x, w) \<Longrightarrow> P w \<Longrightarrow> P (snd (k x w))"
  shows "P (snd (and_then r k))"
  using assms by (auto simp: and_then_def split: prod.splits sum.splits)

lemma snd_or_elseI:
  assumes "P (snd r)" and "\<And>x w. r = (Inr x, w) \<Longrightarrow> P w \<Longrightarrow> P (snd (k x w))"
  shows "P (snd (or_else r f k))"
  using assms by (auto simp: or_else_def split: prod.splits sum.splits)

section \<open>Rows\<close>

record UserRow =
  us_ID :: string
  us_Username :: "string option"
  us_Password :: "string option"
  us_IsActive :: bool
  us_Scopes :: "string list"
  us_LastAuthenticatedAt :: "time option"
  us_CreatedAt :: time
  us_UpdatedAt :: time
  us_RequiresConfirmation :: bool

record ProfileRow =
  pf_UserID :: string
  pf_LegalAcceptedAt :: "time option"
  pf_CreatedAt :: time
  pf_UpdatedAt :: time

text \<open>The three tables of tokens that expire have the same columns.\<close>

record TimedToken =
  tt_Token :: string
  tt_ValidUntil :: time
  tt_UserID :: string
  tt_CreatedAt :: time
  tt_UpdatedAt :: time

record RefreshToken =
  rt_Token :: string
  rt_UserID :: string
  rt_CreatedAt :: time
  rt_UpdatedAt :: time

record PushToken =
  pu_ID :: string
  pu_Token :: string
  pu_Provider :: string
  pu_UserID :: string
  pu_CreatedAt :: time
  pu_UpdatedAt :: time

record account_db =
  users_t :: "UserRow list"
  profiles_t :: "ProfileRow list"
  access_t :: "TimedToken list"
  refresh_t :: "RefreshToken list"
  reset_t :: "TimedToken list"
  confirm_t :: "TimedToken list"
  push_t :: "PushToken list"

record accounts =
  adb :: account_db
  apending :: "account_db \<Rightarrow> account_db"
  aclock :: time
  afault :: "nat \<Rightarrow> (string \<times> bool) option"
  acalls :: nat
  auuid :: "nat \<Rightarrow> string"
  auuid_n :: nat
  auuid_in :: "string \<Rightarrow> string option"
  apick :: "nat \<Rightarrow> nat"

section \<open>Statements\<close>

datatype exec = Pool | Tx

definition view :: "exec \<Rightarrow> accounts \<Rightarrow> account_db" where
  "view e w = (case e of Pool \<Rightarrow> adb w | Tx \<Rightarrow> apending w (adb w))"

definition store :: "exec \<Rightarrow> (account_db \<Rightarrow> account_db) \<Rightarrow> accounts \<Rightarrow> accounts" where
  "store e g w = (case e of Pool \<Rightarrow> w\<lparr>adb := g (adb w)\<rparr> | Tx \<Rightarrow> w\<lparr>apending := g \<circ> apending w\<rparr>)"

text \<open>One call: its answer and its change of the tables, from what it sees.\<close>

definition sql :: "exec \<Rightarrow> (account_db \<Rightarrow> fail + 'a \<times> (account_db \<Rightarrow> account_db)) \<Rightarrow> accounts \<Rightarrow> (accounts, 'a) ares" where
  "sql e stmt w =
     (let w1 = w\<lparr>acalls := Suc (acalls w)\<rparr>
      in case stmt (view e w) of
           Inl f \<Rightarrow> (Inl (case afault w (acalls w) of None \<Rightarrow> f | Some (t, _) \<Rightarrow> GoErr t), w1)
         | Inr (x, g) \<Rightarrow>
             (case afault w (acalls w) of
                None \<Rightarrow> (Inr x, store e g w1)
              | Some (t, applied) \<Rightarrow> (Inl (GoErr t), if applied then store e g w1 else w1)))"

definition sql_read :: "exec \<Rightarrow> (account_db \<Rightarrow> 'a) \<Rightarrow> accounts \<Rightarrow> (accounts, 'a) ares" where
  "sql_read e q w = sql e (\<lambda>db. Inr (q db, id)) w"

definition sql_write :: "exec \<Rightarrow> (account_db \<Rightarrow> account_db) \<Rightarrow> accounts \<Rightarrow> (accounts, unit) ares" where
  "sql_write e g w = sql e (\<lambda>db. Inr ((), g)) w"

text \<open>\<open>INSERT\<close>: refused when a constraint does not hold.\<close>

definition sql_insert :: "exec \<Rightarrow> string \<Rightarrow> (account_db \<Rightarrow> bool) \<Rightarrow> (account_db \<Rightarrow> account_db) \<Rightarrow> accounts
     \<Rightarrow> (accounts, unit) ares" where
  "sql_insert e table ok put w =
     sql e (\<lambda>db. if ok db then Inr ((), put) else Inl (GoErr (''models: unable to insert into '' @ table))) w"

text \<open>The default \<open>uuid_generate_v4()\<close> of a column, and the row of a query with \<open>LIMIT 1\<close>.\<close>

definition uuid_generate_v4 :: "accounts \<Rightarrow> string \<times> accounts" where
  "uuid_generate_v4 w = (auuid w (auuid_n w), w\<lparr>auuid_n := Suc (auuid_n w)\<rparr>)"

definition pick_row :: "accounts \<Rightarrow> 'r list \<Rightarrow> 'r option" where
  "pick_row w rs = (if rs = [] then None else Some (rs ! (apick w (acalls w) mod length rs)))"

definition One :: "exec \<Rightarrow> (account_db \<Rightarrow> 'r list) \<Rightarrow> accounts \<Rightarrow> (accounts, 'r option) ares" where
  "One e q w = sql_read e (\<lambda>db. pick_row w (q db)) w"

definition Exists :: "exec \<Rightarrow> (account_db \<Rightarrow> 'r list) \<Rightarrow> accounts \<Rightarrow> (accounts, bool) ares" where
  "Exists e q w = sql_read e (\<lambda>db. q db \<noteq> []) w"

text \<open>A comparison of a column of type \<open>uuid\<close> with a text.\<close>

definition by_token :: "exec \<Rightarrow> string \<Rightarrow> (string \<Rightarrow> account_db \<Rightarrow> 'r list) \<Rightarrow> accounts \<Rightarrow> (accounts, 'r option) ares" where
  "by_token e t q w =
     sql e (\<lambda>db. case auuid_in w t of
        None \<Rightarrow> Inl (GoErr ''invalid input syntax for type uuid'')
      | Some u \<Rightarrow> Inr (pick_row w (q u db), id)) w"

section \<open>The models\<close>

definition has_user :: "string \<Rightarrow> account_db \<Rightarrow> bool" where
  "has_user uid db \<longleftrightarrow> uid \<in> us_ID ` set (users_t db)"

definition get_user :: "account_db \<Rightarrow> string \<Rightarrow> UserRow option" where
  "get_user db uid = tbl_get us_ID uid (users_t db)"

definition users_named :: "string \<Rightarrow> account_db \<Rightarrow> UserRow list" where
  "users_named name db = filter (\<lambda>u. us_Username u = Some name) (users_t db)"

text \<open>\<open>Insert(boil.Infer())\<close> sets both timestamps and reads back the generated id.\<close>

definition User_Insert :: "exec \<Rightarrow> UserRow \<Rightarrow> accounts \<Rightarrow> (accounts, UserRow) ares" where
  "User_Insert e u w =
     (let (i, w) = uuid_generate_v4 w;
          u = u\<lparr>us_ID := i, us_CreatedAt := aclock w, us_UpdatedAt := aclock w\<rparr>
      in and_then (sql_insert e ''users''
           (\<lambda>db. \<not> has_user i db \<and> (\<forall>n. us_Username u = Some n \<longrightarrow> users_named n db = [] \<and> length n \<le> 255))
           (\<lambda>db. db\<lparr>users_t := users_t db @ [u]\<rparr>) w) (\<lambda>_ w. (Inr u, w)))"

definition Profile_Insert :: "exec \<Rightarrow> string \<Rightarrow> accounts \<Rightarrow> (accounts, unit) ares" where
  "Profile_Insert e uid w =
     sql_insert e ''app_user_profiles'' (\<lambda>db. has_user uid db \<and> uid \<notin> pf_UserID ` set (profiles_t db))
       (\<lambda>db. db\<lparr>profiles_t := profiles_t db @
          [\<lparr>pf_UserID = uid, pf_LegalAcceptedAt = None, pf_CreatedAt = aclock w, pf_UpdatedAt = aclock w\<rparr>]\<rparr>) w"

definition new_token :: "string \<Rightarrow> time \<Rightarrow> string \<Rightarrow> accounts \<Rightarrow> TimedToken" where
  "new_token i until uid w =
     \<lparr>tt_Token = i, tt_ValidUntil = until, tt_UserID = uid, tt_CreatedAt = aclock w, tt_UpdatedAt = aclock w\<rparr>"

definition AccessToken_Insert :: "exec \<Rightarrow> string \<Rightarrow> time \<Rightarrow> accounts \<Rightarrow> (accounts, string) ares" where
  "AccessToken_Insert e uid until w =
     (let (i, w) = uuid_generate_v4 w
      in and_then (sql_insert e ''access_tokens'' (\<lambda>db. has_user uid db \<and> i \<notin> tt_Token ` set (access_t db))
           (\<lambda>db. db\<lparr>access_t := access_t db @ [new_token i until uid w]\<rparr>) w) (\<lambda>_ w. (Inr i, w)))"

definition RefreshToken_Insert :: "exec \<Rightarrow> string \<Rightarrow> accounts \<Rightarrow> (accounts, string) ares" where
  "RefreshToken_Insert e uid w =
     (let (i, w) = uuid_generate_v4 w
      in and_then (sql_insert e ''refresh_tokens'' (\<lambda>db. has_user uid db \<and> i \<notin> rt_Token ` set (refresh_t db))
           (\<lambda>db. db\<lparr>refresh_t := refresh_t db @
              [\<lparr>rt_Token = i, rt_UserID = uid, rt_CreatedAt = aclock w, rt_UpdatedAt = aclock w\<rparr>]\<rparr>) w)
           (\<lambda>_ w. (Inr i, w)))"

definition PasswordResetToken_Insert :: "exec \<Rightarrow> string \<Rightarrow> time \<Rightarrow> accounts \<Rightarrow> (accounts, TimedToken) ares" where
  "PasswordResetToken_Insert e uid until w =
     (let (i, w) = uuid_generate_v4 w; t = new_token i until uid w
      in and_then (sql_insert e ''password_reset_tokens'' (\<lambda>db. has_user uid db \<and> i \<notin> tt_Token ` set (reset_t db))
           (\<lambda>db. db\<lparr>reset_t := reset_t db @ [t]\<rparr>) w) (\<lambda>_ w. (Inr t, w)))"

definition ConfirmationToken_Insert :: "exec \<Rightarrow> string \<Rightarrow> time \<Rightarrow> accounts \<Rightarrow> (accounts, TimedToken) ares" where
  "ConfirmationToken_Insert e uid until w =
     (let (i, w) = uuid_generate_v4 w; t = new_token i until uid w
      in and_then (sql_insert e ''confirmation_tokens'' (\<lambda>db. has_user uid db \<and> i \<notin> tt_Token ` set (confirm_t db))
           (\<lambda>db. db\<lparr>confirm_t := confirm_t db @ [t]\<rparr>) w) (\<lambda>_ w. (Inr t, w)))"

definition PushToken_Insert :: "exec \<Rightarrow> string \<Rightarrow> string \<Rightarrow> string \<Rightarrow> accounts \<Rightarrow> (accounts, unit) ares" where
  "PushToken_Insert e uid token provider w =
     (let (i, w) = uuid_generate_v4 w
      in sql_insert e ''push_tokens''
           (\<lambda>db. has_user uid db \<and> i \<notin> pu_ID ` set (push_t db) \<and> token \<notin> pu_Token ` set (push_t db)
              \<and> provider \<in> {''fcm'', ''apn''})
           (\<lambda>db. db\<lparr>push_t := push_t db @ [\<lparr>pu_ID = i, pu_Token = token, pu_Provider = provider, pu_UserID = uid,
               pu_CreatedAt = aclock w, pu_UpdatedAt = aclock w\<rparr>]\<rparr>) w)"

text \<open>
  \<open>Update(boil.Whitelist(...))\<close> sets the named columns and \<open>updated_at\<close> of the row with
  the id, if there is one; the number of rows is not looked at.
\<close>

definition User_Update :: "exec \<Rightarrow> string \<Rightarrow> (UserRow \<Rightarrow> UserRow) \<Rightarrow> accounts \<Rightarrow> (accounts, unit) ares" where
  "User_Update e uid set_columns w =
     sql_write e (\<lambda>db. db\<lparr>users_t := tbl_upd us_ID uid (\<lambda>u. (set_columns u)\<lparr>us_UpdatedAt := aclock w\<rparr>) (users_t db)\<rparr>) w"

text \<open>Deleting a user deletes every row that refers to it (\<open>ON DELETE CASCADE\<close>).\<close>

definition without_user :: "string \<Rightarrow> account_db \<Rightarrow> account_db" where
  "without_user uid db =
     \<lparr>users_t = tbl_del us_ID uid (users_t db), profiles_t = tbl_del pf_UserID uid (profiles_t db),
      access_t = tbl_del tt_UserID uid (access_t db), refresh_t = tbl_del rt_UserID uid (refresh_t db),
      reset_t = tbl_del tt_UserID uid (reset_t db), confirm_t = tbl_del tt_UserID uid (confirm_t db),
      push_t = tbl_del pu_UserID uid (push_t db)\<rparr>"

definition Users_DeleteAll :: "exec \<Rightarrow> string \<Rightarrow> accounts \<Rightarrow> (accounts, unit) ares" where
  "Users_DeleteAll e uid w = sql_write e (without_user uid) w"

definition AccessTokens_DeleteByToken :: "exec \<Rightarrow> string \<Rightarrow> accounts \<Rightarrow> (accounts, unit) ares" where
  "AccessTokens_DeleteByToken e t w = sql_write e (\<lambda>db. db\<lparr>access_t := tbl_del tt_Token t (access_t db)\<rparr>) w"

definition AccessTokens_DeleteByUser :: "exec \<Rightarrow> string \<Rightarrow> accounts \<Rightarrow> (accounts, unit) ares" where
  "AccessTokens_DeleteByUser e uid w = sql_write e (\<lambda>db. db\<lparr>access_t := tbl_del tt_UserID uid (access_t db)\<rparr>) w"

definition RefreshTokens_DeleteByUser :: "exec \<Rightarrow> string \<Rightarrow> accounts \<Rightarrow> (accounts, unit) ares" where
  "RefreshTokens_DeleteByUser e uid w = sql_write e (\<lambda>db. db\<lparr>refresh_t := tbl_del rt_UserID uid (refresh_t db)\<rparr>) w"

definition RefreshToken_Delete :: "exec \<Rightarrow> string \<Rightarrow> accounts \<Rightarrow> (accounts, unit) ares" where
  "RefreshToken_Delete e t w = sql_write e (\<lambda>db. db\<lparr>refresh_t := tbl_del rt_Token t (refresh_t db)\<rparr>) w"

definition RefreshTokens_DeleteByText :: "exec \<Rightarrow> string \<Rightarrow> accounts \<Rightarrow> (accounts, unit) ares" where
  "RefreshTokens_DeleteByText e t w =
     sql e (\<lambda>db. case auuid_in w t of
        None \<Rightarrow> Inl (GoErr ''models: unable to delete all from refresh_tokens'')
      | Some u \<Rightarrow> Inr ((), \<lambda>db. db\<lparr>refresh_t := tbl_del rt_Token u (refresh_t db)\<rparr>)) w"

definition ConfirmationToken_Delete :: "exec \<Rightarrow> string \<Rightarrow> accounts \<Rightarrow> (accounts, unit) ares" where
  "ConfirmationToken_Delete e t w = sql_write e (\<lambda>db. db\<lparr>confirm_t := tbl_del tt_Token t (confirm_t db)\<rparr>) w"

definition PushToken_Delete :: "exec \<Rightarrow> string \<Rightarrow> accounts \<Rightarrow> (accounts, unit) ares" where
  "PushToken_Delete e i w = sql_write e (\<lambda>db. db\<lparr>push_t := tbl_del pu_ID i (push_t db)\<rparr>) w"

text \<open>
  A token with its user (\<open>qm.Load\<close>), by a second statement; when the user is gone by then
  the relation stays nil.
\<close>

definition with_user :: "exec \<Rightarrow> ('r \<Rightarrow> string) \<Rightarrow> (accounts, 'r option) ares \<Rightarrow> (accounts, ('r \<times> UserRow option) option) ares" where
  "with_user e uid_of r =
     and_then r (\<lambda>row w. case row of
        None \<Rightarrow> (Inr None, w)
      | Some t \<Rightarrow> and_then (sql_read e (\<lambda>db. get_user db (uid_of t)) w) (\<lambda>u w. (Inr (Some (t, u)), w)))"

section \<open>Transactions (util/db/db.go)\<close>

text \<open>
  \<open>err = tx.Commit()\<close> in the deferred function sets a variable that is not the function's
  result: when the commit fails, the caller is told that all went well.
\<close>

definition commit :: "accounts \<Rightarrow> accounts" where
  "commit w = w\<lparr>adb := apending w (adb w), apending := id\<rparr>"

definition rollback :: "accounts \<Rightarrow> accounts" where
  "rollback w = w\<lparr>apending := id\<rparr>"

definition WithTransaction :: "(accounts \<Rightarrow> (accounts, 'a) ares) \<Rightarrow> accounts \<Rightarrow> (accounts, 'a) ares" where
  "WithTransaction txHandler w =
     (case sql_read Pool (\<lambda>_. ()) w of
        (Inl f, w) \<Rightarrow> (Inl (WrapErr ''failed to start transaction'' f), w)
      | (Inr _, w) \<Rightarrow>
          (case txHandler (w\<lparr>apending := id\<rparr>) of
             (Inl f, w) \<Rightarrow> (Inl (if fail_panics f then f else WrapErr ''failed to execute transaction'' f), rollback w)
           | (Inr x, w) \<Rightarrow>
               (Inr x,
                case afault w (acalls w) of
                  None \<Rightarrow> commit (w\<lparr>acalls := Suc (acalls w)\<rparr>)
                | Some (_, applied) \<Rightarrow>
                    (if applied then commit else rollback) (w\<lparr>acalls := Suc (acalls w)\<rparr>))))"

end
