(* ===== verification/Hashing.thy ===== *)
theory Hashing
  imports Prelude
begin

text \<open>
  \<open>internal/util/hashing\<close>: how a password becomes the text of the column
  \<open>users.password\<close> and is compared with it. Argon2 itself is a parameter; the parts of
  Go's standard library the code uses (raw base64, \<open>strings.Split\<close>, \<open>fmt.Sscanf\<close>) are
  written out.
\<close>

section \<open>Raw base64 (encoding/base64)\<close>

definition base64_alphabet :: string where
  "base64_alphabet = ''ABCDEFGHIJKLMNOPQRSTUVWXYZabcdefghijklmnopqrstuvwxyz0123456789+/''"

definition sextet_char :: "nat \<Rightarrow> char" where
  "sextet_char n = base64_alphabet ! n"

fun index_of :: "'a \<Rightarrow> 'a list \<Rightarrow> nat option" where
  "index_of x [] = None"
| "index_of x (y # ys) = (if x = y then Some 0 else map_option Suc (index_of x ys))"

definition char_sextet :: "char \<Rightarrow> nat option" where
  "char_sextet c = index_of c base64_alphabet"

fun sextets_of :: "byte list \<Rightarrow> nat list" where
  "sextets_of [] = []"
| "sextets_of [a] = [unat a div 4, unat a mod 4 * 16]"
| "sextets_of [a, b] = [unat a div 4, unat a mod 4 * 16 + unat b div 16, unat b mod 16 * 4]"
| "sextets_of (a # b # c # rest) =
     unat a div 4 # (unat a mod 4 * 16 + unat b div 16) # (unat b mod 16 * 4 + unat c div 64)
       # (unat c mod 64) # sextets_of rest"

definition base64_EncodeToString :: "byte list \<Rightarrow> string" where
  "base64_EncodeToString bs = map sextet_char (sextets_of bs)"

text \<open>
  The decoder takes four sextets at a time; a last group of two or three gives one or two
  bytes whatever its low bits are, a single one is an error.
\<close>

fun bytes_of_sextets :: "nat list \<Rightarrow> byte list option" where
  "bytes_of_sextets [] = Some []"
| "bytes_of_sextets [a] = None"
| "bytes_of_sextets [a, b] = Some [of_nat (a * 4 + b div 16)]"
| "bytes_of_sextets [a, b, c] = Some [of_nat (a * 4 + b div 16), of_nat (b mod 16 * 16 + c div 4)]"
| "bytes_of_sextets (a # b # c # d # rest) =
     map_option (\<lambda>bs. of_nat (a * 4 + b div 16) # of_nat (b mod 16 * 16 + c div 4) # of_nat (c mod 4 * 64 + d) # bs)
       (bytes_of_sextets rest)"

text \<open>Line breaks are skipped; any other character outside the alphabet is an error.\<close>

fun sextets_from :: "string \<Rightarrow> nat list option" where
  "sextets_from [] = Some []"
| "sextets_from (c # cs) =
     (if c = CHR 0x0A \<or> c = CHR 0x0D then sextets_from cs
      else case char_sextet c of None \<Rightarrow> None | Some n \<Rightarrow> map_option ((#) n) (sextets_from cs))"

definition base64_DecodeString :: "string \<Rightarrow> byte list option" where
  "base64_DecodeString s = Option.bind (sextets_from s) bytes_of_sextets"

section \<open>Scanning numbers (fmt.Sscanf) and splitting (strings.Split)\<close>

text \<open>
  A literal character of the format must be the next one of the input. \<open>%d\<close> skips spaces
  other than a line feed, then takes the longest run of digits, for a signed variable
  after an optional sign. What follows the last verb is ignored.
\<close>

fun skip_space :: "string \<Rightarrow> string" where
  "skip_space [] = []"
| "skip_space (c # cs) = (if c \<in> {CHR '' '', CHR 0x09, CHR 0x0B, CHR 0x0C, CHR 0x0D} then skip_space cs else c # cs)"

definition is_digit :: "char \<Rightarrow> bool" where
  "is_digit c \<longleftrightarrow> 48 \<le> (of_char c :: nat) \<and> (of_char c :: nat) \<le> 57"

fun number :: "nat \<Rightarrow> string \<Rightarrow> nat" where
  "number acc [] = acc"
| "number acc (c # cs) = number (10 * acc + (of_char c - 48)) cs"

definition scan_uint :: "nat \<Rightarrow> string \<Rightarrow> (nat \<times> string) option" where
  "scan_uint width s =
     (let ds = takeWhile is_digit (skip_space s)
      in if ds = [] \<or> int (number 0 ds) \<ge> 2 ^ width then None
         else Some (number 0 ds, dropWhile is_digit (skip_space s)))"

definition scan_int :: "string \<Rightarrow> (int \<times> string) option" where
  "scan_int s =
     (let t = skip_space s;
          (neg, t) = (case t of c # cs \<Rightarrow> if c = CHR ''-'' then (True, cs) else if c = CHR ''+'' then (False, cs) else (False, t)
                      | [] \<Rightarrow> (False, []));
          ds = takeWhile is_digit t;
          v = (if neg then - int (number 0 ds) else int (number 0 ds))
      in if ds = [] \<or> v < - (2 ^ 63) \<or> 2 ^ 63 \<le> v then None else Some (v, dropWhile is_digit t))"

definition literal :: "string \<Rightarrow> string \<Rightarrow> string option" where
  "literal p s = (if HasPrefix s p then Some (drop (length p) s) else None)"

fun Split :: "char \<Rightarrow> string \<Rightarrow> string list" where
  "Split sep [] = [[]]"
| "Split sep (c # cs) =
     (if c = sep then [] # Split sep cs
      else case Split sep cs of p # ps \<Rightarrow> (c # p) # ps | [] \<Rightarrow> [[c]])"

section \<open>Argon2 hashes (argon2.go, argon2_params.go)\<close>

record Argon2Params =
  a2_Time :: "32 word"
  a2_Memory :: "32 word"
  a2_Threads :: "8 word"
  a2_KeyLength :: "32 word"
  a2_SaltLength :: "32 word"

definition DefaultArgon2Params :: Argon2Params where
  "DefaultArgon2Params =
     \<lparr>a2_Time = 1, a2_Memory = 64 * 1024, a2_Threads = 4, a2_KeyLength = 32, a2_SaltLength = 16\<rparr>"

text \<open>\<open>argon2.IDKey(password, salt, time, memory, threads, keyLen)\<close>; it may panic.\<close>

type_synonym idkey =
  "byte list \<Rightarrow> byte list \<Rightarrow> 32 word \<Rightarrow> 32 word \<Rightarrow> 8 word \<Rightarrow> 32 word \<Rightarrow> err + byte list"

definition derive :: "idkey \<Rightarrow> string \<Rightarrow> byte list \<Rightarrow> Argon2Params \<Rightarrow> err + byte list" where
  "derive A password salt p =
     A (bytes_of password) salt (a2_Time p) (a2_Memory p) (a2_Threads p) (a2_KeyLength p)"

definition argon2_Version :: int where "argon2_Version = 19"

text \<open>\<open>rand\<close> is what \<open>crypto/rand\<close> answers to the request for the salt.\<close>

definition generateSalt :: "(nat \<Rightarrow> err + byte list) \<Rightarrow> 32 word \<Rightarrow> err + byte list" where
  "generateSalt rand n =
     (case rand (unat n) of Inl e \<Rightarrow> Inl (Wrap e ''failed to generate salt'') | Inr bs \<Rightarrow> Inr bs)"

definition hash_text :: "Argon2Params \<Rightarrow> byte list \<Rightarrow> byte list \<Rightarrow> string" where
  "hash_text p salt key =
     ''$argon2id$v='' @ itoa argon2_Version @ ''$m='' @ nat_digits (unat (a2_Memory p)) @ '',t='' @ nat_digits (unat (a2_Time p))
       @ '',p='' @ nat_digits (unat (a2_Threads p)) @ ''$'' @ base64_EncodeToString salt @ ''$'' @ base64_EncodeToString key"

definition HashPassword :: "idkey \<Rightarrow> (nat \<Rightarrow> err + byte list) \<Rightarrow> string \<Rightarrow> Argon2Params \<Rightarrow> err + string" where
  "HashPassword A rand password params =
     (case generateSalt rand (a2_SaltLength params) of
        Inl e \<Rightarrow> Inl e
      | Inr salt \<Rightarrow> map_sum id (hash_text params salt) (derive A password salt params))"

definition ErrInvalidArgon2Hash :: err where "ErrInvalidArgon2Hash = Err ''invalid argon2id hash''"
definition ErrIncompatibleArgon2Version :: err where
  "ErrIncompatibleArgon2Version = Err ''incompatible argon2 version''"

definition scan_version :: "string \<Rightarrow> int option" where
  "scan_version s = Option.bind (literal ''v='' s) (\<lambda>s. map_option fst (scan_int s))"

definition scan_params :: "string \<Rightarrow> (nat \<times> nat \<times> nat) option" where
  "scan_params s =
     Option.bind (Option.bind (literal ''m='' s) (scan_uint 32)) (\<lambda>(m, s).
     Option.bind (Option.bind (literal '',t='' s) (scan_uint 32)) (\<lambda>(t, s).
     Option.bind (Option.bind (literal '',p='' s) (scan_uint 8)) (\<lambda>(p, s). Some (m, t, p))))"

definition decodeArgon2Hash :: "string \<Rightarrow> err + Argon2Params \<times> byte list \<times> byte list" where
  "decodeArgon2Hash hash =
     (let vals = Split (CHR ''$'') hash
      in if length vals \<noteq> 6 then Inl ErrInvalidArgon2Hash
         else if vals ! 1 \<noteq> ''argon2id'' then Inl ErrInvalidArgon2Hash
         else case scan_version (vals ! 2) of
             None \<Rightarrow> Inl ErrIncompatibleArgon2Version
           | Some version \<Rightarrow>
               if version \<noteq> argon2_Version then Inl ErrIncompatibleArgon2Version
               else case scan_params (vals ! 3) of
                   None \<Rightarrow> Inl ErrInvalidArgon2Hash
                 | Some (m, t, p) \<Rightarrow>
                     (case base64_DecodeString (vals ! 4) of
                        None \<Rightarrow> Inl ErrInvalidArgon2Hash
                      | Some salt \<Rightarrow>
                          (case base64_DecodeString (vals ! 5) of
                             None \<Rightarrow> Inl ErrInvalidArgon2Hash
                           | Some key \<Rightarrow>
                               if int (length key) > 2147483647 then Inl ErrInvalidArgon2Hash
                               else Inr (\<lparr>a2_Time = of_nat t, a2_Memory = of_nat m, a2_Threads = of_nat p,
                                          a2_KeyLength = of_nat (length key), a2_SaltLength = 0\<rparr>, salt, key))))"

text \<open>The comparison takes constant time; its verdict is that of equality.\<close>

definition ComparePasswordAndHash :: "idkey \<Rightarrow> string \<Rightarrow> string \<Rightarrow> err + bool" where
  "ComparePasswordAndHash A password hash =
     (case decodeArgon2Hash hash of
        Inl e \<Rightarrow> Inl e
      | Inr (params, salt, key) \<Rightarrow>
          (case derive A password salt params of
             Inl e \<Rightarrow> Inl e
           | Inr pKey \<Rightarrow>
               if int (length key) > 2147483647 \<or> int (length pKey) > 2147483647 then Inl ErrInvalidArgon2Hash
               else if length key \<noteq> length pKey then Inr False
               else Inr (key = pKey)))"

section \<open>The text of a hash can be taken apart again\<close>

text \<open>Base64 and decimal numbers round-trip, and no part of the text holds the separator.\<close>

lemma sextet_roundtrip:
  assumes "n < 64"
  shows "char_sextet (sextet_char n) = Some n"
proof -
  have "\<forall>n \<in> set [0..<64]. char_sextet (sextet_char n) = Some n" by code_simp
  with assms show ?thesis by auto
qed

lemma sextet_char_plain:
  assumes "n < 64"
  shows "sextet_char n \<notin> {CHR ''$'', CHR 0x0A, CHR 0x0D}"
proof -
  have "\<forall>n \<in> set [0..<64]. sextet_char n \<notin> {CHR ''$'', CHR 0x0A, CHR 0x0D}" by code_simp
  with assms show ?thesis by auto
qed

lemma unat_byte [simp]: "unat (b :: byte) < 256"
  using unsigned_less [where 'a = nat, of b] by simp

lemma sextets_bound: "n \<in> set (sextets_of bs) \<Longrightarrow> n < 64"
proof (induction bs rule: sextets_of.induct)
  case (2 a)
  then show ?case using unat_byte [of a] by (auto simp del: unat_byte)
next
  case (3 a b)
  then show ?case using unat_byte [of a] unat_byte [of b] by (auto simp del: unat_byte)
next
  case (4 a b c rest)
  then show ?case
    using unat_byte [of a] unat_byte [of b] unat_byte [of c] by (auto simp del: unat_byte)
qed simp

lemma sextets_from_chars: "\<forall>n \<in> set ns. n < 64 \<Longrightarrow> sextets_from (map sextet_char ns) = Some ns"
  using sextet_char_plain by (induction ns) (auto simp: sextet_roundtrip)

lemma packed:
  fixes a b k :: nat
  assumes "b < k"
  shows "(a * k + b) div k = a" and "(a * k + b) mod k = b"
  using assms by simp_all

lemma byte_parts:
  fixes x y z :: nat
  assumes "y < 256" and "z < 256"
  shows "x div 4 * 4 + (x mod 4 * 16 + y div 16) div 16 = x"
    and "(x mod 4 * 16 + y div 16) mod 16 * 16 + (y mod 16 * 4 + z div 64) div 4 = y"
    and "(y mod 16 * 4 + z div 64) mod 4 * 64 + z mod 64 = z"
proof -
  have small: "y div 16 < 16" "z div 64 < 4" using assms by simp_all
  show "x div 4 * 4 + (x mod 4 * 16 + y div 16) div 16 = x"
    by (simp only: packed [OF small(1)] div_mult_mod_eq)
  show "(x mod 4 * 16 + y div 16) mod 16 * 16 + (y mod 16 * 4 + z div 64) div 4 = y"
    by (simp only: packed [OF small(1)] packed [OF small(2)] div_mult_mod_eq)
  show "(y mod 16 * 4 + z div 64) mod 4 * 64 + z mod 64 = z"
    by (simp only: packed [OF small(2)] div_mult_mod_eq)
qed

lemma bytes_of_sextets_of: "bytes_of_sextets (sextets_of bs) = Some bs"
proof (induction bs rule: sextets_of.induct)
  case (2 a)
  have "unat a div 4 * 4 + unat a mod 4 * 16 div 16 = unat a" by simp
  then show ?case by simp
next
  case (3 a b)
  then show ?case
    using byte_parts(1) [of "unat b" 0 "unat a"] byte_parts(2) [of "unat b" 0 "unat a"] by simp
next
  case (4 a b c rest)
  then show ?case
    using byte_parts(1) [of "unat b" "unat c" "unat a"] byte_parts(2) [of "unat b" "unat c" "unat a"]
      byte_parts(3) [of "unat b" "unat c"] by simp
qed simp

lemma base64_roundtrip [simp]: "base64_DecodeString (base64_EncodeToString bs) = Some bs"
  using sextets_bound [of _ bs]
  by (simp add: base64_DecodeString_def base64_EncodeToString_def sextets_from_chars bytes_of_sextets_of)

lemma base64_no_separator [simp]: "CHR ''$'' \<notin> set (base64_EncodeToString bs)"
  using sextet_char_plain sextets_bound [of _ bs] by (fastforce simp: base64_EncodeToString_def)

lemma is_digit_char: "d < 10 \<Longrightarrow> is_digit (digit_char d) \<and> of_char (digit_char d) - 48 = d"
  by (auto simp: is_digit_def digit_char_def)

lemma nat_digits_digits: "\<forall>c \<in> set (nat_digits n). is_digit c"
proof (induction n rule: nat_digits.induct)
  case (1 n)
  then show ?case
    by (subst nat_digits.simps) (auto simp: is_digit_char)
qed

lemma nat_digits_Cons: "nat_digits n \<noteq> []"
  by (subst nat_digits.simps) simp

lemma number_append: "number acc (xs @ ys) = number (number acc xs) ys"
  by (induction xs arbitrary: acc) simp_all

lemma number_nat_digits: "number 0 (nat_digits n) = n"
proof (induction n rule: nat_digits.induct)
  case (1 n)
  show ?case
  proof (cases "n < 10")
    case True
    then show ?thesis by (subst nat_digits.simps) (simp add: is_digit_char)
  next
    case False
    then show ?thesis
      using 1 by (subst nat_digits.simps) (simp add: number_append is_digit_char)
  qed
qed

definition stops_digits :: "string \<Rightarrow> bool" where
  "stops_digits s \<longleftrightarrow> s = [] \<or> \<not> is_digit (hd s)"

lemma digits_span:
  assumes "stops_digits s"
  shows "takeWhile is_digit (nat_digits n @ s) = nat_digits n" and "dropWhile is_digit (nat_digits n @ s) = s"
  using assms nat_digits_digits [of n]
  by (cases s; simp add: stops_digits_def takeWhile_append dropWhile_append)+

lemma skip_digits: "skip_space (nat_digits n @ s) = nat_digits n @ s"
  using nat_digits_digits [of n] nat_digits_Cons [of n]
  by (cases "nat_digits n") (auto simp: is_digit_def)

lemma scan_uint_digits:
  assumes "stops_digits s" and "n < 2 ^ width"
  shows "scan_uint width (nat_digits n @ s) = Some (n, s)"
proof -
  have "int n < 2 ^ width" using assms(2) by (metis of_nat_less_iff of_nat_numeral of_nat_power)
  then show ?thesis
    by (simp add: scan_uint_def skip_digits digits_span [OF assms(1)] number_nat_digits nat_digits_Cons)
qed

lemma digits_no_separator: "CHR ''$'' \<notin> set (nat_digits n)"
  using nat_digits_digits [of n] by (auto simp: is_digit_def)

lemma Split_plain: "sep \<notin> set s \<Longrightarrow> Split sep s = [s]"
  by (induction s) auto

lemma Split_append: "sep \<notin> set p \<Longrightarrow> Split sep (p @ sep # s) = p # Split sep s"
  by (induction p) auto

lemma decode_hash_text:
  assumes "int (length key) \<le> 2147483647"
  shows "decodeArgon2Hash (hash_text p salt key)
    = Inr (p\<lparr>a2_KeyLength := of_nat (length key), a2_SaltLength := 0\<rparr>, salt, key)"
proof -
  let ?v = "''v='' @ itoa argon2_Version"
  let ?m = "nat_digits (unat (a2_Memory p))" and ?t = "nat_digits (unat (a2_Time p))" and ?p = "nat_digits (unat (a2_Threads p))"
  let ?ps = "''m='' @ ?m @ '',t='' @ ?t @ '',p='' @ ?p"
  have ver: "itoa argon2_Version = ''19''" by code_simp
  have parts: "CHR ''$'' \<notin> set ?v" "CHR ''$'' \<notin> set ?ps" "CHR ''$'' \<notin> set ''argon2id''"
    by (simp_all add: ver digits_no_separator)
  have "hash_text p salt key = [] @ CHR ''$'' # ''argon2id'' @ CHR ''$'' # ?v @ CHR ''$'' # ?ps @ CHR ''$'' #
      base64_EncodeToString salt @ CHR ''$'' # base64_EncodeToString key"
    by (simp add: hash_text_def)
  then have split: "Split (CHR ''$'') (hash_text p salt key) = [[], ''argon2id'', ?v, ?ps,
      base64_EncodeToString salt, base64_EncodeToString key]"
    using Split_append [OF parts(1)] Split_append [OF parts(2)] Split_append [OF parts(3)]
      Split_append [of "CHR ''$''" "[]"] Split_append [OF base64_no_separator] Split_plain [OF base64_no_separator]
    by simp
  have v: "scan_version ?v = Some 19" by (simp add: ver) code_simp
  have less: "unat (a2_Memory p) < 2 ^ 32" "unat (a2_Time p) < 2 ^ 32" "unat (a2_Threads p) < 2 ^ 8"
    using unsigned_less [where 'a = nat, of "a2_Memory p"] unsigned_less [where 'a = nat, of "a2_Time p"]
      unsigned_less [where 'a = nat, of "a2_Threads p"] by simp_all
  have stop: "stops_digits ('',t='' @ s)" "stops_digits ('',p='' @ s)" "stops_digits []" for s
    by (simp_all add: stops_digits_def is_digit_def)
  have lit: "literal q (q @ s) = Some s" for q s by (simp add: literal_def)
  have "scan_params ?ps = Some (unat (a2_Memory p), unat (a2_Time p), unat (a2_Threads p))"
    using scan_uint_digits [OF stop(1) less(1)] scan_uint_digits [OF stop(2) less(2)] scan_uint_digits [OF stop(3) less(3)]
      lit [of "''m=''"] lit [of "'',t=''"] lit [of "'',p=''"]
    by (simp only: scan_params_def bind.bind_lunit prod.case append_Nil2)
  then show ?thesis
    using assms v by (simp only: decodeArgon2Hash_def Let_def split) (simp add: argon2_Version_def)
qed

section \<open>Comparing a password with a hash\<close>

text \<open>What \<open>argon2.IDKey\<close> promises: a key of the length asked for.\<close>

definition right_length :: "idkey \<Rightarrow> bool" where
  "right_length A \<longleftrightarrow> (\<forall>pw salt t m th n key. A pw salt t m th n = Inr key \<longrightarrow> length key = unat n)"

lemma compare_hash:
  assumes "HashPassword A rand password params = Inr hash" and "right_length A" and "int (unat (a2_KeyLength params)) \<le> 2147483647"
  obtains salt key where "rand (unat (a2_SaltLength params)) = Inr salt" and "derive A password salt params = Inr key"
    and "\<And>q. ComparePasswordAndHash A q hash = map_sum id (\<lambda>k. k = key) (derive A q salt params)"
proof -
  obtain salt where salt: "rand (unat (a2_SaltLength params)) = Inr salt"
      and map: "map_sum id (hash_text params salt) (derive A password salt params) = Inr hash"
    using assms(1) by (auto simp: HashPassword_def generateSalt_def split: sum.splits)
  then obtain key where key: "derive A password salt params = Inr key" "hash = hash_text params salt key"
    by (cases "derive A password salt params") auto
  have len: "length k = unat (a2_KeyLength params)" if "derive A q salt params = Inr k" for q k
    using that assms(2) unfolding derive_def right_length_def by blast
  have "decodeArgon2Hash hash = Inr (params\<lparr>a2_SaltLength := 0\<rparr>, salt, key)"
    using decode_hash_text [of key params salt] len [OF key(1)] assms(3) key(2) by simp
  moreover have "derive A q salt (params\<lparr>a2_SaltLength := 0\<rparr>) = derive A q salt params" for q
    by (simp add: derive_def)
  ultimately have "ComparePasswordAndHash A q hash = map_sum id (\<lambda>k. k = key) (derive A q salt params)" for q
    using len [OF key(1)] len assms(3) by (auto simp: ComparePasswordAndHash_def split: sum.split)
  with that salt key(1) show ?thesis by blast
qed

lemma accepts_own:
  assumes "HashPassword A rand password DefaultArgon2Params = Inr hash" and "right_length A"
  shows "ComparePasswordAndHash A password hash = Inr True"
proof -
  have "int (unat (a2_KeyLength DefaultArgon2Params)) \<le> 2147483647" by (simp add: DefaultArgon2Params_def)
  from assms this show ?thesis by (rule compare_hash) simp
qed

end
