(* ===== verification/AuthService.thy ===== *)
theory AuthService
  imports Accounts Hashing
begin

text \<open>
  \<open>internal/auth/service.go\<close> with the types of \<open>internal/data/dto\<close> and
  \<open>internal/data/mapper\<close>, and \<open>internal/data/local/service_push.go\<close>. The clock of the
  service and the clock of the models are one. \<open>rand\<close> is what \<open>crypto/rand\<close> answers to the
  request for a salt.
\<close>

section \<open>Types (data/dto/users.go, data/mapper/users.go)\<close>

record AuthServer =
  cf_AccessTokenValidity :: time
  cf_PasswordResetTokenValidity :: time
  cf_PasswordResetTokenDebounceDuration :: time
  cf_PasswordResetTokenReuseDuration :: time
  cf_DefaultUserScopes :: "string list"
  cf_LastAuthenticatedAtThreshold :: time
  cf_RegistrationRequiresConfirmation :: bool
  cf_ConfirmationTokenValidity :: time
  cf_ConfirmationTokenDebounceDuration :: time

record auth_env =
  ae_config :: AuthServer
  ae_IDKey :: idkey

record AppUserProfile =
  up_UserID :: string
  up_LegalAcceptedAt :: "time option"
  up_UpdatedAt :: time

record User =
  du_ID :: string
  du_Username :: "string option"
  du_PasswordHash :: "string option"
  du_IsActive :: bool
  du_Scopes :: "string list"
  du_LastAuthenticatedAt :: "time option"
  du_UpdatedAt :: time
  du_Profile :: "AppUserProfile option"

record LoginResult =
  lr_UserID :: string
  lr_AccessToken :: string
  lr_ExpiresIn :: int
  lr_RefreshToken :: string
  lr_TokenType :: string

definition no_login :: LoginResult where
  "no_login = \<lparr>lr_UserID = [], lr_AccessToken = [], lr_ExpiresIn = 0, lr_RefreshToken = [], lr_TokenType = []\<rparr>"

record RegisterResult =
  rr_RequiresConfirmation :: bool
  rr_ConfirmationToken :: "string option"

definition LocalAppUserProfileToDTO :: "ProfileRow \<Rightarrow> AppUserProfile" where
  "LocalAppUserProfileToDTO p =
     \<lparr>up_UserID = pf_UserID p, up_LegalAcceptedAt = pf_LegalAcceptedAt p, up_UpdatedAt = pf_UpdatedAt p\<rparr>"

text \<open>A row that was loaded with its profile gives a user with a profile.\<close>

definition LocalUserToDTO :: "UserRow \<Rightarrow> ProfileRow option \<Rightarrow> User" where
  "LocalUserToDTO u profile =
     \<lparr>du_ID = us_ID u, du_Username = us_Username u, du_PasswordHash = us_Password u,
      du_IsActive = us_IsActive u, du_Scopes = us_Scopes u,
      du_LastAuthenticatedAt = us_LastAuthenticatedAt u, du_UpdatedAt = us_UpdatedAt u,
      du_Profile = map_option LocalAppUserProfileToDTO profile\<rparr>"

definition LastUpdatedAt :: "User \<Rightarrow> time" where
  "LastUpdatedAt u =
     (case du_Profile u of
        Some p \<Rightarrow> if up_UpdatedAt p > du_UpdatedAt u then up_UpdatedAt p else du_UpdatedAt u
      | None \<Rightarrow> du_UpdatedAt u)"

text \<open>\<open>util.ToUsernameFormat\<close>: lower case, without white space at both ends.\<close>

definition is_white :: "char \<Rightarrow> bool" where
  "is_white c \<longleftrightarrow> c \<in> {CHR '' '', CHR 0x09, CHR 0x0A, CHR 0x0B, CHR 0x0C, CHR 0x0D}"

definition TrimSpace :: "string \<Rightarrow> string" where
  "TrimSpace s = rev (dropWhile is_white (rev (dropWhile is_white s)))"

definition ToUsernameFormat :: "string \<Rightarrow> string" where
  "ToUsernameFormat s = TrimSpace (ToLower s)"

section \<open>Errors\<close>

definition ErrForbiddenUserDeactivated :: fail where "ErrForbiddenUserDeactivated = HttpErr 403 ''USER_DEACTIVATED''"
definition ErrBadRequestInvalidPassword :: fail where "ErrBadRequestInvalidPassword = HttpErr 400 ''INVALID_PASSWORD''"
definition ErrForbiddenNotLocalUser :: fail where "ErrForbiddenNotLocalUser = HttpErr 403 ''NOT_LOCAL_USER''"
definition ErrNotFoundTokenNotFound :: fail where "ErrNotFoundTokenNotFound = HttpErr 404 ''TOKEN_NOT_FOUND''"
definition ErrConflictTokenExpired :: fail where "ErrConflictTokenExpired = HttpErr 409 ''TOKEN_EXPIRED''"
definition ErrConflictUserAlreadyExists :: fail where "ErrConflictUserAlreadyExists = HttpErr 409 ''USER_ALREADY_EXISTS''"
definition ErrConflictPushToken :: fail where "ErrConflictPushToken = HttpErr 409 ''PUSH_TOKEN_ALREADY_EXISTS''"
definition ErrNotFoundOldPushToken :: fail where "ErrNotFoundOldPushToken = HttpErr 404 ''OLD_PUSH_TOKEN_NOT_FOUND''"
definition ErrUnauthorized :: fail where "ErrUnauthorized = EchoErr 401"
definition ErrInternalServerError :: fail where "ErrInternalServerError = EchoErr 500"

definition ErrNotFound :: fail where "ErrNotFound = GoErr ''not found''"

fun fail_of :: "err \<Rightarrow> fail" where
  "fail_of (Panic p) = PanicErr p"
| "fail_of e = GoErr (err_text e)"

text \<open>A hash, or a comparison, whose error is replaced by \<open>f\<close> where the code does so.\<close>

definition hashed :: "err + 'a \<Rightarrow> fail option \<Rightarrow> accounts \<Rightarrow> (accounts, 'a) ares" where
  "hashed r f w =
     (case r of
        Inr x \<Rightarrow> (Inr x, w)
      | Inl e \<Rightarrow> (Inl (if is_panic e then fail_of e else case f of Some f \<Rightarrow> f | None \<Rightarrow> fail_of e), w))"

section \<open>Tokens for a user\<close>

definition GetAppUserProfile :: "string \<Rightarrow> accounts \<Rightarrow> (accounts, AppUserProfile) ares" where
  "GetAppUserProfile userID w =
     and_then (One Pool (\<lambda>db. filter (\<lambda>p. pf_UserID p = userID) (profiles_t db)) w)
       (\<lambda>p w. case p of None \<Rightarrow> (Inl ErrNotFound, w) | Some p \<Rightarrow> (Inr (LocalAppUserProfileToDTO p), w))"

definition authenticateUser :: "AuthServer \<Rightarrow> exec \<Rightarrow> User \<Rightarrow> bool \<Rightarrow> accounts \<Rightarrow> (accounts, LoginResult) ares" where
  "authenticateUser cfg e user invalidate w =
     and_then (if invalidate
               then and_then (AccessTokens_DeleteByUser e (du_ID user) w) (\<lambda>_. RefreshTokens_DeleteByUser e (du_ID user))
               else (Inr (), w)) (\<lambda>_ w.
     and_then (AccessToken_Insert e (du_ID user) (aclock w + cf_AccessTokenValidity cfg) w) (\<lambda>access w.
     and_then (RefreshToken_Insert e (du_ID user) w) (\<lambda>refresh w.
     and_then (User_Update e (du_ID user) (\<lambda>u. u\<lparr>us_LastAuthenticatedAt := Some (aclock w)\<rparr>) w) (\<lambda>_ w.
       (Inr \<lparr>lr_UserID = [], lr_AccessToken = access,
             lr_ExpiresIn = go_div (cf_AccessTokenValidity cfg) 1000000,
             lr_RefreshToken = refresh, lr_TokenType = ''bearer''\<rparr>, w)))))"

section \<open>Passwords\<close>

definition UpdatePassword ::
  "auth_env \<Rightarrow> (nat \<Rightarrow> err + byte list) \<Rightarrow> User \<Rightarrow> string \<Rightarrow> bool \<Rightarrow> string \<Rightarrow> accounts \<Rightarrow> (accounts, LoginResult) ares" where
  "UpdatePassword env rand user current skip new w =
     (if \<not> du_IsActive user then (Inl ErrForbiddenUserDeactivated, w)
      else case du_PasswordHash user of
        None \<Rightarrow> (Inl ErrForbiddenNotLocalUser, w)
      | Some stored \<Rightarrow>
          and_then (if skip then (Inr True, w) else hashed (ComparePasswordAndHash (ae_IDKey env) current stored) None w)
            (\<lambda>match w. if \<not> match then (Inl ErrUnauthorized, w)
             else and_then (hashed (HashPassword (ae_IDKey env) rand new DefaultArgon2Params) (Some ErrBadRequestInvalidPassword) w)
               (\<lambda>hash. WithTransaction (\<lambda>w.
                  and_then (User_Update Tx (du_ID user) (\<lambda>u. u\<lparr>us_Password := Some hash\<rparr>) w)
                    (\<lambda>_. authenticateUser (ae_config env) Tx (user\<lparr>du_PasswordHash := Some hash\<rparr>) True)))))"

definition ResetPassword ::
  "auth_env \<Rightarrow> (nat \<Rightarrow> err + byte list) \<Rightarrow> string \<Rightarrow> string \<Rightarrow> accounts \<Rightarrow> (accounts, LoginResult) ares" where
  "ResetPassword env rand resetToken newPassword w =
     and_then (with_user Pool tt_UserID (by_token Pool resetToken (\<lambda>t db. filter (\<lambda>r. tt_Token r = t) (reset_t db)) w))
       (\<lambda>row w. case row of
          None \<Rightarrow> (Inl ErrNotFoundTokenNotFound, w)
        | Some (token, user) \<Rightarrow>
            if aclock w > tt_ValidUntil token then (Inl ErrConflictTokenExpired, w)
            else (case user of
                None \<Rightarrow> (Inl nil_pointer, w)
              | Some user \<Rightarrow> UpdatePassword env rand (LocalUserToDTO user None) [] True newPassword w))"

definition live_tokens :: "string \<Rightarrow> time \<Rightarrow> time \<Rightarrow> TimedToken list \<Rightarrow> TimedToken list" where
  "live_tokens uid created_after valid_after rs =
     filter (\<lambda>t. tt_UserID t = uid \<and> tt_CreatedAt t > created_after \<and> tt_ValidUntil t > valid_after) rs"

text \<open>\<open>None\<close> is the empty result, on which no mail is sent.\<close>

definition InitPasswordReset :: "AuthServer \<Rightarrow> string \<Rightarrow> accounts \<Rightarrow> (accounts, string option) ares" where
  "InitPasswordReset cfg username w =
     and_then (One Pool (users_named (ToUsernameFormat username)) w) (\<lambda>user w. case user of
        None \<Rightarrow> (Inr None, w)
      | Some user \<Rightarrow>
          if \<not> us_IsActive user \<or> us_Password user = None then (Inr None, w)
          else and_then (if cf_PasswordResetTokenDebounceDuration cfg > 0
                 then Exists Pool (\<lambda>db. live_tokens (us_ID user)
                        (aclock w - cf_PasswordResetTokenDebounceDuration cfg) (aclock w) (reset_t db)) w
                 else (Inr False, w))
            (\<lambda>debounced w. if debounced then (Inr None, w)
             else WithTransaction (\<lambda>w.
               and_then (One Tx (\<lambda>db. live_tokens (us_ID user)
                   (aclock w - cf_PasswordResetTokenReuseDuration cfg) (aclock w) (reset_t db)) w)
                 (\<lambda>token w. case token of
                    Some t \<Rightarrow> (Inr (Some (tt_Token t)), w)
                  | None \<Rightarrow> and_then (PasswordResetToken_Insert Tx (us_ID user)
                        (aclock w + cf_PasswordResetTokenValidity cfg) w)
                      (\<lambda>t w. (Inr (Some (tt_Token t)), w)))) w))"

section \<open>Sessions\<close>

definition Logout :: "string \<Rightarrow> string option \<Rightarrow> accounts \<Rightarrow> (accounts, unit) ares" where
  "Logout accessToken refreshToken = WithTransaction (\<lambda>w.
     and_then (AccessTokens_DeleteByToken Tx accessToken w) (\<lambda>_ w. case refreshToken of
        None \<Rightarrow> (Inr (), w)
      | Some t \<Rightarrow> RefreshTokens_DeleteByText Tx t w))"

definition Login :: "auth_env \<Rightarrow> string \<Rightarrow> string \<Rightarrow> accounts \<Rightarrow> (accounts, LoginResult) ares" where
  "Login env username password w =
     or_else (One Pool (users_named (ToUsernameFormat username)) w) ErrUnauthorized (\<lambda>user w. case user of
        None \<Rightarrow> (Inl ErrUnauthorized, w)
      | Some user \<Rightarrow>
          if \<not> us_IsActive user then (Inl ErrForbiddenUserDeactivated, w)
          else (case us_Password user of
              None \<Rightarrow> (Inl ErrUnauthorized, w)
            | Some stored \<Rightarrow>
                and_then (hashed (ComparePasswordAndHash (ae_IDKey env) password stored) (Some ErrUnauthorized) w)
                  (\<lambda>match w. if \<not> match then (Inl ErrUnauthorized, w)
                   else WithTransaction (authenticateUser (ae_config env) Tx (LocalUserToDTO user None) False) w)))"

text \<open>\<open>Refresh\<close> reads the token by a statement of its own and then runs its transaction.\<close>

definition refresh_load :: "string \<Rightarrow> accounts \<Rightarrow> (accounts, RefreshToken \<times> User) ares" where
  "refresh_load refreshToken w =
     and_then (with_user Pool rt_UserID (by_token Pool refreshToken (\<lambda>t db. filter (\<lambda>r. rt_Token r = t) (refresh_t db)) w))
       (\<lambda>row w. case row of
          None \<Rightarrow> (Inl ErrUnauthorized, w)
        | Some (_, None) \<Rightarrow> (Inl nil_pointer, w)
        | Some (token, Some user) \<Rightarrow>
            if \<not> us_IsActive user then (Inl ErrForbiddenUserDeactivated, w)
            else (Inr (token, LocalUserToDTO user None), w))"

definition refresh_run :: "AuthServer \<Rightarrow> RefreshToken \<times> User \<Rightarrow> accounts \<Rightarrow> (accounts, LoginResult) ares" where
  "refresh_run cfg loaded = WithTransaction (\<lambda>w.
     and_then (RefreshToken_Delete Tx (rt_Token (fst loaded)) w) (\<lambda>_. authenticateUser cfg Tx (snd loaded) False))"

definition Refresh :: "AuthServer \<Rightarrow> string \<Rightarrow> accounts \<Rightarrow> (accounts, LoginResult) ares" where
  "Refresh cfg refreshToken w = and_then (refresh_load refreshToken w) (refresh_run cfg)"

section \<open>Registration\<close>

definition register_again :: "AuthServer \<Rightarrow> UserRow \<Rightarrow> accounts \<Rightarrow> (accounts, RegisterResult) ares" where
  "register_again cfg user w =
     (if \<not> us_RequiresConfirmation user then (Inl ErrConflictUserAlreadyExists, w)
      else and_then (Exists Pool (\<lambda>db. live_tokens (us_ID user)
               (aclock w - cf_ConfirmationTokenDebounceDuration cfg) (aclock w) (confirm_t db)) w)
        (\<lambda>debounced w.
           if debounced
           then (Inr \<lparr>rr_RequiresConfirmation = us_RequiresConfirmation user, rr_ConfirmationToken = None\<rparr>, w)
           else and_then (ConfirmationToken_Insert Pool (us_ID user) (aclock w + cf_ConfirmationTokenValidity cfg) w)
             (\<lambda>t w. (Inr \<lparr>rr_RequiresConfirmation = us_RequiresConfirmation user,
                          rr_ConfirmationToken = Some (tt_Token t)\<rparr>, w))))"

definition new_user_row :: "AuthServer \<Rightarrow> string \<Rightarrow> string \<Rightarrow> accounts \<Rightarrow> UserRow" where
  "new_user_row cfg username hash w =
     \<lparr>us_ID = [], us_Username = Some username, us_Password = Some hash,
      us_IsActive = (\<not> cf_RegistrationRequiresConfirmation cfg), us_Scopes = cf_DefaultUserScopes cfg,
      us_LastAuthenticatedAt = Some (aclock w), us_CreatedAt = 0, us_UpdatedAt = 0,
      us_RequiresConfirmation = cf_RegistrationRequiresConfirmation cfg\<rparr>"

definition register_new :: "AuthServer \<Rightarrow> string \<Rightarrow> string \<Rightarrow> accounts \<Rightarrow> (accounts, RegisterResult) ares" where
  "register_new cfg username hash = WithTransaction (\<lambda>w.
     and_then (User_Insert Tx (new_user_row cfg username hash w) w) (\<lambda>user w.
     and_then (Profile_Insert Tx (us_ID user) w) (\<lambda>_ w.
       if cf_RegistrationRequiresConfirmation cfg
       then and_then (ConfirmationToken_Insert Tx (us_ID user) (aclock w + cf_ConfirmationTokenValidity cfg) w)
         (\<lambda>t w. (Inr \<lparr>rr_RequiresConfirmation = True, rr_ConfirmationToken = Some (tt_Token t)\<rparr>, w))
       else (Inr \<lparr>rr_RequiresConfirmation = False, rr_ConfirmationToken = None\<rparr>, w))))"

definition Register ::
  "auth_env \<Rightarrow> (nat \<Rightarrow> err + byte list) \<Rightarrow> string \<Rightarrow> string \<Rightarrow> accounts \<Rightarrow> (accounts, RegisterResult) ares" where
  "Register env rand username password w =
     and_then (One Pool (users_named (ToUsernameFormat username)) w) (\<lambda>user w. case user of
        Some user \<Rightarrow> register_again (ae_config env) user w
      | None \<Rightarrow>
          and_then (hashed (HashPassword (ae_IDKey env) rand password DefaultArgon2Params) (Some ErrBadRequestInvalidPassword) w)
            (\<lambda>hash. register_new (ae_config env) (ToUsernameFormat username) hash))"

text \<open>
  The token is read outside the transaction. A user that needs no confirmation any more
  ends it without a login.
\<close>

definition CompleteRegister :: "AuthServer \<Rightarrow> string \<Rightarrow> accounts \<Rightarrow> (accounts, LoginResult) ares" where
  "CompleteRegister cfg confirmationToken = WithTransaction (\<lambda>w.
     and_then (with_user Pool tt_UserID (by_token Pool confirmationToken
         (\<lambda>t db. filter (\<lambda>r. tt_Token r = t \<and> tt_ValidUntil r > aclock w) (confirm_t db)) w))
       (\<lambda>row w. case row of
          None \<Rightarrow> (Inl ErrNotFoundTokenNotFound, w)
        | Some (_, None) \<Rightarrow> (Inl nil_pointer, w)
        | Some (token, Some user) \<Rightarrow>
            if us_IsActive user \<or> \<not> us_RequiresConfirmation user then (Inr no_login, w)
            else and_then (User_Update Tx (us_ID user)
                   (\<lambda>u. u\<lparr>us_IsActive := True, us_RequiresConfirmation := False\<rparr>) w) (\<lambda>_ w.
                 and_then (ConfirmationToken_Delete Tx (tt_Token token) w) (\<lambda>_.
                   authenticateUser cfg Tx
                     (LocalUserToDTO (user\<lparr>us_IsActive := True, us_RequiresConfirmation := False\<rparr>) None) False))))"

definition DeleteUserAccount :: "auth_env \<Rightarrow> User \<Rightarrow> string \<Rightarrow> accounts \<Rightarrow> (accounts, unit) ares" where
  "DeleteUserAccount env user currentPassword w =
     (if \<not> du_IsActive user then (Inl ErrForbiddenUserDeactivated, w)
      else case du_PasswordHash user of
        None \<Rightarrow> (Inl ErrForbiddenNotLocalUser, w)
      | Some stored \<Rightarrow>
          and_then (hashed (ComparePasswordAndHash (ae_IDKey env) currentPassword stored) (Some ErrUnauthorized) w)
            (\<lambda>match w. if \<not> match then (Inl ErrUnauthorized, w)
             else WithTransaction (Users_DeleteAll Tx (du_ID user)) w))"

section \<open>Push tokens (data/local/service_push.go)\<close>

text \<open>
  The new token is inserted on the pool, so it stays when the old one is not found and
  the transaction is rolled back.
\<close>

definition UpdatePushToken :: "User \<Rightarrow> string \<Rightarrow> string \<Rightarrow> string option \<Rightarrow> accounts \<Rightarrow> (accounts, unit) ares" where
  "UpdatePushToken user token provider existing = WithTransaction (\<lambda>w.
     and_then (Exists Tx (\<lambda>db. filter (\<lambda>p. pu_Token p = token) (push_t db)) w) (\<lambda>found w.
       if found then (Inl ErrConflictPushToken, w)
       else and_then (PushToken_Insert Pool (du_ID user) token provider w) (\<lambda>_ w. case existing of
          None \<Rightarrow> (Inr (), w)
        | Some old \<Rightarrow>
            and_then (One Tx (\<lambda>db. filter (\<lambda>p. pu_Token p = old \<and> pu_UserID p = du_ID user) (push_t db)) w)
              (\<lambda>row w. case row of
                 None \<Rightarrow> (Inl ErrNotFoundOldPushToken, w)
               | Some p \<Rightarrow> PushToken_Delete Tx (pu_ID p) w))))"

end
