(* ===== verification/AccountFacts.thy ===== *)
theory AccountFacts
  imports AuthService
begin

text \<open>
  What the operations on accounts keep of the tables. A statement reads or changes one
  table; the locale \<open>account_tables\<close> takes a property that every statement's change keeps
  and gives that every service operation keeps it, whatever fails, and over all
  histories. It is interpreted for the constraints of the schema and for the scopes of
  the users.
\<close>

section \<open>Frames\<close>

lemma sql_read_frame [simp]:
  "adb (snd (sql_read e q w)) = adb w"
  "apending (snd (sql_read e q w)) = apending w"
  "aclock (snd (sql_read e q w)) = aclock w"
  by (simp_all add: sql_read_def sql_def store_def view_def Let_def split: option.splits exec.splits)

lemma sql_frame [simp]: "aclock (snd (sql e stmt w)) = aclock w"
  by (simp add: sql_def store_def view_def Let_def split: option.splits sum.splits prod.splits exec.splits)

lemma One_frame [simp]:
  "adb (snd (One e q w)) = adb w" "apending (snd (One e q w)) = apending w" "aclock (snd (One e q w)) = aclock w"
  "adb (snd (Exists e q w)) = adb w" "apending (snd (Exists e q w)) = apending w" "aclock (snd (Exists e q w)) = aclock w"
  by (simp_all add: One_def Exists_def)

lemma by_token_frame [simp]:
  "adb (snd (by_token e t q w)) = adb w" "apending (snd (by_token e t q w)) = apending w"
  by (simp_all add: by_token_def sql_def store_def view_def Let_def split: option.splits sum.splits prod.splits exec.splits)

lemma with_user_frame [simp]:
  "adb (snd (with_user e f r)) = adb (snd r)" "apending (snd (with_user e f r)) = apending (snd r)"
  by (auto simp: with_user_def and_then_def split: prod.splits sum.splits option.splits
      dest: arg_cong [where f = "\<lambda>r. adb (snd r)"] arg_cong [where f = "\<lambda>r. apending (snd r)"])

lemma hashed_frame [simp]: "snd (hashed r f w) = w"
  by (simp add: hashed_def split: sum.splits)

section \<open>Properties kept by every operation\<close>

inductive account_step :: "auth_env \<Rightarrow> accounts \<Rightarrow> accounts \<Rightarrow> bool" for env where
  update_password: "account_step env w (snd (UpdatePassword env rand user cur skip new w))"
| reset_password: "account_step env w (snd (ResetPassword env rand token new w))"
| init_reset: "account_step env w (snd (InitPasswordReset (ae_config env) name w))"
| logout: "account_step env w (snd (Logout access refresh w))"
| login: "account_step env w (snd (Login env name password w))"
| refresh: "account_step env w (snd (Refresh (ae_config env) token w))"
| register: "account_step env w (snd (Register env rand name password w))"
| complete: "account_step env w (snd (CompleteRegister (ae_config env) token w))"
| delete_account: "account_step env w (snd (DeleteUserAccount env user password w))"
| push_token: "account_step env w (snd (UpdatePushToken user token provider old w))"
| time_passes: "t \<ge> aclock w \<Longrightarrow> account_step env w (w\<lparr>aclock := t\<rparr>)"

inductive account_run :: "auth_env \<Rightarrow> accounts \<Rightarrow> accounts \<Rightarrow> bool" for env where
  none: "account_run env w w"
| more: "account_run env w w1 \<Longrightarrow> account_step env w1 w2 \<Longrightarrow> account_run env w w2"

locale account_tables =
  fixes P :: "account_db \<Rightarrow> bool" and scopes :: "string list"
  assumes user_in: "P db \<Longrightarrow> \<not> has_user (us_ID u) db \<Longrightarrow> (\<And>n. us_Username u = Some n \<Longrightarrow> users_named n db = [])
      \<Longrightarrow> us_Scopes u = scopes \<Longrightarrow> P (db\<lparr>users_t := users_t db @ [u]\<rparr>)"
    and profile_in: "P db \<Longrightarrow> has_user (pf_UserID pr) db \<Longrightarrow> pf_UserID pr \<notin> pf_UserID ` set (profiles_t db)
      \<Longrightarrow> P (db\<lparr>profiles_t := profiles_t db @ [pr]\<rparr>)"
    and access_in: "P db \<Longrightarrow> has_user (tt_UserID t) db \<Longrightarrow> tt_Token t \<notin> tt_Token ` set (access_t db)
      \<Longrightarrow> P (db\<lparr>access_t := access_t db @ [t]\<rparr>)"
    and refresh_in: "P db \<Longrightarrow> has_user (rt_UserID r) db \<Longrightarrow> rt_Token r \<notin> rt_Token ` set (refresh_t db)
      \<Longrightarrow> P (db\<lparr>refresh_t := refresh_t db @ [r]\<rparr>)"
    and reset_in: "P db \<Longrightarrow> has_user (tt_UserID t) db \<Longrightarrow> tt_Token t \<notin> tt_Token ` set (reset_t db)
      \<Longrightarrow> P (db\<lparr>reset_t := reset_t db @ [t]\<rparr>)"
    and confirm_in: "P db \<Longrightarrow> has_user (tt_UserID t) db \<Longrightarrow> tt_Token t \<notin> tt_Token ` set (confirm_t db)
      \<Longrightarrow> P (db\<lparr>confirm_t := confirm_t db @ [t]\<rparr>)"
    and push_in: "P db \<Longrightarrow> has_user (pu_UserID p) db \<Longrightarrow> pu_ID p \<notin> pu_ID ` set (push_t db)
      \<Longrightarrow> pu_Token p \<notin> pu_Token ` set (push_t db) \<Longrightarrow> P (db\<lparr>push_t := push_t db @ [p]\<rparr>)"
    and user_set: "P db \<Longrightarrow> (\<And>u. us_ID (f u) = us_ID u \<and> us_Username (f u) = us_Username u \<and> us_Scopes (f u) = us_Scopes u)
      \<Longrightarrow> P (db\<lparr>users_t := tbl_upd us_ID uid f (users_t db)\<rparr>)"
    and access_del: "P db \<Longrightarrow> P (db\<lparr>access_t := filter p1 (access_t db)\<rparr>)"
    and refresh_del: "P db \<Longrightarrow> P (db\<lparr>refresh_t := filter p2 (refresh_t db)\<rparr>)"
    and confirm_del: "P db \<Longrightarrow> P (db\<lparr>confirm_t := filter p3 (confirm_t db)\<rparr>)"
    and push_del: "P db \<Longrightarrow> P (db\<lparr>push_t := filter p4 (push_t db)\<rparr>)"
    and user_del: "P db \<Longrightarrow> P (without_user uid db)"
begin

definition in_tx :: "accounts \<Rightarrow> bool" where
  "in_tx w \<longleftrightarrow> P (adb w) \<and> P (apending w (adb w))"

definition settled :: "accounts \<Rightarrow> bool" where
  "settled w \<longleftrightarrow> apending w = id \<and> P (adb w)"

lemma in_tx_if_settled: "settled w \<Longrightarrow> in_tx w"
  by (simp add: settled_def in_tx_def)

lemma settled_if_same: "settled w \<Longrightarrow> adb w' = adb w \<Longrightarrow> apending w' = apending w \<Longrightarrow> settled w'"
  by (simp add: settled_def)

lemma in_tx_if_same: "in_tx w \<Longrightarrow> adb w' = adb w \<Longrightarrow> apending w' = apending w \<Longrightarrow> in_tx w'"
  by (simp add: in_tx_def)

lemma sql_tx:
  assumes "in_tx w" and "\<And>x g. stmt (view Tx w) = Inr (x, g) \<Longrightarrow> P (view Tx w) \<Longrightarrow> P (g (view Tx w))"
  shows "in_tx (snd (sql Tx stmt w))"
  using assms by (auto simp: sql_def in_tx_def store_def view_def Let_def split: sum.splits option.splits)

lemma sql_pool:
  assumes "settled w" and "\<And>x g. stmt (adb w) = Inr (x, g) \<Longrightarrow> P (adb w) \<Longrightarrow> P (g (adb w))"
  shows "settled (snd (sql Pool stmt w))"
  using assms by (auto simp: sql_def settled_def store_def view_def Let_def split: sum.splits option.splits)

lemma fresh_uuid [simp]: "settled (w\<lparr>auuid_n := n\<rparr>) = settled w" "in_tx (w\<lparr>auuid_n := n\<rparr>) = in_tx w"
  by (simp_all add: settled_def in_tx_def)

lemma writes_tx:
  assumes "in_tx w"
  shows "in_tx (snd (AccessTokens_DeleteByToken Tx t w))" and "in_tx (snd (AccessTokens_DeleteByUser Tx uid w))"
    and "in_tx (snd (RefreshTokens_DeleteByUser Tx uid w))" and "in_tx (snd (RefreshToken_Delete Tx t w))"
    and "in_tx (snd (RefreshTokens_DeleteByText Tx t w))" and "in_tx (snd (ConfirmationToken_Delete Tx t w))"
    and "in_tx (snd (PushToken_Delete Tx t w))" and "in_tx (snd (Users_DeleteAll Tx uid w))"
  unfolding AccessTokens_DeleteByToken_def AccessTokens_DeleteByUser_def RefreshTokens_DeleteByUser_def
    RefreshToken_Delete_def RefreshTokens_DeleteByText_def ConfirmationToken_Delete_def PushToken_Delete_def
    Users_DeleteAll_def sql_write_def tbl_del_def
  by (rule sql_tx [OF assms]; auto intro: access_del refresh_del confirm_del push_del user_del split: option.splits)+

lemma user_update_tx:
  assumes "in_tx w" and "\<And>u. us_ID (f u) = us_ID u \<and> us_Username (f u) = us_Username u \<and> us_Scopes (f u) = us_Scopes u"
  shows "in_tx (snd (User_Update Tx uid f w))"
  unfolding User_Update_def sql_write_def
  by (rule sql_tx [OF assms(1)]) (auto intro!: user_set simp: assms(2))

lemma and_then_tx:
  assumes "in_tx (snd r)" and "\<And>x w. in_tx w \<Longrightarrow> in_tx (snd (k x w))"
  shows "in_tx (snd (and_then r k))"
  using assms by (rule snd_and_thenI)

lemma and_then_settled:
  assumes "settled (snd r)" and "\<And>x w. settled w \<Longrightarrow> settled (snd (k x w))"
  shows "settled (snd (and_then r k))"
  using assms by (rule snd_and_thenI)

lemma insert_tx:
  assumes "in_tx w" and "P (view Tx w) \<Longrightarrow> ok (view Tx w) \<Longrightarrow> P (put (view Tx w))"
  shows "in_tx (snd (sql_insert Tx table ok put w))"
  unfolding sql_insert_def by (rule sql_tx [OF assms(1)]) (auto intro: assms(2) split: if_splits)

lemma insert_pool:
  assumes "settled w" and "P (adb w) \<Longrightarrow> ok (adb w) \<Longrightarrow> P (put (adb w))"
  shows "settled (snd (sql_insert Pool table ok put w))"
  unfolding sql_insert_def by (rule sql_pool [OF assms(1)]) (auto intro: assms(2) split: if_splits)

lemma inserts_tx:
  assumes "in_tx w"
  shows "in_tx (snd (AccessToken_Insert Tx uid until w))" and "in_tx (snd (RefreshToken_Insert Tx uid w))"
    and "in_tx (snd (PasswordResetToken_Insert Tx uid until w))" and "in_tx (snd (ConfirmationToken_Insert Tx uid until w))"
    and "in_tx (snd (Profile_Insert Tx uid w))"
  using assms
  by (auto simp: AccessToken_Insert_def RefreshToken_Insert_def PasswordResetToken_Insert_def ConfirmationToken_Insert_def
      Profile_Insert_def uuid_generate_v4_def new_token_def Let_def
      intro!: and_then_tx insert_tx intro: access_in refresh_in reset_in confirm_in profile_in)

lemma user_insert_tx:
  assumes "in_tx w" and "us_Scopes u = scopes"
  shows "in_tx (snd (User_Insert Tx u w))"
  using assms by (auto simp: User_Insert_def uuid_generate_v4_def Let_def intro!: and_then_tx insert_tx user_in)

lemma inserts_pool:
  assumes "settled w"
  shows "settled (snd (ConfirmationToken_Insert Pool uid until w))" and "settled (snd (PushToken_Insert Pool uid t p w))"
  using assms
  by (auto simp: ConfirmationToken_Insert_def PushToken_Insert_def uuid_generate_v4_def new_token_def Let_def
      intro!: and_then_settled insert_pool intro: confirm_in push_in)

lemma transaction:
  assumes "settled w" and "\<And>w. settled w \<Longrightarrow> in_tx (snd (h w))"
  shows "settled (snd (WithTransaction h w))"
proof -
  obtain r w1 where start: "sql_read Pool (\<lambda>_. ()) w = (r, w1)" by (rule prod.exhaust)
  then have w1: "adb w1 = adb w" "apending w1 = apending w"
    using sql_read_frame [of Pool "\<lambda>_. ()" w] by simp_all
  with assms(1) have "settled w1" by (simp add: settled_def)
  obtain q w2 where run: "h (w1\<lparr>apending := id\<rparr>) = (q, w2)" by (rule prod.exhaust)
  with assms(2) [of "w1\<lparr>apending := id\<rparr>"] \<open>settled w1\<close> have "in_tx w2" by (simp add: settled_def)
  then have "settled (rollback w2)" "settled (commit w2)" "settled (rollback (w2\<lparr>acalls := n\<rparr>))" "settled (commit (w2\<lparr>acalls := n\<rparr>))" for n
    by (simp_all add: in_tx_def settled_def rollback_def commit_def)
  then show ?thesis
    using \<open>settled w1\<close> by (simp add: WithTransaction_def start run split: sum.split option.split prod.split)
qed

lemma transaction_tx:
  assumes "settled w" and "\<And>w. in_tx w \<Longrightarrow> in_tx (snd (h w))"
  shows "settled (snd (WithTransaction h w))"
  using assms by (auto intro: transaction in_tx_if_settled)

lemma authenticate_tx:
  assumes "in_tx w"
  shows "in_tx (snd (authenticateUser cfg Tx user ends w))"
  using assms unfolding authenticateUser_def
  by (auto intro!: and_then_tx inserts_tx user_update_tx writes_tx)

lemma update_password_settled:
  assumes "settled w"
  shows "settled (snd (UpdatePassword env rand user cur skip new w))"
  using assms
  by (auto simp: UpdatePassword_def split: option.split
      intro!: and_then_settled transaction_tx and_then_tx user_update_tx authenticate_tx)

lemma loaded_settled:
  assumes "settled w"
  shows "settled (snd (One Pool q w))" and "settled (snd (Exists Pool q w))"
    and "settled (snd (with_user Pool f (by_token Pool t q' w)))"
  using assms by (simp_all add: settled_def)

lemma reset_password_settled:
  assumes "settled w"
  shows "settled (snd (ResetPassword env rand token new w))"
  unfolding ResetPassword_def
  using assms by (auto split: option.split intro!: and_then_settled loaded_settled update_password_settled)

lemma read_tx: "in_tx w \<Longrightarrow> in_tx (snd (One Tx q w))" "in_tx w \<Longrightarrow> in_tx (snd (Exists Tx q w))"
  by (simp_all add: in_tx_def)

lemma init_reset_settled:
  assumes "settled w"
  shows "settled (snd (InitPasswordReset cfg name w))"
  unfolding InitPasswordReset_def
  using assms by (auto split: option.split
      intro!: and_then_settled loaded_settled transaction_tx and_then_tx read_tx inserts_tx)

lemma logout_settled: "settled w \<Longrightarrow> settled (snd (Logout access refresh w))"
  unfolding Logout_def
  by (auto split: option.split intro!: transaction_tx and_then_tx writes_tx)

lemma or_else_settled:
  assumes "settled (snd r)" and "\<And>x w. settled w \<Longrightarrow> settled (snd (k x w))"
  shows "settled (snd (or_else r f k))"
  using assms by (rule snd_or_elseI)

lemma login_settled:
  assumes "settled w"
  shows "settled (snd (Login env name password w))"
  unfolding Login_def
  using assms by (auto split: option.split
      intro!: or_else_settled and_then_settled loaded_settled transaction_tx authenticate_tx)

lemma refresh_settled:
  assumes "settled w"
  shows "settled (snd (Refresh cfg token w))"
  unfolding Refresh_def refresh_load_def refresh_run_def
  using assms by (auto split: option.split
      intro!: and_then_settled loaded_settled transaction_tx and_then_tx writes_tx authenticate_tx)

lemma register_settled:
  assumes "settled w" and "cf_DefaultUserScopes (ae_config env) = scopes"
  shows "settled (snd (Register env rand name password w))"
  unfolding Register_def register_again_def register_new_def
  using assms by (auto simp: new_user_row_def split: option.split
      intro!: and_then_settled loaded_settled transaction_tx and_then_tx inserts_tx inserts_pool user_insert_tx)

lemma complete_settled:
  assumes "settled w"
  shows "settled (snd (CompleteRegister cfg token w))"
proof -
  have load: "in_tx (snd (with_user Pool f (by_token Pool t q w)))" if "in_tx w"
    for w t and f :: "TimedToken \<Rightarrow> string" and q
    using that by (simp add: in_tx_def)
  show ?thesis
    unfolding CompleteRegister_def
    using assms by (auto split: option.split
        intro!: transaction_tx and_then_tx load user_update_tx writes_tx authenticate_tx)
qed

lemma delete_account_settled:
  assumes "settled w"
  shows "settled (snd (DeleteUserAccount env user password w))"
  unfolding DeleteUserAccount_def
  using assms by (auto split: option.split intro!: and_then_settled transaction_tx writes_tx)

text \<open>The new push token is committed while nothing of the transaction_tx is pending.\<close>

lemma settled_then_tx:
  assumes "settled (snd r)" and "\<And>x w. settled w \<Longrightarrow> in_tx (snd (k x w))"
  shows "in_tx (snd (and_then r k))"
  using assms by (auto simp: and_then_def in_tx_if_settled split: prod.splits sum.splits)

lemma push_token_settled:
  assumes "settled w"
  shows "settled (snd (UpdatePushToken user token provider old w))"
proof -
  have seen: "settled w \<Longrightarrow> settled (snd (Exists Tx q w))" "settled w \<Longrightarrow> settled (snd (One Tx q' w))"
    for w and q :: "account_db \<Rightarrow> PushToken list" and q' :: "account_db \<Rightarrow> PushToken list"
    by (simp_all add: settled_def)
  show ?thesis
    unfolding UpdatePushToken_def
    using assms by (auto split: option.split
        intro!: transaction settled_then_tx seen inserts_pool writes_tx simp: in_tx_if_settled)
qed

lemma step_settled:
  assumes "account_step env w w'" and "settled w" and "cf_DefaultUserScopes (ae_config env) = scopes"
  shows "settled w'"
  using assms
proof (cases rule: account_step.cases)
  case (time_passes t)
  with assms(2) show ?thesis by (simp add: settled_def)
qed (simp_all add: update_password_settled reset_password_settled init_reset_settled logout_settled login_settled
    refresh_settled register_settled complete_settled delete_account_settled push_token_settled)

lemma run_settled:
  assumes "account_run env w w'" and "settled w" and "cf_DefaultUserScopes (ae_config env) = scopes"
  shows "settled w'"
  using assms by (induction rule: account_run.induct) (auto intro: step_settled)

end

section \<open>The constraints of the schema, and the scopes\<close>

definition refs_ok :: "('r \<Rightarrow> string) \<Rightarrow> 'r list \<Rightarrow> account_db \<Rightarrow> bool" where
  "refs_ok uid_of rs db \<longleftrightarrow> (\<forall>r \<in> set rs. has_user (uid_of r) db)"

definition names_ok :: "UserRow list \<Rightarrow> bool" where
  "names_ok us \<longleftrightarrow> (\<forall>u \<in> set us. \<forall>v \<in> set us. us_Username u \<noteq> None \<and> us_Username u = us_Username v \<longrightarrow> us_ID u = us_ID v)"

definition schema_ok :: "account_db \<Rightarrow> bool" where
  "schema_ok db \<longleftrightarrow>
     tbl_ok us_ID (users_t db) \<and> names_ok (users_t db)
   \<and> tbl_ok pf_UserID (profiles_t db) \<and> refs_ok pf_UserID (profiles_t db) db
   \<and> tbl_ok tt_Token (access_t db) \<and> refs_ok tt_UserID (access_t db) db
   \<and> tbl_ok rt_Token (refresh_t db) \<and> refs_ok rt_UserID (refresh_t db) db
   \<and> tbl_ok tt_Token (reset_t db) \<and> refs_ok tt_UserID (reset_t db) db
   \<and> tbl_ok tt_Token (confirm_t db) \<and> refs_ok tt_UserID (confirm_t db) db
   \<and> tbl_ok pu_ID (push_t db) \<and> tbl_ok pu_Token (push_t db) \<and> refs_ok pu_UserID (push_t db) db"

lemma tbl_ok_append: "tbl_ok kf (rs @ [r]) \<longleftrightarrow> tbl_ok kf rs \<and> kf r \<notin> kf ` set rs"
  by (auto simp: tbl_ok_def)

lemma tbl_ok_filter: "tbl_ok kf rs \<Longrightarrow> tbl_ok kf (filter p rs)"
  by (simp add: tbl_ok_def distinct_map_filter)

lemma refs_append [simp]: "refs_ok f (rs @ [r]) db \<longleftrightarrow> refs_ok f rs db \<and> has_user (f r) db"
  by (auto simp: refs_ok_def)

lemma refs_filter: "refs_ok f rs db \<Longrightarrow> refs_ok f (filter p rs) db"
  by (simp add: refs_ok_def)

lemma refs_mono: "refs_ok f rs db \<Longrightarrow> us_ID ` set (users_t db) \<subseteq> us_ID ` set (users_t db') \<Longrightarrow> refs_ok f rs db'"
  by (auto simp: refs_ok_def has_user_def)

lemma refs_deleted: "refs_ok f rs db \<Longrightarrow> refs_ok f (tbl_del f uid rs) (without_user uid db)"
  by (fastforce simp: refs_ok_def tbl_del_def has_user_def without_user_def)

lemma refs_other_tables [simp]:
  "refs_ok f rs (db\<lparr>profiles_t := a\<rparr>) = refs_ok f rs db" "refs_ok f rs (db\<lparr>access_t := b\<rparr>) = refs_ok f rs db"
  "refs_ok f rs (db\<lparr>refresh_t := c\<rparr>) = refs_ok f rs db" "refs_ok f rs (db\<lparr>reset_t := d\<rparr>) = refs_ok f rs db"
  "refs_ok f rs (db\<lparr>confirm_t := e\<rparr>) = refs_ok f rs db" "refs_ok f rs (db\<lparr>push_t := g\<rparr>) = refs_ok f rs db"
  by (simp_all add: refs_ok_def has_user_def)

lemma has_user_other_tables [simp]:
  "has_user uid (db\<lparr>profiles_t := a\<rparr>) = has_user uid db" "has_user uid (db\<lparr>access_t := b\<rparr>) = has_user uid db"
  "has_user uid (db\<lparr>refresh_t := c\<rparr>) = has_user uid db" "has_user uid (db\<lparr>reset_t := d\<rparr>) = has_user uid db"
  "has_user uid (db\<lparr>confirm_t := e\<rparr>) = has_user uid db" "has_user uid (db\<lparr>push_t := g\<rparr>) = has_user uid db"
  by (simp_all add: has_user_def)

lemma refs_new_user: "refs_ok f rs db \<Longrightarrow> refs_ok f rs (db\<lparr>users_t := users_t db @ [u]\<rparr>)"
  by (erule refs_mono) auto

lemma names_append:
  assumes "names_ok us" and "\<And>n. us_Username u = Some n \<Longrightarrow> filter (\<lambda>v. us_Username v = Some n) us = []"
  shows "names_ok (us @ [u])"
proof -
  have "us_Username v \<noteq> us_Username u" if "v \<in> set us" "us_Username u \<noteq> None" for v
    using assms(2) that by (auto simp: filter_empty_conv)
  then show ?thesis
    using assms(1) by (fastforce simp: names_ok_def)
qed

lemma names_filter: "names_ok us \<Longrightarrow> names_ok (filter p us)"
  unfolding names_ok_def by (meson filter_is_subset subsetD)

lemma without_user_tables [simp]:
  "users_t (without_user uid db) = tbl_del us_ID uid (users_t db)"
  "profiles_t (without_user uid db) = tbl_del pf_UserID uid (profiles_t db)"
  "access_t (without_user uid db) = tbl_del tt_UserID uid (access_t db)"
  "refresh_t (without_user uid db) = tbl_del rt_UserID uid (refresh_t db)"
  "reset_t (without_user uid db) = tbl_del tt_UserID uid (reset_t db)"
  "confirm_t (without_user uid db) = tbl_del tt_UserID uid (confirm_t db)"
  "push_t (without_user uid db) = tbl_del pu_UserID uid (push_t db)"
  by (simp_all add: without_user_def)

lemma names_update:
  assumes "names_ok us" and "\<And>u. us_ID (f u) = us_ID u \<and> us_Username (f u) = us_Username u"
  shows "names_ok (tbl_upd us_ID uid f us)"
proof -
  define g where "g = (\<lambda>r. if us_ID r = uid then f r else r)"
  have g: "us_ID (g u) = us_ID u" "us_Username (g u) = us_Username u" for u
    using assms(2) by (simp_all add: g_def)
  show ?thesis
    unfolding tbl_upd_def g_def [symmetric] names_ok_def list.set_map ball_simps g
    using assms(1) unfolding names_ok_def .
qed

lemma refs_updated_user:
  assumes "\<And>u. us_ID (f u) = us_ID u"
  shows "refs_ok g rs (db\<lparr>users_t := tbl_upd us_ID uid f (users_t db)\<rparr>) = refs_ok g rs db"
proof -
  have "us_ID ` set (tbl_upd us_ID uid f (users_t db)) = us_ID ` set (users_t db)"
    using map_tbl_upd [of us_ID uid f "users_t db"] assms by (metis list.set_map)
  then show ?thesis by (simp add: refs_ok_def has_user_def)
qed

interpretation schema: account_tables schema_ok scopes for scopes
proof
  fix db :: account_db and u :: UserRow
  assume db: "schema_ok db" and new: "\<not> has_user (us_ID u) db" and "\<And>n. us_Username u = Some n \<Longrightarrow> users_named n db = []"
  then have "names_ok (users_t db @ [u])"
    by (intro names_append) (auto simp: schema_ok_def users_named_def)
  with db new show "schema_ok (db\<lparr>users_t := users_t db @ [u]\<rparr>)"
    by (simp add: schema_ok_def tbl_ok_append has_user_def refs_new_user)
next
  fix db uid and f :: "UserRow \<Rightarrow> UserRow"
  assume "schema_ok db" "\<And>u. us_ID (f u) = us_ID u \<and> us_Username (f u) = us_Username u \<and> us_Scopes (f u) = us_Scopes u"
  then show "schema_ok (db\<lparr>users_t := tbl_upd us_ID uid f (users_t db)\<rparr>)"
    by (simp add: schema_ok_def tbl_ok_upd names_update refs_updated_user)
next
  fix db uid
  assume "schema_ok db"
  then show "schema_ok (without_user uid db)"
    by (simp add: schema_ok_def refs_deleted) (simp add: tbl_del_def tbl_ok_filter names_filter)
qed (simp_all add: schema_ok_def tbl_ok_append tbl_ok_filter refs_filter)

definition plain_scopes :: "string list \<Rightarrow> account_db \<Rightarrow> bool" where
  "plain_scopes scopes db \<longleftrightarrow> (\<forall>u \<in> set (users_t db). us_Scopes u = scopes)"

interpretation scopes: account_tables "plain_scopes scopes" scopes for scopes
  by unfold_locales (auto simp: plain_scopes_def without_user_def tbl_upd_def tbl_del_def)

end
