(* ===== verification/AuthWeb.thy ===== *)
theory AuthWeb
  imports AuthService Handlers
begin

text \<open>
  What stands between a request and the services: the authentication middleware
  (\<open>internal/api/middleware/auth.go\<close>), the router's groups that use it
  (\<open>internal/api/router/router.go\<close>), the error handler (\<open>router/handlers.go\<close>), and the
  handlers of accounts and push tokens (\<open>internal/api/handlers/auth\<close>, \<open>handlers/push\<close>).
  The pattern of a version 4 UUID and the header, query and form of a request are
  parameters.
\<close>

section \<open>Requests and errors\<close>

record request =
  rq_path :: string
  rq_header :: "string \<Rightarrow> string"
  rq_query :: "string \<Rightarrow> string"
  rq_form :: "string \<Rightarrow> string"
  rq_user :: "User option"
  rq_token :: "string option"

definition ErrBadRequestMalformedToken :: fail where "ErrBadRequestMalformedToken = HttpErr 400 ''MALFORMED_TOKEN''"
definition ErrUnauthorizedLastAuthenticatedAtExceeded :: fail where
  "ErrUnauthorizedLastAuthenticatedAtExceeded = HttpErr 401 ''LAST_AUTHENTICATED_AT_EXCEEDED''"
definition ErrForbiddenMissingScopes :: fail where "ErrForbiddenMissingScopes = HttpErr 403 ''MISSING_SCOPES''"
definition ErrAuthTokenValidationFailed :: fail where
  "ErrAuthTokenValidationFailed = GoErr ''auth token validation failed''"

text \<open>
  The status the error handler writes: \<open>errors.As\<close> finds the first HTTP error below the
  wrappers; everything else is a 500.
\<close>

fun http_status :: "fail \<Rightarrow> int" where
  "http_status (HttpErr code _) = code"
| "http_status (EchoErr code) = code"
| "http_status (WrapErr _ f) = http_status f"
| "http_status (GoErr _) = 500"
| "http_status (PanicErr _) = 500"

section \<open>The middleware (middleware/auth.go)\<close>

datatype AuthMode = AuthModeRequired | AuthModeSecure | AuthModeOptional | AuthModeTry | AuthModeNone

datatype AuthFailureMode = AuthFailureModeUnauthorized | AuthFailureModeNotFound

definition failure_error :: "AuthFailureMode \<Rightarrow> fail" where
  "failure_error m = (case m of AuthFailureModeUnauthorized \<Rightarrow> EchoErr 401 | AuthFailureModeNotFound \<Rightarrow> EchoErr 404)"

datatype AuthTokenSource = AuthTokenSourceHeader | AuthTokenSourceQuery | AuthTokenSourceForm

text \<open>The byte after the scheme is skipped, whatever it is.\<close>

definition Extract :: "AuthTokenSource \<Rightarrow> request \<Rightarrow> string \<Rightarrow> string \<Rightarrow> string \<times> bool" where
  "Extract src c key scheme =
     (let token = (case src of
          AuthTokenSourceHeader \<Rightarrow> rq_header c key
        | AuthTokenSourceForm \<Rightarrow> rq_form c key
        | AuthTokenSourceQuery \<Rightarrow> rq_query c key)
      in if token = [] then ([], False)
         else if scheme = [] then (token, True)
         else if length token < length scheme + 1 then ([], True)
         else if take (length scheme) token \<noteq> scheme then ([], True)
         else (drop (length scheme + 1) token, True))"

text \<open>\<open>None\<close> as the end of validity is the zero time.\<close>

record AuthResult =
  ar_Token :: string
  ar_User :: User
  ar_ValidUntil :: "time option"

type_synonym token_validator = "string \<Rightarrow> accounts \<Rightarrow> (accounts, AuthResult) ares"

definition DefaultAuthTokenValidator :: token_validator where
  "DefaultAuthTokenValidator token w =
     (case with_user Pool tt_UserID (by_token Pool token (\<lambda>t db. filter (\<lambda>r. tt_Token r = t) (access_t db)) w) of
        (Inl f, w) \<Rightarrow> (Inl ErrInternalServerError, w)
      | (Inr None, w) \<Rightarrow> (Inl ErrAuthTokenValidationFailed, w)
      | (Inr (Some (_, None)), w) \<Rightarrow> (Inl nil_pointer, w)
      | (Inr (Some (row, Some user)), w) \<Rightarrow>
          (case sql_read Pool (\<lambda>db. tbl_get pf_UserID (us_ID user) (profiles_t db)) w of
             (Inl f, w) \<Rightarrow> (Inl ErrInternalServerError, w)
           | (Inr profile, w) \<Rightarrow>
               (Inr \<lparr>ar_Token = tt_Token row, ar_User = LocalUserToDTO user profile,
                     ar_ValidUntil = Some (tt_ValidUntil row)\<rparr>, w)))"

record AuthConfig =
  ac_Mode :: AuthMode
  ac_FailureMode :: AuthFailureMode
  ac_TokenSource :: AuthTokenSource
  ac_TokenSourceKey :: string
  ac_Scheme :: string
  ac_Skipper :: "request \<Rightarrow> bool"
  ac_FormatValidator :: "string \<Rightarrow> bool"
  ac_TokenValidator :: token_validator
  ac_Scopes :: "string list"

definition CheckLastAuthenticatedAt :: "AuthServer \<Rightarrow> AuthConfig \<Rightarrow> User \<Rightarrow> accounts \<Rightarrow> bool" where
  "CheckLastAuthenticatedAt srv cfg user w =
     (if ac_Mode cfg \<noteq> AuthModeSecure then True
      else case du_LastAuthenticatedAt user of
        None \<Rightarrow> False
      | Some t \<Rightarrow> aclock w - t \<le> cf_LastAuthenticatedAtThreshold srv)"

text \<open>One of the scopes is enough.\<close>

definition CheckUserScopes :: "AuthConfig \<Rightarrow> User \<Rightarrow> bool" where
  "CheckUserScopes cfg user =
     (if ac_Scopes cfg = [] then True
      else if du_Scopes user = [] then False
      else list_ex (\<lambda>scope. scope \<in> set (du_Scopes user)) (ac_Scopes cfg))"

text \<open>What the middleware demands of a user, known before or from the token.\<close>

definition check_user :: "AuthServer \<Rightarrow> AuthConfig \<Rightarrow> User \<Rightarrow> accounts \<Rightarrow> fail option" where
  "check_user srv cfg user w =
     (if \<not> CheckLastAuthenticatedAt srv cfg user w then Some ErrUnauthorizedLastAuthenticatedAtExceeded
      else if \<not> CheckUserScopes cfg user then Some ErrForbiddenMissingScopes else None)"

definition EnrichContextWithCredentials :: "request \<Rightarrow> AuthResult \<Rightarrow> request" where
  "EnrichContextWithCredentials c res = c\<lparr>rq_user := Some (ar_User res), rq_token := Some (ar_Token res)\<rparr>"

text \<open>The request that is passed on, or the error.\<close>

definition with_token :: "AuthServer \<Rightarrow> AuthConfig \<Rightarrow> request \<Rightarrow> string \<Rightarrow> accounts \<Rightarrow> (accounts, request) ares" where
  "with_token srv cfg c token w =
     (case ac_TokenValidator cfg token w of
        (Inl f, w) \<Rightarrow>
          if fail_panics f then (Inl f, w)
          else if root_cause f = ErrAuthTokenValidationFailed
          then (if ac_Mode cfg = AuthModeTry then (Inr c, w) else (Inl (failure_error (ac_FailureMode cfg)), w))
          else (Inl ErrInternalServerError, w)
      | (Inr res, w) \<Rightarrow>
          let user = ar_User res
          in if (case ar_ValidUntil res of None \<Rightarrow> False | Some t \<Rightarrow> aclock w > t)
             then (if ac_Mode cfg = AuthModeTry then (Inr c, w) else (Inl (failure_error (ac_FailureMode cfg)), w))
             else if \<not> du_IsActive user then (Inl ErrForbiddenUserDeactivated, w)
             else (case check_user srv cfg user w of
                 Some f \<Rightarrow> (Inl f, w)
               | None \<Rightarrow> (Inr (EnrichContextWithCredentials c res), w)))"

definition authorize :: "AuthServer \<Rightarrow> AuthConfig \<Rightarrow> request \<Rightarrow> accounts \<Rightarrow> (accounts, request) ares" where
  "authorize srv cfg c w =
     (let mode = ac_Mode cfg in
      if mode = AuthModeNone then (Inr c, w)
      else if ac_Skipper cfg c then (Inr c, w)
      else case rq_user c of
        Some user \<Rightarrow> (case check_user srv cfg user w of Some f \<Rightarrow> (Inl f, w) | None \<Rightarrow> (Inr c, w))
      | None \<Rightarrow>
          (let (token, found) = Extract (ac_TokenSource cfg) c (ac_TokenSourceKey cfg) (ac_Scheme cfg)
           in if token = []
              then (if mode = AuthModeRequired \<or> mode = AuthModeSecure \<or> found \<and> mode = AuthModeOptional
                    then (Inl (failure_error (ac_FailureMode cfg)), w) else (Inr c, w))
              else if \<not> ac_FormatValidator cfg token
              then (if mode = AuthModeRequired \<or> mode = AuthModeSecure \<or> mode = AuthModeOptional
                    then (Inl ErrBadRequestMalformedToken, w) else (Inr c, w))
              else with_token srv cfg c token w))"

definition AuthWithConfig ::
  "AuthServer \<Rightarrow> AuthConfig \<Rightarrow> (request \<Rightarrow> accounts \<Rightarrow> (accounts, 'r) ares) \<Rightarrow> request \<Rightarrow> accounts \<Rightarrow> (accounts, 'r) ares" where
  "AuthWithConfig srv cfg next c w = and_then (authorize srv cfg c w) next"

definition DefaultAuthConfig :: "(string \<Rightarrow> bool) \<Rightarrow> AuthConfig" where
  "DefaultAuthConfig is_uuid4 =
     \<lparr>ac_Mode = AuthModeRequired, ac_FailureMode = AuthFailureModeUnauthorized,
      ac_TokenSource = AuthTokenSourceHeader, ac_TokenSourceKey = ''Authorization'', ac_Scheme = ''Bearer'',
      ac_Skipper = (\<lambda>_. False), ac_FormatValidator = is_uuid4,
      ac_TokenValidator = DefaultAuthTokenValidator, ac_Scopes = [''app'']\<rparr>"

section \<open>The router's groups (router/router.go)\<close>

definition public_auth_paths :: "string list" where
  "public_auth_paths = map ((@) ''/api/v1/auth/'')
     [''forgot-password'', ''forgot-password/complete'', ''login'', ''refresh'', ''register'', ''register/:registrationToken'']"

text \<open>The accounts' group names no scopes.\<close>

definition APIV1Auth_config :: "(string \<Rightarrow> bool) \<Rightarrow> AuthConfig" where
  "APIV1Auth_config is_uuid4 = (DefaultAuthConfig is_uuid4)
     \<lparr>ac_Skipper := (\<lambda>c. rq_path c \<in> set public_auth_paths), ac_Scopes := []\<rparr>"

text \<open>The wallet's handlers and those of push tokens stand behind \<open>Auth(s)\<close>.\<close>

definition APIV1MPC ::
  "AuthServer \<Rightarrow> (string \<Rightarrow> bool) \<Rightarrow> ('s \<Rightarrow> 'r reply \<times> 's) \<Rightarrow> request \<Rightarrow> accounts \<times> 's
     \<Rightarrow> (fail + 'r reply) \<times> accounts \<times> 's" where
  "APIV1MPC srv is_uuid4 handler c ws =
     (case authorize srv (DefaultAuthConfig is_uuid4) c (fst ws) of
        (Inl f, w) \<Rightarrow> (Inl f, w, snd ws)
      | (Inr _, w) \<Rightarrow> let (r, s) = handler (snd ws) in (Inr r, w, s))"

end
