(* ===== verification/AuthHandlers.thy ===== *)
theory AuthHandlers
  imports AuthWeb
begin

text \<open>
  The handlers of accounts and push tokens (\<open>internal/api/handlers/auth\<close>,
  \<open>handlers/push\<close>) with their payloads and responses, and the two mails of
  \<open>internal/mailer/mailer.go\<close>. A handler returns an error of its service as it is, or a
  reply; the handlers that send mail also return the mails handed to the transport.
  The checks on texts are parameters like those of theory \<open>Api\<close>; the rendered templates,
  the links built with \<open>net/url\<close> and the mail transport are parameters as well.
\<close>

section \<open>Payloads and responses (internal/types)\<close>

record form_lib =
  fl_api :: api_lib
  va_MinLength :: "string \<Rightarrow> string \<Rightarrow> int \<Rightarrow> verr option"
  va_MaxLength :: "string \<Rightarrow> string \<Rightarrow> int \<Rightarrow> verr option"
  va_Format :: "string \<Rightarrow> string \<Rightarrow> string \<Rightarrow> verr option"  \<comment> \<open>name, format, value\<close>

text \<open>\<open>if err := check1; err != nil { return err } ...\<close>\<close>

fun first_error :: "verr option list \<Rightarrow> verr option" where
  "first_error [] = None"
| "first_error (None # cs) = first_error cs"
| "first_error (Some e # cs) = Some e"

definition text_within :: "form_lib \<Rightarrow> string \<Rightarrow> string option \<Rightarrow> int \<Rightarrow> int \<Rightarrow> verr option" where
  "text_within l name v lo hi =
     required (fl_api l) name v (\<lambda>s. first_error [va_MinLength l name s lo, va_MaxLength l name s hi])"

definition email_within :: "form_lib \<Rightarrow> string \<Rightarrow> string option \<Rightarrow> verr option" where
  "email_within l name v =
     required (fl_api l) name v
       (\<lambda>s. first_error [va_MinLength l name s 1, va_MaxLength l name s 255, va_Format l name ''email'' s])"

definition uuid4_text :: "form_lib \<Rightarrow> string \<Rightarrow> string option \<Rightarrow> verr option" where
  "uuid4_text l name v = required (fl_api l) name v (va_Format l name ''uuid4'')"

record PostLoginPayload =
  lp_Password :: "string option"
  lp_Username :: "string option"

definition login_Validate :: "form_lib \<Rightarrow> PostLoginPayload \<Rightarrow> verr option" where
  "login_Validate l m = composite [text_within l ''password'' (lp_Password m) 1 500, email_within l ''username'' (lp_Username m)]"

record PostRegisterPayload =
  rp_Password :: "string option"
  rp_Username :: "string option"

definition register_Validate :: "form_lib \<Rightarrow> PostRegisterPayload \<Rightarrow> verr option" where
  "register_Validate l m = composite [text_within l ''password'' (rp_Password m) 1 500, email_within l ''username'' (rp_Username m)]"

record PostRefreshPayload =
  fp_RefreshToken :: "string option"

definition refresh_Validate :: "form_lib \<Rightarrow> PostRefreshPayload \<Rightarrow> verr option" where
  "refresh_Validate l m = composite [uuid4_text l ''refresh_token'' (fp_RefreshToken m)]"

record PostLogoutPayload =
  op_RefreshToken :: string

definition logout_Validate :: "form_lib \<Rightarrow> PostLogoutPayload \<Rightarrow> verr option" where
  "logout_Validate l m =
     composite [if op_RefreshToken m = [] then None else va_Format l ''refresh_token'' ''uuid4'' (op_RefreshToken m)]"

record PostChangePasswordPayload =
  cpw_Current :: "string option"
  cpw_New :: "string option"

definition change_password_Validate :: "form_lib \<Rightarrow> PostChangePasswordPayload \<Rightarrow> verr option" where
  "change_password_Validate l m =
     composite [text_within l ''currentPassword'' (cpw_Current m) 1 500, text_within l ''newPassword'' (cpw_New m) 1 500]"

record PostForgotPasswordPayload =
  fw_Username :: "string option"

definition forgot_password_Validate :: "form_lib \<Rightarrow> PostForgotPasswordPayload \<Rightarrow> verr option" where
  "forgot_password_Validate l m = composite [email_within l ''username'' (fw_Username m)]"

record PostForgotPasswordCompletePayload =
  fc_Password :: "string option"
  fc_Token :: "string option"

definition forgot_complete_Validate :: "form_lib \<Rightarrow> PostForgotPasswordCompletePayload \<Rightarrow> verr option" where
  "forgot_complete_Validate l m = composite [text_within l ''password'' (fc_Password m) 1 500, uuid4_text l ''token'' (fc_Token m)]"

record DeleteUserAccountPayload =
  da_CurrentPassword :: "string option"

definition delete_account_Validate :: "form_lib \<Rightarrow> DeleteUserAccountPayload \<Rightarrow> verr option" where
  "delete_account_Validate l m = composite [text_within l ''currentPassword'' (da_CurrentPassword m) 1 500]"

record PutUpdatePushTokenPayload =
  pt_NewToken :: "string option"
  pt_OldToken :: "string option"
  pt_Provider :: "string option"

definition push_token_Validate :: "form_lib \<Rightarrow> PutUpdatePushTokenPayload \<Rightarrow> verr option" where
  "push_token_Validate l m =
     composite
       [required (fl_api l) ''newToken'' (pt_NewToken m) (\<lambda>s. va_MaxLength l ''newToken'' s 500),
        (case pt_OldToken m of None \<Rightarrow> None | Some s \<Rightarrow> va_MaxLength l ''oldToken'' s 500),
        required (fl_api l) ''provider'' (pt_Provider m) (\<lambda>s. va_MaxLength l ''provider'' s 500)]"

record PostLoginResponse =
  lo_AccessToken :: "string option"
  lo_ExpiresIn :: "int option"
  lo_RefreshToken :: "string option"
  lo_TokenType :: "string option"

definition login_response_Validate :: "form_lib \<Rightarrow> PostLoginResponse \<Rightarrow> verr option" where
  "login_response_Validate l m =
     composite [uuid4_text l ''access_token'' (lo_AccessToken m), present (fl_api l) ''expires_in'' (lo_ExpiresIn m),
       uuid4_text l ''refresh_token'' (lo_RefreshToken m), present (fl_api l) ''token_type'' (lo_TokenType m)]"

definition login_ToTypes :: "LoginResult \<Rightarrow> PostLoginResponse" where
  "login_ToTypes r =
     \<lparr>lo_AccessToken = Some (lr_AccessToken r), lo_ExpiresIn = Some (lr_ExpiresIn r),
      lo_RefreshToken = Some (lr_RefreshToken r), lo_TokenType = Some (lr_TokenType r)\<rparr>"

record RegisterResponse =
  re_RequiresConfirmation :: "bool option"

definition register_response_Validate :: "form_lib \<Rightarrow> RegisterResponse \<Rightarrow> verr option" where
  "register_response_Validate l m = composite [present (fl_api l) ''requiresConfirmation'' (re_RequiresConfirmation m)]"

record GetUserInfoResponse =
  gu_Email :: string
  gu_Scopes :: "string list"
  gu_Sub :: "string option"
  gu_UpdatedAt :: "int option"

fun scopes_Validate :: "form_lib \<Rightarrow> nat \<Rightarrow> string list \<Rightarrow> verr option" where
  "scopes_Validate l i [] = None"
| "scopes_Validate l i (s # ss) =
     (case va_EnumCase (fl_api l) (''scopes.'' @ nat_digits i) s [''app'', ''cms''] of
        Some e \<Rightarrow> Some e | None \<Rightarrow> scopes_Validate l (Suc i) ss)"

definition user_info_Validate :: "form_lib \<Rightarrow> GetUserInfoResponse \<Rightarrow> verr option" where
  "user_info_Validate l m =
     composite
       [if gu_Email m = [] then None
        else first_error [va_MaxLength l ''email'' (gu_Email m) 255, va_Format l ''email'' ''email'' (gu_Email m)],
        scopes_Validate l 0 (gu_Scopes m), present (fl_api l) ''sub'' (gu_Sub m),
        present (fl_api l) ''updated_at'' (gu_UpdatedAt m)]"

text \<open>The time stamp is in seconds.\<close>

definition user_ToTypes :: "User \<Rightarrow> GetUserInfoResponse" where
  "user_ToTypes u =
     \<lparr>gu_Email = (case du_Username u of None \<Rightarrow> [] | Some n \<Rightarrow> n), gu_Scopes = du_Scopes u,
      gu_Sub = Some (du_ID u), gu_UpdatedAt = Some (LastUpdatedAt u div 1000000)\<rparr>"

section \<open>Mails (mailer/mailer.go)\<close>

record mail =
  ma_To :: string
  ma_Subject :: string
  ma_HTML :: string

text \<open>\<open>ml_Templates\<close> renders a template with a link.\<close>

record mailer =
  ml_Templates :: "string \<Rightarrow> (string \<Rightarrow> string + string) option"
  ml_Send :: bool
  ml_Transport :: "mail \<Rightarrow> string option"

definition ErrEmailTemplateNotFound :: fail where "ErrEmailTemplateNotFound = GoErr ''email template not found''"

definition send_template :: "mailer \<Rightarrow> string \<Rightarrow> string \<Rightarrow> string \<Rightarrow> string \<Rightarrow> string \<Rightarrow> string \<Rightarrow> fail option \<times> mail list" where
  "send_template m name subject render_text send_text to link =
     (case ml_Templates m name of
        None \<Rightarrow> (Some ErrEmailTemplateNotFound, [])
      | Some tmpl \<Rightarrow> (case tmpl link of
          Inl e \<Rightarrow> (Some (WrapErr render_text (GoErr e)), [])
        | Inr html \<Rightarrow>
            let mail = \<lparr>ma_To = to, ma_Subject = subject, ma_HTML = html\<rparr>
            in if \<not> ml_Send m then (None, [])
               else (case ml_Transport m mail of
                   Some e \<Rightarrow> (Some (WrapErr send_text (GoErr e)), [mail])
                 | None \<Rightarrow> (None, [mail]))))"

definition SendPasswordReset :: "mailer \<Rightarrow> string \<Rightarrow> string \<Rightarrow> fail option \<times> mail list" where
  "SendPasswordReset m = send_template m ''password_reset'' ''Password reset''
     ''failed to execute password reset email template'' ''failed to send password reset email''"

definition SendAccountConfirmation :: "mailer \<Rightarrow> string \<Rightarrow> string \<Rightarrow> fail option \<times> mail list" where
  "SendAccountConfirmation m = send_template m ''account_confirmation'' ''Account confirmation''
     ''failed to execute account confirmation email template'' ''failed to send account confirmation email''"

section \<open>Handlers (handlers/auth, handlers/push)\<close>

record account_server =
  as_env :: auth_env
  as_form :: form_lib
  as_mailer :: mailer
  as_reset_link :: "string \<Rightarrow> fail + string"
  as_confirm_link :: "string \<Rightarrow> fail + string"

text \<open>
  \<open>if err := BindAndValidateBody(c, &body); err != nil { return err }\<close>, and a service call
  whose error is returned.
\<close>

definition bound_body ::
  "err + 'b \<Rightarrow> ('b \<Rightarrow> verr option) \<Rightarrow> ('b \<Rightarrow> accounts \<Rightarrow> (accounts, 'r reply) ares) \<Rightarrow> accounts \<Rightarrow> (accounts, 'r reply) ares" where
  "bound_body bound Validate k w = (case BindAndValidateBody bound Validate of Inl r \<Rightarrow> (Inr r, w) | Inr b \<Rightarrow> k b w)"

definition login_reply :: "account_server \<Rightarrow> LoginResult \<Rightarrow> PostLoginResponse reply" where
  "login_reply srv r = ValidateAndReturn 200 (login_response_Validate (as_form srv)) (login_ToTypes r)"

definition string_value :: "account_server \<Rightarrow> string option \<Rightarrow> string" where
  "string_value srv = sw_StringValue (fl_api (as_form srv))"

definition postLoginHandler :: "account_server \<Rightarrow> err + PostLoginPayload \<Rightarrow> accounts \<Rightarrow> (accounts, PostLoginResponse reply) ares" where
  "postLoginHandler srv bound = bound_body bound (login_Validate (as_form srv)) (\<lambda>body w.
     case lp_Username body of
       None \<Rightarrow> (Inl nil_pointer, w)
     | Some username \<Rightarrow>
         and_then (Login (as_env srv) username (string_value srv (lp_Password body)) w)
           (\<lambda>r w. (Inr (login_reply srv r), w)))"

definition postRefreshHandler :: "account_server \<Rightarrow> err + PostRefreshPayload \<Rightarrow> accounts \<Rightarrow> (accounts, PostLoginResponse reply) ares" where
  "postRefreshHandler srv bound = bound_body bound (refresh_Validate (as_form srv)) (\<lambda>body w.
     case fp_RefreshToken body of
       None \<Rightarrow> (Inl nil_pointer, w)
     | Some token \<Rightarrow>
         and_then (Refresh (ae_config (as_env srv)) token w) (\<lambda>r w. (Inr (login_reply srv r), w)))"

definition postLogoutHandler ::
  "account_server \<Rightarrow> request \<Rightarrow> err + PostLogoutPayload \<Rightarrow> accounts \<Rightarrow> (accounts, unit reply) ares" where
  "postLogoutHandler srv c bound = bound_body bound (logout_Validate (as_form srv)) (\<lambda>body w.
     case rq_token c of
       None \<Rightarrow> (Inl nil_pointer, w)
     | Some access \<Rightarrow>
         and_then (Logout access (if op_RefreshToken body = [] then None else Some (op_RefreshToken body)) w)
           (\<lambda>_ w. (Inr (Reply 204 ()), w)))"

definition postChangePasswordHandler ::
  "account_server \<Rightarrow> (nat \<Rightarrow> err + byte list) \<Rightarrow> request \<Rightarrow> err + PostChangePasswordPayload \<Rightarrow> accounts
     \<Rightarrow> (accounts, PostLoginResponse reply) ares" where
  "postChangePasswordHandler srv rand c bound = bound_body bound (change_password_Validate (as_form srv)) (\<lambda>body w.
     case rq_user c of
       None \<Rightarrow> (Inl nil_pointer, w)
     | Some user \<Rightarrow>
         and_then (UpdatePassword (as_env srv) rand user (string_value srv (cpw_Current body)) False
             (string_value srv (cpw_New body)) w)
           (\<lambda>r w. (Inr (login_reply srv r), w)))"

text \<open>No token means success as well, so that nobody learns which users exist.\<close>

definition postForgotPasswordHandler ::
  "account_server \<Rightarrow> err + PostForgotPasswordPayload \<Rightarrow> accounts \<Rightarrow> ((fail + unit reply) \<times> mail list) \<times> accounts" where
  "postForgotPasswordHandler srv bound w =
     (case BindAndValidateBody bound (forgot_password_Validate (as_form srv)) of
        Inl r \<Rightarrow> ((Inr r, []), w)
      | Inr body \<Rightarrow>
          (case fw_Username body of
             None \<Rightarrow> ((Inl nil_pointer, []), w)
           | Some username \<Rightarrow>
               (case InitPasswordReset (ae_config (as_env srv)) username w of
                  (Inl f, w) \<Rightarrow> ((Inl f, []), w)
                | (Inr None, w) \<Rightarrow> ((Inr (Reply 204 ()), []), w)
                | (Inr (Some token), w) \<Rightarrow>
                    (case as_reset_link srv token of
                       Inl f \<Rightarrow> ((Inl f, []), w)
                     | Inr link \<Rightarrow>
                         (case SendPasswordReset (as_mailer srv) (ToUsernameFormat username) link of
                            (Some f, ms) \<Rightarrow> ((Inl f, ms), w)
                          | (None, ms) \<Rightarrow> ((Inr (Reply 204 ()), ms), w))))))"

definition postForgotPasswordCompleteHandler ::
  "account_server \<Rightarrow> (nat \<Rightarrow> err + byte list) \<Rightarrow> err + PostForgotPasswordCompletePayload \<Rightarrow> accounts
     \<Rightarrow> (accounts, PostLoginResponse reply) ares" where
  "postForgotPasswordCompleteHandler srv rand bound = bound_body bound (forgot_complete_Validate (as_form srv)) (\<lambda>body w.
     case fc_Token body of
       None \<Rightarrow> (Inl nil_pointer, w)
     | Some token \<Rightarrow>
         and_then (ResetPassword (as_env srv) rand token (string_value srv (fc_Password body)) w)
           (\<lambda>r w. (Inr (login_reply srv r), w)))"

datatype register_reply = LoggedIn PostLoginResponse | Registered RegisterResponse

fun map_reply :: "('r \<Rightarrow> 'q) \<Rightarrow> 'r reply \<Rightarrow> 'q reply" where
  "map_reply f (Reply code v) = Reply code (f v)"
| "map_reply f (HTTPError code t) = HTTPError code t"
| "map_reply f (HTTPValidationError code ds) = HTTPValidationError code ds"
| "map_reply f (Failed e) = Failed e"

definition postRegisterHandler ::
  "account_server \<Rightarrow> (nat \<Rightarrow> err + byte list) \<Rightarrow> err + PostRegisterPayload \<Rightarrow> accounts
     \<Rightarrow> ((fail + register_reply reply) \<times> mail list) \<times> accounts" where
  "postRegisterHandler srv rand bound w =
     (case BindAndValidateBody bound (register_Validate (as_form srv)) of
        Inl r \<Rightarrow> ((Inr r, []), w)
      | Inr body \<Rightarrow>
          (case rp_Username body of
             None \<Rightarrow> ((Inl nil_pointer, []), w)
           | Some username \<Rightarrow>
               let password = string_value srv (rp_Password body);
                   accepted = map_reply Registered (ValidateAndReturn 202 (register_response_Validate (as_form srv))
                      \<lparr>re_RequiresConfirmation = Some True\<rparr>)
               in case Register (as_env srv) rand username password w of
                    (Inl f, w) \<Rightarrow> ((Inl f, []), w)
                  | (Inr result, w) \<Rightarrow>
                      if \<not> rr_RequiresConfirmation result
                      then (case Login (as_env srv) username password w of
                          (Inl f, w) \<Rightarrow> ((Inl f, []), w)
                        | (Inr r, w) \<Rightarrow> ((Inr (map_reply LoggedIn (login_reply srv r)), []), w))
                      else (case rr_ConfirmationToken result of
                          None \<Rightarrow> ((Inr accepted, []), w)
                        | Some token \<Rightarrow>
                            (case as_confirm_link srv token of
                               Inl f \<Rightarrow> ((Inl f, []), w)
                             | Inr link \<Rightarrow>
                                 (case SendAccountConfirmation (as_mailer srv) (ToUsernameFormat username) link of
                                    (Some f, ms) \<Rightarrow> ((Inl f, ms), w)
                                  | (None, ms) \<Rightarrow> ((Inr accepted, ms), w))))))"

text \<open>Every error of the service becomes a 401.\<close>

definition postCompleteRegisterHandler ::
  "account_server \<Rightarrow> string \<Rightarrow> accounts \<Rightarrow> (accounts, PostLoginResponse reply) ares" where
  "postCompleteRegisterHandler srv registrationToken w =
     (case validatePayload (composite [va_Format (as_form srv) ''registrationToken'' ''uuid4'' registrationToken]) of
        Some r \<Rightarrow> (Inr r, w)
      | None \<Rightarrow>
          or_else (CompleteRegister (ae_config (as_env srv)) registrationToken w) ErrUnauthorized
            (\<lambda>r w. (Inr (login_reply srv r), w)))"

definition deleteUserAccountHandler ::
  "account_server \<Rightarrow> request \<Rightarrow> err + DeleteUserAccountPayload \<Rightarrow> accounts \<Rightarrow> (accounts, unit reply) ares" where
  "deleteUserAccountHandler srv c bound = bound_body bound (delete_account_Validate (as_form srv)) (\<lambda>body w.
     case rq_user c of
       None \<Rightarrow> (Inl nil_pointer, w)
     | Some user \<Rightarrow>
         and_then (DeleteUserAccount (as_env srv) user (string_value srv (da_CurrentPassword body)) w)
           (\<lambda>_ w. (Inr (Reply 204 ()), w)))"

definition getUserInfoHandler :: "account_server \<Rightarrow> request \<Rightarrow> accounts \<Rightarrow> (accounts, GetUserInfoResponse reply) ares" where
  "getUserInfoHandler srv c w =
     (case rq_user c of
        None \<Rightarrow> (Inl nil_pointer, w)
      | Some user \<Rightarrow>
          (case GetAppUserProfile (du_ID user) w of
             (Inl f, w) \<Rightarrow>
               if root_cause f = ErrNotFound
               then (Inr (ValidateAndReturn 200 (user_info_Validate (as_form srv)) (user_ToTypes (user\<lparr>du_Profile := None\<rparr>))), w)
               else (Inl f, w)
           | (Inr p, w) \<Rightarrow>
               (Inr (ValidateAndReturn 200 (user_info_Validate (as_form srv)) (user_ToTypes (user\<lparr>du_Profile := Some p\<rparr>))), w)))"

definition putUpdatePushTokenHandler ::
  "account_server \<Rightarrow> request \<Rightarrow> err + PutUpdatePushTokenPayload \<Rightarrow> accounts \<Rightarrow> (accounts, unit reply) ares" where
  "putUpdatePushTokenHandler srv c bound = bound_body bound (push_token_Validate (as_form srv)) (\<lambda>body w.
     case rq_user c of
       None \<Rightarrow> (Inl nil_pointer, w)
     | Some user \<Rightarrow>
         and_then (UpdatePushToken user (string_value srv (pt_NewToken body)) (string_value srv (pt_Provider body))
             (pt_OldToken body) w)
           (\<lambda>_ w. (Inr (Reply 200 ()), w)))"

end
