(* ===== verification/AccountRuns.thy ===== *)
theory AccountRuns
  imports AccountFacts AuthHandlers
begin

text \<open>
  The operations on accounts in closed form where the database does not fail: which rows
  they read, and what their transactions leave. \<open>ready\<close> is a state of such a run: no
  fault to come, nothing pending, the schema's constraints, and ids that are new when
  they are generated.
\<close>

section \<open>Statements that do not fail\<close>

definition aquiet :: "accounts \<Rightarrow> bool" where
  "aquiet w \<longleftrightarrow> (\<forall>n. afault w n = None)"

definition used_ids :: "account_db \<Rightarrow> string set" where
  "used_ids db = us_ID ` set (users_t db) \<union> tt_Token ` set (access_t db) \<union> rt_Token ` set (refresh_t db)
     \<union> tt_Token ` set (reset_t db) \<union> tt_Token ` set (confirm_t db) \<union> pu_ID ` set (push_t db)"

definition fresh_ids :: "accounts \<Rightarrow> bool" where
  "fresh_ids w \<longleftrightarrow> inj (auuid w) \<and> (\<forall>n. auuid_in w (auuid w n) = Some (auuid w n))
     \<and> (\<forall>n \<ge> auuid_n w. auuid w n \<notin> used_ids (adb w))"

definition ready :: "accounts \<Rightarrow> bool" where
  "ready w \<longleftrightarrow> aquiet w \<and> apending w = id \<and> schema_ok (adb w) \<and> fresh_ids w"

lemma aquiet_simps [simp]:
  "aquiet (w\<lparr>adb := a\<rparr>) = aquiet w" "aquiet (w\<lparr>apending := b\<rparr>) = aquiet w" "aquiet (w\<lparr>aclock := c\<rparr>) = aquiet w"
  "aquiet (w\<lparr>acalls := d\<rparr>) = aquiet w" "aquiet (w\<lparr>auuid_n := e\<rparr>) = aquiet w"
  by (simp_all add: aquiet_def)

lemma sql_quiet:
  assumes "aquiet w"
  shows "sql e stmt w = (case stmt (view e w) of
      Inl f \<Rightarrow> (Inl f, w\<lparr>acalls := Suc (acalls w)\<rparr>)
    | Inr (x, g) \<Rightarrow> (Inr x, store e g (w\<lparr>acalls := Suc (acalls w)\<rparr>)))"
  using assms by (simp add: sql_def aquiet_def Let_def split: sum.split)

lemma read_quiet: "aquiet w \<Longrightarrow> sql_read e q w = (Inr (q (view e w)), w\<lparr>acalls := Suc (acalls w)\<rparr>)"
  by (cases e) (simp_all add: sql_read_def sql_quiet store_def)

lemma one_quiet: "aquiet w \<Longrightarrow> One e q w = (Inr (pick_row w (q (view e w))), w\<lparr>acalls := Suc (acalls w)\<rparr>)"
  by (simp add: One_def read_quiet)

lemma exists_quiet: "aquiet w \<Longrightarrow> Exists e q w = (Inr (q (view e w) \<noteq> []), w\<lparr>acalls := Suc (acalls w)\<rparr>)"
  by (simp add: Exists_def read_quiet)

lemma write_tx_quiet:
  "aquiet w \<Longrightarrow> sql_write Tx g w = (Inr (), w\<lparr>acalls := Suc (acalls w), apending := g \<circ> apending w\<rparr>)"
  by (simp add: sql_write_def sql_quiet store_def)

lemma insert_tx_quiet:
  assumes "aquiet w" and "ok (view Tx w)"
  shows "sql_insert Tx table ok put w = (Inr (), w\<lparr>acalls := Suc (acalls w), apending := put \<circ> apending w\<rparr>)"
  using assms by (simp add: sql_insert_def sql_quiet store_def)

lemma insert_pool_quiet:
  assumes "aquiet w" and "ok (adb w)"
  shows "sql_insert Pool table ok put w = (Inr (), w\<lparr>acalls := Suc (acalls w), adb := put (adb w)\<rparr>)"
  using assms by (simp add: sql_insert_def sql_quiet store_def view_def)

lemma transaction_quiet:
  assumes "aquiet w" and "apending w = id"
    and "h (w\<lparr>acalls := Suc (acalls w)\<rparr>) = (r, w1)" and "aquiet w1"
  shows "WithTransaction h w = (case r of
      Inl f \<Rightarrow> (Inl (if fail_panics f then f else WrapErr ''failed to execute transaction'' f), rollback w1)
    | Inr x \<Rightarrow> (Inr x, commit (w1\<lparr>acalls := Suc (acalls w1)\<rparr>)))"
proof -
  have "w\<lparr>acalls := Suc (acalls w), apending := id\<rparr> = w\<lparr>acalls := Suc (acalls w)\<rparr>"
    using assms(2) by simp
  then show ?thesis
    using assms(1,3,4) by (simp add: WithTransaction_def read_quiet aquiet_def split: sum.split)
qed

section \<open>Rows found by their key\<close>

lemma filter_key: "tbl_ok kf rs \<Longrightarrow> filter (\<lambda>r. kf r = k) rs = (case tbl_get kf k rs of None \<Rightarrow> [] | Some r \<Rightarrow> [r])"
proof (induction rs)
  case (Cons r rs)
  then have "k = kf r \<Longrightarrow> tbl_get kf k rs = None"
    by (simp add: tbl_ok_def tbl_get_None_iff)
  with Cons show ?case
    by (cases "kf r = k") (simp_all add: tbl_ok_def tbl_get_Cons)
qed simp

lemma pick_simps [simp]: "pick_row w [] = None" "pick_row w [r] = Some r"
  by (simp_all add: pick_row_def)

lemma pick_key:
  assumes "tbl_ok kf rs"
  shows "pick_row w (filter (\<lambda>r. kf r = k) rs) = tbl_get kf k rs"
  by (simp add: filter_key [OF assms] split: option.split)

lemma token_quiet:
  assumes "aquiet w" and "tbl_ok kf (rows (adb w))"
  shows "by_token Pool t (\<lambda>u db. filter (\<lambda>r. kf r = u) (rows db)) w
    = (case auuid_in w t of
         None \<Rightarrow> Inl (GoErr ''invalid input syntax for type uuid'')
       | Some u \<Rightarrow> Inr (tbl_get kf u (rows (adb w))), w\<lparr>acalls := Suc (acalls w)\<rparr>)"
  using assms(1) by (simp add: by_token_def sql_quiet view_def store_def pick_key [OF assms(2)] split: option.split)

lemma with_user_quiet:
  assumes "aquiet w"
  shows "with_user Pool f (Inr row, w) = (case row of
      None \<Rightarrow> (Inr None, w)
    | Some t \<Rightarrow> (Inr (Some (t, get_user (adb w) (f t))), w\<lparr>acalls := Suc (acalls w)\<rparr>))"
  using assms by (simp add: with_user_def read_quiet view_def split: option.split)

lemma has_user_iff: "has_user uid db \<longleftrightarrow> get_user db uid \<noteq> None"
  by (simp add: has_user_def get_user_def tbl_get_None_iff)

text \<open>A name belongs to one user at most.\<close>

definition named_user :: "account_db \<Rightarrow> string \<Rightarrow> UserRow option" where
  "named_user db n = (case users_named n db of [] \<Rightarrow> None | u # _ \<Rightarrow> Some u)"

lemma users_named_unique:
  assumes "schema_ok db"
  shows "users_named n db = (case named_user db n of None \<Rightarrow> [] | Some u \<Rightarrow> [u])"
proof (cases "users_named n db")
  case (Cons u us)
  have tables: "tbl_ok us_ID (users_t db)" "names_ok (users_t db)"
    using assms by (simp_all add: schema_ok_def)
  have ids: "distinct (map us_ID (u # us))"
    using tables(1) unfolding tbl_ok_def Cons [symmetric] users_named_def by (rule distinct_map_filter)
  have same: "us_ID v = us_ID u" if "v \<in> set us" for v
  proof -
    have "v \<in> set (users_named n db)" "u \<in> set (users_named n db)" using that Cons by simp_all
    then have "v \<in> set (users_t db)" "u \<in> set (users_t db)" "us_Username v = Some n" "us_Username u = Some n"
      by (simp_all add: users_named_def)
    with tables(2) show ?thesis unfolding names_ok_def by (metis option.distinct(1))
  qed
  have "us = []"
  proof (cases us)
    case (Cons v vs)
    then show ?thesis using ids same [of v] by simp
  qed
  with Cons show ?thesis by (simp add: named_user_def)
qed (simp add: named_user_def)

lemma named_user_SomeD:
  assumes "schema_ok db" and "named_user db n = Some u"
  shows "u \<in> set (users_t db)" and "us_Username u = Some n" and "get_user db (us_ID u) = Some u"
proof -
  have "u \<in> set (users_named n db)" using users_named_unique [OF assms(1), of n] assms(2) by simp
  then show "u \<in> set (users_t db)" "us_Username u = Some n" by (simp_all add: users_named_def)
  then show "get_user db (us_ID u) = Some u"
    using assms(1) by (simp add: get_user_def schema_ok_def tbl_get_if_ok)
qed

lemma pick_named:
  assumes "schema_ok db"
  shows "pick_row w (users_named n db) = named_user db n"
  by (simp add: users_named_unique [OF assms] split: option.split)

section \<open>Signing in\<close>

definition login_result :: "AuthServer \<Rightarrow> accounts \<Rightarrow> LoginResult" where
  "login_result cfg w =
     \<lparr>lr_UserID = [], lr_AccessToken = auuid w (auuid_n w), lr_ExpiresIn = go_div (cf_AccessTokenValidity cfg) 1000000,
      lr_RefreshToken = auuid w (Suc (auuid_n w)), lr_TokenType = ''bearer''\<rparr>"

definition signed_in :: "AuthServer \<Rightarrow> string \<Rightarrow> accounts \<Rightarrow> account_db \<Rightarrow> account_db" where
  "signed_in cfg uid w db =
     db\<lparr>access_t := access_t db @ [new_token (auuid w (auuid_n w)) (aclock w + cf_AccessTokenValidity cfg) uid w],
        refresh_t := refresh_t db @ [\<lparr>rt_Token = auuid w (Suc (auuid_n w)), rt_UserID = uid,
                                      rt_CreatedAt = aclock w, rt_UpdatedAt = aclock w\<rparr>],
        users_t := tbl_upd us_ID uid
          (\<lambda>u. u\<lparr>us_LastAuthenticatedAt := Some (aclock w), us_UpdatedAt := aclock w\<rparr>) (users_t db)\<rparr>"

definition signed_out :: "string \<Rightarrow> account_db \<Rightarrow> account_db" where
  "signed_out uid db = db\<lparr>access_t := tbl_del tt_UserID uid (access_t db), refresh_t := tbl_del rt_UserID uid (refresh_t db)\<rparr>"

lemma new_token_cong [simp]:
  "new_token i t uid (w\<lparr>adb := a\<rparr>) = new_token i t uid w" "new_token i t uid (w\<lparr>apending := b\<rparr>) = new_token i t uid w"
  "new_token i t uid (w\<lparr>acalls := c\<rparr>) = new_token i t uid w" "new_token i t uid (w\<lparr>auuid_n := d\<rparr>) = new_token i t uid w"
  by (simp_all add: new_token_def)

lemma authenticate_quiet:
  assumes "aquiet w" and "has_user (du_ID user) (view Tx w)"
    and "auuid w (auuid_n w) \<notin> tt_Token ` set (access_t (view Tx w))"
    and "auuid w (Suc (auuid_n w)) \<notin> rt_Token ` set (refresh_t (view Tx w))"
  shows "authenticateUser cfg Tx user ends w
    = (Inr (login_result cfg w),
       w\<lparr>acalls := acalls w + (if ends then 5 else 3), auuid_n := auuid_n w + 2,
         apending := signed_in cfg (du_ID user) w \<circ> (if ends then signed_out (du_ID user) else id) \<circ> apending w\<rparr>)"
proof -
  note ops = authenticateUser_def AccessTokens_DeleteByUser_def RefreshTokens_DeleteByUser_def AccessToken_Insert_def
    RefreshToken_Insert_def User_Update_def uuid_generate_v4_def Let_def
  have kept: "x \<notin> tt_Token ` set (tbl_del tt_UserID uid rs)" if "x \<notin> tt_Token ` set rs" for x uid rs
    using that by (auto simp: tbl_del_def)
  have kept': "x \<notin> rt_Token ` set (tbl_del rt_UserID uid rs)" if "x \<notin> rt_Token ` set rs" for x uid rs
    using that by (auto simp: tbl_del_def)
  show ?thesis
    using assms kept [OF assms(3)] kept' [OF assms(4)]
    by (cases ends)
      (simp_all add: ops write_tx_quiet insert_tx_quiet view_def login_result_def signed_in_def signed_out_def comp_def)
qed

lemma fresh_tokens:
  assumes "fresh_ids w" and "auuid_n w \<le> n"
  shows "auuid w n \<notin> us_ID ` set (users_t (adb w))" and "auuid w n \<notin> tt_Token ` set (access_t (adb w))"
    and "auuid w n \<notin> rt_Token ` set (refresh_t (adb w))" and "auuid w n \<notin> tt_Token ` set (reset_t (adb w))"
    and "auuid w n \<notin> tt_Token ` set (confirm_t (adb w))" and "auuid w n \<notin> pu_ID ` set (push_t (adb w))"
  using assms unfolding fresh_ids_def used_ids_def by blast+

lemma readyD:
  assumes "ready w"
  shows "aquiet w" and "apending w = id" and "schema_ok (adb w)" and "fresh_ids w"
  using assms by (simp_all add: ready_def)

text \<open>A transaction that signs a user in, after a change \<open>g\<close> of the tables.\<close>

lemma no_pending: "apending w = id \<Longrightarrow> w\<lparr>apending := id\<rparr> = w"
  by simp

lemma sign_in_transaction:
  assumes "aquiet w" and "apending w = id"
    and "\<And>v. v = w\<lparr>acalls := Suc (acalls w)\<rparr> \<Longrightarrow>
      h v = authenticateUser cfg Tx user ends (v\<lparr>acalls := acalls v + k, apending := g\<rparr>)"
    and "has_user (du_ID user) (g (adb w))"
    and "auuid w (auuid_n w) \<notin> tt_Token ` set (access_t (g (adb w)))"
    and "auuid w (Suc (auuid_n w)) \<notin> rt_Token ` set (refresh_t (g (adb w)))"
  shows "WithTransaction h w = (Inr (login_result cfg w),
      w\<lparr>acalls := acalls w + k + (if ends then 7 else 5), auuid_n := auuid_n w + 2,
        adb := signed_in cfg (du_ID user) w ((if ends then signed_out (du_ID user) else id) (g (adb w)))\<rparr>)"
proof -
  let ?v = "w\<lparr>acalls := Suc (acalls w)\<rparr>" and ?u = "w\<lparr>acalls := Suc (acalls w) + k, apending := g\<rparr>"
  have "h ?v = authenticateUser cfg Tx user ends ?u" by (simp add: assms(3))
  moreover have "signed_in cfg (du_ID user) ?u = signed_in cfg (du_ID user) w" "login_result cfg ?u = login_result cfg w"
    by (simp_all add: signed_in_def [abs_def] login_result_def)
  ultimately have run: "h ?v = (Inr (login_result cfg w), ?u\<lparr>acalls := acalls ?u + (if ends then 5 else 3), auuid_n := auuid_n w + 2,
      apending := signed_in cfg (du_ID user) w \<circ> (if ends then signed_out (du_ID user) else id) \<circ> g\<rparr>)"
    using authenticate_quiet [of ?u user cfg ends] assms by (simp add: view_def)
  show ?thesis
    by (subst transaction_quiet [where h = h, OF assms(1,2) run]) (simp_all add: assms(1,2) commit_def)
qed

lemma login_quiet:
  assumes "ready w"
  shows "Login env name password w =
    (let w1 = w\<lparr>acalls := Suc (acalls w)\<rparr> in
     case named_user (adb w) (ToUsernameFormat name) of
       None \<Rightarrow> (Inl ErrUnauthorized, w1)
     | Some u \<Rightarrow> if \<not> us_IsActive u then (Inl ErrForbiddenUserDeactivated, w1) else case us_Password u of
         None \<Rightarrow> (Inl ErrUnauthorized, w1)
       | Some stored \<Rightarrow> (case ComparePasswordAndHash (ae_IDKey env) password stored of
           Inl e \<Rightarrow> (Inl (if is_panic e then fail_of e else ErrUnauthorized), w1)
         | Inr match \<Rightarrow> if \<not> match then (Inl ErrUnauthorized, w1)
             else (Inr (login_result (ae_config env) w),
                   w\<lparr>acalls := acalls w + 6, auuid_n := auuid_n w + 2,
                     adb := signed_in (ae_config env) (us_ID u) w (adb w)\<rparr>)))"
proof -
  note w = readyD [OF assms]
  have find: "One Pool (users_named (ToUsernameFormat name)) w
      = (Inr (named_user (adb w) (ToUsernameFormat name)), w\<lparr>acalls := Suc (acalls w)\<rparr>)"
    using w by (simp add: one_quiet pick_named view_def)
  show ?thesis
  proof (cases "named_user (adb w) (ToUsernameFormat name)")
    case None
    then show ?thesis by (simp add: Login_def find)
  next
    case (Some u)
    let ?v = "w\<lparr>acalls := Suc (acalls w)\<rparr>"
    have user: "has_user (us_ID u) (adb w)"
      using named_user_SomeD [OF w(3) Some] by (simp add: has_user_iff)
    have "WithTransaction (authenticateUser (ae_config env) Tx (LocalUserToDTO u None) False) ?v
        = (Inr (login_result (ae_config env) w), w\<lparr>acalls := acalls w + 6, auuid_n := auuid_n w + 2,
             adb := signed_in (ae_config env) (us_ID u) w (adb w)\<rparr>)"
      using sign_in_transaction [where w = ?v and g = id and k = 0 and ends = False
          and cfg = "ae_config env" and h = "authenticateUser (ae_config env) Tx (LocalUserToDTO u None) False" and user = "LocalUserToDTO u None"]
        w user fresh_tokens [OF w(4)] no_pending [of "w\<lparr>acalls := Suc (Suc (acalls w))\<rparr>"]
      by (simp add: LocalUserToDTO_def signed_in_def login_result_def)
    then show ?thesis
      by (simp add: Login_def find Some hashed_def split: option.split sum.split)
  qed
qed

section \<open>States that stay ready\<close>

lemma view_Pool [simp]: "view Pool w = adb w" and view_Tx [simp]: "view Tx w = apending w (adb w)"
  by (simp_all add: view_def)

lemma ready_after:
  assumes "ready w" and "auuid_n w \<le> n" and "schema_ok db"
    and "used_ids db \<subseteq> used_ids (adb w) \<union> auuid w ` {auuid_n w ..< n}"
  shows "ready (w\<lparr>acalls := k, auuid_n := n, adb := db\<rparr>)"
proof -
  note w = readyD [OF assms(1)]
  have "auuid w m \<notin> used_ids db" if "m \<ge> n" for m
  proof -
    have "auuid w m \<notin> used_ids (adb w)" using w(4) assms(2) that by (simp add: fresh_ids_def)
    moreover have "auuid w m \<notin> auuid w ` {auuid_n w ..< n}"
      using w(4) that by (auto simp: fresh_ids_def dest: injD)
    ultimately show ?thesis using assms(4) by blast
  qed
  then show ?thesis using w assms(3) by (simp add: ready_def fresh_ids_def)
qed

lemma ready_clock [simp]: "ready (w\<lparr>aclock := t\<rparr>) = ready w" and ready_calls [simp]: "ready (w\<lparr>acalls := k\<rparr>) = ready w"
  by (simp_all add: ready_def fresh_ids_def)

lemma ready_settled: "ready w \<Longrightarrow> schema.settled w"
  by (simp add: ready_def schema.settled_def)

lemma schema_after: "account_step env w w' \<Longrightarrow> ready w \<Longrightarrow> schema_ok (adb w')"
  using schema.step_settled [OF _ _ HOL.refl, of env w w'] by (simp add: ready_def schema.settled_def)

lemma tbl_upd_ids [simp]: "us_ID ` set (tbl_upd us_ID k f rs) \<subseteq> us_ID ` set rs \<union> us_ID ` f ` set rs"
  by (auto simp: tbl_upd_def)

lemma used_signed_in:
  "used_ids (signed_in cfg uid w db) \<subseteq> used_ids db \<union> auuid w ` {auuid_n w ..< auuid_n w + 2}"
proof -
  have two: "{auuid_n w ..< auuid_n w + 2} = {auuid_n w, Suc (auuid_n w)}" by auto
  show ?thesis unfolding two by (auto simp: used_ids_def signed_in_def new_token_def tbl_upd_def)
qed

lemma used_mono:
  assumes "us_ID ` set (users_t db) \<subseteq> us_ID ` set (users_t db')" and "set (access_t db) \<subseteq> set (access_t db')"
    and "set (refresh_t db) \<subseteq> set (refresh_t db')" and "set (reset_t db) \<subseteq> set (reset_t db')"
    and "set (confirm_t db) \<subseteq> set (confirm_t db')" and "set (push_t db) \<subseteq> set (push_t db')"
  shows "used_ids db \<subseteq> used_ids db'"
  using assms unfolding used_ids_def by blast

lemma signed_in_tables [simp]:
  "access_t (signed_in cfg uid w db) = access_t db @ [new_token (auuid w (auuid_n w)) (aclock w + cf_AccessTokenValidity cfg) uid w]"
  "refresh_t (signed_in cfg uid w db) = refresh_t db @ [\<lparr>rt_Token = auuid w (Suc (auuid_n w)), rt_UserID = uid,
     rt_CreatedAt = aclock w, rt_UpdatedAt = aclock w\<rparr>]"
  "reset_t (signed_in cfg uid w db) = reset_t db" "confirm_t (signed_in cfg uid w db) = confirm_t db"
  "users_t (signed_in cfg uid w db) = tbl_upd us_ID uid
     (\<lambda>u. u\<lparr>us_LastAuthenticatedAt := Some (aclock w), us_UpdatedAt := aclock w\<rparr>) (users_t db)"
  by (simp_all add: signed_in_def)

lemma signed_out_tables [simp]:
  "access_t (signed_out uid db) = tbl_del tt_UserID uid (access_t db)"
  "refresh_t (signed_out uid db) = tbl_del rt_UserID uid (refresh_t db)"
  "reset_t (signed_out uid db) = reset_t db" "confirm_t (signed_out uid db) = confirm_t db"
  "users_t (signed_out uid db) = users_t db" "push_t (signed_out uid db) = push_t db"
  by (simp_all add: signed_out_def)

section \<open>Tokens and their users\<close>

lemma refers_to_user:
  assumes "refs_ok f rs db" and "tbl_ok us_ID (users_t db)" and "r \<in> set rs"
  obtains u where "get_user db (f r) = Some u" and "us_ID u = f r" and "u \<in> set (users_t db)"
proof -
  have "has_user (f r) db" using assms by (simp add: refs_ok_def)
  then obtain u where u: "get_user db (f r) = Some u" by (auto simp: has_user_iff)
  then have "u \<in> set (users_t db) \<and> us_ID u = f r" unfolding get_user_def by (rule tbl_get_SomeD)
  with u show ?thesis using that by blast
qed

lemma get_user_id: "get_user db uid = Some u \<Longrightarrow> us_ID u = uid"
  by (auto simp: get_user_def dest: tbl_get_SomeD)

lemma loaded_quiet:
  assumes "aquiet w" and "tbl_ok kf (rows (adb w))" and "auuid_in w t = Some u"
    and "tbl_get kf u (rows (adb w)) = Some r"
  shows "with_user Pool f (by_token Pool t (\<lambda>u db. filter (\<lambda>r. kf r = u) (rows db)) w)
    = (Inr (Some (r, get_user (adb w) (f r))), w\<lparr>acalls := Suc (Suc (acalls w))\<rparr>)"
  using assms by (simp add: token_quiet with_user_quiet)

section \<open>Refreshing\<close>

definition without_refresh :: "string \<Rightarrow> account_db \<Rightarrow> account_db" where
  "without_refresh t db = db\<lparr>refresh_t := tbl_del rt_Token t (refresh_t db)\<rparr>"

lemma left_after_delete: "rt_Token ` set (refresh_t (without_refresh i db)) = rt_Token ` set (refresh_t db) - {i}"
  by (auto simp: without_refresh_def tbl_del_def)

lemma refresh_load_quiet:
  assumes "ready w" and "auuid_in w t = Some u" and "tbl_get rt_Token u (refresh_t (adb w)) = Some r"
    and "get_user (adb w) (rt_UserID r) = Some x" and "us_IsActive x"
  shows "refresh_load t w = (Inr (r, LocalUserToDTO x None), w\<lparr>acalls := Suc (Suc (acalls w))\<rparr>)"
proof -
  note w = readyD [OF assms(1)]
  have "tbl_ok rt_Token (refresh_t (adb w))" using w(3) by (simp add: schema_ok_def)
  then show ?thesis
    using loaded_quiet [where rows = refresh_t and kf = rt_Token and f = rt_UserID, OF w(1) _ assms(2,3)] assms(4,5)
    by (simp add: refresh_load_def)
qed

lemma refresh_run_quiet:
  assumes "ready w" and "has_user (du_ID user) (adb w)"
  shows "refresh_run cfg (r, user) w = (Inr (login_result cfg w),
    w\<lparr>acalls := acalls w + 6, auuid_n := auuid_n w + 2,
      adb := signed_in cfg (du_ID user) w (without_refresh (rt_Token r) (adb w))\<rparr>)"
proof -
  note w = readyD [OF assms(1)]
  let ?h = "\<lambda>w. and_then (RefreshToken_Delete Tx (rt_Token r) w) (\<lambda>_. authenticateUser cfg Tx user False)"
  have "rt_Token ` set (tbl_del rt_Token t rs) \<subseteq> rt_Token ` set rs" for t rs by (auto simp: tbl_del_def)
  then have fresh: "auuid w (Suc (auuid_n w)) \<notin> rt_Token ` set (refresh_t (without_refresh (rt_Token r) (adb w)))"
    using fresh_tokens(3) [OF w(4), of "Suc (auuid_n w)"] by (auto simp: without_refresh_def)
  have "WithTransaction ?h w = (Inr (login_result cfg w),
      w\<lparr>acalls := acalls w + 1 + (if False then 7 else 5), auuid_n := auuid_n w + 2,
        adb := signed_in cfg (du_ID user) w ((if False then signed_out (du_ID user) else id) (without_refresh (rt_Token r) (adb w)))\<rparr>)"
  proof (rule sign_in_transaction [OF w(1,2)])
    fix v assume "v = w\<lparr>acalls := Suc (acalls w)\<rparr>"
    then show "?h v = authenticateUser cfg Tx user False (v\<lparr>acalls := acalls v + 1, apending := without_refresh (rt_Token r)\<rparr>)"
      using w by (simp add: RefreshToken_Delete_def write_tx_quiet without_refresh_def [abs_def])
  qed (use assms(2) fresh fresh_tokens(2) [OF w(4)] in \<open>simp_all add: without_refresh_def has_user_def\<close>)
  then show ?thesis by (simp add: refresh_run_def)
qed

lemma ready_refreshed:
  assumes "ready w" and "refresh_run cfg (r, user) w = (Inr x, w')" and "has_user (du_ID user) (adb w)"
  shows "ready w'"
proof -
  let ?db = "signed_in cfg (du_ID user) w (without_refresh (rt_Token r) (adb w))"
  have w': "w' = w\<lparr>acalls := acalls w + 6, auuid_n := auuid_n w + 2, adb := ?db\<rparr>"
    using assms(2) by (simp add: refresh_run_quiet [OF assms(1,3)])
  have "schema.in_tx (snd (and_then (RefreshToken_Delete Tx (rt_Token r) v) (\<lambda>_. authenticateUser cfg Tx user False)))"
    if "schema.in_tx v" for v
    by (rule schema.and_then_tx) (use that in \<open>auto intro: schema.writes_tx schema.authenticate_tx\<close>)
  then have "schema.settled (snd (refresh_run cfg (r, user) w))"
    unfolding refresh_run_def fst_conv snd_conv by (rule schema.transaction_tx [OF ready_settled [OF assms(1)]])
  then have schema: "schema_ok ?db" by (simp add: assms(2) w' schema.settled_def)
  have "used_ids (without_refresh (rt_Token r) (adb w)) \<subseteq> used_ids (adb w)"
    by (rule used_mono) (auto simp: without_refresh_def tbl_del_def)
  then show ?thesis
    unfolding w' using used_signed_in [of cfg "du_ID user" w] assms(1) schema by (intro ready_after) (simp, simp, simp, blast)
qed

section \<open>Changing a password\<close>

definition new_password :: "string \<Rightarrow> string \<Rightarrow> time \<Rightarrow> account_db \<Rightarrow> account_db" where
  "new_password hash uid t db =
     db\<lparr>users_t := tbl_upd us_ID uid (\<lambda>u. u\<lparr>us_Password := Some hash, us_UpdatedAt := t\<rparr>) (users_t db)\<rparr>"

lemma new_password_tables [simp]:
  "access_t (new_password h uid t db) = access_t db" "refresh_t (new_password h uid t db) = refresh_t db"
  "reset_t (new_password h uid t db) = reset_t db" "confirm_t (new_password h uid t db) = confirm_t db"
  "users_t (new_password h uid t db)
     = tbl_upd us_ID uid (\<lambda>u. u\<lparr>us_Password := Some h, us_UpdatedAt := t\<rparr>) (users_t db)"
  by (simp_all add: new_password_def)

definition password_changed :: "AuthServer \<Rightarrow> string \<Rightarrow> string \<Rightarrow> accounts \<Rightarrow> account_db" where
  "password_changed cfg hash uid w = signed_in cfg uid w (signed_out uid (new_password hash uid (aclock w) (adb w)))"

lemma has_user_upd: "(\<And>u. us_ID (f u) = us_ID u) \<Longrightarrow> us_ID ` set (tbl_upd us_ID k f us) = us_ID ` set us"
  using map_tbl_upd [of us_ID k f us] by (metis list.set_map)

lemma change_password_quiet:
  assumes "ready w" and "has_user (du_ID user) (adb w)"
  shows "WithTransaction (\<lambda>w. and_then (User_Update Tx (du_ID user) (\<lambda>u. u\<lparr>us_Password := Some hash\<rparr>) w)
      (\<lambda>_. authenticateUser cfg Tx (user\<lparr>du_PasswordHash := Some hash\<rparr>) True)) w
    = (Inr (login_result cfg w),
       w\<lparr>acalls := acalls w + 8, auuid_n := auuid_n w + 2, adb := password_changed cfg hash (du_ID user) w\<rparr>)"
    (is "WithTransaction ?h w = _")
proof -
  note w = readyD [OF assms(1)]
  let ?user = "user\<lparr>du_PasswordHash := Some hash\<rparr>"
  have "WithTransaction ?h w = (Inr (login_result cfg w),
      w\<lparr>acalls := acalls w + 1 + (if True then 7 else 5), auuid_n := auuid_n w + 2,
        adb := signed_in cfg (du_ID ?user) w
          ((if True then signed_out (du_ID ?user) else id) (new_password hash (du_ID user) (aclock w) (adb w)))\<rparr>)"
  proof (rule sign_in_transaction [OF w(1,2)])
    fix v assume "v = w\<lparr>acalls := Suc (acalls w)\<rparr>"
    then show "?h v = authenticateUser cfg Tx ?user True
        (v\<lparr>acalls := acalls v + 1, apending := new_password hash (du_ID user) (aclock w)\<rparr>)"
      using w by (simp add: User_Update_def write_tx_quiet new_password_def [abs_def])
  qed (use assms(2) fresh_tokens [OF w(4)] in \<open>simp_all add: has_user_def has_user_upd\<close>)
  then show ?thesis by (simp add: password_changed_def)
qed

lemma update_password_quiet:
  assumes "ready w" and "has_user (du_ID user) (adb w)" and "du_IsActive user" and "du_PasswordHash user = Some stored"
    and "\<not> skip \<longrightarrow> ComparePasswordAndHash (ae_IDKey env) cur stored = Inr True"
    and "HashPassword (ae_IDKey env) rand new DefaultArgon2Params = Inr hash"
  shows "UpdatePassword env rand user cur skip new w = (Inr (login_result (ae_config env) w),
       w\<lparr>acalls := acalls w + 8, auuid_n := auuid_n w + 2,
         adb := password_changed (ae_config env) hash (du_ID user) w\<rparr>)"
proof -
  have "(if skip then (Inr True, w) else hashed (ComparePasswordAndHash (ae_IDKey env) cur stored) None w) = (Inr True, w)"
    using assms(5) by (simp add: hashed_def)
  then show ?thesis
    using assms(3,4,6) change_password_quiet [OF assms(1,2), of hash "ae_config env"]
    by (simp add: UpdatePassword_def hashed_def)
qed

lemma update_password_InrD:
  assumes "UpdatePassword env rand user cur skip new w = (Inr r, w')"
  obtains stored hash where "du_IsActive user" and "du_PasswordHash user = Some stored"
    and "\<not> skip \<longrightarrow> ComparePasswordAndHash (ae_IDKey env) cur stored = Inr True"
    and "HashPassword (ae_IDKey env) rand new DefaultArgon2Params = Inr hash"
  using assms
  by (auto simp: UpdatePassword_def hashed_def elim!: and_then_InrE split: if_splits option.splits sum.splits)

lemma used_password_changed:
  "used_ids (password_changed cfg hash uid w) \<subseteq> used_ids (adb w) \<union> auuid w ` {auuid_n w ..< auuid_n w + 2}"
proof -
  have "used_ids (signed_out uid (new_password hash uid (aclock w) (adb w))) \<subseteq> used_ids (adb w)"
    by (rule used_mono) (auto simp: tbl_del_def has_user_upd new_password_def)
  then show ?thesis unfolding password_changed_def using used_signed_in by blast
qed

lemma ready_password_changed:
  fixes env :: auth_env and user :: User
  assumes "ready w" and "has_user (du_ID user) (adb w)" and "du_IsActive user" and "du_PasswordHash user = Some stored"
    and "HashPassword (ae_IDKey env) rand new DefaultArgon2Params = Inr hash"
  shows "ready (w\<lparr>acalls := k, auuid_n := auuid_n w + 2, adb := password_changed (ae_config env) hash (du_ID user) w\<rparr>)"
proof (rule ready_after [OF assms(1)])
  have "account_step env w (snd (UpdatePassword env rand user [] True new w))" by (rule update_password)
  then show "schema_ok (password_changed (ae_config env) hash (du_ID user) w)"
    using schema_after [OF _ assms(1)] update_password_quiet [OF assms(1-4) _ assms(5), of True "[]"] by fastforce
qed (simp, rule used_password_changed)

section \<open>Resetting a password\<close>

definition live_reset :: "accounts \<Rightarrow> string \<Rightarrow> TimedToken \<Rightarrow> UserRow \<Rightarrow> bool" where
  "live_reset w t row u \<longleftrightarrow>
     (case auuid_in w t of None \<Rightarrow> False | Some i \<Rightarrow> tbl_get tt_Token i (reset_t (adb w)) = Some row)
   \<and> aclock w \<le> tt_ValidUntil row \<and> get_user (adb w) (tt_UserID row) = Some u
   \<and> us_IsActive u \<and> us_Password u \<noteq> None"

lemma reset_password_quiet:
  assumes "ready w" and "live_reset w t row u"
    and "HashPassword (ae_IDKey env) rand new DefaultArgon2Params = Inr hash"
  shows "ResetPassword env rand t new w = (Inr (login_result (ae_config env) w),
       w\<lparr>acalls := acalls w + 10, auuid_n := auuid_n w + 2,
         adb := password_changed (ae_config env) hash (tt_UserID row) w\<rparr>)"
proof -
  note w = readyD [OF assms(1)]
  obtain i where i: "auuid_in w t = Some i" "tbl_get tt_Token i (reset_t (adb w)) = Some row"
    using assms(2) by (auto simp: live_reset_def split: option.splits)
  obtain stored where u: "get_user (adb w) (tt_UserID row) = Some u" "us_IsActive u" "us_Password u = Some stored"
      "aclock w \<le> tt_ValidUntil row"
    using assms(2) by (auto simp: live_reset_def)
  have id: "us_ID u = tt_UserID row" using u(1) by (rule get_user_id)
  let ?w = "w\<lparr>acalls := Suc (Suc (acalls w))\<rparr>"
  have "tbl_ok tt_Token (reset_t (adb w))" using w(3) by (simp add: schema_ok_def)
  note load = loaded_quiet [where rows = reset_t and kf = tt_Token and f = tt_UserID, OF w(1) this i]
  have "UpdatePassword env rand (LocalUserToDTO u None) [] True new ?w
      = (Inr (login_result (ae_config env) ?w),
         ?w\<lparr>acalls := acalls ?w + 8, auuid_n := auuid_n ?w + 2,
            adb := password_changed (ae_config env) hash (du_ID (LocalUserToDTO u None)) ?w\<rparr>)"
    by (rule update_password_quiet) (use assms u id in \<open>simp_all add: LocalUserToDTO_def has_user_iff\<close>)
  then show ?thesis
    using u by (simp add: ResetPassword_def load login_result_def LocalUserToDTO_def id password_changed_def signed_in_def)
qed

section \<open>What the new tables hold\<close>

lemma login_InrD:
  assumes "ready w" and "Login env name password w = (Inr r, w')"
  obtains u stored where "named_user (adb w) (ToUsernameFormat name) = Some u" and "us_IsActive u"
    and "us_Password u = Some stored" and "ComparePasswordAndHash (ae_IDKey env) password stored = Inr True"
    and "r = login_result (ae_config env) w"
    and "w' = w\<lparr>acalls := acalls w + 6, auuid_n := auuid_n w + 2, adb := signed_in (ae_config env) (us_ID u) w (adb w)\<rparr>"
  using assms(2) unfolding login_quiet [OF assms(1)] Let_def
  by (auto split: option.splits sum.splits if_splits)

lemma get_user_other_tables [simp]:
  "get_user (db\<lparr>access_t := a\<rparr>) uid = get_user db uid" "get_user (db\<lparr>refresh_t := b\<rparr>) uid = get_user db uid"
  "get_user (db\<lparr>confirm_t := c\<rparr>) uid = get_user db uid" "get_user (signed_out x db) uid = get_user db uid"
  by (simp_all add: get_user_def signed_out_def)

lemma get_user_signed_in:
  "get_user (signed_in cfg uid w db) uid
     = map_option (\<lambda>u. u\<lparr>us_LastAuthenticatedAt := Some (aclock w), us_UpdatedAt := aclock w\<rparr>) (get_user db uid)"
  by (simp add: get_user_def tbl_get_upd)

lemma get_user_new_password:
  "get_user (new_password h uid t db) uid = map_option (\<lambda>u. u\<lparr>us_Password := Some h, us_UpdatedAt := t\<rparr>) (get_user db uid)"
  by (simp add: get_user_def tbl_get_upd)

lemma get_new_access:
  assumes "fresh_ids w" and "access_t db = access_t (adb w)"
  shows "tbl_get tt_Token (auuid w (auuid_n w)) (access_t (signed_in cfg uid w db))
    = Some (new_token (auuid w (auuid_n w)) (aclock w + cf_AccessTokenValidity cfg) uid w)"
proof -
  have "tbl_get tt_Token (auuid w (auuid_n w)) (access_t db) = None"
    using fresh_tokens(2) [OF assms(1), of "auuid_n w"] assms(2) by (simp add: tbl_get_None_iff)
  then show ?thesis by (simp add: tbl_get_append tbl_get_Cons new_token_def)
qed

lemma uuid_in_own: "fresh_ids w \<Longrightarrow> auuid_in w (auuid w n) = Some (auuid w n)"
  by (simp add: fresh_ids_def)

lemma password_changed_sessions:
  "map tt_Token (filter (\<lambda>t. tt_UserID t = uid) (access_t (password_changed cfg hash uid w))) = [auuid w (auuid_n w)]"
  "map rt_Token (filter (\<lambda>t. rt_UserID t = uid) (refresh_t (password_changed cfg hash uid w))) = [auuid w (Suc (auuid_n w))]"
  "filter (\<lambda>t. tt_UserID t \<noteq> uid) (access_t (password_changed cfg hash uid w)) = filter (\<lambda>t. tt_UserID t \<noteq> uid) (access_t (adb w))"
  "filter (\<lambda>t. rt_UserID t \<noteq> uid) (refresh_t (password_changed cfg hash uid w)) = filter (\<lambda>t. rt_UserID t \<noteq> uid) (refresh_t (adb w))"
  by (simp_all add: password_changed_def tbl_del_def new_token_def)

lemma password_changed_resets [simp]: "reset_t (password_changed cfg hash uid w) = reset_t (adb w)"
  by (simp add: password_changed_def)

lemma get_user_password_changed:
  assumes "get_user (adb w) uid = Some u"
  obtains v where "get_user (password_changed cfg hash uid w) uid = Some v" and "us_Password v = Some hash"
    and "us_IsActive v = us_IsActive u"
  using that assms by (simp add: password_changed_def get_user_signed_in get_user_new_password)

section \<open>Asking for a reset\<close>

lemma pick_row_SomeD: "pick_row w rs = Some r \<Longrightarrow> r \<in> set rs"
  by (auto simp: pick_row_def split: if_splits)

lemma pick_row_None: "pick_row w rs = None \<longleftrightarrow> rs = []"
  by (auto simp: pick_row_def)

text \<open>A row of the user that is found or made by the transaction of a reset.\<close>

lemma reset_transaction:
  assumes "ready w" and "has_user uid (adb w)"
  obtains row w' where "WithTransaction (\<lambda>w.
      and_then (One Tx (\<lambda>db. live_tokens uid (aclock w - reuse) (aclock w) (reset_t db)) w)
        (\<lambda>token w. case token of
           Some t \<Rightarrow> (Inr (Some (tt_Token t)), w)
         | None \<Rightarrow> and_then (PasswordResetToken_Insert Tx uid (aclock w + validity) w)
             (\<lambda>t w. (Inr (Some (tt_Token t)), w)))) w = (Inr (Some (tt_Token row)), w')"
    and "row \<in> set (reset_t (adb w'))" and "tt_UserID row = uid"
proof -
  note w = readyD [OF assms(1)]
  let ?h = "\<lambda>w. and_then (One Tx (\<lambda>db. live_tokens uid (aclock w - reuse) (aclock w) (reset_t db)) w)
        (\<lambda>token w. case token of
           Some t \<Rightarrow> (Inr (Some (tt_Token t)), w)
         | None \<Rightarrow> and_then (PasswordResetToken_Insert Tx uid (aclock w + validity) w)
             (\<lambda>t w. (Inr (Some (tt_Token t)), w)))"
  let ?w = "w\<lparr>acalls := Suc (acalls w)\<rparr>"
  let ?live = "live_tokens uid (aclock w - reuse) (aclock w) (reset_t (adb w))"
  have find: "One Tx (\<lambda>db. live_tokens uid (aclock ?w - reuse) (aclock ?w) (reset_t db)) ?w
      = (Inr (pick_row ?w ?live), ?w\<lparr>acalls := Suc (acalls ?w)\<rparr>)"
    using w by (simp add: one_quiet)
  show ?thesis
  proof (cases "pick_row ?w ?live")
    case (Some row)
    then have row: "row \<in> set (reset_t (adb w))" "tt_UserID row = uid"
      by (auto dest!: pick_row_SomeD simp: live_tokens_def)
    have run: "?h ?w = (Inr (Some (tt_Token row)), ?w\<lparr>acalls := Suc (acalls ?w)\<rparr>)"
      by (subst find) (simp add: Some)
    show ?thesis
      by (rule that [OF transaction_quiet [where h = ?h, OF w(1,2) run, simplified]]) (use w row in \<open>simp_all add: commit_def\<close>)
  next
    case None
    let ?row = "new_token (auuid w (auuid_n w)) (aclock w + validity) uid w"
    let ?v = "w\<lparr>acalls := acalls w + 3, auuid_n := Suc (auuid_n w), apending := (\<lambda>db. db\<lparr>reset_t := reset_t db @ [?row]\<rparr>)\<rparr>"
    have ins: "PasswordResetToken_Insert Tx uid (aclock w + validity) (w\<lparr>acalls := Suc (Suc (acalls w))\<rparr>) = (Inr ?row, ?v)"
      using w assms(2) fresh_tokens(4) [OF w(4), of "auuid_n w"]
      by (simp add: PasswordResetToken_Insert_def uuid_generate_v4_def Let_def insert_tx_quiet eval_nat_numeral new_token_def)
    have run: "?h ?w = (Inr (Some (tt_Token ?row)), ?v)"
      by (subst find) (simp add: None ins)
    show ?thesis
      by (rule that [OF transaction_quiet [where h = ?h, OF w(1,2) run, simplified]])
        (use w in \<open>simp_all add: commit_def new_token_def\<close>)
  qed
qed

lemma init_reset_quiet:
  assumes "ready w"
  obtains (nothing) w' where "InitPasswordReset cfg name w = (Inr None, w')"
    | (token) u row w' where "InitPasswordReset cfg name w = (Inr (Some (tt_Token row)), w')"
      and "named_user (adb w) (ToUsernameFormat name) = Some u" and "us_IsActive u" and "us_Password u \<noteq> None"
      and "row \<in> set (reset_t (adb w'))" and "tt_UserID row = us_ID u"
proof -
  note w = readyD [OF assms]
  let ?w1 = "w\<lparr>acalls := Suc (acalls w)\<rparr>" and ?n = "ToUsernameFormat name"
  have find: "One Pool (users_named ?n) w = (Inr (named_user (adb w) ?n), ?w1)"
    using w by (simp add: one_quiet pick_named)
  show ?thesis
  proof (cases "named_user (adb w) ?n")
    case None
    show ?thesis by (rule nothing) (simp add: InitPasswordReset_def find None)
  next
    case (Some u)
    show ?thesis
    proof (cases "\<not> us_IsActive u \<or> us_Password u = None")
      case True
      have "InitPasswordReset cfg name w = (Inr None, ?w1)"
        unfolding InitPasswordReset_def find Some and_then_simps option.case using True by (rule if_P)
      then show ?thesis by (rule nothing)
    next
      case False
      let ?q = "\<lambda>db. live_tokens (us_ID u) (aclock ?w1 - cf_PasswordResetTokenDebounceDuration cfg) (aclock ?w1) (reset_t db)"
      let ?deb = "if cf_PasswordResetTokenDebounceDuration cfg > 0 then Exists Pool ?q ?w1 else (Inr False, ?w1)"
      have "\<exists>d k. ?deb = (Inr d, w\<lparr>acalls := k\<rparr>)"
      proof (cases "cf_PasswordResetTokenDebounceDuration cfg > 0")
        case True
        then show ?thesis
          using w(1) by (intro exI [of _ "?q (adb w) \<noteq> []"] exI [of _ "Suc (Suc (acalls w))"]) (simp add: exists_quiet)
      next
        case False
        then show ?thesis by (intro exI [of _ False] exI [of _ "Suc (acalls w)"]) simp
      qed
      then obtain debounced k where deb: "?deb = (Inr debounced, w\<lparr>acalls := k\<rparr>)" by blast
      have known: "has_user (us_ID u) (adb (w\<lparr>acalls := k\<rparr>))"
        using named_user_SomeD [OF w(3) Some] by (simp add: has_user_iff)
      have run: "InitPasswordReset cfg name w = (if debounced then (Inr None, w\<lparr>acalls := k\<rparr>) else WithTransaction (\<lambda>w.
          and_then (One Tx (\<lambda>db. live_tokens (us_ID u) (aclock w - cf_PasswordResetTokenReuseDuration cfg) (aclock w) (reset_t db)) w)
            (\<lambda>token w. case token of
               Some t \<Rightarrow> (Inr (Some (tt_Token t)), w)
             | None \<Rightarrow> and_then (PasswordResetToken_Insert Tx (us_ID u) (aclock w + cf_PasswordResetTokenValidity cfg) w)
                 (\<lambda>t w. (Inr (Some (tt_Token t)), w)))) (w\<lparr>acalls := k\<rparr>))"
        unfolding InitPasswordReset_def find Some and_then_simps option.case if_not_P [OF False] deb by (rule HOL.refl)
      show ?thesis
      proof (cases debounced)
        case True
        then have "InitPasswordReset cfg name w = (Inr None, w\<lparr>acalls := k\<rparr>)" using run by simp
        then show ?thesis by (rule nothing)
      next
        case plain: False
        have "ready (w\<lparr>acalls := k\<rparr>)" using assms by simp
        then obtain row w' where "InitPasswordReset cfg name w = (Inr (Some (tt_Token row)), w')"
            "row \<in> set (reset_t (adb w'))" "tt_UserID row = us_ID u"
          using reset_transaction [OF _ known, of "cf_PasswordResetTokenReuseDuration cfg" "cf_PasswordResetTokenValidity cfg"]
            run plain by metis
        then show ?thesis using Some False token by blast
      qed
    qed
  qed
qed

end
