(* ===== verification/AccountRegistration.thy ===== *)
theory AccountRegistration
  imports AccountRuns
begin

text \<open>
  Registering a name, registering it again before it is confirmed, and completing the
  registration, in closed form where the database does not fail.
\<close>

section \<open>Registering\<close>

definition user_registered :: "AuthServer \<Rightarrow> string \<Rightarrow> string \<Rightarrow> accounts \<Rightarrow> UserRow" where
  "user_registered cfg name hash w =
     (new_user_row cfg name hash w)\<lparr>us_ID := auuid w (auuid_n w), us_CreatedAt := aclock w, us_UpdatedAt := aclock w\<rparr>"

definition registered :: "AuthServer \<Rightarrow> string \<Rightarrow> string \<Rightarrow> accounts \<Rightarrow> account_db \<Rightarrow> account_db" where
  "registered cfg name hash w db =
     db\<lparr>users_t := users_t db @ [user_registered cfg name hash w],
        profiles_t := profiles_t db @ [\<lparr>pf_UserID = auuid w (auuid_n w), pf_LegalAcceptedAt = None,
                                        pf_CreatedAt = aclock w, pf_UpdatedAt = aclock w\<rparr>],
        confirm_t := confirm_t db @ [new_token (auuid w (Suc (auuid_n w))) (aclock w + cf_ConfirmationTokenValidity cfg)
                                       (auuid w (auuid_n w)) w]\<rparr>"

lemma registered_tables [simp]:
  "users_t (registered cfg name hash w db) = users_t db @ [user_registered cfg name hash w]"
  "confirm_t (registered cfg name hash w db) = confirm_t db @ [new_token (auuid w (Suc (auuid_n w)))
     (aclock w + cf_ConfirmationTokenValidity cfg) (auuid w (auuid_n w)) w]"
  "access_t (registered cfg name hash w db) = access_t db" "refresh_t (registered cfg name hash w db) = refresh_t db"
  "reset_t (registered cfg name hash w db) = reset_t db" "push_t (registered cfg name hash w db) = push_t db"
  by (simp_all add: registered_def)

lemma register_new_quiet:
  assumes "ready w" and "cf_RegistrationRequiresConfirmation cfg" and "named_user (adb w) name = None" and "length name \<le> 255"
  shows "register_new cfg name hash w =
    (Inr \<lparr>rr_RequiresConfirmation = True, rr_ConfirmationToken = Some (auuid w (Suc (auuid_n w)))\<rparr>,
     w\<lparr>acalls := acalls w + 5, auuid_n := auuid_n w + 2, adb := registered cfg name hash w (adb w)\<rparr>)"
proof -
  note w = readyD [OF assms(1)]
  let ?h = "\<lambda>w. and_then (User_Insert Tx (new_user_row cfg name hash w) w) (\<lambda>user w.
     and_then (Profile_Insert Tx (us_ID user) w) (\<lambda>_ w.
       if cf_RegistrationRequiresConfirmation cfg
       then and_then (ConfirmationToken_Insert Tx (us_ID user) (aclock w + cf_ConfirmationTokenValidity cfg) w)
         (\<lambda>t w. (Inr \<lparr>rr_RequiresConfirmation = True, rr_ConfirmationToken = Some (tt_Token t)\<rparr>, w))
       else (Inr \<lparr>rr_RequiresConfirmation = False, rr_ConfirmationToken = None\<rparr>, w)))"
  have none: "users_named name (adb w) = []"
    using users_named_unique [OF w(3), of name] assms(3) by simp
  have "auuid w (auuid_n w) \<notin> pf_UserID ` set (profiles_t (adb w))"
    using w(3) fresh_tokens(1) [OF w(4), of "auuid_n w"] by (auto simp: schema_ok_def refs_ok_def has_user_def)
  then have run: "?h (w\<lparr>acalls := Suc (acalls w)\<rparr>) =
      (Inr \<lparr>rr_RequiresConfirmation = True, rr_ConfirmationToken = Some (auuid w (Suc (auuid_n w)))\<rparr>,
       w\<lparr>acalls := acalls w + 4, auuid_n := auuid_n w + 2, apending := registered cfg name hash w\<rparr>)"
    using w fresh_tokens [OF w(4)] assms none
    by (simp add: User_Insert_def Profile_Insert_def ConfirmationToken_Insert_def uuid_generate_v4_def Let_def
        insert_tx_quiet has_user_def new_user_row_def user_registered_def registered_def [abs_def] comp_def)
      (simp add: new_token_def)
  show ?thesis
    unfolding register_new_def
    by (subst transaction_quiet [where h = ?h, OF w(1,2) run]) (simp_all add: w commit_def)
qed

definition confirm_again :: "AuthServer \<Rightarrow> string \<Rightarrow> accounts \<Rightarrow> account_db" where
  "confirm_again cfg uid w = (adb w)\<lparr>confirm_t := confirm_t (adb w) @
     [new_token (auuid w (auuid_n w)) (aclock w + cf_ConfirmationTokenValidity cfg) uid w]\<rparr>"

lemma register_again_quiet:
  assumes "ready w" and "us_RequiresConfirmation u" and "has_user (us_ID u) (adb w)"
    and "live_tokens (us_ID u) (aclock w - cf_ConfirmationTokenDebounceDuration cfg) (aclock w) (confirm_t (adb w)) = []"
  shows "register_again cfg u w =
    (Inr \<lparr>rr_RequiresConfirmation = True, rr_ConfirmationToken = Some (auuid w (auuid_n w))\<rparr>,
     w\<lparr>acalls := acalls w + 2, auuid_n := auuid_n w + 1, adb := confirm_again cfg (us_ID u) w\<rparr>)"
proof -
  note w = readyD [OF assms(1)]
  show ?thesis
    using w fresh_tokens [OF w(4)] assms
    by (simp add: register_again_def exists_quiet ConfirmationToken_Insert_def uuid_generate_v4_def Let_def
        insert_pool_quiet confirm_again_def) (simp add: new_token_def)
qed

lemma register_quiet:
  assumes "ready w"
  shows "Register env rand name password w =
    (let w1 = w\<lparr>acalls := Suc (acalls w)\<rparr>; n = ToUsernameFormat name in
     case named_user (adb w) n of
       Some u \<Rightarrow> register_again (ae_config env) u w1
     | None \<Rightarrow> and_then (hashed (HashPassword (ae_IDKey env) rand password DefaultArgon2Params) (Some ErrBadRequestInvalidPassword) w1)
         (\<lambda>hash. register_new (ae_config env) n hash))"
  using readyD [OF assms] by (simp add: Register_def one_quiet pick_named Let_def split: option.split)

lemma ready_registered:
  fixes env :: auth_env
  assumes "ready w" and "cf_RegistrationRequiresConfirmation (ae_config env)" and "named_user (adb w) name = None"
    and "length name \<le> 255" and "name = ToUsernameFormat raw"
    and "HashPassword (ae_IDKey env) rand password DefaultArgon2Params = Inr hash"
  shows "ready (w\<lparr>acalls := k, auuid_n := auuid_n w + 2, adb := registered (ae_config env) name hash w (adb w)\<rparr>)"
proof (rule ready_after [OF assms(1)])
  let ?w = "w\<lparr>acalls := Suc (acalls w)\<rparr>"
  have "snd (Register env rand raw password w) = snd (register_new (ae_config env) name hash ?w)"
    using assms by (simp add: register_quiet Let_def hashed_def)
  also have "\<dots> = ?w\<lparr>acalls := acalls ?w + 5, auuid_n := auuid_n ?w + 2, adb := registered (ae_config env) name hash ?w (adb ?w)\<rparr>"
    using register_new_quiet [of ?w "ae_config env" name hash] assms by simp
  also have "adb \<dots> = registered (ae_config env) name hash w (adb w)"
    by (simp add: registered_def user_registered_def new_user_row_def)
  finally show "schema_ok (registered (ae_config env) name hash w (adb w))"
    using schema_after [OF register [of env w rand raw password] assms(1)] by simp
  have two: "{auuid_n w ..< auuid_n w + 2} = {auuid_n w, Suc (auuid_n w)}" by auto
  show "used_ids (registered (ae_config env) name hash w (adb w)) \<subseteq> used_ids (adb w) \<union> auuid w ` {auuid_n w ..< auuid_n w + 2}"
    unfolding two by (auto simp: used_ids_def user_registered_def new_token_def)
qed simp

lemma ready_confirm_again:
  assumes "ready w" and "has_user uid (adb w)"
  shows "ready (w\<lparr>acalls := k, auuid_n := auuid_n w + 1, adb := confirm_again cfg uid w\<rparr>)"
proof (rule ready_after [OF assms(1)])
  note w = readyD [OF assms(1)]
  show "schema_ok (confirm_again cfg uid w)"
    unfolding confirm_again_def
    by (rule schema.confirm_in [OF w(3)]) (use assms(2) fresh_tokens [OF w(4)] in \<open>simp_all add: new_token_def\<close>)
  show "used_ids (confirm_again cfg uid w) \<subseteq> used_ids (adb w) \<union> auuid w ` {auuid_n w ..< auuid_n w + 1}"
    by (auto simp: used_ids_def confirm_again_def new_token_def)
qed simp

definition confirmed :: "string \<Rightarrow> string \<Rightarrow> time \<Rightarrow> account_db \<Rightarrow> account_db" where
  "confirmed uid token t db =
     db\<lparr>users_t := tbl_upd us_ID uid (\<lambda>u. u\<lparr>us_IsActive := True, us_RequiresConfirmation := False, us_UpdatedAt := t\<rparr>) (users_t db),
        confirm_t := tbl_del tt_Token token (confirm_t db)\<rparr>"

lemma confirmed_tables [simp]:
  "users_t (confirmed uid token t db)
     = tbl_upd us_ID uid (\<lambda>u. u\<lparr>us_IsActive := True, us_RequiresConfirmation := False, us_UpdatedAt := t\<rparr>) (users_t db)"
  "access_t (confirmed uid token t db) = access_t db" "refresh_t (confirmed uid token t db) = refresh_t db"
  "reset_t (confirmed uid token t db) = reset_t db" "confirm_t (confirmed uid token t db) = tbl_del tt_Token token (confirm_t db)"
  by (simp_all add: confirmed_def)

lemma complete_quiet:
  assumes "ready w" and "auuid_in w t = Some i" and "tbl_get tt_Token i (confirm_t (adb w)) = Some row"
    and "aclock w < tt_ValidUntil row" and "get_user (adb w) (tt_UserID row) = Some u"
    and "\<not> us_IsActive u" and "us_RequiresConfirmation u"
  shows "CompleteRegister cfg t w = (Inr (login_result cfg w),
    w\<lparr>acalls := acalls w + 9, auuid_n := auuid_n w + 2,
      adb := signed_in cfg (us_ID u) w (confirmed (us_ID u) i (aclock w) (adb w))\<rparr>)"
proof -
  note w = readyD [OF assms(1)]
  let ?user = "LocalUserToDTO (u\<lparr>us_IsActive := True, us_RequiresConfirmation := False\<rparr>) None"
  let ?h = "\<lambda>w. and_then (with_user Pool tt_UserID (by_token Pool t
         (\<lambda>t db. filter (\<lambda>r. tt_Token r = t \<and> tt_ValidUntil r > aclock w) (confirm_t db)) w))
       (\<lambda>row w. case row of
          None \<Rightarrow> (Inl ErrNotFoundTokenNotFound, w)
        | Some (_, None) \<Rightarrow> (Inl nil_pointer, w)
        | Some (token, Some user) \<Rightarrow>
            if us_IsActive user \<or> \<not> us_RequiresConfirmation user then (Inr no_login, w)
            else and_then (User_Update Tx (us_ID user)
                   (\<lambda>u. u\<lparr>us_IsActive := True, us_RequiresConfirmation := False\<rparr>) w) (\<lambda>_ w.
                 and_then (ConfirmationToken_Delete Tx (tt_Token token) w) (\<lambda>_.
                   authenticateUser cfg Tx
                     (LocalUserToDTO (user\<lparr>us_IsActive := True, us_RequiresConfirmation := False\<rparr>) None) False)))"
  have ok: "tbl_ok tt_Token (confirm_t (adb w))" using w(3) by (simp add: schema_ok_def)
  have row: "filter (\<lambda>r. tt_Token r = i \<and> tt_ValidUntil r > aclock w) (confirm_t (adb w)) = [row]"
    unfolding filter_filter [of "\<lambda>r. tt_ValidUntil r > aclock w" "\<lambda>r. tt_Token r = i" "confirm_t (adb w)", symmetric]
    using assms(3,4) by (simp add: filter_key [OF ok])
  have tok: "tt_Token row = i" using tbl_get_SomeD [OF assms(3)] by simp
  have id: "us_ID u = tt_UserID row" using assms(5) by (rule get_user_id)
  have "has_user (us_ID u) (adb w)" using assms(5) id by (simp add: has_user_iff)
  then have known: "us_ID u \<in> us_ID ` set (users_t (adb w))" by (simp add: has_user_def)
  have "WithTransaction ?h w = (Inr (login_result cfg w),
      w\<lparr>acalls := acalls w + 4 + (if False then 7 else 5), auuid_n := auuid_n w + 2,
        adb := signed_in cfg (du_ID ?user) w ((if False then signed_out (du_ID ?user) else id)
          (confirmed (us_ID u) i (aclock w) (adb w)))\<rparr>)"
  proof (rule sign_in_transaction [OF w(1,2)])
    fix v assume "v = w\<lparr>acalls := Suc (acalls w)\<rparr>"
    then show "?h v = authenticateUser cfg Tx ?user False
        (v\<lparr>acalls := acalls v + 4, apending := confirmed (us_ID u) i (aclock w)\<rparr>)"
      using w assms(2,5-7) row tok
      by (simp add: by_token_def sql_quiet store_def with_user_quiet User_Update_def ConfirmationToken_Delete_def
          write_tx_quiet confirmed_def [abs_def] comp_def eval_nat_numeral)
  qed (use known fresh_tokens [OF w(4)] in \<open>simp_all add: LocalUserToDTO_def has_user_def has_user_upd\<close>)
  then show ?thesis by (simp add: CompleteRegister_def LocalUserToDTO_def)
qed

lemma named_user_if:
  assumes "schema_ok db" and "get_user db uid = Some u" and "us_Username u = Some n"
  shows "named_user db n = Some u"
proof -
  have "u \<in> set (users_t db)" using assms(2) by (auto simp: get_user_def dest: tbl_get_SomeD)
  then have "u \<in> set (users_named n db)" using assms(3) by (simp add: users_named_def)
  then show ?thesis unfolding users_named_unique [OF assms(1)] by (auto split: option.splits)
qed

lemma get_user_registered:
  assumes "fresh_ids w"
  shows "get_user (registered cfg name hash w (adb w)) (auuid w (auuid_n w)) = Some (user_registered cfg name hash w)"
proof -
  have "tbl_get us_ID (auuid w (auuid_n w)) (users_t (adb w)) = None"
    using fresh_tokens(1) [OF assms, of "auuid_n w"] by (simp add: tbl_get_None_iff)
  then show ?thesis by (simp add: get_user_def tbl_get_append tbl_get_Cons user_registered_def)
qed

lemma get_user_confirmed:
  "get_user (confirmed uid i t db) uid
     = map_option (\<lambda>u. u\<lparr>us_IsActive := True, us_RequiresConfirmation := False, us_UpdatedAt := t\<rparr>) (get_user db uid)"
  by (simp add: get_user_def tbl_get_upd)

lemma ready_completed:
  assumes "ready w" and "CompleteRegister cfg t w = (Inr r, w')"
    and "w' = w\<lparr>acalls := k, auuid_n := auuid_n w + 2, adb := signed_in cfg uid w (confirmed uid i (aclock w) (adb w))\<rparr>"
  shows "ready w'"
  unfolding assms(3)
proof (rule ready_after [OF assms(1)])
  have "account_step \<lparr>ae_config = cfg, ae_IDKey = undefined\<rparr> w (snd (CompleteRegister cfg t w))"
    using complete [of "\<lparr>ae_config = cfg, ae_IDKey = undefined\<rparr>"] by simp
  then show "schema_ok (signed_in cfg uid w (confirmed uid i (aclock w) (adb w)))"
    using schema_after [OF _ assms(1)] assms(2,3) by fastforce
  have "used_ids (confirmed uid i (aclock w) (adb w)) \<subseteq> used_ids (adb w)"
    by (rule used_mono) (auto simp: tbl_del_def has_user_upd confirmed_def)
  then show "used_ids (signed_in cfg uid w (confirmed uid i (aclock w) (adb w))) \<subseteq> used_ids (adb w) \<union> auuid w ` {auuid_n w ..< auuid_n w + 2}"
    using used_signed_in by blast
qed simp

lemma registered_twice:
  fixes env :: auth_env and w :: accounts and name hash :: string
  defines "u \<equiv> user_registered (ae_config env) (ToUsernameFormat name) hash w"
  assumes "ready w" and "cf_RegistrationRequiresConfirmation (ae_config env)"
    and "named_user (adb w) (ToUsernameFormat name) = None" and "length (ToUsernameFormat name) \<le> 255"
    and "HashPassword (ae_IDKey env) rand1 first DefaultArgon2Params = Inr hash"
    and "aclock w + cf_ConfirmationTokenDebounceDuration (ae_config env) \<le> t"
  obtains r1 w1 i w2 row where "Register env rand1 name first w = (Inr r1, w1)"
    and "Register env rand2 name second (w1\<lparr>aclock := t\<rparr>) = (Inr \<lparr>rr_RequiresConfirmation = True, rr_ConfirmationToken = Some i\<rparr>, w2)"
    and "ready w2" and "get_user (adb w2) (us_ID u) = Some u" and "auuid_in w2 i = Some i"
    and "tbl_get tt_Token i (confirm_t (adb w2)) = Some row" and "tt_UserID row = us_ID u"
    and "tt_ValidUntil row = t + cf_ConfirmationTokenValidity (ae_config env)"
proof -
  note w = readyD [OF assms(2)]
  let ?cfg = "ae_config env" and ?n = "ToUsernameFormat name"
  obtain w1 where run1: "Register env rand1 name first w = (Inr \<lparr>rr_RequiresConfirmation = True, rr_ConfirmationToken = Some (auuid w (Suc (auuid_n w)))\<rparr>, w1)"
      and w1: "w1 = w\<lparr>acalls := acalls w + 6, auuid_n := auuid_n w + 2, adb := registered ?cfg ?n hash w (adb w)\<rparr>"
    using register_new_quiet [of "w\<lparr>acalls := Suc (acalls w)\<rparr>" ?cfg ?n hash] assms(2-6)
    by (simp add: register_quiet hashed_def registered_def user_registered_def new_user_row_def)
  define v where "v = w1\<lparr>aclock := t\<rparr>"
  have ready: "ready v" using ready_registered [OF assms(2-5) HOL.refl assms(6)] by (simp add: v_def w1)
  note v = readyD [OF ready]
  have uid: "us_ID u = auuid w (auuid_n w)" "us_Username u = Some ?n" "us_RequiresConfirmation u"
    using assms(3) by (simp_all add: u_def user_registered_def new_user_row_def)
  have known: "get_user (adb v) (us_ID u) = Some u"
    unfolding uid(1) by (simp add: v_def w1 u_def get_user_registered [OF w(4)])
  have name: "named_user (adb v) ?n = Some u" using v(3) known uid(2) by (rule named_user_if)
  have "refs_ok tt_UserID (confirm_t (adb w)) (adb w)" using w(3) by (simp add: schema_ok_def)
  then have "\<forall>x \<in> set (confirm_t (adb w)). tt_UserID x \<noteq> auuid w (auuid_n w)"
    using fresh_tokens(1) [OF w(4), of "auuid_n w"] unfolding refs_ok_def has_user_def by (metis order_refl)
  then have quiet: "live_tokens (us_ID u) (aclock v - cf_ConfirmationTokenDebounceDuration ?cfg) (aclock v) (confirm_t (adb v)) = []"
    using assms(7) unfolding uid(1) by (auto simp: live_tokens_def v_def w1 new_token_def filter_empty_conv)
  let ?v = "v\<lparr>acalls := Suc (acalls v)\<rparr>" and ?i = "auuid v (auuid_n v)"
  obtain w2 where run2: "Register env rand2 name second v = (Inr \<lparr>rr_RequiresConfirmation = True, rr_ConfirmationToken = Some ?i\<rparr>, w2)"
      and w2: "w2 = v\<lparr>acalls := acalls v + 3, auuid_n := auuid_n v + 1, adb := confirm_again ?cfg (us_ID u) v\<rparr>"
    using register_again_quiet [of ?v u ?cfg] register_quiet [OF ready, of env rand2 name second] ready uid(3) known name quiet
    by (simp add: has_user_iff confirm_again_def new_token_def)
  have "Register env rand2 name second (w1\<lparr>aclock := t\<rparr>)
      = (Inr \<lparr>rr_RequiresConfirmation = True, rr_ConfirmationToken = Some ?i\<rparr>, w2)"
    unfolding v_def [symmetric] by (rule run2)
  with run1 show ?thesis
  proof (rule that)
    show "ready w2" unfolding w2 by (rule ready_confirm_again [OF ready]) (use known in \<open>simp add: has_user_iff\<close>)
    show "get_user (adb w2) (us_ID u) = Some u" using known by (simp add: w2 confirm_again_def)
    show "auuid_in w2 ?i = Some ?i" using uuid_in_own [OF v(4)] by (simp add: w2)
    have "tbl_get tt_Token ?i (confirm_t (adb v)) = None"
      using fresh_tokens(5) [OF v(4), of "auuid_n v"] by (simp add: tbl_get_None_iff)
    then show "tbl_get tt_Token ?i (confirm_t (adb w2))
        = Some (new_token ?i (t + cf_ConfirmationTokenValidity ?cfg) (us_ID u) v)"
      by (simp add: w2 confirm_again_def tbl_get_append tbl_get_Cons new_token_def) (simp add: v_def)
  qed (simp_all add: new_token_def)
qed

lemma confirmed_user:
  assumes "ready w" and "auuid_in w t = Some i" and "tbl_get tt_Token i (confirm_t (adb w)) = Some row"
    and "aclock w < tt_ValidUntil row" and "get_user (adb w) (tt_UserID row) = Some u"
    and "\<not> us_IsActive u" and "us_RequiresConfirmation u" and "us_Username u = Some n"
  obtains r w' v where "CompleteRegister cfg t w = (Inr r, w')" and "ready w'" and "named_user (adb w') n = Some v"
    and "us_Password v = us_Password u" and "us_IsActive v"
proof -
  have id: "us_ID u = tt_UserID row" using assms(5) by (rule get_user_id)
  obtain w' where run: "CompleteRegister cfg t w = (Inr (login_result cfg w), w')"
      and w': "w' = w\<lparr>acalls := acalls w + 9, auuid_n := auuid_n w + 2,
        adb := signed_in cfg (us_ID u) w (confirmed (us_ID u) i (aclock w) (adb w))\<rparr>"
    using complete_quiet [OF assms(1-7)] by blast
  have ready: "ready w'" using assms(1) run w' by (rule ready_completed)
  obtain v where v: "get_user (adb w') (us_ID u) = Some v" "us_Password v = us_Password u" "us_IsActive v" "us_Username v = Some n"
    using assms(5,8) id by (simp add: w' get_user_signed_in get_user_confirmed)
  have "named_user (adb w') n = Some v" using readyD(3) [OF ready] v(1,4) by (rule named_user_if)
  with run ready v that show ?thesis by blast
qed

section \<open>Registering without a confirmation\<close>

definition joined :: "AuthServer \<Rightarrow> string \<Rightarrow> string \<Rightarrow> accounts \<Rightarrow> account_db \<Rightarrow> account_db" where
  "joined cfg name hash w db =
     db\<lparr>users_t := users_t db @ [user_registered cfg name hash w],
        profiles_t := profiles_t db @ [\<lparr>pf_UserID = auuid w (auuid_n w), pf_LegalAcceptedAt = None,
                                        pf_CreatedAt = aclock w, pf_UpdatedAt = aclock w\<rparr>]\<rparr>"

lemma joined_tables [simp]:
  "users_t (joined cfg name hash w db) = users_t db @ [user_registered cfg name hash w]"
  "confirm_t (joined cfg name hash w db) = confirm_t db" "push_t (joined cfg name hash w db) = push_t db"
  "access_t (joined cfg name hash w db) = access_t db" "refresh_t (joined cfg name hash w db) = refresh_t db"
  "reset_t (joined cfg name hash w db) = reset_t db"
  by (simp_all add: joined_def)

lemma join_quiet:
  assumes "ready w" and "\<not> cf_RegistrationRequiresConfirmation cfg" and "named_user (adb w) name = None" and "length name \<le> 255"
  shows "register_new cfg name hash w = (Inr \<lparr>rr_RequiresConfirmation = False, rr_ConfirmationToken = None\<rparr>,
     w\<lparr>acalls := acalls w + 4, auuid_n := auuid_n w + 1, adb := joined cfg name hash w (adb w)\<rparr>)"
proof -
  note w = readyD [OF assms(1)]
  let ?h = "\<lambda>w. and_then (User_Insert Tx (new_user_row cfg name hash w) w) (\<lambda>user w.
     and_then (Profile_Insert Tx (us_ID user) w) (\<lambda>_ w.
       if cf_RegistrationRequiresConfirmation cfg
       then and_then (ConfirmationToken_Insert Tx (us_ID user) (aclock w + cf_ConfirmationTokenValidity cfg) w)
         (\<lambda>t w. (Inr \<lparr>rr_RequiresConfirmation = True, rr_ConfirmationToken = Some (tt_Token t)\<rparr>, w))
       else (Inr \<lparr>rr_RequiresConfirmation = False, rr_ConfirmationToken = None\<rparr>, w)))"
  have none: "users_named name (adb w) = []"
    using users_named_unique [OF w(3), of name] assms(3) by simp
  have "auuid w (auuid_n w) \<notin> pf_UserID ` set (profiles_t (adb w))"
    using w(3) fresh_tokens(1) [OF w(4), of "auuid_n w"] by (auto simp: schema_ok_def refs_ok_def has_user_def)
  then have run: "?h (w\<lparr>acalls := Suc (acalls w)\<rparr>) = (Inr \<lparr>rr_RequiresConfirmation = False, rr_ConfirmationToken = None\<rparr>,
       w\<lparr>acalls := acalls w + 3, auuid_n := auuid_n w + 1, apending := joined cfg name hash w\<rparr>)"
    using w fresh_tokens [OF w(4)] assms none
    by (simp add: User_Insert_def Profile_Insert_def uuid_generate_v4_def Let_def insert_tx_quiet has_user_def new_user_row_def
        user_registered_def joined_def [abs_def] comp_def)
  show ?thesis
    unfolding register_new_def
    by (subst transaction_quiet [where h = ?h, OF w(1,2) run]) (simp_all add: w commit_def)
qed

lemma joined_user:
  fixes env :: auth_env
  assumes "ready w" and "\<not> cf_RegistrationRequiresConfirmation (ae_config env)" and "named_user (adb w) (ToUsernameFormat name) = None"
    and "length (ToUsernameFormat name) \<le> 255" and "HashPassword (ae_IDKey env) rand password DefaultArgon2Params = Inr hash"
  obtains r w' u where "Register env rand name password w = (Inr r, w')" and "ready w'" and "aclock w' = aclock w" and "auuid w' = auuid w"
    and "named_user (adb w') (ToUsernameFormat name) = Some u" and "us_IsActive u" and "us_Password u = Some hash"
    and "us_Scopes u = cf_DefaultUserScopes (ae_config env)"
proof -
  note w = readyD [OF assms(1)]
  let ?cfg = "ae_config env" and ?n = "ToUsernameFormat name"
  let ?u = "user_registered ?cfg ?n hash w" and ?uid = "auuid w (auuid_n w)"
  obtain w' where run: "Register env rand name password w = (Inr \<lparr>rr_RequiresConfirmation = False, rr_ConfirmationToken = None\<rparr>, w')"
      and w': "w' = w\<lparr>acalls := acalls w + 5, auuid_n := auuid_n w + 1, adb := joined ?cfg ?n hash w (adb w)\<rparr>"
    using join_quiet [of "w\<lparr>acalls := Suc (acalls w)\<rparr>" ?cfg ?n hash] assms
    by (simp add: register_quiet hashed_def joined_def user_registered_def new_user_row_def)
  have "schema_ok (adb w')" using schema_after [OF register [of env w rand name password] assms(1)] run by simp
  then have "schema_ok (joined ?cfg ?n hash w (adb w))" by (simp add: w')
  moreover have "used_ids (joined ?cfg ?n hash w (adb w)) \<subseteq> used_ids (adb w) \<union> auuid w ` {auuid_n w ..< auuid_n w + 1}"
    by (auto simp: used_ids_def user_registered_def)
  ultimately have ready: "ready w'" unfolding w' by (intro ready_after [OF assms(1)]) simp
  have "tbl_get us_ID ?uid (users_t (adb w)) = None"
    using fresh_tokens(1) [OF w(4), of "auuid_n w"] by (simp add: tbl_get_None_iff)
  then have "get_user (adb w') ?uid = Some ?u"
    by (simp add: w' get_user_def tbl_get_append tbl_get_Cons user_registered_def)
  then have "named_user (adb w') ?n = Some ?u"
    by (rule named_user_if [OF readyD(3) [OF ready]]) (simp add: user_registered_def new_user_row_def)
  moreover have "us_IsActive ?u" "us_Password ?u = Some hash" "us_Scopes ?u = cf_DefaultUserScopes ?cfg" "aclock w' = aclock w" "auuid w' = auuid w"
    using assms(2) by (simp_all add: w' user_registered_def new_user_row_def)
  ultimately show ?thesis using that run ready by blast
qed

end
