(* ===== verification/WalletGate.thy ===== *)
theory WalletGate
  imports AccountRuns
begin

text \<open>
  When the middleware lets a request with the default configuration pass: which header it
  needs (\<open>gate_sound\<close>, under any failures), and that this is enough where the database does
  not fail (\<open>gate_complete\<close>).
\<close>

section \<open>The gate of the wallet\<close>

text \<open>Whether the value of an \<open>Authorization\<close> header opens the wallet's interface.\<close>

definition opens_wallet :: "(string \<Rightarrow> bool) \<Rightarrow> string \<Rightarrow> accounts \<Rightarrow> bool" where
  "opens_wallet is_uuid4 header w \<longleftrightarrow>
     (let token = drop 7 header in
      take 6 header = ''Bearer'' \<and> token \<noteq> [] \<and> is_uuid4 token
    \<and> (case auuid_in w token of None \<Rightarrow> False | Some i \<Rightarrow>
       case tbl_get tt_Token i (access_t (adb w)) of None \<Rightarrow> False | Some row \<Rightarrow>
         aclock w \<le> tt_ValidUntil row
       \<and> (case get_user (adb w) (tt_UserID row) of None \<Rightarrow> False | Some u \<Rightarrow>
            us_IsActive u \<and> ''app'' \<in> set (us_Scopes u))))"

lemma scheme_token:
  assumes "scheme \<noteq> []"
  shows "fst (Extract AuthTokenSourceHeader c key scheme) =
    (if take (length scheme) (rq_header c key) = scheme then drop (length scheme + 1) (rq_header c key) else [])"
  using assms by (auto simp: Extract_def Let_def)

lemma bearer_token:
  "fst (Extract AuthTokenSourceHeader c key ''Bearer'') =
    (if take 6 (rq_header c key) = ''Bearer'' then drop 7 (rq_header c key) else [])"
  by (subst scheme_token) (simp_all add: eval_nat_numeral)

lemma sql_InrD:
  assumes "sql e stmt w = (Inr x, w')"
  obtains g where "stmt (view e w) = Inr (x, g)" and "w' = store e g (w\<lparr>acalls := Suc (acalls w)\<rparr>)"
    and "afault w (acalls w) = None"
  using assms by (auto simp: sql_def Let_def split: sum.splits option.splits prod.splits)

lemma read_InrD:
  assumes "sql_read Pool q w = (Inr x, w')"
  shows "x = q (adb w)" and "w' = w\<lparr>acalls := Suc (acalls w)\<rparr>"
  using assms unfolding sql_read_def by (auto elim!: sql_InrD simp: store_def)

lemma by_token_InrD:
  assumes "by_token Pool t (\<lambda>u db. filter (\<lambda>r. kf r = u) (rows db)) w = (Inr row, w')" and "tbl_ok kf (rows (adb w))"
  obtains u where "auuid_in w t = Some u" and "row = tbl_get kf u (rows (adb w))" and "w' = w\<lparr>acalls := Suc (acalls w)\<rparr>"
  using assms unfolding by_token_def
  by (auto elim!: sql_InrD simp: store_def pick_key split: option.splits)

lemma with_user_InrD:
  assumes "with_user Pool f (Inr row, w) = (Inr x, w')"
  shows "x = map_option (\<lambda>t. (t, get_user (adb w) (f t))) row \<and> adb w' = adb w \<and> aclock w' = aclock w"
proof (cases row)
  case (Some t)
  then obtain u w1 where read: "sql_read Pool (\<lambda>db. get_user db (f t)) w = (Inr u, w1)" and "x = Some (t, u)" "w' = w1"
    using assms by (auto simp: with_user_def elim!: and_then_InrE)
  with Some show ?thesis using read_InrD [OF read] by simp
qed (use assms in \<open>simp add: with_user_def\<close>)

lemma with_user_InrE:
  assumes "with_user Pool f r = (Inr x, w')"
  obtains row w where "r = (Inr row, w)"
    and "x = map_option (\<lambda>t. (t, get_user (adb w) (f t))) row" and "adb w' = adb w" and "aclock w' = aclock w"
proof (cases r)
  case (Pair q w)
  then show ?thesis
  proof (cases q)
    case (Inr row)
    then show ?thesis using that Pair with_user_InrD [of f row w x w'] assms by blast
  qed (use assms in \<open>simp add: with_user_def\<close>)
qed

text \<open>A token and a user that pass; their profile plays no part.\<close>

definition passes :: "accounts \<Rightarrow> string \<Rightarrow> TimedToken \<Rightarrow> UserRow \<Rightarrow> bool" where
  "passes w t row u \<longleftrightarrow> (\<exists>i. auuid_in w t = Some i \<and> tbl_get tt_Token i (access_t (adb w)) = Some row)
     \<and> get_user (adb w) (tt_UserID row) = Some u"

lemma validator_InrD:
  assumes "DefaultAuthTokenValidator t w = (Inr res, w')" and "schema_ok (adb w)"
  obtains row u profile where "passes w t row u" and "ar_ValidUntil res = Some (tt_ValidUntil row)"
    and "ar_User res = LocalUserToDTO u profile" and "adb w' = adb w" and "aclock w' = aclock w"
proof -
  let ?load = "with_user Pool tt_UserID (by_token Pool t (\<lambda>t db. filter (\<lambda>r. tt_Token r = t) (access_t db)) w)"
  obtain row user w1 where load: "?load = (Inr (Some (row, Some user)), w1)"
    using assms(1) by (cases ?load) (auto simp: DefaultAuthTokenValidator_def split: sum.splits option.splits prod.splits)
  then obtain profile w2 where prof: "sql_read Pool (\<lambda>db. tbl_get pf_UserID (us_ID user) (profiles_t db)) w1 = (Inr profile, w2)"
      and res: "res = \<lparr>ar_Token = tt_Token row, ar_User = LocalUserToDTO user profile, ar_ValidUntil = Some (tt_ValidUntil row)\<rparr>" "w' = w2"
    using assms(1) by (auto simp: DefaultAuthTokenValidator_def split: sum.splits prod.splits)
  obtain row' w0 where bt: "by_token Pool t (\<lambda>t db. filter (\<lambda>r. tt_Token r = t) (access_t db)) w = (Inr row', w0)"
      and x: "Some (row, Some user) = map_option (\<lambda>t. (t, get_user (adb w0) (tt_UserID t))) row'" and w1: "adb w1 = adb w0" "aclock w1 = aclock w0"
    using load by (rule with_user_InrE)
  have "tbl_ok tt_Token (access_t (adb w))" using assms(2) by (simp add: schema_ok_def)
  then obtain i where "auuid_in w t = Some i" "row' = tbl_get tt_Token i (access_t (adb w))" and w0: "w0 = w\<lparr>acalls := Suc (acalls w)\<rparr>"
    using by_token_InrD [where rows = access_t and kf = tt_Token, OF bt] by blast
  then have "passes w t row user" using x [symmetric] by (auto simp: passes_def)
  moreover have "w2 = w1\<lparr>acalls := Suc (acalls w1)\<rparr>" using prof by (rule read_InrD)
  ultimately show ?thesis using that res w0 w1 by simp
qed

lemma validator_quiet:
  assumes "aquiet w" and "schema_ok (adb w)" and "passes w t row u"
  obtains profile where "DefaultAuthTokenValidator t w
    = (Inr \<lparr>ar_Token = tt_Token row, ar_User = LocalUserToDTO u profile, ar_ValidUntil = Some (tt_ValidUntil row)\<rparr>,
       w\<lparr>acalls := acalls w + 3\<rparr>)"
proof -
  obtain i where i: "auuid_in w t = Some i" "tbl_get tt_Token i (access_t (adb w)) = Some row"
      and u: "get_user (adb w) (tt_UserID row) = Some u"
    using assms(3) by (auto simp: passes_def)
  have "tbl_ok tt_Token (access_t (adb w))" using assms(2) by (simp add: schema_ok_def)
  note load = loaded_quiet [where rows = access_t and kf = tt_Token and f = tt_UserID, OF assms(1) this i]
  show ?thesis
    using that [of "tbl_get pf_UserID (us_ID u) (profiles_t (adb w))"] assms(1) u
    by (simp add: DefaultAuthTokenValidator_def load read_quiet)
qed

lemma opens_wallet_iff:
  "opens_wallet is_uuid4 header w \<longleftrightarrow> take 6 header = ''Bearer'' \<and> drop 7 header \<noteq> [] \<and> is_uuid4 (drop 7 header)
    \<and> (\<exists>row u. passes w (drop 7 header) row u \<and> aclock w \<le> tt_ValidUntil row \<and> us_IsActive u \<and> ''app'' \<in> set (us_Scopes u))"
  by (auto simp: opens_wallet_def Let_def passes_def split: option.splits)

lemma authorize_default:
  assumes "rq_user c = None"
  shows "authorize srv (DefaultAuthConfig is_uuid4) c w =
    (let t = if take 6 (rq_header c ''Authorization'') = ''Bearer'' then drop 7 (rq_header c ''Authorization'') else []
     in if t = [] then (Inl (EchoErr 401), w)
        else if \<not> is_uuid4 t then (Inl ErrBadRequestMalformedToken, w)
        else with_token srv (DefaultAuthConfig is_uuid4) c t w)"
proof -
  obtain t found where x: "Extract AuthTokenSourceHeader c ''Authorization'' ''Bearer'' = (t, found)" by (rule prod.exhaust)
  with bearer_token [of c "''Authorization''"]
  have "t = (if take 6 (rq_header c ''Authorization'') = ''Bearer'' then drop 7 (rq_header c ''Authorization'') else [])" by simp
  then show ?thesis
    using assms x by (simp add: authorize_def DefaultAuthConfig_def failure_error_def Let_def)
qed

lemma gate_sound:
  assumes "authorize srv (DefaultAuthConfig is_uuid4) c w = (Inr c', w')" and "rq_user c = None" and "schema_ok (adb w)"
  shows "opens_wallet is_uuid4 (rq_header c ''Authorization'') w" and "adb w' = adb w"
proof -
  let ?h = "rq_header c ''Authorization''" and ?cfg = "DefaultAuthConfig is_uuid4"
  have h: "take 6 ?h = ''Bearer''" "drop 7 ?h \<noteq> []" "is_uuid4 (drop 7 ?h)"
      and token: "with_token srv ?cfg c (drop 7 ?h) w = (Inr c', w')"
    using assms(1) unfolding authorize_default [OF assms(2)] Let_def
    by (simp_all split: if_splits)
  obtain res w1 where val: "DefaultAuthTokenValidator (drop 7 ?h) w = (Inr res, w1)"
    using token by (cases "DefaultAuthTokenValidator (drop 7 ?h) w")
      (auto simp: with_token_def DefaultAuthConfig_def split: sum.splits if_splits)
  obtain row u profile where row: "passes w (drop 7 ?h) row u" "ar_ValidUntil res = Some (tt_ValidUntil row)"
      "ar_User res = LocalUserToDTO u profile" "adb w1 = adb w" "aclock w1 = aclock w"
    using validator_InrD [OF val assms(3)] .
  have "aclock w \<le> tt_ValidUntil row \<and> us_IsActive u \<and> ''app'' \<in> set (us_Scopes u) \<and> w' = w1"
    using token val row
    by (auto simp: with_token_def DefaultAuthConfig_def Let_def check_user_def CheckUserScopes_def LocalUserToDTO_def
        split: if_splits option.splits)
  then show "opens_wallet is_uuid4 ?h w" "adb w' = adb w"
    using h row by (auto simp: opens_wallet_iff)
qed

lemma gate_complete:
  assumes "opens_wallet is_uuid4 (rq_header c ''Authorization'') w" and "rq_user c = None" and "schema_ok (adb w)" and "aquiet w"
  obtains c' w' where "authorize srv (DefaultAuthConfig is_uuid4) c w = (Inr c', w')"
proof -
  let ?h = "rq_header c ''Authorization''" and ?cfg = "DefaultAuthConfig is_uuid4"
  obtain row u where h: "take 6 ?h = ''Bearer''" "drop 7 ?h \<noteq> []" "is_uuid4 (drop 7 ?h)" and row: "passes w (drop 7 ?h) row u"
      "aclock w \<le> tt_ValidUntil row" "us_IsActive u" "''app'' \<in> set (us_Scopes u)"
    using assms(1) by (auto simp: opens_wallet_iff)
  obtain profile where "DefaultAuthTokenValidator (drop 7 ?h) w
      = (Inr \<lparr>ar_Token = tt_Token row, ar_User = LocalUserToDTO u profile, ar_ValidUntil = Some (tt_ValidUntil row)\<rparr>,
         w\<lparr>acalls := acalls w + 3\<rparr>)"
    using validator_quiet [OF assms(4,3) row(1)] .
  moreover have "us_Scopes u \<noteq> []" using row(4) by auto
  ultimately show ?thesis
    using that h row unfolding authorize_default [OF assms(2)]
    by (simp add: Let_def with_token_def DefaultAuthConfig_def check_user_def CheckLastAuthenticatedAt_def CheckUserScopes_def
        LocalUserToDTO_def)
qed

lemma rejection_status:
  assumes "authorize srv (DefaultAuthConfig is_uuid4) c w = (Inl f, w')" and "rq_user c = None"
  shows "http_status f \<in> {400, 401, 403, 500}"
proof -
  have "DefaultAuthTokenValidator t w = (Inl (PanicErr p), w1) \<Longrightarrow> http_status (PanicErr p) = 500" for t p w1 by simp
  then show ?thesis
    using assms(1) unfolding authorize_default [OF assms(2)] Let_def with_token_def
    by (auto simp: DefaultAuthConfig_def failure_error_def ErrBadRequestMalformedToken_def ErrInternalServerError_def
        ErrForbiddenUserDeactivated_def check_user_def ErrUnauthorizedLastAuthenticatedAtExceeded_def
        ErrForbiddenMissingScopes_def
        split: if_splits sum.splits prod.splits option.splits elim!: fail_panics.elims)
qed

lemma gate_cases:
  assumes "APIV1MPC srv is_uuid4 handler c (w, s) = (r, w', s')"
  obtains (passed) c' reply where "authorize srv (DefaultAuthConfig is_uuid4) c w = (Inr c', w')" and "handler s = (reply, s')"
      and "r = Inr reply"
    | (shut) f where "authorize srv (DefaultAuthConfig is_uuid4) c w = (Inl f, w')" and "r = Inl f" and "s' = s"
  using assms by (auto simp: APIV1MPC_def Let_def split: sum.splits prod.splits)

text \<open>The token of a successful login at the gate.\<close>

lemma login_opens:
  assumes "ready w" and "Login env name password w = (Inr r, w')" and "rq_user c = None"
    and "rq_header c ''Authorization'' = ''Bearer '' @ lr_AccessToken r" and "is_uuid4 (lr_AccessToken r)" and "\<not> is_uuid4 []"
  shows "\<exists>u stored. named_user (adb w) (ToUsernameFormat name) = Some u \<and> us_IsActive u \<and> us_Password u = Some stored
    \<and> ComparePasswordAndHash (ae_IDKey env) password stored = Inr True
    \<and> (\<forall>t. (\<exists>reply. fst (APIV1MPC srv is_uuid4 handler c (w'\<lparr>aclock := t\<rparr>, s)) = Inr reply)
          \<longleftrightarrow> t \<le> aclock w + cf_AccessTokenValidity (ae_config env) \<and> ''app'' \<in> set (us_Scopes u))"
proof -
  note w = readyD [OF assms(1)]
  obtain u stored where u: "named_user (adb w) (ToUsernameFormat name) = Some u" "us_IsActive u" "us_Password u = Some stored"
      "ComparePasswordAndHash (ae_IDKey env) password stored = Inr True"
    and r: "r = login_result (ae_config env) w"
    and w': "w' = w\<lparr>acalls := acalls w + 6, auuid_n := auuid_n w + 2, adb := signed_in (ae_config env) (us_ID u) w (adb w)\<rparr>"
    using assms(1,2) by (rule login_InrD)
  have uid: "get_user (adb w) (us_ID u) = Some u" using named_user_SomeD [OF w(3) u(1)] by simp
  have schema: "schema_ok (adb (w'\<lparr>aclock := t\<rparr>))" for t
    using schema_after [OF login [of env w name password] assms(1)] assms(2) by simp
  have opens: "opens_wallet is_uuid4 (rq_header c ''Authorization'') (w'\<lparr>aclock := t\<rparr>)
      \<longleftrightarrow> t \<le> aclock w + cf_AccessTokenValidity (ae_config env) \<and> ''app'' \<in> set (us_Scopes u)" for t
    using assms(4-6) u(2) uid unfolding r w'
    by (auto simp: opens_wallet_def Let_def login_result_def uuid_in_own [OF w(4)] get_new_access [OF w(4)] new_token_def
        get_user_signed_in simp del: signed_in_tables)
  have quiet: "aquiet (w'\<lparr>aclock := t\<rparr>)" for t using w(1) by (simp add: w')
  have "(\<exists>reply. fst (APIV1MPC srv is_uuid4 handler c (w'\<lparr>aclock := t\<rparr>, s)) = Inr reply)
      \<longleftrightarrow> opens_wallet is_uuid4 (rq_header c ''Authorization'') (w'\<lparr>aclock := t\<rparr>)" for t
  proof -
    obtain a w1 s1 where run: "APIV1MPC srv is_uuid4 handler c (w'\<lparr>aclock := t\<rparr>, s) = (a, w1, s1)" by (rule prod_cases3)
    then show ?thesis
    proof (cases rule: gate_cases)
      case (passed c' reply)
      with run show ?thesis using gate_sound [OF passed(1) assms(3) schema] by simp
    next
      case (shut f)
      with run show ?thesis using gate_complete [OF _ assms(3) schema quiet, of is_uuid4 t srv] by fastforce
    qed
  qed
  with u opens show ?thesis by blast
qed

end
