(* ===== verification/AccountFailures.thy ===== *)
theory AccountFailures
  imports AccountRuns
begin

text \<open>
  What failing calls of the database leave: an operation that answers with an error has
  changed nothing, and a commit that is lost is answered as a success.
\<close>

section \<open>Operations that fail\<close>

text \<open>What runs inside a transaction leaves the committed tables alone until the commit.\<close>

lemma sql_tx_adb [simp]: "adb (snd (sql Tx stmt w)) = adb w"
  by (simp add: sql_def store_def Let_def split: sum.split option.split)

lemma tx_adb [simp]:
  "adb (snd (sql_write Tx g w)) = adb w" "adb (snd (sql_insert Tx table ok put w)) = adb w"
  "adb (snd (RefreshToken_Delete Tx t w)) = adb w" "adb (snd (User_Update Tx uid f w)) = adb w"
  "adb (snd (AccessTokens_DeleteByToken Tx t w)) = adb w" "adb (snd (AccessTokens_DeleteByUser Tx uid w)) = adb w"
  "adb (snd (RefreshTokens_DeleteByUser Tx uid w)) = adb w" "adb (snd (RefreshTokens_DeleteByText Tx t w)) = adb w"
  "adb (snd (ConfirmationToken_Delete Tx t w)) = adb w" "adb (snd (Users_DeleteAll Tx uid w)) = adb w"
  by (simp_all add: sql_write_def sql_insert_def RefreshToken_Delete_def User_Update_def AccessTokens_DeleteByToken_def
      AccessTokens_DeleteByUser_def RefreshTokens_DeleteByUser_def RefreshTokens_DeleteByText_def ConfirmationToken_Delete_def
      Users_DeleteAll_def)

lemma and_then_adb:
  assumes "adb (snd r) = db" and "\<And>x w. adb w = db \<Longrightarrow> adb (snd (k x w)) = db"
  shows "adb (snd (and_then r k)) = db"
  using assms by (auto simp: and_then_def split: prod.splits sum.splits)

lemma inserts_adb [simp]:
  "adb (snd (AccessToken_Insert Tx uid until w)) = adb w" "adb (snd (RefreshToken_Insert Tx uid w)) = adb w"
  "adb (snd (PasswordResetToken_Insert Tx uid until w)) = adb w"
  by (auto simp: AccessToken_Insert_def RefreshToken_Insert_def PasswordResetToken_Insert_def uuid_generate_v4_def Let_def
      intro!: and_then_adb)

lemma authenticate_adb [simp]: "adb (snd (authenticateUser cfg Tx user ends w)) = adb w"
  unfolding authenticateUser_def by (auto intro!: and_then_adb)

lemma failed_transaction:
  assumes "WithTransaction h w = (Inl f, w')" and "\<And>v. adb (snd (h v)) = adb v"
  shows "adb w' = adb w"
proof -
  obtain r w1 where start: "sql_read Pool (\<lambda>_. ()) w = (r, w1)" by (rule prod.exhaust)
  then have "adb w1 = adb w" using sql_read_frame [of Pool "\<lambda>_. ()" w] by simp
  moreover obtain q w2 where "h (w1\<lparr>apending := id\<rparr>) = (q, w2)" by (rule prod.exhaust)
  moreover from this have "adb w2 = adb w1" using assms(2) [of "w1\<lparr>apending := id\<rparr>"] by simp
  ultimately show ?thesis
    using assms(1) by (auto simp: WithTransaction_def start rollback_def split: sum.splits)
qed

text \<open>A step that, when it fails, has left the tables as they were.\<close>

lemma and_then_failed:
  assumes "and_then r k = (Inl f, w')" and "adb (snd r) = db"
    and "\<And>x w. r = (Inr x, w) \<Longrightarrow> adb w = db \<Longrightarrow> k x w = (Inl f, w') \<Longrightarrow> adb w' = db"
  shows "adb w' = db"
  using assms by (auto simp: and_then_def split: prod.splits sum.splits)

lemma failed_update_password:
  assumes "UpdatePassword env rand user cur skip new w = (Inl f, w')"
  shows "adb w' = adb w"
proof -
  have tx: "adb (snd (and_then (User_Update Tx (du_ID user) (\<lambda>u. u\<lparr>us_Password := Some hash\<rparr>) v)
      (\<lambda>_. authenticateUser (ae_config env) Tx (user\<lparr>du_PasswordHash := Some hash\<rparr>) True))) = adb v" for hash v
    by (auto intro!: and_then_adb)
  show ?thesis
    using assms
    by (auto simp: UpdatePassword_def hashed_def split: if_splits option.splits sum.splits
        dest: failed_transaction [OF _ tx])
qed

lemma loaded_adb [simp]: "adb (snd (with_user Pool f (by_token Pool t q w))) = adb w"
  by simp

lemma failed_reset_password:
  assumes "ResetPassword env rand token new w = (Inl f, w')"
  shows "adb w' = adb w"
  using assms unfolding ResetPassword_def
  by (rule and_then_failed) (auto split: option.splits if_splits dest!: failed_update_password)

lemma failed_init_reset:
  assumes "InitPasswordReset cfg name w = (Inl f, w')"
  shows "adb w' = adb w"
proof -
  have tx: "adb (snd (and_then (One Tx (q v) v) (\<lambda>token w. case token of
        Some t \<Rightarrow> (Inr (Some (tt_Token t)), w)
      | None \<Rightarrow> and_then (PasswordResetToken_Insert Tx uid (u w) w) (\<lambda>t w. (Inr (Some (tt_Token t)), w))))) = adb v" for q uid u v
    by (auto intro!: and_then_adb split: option.split)
  show ?thesis
    using assms unfolding InitPasswordReset_def
    by (rule and_then_failed)
      (auto split: option.splits if_splits elim!: and_then_failed dest!: failed_transaction [OF _ tx])
qed

lemma failed_logout: "Logout access refresh w = (Inl f, w') \<Longrightarrow> adb w' = adb w"
  unfolding Logout_def by (erule failed_transaction) (auto intro!: and_then_adb split: option.split)

lemma failed_login:
  assumes "Login env name password w = (Inl f, w')"
  shows "adb w' = adb w"
proof -
  obtain r w1 where find: "One Pool (users_named (ToUsernameFormat name)) w = (r, w1)" by (rule prod.exhaust)
  then have "adb w1 = adb w" using One_frame(1) [of Pool "users_named (ToUsernameFormat name)" w] by simp
  with find show ?thesis
    using assms by (auto simp: Login_def or_else_def hashed_def split: sum.splits option.splits if_splits
        dest: failed_transaction [OF _ authenticate_adb])
qed

lemma failed_refresh:
  assumes "Refresh cfg token w = (Inl f, w')"
  shows "adb w' = adb w"
proof -
  have tx: "adb (snd (and_then (RefreshToken_Delete Tx t v) (\<lambda>_. authenticateUser cfg Tx user False))) = adb v" for t v user
    by (auto intro!: and_then_adb)
  have load: "adb (snd (refresh_load token w)) = adb w"
    unfolding refresh_load_def by (auto intro!: and_then_adb split: option.split)
  show ?thesis
    using assms unfolding Refresh_def
    by (rule and_then_failed) (auto simp: load refresh_run_def dest: failed_transaction [OF _ tx])
qed

lemma failed_complete:
  assumes "CompleteRegister cfg token w = (Inl f, w')"
  shows "adb w' = adb w"
  using assms unfolding CompleteRegister_def
  by (rule failed_transaction) (auto intro!: and_then_adb split: option.split)

lemma failed_delete_account:
  assumes "DeleteUserAccount env user password w = (Inl f, w')"
  shows "adb w' = adb w"
  using assms
  by (auto simp: DeleteUserAccount_def hashed_def split: if_splits option.splits sum.splits
      dest: failed_transaction [where h = "Users_DeleteAll Tx (du_ID user)"])

lemma failed_register_new:
  assumes "register_new cfg name hash w = (Inl f, w')"
  shows "adb w' = adb w"
proof -
  have ins: "adb (snd (User_Insert Tx u v)) = adb v" "adb (snd (Profile_Insert Tx uid v)) = adb v"
      "adb (snd (ConfirmationToken_Insert Tx uid until v)) = adb v" for u uid until v
    by (auto simp: User_Insert_def Profile_Insert_def ConfirmationToken_Insert_def uuid_generate_v4_def Let_def intro!: and_then_adb)
  show ?thesis
    using assms unfolding register_new_def
    by (rule failed_transaction) (auto intro!: and_then_adb simp: ins)
qed

section \<open>One call that fails\<close>

lemma sql_at:
  assumes "afault w (acalls w) = None"
  shows "sql e stmt w = (case stmt (view e w) of
      Inl f \<Rightarrow> (Inl f, w\<lparr>acalls := Suc (acalls w)\<rparr>)
    | Inr (x, g) \<Rightarrow> (Inr x, store e g (w\<lparr>acalls := Suc (acalls w)\<rparr>)))"
  using assms by (simp add: sql_def Let_def split: sum.split)

text \<open>The call with the given number gets lost; the others answer.\<close>

definition lost_call :: "nat \<Rightarrow> string \<Rightarrow> accounts \<Rightarrow> accounts" where
  "lost_call k msg w = w\<lparr>afault := (\<lambda>n. if n = k then Some (msg, False) else None)\<rparr>"

lemma authenticate_before_loss:
  assumes "v = lost_call (acalls w + 3) msg w" and "has_user (du_ID user) (adb w)" and "apending w = id"
    and "auuid w (auuid_n w) \<notin> tt_Token ` set (access_t (adb w))"
    and "auuid w (Suc (auuid_n w)) \<notin> rt_Token ` set (refresh_t (adb w))"
  shows "authenticateUser cfg Tx user False v = (Inr (login_result cfg w),
      v\<lparr>acalls := acalls w + 3, auuid_n := auuid_n w + 2, apending := signed_in cfg (du_ID user) w\<rparr>)"
  using assms(2-)
  by (simp add: assms(1) lost_call_def authenticateUser_def AccessToken_Insert_def RefreshToken_Insert_def User_Update_def
      uuid_generate_v4_def Let_def sql_insert_def sql_write_def sql_at store_def login_result_def signed_in_def [abs_def] comp_def
      eval_nat_numeral has_user_def)
    (simp add: new_token_def)

lemma transaction_loses_commit:
  assumes "apending w = id" and "afault w (acalls w) = None"
    and "h (w\<lparr>acalls := Suc (acalls w)\<rparr>) = (Inr x, w1)" and "afault w1 (acalls w1) = Some (msg, False)"
  shows "WithTransaction h w = (Inr x, rollback (w1\<lparr>acalls := Suc (acalls w1)\<rparr>))"
proof -
  have "w\<lparr>acalls := Suc (acalls w), apending := id\<rparr> = w\<lparr>acalls := Suc (acalls w)\<rparr>"
    using assms(1) by simp
  then show ?thesis
    using assms(2-) by (simp add: WithTransaction_def sql_read_def sql_at store_def)
qed

lemma login_loses_commit:
  assumes "ready w" and "Login env name password w = (Inr r, w1)"
  obtains w2 where "Login env name password (lost_call (acalls w + 5) msg w) = (Inr r, w2)" and "adb w2 = adb w"
    and "auuid_in w2 = auuid_in w" and "auuid w2 = auuid w"
proof -
  note w = readyD [OF assms(1)]
  let ?v = "lost_call (acalls w + 5) msg w" and ?cfg = "ae_config env"
  let ?w1 = "w\<lparr>acalls := Suc (acalls w)\<rparr>" and ?w2 = "w\<lparr>acalls := Suc (Suc (acalls w))\<rparr>"
  obtain u stored where u: "named_user (adb w) (ToUsernameFormat name) = Some u" "us_IsActive u" "us_Password u = Some stored"
      "ComparePasswordAndHash (ae_IDKey env) password stored = Inr True" and r: "r = login_result ?cfg w"
    using login_InrD [OF assms] by metis
  let ?user = "LocalUserToDTO u None"
  let ?v1 = "?v\<lparr>acalls := Suc (acalls w)\<rparr>"
  have find: "One Pool (users_named (ToUsernameFormat name)) ?v = (Inr (Some u), ?v1)"
    using u(1) w(3) by (simp add: One_def sql_read_def lost_call_def sql_at store_def pick_named)
  have known: "has_user (du_ID ?user) (adb ?w2)"
    using named_user_SomeD [OF w(3) u(1)] by (simp add: has_user_iff LocalUserToDTO_def)
  have "?v\<lparr>acalls := Suc (Suc (acalls w))\<rparr> = lost_call (acalls ?w2 + 3) msg ?w2"
    by (simp add: lost_call_def eval_nat_numeral)
  then obtain w3 where auth: "authenticateUser ?cfg Tx ?user False (?v1\<lparr>acalls := Suc (acalls ?v1)\<rparr>) = (Inr r, w3)"
      and w3: "w3 = (lost_call (acalls ?w2 + 3) msg ?w2)\<lparr>acalls := acalls ?w2 + 3, auuid_n := auuid_n ?w2 + 2,
        apending := signed_in ?cfg (du_ID ?user) ?w2\<rparr>"
    using authenticate_before_loss [where cfg = ?cfg, OF HOL.refl known] w(2) fresh_tokens [OF w(4)] r by (simp add: login_result_def)
  have "WithTransaction (authenticateUser ?cfg Tx ?user False) ?v1 = (Inr r, rollback (w3\<lparr>acalls := Suc (acalls w3)\<rparr>))"
    by (rule transaction_loses_commit [where msg = msg and h = "authenticateUser ?cfg Tx ?user False" and w = ?v1, OF _ _ auth])
      (use w(2) in \<open>simp_all add: w3 lost_call_def\<close>)
  then have "Login env name password ?v = (Inr r, rollback (w3\<lparr>acalls := Suc (acalls w3)\<rparr>))"
    using find u by (simp add: Login_def hashed_def)
  then show ?thesis by (rule that) (simp_all add: w3 rollback_def lost_call_def)
qed

end
