(* ===== verification/AccountProps.thy ===== *)
theory AccountProps
  imports AccountRegistration WalletGate AccountFailures
begin

text \<open>The properties of user accounts and of the gate before the wallet.\<close>

section \<open>A sample database\<close>

definition sample_IDKey :: idkey where
  "sample_IDKey pw salt t m th n = Inr (take (unat n) (pw @ replicate (unat n) 0))"

definition sample_rand :: "nat \<Rightarrow> err + byte list" where
  "sample_rand n = Inr (replicate n 7)"

definition sample_hash :: string where
  "sample_hash = hash_text DefaultArgon2Params (replicate 16 7) (bytes_of ''secret'' @ replicate 26 0)"

definition sample_cfg :: AuthServer where
  "sample_cfg = \<lparr>cf_AccessTokenValidity = 86400000000, cf_PasswordResetTokenValidity = 900000000,
     cf_PasswordResetTokenDebounceDuration = 60000000, cf_PasswordResetTokenReuseDuration = 0,
     cf_DefaultUserScopes = [''app''], cf_LastAuthenticatedAtThreshold = 900000000,
     cf_RegistrationRequiresConfirmation = True, cf_ConfirmationTokenValidity = 86400000000,
     cf_ConfirmationTokenDebounceDuration = 60000000\<rparr>"

definition sample_env :: auth_env where
  "sample_env = \<lparr>ae_config = sample_cfg, ae_IDKey = sample_IDKey\<rparr>"

definition sample_user :: UserRow where
  "sample_user = \<lparr>us_ID = ''u1'', us_Username = Some ''ann@b.c'', us_Password = Some sample_hash, us_IsActive = True,
     us_Scopes = [''app''], us_LastAuthenticatedAt = None, us_CreatedAt = 5, us_UpdatedAt = 5, us_RequiresConfirmation = False\<rparr>"

definition sample_db :: account_db where
  "sample_db = \<lparr>users_t = [sample_user], profiles_t = [],
     access_t = [\<lparr>tt_Token = ''a1'', tt_ValidUntil = 200, tt_UserID = ''u1'', tt_CreatedAt = 5, tt_UpdatedAt = 5\<rparr>],
     refresh_t = [\<lparr>rt_Token = ''r1'', rt_UserID = ''u1'', rt_CreatedAt = 5, rt_UpdatedAt = 5\<rparr>],
     reset_t = [\<lparr>tt_Token = ''p1'', tt_ValidUntil = 200, tt_UserID = ''u1'', tt_CreatedAt = 5, tt_UpdatedAt = 5\<rparr>],
     confirm_t = [], push_t = []\<rparr>"

definition sample_accounts :: accounts where
  "sample_accounts = \<lparr>adb = sample_db, apending = id, aclock = 100, afault = (\<lambda>_. None), acalls = 0,
     auuid = (\<lambda>n. replicate (Suc n) CHR ''i''), auuid_n = 0, auuid_in = Some, apick = (\<lambda>_. 0)\<rparr>"

lemmas sample_simps = sample_accounts_def sample_db_def sample_user_def get_user_def tbl_get_Cons

lemma sample_schema: "schema_ok (adb sample_accounts)"
  by (simp add: sample_accounts_def sample_db_def sample_user_def schema_ok_def tbl_ok_def refs_ok_def has_user_def names_ok_def)

lemma sample_ready: "ready sample_accounts"
proof -
  have "inj (\<lambda>n. replicate (Suc n) CHR ''i'')" by (rule injI) (metis length_replicate nat.inject)
  then have "fresh_ids sample_accounts"
    by (simp add: fresh_ids_def sample_accounts_def used_ids_def sample_db_def sample_user_def)
  then show ?thesis using sample_schema by (simp add: ready_def aquiet_def) (simp add: sample_accounts_def)
qed

lemma sample_IDKey_length: "right_length sample_IDKey"
  by (simp add: right_length_def sample_IDKey_def min_def)

lemma sample_password: "HashPassword sample_IDKey sample_rand ''secret'' DefaultArgon2Params = Inr sample_hash"
  by (simp add: HashPassword_def generateSalt_def sample_rand_def derive_def sample_IDKey_def DefaultArgon2Params_def
      bytes_of_def sample_hash_def)

lemma sample_key: "derive sample_IDKey q (replicate 16 7) DefaultArgon2Params = Inr (take 32 (bytes_of q @ replicate 32 0))"
  by (simp add: derive_def sample_IDKey_def DefaultArgon2Params_def)

lemma sample_compare:
  "ComparePasswordAndHash sample_IDKey q sample_hash = Inr (take 32 (bytes_of q @ replicate 32 0) = bytes_of ''secret'' @ replicate 26 0)"
proof -
  obtain salt key where salt: "sample_rand (unat (a2_SaltLength DefaultArgon2Params)) = Inr salt"
      and key: "derive sample_IDKey ''secret'' salt DefaultArgon2Params = Inr key"
      and q: "ComparePasswordAndHash sample_IDKey q sample_hash = map_sum id (\<lambda>k. k = key) (derive sample_IDKey q salt DefaultArgon2Params)"
    using compare_hash [OF sample_password sample_IDKey_length] by (simp add: DefaultArgon2Params_def) blast
  have "salt = replicate 16 7" using salt by (simp add: sample_rand_def DefaultArgon2Params_def)
  with key q show ?thesis by (simp add: sample_key bytes_of_def)
qed

lemma sample_name: "named_user (adb sample_accounts) (ToUsernameFormat ''Ann@b.c '') = Some sample_user"
proof -
  have "ToUsernameFormat ''Ann@b.c '' = ''ann@b.c''" by code_simp
  then show ?thesis by (simp add: named_user_def users_named_def sample_accounts_def sample_db_def sample_user_def)
qed

section \<open>Passwords\<close>

text \<open>
  C28: A stored hash can be compared with any password: for a hash made by HashPassword the
  comparison takes the salt and the key out of the text again, and accepts a password
  exactly when Argon2 derives the same key from it.
\<close>
theorem hash_verifies:
  assumes "HashPassword A rand password params = Inr hash" and "right_length A"
    and "int (unat (a2_KeyLength params)) \<le> 2147483647"
  shows "\<exists>salt key. rand (unat (a2_SaltLength params)) = Inr salt \<and> derive A password salt params = Inr key
    \<and> (\<forall>q. ComparePasswordAndHash A q hash = map_sum id (\<lambda>k. k = key) (derive A q salt params))"
  using compare_hash [OF assms] by blast

lemma hash_verifies_witness:
  "\<exists>salt key. sample_rand 16 = Inr salt \<and> derive sample_IDKey ''pw'' salt DefaultArgon2Params = Inr key
    \<and> (\<forall>q. ComparePasswordAndHash sample_IDKey q
            (hash_text DefaultArgon2Params (replicate 16 7) (bytes_of ''pw'' @ replicate 30 0))
          = map_sum id (\<lambda>k. k = key) (derive sample_IDKey q salt DefaultArgon2Params))"
  using hash_verifies [of sample_IDKey sample_rand "''pw''" DefaultArgon2Params, OF _ sample_IDKey_length]
  by (simp add: HashPassword_def generateSalt_def sample_rand_def derive_def sample_IDKey_def DefaultArgon2Params_def bytes_of_def)

section \<open>The gate before the wallet\<close>

definition sample_request :: "string \<Rightarrow> request" where
  "sample_request header = \<lparr>rq_path = ''/api/v1/mpc/keys'', rq_header = (\<lambda>k. if k = ''Authorization'' then header else []),
     rq_query = (\<lambda>_. []), rq_form = (\<lambda>_. []), rq_user = None, rq_token = None\<rparr>"

text \<open>
  C4: A request reaches a handler of the wallet exactly when its Authorization header
  carries, after "Bearer" and one byte, a text of the form of a UUID that is the token of a
  row still valid now, of an active user with the scope app; the handler then runs once on
  the wallet's state. Whatever the database does, a request that is turned away leaves the
  wallet's state as it was, and one without such a token is turned away with 400, 401, 403
  or 500.
\<close>
theorem wallet_request_admitted_iff:
  assumes "schema_ok (adb w)" and "rq_user c = None" and "APIV1MPC srv is_uuid4 handler c (w, s) = (r, w', s')"
  shows "(\<exists>reply. r = Inr reply \<and> handler s = (reply, s') \<and> adb w' = adb w
            \<and> opens_wallet is_uuid4 (rq_header c ''Authorization'') w)
       \<or> (\<exists>f. r = Inl f \<and> http_status f \<in> {400, 401, 403, 500} \<and> s' = s
            \<and> ((\<forall>n. afault w n = None) \<longrightarrow> \<not> opens_wallet is_uuid4 (rq_header c ''Authorization'') w))"
  using assms(3)
proof (cases rule: gate_cases)
  case (passed c' reply)
  then show ?thesis using gate_sound [OF passed(1) assms(2,1)] by blast
next
  case (shut f)
  have "\<not> opens_wallet is_uuid4 (rq_header c ''Authorization'') w" if "\<forall>n. afault w n = None"
    using gate_complete [OF _ assms(2,1), of is_uuid4 srv] that shut(1) by (auto simp: aquiet_def)
  then show ?thesis using shut rejection_status [OF shut(1) assms(2)] by blast
qed

lemma wallet_request_admitted_iff_witness:
  "let c = sample_request ''Bearer a1''; (r, w', s') = APIV1MPC sample_cfg (\<lambda>t. length t = 2) (\<lambda>n. (Reply 200 n, Suc n)) c (sample_accounts, 5)
   in r = Inr (Reply 200 5) \<and> s' = 6 \<and> opens_wallet (\<lambda>t. length t = 2) (rq_header c ''Authorization'') sample_accounts"
proof -
  let ?c = "sample_request ''Bearer a1''" and ?ok = "\<lambda>t :: string. length t = 2" and ?h = "\<lambda>n :: nat. (Reply 200 n, Suc n)"
  obtain r w' s' where run: "APIV1MPC sample_cfg ?ok ?h ?c (sample_accounts, 5) = (r, w', s')" by (rule prod_cases3)
  have "rq_user ?c = None" by (simp add: sample_request_def)
  note gate = wallet_request_admitted_iff [OF sample_schema this run]
  have "opens_wallet ?ok (rq_header ?c ''Authorization'') sample_accounts"
    by (simp add: opens_wallet_def Let_def sample_request_def sample_simps)
  moreover have "\<forall>n. afault sample_accounts n = None" by (simp add: sample_accounts_def)
  ultimately show ?thesis using gate run by auto
qed

section \<open>Sessions\<close>

text \<open>
  C7: Signing in opens the wallet for the configured time: when Login succeeds, the name is
  that of an active user whose stored hash accepts the password, and a request with the new
  access token reaches a wallet handler at a time t exactly when t is at most the validity
  after the login and the user has the scope app.
\<close>
theorem login_token_opens_wallet:
  assumes "ready w" and "Login env name password w = (Inr r, w')" and "rq_user c = None"
    and "rq_header c ''Authorization'' = ''Bearer '' @ lr_AccessToken r" and "is_uuid4 (lr_AccessToken r)" and "\<not> is_uuid4 []"
  shows "\<exists>u stored. named_user (adb w) (ToUsernameFormat name) = Some u \<and> us_IsActive u \<and> us_Password u = Some stored
    \<and> ComparePasswordAndHash (ae_IDKey env) password stored = Inr True
    \<and> (\<forall>t. (\<exists>reply. fst (APIV1MPC srv is_uuid4 handler c (w'\<lparr>aclock := t\<rparr>, s)) = Inr reply)
          \<longleftrightarrow> t \<le> aclock w + cf_AccessTokenValidity (ae_config env) \<and> ''app'' \<in> set (us_Scopes u))"
  by (rule login_opens [OF assms])

lemma sample_login:
  "Login sample_env ''Ann@b.c '' ''secret'' sample_accounts
     = (Inr (login_result sample_cfg sample_accounts),
        sample_accounts\<lparr>acalls := 6, auuid_n := 2, adb := signed_in sample_cfg ''u1'' sample_accounts sample_db\<rparr>)"
  unfolding login_quiet [OF sample_ready] Let_def sample_name
  by (simp add: sample_user_def sample_env_def sample_compare bytes_of_def) (simp add: sample_accounts_def eval_nat_numeral)

lemma login_token_opens_wallet_witness:
  "\<exists>r w'. Login sample_env ''Ann@b.c '' ''secret'' sample_accounts = (Inr r, w')
    \<and> (\<exists>u stored. named_user (adb sample_accounts) (ToUsernameFormat ''Ann@b.c '') = Some u \<and> us_IsActive u \<and> us_Password u = Some stored
      \<and> ComparePasswordAndHash (ae_IDKey sample_env) ''secret'' stored = Inr True
      \<and> (\<forall>t. (\<exists>reply. fst (APIV1MPC sample_cfg (\<lambda>t. t = ''i'') (\<lambda>n. (Reply 200 n, Suc n)) (sample_request ''Bearer i'')
                 (w'\<lparr>aclock := t\<rparr>, 0)) = Inr reply)
            \<longleftrightarrow> t \<le> aclock sample_accounts + cf_AccessTokenValidity (ae_config sample_env) \<and> ''app'' \<in> set (us_Scopes u)))"
  using login_token_opens_wallet [OF sample_ready sample_login, of "sample_request ''Bearer i''" "\<lambda>t. t = ''i''"
      sample_cfg "\<lambda>n. (Reply 200 n, Suc n)" 0] sample_login
  by (simp add: sample_request_def login_result_def sample_accounts_def)

section \<open>Changing and resetting a password\<close>



text \<open>
  A password reset token is not used up by a reset: as long as it is valid, the same
  token resets the password of its user again, the second password replaces the first, and
  the session the first reset opened is ended.
\<close>
theorem reset_token_reusable:
  assumes "ready w" and "live_reset w token row u" and "t \<le> tt_ValidUntil row"
    and "HashPassword (ae_IDKey env) rand1 new1 DefaultArgon2Params = Inr hash1"
    and "HashPassword (ae_IDKey env) rand2 new2 DefaultArgon2Params = Inr hash2"
  shows "\<exists>r1 w1 r2 w2 v. ResetPassword env rand1 token new1 w = (Inr r1, w1)
    \<and> ResetPassword env rand2 token new2 (w1\<lparr>aclock := t\<rparr>) = (Inr r2, w2)
    \<and> get_user (adb w2) (tt_UserID row) = Some v \<and> us_Password v = Some hash2
    \<and> map tt_Token (filter (\<lambda>t. tt_UserID t = tt_UserID row) (access_t (adb w2))) = [lr_AccessToken r2]"
proof -
  let ?cfg = "ae_config env" and ?uid = "tt_UserID row"
  let ?w1 = "w\<lparr>acalls := acalls w + 10, auuid_n := auuid_n w + 2, adb := password_changed ?cfg hash1 ?uid w\<rparr>"
  let ?w2 = "?w1\<lparr>aclock := t\<rparr>"
  have run1: "ResetPassword env rand1 token new1 w = (Inr (login_result ?cfg w), ?w1)"
    using assms(1,2,4) by (rule reset_password_quiet)
  have u: "get_user (adb w) ?uid = Some u" "us_IsActive u" "us_ID u = ?uid"
    using assms(2) get_user_id by (auto simp: live_reset_def)
  obtain stored where "us_Password u = Some stored" using assms(2) by (auto simp: live_reset_def)
  with u have "ready ?w1"
    using ready_password_changed [of w "LocalUserToDTO u None" stored env rand1 new1 hash1] assms(1,4)
    by (simp add: LocalUserToDTO_def has_user_iff)
  then have ready: "ready ?w2" by simp
  obtain v1 where v1: "get_user (adb ?w2) ?uid = Some v1" "us_Password v1 = Some hash1" "us_IsActive v1"
    using get_user_password_changed [OF u(1), of ?cfg hash1] u(2) by auto
  have live: "live_reset ?w2 token row v1"
    using assms(2,3) v1 by (auto simp: live_reset_def split: option.splits)
  note run2 = reset_password_quiet [OF ready live assms(5)]
  obtain v2 where "get_user (password_changed ?cfg hash2 ?uid ?w2) ?uid = Some v2" "us_Password v2 = Some hash2"
    using v1(1) by (rule get_user_password_changed)
  then show ?thesis
    using run1 run2 password_changed_sessions(1) [of ?uid ?cfg hash2 ?w2] by (simp add: login_result_def)
qed

lemma reset_token_reusable_witness:
  "\<exists>r1 w1 r2 w2 v. ResetPassword sample_env sample_rand ''p1'' ''secret'' sample_accounts = (Inr r1, w1)
    \<and> ResetPassword sample_env sample_rand ''p1'' ''secret'' (w1\<lparr>aclock := 150\<rparr>) = (Inr r2, w2)
    \<and> get_user (adb w2) ''u1'' = Some v \<and> us_Password v = Some sample_hash
    \<and> map tt_Token (filter (\<lambda>t. tt_UserID t = ''u1'') (access_t (adb w2))) = [lr_AccessToken r2]"
proof -
  let ?row = "\<lparr>tt_Token = ''p1'', tt_ValidUntil = 200, tt_UserID = ''u1'', tt_CreatedAt = 5, tt_UpdatedAt = 5\<rparr>"
  have "live_reset sample_accounts ''p1'' ?row sample_user"
    by (simp add: live_reset_def sample_simps)
  from reset_token_reusable [OF sample_ready this, of 150 sample_env sample_rand "''secret''" sample_hash sample_rand "''secret''" sample_hash]
  show ?thesis by (simp add: sample_env_def sample_password)
qed

section \<open>Refresh tokens\<close>

text \<open>
  A refresh token is good for one sign-in in sequence and for more at once: of two
  requests that both read the token before either deletes it, both succeed and both new
  refresh tokens stay valid, because Refresh does not look at how many rows its delete
  removed; a request that reads the token after the first has committed gets 401.
\<close>
theorem refresh_token_spent_twice:
  assumes "ready w" and "auuid_in w t = Some i" and "tbl_get rt_Token i (refresh_t (adb w)) = Some row"
    and "get_user (adb w) (rt_UserID row) = Some u" and "us_IsActive u"
  shows "\<exists>x w1 w2 r1 w3 r2 w4. refresh_load t w = (Inr x, w1) \<and> refresh_load t w1 = (Inr x, w2)
    \<and> refresh_run cfg x w2 = (Inr r1, w3) \<and> refresh_run cfg x w3 = (Inr r2, w4)
    \<and> lr_RefreshToken r1 \<noteq> lr_RefreshToken r2
    \<and> {lr_RefreshToken r1, lr_RefreshToken r2} \<subseteq> rt_Token ` set (refresh_t (adb w4))
    \<and> fst (Refresh cfg t w3) = Inl ErrUnauthorized"
proof -
  note w = readyD [OF assms(1)]
  let ?user = "LocalUserToDTO u None" and ?x = "(row, LocalUserToDTO u None)"
  let ?w1 = "w\<lparr>acalls := Suc (Suc (acalls w))\<rparr>" and ?w2 = "w\<lparr>acalls := Suc (Suc (Suc (Suc (acalls w))))\<rparr>"
  have row: "rt_Token row = i" "row \<in> set (refresh_t (adb w))" using tbl_get_SomeD [OF assms(3)] by simp_all
  have uid: "du_ID ?user = rt_UserID row" using get_user_id [OF assms(4)] by (simp add: LocalUserToDTO_def)
  have load: "refresh_load t w = (Inr ?x, ?w1)" "refresh_load t ?w1 = (Inr ?x, ?w2)"
    using refresh_load_quiet [OF assms] refresh_load_quiet [of ?w1 t i row u] assms by simp_all
  have ready2: "ready ?w2" using assms(1) by simp
  have known: "has_user (du_ID ?user) (adb ?w2)" using assms(4) uid by (simp add: has_user_iff)
  note run1 = refresh_run_quiet [OF ready2 known, of cfg row]
  obtain w3 where w3: "refresh_run cfg ?x ?w2 = (Inr (login_result cfg ?w2), w3)"
      "w3 = ?w2\<lparr>acalls := acalls ?w2 + 6, auuid_n := auuid_n ?w2 + 2,
         adb := signed_in cfg (du_ID ?user) ?w2 (without_refresh (rt_Token row) (adb ?w2))\<rparr>"
    using run1 by blast
  have ready3: "ready w3" using ready2 w3(1) known by (rule ready_refreshed)
  have known3: "has_user (du_ID ?user) (adb w3)" using known by (simp add: w3(2) has_user_def without_refresh_def has_user_upd)
  obtain w4 where w4: "refresh_run cfg ?x w3 = (Inr (login_result cfg w3), w4)"
      "adb w4 = signed_in cfg (du_ID ?user) w3 (without_refresh (rt_Token row) (adb w3))"
    using refresh_run_quiet [OF ready3 known3, of cfg row] by simp
  have ne: "auuid w (Suc (auuid_n w)) \<noteq> i"
    using fresh_tokens(3) [OF w(4), of "Suc (auuid_n w)"] row by auto
  have "tbl_get rt_Token i (refresh_t (adb w3)) = None"
    using ne row(1) by (simp add: w3(2) without_refresh_def tbl_get_append tbl_get_del tbl_get_Cons)
  moreover have "tbl_ok rt_Token (refresh_t (adb w3))" using readyD(3) [OF ready3] by (simp add: schema_ok_def)
  moreover have "auuid_in w3 t = Some i" using assms(2) by (simp add: w3(2))
  ultimately have "refresh_load t w3 = (Inl ErrUnauthorized, w3\<lparr>acalls := Suc (acalls w3)\<rparr>)"
    using token_quiet [where rows = refresh_t and kf = rt_Token and w = w3 and t = t] readyD(1) [OF ready3]
    by (simp add: refresh_load_def with_user_quiet)
  then have "fst (Refresh cfg t w3) = Inl ErrUnauthorized" by (simp add: Refresh_def)
  moreover have "lr_RefreshToken (login_result cfg ?w2) \<noteq> lr_RefreshToken (login_result cfg w3)"
    using w(4) by (auto simp: w3(2) fresh_ids_def login_result_def dest: injD)
  moreover have "{lr_RefreshToken (login_result cfg ?w2), lr_RefreshToken (login_result cfg w3)} \<subseteq> rt_Token ` set (refresh_t (adb w4))"
    using row(1) ne by (simp add: w4(2) login_result_def left_after_delete) (simp add: w3(2))
  ultimately show ?thesis using load w3(1) w4(1) by blast
qed

lemma refresh_token_spent_twice_witness:
  "\<exists>x w1 w2 r1 w3 r2 w4. refresh_load ''r1'' sample_accounts = (Inr x, w1) \<and> refresh_load ''r1'' w1 = (Inr x, w2)
    \<and> refresh_run sample_cfg x w2 = (Inr r1, w3) \<and> refresh_run sample_cfg x w3 = (Inr r2, w4)
    \<and> lr_RefreshToken r1 \<noteq> lr_RefreshToken r2
    \<and> {lr_RefreshToken r1, lr_RefreshToken r2} \<subseteq> rt_Token ` set (refresh_t (adb w4))
    \<and> fst (Refresh sample_cfg ''r1'' w3) = Inl ErrUnauthorized"
  by (rule refresh_token_spent_twice [OF sample_ready, where i = "''r1''" and u = sample_user
        and row = "\<lparr>rt_Token = ''r1'', rt_UserID = ''u1'', rt_CreatedAt = 5, rt_UpdatedAt = 5\<rparr>"])
    (simp_all add: sample_simps)

section \<open>Registration\<close>

text \<open>
  C29: A name belongs to the password it was first registered with: when the account still
  waits for its confirmation, a second registration of the name with another password
  answers like the first with a confirmation token of its own, and completing it activates
  the account with the first password; after that the first password signs in and a password
  the first hash does not accept gets 401.
\<close>
theorem registration_keeps_first_password:
  assumes "ready w" and "cf_RegistrationRequiresConfirmation (ae_config env)" and "right_length (ae_IDKey env)"
    and "named_user (adb w) (ToUsernameFormat name) = None" and "length (ToUsernameFormat name) \<le> 255"
    and "HashPassword (ae_IDKey env) rand1 first DefaultArgon2Params = Inr hash"
    and "aclock w + cf_ConfirmationTokenDebounceDuration (ae_config env) \<le> t1"
    and "t2 < t1 + cf_ConfirmationTokenValidity (ae_config env)"
  shows "\<exists>r1 w1 token w2 r3 w3. Register env rand1 name first w = (Inr r1, w1)
    \<and> Register env rand2 name second (w1\<lparr>aclock := t1\<rparr>) = (Inr \<lparr>rr_RequiresConfirmation = True, rr_ConfirmationToken = Some token\<rparr>, w2)
    \<and> CompleteRegister (ae_config env) token (w2\<lparr>aclock := t2\<rparr>) = (Inr r3, w3)
    \<and> (\<exists>r. fst (Login env name first w3) = Inr r)
    \<and> (\<forall>q. ComparePasswordAndHash (ae_IDKey env) q hash = Inr False \<longrightarrow> fst (Login env name q w3) = Inl ErrUnauthorized)"
proof -
  let ?cfg = "ae_config env" and ?n = "ToUsernameFormat name"
  let ?u = "user_registered ?cfg ?n hash w"
  obtain r1 w1 i w2 row where run: "Register env rand1 name first w = (Inr r1, w1)"
      "Register env rand2 name second (w1\<lparr>aclock := t1\<rparr>) = (Inr \<lparr>rr_RequiresConfirmation = True, rr_ConfirmationToken = Some i\<rparr>, w2)"
    and w2: "ready w2" "get_user (adb w2) (us_ID ?u) = Some ?u" "auuid_in w2 i = Some i"
      "tbl_get tt_Token i (confirm_t (adb w2)) = Some row" "tt_UserID row = us_ID ?u"
      "tt_ValidUntil row = t1 + cf_ConfirmationTokenValidity ?cfg"
    using registered_twice [OF assms(1,2,4,5,6,7)] .
  obtain r3 w3 v where complete: "CompleteRegister ?cfg i (w2\<lparr>aclock := t2\<rparr>) = (Inr r3, w3)"
    and w3: "ready w3" "named_user (adb w3) ?n = Some v" "us_Password v = us_Password ?u" "us_IsActive v"
    by (rule confirmed_user [of "w2\<lparr>aclock := t2\<rparr>" i i row ?u ?n ?cfg])
      (use w2 assms(2,8) in \<open>simp_all add: user_registered_def new_user_row_def\<close>)
  have stored: "us_Password v = Some hash" using w3(3) by (simp add: user_registered_def new_user_row_def)
  have "\<exists>r. fst (Login env name first w3) = Inr r"
    using w3(2,4) stored accepts_own [OF assms(6,3)] by (simp add: login_quiet [OF w3(1)])
  moreover have "fst (Login env name q w3) = Inl ErrUnauthorized" if "ComparePasswordAndHash (ae_IDKey env) q hash = Inr False" for q
    using w3(2,4) stored that by (simp add: login_quiet [OF w3(1)])
  ultimately show ?thesis using run complete by blast
qed

lemma registration_keeps_first_password_witness:
  "\<exists>r1 w1 token w2 r3 w3. Register sample_env sample_rand ''new@x.y'' ''secret'' sample_accounts = (Inr r1, w1)
    \<and> Register sample_env sample_rand ''new@x.y'' ''other'' (w1\<lparr>aclock := 60000100\<rparr>)
        = (Inr \<lparr>rr_RequiresConfirmation = True, rr_ConfirmationToken = Some token\<rparr>, w2)
    \<and> CompleteRegister sample_cfg token (w2\<lparr>aclock := 60000200\<rparr>) = (Inr r3, w3)
    \<and> (\<exists>r. fst (Login sample_env ''new@x.y'' ''secret'' w3) = Inr r)
    \<and> fst (Login sample_env ''new@x.y'' ''other'' w3) = Inl ErrUnauthorized"
proof -
  have name: "ToUsernameFormat ''new@x.y'' = ''new@x.y''" by code_simp
  have none: "named_user (adb sample_accounts) (ToUsernameFormat ''new@x.y'') = None"
    unfolding name by (simp add: named_user_def users_named_def sample_simps)
  have other: "ComparePasswordAndHash (ae_IDKey sample_env) ''other'' sample_hash = Inr False"
    by (simp add: sample_env_def sample_compare bytes_of_def byte_of_char_def)
  have cfg: "ae_config sample_env = sample_cfg" and key: "right_length (ae_IDKey sample_env)"
      and hash: "HashPassword (ae_IDKey sample_env) sample_rand ''secret'' DefaultArgon2Params = Inr sample_hash"
      and short: "length (ToUsernameFormat ''new@x.y'') \<le> 255"
    by (simp_all add: sample_env_def sample_IDKey_length sample_password name)
  have conf: "cf_RegistrationRequiresConfirmation (ae_config sample_env)"
      and late: "aclock sample_accounts + cf_ConfirmationTokenDebounceDuration (ae_config sample_env) \<le> 60000100"
      and soon: "60000200 < 60000100 + cf_ConfirmationTokenValidity (ae_config sample_env)"
    by (simp_all add: cfg sample_cfg_def sample_accounts_def)
  show ?thesis
    using registration_keeps_first_password [OF sample_ready conf key none short hash late soon, of sample_rand "''other''"] other
    unfolding cfg by meson
qed

section \<open>Invariants and failures\<close>

text \<open>
  C8: Whatever the database and the clock do, and in whatever order the operations come: the
  unique keys and foreign keys of the account tables hold, no write of an operation is left
  pending, and as long as the configured default scopes stay the same every user has exactly
  these scopes, so that no operation of the program gives a user more rights than another.
\<close>
theorem account_runs_keep_schema:
  assumes "account_run env w w'" and "apending w = id" and "schema_ok (adb w)"
    and "\<forall>u \<in> set (users_t (adb w)). us_Scopes u = cf_DefaultUserScopes (ae_config env)"
  shows "apending w' = id \<and> schema_ok (adb w')
    \<and> (\<forall>u \<in> set (users_t (adb w')). us_Scopes u = cf_DefaultUserScopes (ae_config env))"
  using schema.run_settled [OF assms(1) _ HOL.refl] scopes.run_settled [OF assms(1) _ HOL.refl] assms(2-4)
  by (simp add: schema.settled_def scopes.settled_def plain_scopes_def)

lemma account_runs_keep_schema_witness:
  "\<exists>w'. account_run sample_env sample_accounts w' \<and> length (access_t (adb w')) = 2 \<and> apending w' = id \<and> schema_ok (adb w')
    \<and> (\<forall>u \<in> set (users_t (adb w')). us_Scopes u = [''app''])"
proof -
  let ?w' = "snd (Login sample_env ''Ann@b.c '' ''secret'' sample_accounts)"
  have run: "account_run sample_env sample_accounts ?w'" by (rule more [OF none login])
  have "apending sample_accounts = id" "\<forall>u \<in> set (users_t (adb sample_accounts)). us_Scopes u = cf_DefaultUserScopes (ae_config sample_env)"
    by (simp_all add: sample_simps sample_env_def sample_cfg_def)
  from account_runs_keep_schema [OF run this(1) sample_schema this(2)] run show ?thesis
    by (intro exI [of _ ?w']) (simp add: sample_login, simp add: sample_env_def sample_cfg_def sample_db_def)
qed



text \<open>
  A lost commit is reported as success: a login that succeeds when the database answers
  also answers with its tokens when only the commit fails, although the committed tables
  are those from before; the access token it hands out does not open the wallet at any time.
\<close>
theorem lost_commit_is_reported_as_success:
  assumes "ready w" and "Login env name password w = (Inr r, w1)"
  shows "\<exists>w2. Login env name password (lost_call (acalls w + 5) msg w) = (Inr r, w2) \<and> adb w2 = adb w
    \<and> (\<forall>t is_uuid4. \<not> opens_wallet is_uuid4 (''Bearer '' @ lr_AccessToken r) (w2\<lparr>aclock := t\<rparr>))"
proof -
  note w = readyD [OF assms(1)]
  obtain w2 where w2: "Login env name password (lost_call (acalls w + 5) msg w) = (Inr r, w2)" "adb w2 = adb w"
      "auuid_in w2 = auuid_in w"
    using login_loses_commit [OF assms] by blast
  have r: "lr_AccessToken r = auuid w (auuid_n w)" using assms by (rule login_InrD) (simp add: login_result_def)
  have "tbl_get tt_Token (auuid w (auuid_n w)) (access_t (adb w)) = None"
    using fresh_tokens(2) [OF w(4), of "auuid_n w"] by (simp add: tbl_get_None_iff)
  then have "\<not> opens_wallet is_uuid4 (''Bearer '' @ lr_AccessToken r) (w2\<lparr>aclock := t\<rparr>)" for t is_uuid4
    using w2(2,3) uuid_in_own [OF w(4)] by (simp add: opens_wallet_def Let_def r)
  with w2 show ?thesis by blast
qed

lemma lost_commit_is_reported_as_success_witness:
  "\<exists>w2. Login sample_env ''Ann@b.c '' ''secret'' (lost_call 5 ''connection reset'' sample_accounts)
      = (Inr (login_result sample_cfg sample_accounts), w2) \<and> adb w2 = sample_db
    \<and> (\<forall>t is_uuid4. \<not> opens_wallet is_uuid4 ''Bearer i'' (w2\<lparr>aclock := t\<rparr>))"
  using lost_commit_is_reported_as_success [OF sample_ready sample_login, of "''connection reset''"]
  by (simp add: login_result_def sample_accounts_def)

section \<open>Forgotten passwords\<close>

definition link_doc :: "account_server \<Rightarrow> bool" where
  "link_doc srv \<longleftrightarrow> (\<forall>t. \<exists>l. as_reset_link srv t = Inr l) \<and> (\<forall>to l. fst (SendPasswordReset (as_mailer srv) to l) = None)"

lemma mail_recipient: "SendPasswordReset m to link = (r, ms) \<Longrightarrow> mail \<in> set ms \<Longrightarrow> ma_To mail = to"
  by (auto simp: SendPasswordReset_def send_template_def Let_def split: option.splits sum.splits if_splits)

text \<open>
  C35: Asking for a password reset tells nobody which names exist: a well-formed request is
  answered with 204 whatever the name, and a mail is sent only to that name, and only when it
  is that of an active user with a password.
\<close>
theorem forgot_password_reveals_nothing:
  assumes "ready w" and "link_doc srv" and "bound = Inr \<lparr>fw_Username = Some name\<rparr>"
    and "forgot_password_Validate (as_form srv) \<lparr>fw_Username = Some name\<rparr> = None"
  shows "\<exists>ms w'. postForgotPasswordHandler srv bound w = ((Inr (Reply 204 ()), ms), w')
    \<and> (\<forall>mail \<in> set ms. ma_To mail = ToUsernameFormat name)
    \<and> (ms \<noteq> [] \<longrightarrow> (\<exists>u. named_user (adb w) (ToUsernameFormat name) = Some u \<and> us_IsActive u \<and> us_Password u \<noteq> None))"
proof -
  have bind: "BindAndValidateBody bound (forgot_password_Validate (as_form srv)) = Inr \<lparr>fw_Username = Some name\<rparr>"
    using assms(3,4) by (simp add: BindAndValidateBody_def validatePayload_def)
  show ?thesis
  proof (rule init_reset_quiet [OF assms(1), of "ae_config (as_env srv)" name])
    fix w' assume "InitPasswordReset (ae_config (as_env srv)) name w = (Inr None, w')"
    then have "postForgotPasswordHandler srv bound w = ((Inr (Reply 204 ()), []), w')"
      by (simp add: postForgotPasswordHandler_def bind)
    then show ?thesis by simp
  next
    fix u row w'
    assume init: "InitPasswordReset (ae_config (as_env srv)) name w = (Inr (Some (tt_Token row)), w')"
      and u: "named_user (adb w) (ToUsernameFormat name) = Some u" "us_IsActive u" "us_Password u \<noteq> None"
    obtain link where link: "as_reset_link srv (tt_Token row) = Inr link" using assms(2) unfolding link_doc_def by blast
    obtain r ms where sent: "SendPasswordReset (as_mailer srv) (ToUsernameFormat name) link = (r, ms)" by (rule prod.exhaust)
    then have "r = None" using assms(2) by (metis fst_conv link_doc_def)
    then have "postForgotPasswordHandler srv bound w = ((Inr (Reply 204 ()), ms), w')"
      by (simp add: postForgotPasswordHandler_def bind init link sent)
    then show ?thesis using u mail_recipient [OF sent] by blast
  qed
qed

definition sample_check :: "string \<Rightarrow> bool \<Rightarrow> verr option" where
  "sample_check name ok = (if ok then None else Some (Violation name ''invalid''))"

definition sample_server :: account_server where
  "sample_server = \<lparr>as_env = sample_env,
     as_form = \<lparr>fl_api = \<lparr>va_Required = (\<lambda>name nil. sample_check name (\<not> nil)), va_EnumCase = (\<lambda>name v vs. sample_check name (v \<in> set vs)),
         va_MinimumInt = (\<lambda>name v m. sample_check name (m \<le> v)), va_FormatOf = (\<lambda>_ _. None), va_ValidateName = (\<lambda>_ e. e),
         sw_StringValue = (\<lambda>x. case x of None \<Rightarrow> [] | Some v \<Rightarrow> v), sw_Int64Value = (\<lambda>x. case x of None \<Rightarrow> 0 | Some v \<Rightarrow> v)\<rparr>,
       va_MinLength = (\<lambda>name v n. sample_check name (n \<le> int (length v))),
       va_MaxLength = (\<lambda>name v n. sample_check name (int (length v) \<le> n)), va_Format = (\<lambda>_ _ _. None)\<rparr>,
     as_mailer = \<lparr>ml_Templates = (\<lambda>_. Some Inr), ml_Send = True, ml_Transport = (\<lambda>_. None)\<rparr>,
     as_reset_link = Inr, as_confirm_link = Inr\<rparr>"

lemma forgot_password_reveals_nothing_witness:
  "\<exists>ms w'. postForgotPasswordHandler sample_server (Inr \<lparr>fw_Username = Some ''Ann@b.c ''\<rparr>) sample_accounts = ((Inr (Reply 204 ()), ms), w')
    \<and> (\<forall>mail \<in> set ms. ma_To mail = ToUsernameFormat ''Ann@b.c '')"
proof -
  have "link_doc sample_server"
    by (simp add: link_doc_def sample_server_def SendPasswordReset_def send_template_def Let_def)
  moreover have "forgot_password_Validate (as_form sample_server) \<lparr>fw_Username = Some ''Ann@b.c ''\<rparr> = None"
    by (simp add: forgot_password_Validate_def sample_server_def email_within_def required_def sample_check_def composite_def)
  ultimately show ?thesis using forgot_password_reveals_nothing [OF sample_ready _ HOL.refl] by blast
qed

section \<open>Who may use the wallet\<close>

text \<open>
  C6: Anybody may use the wallet: where registrations need no confirmation (the default) and
  new users get the scope app (the default), whoever registers an unused name can sign in
  with it at once, and every request with the token of that sign-in reaches the wallet's
  handlers until the token expires. No handler of the wallet looks at the user, so the
  account reaches the keys of everybody.
\<close>
theorem registered_stranger_opens_wallet:
  assumes "ready w" and "\<not> cf_RegistrationRequiresConfirmation (ae_config env)" and "''app'' \<in> set (cf_DefaultUserScopes (ae_config env))"
    and "named_user (adb w) (ToUsernameFormat name) = None" and "length (ToUsernameFormat name) \<le> 255"
    and "HashPassword (ae_IDKey env) rand password DefaultArgon2Params = Inr hash" and "right_length (ae_IDKey env)"
    and "\<forall>n. is_uuid4 (auuid w n)" and "\<not> is_uuid4 []"
  shows "\<exists>r1 w1 r2 w2. Register env rand name password w = (Inr r1, w1) \<and> Login env name password w1 = (Inr r2, w2)
    \<and> (\<forall>c t s. rq_user c = None \<and> rq_header c ''Authorization'' = ''Bearer '' @ lr_AccessToken r2
          \<and> t \<le> aclock w + cf_AccessTokenValidity (ae_config env)
        \<longrightarrow> (\<exists>reply. fst (APIV1MPC srv is_uuid4 handler c (w2\<lparr>aclock := t\<rparr>, s)) = Inr reply))"
proof -
  obtain r1 w1 u where reg: "Register env rand name password w = (Inr r1, w1)" and w1: "ready w1" "aclock w1 = aclock w"
    and u: "named_user (adb w1) (ToUsernameFormat name) = Some u" "us_IsActive u" "us_Password u = Some hash"
      "us_Scopes u = cf_DefaultUserScopes (ae_config env)" and ids: "auuid w1 = auuid w"
    using joined_user [OF assms(1,2,4,5,6)] by metis
  obtain r2 w2 where login: "Login env name password w1 = (Inr r2, w2)" and r2: "r2 = login_result (ae_config env) w1"
    using u accepts_own [OF assms(6,7)] by (simp add: login_quiet [OF w1(1)])
  have uuid: "is_uuid4 (lr_AccessToken r2)" using assms(8) ids by (simp add: r2 login_result_def)
  have "\<exists>reply. fst (APIV1MPC srv is_uuid4 handler c (w2\<lparr>aclock := t\<rparr>, s)) = Inr reply"
    if "rq_user c = None" "rq_header c ''Authorization'' = ''Bearer '' @ lr_AccessToken r2"
      "t \<le> aclock w + cf_AccessTokenValidity (ae_config env)" for c t s
    using login_opens [where ?is_uuid4.0 = is_uuid4 and srv = srv and handler = handler and s = s, OF w1(1) login that(1,2) uuid assms(9)] that(3) u assms(3) w1(2) by auto
  with reg login show ?thesis by blast
qed

lemma registered_stranger_opens_wallet_witness:
  "let env = sample_env\<lparr>ae_config := sample_cfg\<lparr>cf_RegistrationRequiresConfirmation := False\<rparr>\<rparr>
   in \<exists>r1 w1 r2 w2. Register env sample_rand ''new@x.y'' ''secret'' sample_accounts = (Inr r1, w1)
     \<and> Login env ''new@x.y'' ''secret'' w1 = (Inr r2, w2)
     \<and> (\<forall>c t s. rq_user c = None \<and> rq_header c ''Authorization'' = ''Bearer '' @ lr_AccessToken r2 \<and> t \<le> 86400000100
         \<longrightarrow> (\<exists>reply. fst (APIV1MPC sample_cfg (\<lambda>t. t \<noteq> []) (\<lambda>n :: nat. (Reply 200 n, Suc n)) c (w2\<lparr>aclock := t\<rparr>, s)) = Inr reply))"
proof -
  let ?env = "sample_env\<lparr>ae_config := sample_cfg\<lparr>cf_RegistrationRequiresConfirmation := False\<rparr>\<rparr>"
  have name: "ToUsernameFormat ''new@x.y'' = ''new@x.y''" by code_simp
  have free: "named_user (adb sample_accounts) (ToUsernameFormat ''new@x.y'') = None"
      "length (ToUsernameFormat ''new@x.y'') \<le> 255"
    unfolding name by (simp_all add: named_user_def users_named_def sample_simps)
  have env: "\<not> cf_RegistrationRequiresConfirmation (ae_config ?env)" "''app'' \<in> set (cf_DefaultUserScopes (ae_config ?env))"
      "HashPassword (ae_IDKey ?env) sample_rand ''secret'' DefaultArgon2Params = Inr sample_hash" "right_length (ae_IDKey ?env)"
      "aclock sample_accounts + cf_AccessTokenValidity (ae_config ?env) = 86400000100"
      "\<forall>n. auuid sample_accounts n \<noteq> []" "\<not> ([] :: string) \<noteq> []"
    by (simp_all add: sample_env_def sample_cfg_def sample_password sample_IDKey_length sample_accounts_def)
  show ?thesis
    unfolding Let_def env(5) [symmetric]
    by (rule registered_stranger_opens_wallet [OF sample_ready env(1,2) free env(3,4,6,7)])
qed

end
