(* ===== verification/Utilities.thy ===== *)
theory Utilities
  imports AuthWeb "HOL-Library.Sublist"
begin

text \<open>
  \<open>internal/util\<close>: reading the environment (\<open>env.go\<close>), random strings and the checks of
  \<open>string.go\<close>, slices, maps and numbers (\<open>slice.go\<close>, \<open>map.go\<close>, \<open>int.go\<close>, \<open>bool.go\<close>),
  cache directives (\<open>cache_control.go\<close>) and the values of a
  request's context (\<open>context.go\<close>). The environment is a function from names to values. A text is
  ASCII where the code walks over its runes.
\<close>

section \<open>The environment (util/env.go)\<close>

type_synonym env = "string \<Rightarrow> string option"

definition GetEnv :: "env \<Rightarrow> string \<Rightarrow> string \<Rightarrow> string" where
  "GetEnv env key defaultVal = (case env key of Some val \<Rightarrow> val | None \<Rightarrow> defaultVal)"

definition GetEnvEnum :: "env \<Rightarrow> string \<Rightarrow> string \<Rightarrow> string list \<Rightarrow> err + string" where
  "GetEnvEnum env key defaultVal allowedValues =
     (if defaultVal \<notin> set allowedValues
      then Inl (Panic ''Default value is not in the allowed values list.'')
      else case env key of
        None \<Rightarrow> Inr defaultVal
      | Some val \<Rightarrow> Inr (if val \<in> set allowedValues then val else defaultVal))"

definition GetEnvAsInt :: "env \<Rightarrow> string \<Rightarrow> int \<Rightarrow> int" where
  "GetEnvAsInt env key defaultVal = (case Atoi (GetEnv env key []) of Some val \<Rightarrow> val | None \<Rightarrow> defaultVal)"

text \<open>\<open>strconv.ParseUint(s, 10, bits)\<close>: digits only, no sign.\<close>

definition ParseUint :: "nat \<Rightarrow> string \<Rightarrow> int option" where
  "ParseUint bits s =
     (if s = [] then None
      else case digits_value 0 s of None \<Rightarrow> None | Some n \<Rightarrow> if n < 2 ^ bits then Some n else None)"

definition GetEnvAsUint32 :: "env \<Rightarrow> string \<Rightarrow> 32 word \<Rightarrow> 32 word" where
  "GetEnvAsUint32 env key defaultVal =
     (case ParseUint 32 (GetEnv env key []) of Some val \<Rightarrow> word_of_int val | None \<Rightarrow> defaultVal)"

definition GetEnvAsUint8 :: "env \<Rightarrow> string \<Rightarrow> 8 word \<Rightarrow> 8 word" where
  "GetEnvAsUint8 env key defaultVal =
     (case ParseUint 8 (GetEnv env key []) of Some val \<Rightarrow> word_of_int val | None \<Rightarrow> defaultVal)"

text \<open>\<open>strconv.ParseBool\<close>\<close>

definition ParseBool :: "string \<Rightarrow> bool option" where
  "ParseBool s =
     (if s \<in> {''1'', ''t'', ''T'', ''true'', ''TRUE'', ''True''} then Some True
      else if s \<in> {''0'', ''f'', ''F'', ''false'', ''FALSE'', ''False''} then Some False
      else None)"

definition GetEnvAsBool :: "env \<Rightarrow> string \<Rightarrow> bool \<Rightarrow> bool" where
  "GetEnvAsBool env key defaultVal =
     (case ParseBool (GetEnv env key []) of Some val \<Rightarrow> val | None \<Rightarrow> defaultVal)"

text \<open>
  The separators in use are single characters. The trimmed variant writes into the slice
  it got: the second component is what the caller's default slice holds afterwards.
\<close>

definition GetEnvAsStringArr :: "env \<Rightarrow> string \<Rightarrow> string list \<Rightarrow> char list \<Rightarrow> string list" where
  "GetEnvAsStringArr env key defaultVal separator =
     (let strVal = GetEnv env key []
      in if strVal = [] then defaultVal
         else Split (case separator of [] \<Rightarrow> CHR '','' | sep # _ \<Rightarrow> sep) strVal)"

definition GetEnvAsStringArrTrimmed ::
  "env \<Rightarrow> string \<Rightarrow> string list \<Rightarrow> char list \<Rightarrow> string list \<times> string list" where
  "GetEnvAsStringArrTrimmed env key defaultVal separator =
     (let slc = map TrimSpace (GetEnvAsStringArr env key defaultVal separator)
      in (slc, if GetEnv env key [] = [] then slc else defaultVal))"

text \<open>\<open>url.Parse\<close>, \<open>language.Parse\<close> and \<open>time.LoadLocation\<close> share this shape; \<open>parse\<close> is theirs.\<close>

definition GetEnvParsed :: "(string \<Rightarrow> err + 'a) \<Rightarrow> env \<Rightarrow> string \<Rightarrow> string \<Rightarrow> err + 'a" where
  "GetEnvParsed parse env key defaultVal =
     (let strVal = GetEnv env key []
      in case parse (if strVal = [] then defaultVal else strVal) of
           Inl e \<Rightarrow> Inl (Panic (if strVal = [] then ''Failed to parse default value for env variable''
                                else ''Failed to parse env variable''))
         | Inr v \<Rightarrow> Inr v)"

definition GetEnvAsLanguageTag :: "(string \<Rightarrow> err + 'tag) \<Rightarrow> env \<Rightarrow> string \<Rightarrow> 'tag \<Rightarrow> err + 'tag" where
  "GetEnvAsLanguageTag parse env key defaultVal =
     (let strVal = GetEnv env key []
      in if strVal = [] then Inr defaultVal
         else case parse strVal of
           Inl e \<Rightarrow> Inl (Panic ''Failed to parse env variable as language.Tag'')
         | Inr tag \<Rightarrow> Inr tag)"

fun parse_tags :: "(string \<Rightarrow> err + 'tag) \<Rightarrow> string list \<Rightarrow> 'tag list \<Rightarrow> err + 'tag list" where
  "parse_tags parse [] res = Inr res"
| "parse_tags parse (s # ss) res =
     (case parse s of
        Inl e \<Rightarrow> Inl (Panic ''Failed to parse item value from env variable as language.Tag'')
      | Inr tag \<Rightarrow> parse_tags parse ss (res @ [tag]))"

definition GetEnvAsLanguageTagArr ::
  "(string \<Rightarrow> err + 'tag) \<Rightarrow> env \<Rightarrow> string \<Rightarrow> 'tag list \<Rightarrow> char list \<Rightarrow> err + 'tag list" where
  "GetEnvAsLanguageTagArr parse env key defaultVal separator =
     (let strVal = GetEnv env key []
      in if strVal = [] then Inr defaultVal
         else parse_tags parse (Split (case separator of [] \<Rightarrow> CHR '','' | sep # _ \<Rightarrow> sep) strVal) [])"

section \<open>Random bytes and strings (util/string.go)\<close>

text \<open>
  The source of random bytes: a tape, the place up to which it was read, the number of
  reads, and the text with which a read fails.
\<close>

record random =
  rn_tape :: "nat \<Rightarrow> byte"
  rn_pos :: nat
  rn_reads :: nat
  rn_fault :: "nat \<Rightarrow> string option"

text \<open>\<open>make([]byte, n)\<close> panics for a negative \<open>n\<close>.\<close>

definition GenerateRandomBytes :: "int \<Rightarrow> random \<Rightarrow> (random, byte list) res" where
  "GenerateRandomBytes n r =
     (if n < 0 then (Inl (Panic ''makeslice: len out of range''), r)
      else case rn_fault r (rn_reads r) of
        Some t \<Rightarrow> (Inl (Wrap (Err t) ''failed to generate random bytes''), r\<lparr>rn_reads := Suc (rn_reads r)\<rparr>)
      | None \<Rightarrow> (Inr (map (rn_tape r) [rn_pos r ..< rn_pos r + nat n]),
                 r\<lparr>rn_pos := rn_pos r + nat n, rn_reads := Suc (rn_reads r)\<rparr>))"

definition GenerateRandomBase64String :: "(byte list \<Rightarrow> string) \<Rightarrow> int \<Rightarrow> random \<Rightarrow> (random, string) res" where
  "GenerateRandomBase64String EncodeToString n r =
     or_return (GenerateRandomBytes n r) (\<lambda>b r. (Inr (EncodeToString b), r))"

definition GenerateRandomHexString :: "int \<Rightarrow> random \<Rightarrow> (random, string) res" where
  "GenerateRandomHexString n r =
     or_return (GenerateRandomBytes n r) (\<lambda>b r. (Inr (hex_EncodeToString b), r))"

text \<open>\<open>CharRange\<close> is an integer: the three constants are 0, 1 and 2, other values match nothing.\<close>

definition in_range :: "int \<Rightarrow> byte \<Rightarrow> bool" where
  "in_range r elem =
     (if r = 0 then 48 \<le> elem \<and> elem \<le> 57
      else if r = 1 then 97 \<le> elem \<and> elem \<le> 122
      else if r = 2 then 65 \<le> elem \<and> elem \<le> 90
      else False)"

definition validateFn :: "int list \<Rightarrow> string \<Rightarrow> byte \<Rightarrow> bool" where
  "validateFn ranges extra elem \<longleftrightarrow> elem \<in> set (bytes_of extra) \<or> list_ex (\<lambda>r. in_range r elem) ranges"

fun take_valid :: "(byte \<Rightarrow> bool) \<Rightarrow> int \<Rightarrow> byte list \<Rightarrow> byte list \<Rightarrow> byte list" where
  "take_valid ok n str [] = str"
| "take_valid ok n str (b # buf) =
     (let str = (if ok b then str @ [b] else str)
      in if int (length str) \<ge> n then str else take_valid ok n str buf)"

text \<open>The loop ends only when enough bytes were accepted: \<open>None\<close> is a call that never returns.\<close>

partial_function (option) random_loop ::
  "(byte \<Rightarrow> bool) \<Rightarrow> int \<Rightarrow> byte list \<Rightarrow> random \<Rightarrow> (random, byte list) res option" where
  "random_loop ok n str r =
     (if int (length str) < n
      then (case GenerateRandomBytes n r of
              (Inl e, r) \<Rightarrow> Some (Inl e, r)
            | (Inr buf, r) \<Rightarrow> random_loop ok n (take_valid ok n str buf) r)
      else Some (Inr str, r))"

definition GenerateRandomString ::
  "int \<Rightarrow> int list \<Rightarrow> string \<Rightarrow> random \<Rightarrow> (random, string) res option" where
  "GenerateRandomString n ranges extra r =
     (if ranges = [] \<and> extra = []
      then Some (Inl (Err ''random string can only be created if set of characters or extra string characters supplied''), r)
      else map_option (\<lambda>(x, r). (map_sum id string_of_bytes x, r))
             (random_loop (validateFn ranges extra) n [] r))"

text \<open>The secret of the management endpoints: from the environment, or made up once.\<close>

record secret_once =
  so_secret :: string
  so_done :: bool
  so_random :: random

definition GetMgmtSecret :: "env \<Rightarrow> string \<Rightarrow> secret_once \<Rightarrow> (secret_once, string) res" where
  "GetMgmtSecret env envKey g =
     (let val = GetEnv env envKey []
      in if val \<noteq> [] then (Inr val, g)
         else if so_done g then (Inr (so_secret g), g)
         else case GenerateRandomHexString 16 (so_random g) of
           (Inl e, r) \<Rightarrow>
             (Inl (Panic ''Failed to generate random management secret''),
              g\<lparr>so_secret := [], so_done := True, so_random := r\<rparr>)
         | (Inr s, r) \<Rightarrow> (Inr s, g\<lparr>so_secret := s, so_done := True, so_random := r\<rparr>))"

section \<open>Texts, slices and maps (string.go, slice.go, map.go, int.go, bool.go)\<close>

definition NonEmptyOrNil :: "string \<Rightarrow> string option" where
  "NonEmptyOrNil s = (if s \<noteq> [] then Some s else None)"

definition EmptyIfNil :: "string option \<Rightarrow> string" where
  "EmptyIfNil s = (case s of None \<Rightarrow> [] | Some t \<Rightarrow> t)"

definition FalseIfNil :: "bool option \<Rightarrow> bool" where
  "FalseIfNil b = (case b of None \<Rightarrow> False | Some x \<Rightarrow> x)"

text \<open>
  \<open>ContainsAll\<close> keeps for each substring an index and a mark, and moves them over the
  runes of the text. \<open>sub[indices[i]]\<close> is out of range where \<open>mark_step\<close> says \<open>None\<close>.
\<close>

record scan_mark =
  sm_contains :: bool
  sm_index :: nat

definition mark_step :: "char \<Rightarrow> string \<Rightarrow> scan_mark \<Rightarrow> scan_mark option" where
  "mark_step marked sub m =
     (let m = (if sub = [] then m\<lparr>sm_contains := True\<rparr> else m)
      in if sm_contains m then Some m
         else if length sub \<le> sm_index m then None
         else if marked = sub ! sm_index m
         then Some (let i = sm_index m + 1 in m\<lparr>sm_index := i, sm_contains := i \<ge> length sub\<rparr>)
         else Some m)"

fun mark_all :: "char \<Rightarrow> string list \<Rightarrow> scan_mark list \<Rightarrow> scan_mark list option" where
  "mark_all marked (sub # subs) (m # ms) =
     (case mark_step marked sub m of
        None \<Rightarrow> None
      | Some m \<Rightarrow> (case mark_all marked subs ms of None \<Rightarrow> None | Some ms \<Rightarrow> Some (m # ms)))"
| "mark_all marked _ _ = Some []"

fun mark_text :: "string \<Rightarrow> string list \<Rightarrow> scan_mark list \<Rightarrow> scan_mark list option" where
  "mark_text [] subs ms = Some ms"
| "mark_text (c # cs) subs ms =
     (case mark_all c subs ms of None \<Rightarrow> None | Some ms \<Rightarrow> mark_text cs subs ms)"

definition ContainsAll :: "string \<Rightarrow> string list \<Rightarrow> bool option" where
  "ContainsAll str subs =
     map_option (list_all sm_contains)
       (mark_text str subs (map (\<lambda>_. \<lparr>sm_contains = False, sm_index = 0\<rparr>) subs))"

fun mark_seen :: "string list \<Rightarrow> (string \<rightharpoonup> bool) \<Rightarrow> string \<rightharpoonup> bool" where
  "mark_seen [] m = m"
| "mark_seen (v # vs) m = mark_seen vs (if m v \<noteq> None then m(v \<mapsto> True) else m)"

definition ContainsAllString :: "string list \<Rightarrow> string list \<Rightarrow> bool" where
  "ContainsAllString xs sub =
     (let contains = mark_seen xs (\<lambda>v. if v \<in> set sub then Some False else None)
      in \<forall>v \<in> set sub. contains v \<noteq> Some False)"

fun unique_from :: "string list \<Rightarrow> string list \<Rightarrow> string list \<Rightarrow> string list" where
  "unique_from seen res [] = res"
| "unique_from seen res (s # ss) =
     (if s \<notin> set seen then unique_from (s # seen) (res @ [s]) ss else unique_from seen res ss)"

definition UniqueString :: "string list \<Rightarrow> string list" where
  "UniqueString xs = unique_from [] [] xs"

definition MergeStringMap :: "(string \<rightharpoonup> string) \<Rightarrow> (string \<rightharpoonup> string) \<Rightarrow> string \<rightharpoonup> string" where
  "MergeStringMap base toMerge = toMerge ++ base"

definition IntPtrToInt64Ptr :: "int option \<Rightarrow> int option" where
  "IntPtrToInt64Ptr num = (case num of None \<Rightarrow> None | Some n \<Rightarrow> Some n)"

definition IntToInt32Ptr :: "int \<Rightarrow> int option" where
  "IntToInt32Ptr num = (if num > 2 ^ 31 - 1 \<or> num < - (2 ^ 31) then None else Some (int32 num))"

section \<open>Cache directives (cache_control.go)\<close>

type_synonym CacheControlDirective = "8 word"

definition CacheControlDirectiveNoCache :: CacheControlDirective where "CacheControlDirectiveNoCache = 1"
definition CacheControlDirectiveNoStore :: CacheControlDirective where "CacheControlDirectiveNoStore = 2"

unbundle bit_operations_syntax

definition HasDirective :: "CacheControlDirective \<Rightarrow> CacheControlDirective \<Rightarrow> bool" where
  "HasDirective d dir \<longleftrightarrow> d AND dir \<noteq> 0"

definition AddDirective :: "CacheControlDirective \<Rightarrow> CacheControlDirective \<Rightarrow> CacheControlDirective" where
  "AddDirective d dir = d OR dir"

definition ClearDirective :: "CacheControlDirective \<Rightarrow> CacheControlDirective \<Rightarrow> CacheControlDirective" where
  "ClearDirective d dir = d AND NOT dir"

definition ToggleDirective :: "CacheControlDirective \<Rightarrow> CacheControlDirective \<Rightarrow> CacheControlDirective" where
  "ToggleDirective d dir = d XOR dir"

fun Join :: "string \<Rightarrow> string list \<Rightarrow> string" where
  "Join sep [] = []"
| "Join sep [s] = s"
| "Join sep (s # ss) = s @ sep @ Join sep ss"

definition directive_String :: "CacheControlDirective \<Rightarrow> string" where
  "directive_String d =
     Join ''|''
       ((if HasDirective d CacheControlDirectiveNoCache then [''no-cache''] else [])
        @ (if HasDirective d CacheControlDirectiveNoStore then [''no-store''] else []))"

definition ParseCacheControlDirective :: "string \<Rightarrow> CacheControlDirective" where
  "ParseCacheControlDirective d =
     (let name = ToLower (hd (Split (CHR ''='') d))
      in if name = ''no-cache'' then CacheControlDirectiveNoCache
         else if name = ''no-store'' then CacheControlDirectiveNoStore
         else 0)"

fun parse_directives :: "CacheControlDirective \<Rightarrow> string list \<Rightarrow> CacheControlDirective" where
  "parse_directives res [] = res"
| "parse_directives res (dir # directives) = parse_directives (res OR ParseCacheControlDirective dir) directives"

definition ParseCacheControlHeader :: "string \<Rightarrow> CacheControlDirective" where
  "ParseCacheControlHeader val = parse_directives 0 (Split (CHR '','') val)"

section \<open>Values of a context (util/context.go, cache_control.go)\<close>

text \<open>The keys the program uses, and values of the types it stores under them.\<close>

datatype context_key = CTXKeyUser | CTXKeyAccessToken | CTXKeyCacheControl | CTXKeyRequestID | CTXKeyDisableLogger

datatype context_value = CtxString string | CtxBool bool | CtxDirective CacheControlDirective | CtxOther

text \<open>A context: its values, its deadline and the moment it is cancelled by its owner.\<close>

record go_context =
  cx_value :: "context_key \<rightharpoonup> context_value"
  cx_deadline :: "time option"
  cx_cancelled :: "time option"

definition ctx_Background :: go_context where
  "ctx_Background = \<lparr>cx_value = Map.empty, cx_deadline = None, cx_cancelled = None\<rparr>"

definition WithValue :: "go_context \<Rightarrow> context_key \<Rightarrow> context_value \<Rightarrow> go_context" where
  "WithValue ctx k v = ctx\<lparr>cx_value := (cx_value ctx)(k \<mapsto> v)\<rparr>"

text \<open>\<open>context.WithTimeout\<close> keeps an earlier deadline of its parent.\<close>

definition WithTimeout :: "go_context \<Rightarrow> time \<Rightarrow> time \<Rightarrow> go_context" where
  "WithTimeout ctx start timeout =
     ctx\<lparr>cx_deadline := Some (case cx_deadline ctx of None \<Rightarrow> start + timeout | Some d \<Rightarrow> min d (start + timeout))\<rparr>"

datatype ctx_error = Canceled | DeadlineExceeded

definition ctx_Err :: "go_context \<Rightarrow> time \<Rightarrow> ctx_error option" where
  "ctx_Err ctx t =
     (let late = (case cx_deadline ctx of None \<Rightarrow> False | Some d \<Rightarrow> d \<le> t);
          cancelled = (case cx_cancelled ctx of None \<Rightarrow> False | Some c \<Rightarrow> c \<le> t)
      in if cancelled \<and> \<not> (late \<and> the (cx_deadline ctx) < the (cx_cancelled ctx)) then Some Canceled
         else if late then Some DeadlineExceeded else None)"

text \<open>A detached context has the values of its parent only.\<close>

definition DetachContext :: "go_context \<Rightarrow> go_context" where
  "DetachContext ctx = \<lparr>cx_value = cx_value ctx, cx_deadline = None, cx_cancelled = None\<rparr>"

definition RequestIDFromContext :: "go_context \<Rightarrow> err + string" where
  "RequestIDFromContext ctx =
     (case cx_value ctx CTXKeyRequestID of
        None \<Rightarrow> Inl (Err ''no request id present in context'')
      | Some (CtxString i) \<Rightarrow> Inr i
      | Some _ \<Rightarrow> Inl (Err ''request id in context is not a string''))"

definition ShouldDisableLogger :: "go_context \<Rightarrow> bool" where
  "ShouldDisableLogger ctx = (case cx_value ctx CTXKeyDisableLogger of Some (CtxBool b) \<Rightarrow> b | _ \<Rightarrow> False)"

definition DisableLogger :: "go_context \<Rightarrow> bool \<Rightarrow> go_context" where
  "DisableLogger ctx shouldDisable = WithValue ctx CTXKeyDisableLogger (CtxBool shouldDisable)"

definition CacheControlDirectiveFromContext :: "go_context \<Rightarrow> CacheControlDirective" where
  "CacheControlDirectiveFromContext ctx =
     (case cx_value ctx CTXKeyCacheControl of Some (CtxDirective d) \<Rightarrow> d | _ \<Rightarrow> 0)"

end
