(* ===== verification/Config.thy ===== *)
theory Config
  imports Utilities
begin

text \<open>
  \<open>internal/config\<close>: the settings of the server and how they are read from the environment
  and an optional file \<open>.env.local\<close>. Durations are nanoseconds in an \<open>int64\<close>, as in Go.
  What the settings take from elsewhere is gathered in \<open>host\<close>: the environment, the
  number of processors, the directory of the executable, \<open>filepath.Join\<close>, the parsers of
  language tags and log levels, and what the file of local settings holds.
\<close>

section \<open>Durations\<close>

text \<open>\<open>time.Second * time.Duration(n)\<close> wraps around.\<close>

definition seconds :: "int \<Rightarrow> int" where
  "seconds n = signed_take_bit 63 (1000000000 * n)"

definition micros :: "int \<Rightarrow> time" where
  "micros d = d div 1000"

section \<open>Settings (server_config.go, db_config.go, mailer_config.go, service_config.go)\<close>

record Database =
  db_Host :: string
  db_Port :: int
  db_Username :: string
  db_Password :: string
  db_Database :: string
  db_AdditionalParams :: "(string \<times> string) list"
  db_MaxOpenConns :: int
  db_MaxIdleConns :: int
  db_ConnMaxLifetime :: int

record EchoServerSecureMiddleware =
  sm_XSSProtection :: string
  sm_ContentTypeNosniff :: string
  sm_XFrameOptions :: string
  sm_HSTSMaxAge :: int
  sm_HSTSExcludeSubdomains :: bool
  sm_ContentSecurityPolicy :: string
  sm_CSPReportOnly :: bool
  sm_HSTSPreloadEnabled :: bool
  sm_ReferrerPolicy :: string

record EchoServer =
  ec_Debug :: bool
  ec_ListenAddress :: string
  ec_HideInternalServerErrorDetails :: bool
  ec_BaseURL :: string
  ec_EnableCORSMiddleware :: bool
  ec_EnableLoggerMiddleware :: bool
  ec_EnableRecoverMiddleware :: bool
  ec_EnableRequestIDMiddleware :: bool
  ec_EnableTrailingSlashMiddleware :: bool
  ec_EnableSecureMiddleware :: bool
  ec_EnableCacheControlMiddleware :: bool
  ec_SecureMiddleware :: EchoServerSecureMiddleware
  ec_WebTemplatesViewsBaseDirAbs :: string

record PprofServer =
  pp_Enable :: bool
  pp_EnableManagementKeyAuth :: bool
  pp_RuntimeBlockProfileRate :: int
  pp_RuntimeMutexProfileFraction :: int

record PathsServer =
  pa_APIBaseDirAbs :: string
  pa_MntBaseDirAbs :: string
  pa_AppleAppSiteAssociationFile :: string
  pa_AndroidAssetlinksFile :: string

record AuthSettings =
  as_AccessTokenValidity :: int
  as_PasswordResetTokenValidity :: int
  as_PasswordResetTokenDebounceDuration :: int
  as_PasswordResetTokenReuseDuration :: int
  as_DefaultUserScopes :: "string list"
  as_LastAuthenticatedAtThreshold :: int
  as_RegistrationRequiresConfirmation :: bool
  as_ConfirmationTokenValidity :: int
  as_ConfirmationTokenDebounceDuration :: int

record ManagementServer =
  mg_Secret :: string
  mg_ReadinessTimeout :: int
  mg_LivenessTimeout :: int
  mg_ProbeWriteablePathsAbs :: "string list"
  mg_ProbeWriteableTouchfile :: string
  mg_EnableMetrics :: bool

record MailerSettings =
  ml_DefaultSender :: string
  ml_Send :: bool
  ml_WebTemplatesEmailBaseDirAbs :: string
  ml_Transporter :: string

datatype SMTPAuthType = SMTPAuthTypeNone | SMTPAuthTypePlain | SMTPAuthTypeCRAMMD5 | SMTPAuthTypeLogin

record SMTPMailTransportConfig =
  st_Host :: string
  st_Port :: int
  st_Username :: string
  st_Password :: string
  st_AuthType :: SMTPAuthType
  st_Encryption :: string

record FrontendServer =
  fe_BaseURL :: string
  fe_PasswordResetEndpoint :: string

record LoggerServer =
  lg_Level :: int
  lg_RequestLevel :: int
  lg_LogRequestBody :: bool
  lg_LogRequestHeader :: bool
  lg_LogRequestQuery :: bool
  lg_LogResponseBody :: bool
  lg_LogResponseHeader :: bool
  lg_LogCaller :: bool
  lg_PrettyPrintConsole :: bool

record PushSettings =
  ps_UseFCMProvider :: bool
  ps_UseMockProvider :: bool

record FCMConfig =
  fcm_GoogleApplicationCredentials :: string
  fcm_ProjectID :: string
  fcm_ValidateOnly :: bool

record 'tag I18nSettings =
  in_DefaultLanguage :: 'tag
  in_BundleDirAbs :: string

record MPC =
  mp_NodeType :: string
  mp_NodeID :: string
  mp_CoordinatorEndpoint :: string
  mp_StorageBackend :: string
  mp_RedisEndpoint :: string
  mp_KeyShareStoragePath :: string
  mp_KeyShareEncryptionKey :: string
  mp_ConsulAddress :: string
  mp_SupportedProtocols :: "string list"
  mp_DefaultProtocol :: string
  mp_HTTPPort :: int
  mp_GRPCPort :: int
  mp_TLSEnabled :: bool
  mp_EnableAudit :: bool
  mp_EnablePolicy :: bool
  mp_KeyRotationDays :: int
  mp_MaxConcurrentSessions :: int
  mp_MaxConcurrentSignings :: int
  mp_SessionTimeout :: int

record 'tag ServerSettings =
  sc_Database :: Database
  sc_Echo :: EchoServer
  sc_Pprof :: PprofServer
  sc_Paths :: PathsServer
  sc_Auth :: AuthSettings
  sc_Management :: ManagementServer
  sc_Mailer :: MailerSettings
  sc_SMTP :: SMTPMailTransportConfig
  sc_Frontend :: FrontendServer
  sc_Logger :: LoggerServer
  sc_Push :: PushSettings
  sc_FCMConfig :: FCMConfig
  sc_I18n :: "'tag I18nSettings"
  sc_MPC :: MPC

text \<open>
  \<open>ConnectionString\<close>: the parameters in the order of their names. Nothing is quoted.
\<close>

definition param_value :: "(string \<times> string) list \<Rightarrow> string \<Rightarrow> string" where
  "param_value ps k = (case map_of ps k of Some v \<Rightarrow> v | None \<Rightarrow> [])"

definition ConnectionString :: "Database \<Rightarrow> string" where
  "ConnectionString c =
     ''host='' @ db_Host c @ '' port='' @ itoa (db_Port c) @ '' user='' @ db_Username c
     @ '' password='' @ db_Password c @ '' dbname='' @ db_Database c
     @ (if map_of (db_AdditionalParams c) ''sslmode'' = None then '' sslmode=disable'' else [])
     @ concat (map (\<lambda>k. '' '' @ k @ ''='' @ param_value (db_AdditionalParams c) k)
                (sort (remdups (map fst (db_AdditionalParams c)))))"

section \<open>Local settings (dot_env.go)\<close>

datatype dotenv_file = NoSuchFile | Unopened string | Malformed string | Parsed "(string \<times> string) list"

fun set_all :: "(string \<Rightarrow> string \<Rightarrow> string option) \<Rightarrow> (string \<times> string) list \<Rightarrow> env \<Rightarrow> (env, unit) res" where
  "set_all setEnvFn [] env = (Inr (), env)"
| "set_all setEnvFn ((key, val) # envs) env =
     (case setEnvFn key val of
        Some t \<Rightarrow> (Inl (Wrap (Err t) ''failed to set environment variable''), env)
      | None \<Rightarrow> set_all setEnvFn envs (env(key \<mapsto> val)))"

definition DotEnvLoad :: "dotenv_file \<Rightarrow> (string \<Rightarrow> string \<Rightarrow> string option) \<Rightarrow> env \<Rightarrow> (env, unit) res" where
  "DotEnvLoad file setEnvFn env =
     (case file of
        NoSuchFile \<Rightarrow> (Inl (Wrap (Err ''file does not exist'') ''failed to open .env file''), env)
      | Unopened t \<Rightarrow> (Inl (Wrap (Err t) ''failed to open .env file''), env)
      | Malformed t \<Rightarrow> (Inl (Wrap (Err t) ''failed to parse .env file''), env)
      | Parsed envs \<Rightarrow> set_all setEnvFn envs env)"

definition DotEnvTryLoad :: "dotenv_file \<Rightarrow> (string \<Rightarrow> string \<Rightarrow> string option) \<Rightarrow> env \<Rightarrow> (env, unit) res" where
  "DotEnvTryLoad file setEnvFn env =
     (case DotEnvLoad file setEnvFn env of
        (Inl e, env) \<Rightarrow> if file = NoSuchFile then (Inr (), env) else (Inl (Panic ''.env parse error!''), env)
      | (Inr _, env) \<Rightarrow> (Inr (), env))"

section \<open>Reading the settings\<close>

record 'tag host =
  ho_env :: env
  ho_NumCPU :: int
  ho_ExecutableDir :: "err + string"
  ho_Join :: "string \<Rightarrow> string \<Rightarrow> string"
  ho_ParseLanguage :: "string \<Rightarrow> err + 'tag"
  ho_English :: 'tag
  ho_ParseLevel :: "string \<Rightarrow> int option"
  ho_dotenv :: "string \<Rightarrow> dotenv_file"
  ho_Setenv :: "string \<Rightarrow> string \<Rightarrow> string option"
  ho_once :: secret_once

definition GetProjectRootDir :: "'tag host \<Rightarrow> err + string" where
  "GetProjectRootDir h =
     (case ho_ExecutableDir h of
        Inl e \<Rightarrow> Inl (Panic ''Failed to get executable path while retrieving project root directory'')
      | Inr dir \<Rightarrow> Inr (GetEnv (ho_env h) ''PROJECT_ROOT_DIR'' dir))"

text \<open>\<open>zerolog.DebugLevel\<close> is 0.\<close>

definition LogLevelFromString :: "(string \<Rightarrow> int option) \<Rightarrow> string \<Rightarrow> int" where
  "LogLevelFromString ParseLevel s = (case ParseLevel s of None \<Rightarrow> 0 | Some level \<Rightarrow> level)"

definition SMTPAuthTypeFromString :: "string \<Rightarrow> SMTPAuthType" where
  "SMTPAuthTypeFromString s =
     (let t = ToLower s
      in if t = ''plain'' then SMTPAuthTypePlain
         else if t = ''cram-md5'' then SMTPAuthTypeCRAMMD5
         else if t = ''login'' then SMTPAuthTypeLogin
         else SMTPAuthTypeNone)"

definition database_settings :: "env \<Rightarrow> int \<Rightarrow> Database" where
  "database_settings env cpus =
     \<lparr>db_Host = GetEnv env ''PGHOST'' ''postgres'',
      db_Port = GetEnvAsInt env ''PGPORT'' 5432,
      db_Username = GetEnv env ''PGUSER'' ''dbuser'',
      db_Password = GetEnv env ''PGPASSWORD'' [],
      db_Database = GetEnv env ''PGDATABASE'' ''development'',
      db_AdditionalParams = [(''sslmode'', GetEnv env ''PGSSLMODE'' ''disable'')],
      db_MaxOpenConns = GetEnvAsInt env ''DB_MAX_OPEN_CONNS'' (cpus * 2),
      db_MaxIdleConns = GetEnvAsInt env ''DB_MAX_IDLE_CONNS'' 1,
      db_ConnMaxLifetime = seconds (GetEnvAsInt env ''DB_CONN_MAX_LIFETIME_SEC'' 60)\<rparr>"

definition secure_settings :: "env \<Rightarrow> EchoServerSecureMiddleware" where
  "secure_settings env =
     \<lparr>sm_XSSProtection = GetEnv env ''SERVER_ECHO_SECURE_MIDDLEWARE_XSS_PROTECTION'' ''1; mode=block'',
      sm_ContentTypeNosniff = GetEnv env ''SERVER_ECHO_SECURE_MIDDLEWARE_CONTENT_TYPE_NOSNIFF'' ''nosniff'',
      sm_XFrameOptions = GetEnv env ''SERVER_ECHO_SECURE_MIDDLEWARE_X_FRAME_OPTIONS'' ''SAMEORIGIN'',
      sm_HSTSMaxAge = GetEnvAsInt env ''SERVER_ECHO_SECURE_MIDDLEWARE_HSTS_MAX_AGE'' 0,
      sm_HSTSExcludeSubdomains = GetEnvAsBool env ''SERVER_ECHO_SECURE_MIDDLEWARE_HSTS_EXCLUDE_SUBDOMAINS'' False,
      sm_ContentSecurityPolicy = GetEnv env ''SERVER_ECHO_SECURE_MIDDLEWARE_CONTENT_SECURITY_POLICY'' [],
      sm_CSPReportOnly = GetEnvAsBool env ''SERVER_ECHO_SECURE_MIDDLEWARE_CSP_REPORT_ONLY'' False,
      sm_HSTSPreloadEnabled = GetEnvAsBool env ''SERVER_ECHO_SECURE_MIDDLEWARE_HSTS_PRELOAD_ENABLED'' False,
      sm_ReferrerPolicy = GetEnv env ''SERVER_ECHO_SECURE_MIDDLEWARE_REFERRER_POLICY'' []\<rparr>"

definition echo_settings :: "env \<Rightarrow> string \<Rightarrow> EchoServer" where
  "echo_settings env views =
     \<lparr>ec_Debug = GetEnvAsBool env ''SERVER_ECHO_DEBUG'' False,
      ec_ListenAddress = GetEnv env ''SERVER_ECHO_LISTEN_ADDRESS'' '':8080'',
      ec_HideInternalServerErrorDetails =
        GetEnvAsBool env ''SERVER_ECHO_HIDE_INTERNAL_SERVER_ERROR_DETAILS'' True,
      ec_BaseURL = GetEnv env ''SERVER_ECHO_BASE_URL'' ''http://localhost:8080'',
      ec_EnableCORSMiddleware = GetEnvAsBool env ''SERVER_ECHO_ENABLE_CORS_MIDDLEWARE'' True,
      ec_EnableLoggerMiddleware = GetEnvAsBool env ''SERVER_ECHO_ENABLE_LOGGER_MIDDLEWARE'' True,
      ec_EnableRecoverMiddleware = GetEnvAsBool env ''SERVER_ECHO_ENABLE_RECOVER_MIDDLEWARE'' True,
      ec_EnableRequestIDMiddleware = GetEnvAsBool env ''SERVER_ECHO_ENABLE_REQUEST_ID_MIDDLEWARE'' True,
      ec_EnableTrailingSlashMiddleware = GetEnvAsBool env ''SERVER_ECHO_ENABLE_TRAILING_SLASH_MIDDLEWARE'' True,
      ec_EnableSecureMiddleware = GetEnvAsBool env ''SERVER_ECHO_ENABLE_SECURE_MIDDLEWARE'' True,
      ec_EnableCacheControlMiddleware = GetEnvAsBool env ''SERVER_ECHO_ENABLE_CACHE_CONTROL_MIDDLEWARE'' True,
      ec_SecureMiddleware = secure_settings env,
      ec_WebTemplatesViewsBaseDirAbs = GetEnv env ''SERVER_ECHO_WEB_TEMPLATES_VIEWS_BASE_DIR_ABS'' views\<rparr>"

definition pprof_settings :: "env \<Rightarrow> PprofServer" where
  "pprof_settings env =
     \<lparr>pp_Enable = GetEnvAsBool env ''SERVER_PPROF_ENABLE'' False,
      pp_EnableManagementKeyAuth = GetEnvAsBool env ''SERVER_PPROF_ENABLE_MANAGEMENT_KEY_AUTH'' True,
      pp_RuntimeBlockProfileRate = GetEnvAsInt env ''SERVER_PPROF_RUNTIME_BLOCK_PROFILE_RATE'' 0,
      pp_RuntimeMutexProfileFraction = GetEnvAsInt env ''SERVER_PPROF_RUNTIME_MUTEX_PROFILE_FRACTION'' 0\<rparr>"

definition auth_settings :: "env \<Rightarrow> AuthSettings" where
  "auth_settings env =
     \<lparr>as_AccessTokenValidity = seconds (GetEnvAsInt env ''SERVER_AUTH_ACCESS_TOKEN_VALIDITY'' 86400),
      as_PasswordResetTokenValidity = seconds (GetEnvAsInt env ''SERVER_AUTH_PASSWORD_RESET_TOKEN_VALIDITY'' 900),
      as_PasswordResetTokenDebounceDuration =
        seconds (GetEnvAsInt env ''SERVER_AUTH_PASSWORD_RESET_TOKEN_DEBOUNCE_DURATION_SECONDS'' 60),
      as_PasswordResetTokenReuseDuration =
        seconds (GetEnvAsInt env ''SERVER_AUTH_PASSWORD_RESET_TOKEN_REUSE_DURATION_SECONDS'' 0),
      as_DefaultUserScopes = GetEnvAsStringArr env ''SERVER_AUTH_DEFAULT_USER_SCOPES'' [''app''] [],
      as_LastAuthenticatedAtThreshold =
        seconds (GetEnvAsInt env ''SERVER_AUTH_LAST_AUTHENTICATED_AT_THRESHOLD'' 900),
      as_RegistrationRequiresConfirmation =
        GetEnvAsBool env ''SERVER_AUTH_REGISTRATION_REQUIRES_CONFIRMATION'' False,
      as_ConfirmationTokenValidity =
        seconds (GetEnvAsInt env ''SERVER_AUTH_CONFIRMATION_TOKEN_VALIDITY_SECONDS'' 86400),
      as_ConfirmationTokenDebounceDuration =
        seconds (GetEnvAsInt env ''SERVER_AUTH_CONFIRMATION_TOKEN_DEBOUNCE_DURATION_SECONDS'' 60)\<rparr>"

definition management_settings :: "env \<Rightarrow> string \<Rightarrow> string \<Rightarrow> ManagementServer" where
  "management_settings env secret mnt =
     \<lparr>mg_Secret = secret,
      mg_ReadinessTimeout = seconds (GetEnvAsInt env ''SERVER_MANAGEMENT_READINESS_TIMEOUT_SEC'' 4),
      mg_LivenessTimeout = seconds (GetEnvAsInt env ''SERVER_MANAGEMENT_LIVENESS_TIMEOUT_SEC'' 9),
      mg_ProbeWriteablePathsAbs =
        GetEnvAsStringArr env ''SERVER_MANAGEMENT_PROBE_WRITEABLE_PATHS_ABS'' [mnt] '','',
      mg_ProbeWriteableTouchfile = GetEnv env ''SERVER_MANAGEMENT_PROBE_WRITEABLE_TOUCHFILE'' ''.healthy'',
      mg_EnableMetrics = GetEnvAsBool env ''SERVER_MANAGEMENT_ENABLE_METRICS'' False\<rparr>"

definition logger_settings :: "(string \<Rightarrow> int option) \<Rightarrow> env \<Rightarrow> LoggerServer" where
  "logger_settings ParseLevel env =
     \<lparr>lg_Level = LogLevelFromString ParseLevel (GetEnv env ''SERVER_LOGGER_LEVEL'' ''debug''),
      lg_RequestLevel = LogLevelFromString ParseLevel (GetEnv env ''SERVER_LOGGER_REQUEST_LEVEL'' ''debug''),
      lg_LogRequestBody = GetEnvAsBool env ''SERVER_LOGGER_LOG_REQUEST_BODY'' False,
      lg_LogRequestHeader = GetEnvAsBool env ''SERVER_LOGGER_LOG_REQUEST_HEADER'' False,
      lg_LogRequestQuery = GetEnvAsBool env ''SERVER_LOGGER_LOG_REQUEST_QUERY'' False,
      lg_LogResponseBody = GetEnvAsBool env ''SERVER_LOGGER_LOG_RESPONSE_BODY'' False,
      lg_LogResponseHeader = GetEnvAsBool env ''SERVER_LOGGER_LOG_RESPONSE_HEADER'' False,
      lg_LogCaller = GetEnvAsBool env ''SERVER_LOGGER_LOG_CALLER'' False,
      lg_PrettyPrintConsole = GetEnvAsBool env ''SERVER_LOGGER_PRETTY_PRINT_CONSOLE'' False\<rparr>"

definition mpc_settings :: "env \<Rightarrow> string \<Rightarrow> MPC" where
  "mpc_settings env shares =
     \<lparr>mp_NodeType = GetEnv env ''MPC_NODE_TYPE'' ''coordinator'',
      mp_NodeID = GetEnv env ''MPC_NODE_ID'' [],
      mp_CoordinatorEndpoint = GetEnv env ''MPC_COORDINATOR_ENDPOINT'' [],
      mp_StorageBackend = GetEnv env ''MPC_STORAGE_BACKEND'' ''postgresql'',
      mp_RedisEndpoint = GetEnv env ''MPC_REDIS_ENDPOINT'' ''localhost:6379'',
      mp_KeyShareStoragePath = GetEnv env ''MPC_KEY_SHARE_STORAGE_PATH'' shares,
      mp_KeyShareEncryptionKey = GetEnv env ''MPC_KEY_SHARE_ENCRYPTION_KEY'' [],
      mp_ConsulAddress = GetEnv env ''MPC_CONSUL_ADDRESS'' ''localhost:8500'',
      mp_SupportedProtocols = GetEnvAsStringArr env ''MPC_SUPPORTED_PROTOCOLS'' [''gg18'', ''gg20'', ''frost''] [],
      mp_DefaultProtocol = GetEnv env ''MPC_DEFAULT_PROTOCOL'' ''gg20'',
      mp_HTTPPort = GetEnvAsInt env ''MPC_HTTP_PORT'' 8080,
      mp_GRPCPort = GetEnvAsInt env ''MPC_GRPC_PORT'' 9090,
      mp_TLSEnabled = GetEnvAsBool env ''MPC_TLS_ENABLED'' True,
      mp_EnableAudit = GetEnvAsBool env ''MPC_ENABLE_AUDIT'' True,
      mp_EnablePolicy = GetEnvAsBool env ''MPC_ENABLE_POLICY'' True,
      mp_KeyRotationDays = GetEnvAsInt env ''MPC_KEY_ROTATION_DAYS'' 0,
      mp_MaxConcurrentSessions = GetEnvAsInt env ''MPC_MAX_CONCURRENT_SESSIONS'' 100,
      mp_MaxConcurrentSignings = GetEnvAsInt env ''MPC_MAX_CONCURRENT_SIGNINGS'' 50,
      mp_SessionTimeout = GetEnvAsInt env ''MPC_SESSION_TIMEOUT'' 300\<rparr>"

text \<open>
  All settings, after the local file. A field whose reader may panic stops the start;
  the enumerations' defaults are allowed values.
\<close>

definition settings_of :: "'tag host \<Rightarrow> string \<Rightarrow> env \<Rightarrow> ('tag host, 'tag ServerSettings) res" where
  "settings_of h root env =
     (let path = ho_Join h root
      in case GetMgmtSecret env ''SERVER_MANAGEMENT_SECRET'' (ho_once h) of
        (Inl e, once) \<Rightarrow> (Inl e, h\<lparr>ho_once := once\<rparr>)
      | (Inr secret, once) \<Rightarrow>
          (pure_wrap (GetEnvEnum env ''SERVER_MAILER_TRANSPORTER'' ''mock'' [''SMTP'', ''mock'']) [] (\<lambda>transporter.
           pure_wrap (GetEnvEnum env ''SERVER_SMTP_ENCRYPTION'' ''none'' [''none'', ''tls'', ''starttls'']) [] (\<lambda>encryption.
           pure_wrap (GetEnvAsLanguageTag (ho_ParseLanguage h) env ''SERVER_I18N_DEFAULT_LANGUAGE'' (ho_English h)) [] (\<lambda>language.
           Inr \<lparr>sc_Database = database_settings env (ho_NumCPU h),
             sc_Echo = echo_settings env (path ''/web/templates/views''),
             sc_Pprof = pprof_settings env,
             sc_Paths = \<lparr>pa_APIBaseDirAbs = GetEnv env ''SERVER_PATHS_API_BASE_DIR_ABS'' (path ''/api''),
               pa_MntBaseDirAbs = GetEnv env ''SERVER_PATHS_MNT_BASE_DIR_ABS'' (path ''/assets/mnt''),
               pa_AppleAppSiteAssociationFile = GetEnv env ''SERVER_PATHS_APPLE_APP_SITE_ASSOCIATION_FILE'' [],
               pa_AndroidAssetlinksFile = GetEnv env ''SERVER_PATHS_ANDROID_ASSETLINKS_FILE'' []\<rparr>,
             sc_Auth = auth_settings env,
             sc_Management = management_settings env secret (path ''/assets/mnt''),
             sc_Mailer = \<lparr>ml_DefaultSender = GetEnv env ''SERVER_MAILER_DEFAULT_SENDER'' ''go-starter@example.com'',
               ml_Send = GetEnvAsBool env ''SERVER_MAILER_SEND'' True,
               ml_WebTemplatesEmailBaseDirAbs =
                 GetEnv env ''SERVER_MAILER_WEB_TEMPLATES_EMAIL_BASE_DIR_ABS'' (path ''/web/templates/email''),
               ml_Transporter = transporter\<rparr>,
             sc_SMTP = \<lparr>st_Host = GetEnv env ''SERVER_SMTP_HOST'' ''mailhog'',
               st_Port = GetEnvAsInt env ''SERVER_SMTP_PORT'' 1025,
               st_Username = GetEnv env ''SERVER_SMTP_USERNAME'' [],
               st_Password = GetEnv env ''SERVER_SMTP_PASSWORD'' [],
               st_AuthType = SMTPAuthTypeFromString (GetEnv env ''SERVER_SMTP_AUTH_TYPE'' ''none''),
               st_Encryption = encryption\<rparr>,
             sc_Frontend = \<lparr>fe_BaseURL = GetEnv env ''SERVER_FRONTEND_BASE_URL'' ''http://localhost:3000'',
               fe_PasswordResetEndpoint =
                 GetEnv env ''SERVER_FRONTEND_PASSWORD_RESET_ENDPOINT'' ''/set-new-password''\<rparr>,
             sc_Logger = logger_settings (ho_ParseLevel h) env,
             sc_Push = \<lparr>ps_UseFCMProvider = GetEnvAsBool env ''SERVER_PUSH_USE_FCM'' False,
               ps_UseMockProvider = GetEnvAsBool env ''SERVER_PUSH_USE_MOCK'' True\<rparr>,
             sc_FCMConfig = \<lparr>fcm_GoogleApplicationCredentials = GetEnv env ''GOOGLE_APPLICATION_CREDENTIALS'' [],
               fcm_ProjectID = GetEnv env ''SERVER_FCM_PROJECT_ID'' ''no-fcm-project-id-set'',
               fcm_ValidateOnly = GetEnvAsBool env ''SERVER_FCM_VALIDATE_ONLY'' True\<rparr>,
             sc_I18n = \<lparr>in_DefaultLanguage = language,
               in_BundleDirAbs = GetEnv env ''SERVER_I18N_BUNDLE_DIR_ABS'' (path ''/web/i18n'')\<rparr>,
             sc_MPC = mpc_settings env (path ''/var/lib/mpc/key-shares'')\<rparr>))),
           h\<lparr>ho_env := env, ho_once := once\<rparr>))"

definition DefaultServiceConfigFromEnv :: "'tag host \<Rightarrow> ('tag host, 'tag ServerSettings) res" where
  "DefaultServiceConfigFromEnv h =
     (case GetProjectRootDir h of
        Inl e \<Rightarrow> (Inl e, h)
      | Inr root \<Rightarrow>
          (case DotEnvTryLoad (ho_dotenv h (ho_Join h root ''.env.local'')) (ho_Setenv h) (ho_env h) of
             (Inl e, env) \<Rightarrow> (Inl e, h\<lparr>ho_env := env\<rparr>)
           | (Inr _, env) \<Rightarrow> settings_of h root env))"

text \<open>The settings of the authentication as its service reads them, in microseconds.\<close>

definition auth_server :: "AuthSettings \<Rightarrow> AuthServer" where
  "auth_server a =
     \<lparr>cf_AccessTokenValidity = micros (as_AccessTokenValidity a),
      cf_PasswordResetTokenValidity = micros (as_PasswordResetTokenValidity a),
      cf_PasswordResetTokenDebounceDuration = micros (as_PasswordResetTokenDebounceDuration a),
      cf_PasswordResetTokenReuseDuration = micros (as_PasswordResetTokenReuseDuration a),
      cf_DefaultUserScopes = as_DefaultUserScopes a,
      cf_LastAuthenticatedAtThreshold = micros (as_LastAuthenticatedAtThreshold a),
      cf_RegistrationRequiresConfirmation = as_RegistrationRequiresConfirmation a,
      cf_ConfirmationTokenValidity = micros (as_ConfirmationTokenValidity a),
      cf_ConfirmationTokenDebounceDuration = micros (as_ConfirmationTokenDebounceDuration a)\<rparr>"

end
