(* ===== verification/Push.thy ===== *)
theory Push
  imports Config
begin

text \<open>
  \<open>internal/push\<close>: the service that sends a message to the devices of a user
  (\<open>service.go\<close>) over its providers (\<open>provider/fcm_provider.go\<close>, \<open>provider/mock_provider.go\<close>,
  \<open>provider/helper.go\<close>), on the table of push tokens of the accounts. The answers of Google's
  service are given by \<open>pw_answer\<close>, one for each send; \<open>pw_sent\<close> lists what was sent and how
  it was answered. A map of providers is a list, whose order is that of its iteration.
\<close>

section \<open>Providers\<close>

datatype send_error = GoogleError int string | SendError string

record ProviderSendResponse =
  pr_Token :: string
  pr_Valid :: bool
  pr_Err :: "send_error option"

datatype Provider = FCM FCMConfig | Mock string

definition GetProviderType :: "Provider \<Rightarrow> string" where
  "GetProviderType p = (case p of FCM _ \<Rightarrow> ''fcm'' | Mock ty \<Rightarrow> ty)"

record push_world =
  pw_accounts :: accounts
  pw_sent :: "(Provider \<times> string \<times> string \<times> ProviderSendResponse) list"
  pw_answer :: "nat \<Rightarrow> send_error option"

text \<open>A token is at fault only when Google answers 404 or 400.\<close>

definition fcm_response :: "send_error option \<Rightarrow> string \<Rightarrow> ProviderSendResponse" where
  "fcm_response err token =
     \<lparr>pr_Token = token,
      pr_Valid = (case err of Some (GoogleError code _) \<Rightarrow> code \<noteq> 404 \<and> code \<noteq> 400 | _ \<Rightarrow> True),
      pr_Err = err\<rparr>"

definition mock_response :: "string \<Rightarrow> string \<Rightarrow> ProviderSendResponse" where
  "mock_response token title =
     \<lparr>pr_Token = token, pr_Valid = (length token \<ge> 40),
      pr_Err = (if title = ''other error'' then Some (SendError ''other error'')
                else if length token < 40 then Some (SendError ''invalid token'') else None)\<rparr>"

definition Send :: "Provider \<Rightarrow> string \<Rightarrow> string \<Rightarrow> string \<Rightarrow> push_world \<Rightarrow> ProviderSendResponse \<times> push_world" where
  "Send p token title message w =
     (let r = (case p of FCM _ \<Rightarrow> fcm_response (pw_answer w (length (pw_sent w))) token | Mock _ \<Rightarrow> mock_response token title)
      in (r, w\<lparr>pw_sent := pw_sent w @ [(p, title, message, r)]\<rparr>))"

fun SendMulticast ::
  "Provider \<Rightarrow> string list \<Rightarrow> string \<Rightarrow> string \<Rightarrow> push_world \<Rightarrow> ProviderSendResponse list \<times> push_world" where
  "SendMulticast p [] title message w = ([], w)"
| "SendMulticast p (token # tokens) title message w =
     (let (r, w) = Send p token title message w; (rs, w) = SendMulticast p tokens title message w in (r # rs, w))"

section \<open>The service\<close>

type_synonym providers = "(string \<times> Provider) list"

definition RegisterProvider :: "providers \<Rightarrow> Provider \<Rightarrow> providers" where
  "RegisterProvider ps p = AList.update (GetProviderType p) p ps"

definition ResetProviders :: "providers \<Rightarrow> providers" where
  "ResetProviders ps = []"

definition GetProviderCount :: "providers \<Rightarrow> nat" where
  "GetProviderCount ps = length ps"

text \<open>The column of the provider has an enumeration type, which refuses other texts.\<close>

definition tokens_of :: "string \<Rightarrow> string \<Rightarrow> accounts \<Rightarrow> (accounts, string list) ares" where
  "tokens_of providerType uid w =
     sql Pool (\<lambda>db. if providerType \<in> {''fcm'', ''apn''}
        then Inr (map pu_Token (filter (\<lambda>r. pu_Provider r = providerType \<and> pu_UserID r = uid) (push_t db)), id)
        else Inl (GoErr ''invalid input value for enum provider_type'')) w"

text \<open>\<open>WHERE token IN (...) AND user_id = ...\<close>; an empty list matches nothing.\<close>

definition without_tokens :: "string list \<Rightarrow> string \<Rightarrow> account_db \<Rightarrow> account_db" where
  "without_tokens tokens uid db =
     db\<lparr>push_t := filter (\<lambda>r. \<not> (pu_Token r \<in> set tokens \<and> pu_UserID r = uid)) (push_t db)\<rparr>"

definition on_accounts :: "(accounts \<Rightarrow> (accounts, 'a) ares) \<Rightarrow> push_world \<Rightarrow> (push_world, 'a) ares" where
  "on_accounts f w = (case f (pw_accounts w) of (r, a) \<Rightarrow> (r, w\<lparr>pw_accounts := a\<rparr>))"

definition invalid_tokens :: "ProviderSendResponse list \<Rightarrow> string list" where
  "invalid_tokens rs = map pr_Token (filter (\<lambda>r. \<not> pr_Valid r) rs)"

fun send_all :: "providers \<Rightarrow> string \<Rightarrow> string \<Rightarrow> string \<Rightarrow> push_world \<Rightarrow> (push_world, unit) ares" where
  "send_all [] uid title message w = (Inr (), w)"
| "send_all ((ty, p) # ps) uid title message w =
     (case on_accounts (tokens_of ty uid) w of
        (Inl f, w) \<Rightarrow> (Inl (WrapErr ''failed to get push tokens'' f), w)
      | (Inr tokens, w) \<Rightarrow>
          (case SendMulticast p tokens title message w of (responses, w) \<Rightarrow>
             (case on_accounts (sql_write Pool (without_tokens (invalid_tokens responses) uid)) w of
                (Inl f, w) \<Rightarrow> (Inl f, w)
              | (Inr _, w) \<Rightarrow> send_all ps uid title message w)))"

definition SendToUser :: "providers \<Rightarrow> string \<Rightarrow> string \<Rightarrow> string \<Rightarrow> push_world \<Rightarrow> (push_world, unit) ares" where
  "SendToUser ps uid title message w =
     (if GetProviderCount ps < 1 then (Inl (GoErr ''no provider found''), w)
      else send_all ps uid title message w)"

section \<open>Facts\<close>

text \<open>The answers of a run: what was added to the list of sent messages.\<close>

definition answers :: "push_world \<Rightarrow> push_world \<Rightarrow> ProviderSendResponse list" where
  "answers w w' = map (\<lambda>(_, _, _, r). r) (drop (length (pw_sent w)) (pw_sent w'))"

definition sent_after :: "push_world \<Rightarrow> push_world \<Rightarrow> bool" where
  "sent_after w w' \<longleftrightarrow> (\<exists>more. pw_sent w' = pw_sent w @ more)"

lemma sent_after_refl [simp]: "sent_after w w"
  by (simp add: sent_after_def)

lemma sent_after_trans: "sent_after a b \<Longrightarrow> sent_after b c \<Longrightarrow> sent_after a c"
  by (auto simp: sent_after_def)

lemma answers_trans: "sent_after a b \<Longrightarrow> sent_after b c \<Longrightarrow> answers a c = answers a b @ answers b c"
  by (auto simp: sent_after_def answers_def)

lemma Send_answer:
  assumes "Send p token title message w = (r, w')"
  shows "pw_accounts w' = pw_accounts w \<and> sent_after w w' \<and> answers w w' = [r] \<and> pr_Token r = token"
proof -
  have w': "w' = w\<lparr>pw_sent := pw_sent w @ [(p, title, message, r)]\<rparr>"
    using assms by (auto simp: Send_def Let_def)
  have "pr_Token r = token"
    using assms by (cases p) (auto simp: Send_def fcm_response_def mock_response_def Let_def)
  with w' show ?thesis
    by (simp add: sent_after_def answers_def)
qed

lemma SendMulticast_answers:
  "SendMulticast p tokens title message w = (rs, w') \<Longrightarrow>
     pw_accounts w' = pw_accounts w \<and> sent_after w w' \<and> answers w w' = rs \<and> map pr_Token rs = tokens"
proof (induction p tokens title message w arbitrary: rs w' rule: SendMulticast.induct)
  case (1 p title message w)
  then show ?case by (simp add: answers_def)
next
  case (2 p token tokens title message w)
  obtain r w1 where one: "Send p token title message w = (r, w1)"
    by fastforce
  obtain rs1 where rest: "SendMulticast p tokens title message w1 = (rs1, w')" and rs: "rs = r # rs1"
    using 2(2) one by (auto split: prod.splits)
  note first = Send_answer [OF one]
  have "pw_accounts w' = pw_accounts w1 \<and> sent_after w1 w' \<and> answers w1 w' = rs1 \<and> map pr_Token rs1 = tokens"
    using 2(1) [OF one [symmetric] HOL.refl rest] .
  with first rs show ?case
    by (auto intro: sent_after_trans simp: answers_trans [of w w1 w'])
qed

text \<open>Rows are only taken away, and only rows of the user whose token was answered invalid.\<close>

definition only_invalid_removed :: "string \<Rightarrow> push_world \<Rightarrow> push_world \<Rightarrow> bool" where
  "only_invalid_removed uid w w' \<longleftrightarrow>
     (\<exists>gone. set gone \<subseteq> set (invalid_tokens (answers w w'))
        \<and> adb (pw_accounts w') = without_tokens gone uid (adb (pw_accounts w)))"

lemma without_tokens_twice: "without_tokens b uid (without_tokens a uid db) = without_tokens (a @ b) uid db"
proof -
  have "filter (\<lambda>r. \<not> (pu_Token r \<in> set b \<and> pu_UserID r = uid)) (filter (\<lambda>r. \<not> (pu_Token r \<in> set a \<and> pu_UserID r = uid)) xs)
      = filter (\<lambda>r. \<not> (pu_Token r \<in> set (a @ b) \<and> pu_UserID r = uid)) xs" for xs
    by (induction xs) auto
  from this [of "push_t db"] show ?thesis by (simp add: without_tokens_def)
qed

lemma without_no_tokens [simp]: "without_tokens [] uid db = db"
  by (simp add: without_tokens_def)

lemma invalid_tokens_append: "invalid_tokens (a @ b) = invalid_tokens a @ invalid_tokens b"
  by (simp add: invalid_tokens_def)

lemma only_invalid_removed_trans:
  assumes "only_invalid_removed uid a b" and "only_invalid_removed uid b c" and "sent_after a b" and "sent_after b c"
  shows "only_invalid_removed uid a c"
proof -
  obtain g h where "set g \<subseteq> set (invalid_tokens (answers a b))" "adb (pw_accounts b) = without_tokens g uid (adb (pw_accounts a))"
    and "set h \<subseteq> set (invalid_tokens (answers b c))" "adb (pw_accounts c) = without_tokens h uid (adb (pw_accounts b))"
    using assms(1,2) unfolding only_invalid_removed_def by blast
  then show ?thesis
    unfolding only_invalid_removed_def
    by (intro exI [where x = "g @ h"])
       (auto simp: answers_trans [OF assms(3,4)] invalid_tokens_append without_tokens_twice)
qed

lemma sql_write_Pool_cases:
  assumes "sql_write Pool g a = (r, a')"
  shows "adb a' = g (adb a) \<or> (adb a' = adb a \<and> (\<exists>f. r = Inl f))"
  using assms
  by (auto simp: sql_write_def sql_def store_def Let_def split: option.splits if_splits)

lemma tokens_of_reads:
  "tokens_of ty uid a = (r, a') \<Longrightarrow> adb a' = adb a \<and>
     (\<forall>ts. r = Inr ts \<longrightarrow>
        ts = map pu_Token (filter (\<lambda>r. pu_Provider r = ty \<and> pu_UserID r = uid) (push_t (adb a))))"
  by (auto simp: tokens_of_def sql_def store_def view_def Let_def split: option.splits if_splits)

lemma send_all_only_invalid:
  "send_all ps uid title message w = (r, w') \<Longrightarrow> sent_after w w' \<and> only_invalid_removed uid w w'
     \<and> (r = Inr () \<longrightarrow> adb (pw_accounts w') = without_tokens (invalid_tokens (answers w w')) uid (adb (pw_accounts w)))"
proof (induction ps uid title message w arbitrary: r w' rule: send_all.induct)
  case (1 uid title message w)
  then show ?case by (auto simp: only_invalid_removed_def answers_def invalid_tokens_def)
next
  case (2 ty p ps uid title message w)
  obtain t a where read: "tokens_of ty uid (pw_accounts w) = (t, a)"
    by fastforce
  let ?w1 = "w\<lparr>pw_accounts := a\<rparr>"
  have same: "adb a = adb (pw_accounts w)"
    using tokens_of_reads [OF read] by simp
  show ?case
  proof (cases t)
    case (Inl f)
    with 2(2) read have "w' = ?w1" "r \<noteq> Inr ()"
      by (auto simp: on_accounts_def)
    with same show ?thesis
      by (auto simp: sent_after_def only_invalid_removed_def answers_def invalid_tokens_def)
  next
    case (Inr tokens)
    obtain rs w2 where sent: "SendMulticast p tokens title message ?w1 = (rs, w2)"
      by fastforce
    note m = SendMulticast_answers [OF sent]
    let ?gone = "invalid_tokens rs"
    obtain d b where del: "sql_write Pool (without_tokens ?gone uid) (pw_accounts w2) = (d, b)"
      by fastforce
    let ?w3 = "w2\<lparr>pw_accounts := b\<rparr>"
    have w3: "sent_after w ?w3" "answers w ?w3 = rs"
      using m by (auto simp: sent_after_def answers_def)
    have removed: "only_invalid_removed uid w ?w3"
      using sql_write_Pool_cases [OF del] m same w3(2) unfolding only_invalid_removed_def
      by (cases "adb b = adb a")
         (auto intro: exI [where x = "[]"] exI [where x = ?gone])
    show ?thesis
    proof (cases d)
      case (Inl f)
      with 2(2) read Inr sent del have "w' = ?w3" "r \<noteq> Inr ()"
        by (auto simp: on_accounts_def)
      with w3 removed show ?thesis by simp
    next
      case del_ok: (Inr u)
      have rest: "send_all ps uid title message ?w3 = (r, w')"
        using 2(2) read Inr sent del del_ok by (simp add: on_accounts_def)
      have a1: "on_accounts (tokens_of ty uid) w = (Inr tokens, ?w1)"
        using read Inr by (simp add: on_accounts_def)
      have a2: "on_accounts (sql_write Pool (without_tokens ?gone uid)) w2 = (Inr u, ?w3)"
        using del del_ok by (simp add: on_accounts_def)
      note IH = 2(1) [OF a1 [symmetric] HOL.refl sent [symmetric] a2 [symmetric] HOL.refl rest]
      have step: "adb b = without_tokens ?gone uid (adb (pw_accounts w))"
        using sql_write_Pool_cases [OF del] m same del_ok by auto
      have "answers w w' = rs @ answers ?w3 w'"
        using answers_trans [OF w3(1), of w'] IH w3(2) by simp
      with IH step show ?thesis
        using sent_after_trans [OF w3(1)] only_invalid_removed_trans [OF removed _ w3(1)]
        by (auto simp: invalid_tokens_append without_tokens_twice)
    qed
  qed
qed

end
