(* ===== verification/Localization.thy ===== *)
theory Localization
  imports Config
begin

text \<open>
  \<open>internal/i18n/i18n.go\<close>: the service that loads a bundle of messages and translates
  keys. The packages \<open>go-i18n\<close> and \<open>x/text/language\<close> are the parameter \<open>i18n_lib\<close>: a bundle
  \<open>'b\<close> that files are loaded into, the matching of languages, and the localizing itself,
  which gives a text and perhaps an error.
\<close>

type_synonym Data = "string \<rightharpoonup> string"

record LocalizeConfig =
  lz_MessageID :: string
  lz_PluralCount :: "string option"
  lz_TemplateData :: "Data option"

record ('tag, 'b) i18n_lib =
  i8_NewBundle :: "'tag \<Rightarrow> 'b"
  i8_LoadMessageFile :: "string \<Rightarrow> 'b \<Rightarrow> err + 'b"
  i8_LanguageTags :: "'b \<Rightarrow> 'tag list"
  i8_Und :: 'tag
  i8_TagString :: "'tag \<Rightarrow> string"
  i8_Match :: "'tag list \<Rightarrow> 'tag list \<Rightarrow> 'tag"  \<comment> \<open>supported, wanted\<close>
  i8_ParseAcceptLanguage :: "string \<Rightarrow> 'tag list \<times> err option"
  i8_Parse :: "string \<Rightarrow> 'tag \<times> err option"
  i8_Localize :: "'b \<Rightarrow> string \<Rightarrow> LocalizeConfig \<Rightarrow> string \<times> err option"

record ('tag, 'b) I18nService =
  is_bundle :: 'b
  is_matcher :: "'tag list"

text \<open>\<open>os.ReadDir\<close>: names, and whether they are directories.\<close>

type_synonym dir_listing = "err + (string \<times> bool) list"

definition HasSuffix :: "string \<Rightarrow> string \<Rightarrow> bool" where
  "HasSuffix s p \<longleftrightarrow> length p \<le> length s \<and> drop (length s - length p) s = p"

fun load_messages :: "('tag, 'b) i18n_lib \<Rightarrow> (string \<Rightarrow> string) \<Rightarrow> (string \<times> bool) list \<Rightarrow> 'b \<Rightarrow> err + 'b" where
  "load_messages lib path [] bundle = Inr bundle"
| "load_messages lib path ((name, folder) # files) bundle =
     (if folder \<or> \<not> HasSuffix name ''.toml'' then load_messages lib path files bundle
      else case i8_LoadMessageFile lib (path name) bundle of
        Inl e \<Rightarrow> Inl (Wrap e ''failed to load i18n message file'')
      | Inr bundle \<Rightarrow> load_messages lib path files bundle)"

definition i18n_New ::
  "('tag, 'b) i18n_lib \<Rightarrow> (string \<Rightarrow> string \<Rightarrow> string) \<Rightarrow> (string \<Rightarrow> dir_listing) \<Rightarrow> 'tag I18nSettings
     \<Rightarrow> err + ('tag, 'b) I18nService" where
  "i18n_New lib fp_Join ReadDir cfg =
     (case ReadDir (in_BundleDirAbs cfg) of
        Inl e \<Rightarrow> Inl (Wrap e ''failed to read i18n bundle directory'')
      | Inr files \<Rightarrow>
          (case load_messages lib (fp_Join (in_BundleDirAbs cfg)) files (i8_NewBundle lib (in_DefaultLanguage cfg)) of
             Inl e \<Rightarrow> Inl e
           | Inr bundle \<Rightarrow>
               if i8_Und lib \<in> set (i8_LanguageTags lib bundle)
               then Inl (Err ''invalid i18n message bundle or default language'')
               else Inr \<lparr>is_bundle = bundle, is_matcher = i8_LanguageTags lib bundle\<rparr>))"

definition translateConfigurable ::
  "('tag, 'b) i18n_lib \<Rightarrow> ('tag, 'b) I18nService \<Rightarrow> 'tag \<Rightarrow> LocalizeConfig \<Rightarrow> string \<times> err option" where
  "translateConfigurable lib m lang cfg =
     (let (msg, e) = i8_Localize lib (is_bundle m) (i8_TagString lib lang) cfg
      in (msg, map_option (\<lambda>e. Wrap e ''failed to localize'') e))"

text \<open>Only the first of the optional maps is used.\<close>

definition TranslateMaybe ::
  "('tag, 'b) i18n_lib \<Rightarrow> ('tag, 'b) I18nService \<Rightarrow> string \<Rightarrow> 'tag \<Rightarrow> Data list \<Rightarrow> string \<times> err option" where
  "TranslateMaybe lib m key lang data =
     translateConfigurable lib m lang
       \<lparr>lz_MessageID = key, lz_PluralCount = None,
        lz_TemplateData = (case data of [] \<Rightarrow> None | d # _ \<Rightarrow> Some d)\<rparr>"

definition Translate ::
  "('tag, 'b) i18n_lib \<Rightarrow> ('tag, 'b) I18nService \<Rightarrow> string \<Rightarrow> 'tag \<Rightarrow> Data list \<Rightarrow> string" where
  "Translate lib m key lang data =
     (case TranslateMaybe lib m key lang data of (msg, None) \<Rightarrow> msg | (_, Some _) \<Rightarrow> key)"

text \<open>\<open>cnt\<close> is the count as \<open>fmt\<close> prints it; the caller's data may replace it.\<close>

definition TranslatePluralMaybe ::
  "('tag, 'b) i18n_lib \<Rightarrow> ('tag, 'b) I18nService \<Rightarrow> string \<Rightarrow> string \<Rightarrow> 'tag \<Rightarrow> Data list \<Rightarrow> string \<times> err option" where
  "TranslatePluralMaybe lib m cldrKey cnt lang data =
     translateConfigurable lib m lang
       \<lparr>lz_MessageID = cldrKey, lz_PluralCount = Some cnt,
        lz_TemplateData = Some ([''Count'' \<mapsto> cnt] ++ (case data of [] \<Rightarrow> Map.empty | d # _ \<Rightarrow> d))\<rparr>"

definition TranslatePlural ::
  "('tag, 'b) i18n_lib \<Rightarrow> ('tag, 'b) I18nService \<Rightarrow> string \<Rightarrow> string \<Rightarrow> 'tag \<Rightarrow> Data list \<Rightarrow> string" where
  "TranslatePlural lib m cldrKey cnt lang data =
     (case TranslatePluralMaybe lib m cldrKey cnt lang data of
        (msg, None) \<Rightarrow> msg
      | (_, Some _) \<Rightarrow> cldrKey @ '' (count='' @ cnt @ '')'')"

definition ParseAcceptLanguage :: "('tag, 'b) i18n_lib \<Rightarrow> ('tag, 'b) I18nService \<Rightarrow> string \<Rightarrow> 'tag" where
  "ParseAcceptLanguage lib m lang = i8_Match lib (is_matcher m) (fst (i8_ParseAcceptLanguage lib lang))"

definition ParseLang :: "('tag, 'b) i18n_lib \<Rightarrow> ('tag, 'b) I18nService \<Rightarrow> string \<Rightarrow> 'tag" where
  "ParseLang lib m lang = i8_Match lib (is_matcher m) [fst (i8_Parse lib lang)]"

definition Tags :: "('tag, 'b) i18n_lib \<Rightarrow> ('tag, 'b) I18nService \<Rightarrow> 'tag list" where
  "Tags lib m = i8_LanguageTags lib (is_bundle m)"

text \<open>A service that was made offers the languages its matcher knows, and none is undetermined.\<close>

lemma i18n_New_tags:
  assumes "i18n_New lib fp_Join ReadDir cfg = Inr m"
  shows "Tags lib m = is_matcher m" and "i8_Und lib \<notin> set (Tags lib m)"
  using assms by (auto simp: i18n_New_def Tags_def split: sum.splits if_splits)

end
