(* ===== verification/Startup.thy ===== *)
theory Startup
  imports Push Localization Grpc
begin

text \<open>
  How a node comes to life and goes down again: the providers and the wiring of
  \<open>internal/api/providers.go\<close>, \<open>wire_gen.go\<close> and \<open>internal/persistence\<close>, the server with its
  \<open>Ready\<close>, \<open>Start\<close> and \<open>Shutdown\<close> (\<open>internal/api/server.go\<close>), the gRPC server's listening
  (\<open>internal/mpc/grpc/server.go\<close>) and the command that runs it (\<open>cmd/server\<close>,
  \<open>util/command\<close>). A component of the server is the part of it that the settings
  decide. What libraries and other processes answer is gathered in \<open>outside\<close>.
\<close>

section \<open>Providers (providers.go, persistence/postgres.go, mailer/mailer.go)\<close>

datatype mail_transport = MockTransport | SMTPTransport SMTPMailTransportConfig

record Mailer =
  ma_Config :: MailerSettings
  ma_Transport :: mail_transport
  ma_Templates :: "string list"

record ('tag, 'b) outside =
  ou_Open :: "string \<Rightarrow> err + unit"  \<comment> \<open>\<open>sql.Open\<close>\<close>
  ou_Ping :: "string \<Rightarrow> err + unit"
  ou_ReadDir :: "string \<Rightarrow> dir_listing"
  ou_ParseGlob :: "string \<Rightarrow> err + unit"
  ou_Join :: "string \<Rightarrow> string \<Rightarrow> string"
  ou_NewFCM :: "FCMConfig \<Rightarrow> err + unit"
  ou_i18n :: "('tag, 'b) i18n_lib"
  ou_scrypt :: "string \<Rightarrow> string \<Rightarrow> err + byte list"
  ou_NewConsul :: "string \<Rightarrow> err + unit"
  ou_RedisPing :: "string \<Rightarrow> err + unit"

definition NewDB :: "('tag, 'b) outside \<Rightarrow> Database \<Rightarrow> err + Database" where
  "NewDB o1 cfg =
     pure_wrap (ou_Open o1 (ConnectionString cfg)) ''failed to open db connection'' (\<lambda>_.
     pure_wrap (ou_Ping o1 (ConnectionString cfg)) ''failed to ping DB'' (\<lambda>_. Inr cfg))"

fun parse_templates :: "('tag, 'b) outside \<Rightarrow> string \<Rightarrow> (string \<times> bool) list \<Rightarrow> string list \<Rightarrow> err + string list" where
  "parse_templates o1 dir [] templates = Inr templates"
| "parse_templates o1 dir ((name, folder) # files) templates =
     (if \<not> folder then parse_templates o1 dir files templates
      else pure_wrap (ou_ParseGlob o1 (ou_Join o1 (ou_Join o1 dir name) ''**'')) ''failed to parse email template files as glob''
             (\<lambda>_. parse_templates o1 dir files (name # templates)))"

definition ParseTemplates :: "('tag, 'b) outside \<Rightarrow> MailerSettings \<Rightarrow> err + string list" where
  "ParseTemplates o1 cfg =
     pure_wrap (ou_ReadDir o1 (ml_WebTemplatesEmailBaseDirAbs cfg))
       ''failed to read email templates directory while parsing templates''
       (\<lambda>files. parse_templates o1 (ml_WebTemplatesEmailBaseDirAbs cfg) files [])"

definition NewMailer :: "('tag, 'b) outside \<Rightarrow> MailerSettings \<Rightarrow> SMTPMailTransportConfig \<Rightarrow> err + Mailer" where
  "NewMailer o1 cfg smtp =
     (let made = (\<lambda>transport. pure_wrap (ParseTemplates o1 cfg) ''failed to parse mailer templates''
                    (\<lambda>ts. Inr \<lparr>ma_Config = cfg, ma_Transport = transport, ma_Templates = ts\<rparr>))
      in if ml_Transporter cfg = ''mock'' then made MockTransport
         else if ml_Transporter cfg = ''SMTP'' then made (SMTPTransport smtp)
         else Inl (Err (''unsupported mail transporter: '' @ ml_Transporter cfg)))"

text \<open>The mock provider is registered under the type of the other one and replaces it.\<close>

definition NewPush :: "('tag, 'b) outside \<Rightarrow> 'tag ServerSettings \<Rightarrow> err + providers" where
  "NewPush o1 cfg =
     (let mock = (\<lambda>ps. if ps_UseMockProvider (sc_Push cfg) then RegisterProvider ps (Mock ''fcm'') else ps)
      in if ps_UseFCMProvider (sc_Push cfg)
         then pure_wrap (ou_NewFCM o1 (sc_FCMConfig cfg)) ''failed to create FCM provider''
                (\<lambda>_. Inr (mock (RegisterProvider [] (FCM (sc_FCMConfig cfg)))))
         else Inr (mock []))"

definition NewKeyShareStorage ::
  "('tag, 'b) outside \<Rightarrow> MPC \<Rightarrow> fsys \<Rightarrow> (fsys, FileSystemKeyShareStorage) res" where
  "NewKeyShareStorage o1 cfg s =
     (if mp_KeyShareStoragePath cfg = [] then (Inl (Err ''MPC KeyShareStoragePath is not configured''), s)
      else if mp_KeyShareEncryptionKey cfg = [] then (Inl (Err ''MPC KeyShareEncryptionKey is not configured''), s)
      else NewFileSystemKeyShareStorage (ou_scrypt o1) (mp_KeyShareStoragePath cfg) (mp_KeyShareEncryptionKey cfg) s)"

definition NewRedisClient :: "('tag, 'b) outside \<Rightarrow> MPC \<Rightarrow> err + string" where
  "NewRedisClient o1 cfg =
     (if mp_RedisEndpoint cfg = [] then Inl (Err ''MPC RedisEndpoint is not configured'')
      else pure_wrap (ou_RedisPing o1 (mp_RedisEndpoint cfg)) ''failed to ping redis'' (\<lambda>_. Inr (mp_RedisEndpoint cfg)))"

definition NewMPCDiscoveryService :: "('tag, 'b) outside \<Rightarrow> MPC \<Rightarrow> err + string" where
  "NewMPCDiscoveryService o1 cfg =
     (case ou_NewConsul o1 (mp_ConsulAddress cfg) of
        Inl e \<Rightarrow> Inl (wrap_err ''failed to create consul client'' (wrap_err ''failed to create consul client'' e))
      | Inr _ \<Rightarrow> Inr (mp_ConsulAddress cfg))"

definition node_or_default :: "MPC \<Rightarrow> string" where
  "node_or_default cfg = (if mp_NodeID cfg = [] then ''default-node'' else mp_NodeID cfg)"

text \<open>The interval of heartbeats and the time of a session are the same setting.\<close>

definition NewNodeManager :: "MPC \<Rightarrow> int" where
  "NewNodeManager cfg = (let heartbeat = (if mp_SessionTimeout cfg \<le> 0 then 30 else mp_SessionTimeout cfg) in seconds heartbeat)"

definition NewSessionManager :: "MPC \<Rightarrow> int" where
  "NewSessionManager cfg = (let timeout = (if mp_SessionTimeout cfg \<le> 0 then 300 else mp_SessionTimeout cfg) in seconds timeout)"

text \<open>No file names of certificates are taken over from the settings; there are none.\<close>

definition NewGRPCClient :: "MPC \<Rightarrow> GRPCClient" where
  "NewGRPCClient cfg =
     \<lparr>gc_clients = [],
      gc_cfg = \<lparr>cc_TLSEnabled = mp_TLSEnabled cfg, cc_TLSCertFile = [], cc_TLSKeyFile = [], cc_TLSCACertFile = [],
                cc_Timeout = seconds 600, cc_KeepAlive = seconds 600\<rparr>,
      gc_thisNodeID = node_or_default cfg\<rparr>"

definition NewGRPCServer :: "MPC \<Rightarrow> ServerConfig" where
  "NewGRPCServer cfg =
     \<lparr>sg_Port = mp_GRPCPort cfg, sg_TLSEnabled = mp_TLSEnabled cfg, sg_TLSCertFile = [], sg_TLSKeyFile = [],
      sg_TLSCACertFile = [], sg_MaxConnAge = seconds 7200, sg_KeepAlive = seconds 30\<rparr>"

text \<open>The engine of a node: the protocol, its curve and the node it acts as.\<close>

record engine_choice =
  ec_protocol :: string
  ec_curve :: string
  ec_thisNodeID :: string

definition protocol_or_default :: "MPC \<Rightarrow> string" where
  "protocol_or_default cfg = (if mp_DefaultProtocol cfg = [] then ''gg20'' else mp_DefaultProtocol cfg)"

definition NewProtocolEngine :: "MPC \<Rightarrow> engine_choice" where
  "NewProtocolEngine cfg =
     (let p = protocol_or_default cfg
      in \<lparr>ec_protocol = (if p = ''gg18'' then ''gg18'' else if p = ''gg20'' then ''gg20'' else if p = ''frost'' then ''frost'' else ''gg20''),
          ec_curve = ''secp256k1'', ec_thisNodeID = node_or_default cfg\<rparr>)"

section \<open>The server (server.go, wire_gen.go)\<close>

record ('tag, 'b) Server =
  sr_Echo :: "string option"  \<comment> \<open>the address it will listen on\<close>
  sr_Router :: bool
  sr_Config :: "'tag ServerSettings"
  sr_DB :: "Database option"
  sr_Mailer :: "Mailer option"
  sr_Push :: "providers option"
  sr_I18n :: "('tag, 'b) I18nService option"
  sr_Clock :: bool
  sr_Auth :: "AuthServer option"
  sr_Local :: bool
  sr_Metrics :: bool
  sr_KeyService :: "engine_choice option"
  sr_SigningService :: "string option"  \<comment> \<open>the default protocol\<close>
  sr_CoordinatorService :: "string option"  \<comment> \<open>its node\<close>
  sr_ParticipantService :: "string option"  \<comment> \<open>its node\<close>
  sr_NodeManager :: "int option"  \<comment> \<open>the interval of heartbeats\<close>
  sr_NodeRegistry :: bool
  sr_NodeDiscovery :: bool
  sr_SessionManager :: "int option"  \<comment> \<open>the time of a session\<close>
  sr_DiscoveryService :: "string option"
  sr_MPCGRPCServer :: "(ServerConfig \<times> string) option"
  sr_MPCGRPCClient :: "(GRPCClient \<times> bool) option"  \<comment> \<open>with whether it can discover nodes\<close>

definition newServerWithComponents ::
  "'tag ServerSettings \<Rightarrow> Database \<Rightarrow> Mailer \<Rightarrow> providers \<Rightarrow> ('tag, 'b) I18nService \<Rightarrow> string \<Rightarrow> ('tag, 'b) Server" where
  "newServerWithComponents cfg db mail pusher i18n discoveryService =
     (let m = sc_MPC cfg
      in \<lparr>sr_Echo = None, sr_Router = False, sr_Config = cfg, sr_DB = Some db, sr_Mailer = Some mail,
          sr_Push = Some pusher, sr_I18n = Some i18n, sr_Clock = True, sr_Auth = Some (auth_server (sc_Auth cfg)),
          sr_Local = True, sr_Metrics = True, sr_KeyService = Some (NewProtocolEngine m),
          sr_SigningService = Some (protocol_or_default m), sr_CoordinatorService = Some (mp_NodeID m),
          sr_ParticipantService = Some (mp_NodeID m), sr_NodeManager = Some (NewNodeManager m),
          sr_NodeRegistry = True, sr_NodeDiscovery = True, sr_SessionManager = Some (NewSessionManager m),
          sr_DiscoveryService = Some discoveryService,
          sr_MPCGRPCServer = Some (NewGRPCServer m, node_or_default m),
          sr_MPCGRPCClient = Some (NewGRPCClient m, True)\<rparr>)"

text \<open>The steps that may fail, in the order of the generated code.\<close>

definition InitNewServer ::
  "('tag, 'b) outside \<Rightarrow> 'tag ServerSettings \<Rightarrow> fsys \<Rightarrow> (fsys, ('tag, 'b) Server) res" where
  "InitNewServer o1 cfg s =
     (case NewDB o1 (sc_Database cfg) of Inl e \<Rightarrow> (Inl e, s) | Inr db \<Rightarrow>
      (case NewMailer o1 (sc_Mailer cfg) (sc_SMTP cfg) of Inl e \<Rightarrow> (Inl e, s) | Inr mail \<Rightarrow>
      (case NewPush o1 cfg of Inl e \<Rightarrow> (Inl e, s) | Inr pusher \<Rightarrow>
      (case i18n_New (ou_i18n o1) (ou_Join o1) (ou_ReadDir o1) (sc_I18n cfg) of Inl e \<Rightarrow> (Inl e, s) | Inr i18n \<Rightarrow>
      (case NewKeyShareStorage o1 (sc_MPC cfg) s of (Inl e, s) \<Rightarrow> (Inl e, s) | (Inr shares, s) \<Rightarrow>
      (case NewMPCDiscoveryService o1 (sc_MPC cfg) of Inl e \<Rightarrow> (Inl e, s) | Inr discovery \<Rightarrow>
      (case NewRedisClient o1 (sc_MPC cfg) of Inl e \<Rightarrow> (Inl e, s) | Inr redis \<Rightarrow>
         (Inr (newServerWithComponents cfg db mail pusher i18n discovery), s))))))))"

text \<open>
  \<open>util.IsStructInitialized\<close>: the fields that hold their zero value. The settings are
  zero only when every one of them is; \<open>router.Init\<close> has set the address then.
\<close>

definition uninitialized :: "('tag, 'b) Server \<Rightarrow> string list" where
  "uninitialized s =
     map fst (filter (\<lambda>(_, zero). zero)
       [(''Echo'', sr_Echo s = None), (''Router'', \<not> sr_Router s), (''DB'', sr_DB s = None),
        (''Mailer'', sr_Mailer s = None), (''Push'', sr_Push s = None), (''I18n'', sr_I18n s = None),
        (''Clock'', \<not> sr_Clock s), (''Auth'', sr_Auth s = None), (''Local'', \<not> sr_Local s),
        (''Metrics'', \<not> sr_Metrics s), (''KeyService'', sr_KeyService s = None),
        (''SigningService'', sr_SigningService s = None), (''CoordinatorService'', sr_CoordinatorService s = None),
        (''ParticipantService'', sr_ParticipantService s = None), (''NodeManager'', sr_NodeManager s = None),
        (''NodeRegistry'', \<not> sr_NodeRegistry s), (''NodeDiscovery'', \<not> sr_NodeDiscovery s),
        (''SessionManager'', sr_SessionManager s = None), (''DiscoveryService'', sr_DiscoveryService s = None),
        (''MPCGRPCServer'', sr_MPCGRPCServer s = None), (''MPCGRPCClient'', sr_MPCGRPCClient s = None)])"

definition Ready :: "('tag, 'b) Server \<Rightarrow> bool" where
  "Ready s \<longleftrightarrow> uninitialized s = []"

section \<open>A running node\<close>

text \<open>
  The gRPC server of a process: the options it was made with, whether its port is
  open, and whether the goroutine that starts it has still to run.
\<close>

record grpc_process =
  gp_options :: "ServerOption list option"
  gp_listening :: bool
  gp_pending :: bool

record 'c node_process =
  pr_consul :: 'c
  pr_grpc :: grpc_process
  pr_echo :: bool
  pr_db :: bool

record 'c platform =
  pl_consul :: "'c consul_agent"
  pl_loadKeyPair :: "string \<Rightarrow> string \<Rightarrow> err + unit"  \<comment> \<open>\<open>credentials.NewServerTLSFromFile\<close>\<close>
  pl_Listen :: "string \<Rightarrow> err + unit"  \<comment> \<open>\<open>net.Listen\<close>\<close>
  pl_EchoStart :: "string \<Rightarrow> err + unit"
  pl_EchoShutdown :: "(bool \<times> err) option"  \<comment> \<open>its error, and whether it is \<open>http.ErrServerClosed\<close>\<close>
  pl_DBClose :: "(bool \<times> err) option"  \<comment> \<open>its error, and whether it is \<open>sql.ErrConnDone\<close>\<close>

text \<open>The error of \<open>GetServerOptions\<close> is dropped, and its options with it.\<close>

definition grpc_Start :: "'c platform \<Rightarrow> ServerConfig \<Rightarrow> grpc_process \<Rightarrow> (grpc_process, unit) res" where
  "grpc_Start pl cfg g =
     (case pl_Listen pl ('':'' @ itoa (sg_Port cfg)) of
        Inl e \<Rightarrow> (Inl (wrap_err (''failed to listen on :'' @ itoa (sg_Port cfg)) e), g\<lparr>gp_pending := False\<rparr>)
      | Inr _ \<Rightarrow>
          (Inr (), g\<lparr>gp_pending := False, gp_listening := True,
             gp_options := Some (case GetServerOptions (pl_loadKeyPair pl) cfg of Inl e \<Rightarrow> [] | Inr opts \<Rightarrow> opts)\<rparr>))"

definition grpc_Stop :: "grpc_process \<Rightarrow> (grpc_process, unit) res" where
  "grpc_Stop g = (Inr (), g\<lparr>gp_listening := False\<rparr>)"

text \<open>The name under which other nodes reach this one.\<close>

definition service_host :: "MPC \<Rightarrow> string" where
  "service_host m = (if mp_NodeType m = ''coordinator'' then ''coordinator'' else mp_NodeID m)"

definition register_self :: "'c platform \<Rightarrow> ('tag, 'b) Server \<Rightarrow> 'c \<Rightarrow> 'c" where
  "register_self pl srv c =
     (let m = sc_MPC (sr_Config srv)
      in if sr_DiscoveryService srv \<noteq> None \<and> mp_NodeID m \<noteq> []
         then snd (ds_RegisterNode (pl_consul pl) c (mp_NodeID m) (mp_NodeType m) (service_host m) (mp_GRPCPort m))
         else c)"

text \<open>\<open>Start\<close> up to the point where the HTTP server serves.\<close>

definition Start :: "'c platform \<Rightarrow> ('tag, 'b) Server \<Rightarrow> 'c node_process \<Rightarrow> ('c node_process, unit) res" where
  "Start pl srv p =
     (if \<not> Ready srv then (Inl (Err ''server is not ready''), p)
      else
        (let p = p\<lparr>pr_consul := register_self pl srv (pr_consul p)\<rparr>;
             p = (if sr_MPCGRPCServer srv \<noteq> None then p\<lparr>pr_grpc := (pr_grpc p)\<lparr>gp_pending := True\<rparr>\<rparr> else p)
         in case pl_EchoStart pl (ec_ListenAddress (sc_Echo (sr_Config srv))) of
              Inl e \<Rightarrow> (Inl (wrap_err ''failed to start echo server'' e), p)
            | Inr _ \<Rightarrow> (Inr (), p\<lparr>pr_echo := True\<rparr>)))"

text \<open>The goroutine that \<open>Start\<close> started, when its turn comes; its error is logged.\<close>

definition grpc_goroutine :: "'c platform \<Rightarrow> ('tag, 'b) Server \<Rightarrow> 'c node_process \<Rightarrow> 'c node_process" where
  "grpc_goroutine pl srv p =
     (case sr_MPCGRPCServer srv of
        Some (cfg, _) \<Rightarrow>
          if gp_pending (pr_grpc p) then p\<lparr>pr_grpc := snd (grpc_Start pl cfg (pr_grpc p))\<rparr> else p
      | None \<Rightarrow> p)"

definition real_error :: "(bool \<times> err) option \<Rightarrow> err list" where
  "real_error r = (case r of Some (False, e) \<Rightarrow> [e] | _ \<Rightarrow> [])"

definition Shutdown :: "'c platform \<Rightarrow> ('tag, 'b) Server \<Rightarrow> 'c node_process \<Rightarrow> err list \<times> 'c node_process" where
  "Shutdown pl srv p =
     (let m = sc_MPC (sr_Config srv);
          (errs, p) = (case sr_DiscoveryService srv of
              None \<Rightarrow> ([], p)
            | Some _ \<Rightarrow>
                (case ds_DeregisterNode (pl_consul pl) (pr_consul p) (mp_NodeID m) (mp_NodeType m) of
                   (Inl e, c) \<Rightarrow> ([e], p\<lparr>pr_consul := c\<rparr>)
                 | (Inr _, c) \<Rightarrow> ([], p\<lparr>pr_consul := c\<rparr>)));
          (errs, p) = (case sr_MPCGRPCServer srv of
              None \<Rightarrow> (errs, p)
            | Some _ \<Rightarrow>
                (case grpc_Stop (pr_grpc p) of
                   (Inl e, g) \<Rightarrow> (errs @ [e], p\<lparr>pr_grpc := g\<rparr>)
                 | (Inr _, g) \<Rightarrow> (errs, p\<lparr>pr_grpc := g\<rparr>)));
          (errs, p) = (if sr_Echo srv \<noteq> None then (errs @ real_error (pl_EchoShutdown pl), p\<lparr>pr_echo := False\<rparr>) else (errs, p));
          (errs, p) = (if sr_DB srv \<noteq> None then (errs @ real_error (pl_DBClose pl), p\<lparr>pr_db := False\<rparr>) else (errs, p))
      in (errs, p))"

end
