(* ===== verification/Probes.thy ===== *)
theory Probes
  imports Startup
begin

text \<open>
  The health of a node: the probes of \<open>internal/api/handlers/common/probes.go\<close>, the handlers
  of \<open>/-/ready\<close>, \<open>/-/healthy\<close> and \<open>/-/version\<close>, and the command \<open>probe\<close>, which runs
  them without a server. Each probe starts one call and waits for it until the
  deadline of its context: \<open>pb_answer n\<close> says how the \<open>n\<close>-th call ends, after which time
  (in microseconds) or never. \<open>pb_trace\<close> lists the calls that were started; a call
  that is given up goes on by itself. A call that ends right at the deadline counts as ended.
\<close>

section \<open>Calls and waiting (util/wait_group.go)\<close>

datatype probe_call = PingDB | NextHealthSequence | AccessPath string | TouchPath string

datatype probe_answer = Finished nat "err option" | Stalled

record probe_world =
  pb_clock :: time
  pb_answer :: "nat \<Rightarrow> probe_answer"
  pb_trace :: "probe_call list"
  pb_seq :: int
  pb_duration :: "time \<Rightarrow> string"  \<comment> \<open>\<open>time.Duration\<close> as text\<close>

definition ErrWaitTimeout :: err where "ErrWaitTimeout = Err ''WaitGroup has timed out''"

text \<open>The call, and what \<open>WaitTimeout\<close> and the variable of the call say afterwards.\<close>

definition run_call :: "probe_call \<Rightarrow> time \<Rightarrow> probe_world \<Rightarrow> (unit + err option) \<times> probe_world" where
  "run_call c deadline w =
     (let w1 = w\<lparr>pb_trace := pb_trace w @ [c]\<rparr>
      in case pb_answer w (length (pb_trace w)) of
           Finished t e \<Rightarrow>
             if pb_clock w + int t \<le> max (pb_clock w) deadline
             then (Inr e, w1\<lparr>pb_clock := pb_clock w + int t,
                     pb_seq := (if c = NextHealthSequence \<and> e = None then pb_seq w + 1 else pb_seq w)\<rparr>)
             else (Inl (), w1\<lparr>pb_clock := max (pb_clock w) deadline\<rparr>)
         | Stalled \<Rightarrow> (Inl (), w1\<lparr>pb_clock := max (pb_clock w) deadline\<rparr>))"

definition ensureProbeDeadlineFromContext :: "go_context \<Rightarrow> probe_world \<Rightarrow> time" where
  "ensureProbeDeadlineFromContext ctx w =
     (case cx_deadline ctx of Some d \<Rightarrow> d | None \<Rightarrow> pb_clock w + 1000000)"

definition ctx_err :: "ctx_error \<Rightarrow> err" where
  "ctx_err e = (case e of Canceled \<Rightarrow> Err ''context canceled'' | DeadlineExceeded \<Rightarrow> Err ''context deadline exceeded'')"

definition newline :: string where "newline = [CHR 0x0A]"

text \<open>The line of a probe that failed: what it did, how long, and with which error.\<close>

definition failed_line :: "string \<Rightarrow> time \<Rightarrow> probe_world \<Rightarrow> err \<Rightarrow> string" where
  "failed_line what start w e =
     what @ '' after '' @ pb_duration w (pb_clock w - start) @ '', error='' @ err_text e @ ''.'' @ newline"

section \<open>Probes (probes.go)\<close>

text \<open>The common end of the four probes.\<close>

definition probe_end ::
  "string \<Rightarrow> string \<Rightarrow> string \<Rightarrow> (probe_world \<Rightarrow> string) \<Rightarrow> time \<Rightarrow> (unit + err option) \<times> probe_world
     \<Rightarrow> (string \<times> err option) \<times> probe_world" where
  "probe_end what on_deadline on_error success start r =
     (case r of
        (Inl _, w) \<Rightarrow> ((failed_line (what @ on_deadline) start w ErrWaitTimeout, Some ErrWaitTimeout), w)
      | (Inr (Some e), w) \<Rightarrow> ((failed_line (what @ on_error) start w e, Some e), w)
      | (Inr None, w) \<Rightarrow> ((what @ success w, None), w))"

definition probeDatabasePingable :: "go_context \<Rightarrow> probe_world \<Rightarrow> (string \<times> err option) \<times> probe_world" where
  "probeDatabasePingable ctx w =
     probe_end ''Probe db: Ping'' '' deadline'' '' errored''
       (\<lambda>v. '' succeeded in '' @ pb_duration v (pb_clock v - pb_clock w) @ ''.'' @ newline)
       (pb_clock w) (run_call PingDB (ensureProbeDeadlineFromContext ctx w) w)"

definition probeDatabaseNextHealthSequence :: "go_context \<Rightarrow> probe_world \<Rightarrow> (string \<times> err option) \<times> probe_world" where
  "probeDatabaseNextHealthSequence ctx w =
     probe_end ''Probe db: Next health sequence'' '' deadline'' '' errored''
       (\<lambda>v. '' succeeded in '' @ pb_duration v (pb_clock v - pb_clock w) @ '', seq_health='' @ itoa (pb_seq v) @ ''.'' @ newline)
       (pb_clock w) (run_call NextHealthSequence (ensureProbeDeadlineFromContext ctx w) w)"

definition path_probe ::
  "string \<Rightarrow> string \<Rightarrow> (probe_world \<Rightarrow> string) \<Rightarrow> probe_call \<Rightarrow> go_context \<Rightarrow> probe_world
     \<Rightarrow> (string \<times> err option) \<times> probe_world" where
  "path_probe path what success c ctx w =
     (let name = ''Probe path '' @ [CHR 0x27] @ path @ [CHR 0x27] @ '': '' @ what
      in case ctx_Err ctx (pb_clock w) of
           Some e \<Rightarrow> ((failed_line (name @ '' cancelled'') (pb_clock w) w (ctx_err e), Some (ctx_err e)), w)
         | None \<Rightarrow>
             probe_end name '' deadline'' '' errored'' success (pb_clock w)
               (run_call c (ensureProbeDeadlineFromContext ctx w) w))"

definition probePathWriteablePermission :: "go_context \<Rightarrow> string \<Rightarrow> probe_world \<Rightarrow> (string \<times> err option) \<times> probe_world" where
  "probePathWriteablePermission ctx writeablePath w =
     path_probe writeablePath ''W_OK check''
       (\<lambda>v. '' succeeded in '' @ pb_duration v (pb_clock v - pb_clock w) @ ''.'' @ newline)
       (AccessPath writeablePath) ctx w"

text \<open>\<open>path_Join\<close> is \<open>path.Join\<close>; the modification time is that of the clock.\<close>

definition probePathWriteableTouch ::
  "(string \<Rightarrow> string \<Rightarrow> string) \<Rightarrow> go_context \<Rightarrow> string \<Rightarrow> string \<Rightarrow> probe_world \<Rightarrow> (string \<times> err option) \<times> probe_world" where
  "probePathWriteableTouch path_Join ctx writeablePath touch w =
     (let name = path_Join writeablePath touch
      in path_probe name ''Touch''
           (\<lambda>v. '' succeeded in '' @ pb_duration v (pb_clock v - pb_clock w)
              @ '', modTime='' @ itoa (go_div (pb_clock v) 1000000) @ ''.'' @ newline)
           (TouchPath name) ctx w)"

text \<open>A loop over the paths: the lines are joined and the errors collected.\<close>

fun probe_paths ::
  "(string \<Rightarrow> probe_world \<Rightarrow> (string \<times> err option) \<times> probe_world) \<Rightarrow> string list \<Rightarrow> probe_world
     \<Rightarrow> (string \<times> err list) \<times> probe_world" where
  "probe_paths probe [] w = (([], []), w)"
| "probe_paths probe (p # ps) w =
     (case probe p w of ((line, e), w) \<Rightarrow>
        (case probe_paths probe ps w of ((text, errs), w) \<Rightarrow>
           ((line @ text, (case e of None \<Rightarrow> errs | Some x \<Rightarrow> x # errs)), w)))"

definition db_then_paths ::
  "(probe_world \<Rightarrow> (string \<times> err option) \<times> probe_world) \<Rightarrow> (string \<Rightarrow> probe_world \<Rightarrow> (string \<times> err option) \<times> probe_world)
     \<Rightarrow> string list \<Rightarrow> probe_world \<Rightarrow> (string \<times> err list) \<times> probe_world" where
  "db_then_paths db_probe probe paths w =
     (case db_probe w of ((line, e), w) \<Rightarrow>
        (case probe_paths probe paths w of ((text, errs), w) \<Rightarrow>
           ((line @ text, (case e of None \<Rightarrow> errs | Some x \<Rightarrow> x # errs)), w)))"

definition ProbeReadiness :: "go_context \<Rightarrow> string list \<Rightarrow> probe_world \<Rightarrow> (string \<times> err list) \<times> probe_world" where
  "ProbeReadiness ctx writeablePaths w =
     db_then_paths (probeDatabasePingable ctx) (probePathWriteablePermission ctx) writeablePaths w"

definition ProbeLiveness ::
  "(string \<Rightarrow> string \<Rightarrow> string) \<Rightarrow> go_context \<Rightarrow> string list \<Rightarrow> string \<Rightarrow> probe_world \<Rightarrow> (string \<times> err list) \<times> probe_world" where
  "ProbeLiveness path_Join ctx writeablePaths touch w =
     (case ProbeReadiness ctx writeablePaths w of ((readiness, errs), w) \<Rightarrow>
        if errs \<noteq> [] then ((readiness, errs), w)
        else (case db_then_paths (probeDatabaseNextHealthSequence ctx)
                     (\<lambda>p. probePathWriteableTouch path_Join ctx p touch) writeablePaths w of
                ((text, errs), w) \<Rightarrow> ((readiness @ text, errs), w)))"

section \<open>Handlers (get_ready.go, get_healthy.go, get_version.go)\<close>

definition httpStatusDown :: int where "httpStatusDown = 521"

definition getReadyHandler :: "('tag, 'b) Server \<Rightarrow> go_context \<Rightarrow> probe_world \<Rightarrow> (int \<times> string) \<times> probe_world" where
  "getReadyHandler s req w =
     (if \<not> Ready s then ((httpStatusDown, ''Not ready.''), w)
      else
        (let m = sc_Management (sr_Config s);
             ctx = WithTimeout req (pb_clock w) (micros (mg_ReadinessTimeout m))
         in case ProbeReadiness ctx (mg_ProbeWriteablePathsAbs m) w of ((_, errs), w) \<Rightarrow>
              if ctx_Err ctx (pb_clock w) \<noteq> None \<or> errs \<noteq> [] then ((httpStatusDown, ''Not ready.''), w)
              else ((200, ''Ready.''), w)))"

definition getHealthyHandler ::
  "(string \<Rightarrow> string \<Rightarrow> string) \<Rightarrow> ('tag, 'b) Server \<Rightarrow> go_context \<Rightarrow> probe_world \<Rightarrow> (int \<times> string) \<times> probe_world" where
  "getHealthyHandler path_Join s req w =
     (if \<not> Ready s then ((httpStatusDown, ''Not ready.''), w)
      else
        (let m = sc_Management (sr_Config s);
             ctx = WithTimeout req (pb_clock w) (micros (mg_LivenessTimeout m));
             str = ''Ready.'' @ newline
         in case ProbeLiveness path_Join ctx (mg_ProbeWriteablePathsAbs m) (mg_ProbeWriteableTouchfile m) w of
              ((healthyStr, errs), w) \<Rightarrow>
                if ctx_Err ctx (pb_clock w) \<noteq> None \<or> errs \<noteq> []
                then ((httpStatusDown, str @ healthyStr @ ''Probes failed.'' @ newline), w)
                else ((200, str @ healthyStr @ ''Probes succeeded.'' @ newline), w)))"

record build_args =
  ba_ModuleName :: string
  ba_Commit :: string
  ba_BuildDate :: string

definition GetFormattedBuildArgs :: "build_args \<Rightarrow> string" where
  "GetFormattedBuildArgs b = ba_ModuleName b @ '' @ '' @ ba_Commit b @ '' ('' @ ba_BuildDate b @ '')''"

definition getVersionHandler :: "build_args \<Rightarrow> int \<times> string" where
  "getVersionHandler b = (200, GetFormattedBuildArgs b)"

section \<open>Commands (cmd/probe, cmd/server, util/command)\<close>

text \<open>The errors of the probes, or an error that they could not be run.\<close>

definition RunReadiness ::
  "('tag, 'b) outside \<Rightarrow> 'tag ServerSettings \<Rightarrow> probe_world \<Rightarrow> (err + err list) \<times> probe_world" where
  "RunReadiness o1 cfg w =
     (case ou_Open o1 (ConnectionString (sc_Database cfg)) of
        Inl e \<Rightarrow> (Inl (wrap_err ''failed to open the database'' e), w)
      | Inr _ \<Rightarrow>
          (let m = sc_Management cfg;
               ctx = WithTimeout ctx_Background (pb_clock w) (micros (mg_ReadinessTimeout m))
           in case ProbeReadiness ctx (mg_ProbeWriteablePathsAbs m) w of ((_, errs), w) \<Rightarrow> (Inr errs, w)))"

definition runLiveness ::
  "('tag, 'b) outside \<Rightarrow> 'tag ServerSettings \<Rightarrow> probe_world \<Rightarrow> (err + err list) \<times> probe_world" where
  "runLiveness o1 cfg w =
     (case ou_Open o1 (ConnectionString (sc_Database cfg)) of
        Inl e \<Rightarrow> (Inl (wrap_err ''failed to open the database'' e), w)
      | Inr _ \<Rightarrow>
          (let m = sc_Management cfg;
               ctx = WithTimeout ctx_Background (pb_clock w) (micros (mg_LivenessTimeout m))
           in case ProbeLiveness (ou_Join o1) ctx (mg_ProbeWriteablePathsAbs m) (mg_ProbeWriteableTouchfile m) w of
                ((_, errs), w) \<Rightarrow> (Inr errs, w)))"

text \<open>
  How a command ends: with an error, or by \<open>log.Fatal\<close>, which ends the process at once.
  \<open>WithServer\<close> makes the server, runs the body and shuts the server down.
\<close>

datatype 'a outcome = Done 'a | Fatal string

definition exit_code :: "'a outcome \<Rightarrow> int" where
  "exit_code r = (case r of Done _ \<Rightarrow> 0 | Fatal _ \<Rightarrow> 1)"

text \<open>A process in which nothing runs yet.\<close>

definition idle_process :: "'c \<Rightarrow> 'c node_process" where
  "idle_process c =
     \<lparr>pr_consul = c, pr_grpc = \<lparr>gp_options = None, gp_listening = False, gp_pending = False\<rparr>, pr_echo = False, pr_db = False\<rparr>"

type_synonym ('w, 'c) process = "'w \<times> 'c node_process"

definition WithServer ::
  "('tag, 'b) outside \<Rightarrow> 'c platform \<Rightarrow> 'tag ServerSettings \<Rightarrow> fsys
     \<Rightarrow> (('tag, 'b) Server \<Rightarrow> ('w, 'c) process \<Rightarrow> (err option \<times> ('tag, 'b) Server) outcome \<times> ('w, 'c) process) \<Rightarrow> ('w, 'c) process
     \<Rightarrow> err list outcome \<times> ('w, 'c) process" where
  "WithServer o1 pl cfg fs body w =
     (case InitNewServer o1 cfg fs of
        (Inl e, _) \<Rightarrow> (Fatal ''Failed to initialize server'', w)
      | (Inr s, _) \<Rightarrow>
          (case body s (fst w, (snd w)\<lparr>pr_db := True\<rparr>) of
             (Fatal t, w) \<Rightarrow> (Fatal t, w)
           | (Done (Some e, _), w) \<Rightarrow> (Done [e], w)
           | (Done (None, s), w) \<Rightarrow> (case Shutdown pl s (snd w) of (errs, p) \<Rightarrow> (Done errs, (fst w, p)))))"

text \<open>A command ends the process with a failure when \<open>WithServer\<close> returned an error.\<close>

definition fail_on_errors :: "string \<Rightarrow> err list outcome \<times> 'w \<Rightarrow> unit outcome \<times> 'w" where
  "fail_on_errors t r =
     (case r of (Fatal f, w) \<Rightarrow> (Fatal f, w) | (Done errs, w) \<Rightarrow> (if errs \<noteq> [] then Fatal t else Done (), w))"

text \<open>A server that was only made answers the probes.\<close>

definition probe_body ::
  "('tag ServerSettings \<Rightarrow> probe_world \<Rightarrow> (err + err list) \<times> probe_world) \<Rightarrow> string \<Rightarrow> ('tag, 'b) Server \<Rightarrow> (probe_world, 'c) process
     \<Rightarrow> (err option \<times> ('tag, 'b) Server) outcome \<times> (probe_world, 'c) process" where
  "probe_body run failure s w =
     (case run (sr_Config s) (fst w) of
        (Inl e, v) \<Rightarrow> (Fatal failure, (v, snd w))
      | (Inr errs, v) \<Rightarrow> (if errs \<noteq> [] then Fatal ''Unhealthy.'' else Done (None, s), (v, snd w)))"

definition readinessCmdFunc ::
  "('tag, 'b) outside \<Rightarrow> 'c platform \<Rightarrow> 'c \<Rightarrow> 'tag ServerSettings \<Rightarrow> fsys \<Rightarrow> probe_world \<Rightarrow> unit outcome \<times> (probe_world, 'c) process" where
  "readinessCmdFunc o1 pl c cfg fs w =
     fail_on_errors ''Failed to run readiness probes''
       (WithServer o1 pl cfg fs (probe_body (RunReadiness o1) ''Failed to run readiness probes'') (w, idle_process c))"

definition livenessCmdFunc ::
  "('tag, 'b) outside \<Rightarrow> 'c platform \<Rightarrow> 'c \<Rightarrow> 'tag ServerSettings \<Rightarrow> fsys \<Rightarrow> probe_world \<Rightarrow> unit outcome \<times> (probe_world, 'c) process" where
  "livenessCmdFunc o1 pl c cfg fs w =
     fail_on_errors ''Failed to run liveness probes''
       (WithServer o1 pl cfg fs (probe_body (runLiveness o1) ''Failed to run liveness probes'') (w, idle_process c))"

end
