(* ===== verification/WebErrors.thy ===== *)
theory WebErrors
  imports Config
begin

text \<open>
  Errors on their way to the client: the errors of \<open>internal/api/httperrors\<close>, their texts,
  and the error handler of the router (\<open>internal/api/router/handlers.go\<close>). An error value
  is a tree: an HTTP error may hold an internal error, \<open>%w\<close> wraps one. The text and the
  \<open>Unwrap\<close> of echo's own errors are parameters.
\<close>

section \<open>Errors and their texts (httperrors/error.go)\<close>

text \<open>The message of an echo error is any value: a string, or one that \<open>%v\<close> prints.\<close>

datatype echo_message = MessageString string | MessageValue string

text \<open>
  An \<open>HTTPError\<close> and an \<open>HTTPValidationError\<close>: status, type, title, detail, internal error,
  additional data, and the key, place and text of each field that failed.
\<close>

datatype web_error =
    WebHTTP int string string string "web_error option" "(string \<times> string) list"
  | WebValidation int string string string "web_error option" "(string \<times> string) list" "(string \<times> string \<times> string) list"
  | WebEcho int echo_message "web_error option"
  | WebText string
  | WebWrap string web_error

record echo_errors =
  ee_text :: "int \<Rightarrow> echo_message \<Rightarrow> string option \<Rightarrow> string"
  ee_unwraps :: bool

definition NewHTTPError :: "int \<Rightarrow> string \<Rightarrow> string \<Rightarrow> web_error" where
  "NewHTTPError code type title = WebHTTP code type title [] None []"

definition NewHTTPErrorWithDetail :: "int \<Rightarrow> string \<Rightarrow> string \<Rightarrow> string \<Rightarrow> web_error" where
  "NewHTTPErrorWithDetail code type title detail = WebHTTP code type title detail None []"

definition NewHTTPValidationError :: "int \<Rightarrow> string \<Rightarrow> string \<Rightarrow> (string \<times> string \<times> string) list \<Rightarrow> web_error" where
  "NewHTTPValidationError code type title errs = WebValidation code type title [] None [] errs"

definition NewHTTPValidationErrorWithDetail ::
  "int \<Rightarrow> string \<Rightarrow> string \<Rightarrow> (string \<times> string \<times> string) list \<Rightarrow> string \<Rightarrow> web_error" where
  "NewHTTPValidationErrorWithDetail code type title errs detail = WebValidation code type title detail None [] errs"

definition comma_separated :: "string list \<Rightarrow> string" where
  "comma_separated xs = concat (map (\<lambda>(i, x). if i < length xs - 1 then x @ '', '' else x) (enumerate 0 xs))"

definition additional_text :: "(string \<times> string) list \<Rightarrow> string" where
  "additional_text d =
     (if d = [] then []
      else ''. Additional: '' @ comma_separated (map (\<lambda>k. k @ ''='' @ (case map_of d k of None \<Rightarrow> [] | Some v \<Rightarrow> v)) (sort (map fst d))))"

definition head_text :: "string \<Rightarrow> int \<Rightarrow> string \<Rightarrow> string \<Rightarrow> string \<Rightarrow> string" where
  "head_text kind code type title detail =
     kind @ '' '' @ itoa code @ '' ('' @ type @ ''): '' @ title @ (if detail = [] then [] else '' - '' @ detail)"

fun web_error_text :: "echo_errors \<Rightarrow> web_error \<Rightarrow> string" where
  "web_error_text lib (WebHTTP code type title detail internal d) =
     head_text ''HTTPError'' code type title detail
       @ (case internal of None \<Rightarrow> [] | Some e \<Rightarrow> '', '' @ web_error_text lib e) @ additional_text d"
| "web_error_text lib (WebValidation code type title detail internal d errs) =
     head_text ''HTTPValidationError'' code type title detail
       @ (case internal of None \<Rightarrow> [] | Some e \<Rightarrow> '', '' @ web_error_text lib e) @ additional_text d
       @ '' - Validation: '' @ comma_separated (map (\<lambda>(key, place, t). key @ '' (in '' @ place @ ''): '' @ t) errs)"
| "web_error_text lib (WebEcho code m internal) =
     ee_text lib code m (case internal of None \<Rightarrow> None | Some e \<Rightarrow> Some (web_error_text lib e))"
| "web_error_text lib (WebText t) = t"
| "web_error_text lib (WebWrap t e) = t @ '': '' @ web_error_text lib e"

section \<open>The error handler (router/handlers.go)\<close>

text \<open>The errors that \<open>errors.As\<close> looks at. The errors of \<open>httperrors\<close> do not unwrap.\<close>

fun unwrapped :: "echo_errors \<Rightarrow> web_error \<Rightarrow> web_error list" where
  "unwrapped lib (WebWrap t e) = WebWrap t e # unwrapped lib e"
| "unwrapped lib (WebEcho code m internal) =
     WebEcho code m internal #
       (if ee_unwraps lib then (case internal of None \<Rightarrow> [] | Some e \<Rightarrow> unwrapped lib e) else [])"
| "unwrapped lib e = [e]"

fun is_http :: "web_error \<Rightarrow> bool" where
  "is_http (WebHTTP _ _ _ _ _ _) = True" | "is_http _ = False"

fun is_validation :: "web_error \<Rightarrow> bool" where
  "is_validation (WebValidation _ _ _ _ _ _ _) = True" | "is_validation _ = False"

fun is_echo :: "web_error \<Rightarrow> bool" where
  "is_echo (WebEcho _ _ _) = True" | "is_echo _ = False"

definition errors_As :: "echo_errors \<Rightarrow> (web_error \<Rightarrow> bool) \<Rightarrow> web_error \<Rightarrow> web_error option" where
  "errors_As lib P e = find P (unwrapped lib e)"

definition InternalServerErrorText :: string where "InternalServerErrorText = ''Internal Server Error''"

text \<open>The internal error that is set where there was none, for the log.\<close>

definition or_internal :: "echo_errors \<Rightarrow> web_error \<Rightarrow> web_error option \<Rightarrow> web_error option" where
  "or_internal lib e internal =
     (case internal of None \<Rightarrow> Some (WebText (''internal error: '' @ web_error_text lib e)) | Some i \<Rightarrow> Some i)"

text \<open>
  The status and the error that becomes the body. A message that is not a string is not
  marshalled: the condition asks for the error that is being handled, which is there.
\<close>

definition http_result :: "echo_errors \<Rightarrow> bool \<Rightarrow> web_error \<Rightarrow> int \<times> web_error" where
  "http_result lib hide e =
     (case errors_As lib is_http e of
        Some (WebHTTP code type title detail internal d) \<Rightarrow>
          (code, if code = 500 \<and> hide
                 then WebHTTP code type InternalServerErrorText detail
                        (or_internal lib (WebHTTP code type title detail internal d) internal) d
                 else WebHTTP code type title detail internal d)
      | _ \<Rightarrow>
     (case errors_As lib is_validation e of
        Some (WebValidation code type title detail internal d errs) \<Rightarrow>
          (code, if code = 500 \<and> hide
                 then WebValidation code type InternalServerErrorText detail
                        (or_internal lib (WebValidation code type title detail internal d errs) internal) d errs
                 else WebValidation code type title detail internal d errs)
      | _ \<Rightarrow>
     (case errors_As lib is_echo e of
        Some (WebEcho code m internal) \<Rightarrow>
          (code, if code = 500 \<and> hide
                 then WebHTTP code ''generic'' InternalServerErrorText [] (or_internal lib (WebEcho code m internal) internal) []
                 else WebHTTP code ''generic''
                        (case m of MessageString s \<Rightarrow> s | MessageValue _ \<Rightarrow> ''failed to marshal HTTP error message: <nil>'')
                        [] internal [])
      | _ \<Rightarrow>
          (500, if hide then WebHTTP 500 ''generic'' InternalServerErrorText [] (Some e) []
                else WebHTTP 500 ''generic'' (web_error_text lib e) [] None []))))"

text \<open>What of an error is encoded: the internal error and the additional data are not.\<close>

record PublicHTTPError =
  ph_Code :: int
  ph_Type :: string
  ph_Title :: string
  ph_Detail :: string
  ph_ValidationErrors :: "(string \<times> string \<times> string) list option"

fun public_error :: "web_error \<Rightarrow> PublicHTTPError option" where
  "public_error (WebHTTP code type title detail _ _) =
     Some \<lparr>ph_Code = code, ph_Type = type, ph_Title = title, ph_Detail = detail, ph_ValidationErrors = None\<rparr>"
| "public_error (WebValidation code type title detail _ _ errs) =
     Some \<lparr>ph_Code = code, ph_Type = type, ph_Title = title, ph_Detail = detail, ph_ValidationErrors = Some errs\<rparr>"
| "public_error _ = None"

text \<open>The answer: its status and its body; nothing when a response is on its way.\<close>

definition HTTPErrorHandlerWithConfig ::
  "echo_errors \<Rightarrow> bool \<Rightarrow> web_error \<Rightarrow> string \<Rightarrow> bool \<Rightarrow> (int \<times> PublicHTTPError option) option" where
  "HTTPErrorHandlerWithConfig lib hide e method committed =
     (if committed then None
      else if method = ''HEAD'' then Some (fst (http_result lib hide e), None)
      else Some (fst (http_result lib hide e), public_error (snd (http_result lib hide e))))"

definition HTTPErrorHandler :: "echo_errors \<Rightarrow> web_error \<Rightarrow> string \<Rightarrow> bool \<Rightarrow> (int \<times> PublicHTTPError option) option" where
  "HTTPErrorHandler lib = HTTPErrorHandlerWithConfig lib True"

text \<open>A path without a route: a page for a browser, echo's error for everyone else.\<close>

definition NotFoundHandler :: "FrontendServer \<Rightarrow> bool \<Rightarrow> web_error + int \<times> string" where
  "NotFoundHandler cfg accepts_html =
     (if accepts_html
      then Inr (404, ''<html><body><h1>Page Not Found</h1><p>The page you are looking for does not exist. Did you mean to visit <a href=''
        @ [CHR 0x22] @ fe_BaseURL cfg @ [CHR 0x22] @ ''>'' @ fe_BaseURL cfg @ ''</a>?</p></body></html>'')
      else Inl (WebEcho 404 (MessageString ''Not Found'') None))"

section \<open>What reaches the client\<close>

lemma errors_As_kind:
  assumes "errors_As lib P e = Some x"
  shows "P x"
  using assms unfolding errors_As_def by (metis find_Some_iff)

lemma is_http_cases:
  assumes "is_http e"
  obtains code type title detail internal d where "e = WebHTTP code type title detail internal d"
  using assms by (cases e) auto

lemma is_validation_cases:
  assumes "is_validation e"
  obtains code type title detail internal d errs where "e = WebValidation code type title detail internal d errs"
  using assms by (cases e) auto

lemma is_echo_cases:
  assumes "is_echo e"
  obtains code m internal where "e = WebEcho code m internal"
  using assms by (cases e) auto

text \<open>The four ways through the error handler.\<close>

lemma http_result_cases:
  obtains
    (http) code type title detail internal d where "errors_As lib is_http e = Some (WebHTTP code type title detail internal d)"
  | (validation) code type title detail internal d errs where "errors_As lib is_http e = None"
      and "errors_As lib is_validation e = Some (WebValidation code type title detail internal d errs)"
  | (echo) code m internal where "errors_As lib is_http e = None" and "errors_As lib is_validation e = None"
      and "errors_As lib is_echo e = Some (WebEcho code m internal)"
  | (other) "errors_As lib is_http e = None" and "errors_As lib is_validation e = None" and "errors_As lib is_echo e = None"
proof (cases "errors_As lib is_http e")
  case (Some x)
  then show ?thesis using errors_As_kind [OF Some] by (elim is_http_cases) (auto intro: http)
next
  case no_http: None
  show ?thesis
  proof (cases "errors_As lib is_validation e")
    case (Some x)
    then show ?thesis using errors_As_kind [OF Some] no_http by (elim is_validation_cases) (auto intro: validation)
  next
    case no_validation: None
    show ?thesis
    proof (cases "errors_As lib is_echo e")
      case (Some x)
      then show ?thesis using errors_As_kind [OF Some] no_http no_validation by (elim is_echo_cases) (auto intro: echo)
    qed (use no_http no_validation other in blast)
  qed
qed

text \<open>The model of errors of the accounts, and the status that it gives them.\<close>

fun web_of :: "(string \<Rightarrow> string \<times> string) \<Rightarrow> (int \<Rightarrow> string) \<Rightarrow> fail \<Rightarrow> web_error" where
  "web_of title status (HttpErr code type) = WebHTTP code type (fst (title type)) (snd (title type)) None []"
| "web_of title status (EchoErr code) = WebEcho code (MessageString (status code)) None"
| "web_of title status (WrapErr t f) = WebWrap t (web_of title status f)"
| "web_of title status (GoErr t) = WebText t"
| "web_of title status (PanicErr t) = WebText t"

lemma errors_As_wrap [simp]:
  assumes "\<And>t x. \<not> P (WebWrap t x)"
  shows "errors_As lib P (WebWrap t e) = errors_As lib P e"
  using assms by (simp add: errors_As_def)

lemma http_result_other:
  assumes "errors_As lib is_http e = None" and "errors_As lib is_validation e = None" and "errors_As lib is_echo e = None"
  shows "fst (http_result lib hide e) = 500"
  using assms by (simp add: http_result_def)

lemma http_code_wrap: "fst (http_result lib hide (WebWrap t e)) = fst (http_result lib hide e)"
proof -
  have same: "errors_As lib is_http (WebWrap t e) = errors_As lib is_http e"
    "errors_As lib is_validation (WebWrap t e) = errors_As lib is_validation e"
    "errors_As lib is_echo (WebWrap t e) = errors_As lib is_echo e" by simp_all
  show ?thesis
  proof (cases rule: http_result_cases [of lib e])
    case http
    then show ?thesis by (simp add: http_result_def same)
  next
    case validation
    then show ?thesis by (simp add: http_result_def same)
  next
    case echo
    then show ?thesis by (simp add: http_result_def same)
  next
    case other
    then show ?thesis using http_result_other same by metis
  qed
qed

lemma http_status_is_written: "fst (http_result lib hide (web_of title status f)) = http_status f"
  by (induction f) (simp_all add: http_code_wrap, simp_all add: http_result_def errors_As_def)

end
