(* ===== verification/WebRouter.thy ===== *)
theory WebRouter
  imports WebErrors Startup
begin

text \<open>
  Requests on their way to a handler: the headers of \<open>net/http\<close>, the middleware of
  \<open>internal/api/middleware\<close>, and the router with its groups and routes
  (\<open>internal/api/router/router.go\<close>, \<open>handlers/handlers.go\<close>). A handler maps the context of a
  request to an error or none and the context after it; a middleware maps a
  handler to a handler. The middleware of echo itself is a parameter, \<open>echo_lib\<close>.
\<close>

section \<open>Headers (net/http)\<close>

definition upper_char :: "char \<Rightarrow> char" where
  "upper_char c = (let n = (of_char c :: nat) in if 97 \<le> n \<and> n \<le> 122 then char_of (n - 32) else c)"

definition token_char :: "char \<Rightarrow> bool" where
  "token_char c = (let n = (of_char c :: nat)
     in 48 \<le> n \<and> n \<le> 57 \<or> 65 \<le> n \<and> n \<le> 90 \<or> 97 \<le> n \<and> n \<le> 122
        \<or> n \<in> set [33, 35, 36, 37, 38, 39, 42, 43, 45, 46, 94, 95, 96, 124, 126])"

fun capitalize :: "bool \<Rightarrow> string \<Rightarrow> string" where
  "capitalize first [] = []"
| "capitalize first (c # cs) = (if first then upper_char c else lower_char c) # capitalize (c = CHR ''-'') cs"

definition CanonicalHeaderKey :: "string \<Rightarrow> string" where
  "CanonicalHeaderKey k = (if list_all token_char k then capitalize True k else k)"

type_synonym http_header = "(string \<times> string list) list"

definition Header_Get :: "http_header \<Rightarrow> string \<Rightarrow> string" where
  "Header_Get h k = (case map_of h (CanonicalHeaderKey k) of Some (v # _) \<Rightarrow> v | _ \<Rightarrow> [])"

definition Header_Set :: "http_header \<Rightarrow> string \<Rightarrow> string \<Rightarrow> http_header" where
  "Header_Set h k v = AList.update (CanonicalHeaderKey k) [v] h"

definition Header_Del :: "http_header \<Rightarrow> string \<Rightarrow> http_header" where
  "Header_Del h k = AList.delete (CanonicalHeaderKey k) h"

definition Header_Add :: "http_header \<Rightarrow> string \<Rightarrow> string \<Rightarrow> http_header" where
  "Header_Add h k v =
     AList.update (CanonicalHeaderKey k) ((case map_of h (CanonicalHeaderKey k) of None \<Rightarrow> [] | Some vs \<Rightarrow> vs) @ [v]) h"

text \<open>\<open>strings.EqualFold\<close>, on ASCII.\<close>

definition EqualFold :: "string \<Rightarrow> string \<Rightarrow> bool" where
  "EqualFold a b \<longleftrightarrow> ToLower a = ToLower b"

section \<open>The context of a request\<close>

record log_info =
  li_id :: string
  li_host :: string
  li_method :: string
  li_url :: string
  li_bytes_in :: string
  li_caller :: bool
  li_cacheControl :: "string option"

record http_request =
  hr_Method :: string
  hr_Host :: string
  hr_URL :: string
  hr_Path :: string
  hr_Query :: http_header
  hr_Form :: "string \<Rightarrow> string"
  hr_Header :: http_header
  hr_Body :: "(err + string) option"
  hr_ctx :: go_context
  hr_logger :: "log_info option"  \<comment> \<open>the logger that the context carries\<close>

record http_response =
  hs_Status :: int
  hs_Header :: http_header
  hs_Committed :: bool
  hs_Body :: string

text \<open>What is handed to the logger. Bodies and headers are there when they are logged.\<close>

datatype log_entry =
    RequestReceived log_info "string option" "http_header option" "http_header option"
  | ResponseSent "log_info option" int int "web_error option" "string option" "http_header option"
  | OtherEntry string

record 's web =
  wb_request :: http_request
  wb_response :: http_response
  wb_path :: string  \<comment> \<open>the path of the route, with the names of its parameters\<close>
  wb_user :: "User option"
  wb_token :: "string option"
  wb_accounts :: accounts
  wb_log :: "log_entry list"
  wb_state :: 's

type_synonym 's handler = "'s web \<Rightarrow> web_error option \<times> 's web"
type_synonym 's middleware = "'s handler \<Rightarrow> 's handler"

record 's echo_lib =
  el_errors :: echo_errors
  el_respond :: "int \<Rightarrow> PublicHTTPError option \<Rightarrow> 's web \<Rightarrow> err option \<times> 's web"  \<comment> \<open>\<open>c.JSON\<close>, \<open>c.NoContent\<close>\<close>
  el_KeyAuth :: "string \<Rightarrow> (string \<Rightarrow> bool) \<Rightarrow> ('s web \<Rightarrow> bool) \<Rightarrow> 's middleware"
  el_Prometheus :: "'s middleware"
  el_RemoveTrailingSlash :: "'s middleware"
  el_Recover :: "(web_error \<Rightarrow> string \<Rightarrow> 's web \<Rightarrow> web_error option \<times> 's web) \<Rightarrow> 's middleware"
  el_Secure :: "EchoServerSecureMiddleware \<Rightarrow> 's middleware"
  el_RequestID :: "'s middleware"
  el_CORS :: "'s middleware"

definition write_log :: "log_entry \<Rightarrow> 's web \<Rightarrow> 's web" where
  "write_log e w = w\<lparr>wb_log := wb_log w @ [e]\<rparr>"

text \<open>\<open>c.Error\<close>: the error handler, and a line when the answer could not be written.\<close>

definition c_Error :: "'s echo_lib \<Rightarrow> bool \<Rightarrow> web_error \<Rightarrow> 's web \<Rightarrow> 's web" where
  "c_Error lib hide e w =
     (case HTTPErrorHandlerWithConfig (el_errors lib) hide e (hr_Method (wb_request w)) (hs_Committed (wb_response w)) of
        None \<Rightarrow> w
      | Some (code, body) \<Rightarrow>
          (case el_respond lib code body w of
             (None, w) \<Rightarrow> w
           | (Some _, w) \<Rightarrow> write_log (OtherEntry ''Failed to handle HTTP error'') w))"

definition Noop :: "'s middleware" where "Noop next w = next w"

section \<open>Caching (middleware/no_cache.go, middleware/cache_control.go)\<close>

definition noCacheHeaders :: "(string \<times> string) list" where
  "noCacheHeaders =
     [(''Expires'', ''Thu, 01 Jan 1970 00:00:00 UTC''), (''Cache-Control'', ''no-cache, private, max-age=0''),
      (''Pragma'', ''no-cache''), (''X-Accel-Expires'', ''0'')]"

definition etagHeaders :: "string list" where
  "etagHeaders = [''ETag'', ''If-Modified-Since'', ''If-Match'', ''If-None-Match'', ''If-Range'', ''If-Unmodified-Since'']"

definition NoCacheWithConfig :: "('s web \<Rightarrow> bool) option \<Rightarrow> 's middleware" where
  "NoCacheWithConfig skipper next w =
     (if (case skipper of None \<Rightarrow> False | Some s \<Rightarrow> s w) then next w
      else
        (let req = (wb_request w)\<lparr>hr_Header :=
               fold (\<lambda>v h. if Header_Get h v \<noteq> [] then Header_Del h v else h) etagHeaders (hr_Header (wb_request w))\<rparr>;
             res = (wb_response w)\<lparr>hs_Header := fold (\<lambda>(k, v) h. Header_Set h k v) noCacheHeaders (hs_Header (wb_response w))\<rparr>
         in next (w\<lparr>wb_request := req, wb_response := res\<rparr>)))"

definition NoCache :: "'s middleware" where
  "NoCache = NoCacheWithConfig (Some (\<lambda>_. False))"

definition CacheControlWithConfig :: "('s web \<Rightarrow> bool) option \<Rightarrow> 's middleware" where
  "CacheControlWithConfig skipper next w =
     (if (case skipper of None \<Rightarrow> False | Some s \<Rightarrow> s w) then next w
      else
        (let req = wb_request w; cacheControl = Header_Get (hr_Header req) ''Cache-Control''
         in if cacheControl = [] then next w
            else
              (let directive = ParseCacheControlHeader cacheControl;
                   l = (case hr_logger req of
                          None \<Rightarrow> \<lparr>li_id = [], li_host = [], li_method = [], li_url = [], li_bytes_in = [],
                                   li_caller = False, li_cacheControl = None\<rparr>
                        | Some l \<Rightarrow> l)
               in next (w\<lparr>wb_request := req\<lparr>hr_logger := Some (l\<lparr>li_cacheControl := Some (directive_String directive)\<rparr>),
                     hr_ctx := WithValue (hr_ctx req) CTXKeyCacheControl (CtxDirective directive)\<rparr>\<rparr>))))"

definition CacheControl :: "'s middleware" where
  "CacheControl = CacheControlWithConfig (Some (\<lambda>_. False))"

section \<open>Logging (middleware/logger.go, middleware/recover.go)\<close>

definition DefaultRequestBodyLogSkipper :: "http_request \<Rightarrow> bool" where
  "DefaultRequestBodyLogSkipper req =
     (let contentType = Header_Get (hr_Header req) ''Content-Type''
      in HasPrefix contentType ''application/x-www-form-urlencoded'' \<or> HasPrefix contentType ''multipart/form-data'')"

definition DefaultResponseBodyLogSkipper :: "http_request \<Rightarrow> http_response \<Rightarrow> bool" where
  "DefaultResponseBodyLogSkipper _ res = (\<not> HasPrefix (Header_Get (hs_Header res) ''Content-Type'') ''application/json'')"

definition DefaultBodyLogReplacer :: "string \<Rightarrow> string" where "DefaultBodyLogReplacer body = body"

definition redacted_keys :: "string list" where
  "redacted_keys = [''Authorization'', ''X-CSRF-Token'', ''Proxy-Authorization'']"

fun add_values :: "http_header \<Rightarrow> bool \<Rightarrow> string \<Rightarrow> string list \<Rightarrow> http_header" where
  "add_values h redact k [] = h"
| "add_values h redact k (v # vs) = add_values (Header_Add h k (if redact then ''*****REDACTED*****'' else v)) redact k vs"

definition DefaultHeaderLogReplacer :: "http_header \<Rightarrow> http_header" where
  "DefaultHeaderLogReplacer headers =
     fold (\<lambda>(k, vs) h. add_values h (list_ex (EqualFold k) redacted_keys) k vs) headers []"

definition DefaultQueryLogReplacer :: "http_header \<Rightarrow> http_header" where "DefaultQueryLogReplacer query = query"

record 's LoggerConfig =
  lc_Skipper :: "('s web \<Rightarrow> bool) option"
  lc_LogRequestBody :: bool
  lc_LogRequestHeader :: bool
  lc_LogRequestQuery :: bool
  lc_LogCaller :: bool
  lc_RequestBodyLogSkipper :: "(http_request \<Rightarrow> bool) option"
  lc_RequestBodyLogReplacer :: "(string \<Rightarrow> string) option"
  lc_RequestHeaderLogReplacer :: "(http_header \<Rightarrow> http_header) option"
  lc_RequestQueryLogReplacer :: "(http_header \<Rightarrow> http_header) option"
  lc_LogResponseBody :: bool
  lc_LogResponseHeader :: bool
  lc_ResponseBodyLogSkipper :: "(http_request \<Rightarrow> http_response \<Rightarrow> bool) option"
  lc_ResponseBodyLogReplacer :: "(string \<Rightarrow> string) option"
  lc_ResponseHeaderLogReplacer :: "(http_header \<Rightarrow> http_header) option"

definition or_else :: "'a option \<Rightarrow> 'a \<Rightarrow> 'a" where
  "or_else x d = (case x of None \<Rightarrow> d | Some v \<Rightarrow> v)"

definition log_info_of :: "'s LoggerConfig \<Rightarrow> http_request \<Rightarrow> http_response \<Rightarrow> log_info" where
  "log_info_of cfg req res =
     (let requestID = Header_Get (hr_Header req) ''X-Request-ID'';
          requestID = (if requestID = [] then Header_Get (hs_Header res) ''X-Request-ID'' else requestID);
          contentLength = Header_Get (hr_Header req) ''Content-Length''
      in \<lparr>li_id = requestID, li_host = hr_Host req, li_method = hr_Method req, li_url = hr_URL req,
          li_bytes_in = (if contentLength = [] then ''0'' else contentLength), li_caller = lc_LogCaller cfg, li_cacheControl = None\<rparr>)"

text \<open>The entry of a response: of its body, what was written below this middleware.\<close>

definition response_entry :: "'s LoggerConfig \<Rightarrow> http_request \<Rightarrow> string \<Rightarrow> web_error option \<Rightarrow> 's web \<Rightarrow> log_entry" where
  "response_entry cfg req before err w =
     (let res = wb_response w; resBody = drop (length before) (hs_Body res)
      in ResponseSent (hr_logger (wb_request w)) (hs_Status res) (int (length (hs_Body res))) err
           (if lc_LogResponseBody cfg \<and> \<not> or_else (lc_ResponseBodyLogSkipper cfg) DefaultResponseBodyLogSkipper req res
            then Some (or_else (lc_ResponseBodyLogReplacer cfg) DefaultBodyLogReplacer resBody) else None)
           (if lc_LogResponseHeader cfg
            then Some (or_else (lc_ResponseHeaderLogReplacer cfg) DefaultHeaderLogReplacer (hs_Header res)) else None))"

text \<open>
  The entry of a request, and the request that is passed on; or the error of reading its
  body. The query is logged as it is: its replacer is never called.
\<close>

definition request_entry :: "'s LoggerConfig \<Rightarrow> 's web \<Rightarrow> err + log_entry \<times> http_request" where
  "request_entry cfg w =
     (let info = log_info_of cfg (wb_request w) (wb_response w);
          req = (wb_request w)\<lparr>hr_logger := Some info,
            hr_ctx := WithValue (hr_ctx (wb_request w)) CTXKeyRequestID (CtxString (li_id info))\<rparr>;
          header = (if lc_LogRequestHeader cfg
            then Some (or_else (lc_RequestHeaderLogReplacer cfg) DefaultHeaderLogReplacer (hr_Header req)) else None);
          query = (if lc_LogRequestQuery cfg then Some (hr_Query req) else None)
      in if lc_LogRequestBody cfg \<and> \<not> or_else (lc_RequestBodyLogSkipper cfg) DefaultRequestBodyLogSkipper req
         then (case hr_Body req of
             Some (Inl e) \<Rightarrow> Inl e
           | Some (Inr b) \<Rightarrow> Inr (RequestReceived info (Some (or_else (lc_RequestBodyLogReplacer cfg) DefaultBodyLogReplacer b)) header query, req)
           | None \<Rightarrow> Inr (RequestReceived info (Some (or_else (lc_RequestBodyLogReplacer cfg) DefaultBodyLogReplacer [])) header query, req))
         else Inr (RequestReceived info None header query, req))"

text \<open>An error of the handler is answered here and not passed on.\<close>

definition LoggerWithConfig :: "'s echo_lib \<Rightarrow> bool \<Rightarrow> 's LoggerConfig \<Rightarrow> 's middleware" where
  "LoggerWithConfig lib hide cfg next w =
     (if or_else (lc_Skipper cfg) (\<lambda>_. False) w then next w
      else (case request_entry cfg w of
          Inl e \<Rightarrow>
            (Some (WebWrap ''failed to read body while logging request'' (WebText (err_text e))),
             write_log (OtherEntry ''Failed to read body while logging request'') w)
        | Inr (entry, req) \<Rightarrow>
            (case next ((write_log entry w)\<lparr>wb_request := req\<rparr>) of (err, v) \<Rightarrow>
               (let v = (case err of None \<Rightarrow> v | Some e \<Rightarrow> c_Error lib hide e v)
                in (None, write_log (response_entry cfg req (hs_Body (wb_response w)) err v) v)))))"

definition DefaultLoggerConfig :: "'s LoggerConfig" where
  "DefaultLoggerConfig =
     \<lparr>lc_Skipper = Some (\<lambda>_. False), lc_LogRequestBody = False, lc_LogRequestHeader = False, lc_LogRequestQuery = False,
      lc_LogCaller = False, lc_RequestBodyLogSkipper = Some DefaultRequestBodyLogSkipper,
      lc_RequestBodyLogReplacer = Some DefaultBodyLogReplacer, lc_RequestHeaderLogReplacer = Some DefaultHeaderLogReplacer,
      lc_RequestQueryLogReplacer = Some DefaultQueryLogReplacer, lc_LogResponseBody = False, lc_LogResponseHeader = False,
      lc_ResponseBodyLogSkipper = Some DefaultResponseBodyLogSkipper, lc_ResponseBodyLogReplacer = Some DefaultBodyLogReplacer,
      lc_ResponseHeaderLogReplacer = None\<rparr>"

definition LogErrorFuncWithRequestInfo :: "web_error \<Rightarrow> string \<Rightarrow> 's web \<Rightarrow> web_error option \<times> 's web" where
  "LogErrorFuncWithRequestInfo e stack w = (Some e, write_log (OtherEntry ''PANIC RECOVER'') w)"

section \<open>Authentication as a middleware (middleware/auth.go)\<close>

definition request_of :: "'s web \<Rightarrow> request" where
  "request_of w =
     \<lparr>rq_path = wb_path w, rq_header = Header_Get (hr_Header (wb_request w)),
      rq_query = (\<lambda>k. case map_of (hr_Query (wb_request w)) k of Some (v # _) \<Rightarrow> v | _ \<Rightarrow> []),
      rq_form = hr_Form (wb_request w), rq_user = wb_user w, rq_token = wb_token w\<rparr>"

record error_titles =
  et_title :: "string \<Rightarrow> string \<times> string"  \<comment> \<open>title and detail of an error of \<open>httperrors\<close>, by its type\<close>
  et_status :: "int \<Rightarrow> string"  \<comment> \<open>\<open>http.StatusText\<close>\<close>

definition AuthMiddleware :: "error_titles \<Rightarrow> AuthServer \<Rightarrow> AuthConfig \<Rightarrow> 's middleware" where
  "AuthMiddleware et srv cfg next w =
     (case authorize srv cfg (request_of w) (wb_accounts w) of
        (Inl f, a) \<Rightarrow> (Some (web_of (et_title et) (et_status et) f), w\<lparr>wb_accounts := a\<rparr>)
      | (Inr c, a) \<Rightarrow> next (w\<lparr>wb_accounts := a, wb_user := rq_user c, wb_token := rq_token c\<rparr>))"

section \<open>Groups and routes (router/router.go, handlers/handlers.go)\<close>

record 's group =
  gr_Prefix :: string
  gr_Middleware :: "'s middleware list"

record 's Router =
  ro_Root :: "'s group"
  ro_Management :: "'s group"
  ro_APIV1Auth :: "'s group"
  ro_WellKnown :: "'s group"
  ro_APIV1Push :: "'s group"
  ro_APIV1MPC :: "'s group"

record 's route =
  rt_Method :: string
  rt_Path :: string
  rt_Middleware :: "'s middleware list"
  rt_Handler :: "'s handler"

definition group_route :: "'s group \<Rightarrow> string \<Rightarrow> string \<Rightarrow> 's handler \<Rightarrow> 's route" where
  "group_route g method path h =
     \<lparr>rt_Method = method, rt_Path = gr_Prefix g @ path, rt_Middleware = gr_Middleware g, rt_Handler = h\<rparr>"

definition echo_route :: "string \<Rightarrow> string \<Rightarrow> 's middleware list \<Rightarrow> 's handler \<Rightarrow> 's route" where
  "echo_route method path ms h = \<lparr>rt_Method = method, rt_Path = path, rt_Middleware = ms, rt_Handler = h\<rparr>"

text \<open>The handlers by the names of their functions.\<close>

definition AttachAllRoutes :: "(string \<Rightarrow> 's handler) \<Rightarrow> 's Router \<Rightarrow> 's route list" where
  "AttachAllRoutes h r =
     [group_route (ro_APIV1Auth r) ''DELETE'' ''/account'' (h ''deleteUserAccountHandler''),
      group_route (ro_APIV1Auth r) ''GET'' ''/register'' (h ''getCompleteRegisterHandler''),
      group_route (ro_APIV1Auth r) ''GET'' ''/userinfo'' (h ''getUserInfoHandler''),
      group_route (ro_APIV1Auth r) ''POST'' ''/change-password'' (h ''postChangePasswordHandler''),
      group_route (ro_APIV1Auth r) ''POST'' ''/register/:registrationToken'' (h ''postCompleteRegisterHandler''),
      group_route (ro_APIV1Auth r) ''POST'' ''/forgot-password/complete'' (h ''postForgotPasswordCompleteHandler''),
      group_route (ro_APIV1Auth r) ''POST'' ''/forgot-password'' (h ''postForgotPasswordHandler''),
      group_route (ro_APIV1Auth r) ''POST'' ''/login'' (h ''postLoginHandler''),
      group_route (ro_APIV1Auth r) ''POST'' ''/logout'' (h ''postLogoutHandler''),
      group_route (ro_APIV1Auth r) ''POST'' ''/refresh'' (h ''postRefreshHandler''),
      group_route (ro_APIV1Auth r) ''POST'' ''/register'' (h ''postRegisterHandler''),
      group_route (ro_Management r) ''GET'' ''/healthy'' (h ''getHealthyHandler''),
      group_route (ro_Management r) ''GET'' ''/ready'' (h ''getReadyHandler''),
      echo_route ''GET'' ''/swagger.yml'' [NoCache] (h ''swagger.yml''),
      group_route (ro_Management r) ''GET'' ''/version'' (h ''getVersionHandler''),
      group_route (ro_APIV1MPC r) ''DELETE'' ''/keys/:keyId'' (h ''deleteKeyHandler''),
      group_route (ro_APIV1MPC r) ''GET'' ''/keys/:keyId'' (h ''getKeyHandler''),
      group_route (ro_APIV1MPC r) ''GET'' ''/keys'' (h ''getListKeysHandler''),
      group_route (ro_APIV1MPC r) ''POST'' ''/keys'' (h ''postCreateKeyHandler''),
      group_route (ro_APIV1MPC r) ''POST'' ''/keys/:keyId/address'' (h ''postGenerateAddressHandler''),
      group_route (ro_APIV1MPC r) ''GET'' ''/nodes'' (h ''getListNodesHandler''),
      group_route (ro_APIV1MPC r) ''GET'' ''/nodes/:nodeId/health'' (h ''getNodeHealthHandler''),
      group_route (ro_APIV1MPC r) ''GET'' ''/nodes/:nodeId'' (h ''getNodeHandler''),
      group_route (ro_APIV1MPC r) ''POST'' ''/nodes'' (h ''postRegisterNodeHandler''),
      group_route (ro_APIV1MPC r) ''GET'' ''/sessions/:sessionId'' (h ''getSessionHandler''),
      group_route (ro_APIV1MPC r) ''POST'' ''/sessions/:sessionId/cancel'' (h ''postCancelSessionHandler''),
      group_route (ro_APIV1MPC r) ''POST'' ''/sessions'' (h ''postCreateSessionHandler''),
      group_route (ro_APIV1MPC r) ''POST'' ''/sessions/:sessionId/join'' (h ''postJoinSessionHandler''),
      group_route (ro_APIV1MPC r) ''POST'' ''/sign/batch'' (h ''postBatchSignHandler''),
      group_route (ro_APIV1MPC r) ''POST'' ''/sign'' (h ''postSignHandler''),
      group_route (ro_APIV1MPC r) ''POST'' ''/verify'' (h ''postVerifyHandler''),
      group_route (ro_APIV1Push r) ''PUT'' ''/token'' (h ''putUpdatePushTokenHandler''),
      group_route (ro_WellKnown r) ''GET'' ''/assetlinks.json'' (h ''getAndroidDigitalAssetLinksHandler''),
      group_route (ro_WellKnown r) ''GET'' ''/apple-app-site-association'' (h ''getAppleAppSiteAssociationHandler'')]"

end
