(* ===== verification/WebInit.thy ===== *)
theory WebInit
  imports WebRouter
begin

text \<open>
  \<open>router.Init\<close> (\<open>internal/api/router/router.go\<close>): the views, the middleware in its order, the
  groups with the middleware above them, and the routes; and the metrics it
  registers (\<open>internal/metrics\<close>). \<open>application\<close> is the echo instance afterwards.
  A route runs the middleware of the instance, then that of its group, then the handler.
\<close>

section \<open>Views and metrics (echo_renderer.go, metrics/service.go)\<close>

definition Render :: "(string \<Rightarrow> err + string) \<Rightarrow> string list \<Rightarrow> string \<Rightarrow> err + string" where
  "Render execute templates name =
     (if name \<notin> set templates then Inl (Err (''template not found: '' @ name))
      else pure_wrap (execute name) ''failed to execute template'' Inr)"

definition metric_names :: "Database \<Rightarrow> string list" where
  "metric_names db = [''total_users'', ''sqlstats '' @ db_Database db]"

fun register_all :: "(string \<Rightarrow> err + unit) \<Rightarrow> string list \<Rightarrow> err + unit" where
  "register_all reg [] = Inr ()"
| "register_all reg (m # ms) = pure_wrap (reg m) ''failed to register metric'' (\<lambda>_. register_all reg ms)"

definition RegisterMetrics :: "(string \<Rightarrow> err + unit) \<Rightarrow> Database \<Rightarrow> err + unit" where
  "RegisterMetrics reg db = register_all reg (metric_names db)"

fun view_templates :: "(string \<Rightarrow> err + unit) \<Rightarrow> (string \<Rightarrow> string) \<Rightarrow> (string \<times> bool) list \<Rightarrow> string list \<Rightarrow> err + string list" where
  "view_templates glob path [] ts = Inr ts"
| "view_templates glob path ((name, folder) # files) ts =
     (if folder then view_templates glob path files ts
      else pure_wrap (glob (path name)) ''failed to parse template file'' (\<lambda>_. view_templates glob path files (ts @ [name])))"

section \<open>Middleware of the instance\<close>

definition is_auth_path :: "http_request \<Rightarrow> bool" where
  "is_auth_path req \<longleftrightarrow> HasPrefix (hr_Path req) ''/api/v1/auth''"

definition router_logger :: "LoggerServer \<Rightarrow> 's LoggerConfig" where
  "router_logger cfg =
     \<lparr>lc_Skipper = Some (\<lambda>w. wb_path w \<in> {''/-/ready'', ''/-/healthy''}),
      lc_LogRequestBody = lg_LogRequestBody cfg, lc_LogRequestHeader = lg_LogRequestHeader cfg,
      lc_LogRequestQuery = lg_LogRequestQuery cfg, lc_LogCaller = lg_LogCaller cfg,
      lc_RequestBodyLogSkipper = Some (\<lambda>req. is_auth_path req \<or> DefaultRequestBodyLogSkipper req),
      lc_RequestBodyLogReplacer = None, lc_RequestHeaderLogReplacer = None, lc_RequestQueryLogReplacer = None,
      lc_LogResponseBody = lg_LogResponseBody cfg, lc_LogResponseHeader = lg_LogResponseHeader cfg,
      lc_ResponseBodyLogSkipper = Some (\<lambda>req res. is_auth_path req \<or> DefaultResponseBodyLogSkipper req res),
      lc_ResponseBodyLogReplacer = None, lc_ResponseHeaderLogReplacer = None\<rparr>"

definition when_enabled :: "bool \<Rightarrow> 's middleware \<Rightarrow> 's middleware list" where
  "when_enabled b m = (if b then [m] else [])"

definition general_middleware :: "'s echo_lib \<Rightarrow> 'tag ServerSettings \<Rightarrow> 's middleware list" where
  "general_middleware lib cfg =
     (let e = sc_Echo cfg
      in when_enabled (mg_EnableMetrics (sc_Management cfg)) (el_Prometheus lib)
       @ when_enabled (ec_EnableRecoverMiddleware e) (el_Recover lib LogErrorFuncWithRequestInfo)
       @ when_enabled (ec_EnableSecureMiddleware e) (el_Secure lib (ec_SecureMiddleware e))
       @ when_enabled (ec_EnableRequestIDMiddleware e) (el_RequestID lib)
       @ when_enabled (ec_EnableLoggerMiddleware e)
           (LoggerWithConfig lib (ec_HideInternalServerErrorDetails e) (router_logger (sc_Logger cfg)))
       @ when_enabled (ec_EnableCORSMiddleware e) (el_CORS lib)
       @ when_enabled (ec_EnableCacheControlMiddleware e) CacheControl)"

section \<open>Groups\<close>

definition management_key :: "'s echo_lib \<Rightarrow> 'tag ServerSettings \<Rightarrow> ('s web \<Rightarrow> bool) \<Rightarrow> 's middleware" where
  "management_key lib cfg skipper =
     el_KeyAuth lib ''query:mgmt-secret'' (\<lambda>key. key = mg_Secret (sc_Management cfg)) skipper"

definition router_groups ::
  "'s echo_lib \<Rightarrow> error_titles \<Rightarrow> AuthServer \<Rightarrow> (string \<Rightarrow> bool) \<Rightarrow> 'tag ServerSettings \<Rightarrow> 's Router" where
  "router_groups lib et srv is_uuid4 cfg =
     \<lparr>ro_Root = \<lparr>gr_Prefix = [], gr_Middleware = []\<rparr>,
      ro_Management = \<lparr>gr_Prefix = ''/-'',
        gr_Middleware = [management_key lib cfg (\<lambda>w. wb_path w = ''/-/ready''), NoCache]\<rparr>,
      ro_APIV1Auth = \<lparr>gr_Prefix = ''/api/v1/auth'', gr_Middleware = [AuthMiddleware et srv (APIV1Auth_config is_uuid4)]\<rparr>,
      ro_WellKnown = \<lparr>gr_Prefix = ''/.well-known'', gr_Middleware = []\<rparr>,
      ro_APIV1Push = \<lparr>gr_Prefix = ''/api/v1/push'', gr_Middleware = [AuthMiddleware et srv (DefaultAuthConfig is_uuid4)]\<rparr>,
      ro_APIV1MPC = \<lparr>gr_Prefix = ''/api/v1/mpc'', gr_Middleware = [AuthMiddleware et srv (DefaultAuthConfig is_uuid4)]\<rparr>\<rparr>"

definition any_methods :: "string list" where
  "any_methods = [''CONNECT'', ''DELETE'', ''GET'', ''HEAD'', ''OPTIONS'', ''PATCH'', ''POST'', ''PROPFIND'', ''PUT'', ''TRACE'', ''REPORT'']"

definition pprof_routes :: "'s echo_lib \<Rightarrow> (string \<Rightarrow> 's handler) \<Rightarrow> 'tag ServerSettings \<Rightarrow> 's route list" where
  "pprof_routes lib h cfg =
     (if \<not> pp_Enable (sc_Pprof cfg) then []
      else
        (let auth = (if pp_EnableManagementKeyAuth (sc_Pprof cfg) then management_key lib cfg (\<lambda>_. False) else Noop)
         in echo_route ''GET'' ''/debug/pprof'' [auth] (h ''pprof.Index'')
            # map (\<lambda>m. echo_route m ''/debug/pprof/*'' [auth] (h ''http.DefaultServeMux'')) any_methods))"

definition metrics_routes :: "(string \<Rightarrow> 's handler) \<Rightarrow> 'tag ServerSettings \<Rightarrow> 's route list" where
  "metrics_routes h cfg =
     (if mg_EnableMetrics (sc_Management cfg) then [echo_route ''GET'' ''/metrics'' [] (h ''echoprometheus'')] else [])"

section \<open>Init\<close>

record 's application =
  ap_Templates :: "string list"
  ap_Debug :: bool
  ap_HideErrors :: bool
  ap_Pre :: "'s middleware list"
  ap_Use :: "'s middleware list"
  ap_Routes :: "'s route list"
  ap_BlockProfileRate :: "int option"
  ap_MutexProfileFraction :: "int option"

definition profile_rate :: "'tag ServerSettings \<Rightarrow> int \<Rightarrow> int option" where
  "profile_rate cfg n = (if pp_Enable (sc_Pprof cfg) \<and> n \<noteq> 0 then Some n else None)"

definition all_routes ::
  "'s echo_lib \<Rightarrow> error_titles \<Rightarrow> AuthServer \<Rightarrow> (string \<Rightarrow> bool) \<Rightarrow> (string \<Rightarrow> 's handler) \<Rightarrow> 'tag ServerSettings \<Rightarrow> 's route list" where
  "all_routes lib et srv is_uuid4 h cfg =
     pprof_routes lib h cfg @ AttachAllRoutes h (router_groups lib et srv is_uuid4 cfg) @ metrics_routes h cfg"

definition router_Init ::
  "'s echo_lib \<Rightarrow> error_titles \<Rightarrow> (string \<Rightarrow> bool) \<Rightarrow> (string \<Rightarrow> 's handler) \<Rightarrow> ('tag, 'b) outside \<Rightarrow> (string \<Rightarrow> err + unit)
     \<Rightarrow> ('tag, 'b) Server \<Rightarrow> err + 's application \<times> ('tag, 'b) Server" where
  "router_Init lib et is_uuid4 h o1 reg s =
     (let cfg = sr_Config s; e = sc_Echo cfg; dir = ec_WebTemplatesViewsBaseDirAbs e
      in pure_wrap (ou_ReadDir o1 dir) ''failed to read views templates dir'' (\<lambda>files.
         case view_templates (ou_ParseGlob o1) (ou_Join o1 dir) files [] of
           Inl x \<Rightarrow> Inl x
         | Inr ts \<Rightarrow>
            (case (if mg_EnableMetrics (sc_Management cfg) then RegisterMetrics reg (sc_Database cfg) else Inr ()) of
               Inl x \<Rightarrow> Inl x
             | Inr _ \<Rightarrow>
                Inr (\<lparr>ap_Templates = ts, ap_Debug = ec_Debug e, ap_HideErrors = ec_HideInternalServerErrorDetails e,
                      ap_Pre = when_enabled (ec_EnableTrailingSlashMiddleware e) (el_RemoveTrailingSlash lib),
                      ap_Use = general_middleware lib cfg,
                      ap_Routes = all_routes lib et (auth_server (sc_Auth cfg)) is_uuid4 h cfg,
                      ap_BlockProfileRate = profile_rate cfg (pp_RuntimeBlockProfileRate (sc_Pprof cfg)),
                      ap_MutexProfileFraction = profile_rate cfg (pp_RuntimeMutexProfileFraction (sc_Pprof cfg))\<rparr>,
                     s\<lparr>sr_Echo := Some (ec_ListenAddress e), sr_Router := True\<rparr>))))"

text \<open>A request for a route; an error that reaches the instance is answered there.\<close>

definition run_route :: "'s route \<Rightarrow> 's handler" where
  "run_route r = foldr (\<lambda>m h. m h) (rt_Middleware r) (rt_Handler r)"

definition serve_route :: "'s echo_lib \<Rightarrow> 's application \<Rightarrow> 's route \<Rightarrow> 's web \<Rightarrow> 's web" where
  "serve_route lib app r w =
     (case foldr (\<lambda>m h. m h) (ap_Pre app @ ap_Use app) (run_route r) (w\<lparr>wb_path := rt_Path r\<rparr>) of
        (None, w) \<Rightarrow> w
      | (Some e, w) \<Rightarrow> c_Error lib (ap_HideErrors app) e w)"

end
