(* ===== verification/Commands.thy ===== *)
theory Commands
  imports Probes WebInit
begin

text \<open>
  The commands of the program (\<open>cmd/server\<close>, \<open>cmd/db\<close>, \<open>cmd/env\<close>): running a node until it is
  told to stop, the migrations and fixtures of its database, and the settings in
  JSON. \<open>log.Fatal\<close> ends the process where it stands: what is deferred does not run and the
  server is not shut down.
\<close>

section \<open>The settings as JSON (cmd/env/env.go, the tags of internal/config)\<close>

text \<open>Fields with the tag \<open>json:"-"\<close> are left out; durations are numbers.\<close>

definition string_list_json :: "string list \<Rightarrow> json" where
  "string_list_json xs = JArr (map JStr xs)"

definition database_json :: "Database \<Rightarrow> json" where
  "database_json d =
     JObj ([(''Host'', JStr (db_Host d)), (''Port'', JNum (db_Port d)), (''Username'', JStr (db_Username d)),
            (''Database'', JStr (db_Database d))]
       @ (if db_AdditionalParams d = [] then []
          else [(''additionalParams'', JObj (map (\<lambda>(k, v). (k, JStr v)) (sort_key fst (db_AdditionalParams d))))])
       @ [(''MaxOpenConns'', JNum (db_MaxOpenConns d)), (''MaxIdleConns'', JNum (db_MaxIdleConns d)),
          (''ConnMaxLifetime'', JNum (db_ConnMaxLifetime d))])"

definition secure_json :: "EchoServerSecureMiddleware \<Rightarrow> json" where
  "secure_json m =
     JObj [(''XSSProtection'', JStr (sm_XSSProtection m)), (''ContentTypeNosniff'', JStr (sm_ContentTypeNosniff m)),
       (''XFrameOptions'', JStr (sm_XFrameOptions m)), (''HSTSMaxAge'', JNum (sm_HSTSMaxAge m)),
       (''HSTSExcludeSubdomains'', JBool (sm_HSTSExcludeSubdomains m)),
       (''ContentSecurityPolicy'', JStr (sm_ContentSecurityPolicy m)), (''CSPReportOnly'', JBool (sm_CSPReportOnly m)),
       (''HSTSPreloadEnabled'', JBool (sm_HSTSPreloadEnabled m)), (''ReferrerPolicy'', JStr (sm_ReferrerPolicy m))]"

definition echo_json :: "EchoServer \<Rightarrow> json" where
  "echo_json e =
     JObj [(''Debug'', JBool (ec_Debug e)), (''ListenAddress'', JStr (ec_ListenAddress e)),
       (''HideInternalServerErrorDetails'', JBool (ec_HideInternalServerErrorDetails e)), (''BaseURL'', JStr (ec_BaseURL e)),
       (''EnableCORSMiddleware'', JBool (ec_EnableCORSMiddleware e)),
       (''EnableLoggerMiddleware'', JBool (ec_EnableLoggerMiddleware e)),
       (''EnableRecoverMiddleware'', JBool (ec_EnableRecoverMiddleware e)),
       (''EnableRequestIDMiddleware'', JBool (ec_EnableRequestIDMiddleware e)),
       (''EnableTrailingSlashMiddleware'', JBool (ec_EnableTrailingSlashMiddleware e)),
       (''EnableSecureMiddleware'', JBool (ec_EnableSecureMiddleware e)),
       (''EnableCacheControlMiddleware'', JBool (ec_EnableCacheControlMiddleware e)),
       (''SecureMiddleware'', secure_json (ec_SecureMiddleware e)),
       (''WebTemplatesViewsBaseDirAbs'', JStr (ec_WebTemplatesViewsBaseDirAbs e))]"

definition auth_json :: "AuthSettings \<Rightarrow> json" where
  "auth_json a =
     JObj [(''AccessTokenValidity'', JNum (as_AccessTokenValidity a)),
       (''PasswordResetTokenValidity'', JNum (as_PasswordResetTokenValidity a)),
       (''PasswordResetTokenDebounceDuration'', JNum (as_PasswordResetTokenDebounceDuration a)),
       (''PasswordResetTokenReuseDuration'', JNum (as_PasswordResetTokenReuseDuration a)),
       (''DefaultUserScopes'', string_list_json (as_DefaultUserScopes a)),
       (''LastAuthenticatedAtThreshold'', JNum (as_LastAuthenticatedAtThreshold a)),
       (''RegistrationRequiresConfirmation'', JBool (as_RegistrationRequiresConfirmation a)),
       (''ConfirmationTokenValidity'', JNum (as_ConfirmationTokenValidity a)),
       (''ConfirmationTokenDebounceDuration'', JNum (as_ConfirmationTokenDebounceDuration a))]"

definition management_json :: "ManagementServer \<Rightarrow> json" where
  "management_json m =
     JObj [(''ReadinessTimeout'', JNum (mg_ReadinessTimeout m)), (''LivenessTimeout'', JNum (mg_LivenessTimeout m)),
       (''ProbeWriteablePathsAbs'', string_list_json (mg_ProbeWriteablePathsAbs m)),
       (''ProbeWriteableTouchfile'', JStr (mg_ProbeWriteableTouchfile m)), (''EnableMetrics'', JBool (mg_EnableMetrics m))]"

text \<open>\<open>level\<close> is the text of a log level.\<close>

definition logger_json :: "(int \<Rightarrow> string) \<Rightarrow> LoggerServer \<Rightarrow> json" where
  "logger_json level l =
     JObj [(''Level'', JStr (level (lg_Level l))), (''RequestLevel'', JStr (level (lg_RequestLevel l))),
       (''LogRequestBody'', JBool (lg_LogRequestBody l)), (''LogRequestHeader'', JBool (lg_LogRequestHeader l)),
       (''LogRequestQuery'', JBool (lg_LogRequestQuery l)), (''LogResponseBody'', JBool (lg_LogResponseBody l)),
       (''LogResponseHeader'', JBool (lg_LogResponseHeader l)), (''LogCaller'', JBool (lg_LogCaller l)),
       (''PrettyPrintConsole'', JBool (lg_PrettyPrintConsole l))]"

definition mpc_json :: "MPC \<Rightarrow> json" where
  "mpc_json m =
     JObj [(''NodeType'', JStr (mp_NodeType m)), (''NodeID'', JStr (mp_NodeID m)),
       (''CoordinatorEndpoint'', JStr (mp_CoordinatorEndpoint m)), (''StorageBackend'', JStr (mp_StorageBackend m)),
       (''RedisEndpoint'', JStr (mp_RedisEndpoint m)), (''KeyShareStoragePath'', JStr (mp_KeyShareStoragePath m)),
       (''KeyShareEncryptionKey'', JStr (mp_KeyShareEncryptionKey m)), (''ConsulAddress'', JStr (mp_ConsulAddress m)),
       (''SupportedProtocols'', string_list_json (mp_SupportedProtocols m)), (''DefaultProtocol'', JStr (mp_DefaultProtocol m)),
       (''HTTPPort'', JNum (mp_HTTPPort m)), (''GRPCPort'', JNum (mp_GRPCPort m)), (''TLSEnabled'', JBool (mp_TLSEnabled m)),
       (''EnableAudit'', JBool (mp_EnableAudit m)), (''EnablePolicy'', JBool (mp_EnablePolicy m)),
       (''KeyRotationDays'', JNum (mp_KeyRotationDays m)), (''MaxConcurrentSessions'', JNum (mp_MaxConcurrentSessions m)),
       (''MaxConcurrentSignings'', JNum (mp_MaxConcurrentSignings m)), (''SessionTimeout'', JNum (mp_SessionTimeout m))]"

definition settings_json :: "('tag \<Rightarrow> string) \<Rightarrow> (int \<Rightarrow> string) \<Rightarrow> 'tag ServerSettings \<Rightarrow> json" where
  "settings_json tag level c =
     (let p = sc_Pprof c; d = sc_Paths c; m = sc_Mailer c; t = sc_SMTP c; f = sc_Frontend c; u = sc_Push c;
          g = sc_FCMConfig c; i = sc_I18n c
      in JObj [(''Database'', database_json (sc_Database c)), (''Echo'', echo_json (sc_Echo c)),
       (''Pprof'', JObj [(''Enable'', JBool (pp_Enable p)), (''EnableManagementKeyAuth'', JBool (pp_EnableManagementKeyAuth p)),
          (''RuntimeBlockProfileRate'', JNum (pp_RuntimeBlockProfileRate p)),
          (''RuntimeMutexProfileFraction'', JNum (pp_RuntimeMutexProfileFraction p))]),
       (''Paths'', JObj [(''APIBaseDirAbs'', JStr (pa_APIBaseDirAbs d)), (''MntBaseDirAbs'', JStr (pa_MntBaseDirAbs d)),
          (''AppleAppSiteAssociationFile'', JStr (pa_AppleAppSiteAssociationFile d)),
          (''AndroidAssetlinksFile'', JStr (pa_AndroidAssetlinksFile d))]),
       (''Auth'', auth_json (sc_Auth c)), (''Management'', management_json (sc_Management c)),
       (''Mailer'', JObj [(''DefaultSender'', JStr (ml_DefaultSender m)), (''Send'', JBool (ml_Send m)),
          (''WebTemplatesEmailBaseDirAbs'', JStr (ml_WebTemplatesEmailBaseDirAbs m)), (''Transporter'', JStr (ml_Transporter m))]),
       (''SMTP'', JObj [(''Host'', JStr (st_Host t)), (''Port'', JNum (st_Port t)), (''Username'', JStr (st_Username t))]),
       (''Frontend'', JObj [(''BaseURL'', JStr (fe_BaseURL f)), (''PasswordResetEndpoint'', JStr (fe_PasswordResetEndpoint f))]),
       (''Logger'', logger_json level (sc_Logger c)),
       (''Push'', JObj [(''UseFCMProvider'', JBool (ps_UseFCMProvider u)), (''UseMockProvider'', JBool (ps_UseMockProvider u))]),
       (''FCMConfig'', JObj [(''ProjectID'', JStr (fcm_ProjectID g)), (''ValidateOnly'', JBool (fcm_ValidateOnly g))]),
       (''I18n'', JObj [(''DefaultLanguage'', JStr (tag (in_DefaultLanguage i))), (''BundleDirAbs'', JStr (in_BundleDirAbs i))]),
       (''MPC'', mpc_json (sc_MPC c))])"

text \<open>\<open>runEnv\<close>: what is printed; \<open>encode\<close> is \<open>json.MarshalIndent\<close>.\<close>

definition runEnv :: "(json \<Rightarrow> err + string) \<Rightarrow> ('tag \<Rightarrow> string) \<Rightarrow> (int \<Rightarrow> string) \<Rightarrow> 'tag ServerSettings \<Rightarrow> string outcome" where
  "runEnv encode tag level config =
     (case encode (settings_json tag level config) of
        Inl e \<Rightarrow> Fatal ''Failed to marshal the env'' | Inr t \<Rightarrow> Done (t @ newline))"

section \<open>Migrations and fixtures (cmd/db)\<close>

text \<open>
  The database and sql-migrate: renaming the old table, the plan, and applying at most one
  migration, which says how many it applied.
\<close>

record migrations =
  mi_Rename :: "err + unit"
  mi_Plan :: "err + string list"
  mi_ExecMax :: "nat \<Rightarrow> err + int"  \<comment> \<open>the \<open>n\<close>-th call\<close>

fun apply_missing :: "(nat \<Rightarrow> err + int) \<Rightarrow> nat \<Rightarrow> string list \<Rightarrow> int \<Rightarrow> err + int" where
  "apply_missing exec k [] appliedMigrationsCount = Inr appliedMigrationsCount"
| "apply_missing exec k (m # ms) appliedMigrationsCount =
     pure_wrap (exec k) ''failed to apply migration''
       (\<lambda>n. if n = 0 then Inr (appliedMigrationsCount + n) else apply_missing exec (Suc k) ms (appliedMigrationsCount + n))"

definition open_and_ping :: "('tag, 'b) outside \<Rightarrow> 'tag ServerSettings \<Rightarrow> (unit \<Rightarrow> err + 'a) \<Rightarrow> err + 'a" where
  "open_and_ping o1 cfg k =
     pure_wrap (ou_Open o1 (ConnectionString (sc_Database cfg))) ''failed to open the database'' (\<lambda>_.
     pure_wrap (ou_Ping o1 (ConnectionString (sc_Database cfg))) ''failed to ping the database'' k)"

definition ApplyMigrations :: "('tag, 'b) outside \<Rightarrow> migrations \<Rightarrow> 'tag ServerSettings \<Rightarrow> err + int" where
  "ApplyMigrations o1 mi cfg =
     open_and_ping o1 cfg (\<lambda>_.
     pure_wrap (mi_Rename mi) ''failed to rename migrations table'' (\<lambda>_.
     pure_wrap (mi_Plan mi) ''failed to plan migrations'' (\<lambda>missing. apply_missing (mi_ExecMax mi) 0 missing 0)))"

text \<open>There are no fixtures: the transaction is begun and committed.\<close>

definition ApplySeedFixtures :: "('tag, 'b) outside \<Rightarrow> err + unit \<Rightarrow> err + unit \<Rightarrow> 'tag ServerSettings \<Rightarrow> err + unit" where
  "ApplySeedFixtures o1 begin_tx commit_tx cfg =
     open_and_ping o1 cfg (\<lambda>_. pure_wrap begin_tx ''failed to start transaction'' (\<lambda>_. commit_tx))"

section \<open>Running a node (cmd/server/server.go)\<close>

record Flags =
  fl_ProbeReadiness :: bool
  fl_ApplyMigrations :: bool
  fl_SeedFixtures :: bool

text \<open>
  What the commands find around them. \<open>rn_started\<close> and \<open>rn_grpc\<close> say whether the goroutine that
  starts the server, and the one in which that starts the gRPC server, have run
  when the signal to stop arrives.
\<close>

record ('tag, 'b, 'c, 's) surroundings =
  rn_outside :: "('tag, 'b) outside"
  rn_platform :: "'c platform"
  rn_lib :: "'s echo_lib"
  rn_titles :: error_titles
  rn_is_uuid4 :: "string \<Rightarrow> bool"
  rn_handlers :: "string \<Rightarrow> 's handler"
  rn_register :: "string \<Rightarrow> err + unit"
  rn_migrations :: migrations
  rn_begin_tx :: "err + unit"
  rn_commit_tx :: "err + unit"
  rn_is_closed :: "err \<Rightarrow> bool"  \<comment> \<open>\<open>errors.Is(err, http.ErrServerClosed)\<close>\<close>
  rn_started :: bool
  rn_grpc :: bool

text \<open>The goroutines up to the signal: a failure to start ends the process.\<close>

definition until_signal ::
  "('tag, 'b, 'c, 's) surroundings \<Rightarrow> ('tag, 'b) Server \<Rightarrow> ('w, 'c) process \<Rightarrow> (err option \<times> ('tag, 'b) Server) outcome \<times> ('w, 'c) process" where
  "until_signal r s w =
     (if \<not> rn_started r then (Done (None, s), w)
      else (case Start (rn_platform r) s (snd w) of (res, p) \<Rightarrow>
        (let p = (if rn_grpc r then grpc_goroutine (rn_platform r) s p else p)
         in case res of
              Inl e \<Rightarrow> (if rn_is_closed r e then Done (None, s) else Fatal ''Failed to start server'', (fst w, p))
            | Inr _ \<Rightarrow> (Done (None, s), (fst w, p)))))"

definition server_body ::
  "('tag, 'b, 'c, 's) surroundings \<Rightarrow> Flags \<Rightarrow> ('tag, 'b) Server \<Rightarrow> (probe_world, 'c) process
     \<Rightarrow> (err option \<times> ('tag, 'b) Server) outcome \<times> (probe_world, 'c) process" where
  "server_body r flags s w =
     (let o1 = rn_outside r; cfg = sr_Config s
      in case (if fl_ProbeReadiness flags then RunReadiness o1 cfg (fst w) else (Inr [], fst w)) of
           (Inl e, v) \<Rightarrow> (Fatal ''Failed to run readiness probes'', (v, snd w))
         | (Inr errs, v) \<Rightarrow>
             if errs \<noteq> [] then (Fatal ''Unhealthy.'', (v, snd w))
             else case (if fl_ApplyMigrations flags then ApplyMigrations o1 (rn_migrations r) cfg else Inr 0) of
                    Inl e \<Rightarrow> (Fatal ''Error while applying migrations'', (v, snd w))
                  | Inr _ \<Rightarrow>
                 (case (if fl_SeedFixtures flags then ApplySeedFixtures o1 (rn_begin_tx r) (rn_commit_tx r) cfg else Inr ()) of
                    Inl e \<Rightarrow> (Fatal ''Error while applying seed fixtures'', (v, snd w))
                  | Inr _ \<Rightarrow>
                 (case router_Init (rn_lib r) (rn_titles r) (rn_is_uuid4 r) (rn_handlers r) o1 (rn_register r) s of
                    Inl e \<Rightarrow> (Fatal ''Failed to initialize router'', (v, snd w))
                  | Inr (_, s) \<Rightarrow> until_signal r s (v, snd w))))"

definition runServer ::
  "('tag, 'b, 'c, 's) surroundings \<Rightarrow> Flags \<Rightarrow> 'tag ServerSettings \<Rightarrow> fsys \<Rightarrow> probe_world \<Rightarrow> 'c
     \<Rightarrow> unit outcome \<times> (probe_world, 'c) process" where
  "runServer r flags cfg fs v c =
     fail_on_errors ''Failed to start server''
       (WithServer (rn_outside r) (rn_platform r) cfg fs (server_body r flags) (v, idle_process c))"

end
