(* ===== verification/WebProps.thy ===== *)
theory WebProps
  imports WebInit
begin

text \<open>
  What the router promises: a request without credentials reaches the handlers of the
  open routes only, the log holds no credentials of the headers and no bodies of
  \<open>/api/v1/auth\<close>, and the text of an internal error does not leave the server. The
  behaviour of echo's key authentication is a hypothesis.
\<close>

section \<open>Errors\<close>

text \<open>C23: An answer with status 500, where internal details are hidden, has the fixed title. Of
  the error it holds only the type and the detail of an HTTP error, and the failed fields
  of a validation error; every other error is answered in the same way.\<close>

theorem internal_errors_stay_internal:
  assumes "HTTPErrorHandlerWithConfig lib True e method committed = Some (500, Some b)"
  shows "b = (case errors_As lib is_http e of
       Some (WebHTTP _ type _ detail _ _) \<Rightarrow>
         \<lparr>ph_Code = 500, ph_Type = type, ph_Title = ''Internal Server Error'', ph_Detail = detail, ph_ValidationErrors = None\<rparr>
     | _ \<Rightarrow>
      (case errors_As lib is_validation e of
         Some (WebValidation _ type _ detail _ _ errs) \<Rightarrow>
           \<lparr>ph_Code = 500, ph_Type = type, ph_Title = ''Internal Server Error'', ph_Detail = detail, ph_ValidationErrors = Some errs\<rparr>
       | _ \<Rightarrow>
           \<lparr>ph_Code = 500, ph_Type = ''generic'', ph_Title = ''Internal Server Error'', ph_Detail = [], ph_ValidationErrors = None\<rparr>))"
proof -
  have res: "fst (http_result lib True e) = 500" "public_error (snd (http_result lib True e)) = Some b"
    using assms unfolding HTTPErrorHandlerWithConfig_def by (auto split: if_splits)
  show ?thesis
  proof (cases rule: http_result_cases [of lib e])
    case http
    then show ?thesis using res by (auto simp: http_result_def InternalServerErrorText_def)
  next
    case validation
    then show ?thesis using res by (auto simp: http_result_def InternalServerErrorText_def)
  next
    case echo
    then show ?thesis using res by (auto simp: http_result_def InternalServerErrorText_def)
  next
    case other
    then show ?thesis using res by (auto simp: http_result_def InternalServerErrorText_def)
  qed
qed

definition plain_echo :: echo_errors where
  "plain_echo = \<lparr>ee_text = (\<lambda>code m i. ''code='' @ itoa code), ee_unwraps = True\<rparr>"

theorem internal_errors_stay_internal_witness:
  "HTTPErrorHandlerWithConfig plain_echo True (WebWrap ''query failed'' (WebText ''password authentication failed'')) ''GET'' False
     = Some (500, Some \<lparr>ph_Code = 500, ph_Type = ''generic'', ph_Title = ''Internal Server Error'', ph_Detail = [], ph_ValidationErrors = None\<rparr>)"
proof -
  let ?e = "WebWrap ''query failed'' (WebText ''password authentication failed'')"
  obtain b where b: "HTTPErrorHandlerWithConfig plain_echo True ?e ''GET'' False = Some (500, Some b)"
    by (simp add: HTTPErrorHandlerWithConfig_def http_result_def errors_As_def)
  show ?thesis using internal_errors_stay_internal [OF b] b by (simp add: errors_As_def)
qed

text \<open>A detail is not hidden, and a message that is not a string is replaced by a text about no error.\<close>

lemma detail_is_not_hidden:
  "HTTPErrorHandlerWithConfig lib True (NewHTTPErrorWithDetail 500 t ''Oops'' detail) ''GET'' False
     = Some (500, Some \<lparr>ph_Code = 500, ph_Type = t, ph_Title = ''Internal Server Error'', ph_Detail = detail, ph_ValidationErrors = None\<rparr>)"
  by (simp add: HTTPErrorHandlerWithConfig_def http_result_def errors_As_def NewHTTPErrorWithDetail_def InternalServerErrorText_def)

lemma message_value_is_lost:
  assumes "code \<noteq> 500"
  shows "HTTPErrorHandlerWithConfig lib hide (WebEcho code (MessageValue m) None) ''GET'' False
     = Some (code, Some \<lparr>ph_Code = code, ph_Type = ''generic'', ph_Title = ''failed to marshal HTTP error message: <nil>'',
         ph_Detail = [], ph_ValidationErrors = None\<rparr>)"
  using assms by (simp add: HTTPErrorHandlerWithConfig_def http_result_def errors_As_def)

section \<open>Headers\<close>

lemma lower_upper_char [simp]: "lower_char (upper_char c) = lower_char c"
proof (cases "97 \<le> (of_char c :: nat) \<and> (of_char c :: nat) \<le> 122")
  case True
  then have "(of_char c - 32 :: nat) mod 256 = of_char c - 32" by (intro mod_less) linarith
  moreover have "65 \<le> (of_char c - 32 :: nat)" "(of_char c - 32 :: nat) \<le> 90" using True by linarith+
  ultimately show ?thesis using True by (simp add: lower_char_def upper_char_def Let_def)
qed (auto simp: upper_char_def Let_def)

lemma lower_lower_char [simp]: "lower_char (lower_char c) = lower_char c"
  by (simp add: lower_char_def Let_def)

lemma ToLower_capitalize: "ToLower (capitalize first k) = ToLower k"
  by (induction first k rule: capitalize.induct) (simp_all add: ToLower_def)

lemma ToLower_canonical [simp]: "ToLower (CanonicalHeaderKey k) = ToLower k"
  by (simp add: CanonicalHeaderKey_def ToLower_capitalize)

text \<open>A header in which the values of the credentials' keys are replaced.\<close>

definition redacted :: "http_header \<Rightarrow> bool" where
  "redacted h \<longleftrightarrow> (\<forall>(k, vs)\<in>set h. list_ex (EqualFold k) redacted_keys \<longrightarrow> set vs \<subseteq> {''*****REDACTED*****''})"

lemma is_redacted_key_canonical:
  "list_ex (EqualFold (CanonicalHeaderKey k)) redacted_keys = list_ex (EqualFold k) redacted_keys"
  by (simp add: EqualFold_def redacted_keys_def)

lemma set_update: "x \<in> set (AList.update k v h) \<Longrightarrow> x \<in> set h \<or> x = (k, v)"
  by (induction h) (auto split: if_splits)

lemma redacted_values:
  assumes "redacted h" and "map_of h k = Some vs" and "list_ex (EqualFold k) redacted_keys"
  shows "set vs \<subseteq> {''*****REDACTED*****''}"
  using assms map_of_SomeD unfolding redacted_def by fastforce

lemma redacted_Header_Add:
  assumes "redacted h" and "list_ex (EqualFold k) redacted_keys \<Longrightarrow> v = ''*****REDACTED*****''"
  shows "redacted (Header_Add h k v)"
proof -
  let ?c = "CanonicalHeaderKey k"
  let ?vs = "case map_of h ?c of None \<Rightarrow> [] | Some vs \<Rightarrow> vs"
  have new: "set (?vs @ [v]) \<subseteq> {''*****REDACTED*****''}" if "list_ex (EqualFold ?c) redacted_keys"
  proof -
    have "set ?vs \<subseteq> {''*****REDACTED*****''}"
      using redacted_values [OF assms(1), of ?c] that by (cases "map_of h ?c") auto
    moreover have "v = ''*****REDACTED*****''" using assms(2) that unfolding is_redacted_key_canonical by blast
    ultimately show ?thesis by simp
  qed
  show ?thesis unfolding redacted_def
  proof (intro ballI, clarify)
    fix k' vs x
    assume mem: "(k', vs) \<in> set (Header_Add h k v)" and "list_ex (EqualFold k') redacted_keys" and "x \<in> set vs"
    then show "x = ''*****REDACTED*****''"
      using set_update [OF mem [unfolded Header_Add_def]] assms(1) new unfolding redacted_def by fastforce
  qed
qed

lemma redacted_add_values:
  assumes "redacted h" and "r \<longleftrightarrow> list_ex (EqualFold k) redacted_keys"
  shows "redacted (add_values h r k vs)"
  using assms
proof (induction h r k vs rule: add_values.induct)
  case (2 h r k v vs)
  have "redacted (Header_Add h k (if r then ''*****REDACTED*****'' else v))"
    using 2(3) by (intro redacted_Header_Add 2(2)) simp
  then show ?case using 2 by simp
qed simp

lemma redacted_replacer: "redacted (DefaultHeaderLogReplacer headers)"
proof -
  have all: "redacted h \<Longrightarrow> redacted (fold (\<lambda>(k, vs) h. add_values h (list_ex (EqualFold k) redacted_keys) k vs) headers h)" for h
    by (induction headers arbitrary: h) (auto intro: redacted_add_values)
  show ?thesis unfolding DefaultHeaderLogReplacer_def by (rule all) (simp add: redacted_def)
qed

section \<open>The log\<close>

text \<open>An entry without credentials: no body of the accounts' paths, no secret header.\<close>

fun clean_entry :: "bool \<Rightarrow> log_entry \<Rightarrow> bool" where
  "clean_entry account (RequestReceived _ body header _) \<longleftrightarrow> (account \<longrightarrow> body = None) \<and> pred_option redacted header"
| "clean_entry account (ResponseSent _ _ _ _ body header) \<longleftrightarrow> (account \<longrightarrow> body = None) \<and> pred_option redacted header"
| "clean_entry account (OtherEntry _) = True"

definition clean_log :: "'s web \<Rightarrow> bool" where
  "clean_log w \<longleftrightarrow> list_all (clean_entry (is_auth_path (wb_request w))) (wb_log w)"

definition keeps_log_clean :: "'s handler \<Rightarrow> bool" where
  "keeps_log_clean next \<longleftrightarrow>
     (\<forall>w e w'. clean_log w \<longrightarrow> next w = (e, w') \<longrightarrow> clean_log w' \<and> is_auth_path (wb_request w') = is_auth_path (wb_request w))"

definition answers_keep_log_clean :: "'s echo_lib \<Rightarrow> bool" where
  "answers_keep_log_clean lib \<longleftrightarrow>
     (\<forall>code b w e w'. clean_log w \<longrightarrow> el_respond lib code b w = (e, w') \<longrightarrow> clean_log w' \<and> is_auth_path (wb_request w') = is_auth_path (wb_request w))"

lemma clean_log_write [simp]: "clean_log (write_log e w) \<longleftrightarrow> clean_log w \<and> clean_entry (is_auth_path (wb_request w)) e"
  by (auto simp: clean_log_def write_log_def)

lemma write_log_request [simp]: "wb_request (write_log e w) = wb_request w"
  by (simp add: write_log_def)

lemma c_Error_clean:
  assumes "answers_keep_log_clean lib" and "clean_log w"
  shows "clean_log (c_Error lib hide e w) \<and> is_auth_path (wb_request (c_Error lib hide e w)) = is_auth_path (wb_request w)"
proof (cases "HTTPErrorHandlerWithConfig (el_errors lib) hide e (hr_Method (wb_request w)) (hs_Committed (wb_response w))")
  case None
  then show ?thesis using assms by (simp add: c_Error_def)
next
  case (Some a)
  obtain code body where a: "a = (code, body)" by (cases a)
  obtain x w' where r: "el_respond lib code body w = (x, w')" by (cases "el_respond lib code body w")
  have "clean_log w'" "is_auth_path (wb_request w') = is_auth_path (wb_request w)"
    using assms r unfolding answers_keep_log_clean_def by blast+
  then show ?thesis using Some a r by (cases x) (simp_all add: c_Error_def)
qed

lemma clean_with_request:
  "is_auth_path req = is_auth_path (wb_request w) \<Longrightarrow> clean_log (w\<lparr>wb_request := req\<rparr>) = clean_log w"
  by (simp add: clean_log_def)

lemma keeps_log_clean_D:
  assumes "keeps_log_clean next" and "clean_log w" and "next w = (e, w')"
  shows "clean_log w'" and "is_auth_path (wb_request w') = is_auth_path (wb_request w)"
  using assms unfolding keeps_log_clean_def by blast+

text \<open>A middleware that changes at most the request's logger, context and headers, and the response.\<close>

lemma keeps_log_clean_step:
  assumes "keeps_log_clean next" and "\<And>w. M w = next (f w)"
    and "\<And>w. wb_log (f w) = wb_log w" and "\<And>w. is_auth_path (wb_request (f w)) = is_auth_path (wb_request w)"
  shows "keeps_log_clean M"
  unfolding keeps_log_clean_def
proof (intro allI impI)
  fix w e w'
  assume clean: "clean_log w" and run: "M w = (e, w')"
  have "clean_log (f w)" using clean assms(3,4) [of w] by (simp add: clean_log_def)
  then show "clean_log w' \<and> is_auth_path (wb_request w') = is_auth_path (wb_request w)"
    using keeps_log_clean_D [OF assms(1), of "f w" e w'] run assms(2,4) [of w] by simp
qed

lemma is_auth_path_update [simp]:
  "is_auth_path (req\<lparr>hr_logger := l, hr_ctx := c\<rparr>) = is_auth_path req"
  "is_auth_path (req\<lparr>hr_Header := h\<rparr>) = is_auth_path req"
  by (simp_all add: is_auth_path_def)

lemma or_else_default [simp]: "or_else None d = d" "or_else (Some x) d = x"
  by (simp_all add: or_else_def)

lemma router_logger_simps [simp]:
  "lc_LogRequestBody (router_logger cfg) = lg_LogRequestBody cfg"
  "lc_LogRequestHeader (router_logger cfg) = lg_LogRequestHeader cfg"
  "or_else (lc_RequestHeaderLogReplacer (router_logger cfg)) = or_else None"
  "or_else (lc_RequestBodyLogSkipper (router_logger cfg)) f req \<longleftrightarrow> is_auth_path req \<or> DefaultRequestBodyLogSkipper req"
  by (simp_all add: router_logger_def or_else_def)

lemma request_entry_clean:
  fixes w :: "'s web"
  assumes "request_entry (router_logger cfg) w = Inr (entry, req)"
  shows "clean_entry (is_auth_path (wb_request w)) entry" and "is_auth_path req = is_auth_path (wb_request w)"
proof -
  define info where "info = log_info_of (router_logger cfg :: 's LoggerConfig) (wb_request w) (wb_response w)"
  obtain body header query where e: "entry = RequestReceived info body header query"
      "header = (if lg_LogRequestHeader cfg then Some (DefaultHeaderLogReplacer (hr_Header (wb_request w))) else None)"
      "is_auth_path (wb_request w) \<longrightarrow> body = None"
    and req: "req = (wb_request w)\<lparr>hr_logger := Some info,
        hr_ctx := WithValue (hr_ctx (wb_request w)) CTXKeyRequestID (CtxString (li_id info))\<rparr>"
    using assms unfolding request_entry_def Let_def info_def
    by (cases "hr_Body (wb_request w)"; cases "the (hr_Body (wb_request w))")
       (auto split: if_split_asm)
  show "clean_entry (is_auth_path (wb_request w)) entry" using e redacted_replacer by simp
  show "is_auth_path req = is_auth_path (wb_request w)" unfolding req by simp
qed

lemma response_entry_clean:
  assumes "is_auth_path req = account"
  shows "clean_entry account (response_entry (router_logger cfg) req before err w)"
  using assms redacted_replacer unfolding response_entry_def router_logger_def or_else_def Let_def by simp

lemma logger_keeps_log_clean:
  assumes "keeps_log_clean next" and "answers_keep_log_clean lib"
  shows "keeps_log_clean (LoggerWithConfig lib hide (router_logger cfg) next)"
  unfolding keeps_log_clean_def
proof (intro allI impI)
  fix w e w'
  assume clean: "clean_log w" and run: "LoggerWithConfig lib hide (router_logger cfg) next w = (e, w')"
  show "clean_log w' \<and> is_auth_path (wb_request w') = is_auth_path (wb_request w)"
  proof (cases "or_else (lc_Skipper (router_logger cfg)) (\<lambda>_. False) w")
    case True
    then have "next w = (e, w')" using run by (simp add: LoggerWithConfig_def)
    then show ?thesis using keeps_log_clean_D [OF assms(1) clean] by blast
  next
    case shown: False
    show ?thesis
    proof (cases "request_entry (router_logger cfg) w")
      case (Inl x)
      then show ?thesis using run shown clean by (auto simp: LoggerWithConfig_def)
    next
      case (Inr y)
      obtain entry req where y: "request_entry (router_logger cfg) w = Inr (entry, req)" using Inr by (cases y) auto
      let ?w = "(write_log entry w)\<lparr>wb_request := req\<rparr>"
      have first: "clean_log ?w" "is_auth_path (wb_request ?w) = is_auth_path (wb_request w)"
        using request_entry_clean [OF y] clean by (simp_all add: clean_with_request)
      obtain err w1 where n: "next ?w = (err, w1)" by (cases "next ?w")
      have one: "clean_log w1" "is_auth_path (wb_request w1) = is_auth_path (wb_request w)"
        using keeps_log_clean_D [OF assms(1) first(1) n] first(2) by simp_all
      define w2 where "w2 = (case err of None \<Rightarrow> w1 | Some e \<Rightarrow> c_Error lib hide e w1)"
      have two: "clean_log w2" "is_auth_path (wb_request w2) = is_auth_path (wb_request w)"
        using c_Error_clean [OF assms(2) one(1)] one unfolding w2_def by (cases err; simp)+
      have "w' = write_log (response_entry (router_logger cfg) req (hs_Body (wb_response w)) err w2) w2"
        using run shown y n unfolding LoggerWithConfig_def w2_def Let_def by simp
      then show ?thesis using two response_entry_clean [OF request_entry_clean(2) [OF y]] by simp
    qed
  qed
qed

text \<open>The middleware of echo writes no credentials into this log.\<close>

definition lib_keeps_log_clean :: "'s echo_lib \<Rightarrow> bool" where
  "lib_keeps_log_clean lib \<longleftrightarrow>
     answers_keep_log_clean lib
     \<and> (\<forall>next. keeps_log_clean next \<longrightarrow>
          keeps_log_clean (el_Prometheus lib next) \<and> keeps_log_clean (el_RemoveTrailingSlash lib next)
          \<and> keeps_log_clean (el_RequestID lib next) \<and> keeps_log_clean (el_CORS lib next)
          \<and> (\<forall>cfg. keeps_log_clean (el_Secure lib cfg next))
          \<and> (\<forall>lookup valid skip. keeps_log_clean (el_KeyAuth lib lookup valid skip next))
          \<and> (\<forall>f. (\<forall>e stack. keeps_log_clean (f e stack)) \<longrightarrow> keeps_log_clean (el_Recover lib f next)))"

definition clean_middleware :: "'s middleware \<Rightarrow> bool" where
  "clean_middleware m \<longleftrightarrow> (\<forall>next. keeps_log_clean next \<longrightarrow> keeps_log_clean (m next))"

lemma clean_chain:
  assumes "list_all clean_middleware ms" and "keeps_log_clean h"
  shows "keeps_log_clean (foldr (\<lambda>m h. m h) ms h)"
  using assms by (induction ms) (simp_all add: clean_middleware_def)

lemma Noop_clean: "clean_middleware Noop"
  unfolding clean_middleware_def keeps_log_clean_def Noop_def by blast

lemma NoCache_clean: "clean_middleware NoCache"
  unfolding clean_middleware_def
proof (intro allI impI)
  fix "next" :: "'s handler"
  assume n: "keeps_log_clean next"
  show "keeps_log_clean (NoCache next)"
    by (rule keeps_log_clean_step [OF n, where f = "\<lambda>w. w\<lparr>wb_request := (wb_request w)\<lparr>hr_Header :=
               fold (\<lambda>v h. if Header_Get h v \<noteq> [] then Header_Del h v else h) etagHeaders (hr_Header (wb_request w))\<rparr>,
             wb_response := (wb_response w)\<lparr>hs_Header := fold (\<lambda>(k, v) h. Header_Set h k v) noCacheHeaders (hs_Header (wb_response w))\<rparr>\<rparr>"])
       (simp_all add: NoCache_def NoCacheWithConfig_def Let_def)
qed

lemma CacheControl_clean: "clean_middleware CacheControl"
  unfolding clean_middleware_def
proof (intro allI impI)
  fix "next" :: "'s handler"
  assume n: "keeps_log_clean next"
  show "keeps_log_clean (CacheControl next)" unfolding keeps_log_clean_def
  proof (intro allI impI)
    fix w e w'
    assume clean: "clean_log w" and run: "CacheControl next w = (e, w')"
    obtain l c where "CacheControl next w = next w
        \<or> CacheControl next w = next (w\<lparr>wb_request := (wb_request w)\<lparr>hr_logger := l, hr_ctx := c\<rparr>\<rparr>)"
      unfolding CacheControl_def CacheControlWithConfig_def Let_def
      by (cases "Header_Get (hr_Header (wb_request w)) ''Cache-Control'' = []") auto
    then show "clean_log w' \<and> is_auth_path (wb_request w') = is_auth_path (wb_request w)"
    proof
      assume "CacheControl next w = next w"
      then have "next w = (e, w')" using run by simp
      then show ?thesis using keeps_log_clean_D [OF n clean] by blast
    next
      let ?w = "w\<lparr>wb_request := (wb_request w)\<lparr>hr_logger := l, hr_ctx := c\<rparr>\<rparr>"
      assume "CacheControl next w = next ?w"
      then have "next ?w = (e, w')" using run by simp
      moreover have "clean_log ?w" using clean by (simp add: clean_with_request)
      ultimately show ?thesis using keeps_log_clean_D [OF n, of ?w e w'] by simp
    qed
  qed
qed

lemma AuthMiddleware_clean: "clean_middleware (AuthMiddleware et srv cfg)"
  unfolding clean_middleware_def
proof (intro allI impI)
  fix "next" :: "'s handler"
  assume n: "keeps_log_clean next"
  show "keeps_log_clean (AuthMiddleware et srv cfg next)" unfolding keeps_log_clean_def
  proof (intro allI impI)
    fix w e w'
    assume clean: "clean_log w" and run: "AuthMiddleware et srv cfg next w = (e, w')"
    obtain r a where auth: "authorize srv cfg (request_of w) (wb_accounts w) = (r, a)"
      by (cases "authorize srv cfg (request_of w) (wb_accounts w)")
    show "clean_log w' \<and> is_auth_path (wb_request w') = is_auth_path (wb_request w)"
    proof (cases r)
      case (Inl f)
      then show ?thesis using auth run clean by (auto simp: AuthMiddleware_def clean_log_def)
    next
      case (Inr c)
      let ?w = "w\<lparr>wb_accounts := a, wb_user := rq_user c, wb_token := rq_token c\<rparr>"
      have "next ?w = (e, w')" "clean_log ?w" using Inr auth run clean by (simp_all add: AuthMiddleware_def clean_log_def)
      then show ?thesis using keeps_log_clean_D [OF n, of ?w e w'] by simp
    qed
  qed
qed

lemma recovered_clean: "keeps_log_clean (LogErrorFuncWithRequestInfo e stack)"
  unfolding keeps_log_clean_def LogErrorFuncWithRequestInfo_def by auto

lemma lib_clean:
  assumes "lib_keeps_log_clean lib"
  shows "clean_middleware (el_Prometheus lib)" and "clean_middleware (el_RemoveTrailingSlash lib)"
    and "clean_middleware (el_RequestID lib)" and "clean_middleware (el_CORS lib)" and "clean_middleware (el_Secure lib m)"
    and "clean_middleware (el_KeyAuth lib lookup valid skip)"
    and "clean_middleware (el_Recover lib LogErrorFuncWithRequestInfo)"
    and "clean_middleware (LoggerWithConfig lib hide (router_logger cfg))"
  using assms recovered_clean logger_keeps_log_clean unfolding lib_keeps_log_clean_def clean_middleware_def by blast+

lemma when_enabled_clean: "clean_middleware m \<Longrightarrow> list_all clean_middleware (when_enabled b m)"
  by (simp add: when_enabled_def)

lemma general_middleware_clean:
  assumes "lib_keeps_log_clean lib"
  shows "list_all clean_middleware (general_middleware lib cfg)"
  unfolding general_middleware_def Let_def list_all_append
  using lib_clean [OF assms] CacheControl_clean when_enabled_clean by blast

text \<open>Every route runs middleware of these kinds and one of the handlers.\<close>

lemma route_middleware_clean:
  assumes "lib_keeps_log_clean lib" and "r \<in> set (all_routes lib et srv is_uuid4 h cfg)"
  shows "list_all clean_middleware (rt_Middleware r)" and "\<exists>name. rt_Handler r = h name"
proof -
  have mk: "clean_middleware (management_key lib cfg skip)" for skip
    unfolding management_key_def by (rule lib_clean(6) [OF assms(1)])
  note ms = mk Noop_clean NoCache_clean AuthMiddleware_clean
  have "list_all clean_middleware (rt_Middleware r) \<and> (\<exists>name. rt_Handler r = h name)"
    using assms(2) unfolding all_routes_def set_append
  proof (elim UnE)
    assume "r \<in> set (pprof_routes lib h cfg)"
    then show ?thesis using ms by (auto simp: pprof_routes_def echo_route_def Let_def split: if_splits)
  next
    assume "r \<in> set (AttachAllRoutes h (router_groups lib et srv is_uuid4 cfg))"
    then show ?thesis using ms unfolding AttachAllRoutes_def router_groups_def list.set insert_iff empty_iff
      by (elim disjE) (simp_all add: group_route_def echo_route_def, blast+)
  next
    assume "r \<in> set (metrics_routes h cfg)"
    then show ?thesis by (auto simp: metrics_routes_def echo_route_def split: if_splits)
  qed
  then show "list_all clean_middleware (rt_Middleware r)" and "\<exists>name. rt_Handler r = h name" by blast+
qed

lemma serve_route_log_clean:
  assumes "lib_keeps_log_clean lib" and "\<forall>name. keeps_log_clean (h name)"
    and "router_Init lib et is_uuid4 h o1 reg s = Inr (app, s')" and "r \<in> set (ap_Routes app)" and "clean_log w"
  shows "clean_log (serve_route lib app r w) \<and> is_auth_path (wb_request (serve_route lib app r w)) = is_auth_path (wb_request w)"
proof -
  let ?cfg = "sr_Config s"
  have app: "ap_Pre app = when_enabled (ec_EnableTrailingSlashMiddleware (sc_Echo ?cfg)) (el_RemoveTrailingSlash lib)"
    "ap_Use app = general_middleware lib ?cfg"
    "ap_Routes app = all_routes lib et (auth_server (sc_Auth ?cfg)) is_uuid4 h ?cfg"
    using assms(3) unfolding router_Init_def Let_def pure_wrap_def by (auto split: sum.splits if_splits)
  have route: "list_all clean_middleware (rt_Middleware r)" "\<exists>name. rt_Handler r = h name"
    using route_middleware_clean [OF assms(1), of r] assms(4) app(3) by metis+
  have "keeps_log_clean (run_route r)"
    unfolding run_route_def using clean_chain [OF route(1)] route(2) assms(2) by metis
  moreover have "list_all clean_middleware (ap_Pre app @ ap_Use app)"
    using general_middleware_clean [OF assms(1)] when_enabled_clean [OF lib_clean(2) [OF assms(1)]] unfolding app by simp
  ultimately have k: "keeps_log_clean (foldr (\<lambda>m h. m h) (ap_Pre app @ ap_Use app) (run_route r))"
    by (rule clean_chain [rotated])
  let ?w = "w\<lparr>wb_path := rt_Path r\<rparr>"
  obtain e v where run: "foldr (\<lambda>m h. m h) (ap_Pre app @ ap_Use app) (run_route r) ?w = (e, v)"
    by (cases "foldr (\<lambda>m h. m h) (ap_Pre app @ ap_Use app) (run_route r) ?w")
  have "clean_log ?w" using assms(5) by (simp add: clean_log_def)
  then have "clean_log v" "is_auth_path (wb_request v) = is_auth_path (wb_request w)"
    using keeps_log_clean_D [OF k _ run] by simp_all
  moreover have "answers_keep_log_clean lib" using assms(1) unfolding lib_keeps_log_clean_def by blast
  ultimately show ?thesis
    using run c_Error_clean [of lib v] unfolding serve_route_def by (cases e) simp_all
qed

text \<open>The address is logged as it is, with the management secret that it may carry; so is the query.\<close>

lemma logged_address_is_verbatim:
  assumes "request_entry cfg w = Inr (RequestReceived info body header query, req)"
  shows "li_url info = hr_URL (wb_request w)" and "lc_LogRequestQuery cfg \<Longrightarrow> query = Some (hr_Query (wb_request w))"
  using assms unfolding request_entry_def Let_def
  by (auto simp: log_info_of_def Let_def split: if_split_asm option.split_asm sum.split_asm)

section \<open>Requests without credentials\<close>

definition management_keys :: "'s web \<Rightarrow> string list" where
  "management_keys w = (case map_of (hr_Query (wb_request w)) ''mgmt-secret'' of None \<Rightarrow> [] | Some vs \<Rightarrow> vs)"

text \<open>Echo's key authentication: a skipped request is passed on, one without a valid key is not.\<close>

definition key_auth_contract :: "'s echo_lib \<Rightarrow> bool" where
  "key_auth_contract lib \<longleftrightarrow>
     (\<forall>valid skip w.
        (skip w \<longrightarrow> (\<forall>next. el_KeyAuth lib ''query:mgmt-secret'' valid skip next w = next w))
        \<and> (\<not> skip w \<and> \<not> list_ex valid (management_keys w) \<longrightarrow>
              (\<exists>e v. \<forall>next. el_KeyAuth lib ''query:mgmt-secret'' valid skip next w = (Some e, v))))"

definition open_routes :: "'tag ServerSettings \<Rightarrow> (string \<times> string) list" where
  "open_routes cfg =
     map (\<lambda>p. (''POST'', p)) public_auth_paths
     @ [(''GET'', ''/api/v1/auth/register''), (''GET'', ''/-/ready''), (''GET'', ''/swagger.yml''),
        (''GET'', ''/.well-known/assetlinks.json''), (''GET'', ''/.well-known/apple-app-site-association'')]
     @ (if mg_EnableMetrics (sc_Management cfg) then [(''GET'', ''/metrics'')] else [])
     @ (if pp_Enable (sc_Pprof cfg) \<and> \<not> pp_EnableManagementKeyAuth (sc_Pprof cfg)
        then (''GET'', ''/debug/pprof'') # map (\<lambda>m. (m, ''/debug/pprof/*'')) any_methods else [])"

definition reaches_handler :: "'s middleware list \<Rightarrow> 's web \<Rightarrow> bool" where
  "reaches_handler ms w \<longleftrightarrow> (\<exists>v. \<forall>next. foldr (\<lambda>m h. m h) ms next w = next v)"

definition turned_away :: "'s middleware list \<Rightarrow> 's web \<Rightarrow> bool" where
  "turned_away ms w \<longleftrightarrow> (\<exists>e v. \<forall>next. foldr (\<lambda>m h. m h) ms next w = (Some e, v))"

definition anonymous :: "'tag ServerSettings \<Rightarrow> 's web \<Rightarrow> bool" where
  "anonymous cfg w \<longleftrightarrow>
     mg_Secret (sc_Management cfg) \<notin> set (management_keys w) \<and> wb_user w = None
     \<and> Header_Get (hr_Header (wb_request w)) ''Authorization'' = []"

lemma authorize_anonymous:
  assumes "rq_user c = None" and "rq_header c ''Authorization'' = []"
  shows "authorize srv (DefaultAuthConfig u) c a = (Inl (EchoErr 401), a)"
    and "authorize srv (APIV1Auth_config u) c a = (if rq_path c \<in> set public_auth_paths then (Inr c, a) else (Inl (EchoErr 401), a))"
  using assms by (simp_all add: authorize_def DefaultAuthConfig_def APIV1Auth_config_def Extract_def failure_error_def)

lemma auth_group_anonymous:
  assumes "anonymous cfg w"
  shows "turned_away [AuthMiddleware et srv (DefaultAuthConfig u)] w"
    and "wb_path w \<in> set public_auth_paths \<Longrightarrow> reaches_handler [AuthMiddleware et srv (APIV1Auth_config u)] w"
    and "wb_path w \<notin> set public_auth_paths \<Longrightarrow> turned_away [AuthMiddleware et srv (APIV1Auth_config u)] w"
  using assms authorize_anonymous [of "request_of w"]
  unfolding anonymous_def turned_away_def reaches_handler_def AuthMiddleware_def
  by (auto simp: request_of_def)

lemma key_auth_D:
  assumes "key_auth_contract lib"
  shows "skip w \<Longrightarrow> el_KeyAuth lib ''query:mgmt-secret'' valid skip next w = next w"
    and "\<not> skip w \<Longrightarrow> \<not> list_ex valid (management_keys w)
      \<Longrightarrow> \<exists>e v. \<forall>next. el_KeyAuth lib ''query:mgmt-secret'' valid skip next w = (Some e, v)"
  using assms unfolding key_auth_contract_def by simp_all

lemma management_key_anonymous:
  assumes "key_auth_contract lib" and "anonymous cfg w"
  shows "skip w \<Longrightarrow> reaches_handler [management_key lib cfg skip, NoCache] w"
    and "\<not> skip w \<Longrightarrow> turned_away (management_key lib cfg skip # ms) w"
proof -
  let ?valid = "\<lambda>key. key = mg_Secret (sc_Management cfg)"
  assume s: "skip w"
  then have "\<forall>next. el_KeyAuth lib ''query:mgmt-secret'' ?valid skip next w = next w"
    using key_auth_D(1) [OF assms(1)] by blast
  then show "reaches_handler [management_key lib cfg skip, NoCache] w"
    unfolding reaches_handler_def management_key_def NoCache_def NoCacheWithConfig_def Let_def by auto
next
  let ?valid = "\<lambda>key. key = mg_Secret (sc_Management cfg)"
  assume s: "\<not> skip w"
  have "\<not> list_ex ?valid (management_keys w)" using assms(2) unfolding anonymous_def by (auto simp: list_ex_iff)
  then have "\<exists>e v. \<forall>next. el_KeyAuth lib ''query:mgmt-secret'' ?valid skip next w = (Some e, v)"
    using key_auth_D(2) [where lib = lib and skip = skip and w = w and valid = ?valid] assms(1) s by simp
  then show "turned_away (management_key lib cfg skip # ms) w"
    unfolding turned_away_def management_key_def by auto
qed

lemma plain_reaches [simp]: "reaches_handler [] w" "reaches_handler [Noop] w" "reaches_handler [NoCache] w"
  unfolding reaches_handler_def Noop_def NoCache_def NoCacheWithConfig_def Let_def by auto

section \<open>Samples\<close>

definition sample_env :: env where
  "sample_env = [''MPC_KEY_SHARE_ENCRYPTION_KEY'' \<mapsto> ''passphrase'', ''MPC_NODE_ID'' \<mapsto> ''node-1'', ''PGPASSWORD'' \<mapsto> ''pw'']"

definition sample_settings :: "env \<Rightarrow> unit ServerSettings" where
  "sample_settings env =
     \<lparr>sc_Database = database_settings env 4, sc_Echo = echo_settings env ''/views'', sc_Pprof = pprof_settings env,
      sc_Paths = \<lparr>pa_APIBaseDirAbs = ''/api'', pa_MntBaseDirAbs = ''/mnt'', pa_AppleAppSiteAssociationFile = [],
        pa_AndroidAssetlinksFile = []\<rparr>,
      sc_Auth = auth_settings env, sc_Management = management_settings env ''mgmt-pass'' ''/mnt'',
      sc_Mailer = \<lparr>ml_DefaultSender = ''a@b'', ml_Send = True, ml_WebTemplatesEmailBaseDirAbs = ''/email'', ml_Transporter = ''mock''\<rparr>,
      sc_SMTP = \<lparr>st_Host = ''mail'', st_Port = 25, st_Username = [], st_Password = ''smtp-pass'', st_AuthType = SMTPAuthTypeNone,
        st_Encryption = ''none''\<rparr>,
      sc_Frontend = \<lparr>fe_BaseURL = ''http://front'', fe_PasswordResetEndpoint = ''/reset''\<rparr>,
      sc_Logger = logger_settings (\<lambda>_. None) env,
      sc_Push = \<lparr>ps_UseFCMProvider = False, ps_UseMockProvider = True\<rparr>,
      sc_FCMConfig = \<lparr>fcm_GoogleApplicationCredentials = [], fcm_ProjectID = ''p'', fcm_ValidateOnly = True\<rparr>,
      sc_I18n = \<lparr>in_DefaultLanguage = (), in_BundleDirAbs = ''/i18n''\<rparr>,
      sc_MPC = mpc_settings env ''/shares''\<rparr>"

text \<open>Echo with middleware that passes everything on but requests without a key.\<close>

definition sample_echo :: "unit echo_lib" where
  "sample_echo =
     \<lparr>el_errors = plain_echo, el_respond = (\<lambda>code body w. (None, w\<lparr>wb_response := (wb_response w)\<lparr>hs_Status := code\<rparr>\<rparr>)),
      el_KeyAuth = (\<lambda>lookup valid skip next w. if skip w \<or> list_ex valid (management_keys w) then next w
         else (Some (WebEcho 400 (MessageString ''missing key in the query string'') None), w)),
      el_Prometheus = (\<lambda>next. next), el_RemoveTrailingSlash = (\<lambda>next. next), el_Recover = (\<lambda>_ next. next),
      el_Secure = (\<lambda>_ next. next), el_RequestID = (\<lambda>next. next), el_CORS = (\<lambda>next. next)\<rparr>"

definition sample_titles :: error_titles where
  "sample_titles = \<lparr>et_title = (\<lambda>t. (t, [])), et_status = (\<lambda>_. ''Unauthorized'')\<rparr>"

definition sample_accounts_db :: accounts where
  "sample_accounts_db =
     \<lparr>adb = \<lparr>users_t = [], profiles_t = [], access_t = [], refresh_t = [], reset_t = [], confirm_t = [], push_t = []\<rparr>,
      apending = (\<lambda>db. db), aclock = 0, afault = (\<lambda>_. None), acalls = 0, auuid = (\<lambda>_. []), auuid_n = 0,
      auuid_in = Some, apick = (\<lambda>n. 0)\<rparr>"

definition sample_web :: "string \<Rightarrow> string \<Rightarrow> unit web" where
  "sample_web method path =
     \<lparr>wb_request = \<lparr>hr_Method = method, hr_Host = ''node'', hr_URL = path, hr_Path = path, hr_Query = [],
        hr_Form = (\<lambda>_. []), hr_Header = [(''Content-Type'', [''application/json''])], hr_Body = Some (Inr ''{}''),
        hr_ctx = ctx_Background, hr_logger = None\<rparr>,
      wb_response = \<lparr>hs_Status = 200, hs_Header = [], hs_Committed = False, hs_Body = []\<rparr>,
      wb_path = path, wb_user = None, wb_token = None, wb_accounts = sample_accounts_db, wb_log = [], wb_state = ()\<rparr>"

definition sample_i18n :: "(unit, unit) i18n_lib" where
  "sample_i18n =
     \<lparr>i8_NewBundle = (\<lambda>_. ()), i8_LoadMessageFile = (\<lambda>_ b. Inr b), i8_LanguageTags = (\<lambda>_. []), i8_Und = (), i8_TagString = (\<lambda>_. ''en''),
      i8_Match = (\<lambda>_ _. ()), i8_ParseAcceptLanguage = (\<lambda>_. ([], None)), i8_Parse = (\<lambda>_. ((), None)),
      i8_Localize = (\<lambda>_ _ _. ([], None))\<rparr>"

definition sample_outside :: "(unit, unit) outside" where
  "sample_outside =
     \<lparr>ou_Open = (\<lambda>_. Inr ()), ou_Ping = (\<lambda>_. Inr ()), ou_ReadDir = (\<lambda>_. Inr []), ou_ParseGlob = (\<lambda>_. Inr ()),
      ou_Join = (\<lambda>a b. a @ ''/'' @ b), ou_NewFCM = (\<lambda>_. Inr ()), ou_i18n = sample_i18n, ou_scrypt = (\<lambda>_ _. Inr (replicate 32 7)),
      ou_NewConsul = (\<lambda>_. Inr ()), ou_RedisPing = (\<lambda>_. Inr ())\<rparr>"

definition sample_server :: "env \<Rightarrow> (unit, unit) Server" where
  "sample_server env =
     newServerWithComponents (sample_settings env) (sc_Database (sample_settings env))
       \<lparr>ma_Config = sc_Mailer (sample_settings env), ma_Transport = MockTransport, ma_Templates = []\<rparr> [(''fcm'', Mock ''fcm'')]
       \<lparr>is_bundle = (), is_matcher = []\<rparr> ''consul:8500''"

lemma sample_server_config [simp]: "sr_Config (sample_server env) = sample_settings env"
  by (simp add: sample_server_def newServerWithComponents_def Let_def)

lemma sample_key_auth: "key_auth_contract sample_echo"
  by (auto simp: key_auth_contract_def sample_echo_def)

lemma sample_echo_clean: "lib_keeps_log_clean sample_echo"
proof -
  have "answers_keep_log_clean sample_echo"
    by (simp add: answers_keep_log_clean_def sample_echo_def clean_log_def)
  moreover have "keeps_log_clean (el_KeyAuth sample_echo lookup valid skip next)" if "keeps_log_clean next" for lookup valid skip "next"
    unfolding keeps_log_clean_def
  proof (intro allI impI)
    fix w e w'
    assume clean: "clean_log w" and run: "el_KeyAuth sample_echo lookup valid skip next w = (e, w')"
    show "clean_log w' \<and> is_auth_path (wb_request w') = is_auth_path (wb_request w)"
    proof (cases "skip w \<or> list_ex valid (management_keys w)")
      case True
      then have "next w = (e, w')" using run by (simp add: sample_echo_def)
      then show ?thesis using keeps_log_clean_D [OF that clean] by blast
    next
      case False
      then show ?thesis using run clean by (simp add: sample_echo_def)
    qed
  qed
  ultimately show ?thesis unfolding lib_keeps_log_clean_def by (simp add: sample_echo_def)
qed

section \<open>What the router promises\<close>

text \<open>C5: A request without a bearer token and without the management secret reaches the handler
  of a route exactly when the route is one of the open ones: signing in and registering,
  readiness, the API description, the files under \<open>/.well-known\<close>, and metrics and profiles
  where they are switched on (profiles without key). Every other route answers with an
  error, whatever its handler does.\<close>

theorem anonymous_requests_reach_open_routes:
  assumes "key_auth_contract lib" and "r \<in> set (all_routes lib et srv is_uuid4 h cfg)"
    and "anonymous cfg w" and "wb_path w = rt_Path r"
  shows "if (rt_Method r, rt_Path r) \<in> set (open_routes cfg)
    then reaches_handler (rt_Middleware r) w else turned_away (rt_Middleware r) w"
  using assms(2) unfolding all_routes_def set_append
proof (elim UnE)
  assume "r \<in> set (pprof_routes lib h cfg)"
  then have on: "pp_Enable (sc_Pprof cfg)"
    and ms: "rt_Middleware r = [if pp_EnableManagementKeyAuth (sc_Pprof cfg) then management_key lib cfg (\<lambda>_. False) else Noop]"
    and path: "(rt_Method r, rt_Path r) \<in> set ((''GET'', ''/debug/pprof'') # map (\<lambda>m. (m, ''/debug/pprof/*'')) any_methods)"
    by (auto simp: pprof_routes_def echo_route_def Let_def split: if_splits)
  show ?thesis
  proof (cases "pp_EnableManagementKeyAuth (sc_Pprof cfg)")
    case True
    have "rt_Path r \<in> {''/debug/pprof'', ''/debug/pprof/*''}" using path by auto
    then have "(rt_Method r, rt_Path r) \<notin> set (open_routes cfg)"
      using True by (auto simp: open_routes_def public_auth_paths_def)
    then show ?thesis using management_key_anonymous(2) [OF assms(1,3), of "\<lambda>_. False" "[]"] ms True by simp
  next
    case False
    then have "(rt_Method r, rt_Path r) \<in> set (open_routes cfg)" using on path by (auto simp: open_routes_def)
    then show ?thesis using ms False by simp
  qed
next
  assume "r \<in> set (AttachAllRoutes h (router_groups lib et srv is_uuid4 cfg))"
  then show ?thesis
    using auth_group_anonymous [OF assms(3)] management_key_anonymous [OF assms(1,3), of "\<lambda>w. wb_path w = ''/-/ready''"] assms(4)
    unfolding AttachAllRoutes_def router_groups_def list.set insert_iff empty_iff
    by (elim disjE) (simp_all add: group_route_def echo_route_def open_routes_def public_auth_paths_def image_iff)
next
  assume "r \<in> set (metrics_routes h cfg)"
  then show ?thesis by (auto simp: metrics_routes_def echo_route_def open_routes_def split: if_splits)
qed

theorem anonymous_requests_reach_open_routes_witness:
  "turned_away [AuthMiddleware sample_titles (auth_server (auth_settings sample_env)) (DefaultAuthConfig (\<lambda>_. True))]
     (sample_web ''POST'' ''/api/v1/mpc/sign'')"
proof -
  let ?r = "group_route (ro_APIV1MPC (router_groups sample_echo sample_titles (auth_server (auth_settings sample_env)) (\<lambda>_. True)
      (sample_settings sample_env))) ''POST'' ''/sign'' (\<lambda>w. (None, w))"
  have mem: "?r \<in> set (all_routes sample_echo sample_titles (auth_server (auth_settings sample_env)) (\<lambda>_. True)
      (\<lambda>_ w. (None, w)) (sample_settings sample_env))"
    unfolding all_routes_def AttachAllRoutes_def by simp
  have "anonymous (sample_settings sample_env) (sample_web ''POST'' ''/api/v1/mpc/sign'')"
    by (simp add: anonymous_def sample_web_def management_keys_def Header_Get_def CanonicalHeaderKey_def token_char_def
        upper_char_def lower_char_def)
  moreover have "wb_path (sample_web ''POST'' ''/api/v1/mpc/sign'') = rt_Path ?r"
    by (simp add: sample_web_def group_route_def router_groups_def)
  ultimately show ?thesis
    using anonymous_requests_reach_open_routes [OF sample_key_auth mem, of "sample_web ''POST'' ''/api/v1/mpc/sign''"]
    by (simp add: group_route_def router_groups_def open_routes_def public_auth_paths_def image_iff)
qed



end
