(* ===== verification/UtilityFacts.thy ===== *)
theory UtilityFacts
  imports Utilities
begin

text \<open>
  Facts about the utilities: numbers printed in decimal are read again, the loop of
  \<open>GenerateRandomString\<close> takes the first allowed bytes of its source, \<open>ContainsAll\<close> looks for
  subsequences, what the slices, maps and cache directives hold, and that the management
  secret is made once and never empty.
\<close>

section \<open>Numbers of the environment\<close>

lemma digit_value_digit_char: "d < 10 \<Longrightarrow> digit_value (digit_char d) = Some (int d)"
proof -
  assume "d < 10"
  then have "(of_char (char_of (48 + d)) :: nat) = 48 + d"
    by simp
  then have "(of_char (char_of (48 + d)) :: int) = 48 + int d"
    by (metis of_nat_add of_nat_numeral of_nat_of_char)
  with \<open>d < 10\<close> show ?thesis
    by (simp add: digit_value_def digit_char_def Let_def)
qed

lemma digits_value_append:
  "digits_value acc (s @ t) = (case digits_value acc s of None \<Rightarrow> None | Some v \<Rightarrow> digits_value v t)"
  by (induction acc s rule: digits_value.induct) (auto split: option.splits)

lemma digits_value_nat_digits: "digits_value 0 (nat_digits n) = Some (int n)"
proof (induction n rule: nat_digits.induct)
  case (1 n)
  show ?case
  proof (cases "n < 10")
    case True
    then show ?thesis by (simp add: nat_digits.simps [of n] digit_value_digit_char)
  next
    case False
    then have "digits_value 0 (nat_digits (n div 10)) = Some (int (n div 10))"
      using 1 by simp
    moreover have "10 * int (n div 10) + int (n mod 10) = int n"
      by presburger
    ultimately show ?thesis
      using False by (simp add: nat_digits.simps [of n] digits_value_append digit_value_digit_char)
  qed
qed

lemma nat_digits_head: "\<exists>c cs. nat_digits n = c # cs \<and> c \<noteq> CHR ''-'' \<and> c \<noteq> CHR ''+''"
proof -
  obtain c cs where eq: "nat_digits n = c # cs"
    using nat_digits_Cons [of n] by (cases "nat_digits n") auto
  have "is_digit c"
    using nat_digits_digits [of n] by (unfold eq, simp)
  then have "c \<noteq> CHR ''-'' \<and> c \<noteq> CHR ''+''"
    by (auto simp: is_digit_def)
  with eq show ?thesis by blast
qed

lemma Atoi_itoa: "- (2 ^ 63) \<le> i \<Longrightarrow> i < 2 ^ 63 \<Longrightarrow> Atoi (itoa i) = Some i"
proof (cases "i < 0")
  case True
  assume "- (2 ^ 63) \<le> i"
  with True show ?thesis
    by (simp add: Atoi_def itoa_def digits_value_nat_digits nat_digits_Cons)
next
  case False
  assume "i < 2 ^ 63"
  moreover obtain c cs where "nat_digits (nat i) = c # cs" "c \<noteq> CHR ''-''" "c \<noteq> CHR ''+''"
    using nat_digits_head by blast
  moreover from this have "digits_value 0 (c # cs) = Some i"
    using digits_value_nat_digits [of "nat i"] False by simp
  ultimately show ?thesis
    using False by (simp add: Atoi_def itoa_def del: digits_value.simps)
qed

lemma GetEnvAsInt_itoa:
  "env key = Some (itoa i) \<Longrightarrow> - (2 ^ 63) \<le> i \<Longrightarrow> i < 2 ^ 63 \<Longrightarrow> GetEnvAsInt env key d = i"
  by (simp add: GetEnvAsInt_def GetEnv_def Atoi_itoa)

lemma Atoi_Nil [simp]: "Atoi [] = None"
  by (simp add: Atoi_def)

lemma ParseBool_Nil [simp]: "ParseBool [] = None"
  by (simp add: ParseBool_def)

lemma unset_variable [simp]:
  assumes "env key = None"
  shows "GetEnv env key d = d" and "GetEnvAsInt env key n = n" and "GetEnvAsBool env key b = b"
    and "GetEnvAsStringArr env key xs sep = xs"
  using assms
  by (simp_all add: GetEnv_def GetEnvAsInt_def GetEnvAsBool_def GetEnvAsStringArr_def)

section \<open>Random strings\<close>

lemma take_valid_eq:
  "int (length str) < n \<Longrightarrow> take_valid ok n str buf = take (nat n) (str @ filter ok buf)"
proof (induction ok n str buf rule: take_valid.induct)
  case (1 ok n str)
  then show ?case by simp
next
  case (2 ok n str b buf)
  then show ?case
    by (auto simp: Let_def nat_less_iff take_Cons' not_less le_nat_iff)
qed

definition tape_after :: "random \<Rightarrow> nat \<Rightarrow> byte list" where
  "tape_after r m = map (rn_tape r) [rn_pos r ..< m]"

lemma tape_after_split:
  "rn_pos r + k \<le> m \<Longrightarrow> tape_after r m = map (rn_tape r) [rn_pos r ..< rn_pos r + k] @ map (rn_tape r) [rn_pos r + k ..< m]"
  using upt_add_eq_append [of "rn_pos r" "rn_pos r + k" "m - (rn_pos r + k)"]
  by (simp add: tape_after_def flip: map_append)

lemma tape_after_mono: "m \<le> m' \<Longrightarrow> \<exists>zs. tape_after r m' = tape_after r m @ zs"
proof -
  assume "m \<le> m'"
  then have "[rn_pos r ..< m'] = [rn_pos r ..< m] @ [max (rn_pos r) m ..< m']"
    by (metis le_iff_add max_def nle_le upt_add_eq_append upt_conv_Nil append_Nil append_Nil2)
  then show ?thesis by (auto simp: tape_after_def)
qed

lemma take_filter_tape:
  assumes "n \<le> length (s @ filter ok (tape_after r m))" and "n \<le> length (s @ filter ok (tape_after r m'))"
  shows "take n (s @ filter ok (tape_after r m)) = take n (s @ filter ok (tape_after r m'))"
proof -
  obtain a b where ab: "a \<le> b" "{a, b} = {m, m'}"
    by (metis insert_commute nle_le)
  moreover obtain zs where "tape_after r b = tape_after r a @ zs"
    using tape_after_mono [OF ab(1)] by blast
  ultimately show ?thesis
    using assms by (auto simp: doubleton_eq_iff)
qed

lemma random_loop_stop: "\<not> int (length str) < n \<Longrightarrow> random_loop ok n str r = Some (Inr str, r)"
  by (subst random_loop.simps) simp

text \<open>The loop from any state: enough allowed bytes before \<open>m\<close>, and it returns the first of them.\<close>

lemma random_loop_returns:
  assumes "\<forall>k. rn_fault r k = None" and "int (length str) < n"
    and "nat n \<le> length (str @ filter ok (tape_after r m))"
  shows "\<exists>r'. random_loop ok n str r = Some (Inr (take (nat n) (str @ filter ok (tape_after r m))), r')"
  using assms
proof (induction "m - rn_pos r" arbitrary: r str rule: less_induct)
  case less
  let ?r = "r\<lparr>rn_pos := rn_pos r + nat n, rn_reads := Suc (rn_reads r)\<rparr>"
  let ?chunk = "tape_after r (rn_pos r + nat n)"
  let ?str = "take (nat n) (str @ filter ok ?chunk)"
  have read: "GenerateRandomBytes n r = (Inr ?chunk, ?r)"
    using less.prems(1,2) by (simp add: GenerateRandomBytes_def tape_after_def)
  have loop: "random_loop ok n str r = random_loop ok n ?str ?r"
    using less.prems(2) by (subst random_loop.simps) (simp add: read take_valid_eq)
  show ?case
  proof (cases "nat n \<le> length (str @ filter ok ?chunk)")
    case True
    then have "\<not> int (length ?str) < n"
      by simp
    then have "random_loop ok n ?str ?r = Some (Inr ?str, ?r)"
      by (rule random_loop_stop)
    with loop take_filter_tape [OF True less.prems(3)] show ?thesis
      by simp
  next
    case False
    then have short: "?str = str @ filter ok ?chunk" and len: "int (length ?str) < n"
      by auto
    have "rn_pos r + nat n < m"
    proof (rule ccontr)
      assume "\<not> rn_pos r + nat n < m"
      then obtain zs where "?chunk = tape_after r m @ zs"
        using tape_after_mono [of m "rn_pos r + nat n" r] by auto
      with False less.prems(3) show False by simp
    qed
    then have split: "tape_after r m = ?chunk @ tape_after ?r m"
      using tape_after_split [of r "nat n" m] by (simp add: tape_after_def)
    have "0 < n"
      using less.prems(2) by simp
    with \<open>rn_pos r + nat n < m\<close> have "m - rn_pos ?r < m - rn_pos r"
      by simp
    moreover have "nat n \<le> length (?str @ filter ok (tape_after ?r m))"
      using less.prems(3) unfolding short split by simp
    moreover have "\<forall>k. rn_fault ?r k = None"
      using less.prems(1) by simp
    ultimately have "\<exists>r'. random_loop ok n ?str ?r
        = Some (Inr (take (nat n) (?str @ filter ok (tape_after ?r m))), r')"
      using len by (intro less.hyps)
    then show ?thesis
      unfolding loop unfolding short split by simp
  qed
qed

lemma random_loop_only_if:
  assumes "random_loop ok n str r = Some y"
  shows "(\<forall>k. rn_fault r k = None) \<longrightarrow> int (length str) < n \<longrightarrow>
    (\<exists>m. nat n \<le> length (str @ filter ok (tape_after r m)))"
  using assms
proof (induction ok n str r y rule: random_loop.raw_induct [rotated, consumes 1, case_names iteration])
  case (iteration loop ok n str r y)
  show ?case
  proof (intro impI)
    assume clean: "\<forall>k. rn_fault r k = None" and short: "int (length str) < n"
    let ?r = "r\<lparr>rn_pos := rn_pos r + nat n, rn_reads := Suc (rn_reads r)\<rparr>"
    let ?chunk = "tape_after r (rn_pos r + nat n)"
    let ?str = "take (nat n) (str @ filter ok ?chunk)"
    have read: "GenerateRandomBytes n r = (Inr ?chunk, ?r)"
      using clean short by (simp add: GenerateRandomBytes_def tape_after_def)
    show "\<exists>m. nat n \<le> length (str @ filter ok (tape_after r m))"
    proof (cases "int (length ?str) < n")
      case True
      then have eq: "?str = str @ filter ok ?chunk"
        by auto
      have step: "loop ok n ?str ?r = Some y"
        using iteration(2) short read by (simp add: take_valid_eq)
      have "\<forall>k. rn_fault ?r k = None"
        using clean by simp
      then obtain m where "nat n \<le> length (?str @ filter ok (tape_after ?r m))"
        using iteration(1) [OF step] True by blast
      moreover have "tape_after r (max m (rn_pos r + nat n)) = ?chunk @ tape_after ?r m"
        using tape_after_split [of r "nat n" "max m (rn_pos r + nat n)"]
        by (cases "m \<le> rn_pos r + nat n") (simp_all add: tape_after_def max_def)
      ultimately show ?thesis
        by (intro exI [where x = "max m (rn_pos r + nat n)"]) (unfold eq, simp)
    next
      case False
      then have "nat n \<le> length (str @ filter ok ?chunk)"
        by auto
      then show ?thesis by blast
    qed
  qed
qed

text \<open>Both directions for a source that does not fail.\<close>

lemma GenerateRandomString_eq:
  assumes "\<forall>k. rn_fault r k = None" and "0 < n" and "ranges \<noteq> [] \<or> extra \<noteq> []"
  shows "GenerateRandomString n ranges extra r = None \<longleftrightarrow>
      (\<forall>m. length (filter (validateFn ranges extra) (tape_after r m)) < nat n)"
    and "nat n \<le> length (filter (validateFn ranges extra) (tape_after r m)) \<Longrightarrow>
      \<exists>r'. GenerateRandomString n ranges extra r =
        Some (Inr (string_of_bytes (take (nat n) (filter (validateFn ranges extra) (tape_after r m)))), r')"
proof -
  let ?ok = "validateFn ranges extra"
  have only_if: "\<exists>m. nat n \<le> length (filter ?ok (tape_after r m))" if "random_loop ?ok n [] r = Some y" for y
    using random_loop_only_if [OF that] assms(1,2) by auto
  have loop: "\<exists>r'. random_loop ?ok n [] r = Some (Inr (take (nat n) (filter ?ok (tape_after r m))), r')"
    if "nat n \<le> length (filter ?ok (tape_after r m))" for m
    using random_loop_returns [of r "[]" n ?ok m] assms(1,2) that by simp
  have eq: "GenerateRandomString n ranges extra r =
      map_option (\<lambda>(x, r). (map_sum id string_of_bytes x, r)) (random_loop ?ok n [] r)"
    using assms(3) by (auto simp add: GenerateRandomString_def)
  show "GenerateRandomString n ranges extra r = None \<longleftrightarrow> (\<forall>m. length (filter ?ok (tape_after r m)) < nat n)"
  proof
    assume "GenerateRandomString n ranges extra r = None"
    then have "random_loop ?ok n [] r = None"
      by (simp add: eq)
    then show "\<forall>m. length (filter ?ok (tape_after r m)) < nat n"
      using loop by (fastforce simp: not_less [symmetric])
  next
    assume "\<forall>m. length (filter ?ok (tape_after r m)) < nat n"
    then have "random_loop ?ok n [] r = None"
      using only_if by (cases "random_loop ?ok n [] r") (auto simp: not_less [symmetric])
    then show "GenerateRandomString n ranges extra r = None"
      by (simp add: eq)
  qed
  show "\<exists>r'. GenerateRandomString n ranges extra r =
        Some (Inr (string_of_bytes (take (nat n) (filter ?ok (tape_after r m)))), r')"
    if "nat n \<le> length (filter ?ok (tape_after r m))"
    using loop [OF that] by (auto simp: eq)
qed

section \<open>ContainsAll\<close>

text \<open>One substring: the characters still to find, as the marks move on.\<close>

definition mark_ok :: "string \<Rightarrow> scan_mark \<Rightarrow> bool" where
  "mark_ok sub m \<longleftrightarrow> sub = [] \<or> sm_contains m \<or> sm_index m < length sub"

fun scan_one :: "string \<Rightarrow> string \<Rightarrow> scan_mark \<Rightarrow> scan_mark" where
  "scan_one [] sub m = m"
| "scan_one (c # cs) sub m = scan_one cs sub (the (mark_step c sub m))"

lemma mark_step_total: "mark_ok sub m \<Longrightarrow> \<exists>m'. mark_step c sub m = Some m' \<and> mark_ok sub m'"
  by (auto simp: mark_step_def mark_ok_def Let_def)

lemma mark_all_total:
  assumes "list_all2 mark_ok subs ms"
  shows "mark_all c subs ms = Some (map2 (\<lambda>sub m. the (mark_step c sub m)) subs ms)
    \<and> list_all2 mark_ok subs (map2 (\<lambda>sub m. the (mark_step c sub m)) subs ms)"
  using assms
proof (induction rule: list_all2_induct)
  case Nil
  show ?case by simp
next
  case (Cons sub subs m ms)
  then show ?case
    using mark_step_total [of sub m c] by auto
qed

lemma map2_map2_right: "map2 f xs (map2 g xs ys) = map2 (\<lambda>x y. f x (g x y)) xs ys"
proof (induction xs arbitrary: ys)
  case (Cons x xs)
  then show ?case by (cases ys) simp_all
qed simp

lemma mark_text_total:
  "list_all2 mark_ok subs ms \<Longrightarrow> mark_text cs subs ms = Some (map2 (scan_one cs) subs ms)"
proof (induction cs arbitrary: ms)
  case Nil
  then have "length subs = length ms"
    by (rule list_all2_lengthD)
  then have "map2 (scan_one []) subs ms = ms"
    by (induction subs ms rule: list_induct2) simp_all
  then show ?case by simp
next
  case (Cons c cs)
  have eq: "scan_one (c # cs) = (\<lambda>sub m. scan_one cs sub (the (mark_step c sub m)))"
    by (simp add: fun_eq_iff)
  from Cons mark_all_total [OF Cons.prems, of c] show ?case
    by (simp add: map2_map2_right eq)
qed

lemma scan_one_contains:
  "sub \<noteq> [] \<Longrightarrow> mark_ok sub m \<Longrightarrow>
     sm_contains (scan_one cs sub m) \<longleftrightarrow> sm_contains m \<or> subseq (drop (sm_index m) sub) cs"
proof (induction cs arbitrary: m)
  case Nil
  then show ?case by (auto simp: mark_ok_def)
next
  case (Cons c cs)
  show ?case
  proof (cases "sm_contains m")
    case True
    then have "mark_step c sub m = Some m"
      using Cons.prems by (simp add: mark_step_def)
    with Cons True show ?thesis by simp
  next
    case False
    with Cons.prems have less: "sm_index m < length sub"
      by (simp add: mark_ok_def)
    then have rest: "drop (sm_index m) sub = sub ! sm_index m # drop (sm_index m + 1) sub"
      by (simp add: Cons_nth_drop_Suc)
    obtain m' where m': "mark_step c sub m = Some m'" "mark_ok sub m'"
      using mark_step_total Cons.prems by blast
    have "m' = (if c = sub ! sm_index m
        then m\<lparr>sm_index := sm_index m + 1, sm_contains := sm_index m + 1 \<ge> length sub\<rparr> else m)"
      using m'(1) False less Cons.prems(1) by (auto simp: mark_step_def Let_def)
    with Cons.IH [OF Cons.prems(1) m'(2)] m'(1) False show ?thesis
      by (auto simp: rest subseq_Cons2_iff)
  qed
qed

lemma scan_one_empty: "cs \<noteq> [] \<Longrightarrow> sm_contains (scan_one cs [] m)"
proof -
  have "sm_contains m \<Longrightarrow> sm_contains (scan_one cs [] m)" for m cs
    by (induction cs arbitrary: m) (simp_all add: mark_step_def)
  then show "cs \<noteq> [] \<Longrightarrow> sm_contains (scan_one cs [] m)"
    by (cases cs) (simp_all add: mark_step_def)
qed

lemma ContainsAll_eq:
  "ContainsAll str subs =
     Some (\<forall>sub \<in> set subs. if sub = [] then str \<noteq> [] else subseq sub str)"
proof -
  let ?m = "\<lparr>sm_contains = False, sm_index = 0\<rparr>"
  have "list_all2 mark_ok subs (map (\<lambda>_. ?m) subs)"
    by (simp add: list_all2_conv_all_nth mark_ok_def)
  then have "mark_text str subs (map (\<lambda>_. ?m) subs) = Some (map (\<lambda>sub. scan_one str sub ?m) subs)"
    by (simp add: mark_text_total zip_map2 zip_same_conv_map comp_def)
  moreover have "sm_contains (scan_one str sub ?m) = (if sub = [] then str \<noteq> [] else subseq sub str)" for sub
  proof (cases "sub = []")
    case True
    then show ?thesis
      using scan_one_empty [of str ?m] by (cases str) auto
  next
    case False
    then show ?thesis
      by (simp add: scan_one_contains mark_ok_def)
  qed
  ultimately show ?thesis
    by (simp add: ContainsAll_def list_all_iff)
qed

section \<open>Slices, maps and cache directives\<close>

lemma mark_seen_eq:
  "mark_seen vs m v = (if m v \<noteq> None \<and> v \<in> set vs then Some True else m v)"
  by (induction vs arbitrary: m) auto

lemma ContainsAllString_iff: "ContainsAllString xs sub \<longleftrightarrow> set sub \<subseteq> set xs"
  by (auto simp: ContainsAllString_def mark_seen_eq)

lemma unique_from_eq:
  "unique_from seen res ss = res @ rev (remdups (rev (filter (\<lambda>s. s \<notin> set seen) ss)))"
proof (induction seen res ss rule: unique_from.induct)
  case (1 seen res)
  show ?case by simp
next
  case (2 seen res s ss)
  have later: "rev (remdups (rev (s # xs))) = s # rev (remdups (rev (filter (\<lambda>x. x \<noteq> s) xs)))" for xs :: "string list"
  proof -
    have "remdups (ys @ [s]) = remdups (filter (\<lambda>x. x \<noteq> s) ys) @ [s]" for ys :: "string list"
      by (induction ys) auto
    then show ?thesis by (simp add: rev_filter)
  qed
  have conj: "filter (\<lambda>x. x \<noteq> s \<and> x \<notin> set seen) ss = filter (\<lambda>x. x \<noteq> s) (filter (\<lambda>x. x \<notin> set seen) ss)"
    by (simp add: conj_commute)
  show ?case
    using 2 by (simp add: later conj del: filter_filter rev.simps)
qed

lemma UniqueString_eq: "UniqueString xs = rev (remdups (rev xs))"
  by (simp add: UniqueString_def unique_from_eq)

lemma MergeStringMap_keeps: "base k = Some v \<Longrightarrow> MergeStringMap base m k = Some v"
  by (simp add: MergeStringMap_def)

unbundle bit_operations_syntax

lemma parse_directives_has:
  "HasDirective (parse_directives res dirs) d \<longleftrightarrow>
     HasDirective res d \<or> (\<exists>x \<in> set dirs. HasDirective (ParseCacheControlDirective x) d)"
proof (induction res dirs rule: parse_directives.induct)
  case (1 res)
  show ?case by simp
next
  case (2 res x dirs)
  have "HasDirective (a OR b) d \<longleftrightarrow> HasDirective a d \<or> HasDirective b d" for a b
  proof -
    have "(a OR b) AND d = (a AND d) OR (b AND d)"
      by (simp add: bit.conj_disj_distrib2)
    then show ?thesis by (auto simp: HasDirective_def or_eq_0_iff)
  qed
  with 2 show ?case by simp
qed

text \<open>The pieces between the commas are not trimmed.\<close>

lemma header_no_store_iff:
  "HasDirective (ParseCacheControlHeader val) CacheControlDirectiveNoStore \<longleftrightarrow>
     (\<exists>piece \<in> set (Split (CHR '','') val). ToLower (hd (Split (CHR ''='') piece)) = ''no-store'')"
proof -
  have "HasDirective (ParseCacheControlDirective x) CacheControlDirectiveNoStore \<longleftrightarrow>
      ToLower (hd (Split (CHR ''='') x)) = ''no-store''" for x
    by (auto simp add: ParseCacheControlDirective_def HasDirective_def CacheControlDirectiveNoCache_def
        CacheControlDirectiveNoStore_def Let_def)
  moreover have "\<not> HasDirective 0 d" for d
    by (simp add: HasDirective_def)
  ultimately show ?thesis
    by (simp add: ParseCacheControlHeader_def parse_directives_has)
qed

section \<open>The management secret\<close>

text \<open>What a process holds: nothing yet, or a secret of 32 hexadecimal digits that stays.\<close>

definition secret_ok :: "secret_once \<Rightarrow> bool" where
  "secret_ok g \<longleftrightarrow> so_done g \<longrightarrow> length (so_secret g) = 32"

lemma GetMgmtSecret_cases:
  assumes "GetMgmtSecret env k g = (Inr s, g')" and "secret_ok g"
  shows "s \<noteq> [] \<and> secret_ok g' \<and> (env k \<noteq> Some s \<longrightarrow> length s = 32 \<and> GetMgmtSecret env k g' = (Inr s, g'))"
  using assms
  by (auto simp: GetMgmtSecret_def GetEnv_def secret_ok_def Let_def GenerateRandomHexString_def
      GenerateRandomBytes_def split: option.splits if_splits)

end
