(* ===== verification/ServerProps.thy ===== *)
theory ServerProps
  imports Commands WebProps UtilityFacts DkgProps
begin

text \<open>
  What holds of a node as a whole: which settings let it come up, what its connections are
  protected by, what it leaves behind when it stops or fails to start, what its
  health checks mean, and what the command \<open>env\<close> prints.
\<close>

section \<open>Connections between nodes\<close>

text \<open>C15: Neither end of a connection between nodes is ever given a certificate. Where TLS is
  switched on, the gRPC server drops the error of the missing files and listens without
  credentials, and a client without connections never makes one and stays as it is; where it
  is switched off, the client asks for no credentials. (A file with an empty name does not load.)\<close>

theorem no_configuration_encrypts:
  assumes "pl_loadKeyPair pl [] [] = Inl e1" and "ce_loadCA env [] = Inl e2"
    and "grpc_Start pl (NewGRPCServer m) g = (Inr (), g')"
    and "gc_cfg c = gc_cfg (NewGRPCClient m)" and "gc_clients c = []"
  shows "(\<exists>opts. gp_options g' = Some opts \<and> (\<forall>cert key. Creds cert key \<notin> set opts))
    \<and> (if mp_TLSEnabled m then \<exists>e s'. getOrCreateConnection env nodeID (c, s) = (Inl e, c, s')
       else \<exists>opts. dial_options env (gc_cfg c) = Inr opts \<and> do_credentials opts = InsecureCredentials)"
proof (intro conjI)
  show "\<exists>opts. gp_options g' = Some opts \<and> (\<forall>cert key. Creds cert key \<notin> set opts)"
    using assms(1,3) by (auto simp: grpc_Start_def NewGRPCServer_def GetServerOptions_def Let_def pure_wrap_def
        split: sum.splits if_splits)
  have cfg: "cc_TLSEnabled (gc_cfg c) = mp_TLSEnabled m" "cc_TLSCACertFile (gc_cfg c) = []"
    using assms(4) by (simp_all add: NewGRPCClient_def)
  show "if mp_TLSEnabled m then \<exists>e s'. getOrCreateConnection env nodeID (c, s) = (Inl e, c, s')
       else \<exists>opts. dial_options env (gc_cfg c) = Inr opts \<and> do_credentials opts = InsecureCredentials"
  proof (cases "mp_TLSEnabled m")
    case True
    then have "\<exists>e. dial_options env (gc_cfg c) = Inl e" using cfg assms(2) by (simp add: dial_options_def)
    then have "\<exists>e s'. getOrCreateConnection env nodeID (c, s) = (Inl e, c, s')"
      using assms(5) by (auto simp: getOrCreateConnection_def split: prod.split sum.split)
    with True show ?thesis by simp
  next
    case False
    then show ?thesis using cfg by (simp add: dial_options_def)
  qed
qed

definition sample_platform :: "(string \<Rightarrow> err + unit) \<Rightarrow> string list platform" where
  "sample_platform echo_start =
     \<lparr>pl_consul = \<lparr>ca_register = (\<lambda>reg c. (Inr (), ar_ID reg # c)), ca_deregister = (\<lambda>i c. (Inr (), removeAll i c))\<rparr>,
      pl_loadKeyPair = (\<lambda>cert key. if cert = [] then Inl (Err ''open : no such file or directory'') else Inr ()),
      pl_Listen = (\<lambda>_. Inr ()), pl_EchoStart = echo_start, pl_EchoShutdown = None, pl_DBClose = None\<rparr>"

lemma sample_TLS: "mp_TLSEnabled (mpc_settings sample_env d)"
  by (simp add: mpc_settings_def GetEnvAsBool_def GetEnv_def sample_env_def ParseBool_def)

theorem no_configuration_encrypts_witness:
  "\<exists>e s'. getOrCreateConnection (toy_client_env\<lparr>ce_loadCA := (\<lambda>f. if f = [] then Inl (Err ''open'') else Inr ())\<rparr>) ''n2''
       (NewGRPCClient (mpc_settings sample_env ''/shares''), toy_state) = (Inl e, NewGRPCClient (mpc_settings sample_env ''/shares''), s')"
proof -
  let ?m = "mpc_settings sample_env ''/shares''" and ?pl = "sample_platform (\<lambda>_. Inr ())"
  let ?env = "toy_client_env\<lparr>ce_loadCA := (\<lambda>f. if f = [] then Inl (Err ''open'') else Inr ())\<rparr>"
  let ?g = "\<lparr>gp_options = None, gp_listening = False, gp_pending = True\<rparr>"
  have load: "pl_loadKeyPair ?pl [] [] = Inl (Err ''open : no such file or directory'')" "ce_loadCA ?env [] = Inl (Err ''open'')"
    by (simp_all add: sample_platform_def)
  obtain g' where g': "grpc_Start ?pl (NewGRPCServer ?m) ?g = (Inr (), g')" by (simp add: grpc_Start_def sample_platform_def)
  have c: "gc_clients (NewGRPCClient ?m) = []" by (simp add: NewGRPCClient_def)
  show ?thesis using no_configuration_encrypts [OF load g' HOL.refl c, of "''n2''" toy_state] sample_TLS [of "''/shares''"] by simp
qed

section \<open>Coming up\<close>

text \<open>What the settings must hold, and what comes out of the providers.\<close>

lemma InitNewServer_Inr:
  assumes "InitNewServer o1 cfg fs = (Inr s, fs')"
  obtains db mail pusher i18n discovery where "s = newServerWithComponents cfg db mail pusher i18n discovery"
    and "mp_KeyShareStoragePath (sc_MPC cfg) \<noteq> []" and "mp_KeyShareEncryptionKey (sc_MPC cfg) \<noteq> []"
    and "mp_RedisEndpoint (sc_MPC cfg) \<noteq> []"
proof -
  obtain db where db: "NewDB o1 (sc_Database cfg) = Inr db" using assms unfolding InitNewServer_def by (auto split: sum.splits)
  obtain mail where mail: "NewMailer o1 (sc_Mailer cfg) (sc_SMTP cfg) = Inr mail"
    using assms unfolding InitNewServer_def db by (auto split: sum.splits)
  obtain pusher where push: "NewPush o1 cfg = Inr pusher"
    using assms unfolding InitNewServer_def db mail by (auto split: sum.splits)
  obtain i18n where i18n: "i18n_New (ou_i18n o1) (ou_Join o1) (ou_ReadDir o1) (sc_I18n cfg) = Inr i18n"
    using assms unfolding InitNewServer_def db mail push by (auto split: sum.splits)
  obtain shares fs1 where sh: "NewKeyShareStorage o1 (sc_MPC cfg) fs = (Inr shares, fs1)"
    using assms unfolding InitNewServer_def db mail push i18n by (auto split: sum.splits prod.splits)
  obtain d where d: "NewMPCDiscoveryService o1 (sc_MPC cfg) = Inr d"
    using assms unfolding InitNewServer_def db mail push i18n sh by (auto split: sum.splits)
  obtain redis where redis: "NewRedisClient o1 (sc_MPC cfg) = Inr redis"
    using assms unfolding InitNewServer_def db mail push i18n sh d by (auto split: sum.splits)
  have "s = newServerWithComponents cfg db mail pusher i18n d"
    using assms unfolding InitNewServer_def db mail push i18n sh d redis by simp
  moreover have "mp_KeyShareStoragePath (sc_MPC cfg) \<noteq> []" "mp_KeyShareEncryptionKey (sc_MPC cfg) \<noteq> []"
    using sh unfolding NewKeyShareStorage_def by (auto split: if_splits)
  moreover have "mp_RedisEndpoint (sc_MPC cfg) \<noteq> []" using redis unfolding NewRedisClient_def by (auto split: if_splits)
  ultimately show ?thesis by (rule that)
qed

lemma router_Init_Inr:
  assumes "router_Init lib et u h o1 reg s = Inr (app, s')"
  shows "s' = s\<lparr>sr_Echo := Some (ec_ListenAddress (sc_Echo (sr_Config s))), sr_Router := True\<rparr>"
  using assms unfolding router_Init_def Let_def pure_wrap_def by (auto split: sum.splits)

lemma new_server_ready:
  "\<not> Ready (newServerWithComponents cfg db mail pusher i18n discovery)"
  "Ready ((newServerWithComponents cfg db mail pusher i18n discovery)\<lparr>sr_Echo := Some a, sr_Router := True\<rparr>)"
  by (simp_all add: Ready_def uninitialized_def newServerWithComponents_def Let_def)

text \<open>C24: A server comes up only with a passphrase and a directory for the key shares and an
  address of Redis, none of which but the passphrase has a default that is empty; the
  generated constructor alone leaves it not ready, and after the router's \<open>Init\<close> it
  is ready, with the settings it was made with. Without a node id its coordinator and its
  participant act as the empty id while engine, client and server act as \<open>default-node\<close>.\<close>

theorem server_becomes_ready:
  assumes "InitNewServer o1 cfg fs = (Inr s, fs')" and "router_Init lib et u h o1 reg s = Inr (app, s')"
  shows "mp_KeyShareEncryptionKey (sc_MPC cfg) \<noteq> [] \<and> mp_KeyShareStoragePath (sc_MPC cfg) \<noteq> [] \<and> mp_RedisEndpoint (sc_MPC cfg) \<noteq> []
    \<and> \<not> Ready s \<and> Ready s' \<and> sr_Config s' = cfg
    \<and> map_option ec_thisNodeID (sr_KeyService s') = Some (node_or_default (sc_MPC cfg))
    \<and> map_option snd (sr_MPCGRPCServer s') = Some (node_or_default (sc_MPC cfg))
    \<and> map_option (gc_thisNodeID \<circ> fst) (sr_MPCGRPCClient s') = Some (node_or_default (sc_MPC cfg))
    \<and> sr_CoordinatorService s' = Some (mp_NodeID (sc_MPC cfg)) \<and> sr_ParticipantService s' = Some (mp_NodeID (sc_MPC cfg))"
proof -
  obtain db mail pusher i18n discovery where s: "s = newServerWithComponents cfg db mail pusher i18n discovery"
    and cfg: "mp_KeyShareStoragePath (sc_MPC cfg) \<noteq> []" "mp_KeyShareEncryptionKey (sc_MPC cfg) \<noteq> []" "mp_RedisEndpoint (sc_MPC cfg) \<noteq> []"
    by (rule InitNewServer_Inr [OF assms(1)])
  have s': "s' = s\<lparr>sr_Echo := Some (ec_ListenAddress (sc_Echo (sr_Config s))), sr_Router := True\<rparr>"
    by (rule router_Init_Inr [OF assms(2)])
  have ready: "\<not> Ready s" "Ready s'" unfolding s' s by (simp_all add: new_server_ready)
  show ?thesis using cfg ready unfolding s' s
    by (simp add: newServerWithComponents_def Let_def NewProtocolEngine_def NewGRPCClient_def)
qed

text \<open>In an environment that does not name the passphrase no server comes up.\<close>

lemma default_environment_starts_no_server:
  assumes "env ''MPC_KEY_SHARE_ENCRYPTION_KEY'' = None" and "sc_MPC cfg = mpc_settings env shares"
  shows "\<exists>e fs'. InitNewServer o1 cfg fs = (Inl e, fs')"
proof -
  obtain r fs' where r: "InitNewServer o1 cfg fs = (r, fs')" by (cases "InitNewServer o1 cfg fs")
  show ?thesis
  proof (cases r)
    case (Inr s)
    then have "mp_KeyShareEncryptionKey (sc_MPC cfg) \<noteq> []"
      using InitNewServer_Inr r by metis
    then show ?thesis using assms by (simp add: mpc_settings_def GetEnv_def)
  qed (use r in blast)
qed

lemma sample_shares:
  obtains sh fs' where "NewKeyShareStorage sample_outside (sc_MPC (sample_settings sample_env)) (toy_fs (\<lambda>_. None)) = (Inr sh, fs')"
proof -
  have m: "mp_KeyShareStoragePath (sc_MPC (sample_settings sample_env)) = ''/shares''"
    "mp_KeyShareEncryptionKey (sc_MPC (sample_settings sample_env)) = ''passphrase''"
    by (simp_all add: sample_settings_def mpc_settings_def GetEnv_def sample_env_def)
  have "map_sum (\<lambda>e. e) (\<lambda>_. ()) (fst (os_MkdirAll (filepath_Join [''/shares'']) (toy_fs (\<lambda>_. None)))) = Inr ()"
    by code_simp
  then obtain x fs' where "os_MkdirAll (filepath_Join [''/shares'']) (toy_fs (\<lambda>_. None)) = (Inr x, fs')"
    by (cases "os_MkdirAll (filepath_Join [''/shares'']) (toy_fs (\<lambda>_. None))"; cases "fst (os_MkdirAll (filepath_Join [''/shares'']) (toy_fs (\<lambda>_. None)))") auto
  then show ?thesis using that by (simp add: NewKeyShareStorage_def m NewFileSystemKeyShareStorage_def sample_outside_def or_wrap_def)
qed

lemma sample_server_made:
  obtains s fs' where "InitNewServer sample_outside (sample_settings sample_env) (toy_fs (\<lambda>_. None)) = (Inr s, fs')"
proof -
  let ?cfg = "sample_settings sample_env"
  have env: "mp_RedisEndpoint (sc_MPC ?cfg) = ''localhost:6379''"
    by (simp add: sample_settings_def mpc_settings_def GetEnv_def sample_env_def)
  have redis: "NewRedisClient sample_outside (sc_MPC ?cfg) = Inr ''localhost:6379''"
    by (simp add: NewRedisClient_def env sample_outside_def)
  have db: "NewDB sample_outside (sc_Database ?cfg) = Inr (sc_Database ?cfg)" by (simp add: NewDB_def sample_outside_def)
  have mail: "\<exists>mail. NewMailer sample_outside (sc_Mailer ?cfg) (sc_SMTP ?cfg) = Inr mail"
    by (simp add: NewMailer_def ParseTemplates_def sample_outside_def sample_settings_def)
  have push: "\<exists>p. NewPush sample_outside ?cfg = Inr p" by (simp add: NewPush_def sample_settings_def)
  have i18n: "\<exists>i. i18n_New (ou_i18n sample_outside) (ou_Join sample_outside) (ou_ReadDir sample_outside) (sc_I18n ?cfg) = Inr i"
    by (simp add: i18n_New_def sample_outside_def sample_i18n_def)
  have d: "\<exists>d. NewMPCDiscoveryService sample_outside (sc_MPC ?cfg) = Inr d"
    by (simp add: NewMPCDiscoveryService_def sample_outside_def)
  obtain sh fs' where sh: "NewKeyShareStorage sample_outside (sc_MPC ?cfg) (toy_fs (\<lambda>_. None)) = (Inr sh, fs')"
    by (rule sample_shares)
  show ?thesis using db mail push i18n d sh redis that unfolding InitNewServer_def by auto
qed

lemma sample_router_made:
  obtains app s' where "router_Init sample_echo sample_titles (\<lambda>_. True) (\<lambda>_ w. (None, w)) sample_outside (\<lambda>_. Inr ()) s = Inr (app, s')"
  by (simp add: router_Init_def Let_def sample_outside_def RegisterMetrics_def metric_names_def)

theorem server_becomes_ready_witness:
  "\<exists>s s' app fs'. InitNewServer sample_outside (sample_settings sample_env) (toy_fs (\<lambda>_. None)) = (Inr s, fs')
    \<and> router_Init sample_echo sample_titles (\<lambda>_. True) (\<lambda>_ w. (None, w)) sample_outside (\<lambda>_. Inr ()) s = Inr (app, s') \<and> Ready s'"
proof -
  obtain s fs' where init: "InitNewServer sample_outside (sample_settings sample_env) (toy_fs (\<lambda>_. None)) = (Inr s, fs')"
    by (rule sample_server_made)
  obtain app s' where router: "router_Init sample_echo sample_titles (\<lambda>_. True) (\<lambda>_ w. (None, w)) sample_outside (\<lambda>_. Inr ()) s = Inr (app, s')"
    by (rule sample_router_made)
  show ?thesis using server_becomes_ready [OF init router] init router by blast
qed

section \<open>Going down\<close>

text \<open>What Consul knows after a start: the node, when it has an id.\<close>

lemma Start_consul:
  "Start pl srv p = (r, p') \<Longrightarrow> Ready srv \<Longrightarrow> pr_consul p' = register_self pl srv (pr_consul p)"
  by (auto simp: Start_def Let_def split: sum.splits if_splits)

lemma grpc_goroutine_consul [simp]: "pr_consul (grpc_goroutine pl srv p) = pr_consul p"
  by (simp add: grpc_goroutine_def split: option.split)

lemma router_sets_config:
  assumes "InitNewServer o1 cfg fs = (Inr s, fs')" and "router_Init lib et u h o1 reg s = Inr (app, s2)"
  shows "sr_Config s = cfg" and "sr_Config s2 = cfg" and "Ready s2" and "sr_DiscoveryService s2 \<noteq> None"
    and "sr_Echo s2 \<noteq> None" and "sr_DB s2 \<noteq> None" and "sr_MPCGRPCServer s2 \<noteq> None"
proof -
  obtain db mail pusher i18n discovery where s: "s = newServerWithComponents cfg db mail pusher i18n discovery"
    by (rule InitNewServer_Inr [OF assms(1)])
  note s2 = router_Init_Inr [OF assms(2)]
  show "sr_Config s = cfg" "sr_Config s2 = cfg" "Ready s2" "sr_DiscoveryService s2 \<noteq> None" "sr_Echo s2 \<noteq> None" "sr_DB s2 \<noteq> None" "sr_MPCGRPCServer s2 \<noteq> None"
    unfolding s2 s by (simp_all add: new_server_ready) (simp_all add: newServerWithComponents_def Let_def)
qed

text \<open>C25: A node with an id whose HTTP server cannot start (its port is taken, say) ends the process
  with a failure, without shutting anything down: what it told Consul about
  itself just before is still there, until a health check of Consul itself notices.\<close>

theorem failed_start_stays_registered:
  assumes "InitNewServer (rn_outside r) cfg fs = (Inr s, fs')"
    and "router_Init (rn_lib r) (rn_titles r) (rn_is_uuid4 r) (rn_handlers r) (rn_outside r) (rn_register r) s = Inr (app, s2)"
    and "flags = \<lparr>fl_ProbeReadiness = False, fl_ApplyMigrations = False, fl_SeedFixtures = False\<rparr>" and "rn_started r"
    and "pl_EchoStart (rn_platform r) (ec_ListenAddress (sc_Echo cfg)) = Inl e"
    and "\<not> rn_is_closed r (wrap_err ''failed to start echo server'' e)" and "mp_NodeID (sc_MPC cfg) \<noteq> []"
  shows "\<exists>p. runServer r flags cfg fs v c = (Fatal ''Failed to start server'', (v, p))
    \<and> pr_consul p = snd (ds_RegisterNode (pl_consul (rn_platform r)) c (mp_NodeID (sc_MPC cfg)) (mp_NodeType (sc_MPC cfg))
         (service_host (sc_MPC cfg)) (mp_GRPCPort (sc_MPC cfg)))"
proof -
  note s2 = router_sets_config [OF assms(1,2)]
  let ?idle = "(idle_process c)\<lparr>pr_db := True\<rparr>"
  obtain x p where start: "Start (rn_platform r) s2 ?idle = (x, p)" by (cases "Start (rn_platform r) s2 ?idle")
  have x: "x = Inl (wrap_err ''failed to start echo server'' e)"
    using start s2(2,3) assms(5) by (auto simp: Start_def Let_def)
  let ?p = "if rn_grpc r then grpc_goroutine (rn_platform r) s2 p else p"
  have consul: "pr_consul ?p = register_self (rn_platform r) s2 c"
    using Start_consul [OF start s2(3)] by (simp add: idle_process_def)
  have "until_signal r s2 (v, ?idle) = (Fatal ''Failed to start server'', (v, ?p))"
    unfolding until_signal_def using assms(4,6) start x by (simp add: Let_def)
  then have "server_body r flags s (v, ?idle) = (Fatal ''Failed to start server'', (v, ?p))"
    unfolding server_body_def assms(3) Let_def using assms(2) s2(1) by simp
  then have "runServer r flags cfg fs v c = (Fatal ''Failed to start server'', (v, ?p))"
    unfolding runServer_def WithServer_def fail_on_errors_def assms(1) by simp
  moreover have "register_self (rn_platform r) s2 c = snd (ds_RegisterNode (pl_consul (rn_platform r)) c (mp_NodeID (sc_MPC cfg))
      (mp_NodeType (sc_MPC cfg)) (service_host (sc_MPC cfg)) (mp_GRPCPort (sc_MPC cfg)))"
    using s2(2,4) assms(7) by (simp add: register_self_def Let_def)
  ultimately show ?thesis using consul by metis
qed

definition sample_surroundings :: "(string \<Rightarrow> err + unit) \<Rightarrow> (unit, unit, string list, unit) surroundings" where
  "sample_surroundings echo_start =
     \<lparr>rn_outside = sample_outside, rn_platform = sample_platform echo_start, rn_lib = sample_echo, rn_titles = sample_titles,
      rn_is_uuid4 = (\<lambda>_. True), rn_handlers = (\<lambda>_ w. (None, w)), rn_register = (\<lambda>_. Inr ()),
      rn_migrations = \<lparr>mi_Rename = Inr (), mi_Plan = Inr [], mi_ExecMax = (\<lambda>_. Inr 1)\<rparr>, rn_begin_tx = Inr (), rn_commit_tx = Inr (),
      rn_is_closed = (\<lambda>e. err_text e = ''failed to start echo server: http: Server closed''), rn_started = True, rn_grpc = True\<rparr>"

definition sample_probes :: "(nat \<Rightarrow> probe_answer) \<Rightarrow> probe_world" where
  "sample_probes answer = \<lparr>pb_clock = 0, pb_answer = answer, pb_trace = [], pb_seq = 0, pb_duration = (\<lambda>_. ''1ms'')\<rparr>"

definition no_flags :: Flags where
  "no_flags = \<lparr>fl_ProbeReadiness = False, fl_ApplyMigrations = False, fl_SeedFixtures = False\<rparr>"

lemma sample_node: "mp_NodeID (sc_MPC (sample_settings sample_env)) = ''node-1''"
    "mp_NodeType (sc_MPC (sample_settings sample_env)) = ''coordinator''"
  by (simp_all add: sample_settings_def mpc_settings_def GetEnv_def sample_env_def)

theorem failed_start_stays_registered_witness:
  "\<exists>v p. v = sample_probes (\<lambda>_. Finished 10 None) \<and> runServer (sample_surroundings (\<lambda>_. Inl (Err ''listen tcp :8080: address already in use''))) no_flags (sample_settings sample_env)
       (toy_fs (\<lambda>_. None)) v [] = (Fatal ''Failed to start server'', (v, p)) \<and> pr_consul p \<noteq> []"
proof -
  define v where "v = sample_probes (\<lambda>_. Finished 10 None)"
  let ?r = "sample_surroundings (\<lambda>_. Inl (Err ''listen tcp :8080: address already in use''))" and ?cfg = "sample_settings sample_env"
  obtain s fs' where "InitNewServer sample_outside ?cfg (toy_fs (\<lambda>_. None)) = (Inr s, fs')"
    by (rule sample_server_made)
  then have init: "InitNewServer (rn_outside ?r) ?cfg (toy_fs (\<lambda>_. None)) = (Inr s, fs')" by (simp add: sample_surroundings_def)
  obtain app s' where router: "router_Init (rn_lib ?r) (rn_titles ?r) (rn_is_uuid4 ?r) (rn_handlers ?r) (rn_outside ?r) (rn_register ?r) s = Inr (app, s')"
    by (rule sample_router_made [of s]) (simp add: sample_surroundings_def)
  have "rn_started ?r" "pl_EchoStart (rn_platform ?r) (ec_ListenAddress (sc_Echo ?cfg)) = Inl (Err ''listen tcp :8080: address already in use'')"
    "\<not> rn_is_closed ?r (wrap_err ''failed to start echo server'' (Err ''listen tcp :8080: address already in use''))"
    "mp_NodeID (sc_MPC ?cfg) \<noteq> []"
    using sample_node(1) by (simp_all add: sample_surroundings_def sample_platform_def)
  from failed_start_stays_registered [OF init router no_flags_def this, of v "[]"]
  obtain p where p: "runServer ?r no_flags ?cfg (toy_fs (\<lambda>_. None)) v [] = (Fatal ''Failed to start server'', (v, p))"
    "pr_consul p = snd (ds_RegisterNode (pl_consul (rn_platform ?r)) [] (mp_NodeID (sc_MPC ?cfg)) (mp_NodeType (sc_MPC ?cfg))
         (service_host (sc_MPC ?cfg)) (mp_GRPCPort (sc_MPC ?cfg)))" by blast
  have "pr_consul p \<noteq> []" unfolding p(2)
    by (simp add: ds_RegisterNode_def consul_Register_def or_wrap_def sample_surroundings_def sample_platform_def)
  with p(1) v_def show ?thesis by blast
qed



section \<open>Health\<close>

lemma run_call_clock:
  "run_call c d w = (x, w') \<Longrightarrow> pb_clock w \<le> pb_clock w' \<and> pb_clock w' \<le> max (pb_clock w) d"
  by (auto simp: run_call_def Let_def split: probe_answer.splits if_splits)

lemma run_call_longer:
  "run_call c d w = (Inr e, w') \<Longrightarrow> d \<le> d' \<Longrightarrow> run_call c d' w = (Inr e, w')"
  by (auto simp: run_call_def Let_def split: probe_answer.splits if_splits)

text \<open>A context that lives at least as long as another.\<close>

definition longer :: "go_context \<Rightarrow> go_context \<Rightarrow> bool" where
  "longer ctx ctx' \<longleftrightarrow>
     (\<exists>d d'. cx_deadline ctx = Some d \<and> cx_deadline ctx' = Some d' \<and> d \<le> d') \<and> cx_cancelled ctx = cx_cancelled ctx'"

lemma longer_deadline:
  "longer ctx ctx' \<Longrightarrow> ensureProbeDeadlineFromContext ctx w \<le> ensureProbeDeadlineFromContext ctx' w"
  by (auto simp: longer_def ensureProbeDeadlineFromContext_def)

lemma ctx_Err_None_iff:
  "ctx_Err ctx t = None \<longleftrightarrow> (\<forall>d. cx_deadline ctx = Some d \<longrightarrow> t < d) \<and> (\<forall>c. cx_cancelled ctx = Some c \<longrightarrow> t < c)"
  by (auto simp: ctx_Err_def Let_def split: option.splits)

lemma longer_alive: "longer ctx ctx' \<Longrightarrow> ctx_Err ctx t = None \<Longrightarrow> ctx_Err ctx' t = None"
  by (auto simp: longer_def ctx_Err_None_iff)

text \<open>A probe keeps to its deadline, and a success stays one in a longer context.\<close>

definition in_time :: "time \<Rightarrow> (probe_world \<Rightarrow> 'a \<times> probe_world) \<Rightarrow> bool" where
  "in_time d probe \<longleftrightarrow> (\<forall>w x w'. probe w = (x, w') \<longrightarrow> pb_clock w \<le> pb_clock w' \<and> pb_clock w' \<le> max (pb_clock w) d)"

definition succeeds_longer :: "(probe_world \<Rightarrow> (string \<times> err option) \<times> probe_world) \<Rightarrow> (probe_world \<Rightarrow> (string \<times> err option) \<times> probe_world) \<Rightarrow> bool" where
  "succeeds_longer probe probe' \<longleftrightarrow> (\<forall>w line w'. probe w = ((line, None), w') \<longrightarrow> probe' w = ((line, None), w'))"

lemma probe_end_clock: "pb_clock (snd (probe_end what a b f start r)) = pb_clock (snd r)"
  by (auto simp: probe_end_def split: prod.split sum.split option.split)

lemma probe_end_None:
  "probe_end what a b f start r = ((line, None), w') \<Longrightarrow> r = (Inr None, w')"
  by (auto simp: probe_end_def split: prod.splits sum.splits option.splits)

lemma probe_end_in_time:
  assumes "probe_end what a b f start (run_call c d w) = (x, w')"
  shows "pb_clock w \<le> pb_clock w' \<and> pb_clock w' \<le> max (pb_clock w) d"
proof -
  obtain y v where r: "run_call c d w = (y, v)" by (cases "run_call c d w")
  have "pb_clock w' = pb_clock v" using probe_end_clock [of what a b f start "(y, v)"] assms r by simp
  then show ?thesis using run_call_clock [OF r] by simp
qed

lemma deadline_given [simp]: "cx_deadline ctx = Some d \<Longrightarrow> ensureProbeDeadlineFromContext ctx w = d"
  by (simp add: ensureProbeDeadlineFromContext_def)

lemma ping_in_time: "cx_deadline ctx = Some d \<Longrightarrow> in_time d (probeDatabasePingable ctx)"
  unfolding in_time_def probeDatabasePingable_def using probe_end_in_time by simp

lemma sequence_in_time: "cx_deadline ctx = Some d \<Longrightarrow> in_time d (probeDatabaseNextHealthSequence ctx)"
  unfolding in_time_def probeDatabaseNextHealthSequence_def using probe_end_in_time by simp

lemma max_chain: "(a :: time) \<le> b \<and> b \<le> max a d \<Longrightarrow> b \<le> c \<and> c \<le> max b d \<Longrightarrow> a \<le> c \<and> c \<le> max a d"
  by auto

lemma path_in_time: "cx_deadline ctx = Some d \<Longrightarrow> in_time d (\<lambda>w. path_probe path what (f w) c ctx w)"
  unfolding in_time_def
proof (intro allI impI)
  fix w x w'
  assume d: "cx_deadline ctx = Some d" and run: "path_probe path what (f w) c ctx w = (x, w')"
  show "pb_clock w \<le> pb_clock w' \<and> pb_clock w' \<le> max (pb_clock w) d"
  proof (cases "ctx_Err ctx (pb_clock w)")
    case None
    then show ?thesis using run probe_end_in_time d unfolding path_probe_def Let_def by simp
  qed (use run in \<open>auto simp: path_probe_def Let_def\<close>)
qed

lemma ping_longer: "longer ctx ctx' \<Longrightarrow> succeeds_longer (probeDatabasePingable ctx) (probeDatabasePingable ctx')"
  unfolding succeeds_longer_def
proof (intro allI impI)
  fix w line w'
  assume l: "longer ctx ctx'" and run: "probeDatabasePingable ctx w = ((line, None), w')"
  have "run_call PingDB (ensureProbeDeadlineFromContext ctx w) w = (Inr None, w')"
    by (rule probe_end_None) (use run in \<open>simp add: probeDatabasePingable_def\<close>)
  moreover from this have "run_call PingDB (ensureProbeDeadlineFromContext ctx' w) w = (Inr None, w')"
    by (rule run_call_longer [OF _ longer_deadline [OF l]])
  ultimately show "probeDatabasePingable ctx' w = ((line, None), w')" using run unfolding probeDatabasePingable_def by simp
qed

lemma path_longer: "longer ctx ctx' \<Longrightarrow> succeeds_longer (path_probe path what f c ctx) (path_probe path what f c ctx')"
  unfolding succeeds_longer_def
proof (intro allI impI)
  fix w line w'
  assume l: "longer ctx ctx'" and run: "path_probe path what f c ctx w = ((line, None), w')"
  have alive: "ctx_Err ctx (pb_clock w) = None" using run by (auto simp: path_probe_def Let_def split: option.splits)
  have "run_call c (ensureProbeDeadlineFromContext ctx w) w = (Inr None, w')"
    by (rule probe_end_None) (use run alive in \<open>simp add: path_probe_def Let_def\<close>)
  moreover from this have "run_call c (ensureProbeDeadlineFromContext ctx' w) w = (Inr None, w')"
    by (rule run_call_longer [OF _ longer_deadline [OF l]])
  ultimately show "path_probe path what f c ctx' w = ((line, None), w')"
    using run alive longer_alive [OF l alive] unfolding path_probe_def Let_def by simp
qed

lemma paths_in_time: "(\<And>p. in_time d (probe p)) \<Longrightarrow> in_time d (probe_paths probe ps)"
proof (induction ps)
  case Nil
  then show ?case by (simp add: in_time_def)
next
  case (Cons p ps)
  show ?case unfolding in_time_def
  proof (intro allI impI)
    fix w x w'
    assume run: "probe_paths probe (p # ps) w = (x, w')"
    obtain a w1 where one: "probe p w = (a, w1)" by (cases "probe p w")
    obtain b w2 where two: "probe_paths probe ps w1 = (b, w2)" by (cases "probe_paths probe ps w1")
    have "w' = w2" using run one two by (auto split: prod.splits)
    then show "pb_clock w \<le> pb_clock w' \<and> pb_clock w' \<le> max (pb_clock w) d"
      using max_chain [OF Cons.prems [of p, unfolded in_time_def, rule_format, OF one] Cons.IH [OF Cons.prems, unfolded in_time_def, rule_format, OF two]]
      by simp
  qed
qed

lemma db_then_paths_in_time:
  assumes "in_time d db" and "\<And>p. in_time d (probe p)"
  shows "in_time d (db_then_paths db probe ps)"
  unfolding in_time_def
proof (intro allI impI)
  fix w x w'
  assume run: "db_then_paths db probe ps w = (x, w')"
  obtain a w1 where one: "db w = (a, w1)" by (cases "db w")
  obtain b w2 where two: "probe_paths probe ps w1 = (b, w2)" by (cases "probe_paths probe ps w1")
  have "w' = w2" using run one two by (auto simp: db_then_paths_def split: prod.splits)
  then show "pb_clock w \<le> pb_clock w' \<and> pb_clock w' \<le> max (pb_clock w) d"
    using max_chain [OF assms(1) [unfolded in_time_def, rule_format, OF one] paths_in_time [OF assms(2), unfolded in_time_def, rule_format, OF two]]
    by simp
qed

lemma paths_longer:
  assumes "\<And>p. succeeds_longer (probe p) (probe' p)" and "probe_paths probe ps w = ((t, []), w')"
  shows "probe_paths probe' ps w = ((t, []), w')"
  using assms(2)
proof (induction ps arbitrary: w t)
  case (Cons p ps)
  obtain line e w1 where one: "probe p w = ((line, e), w1)" by (cases "probe p w") auto
  obtain u errs w2 where two: "probe_paths probe ps w1 = ((u, errs), w2)" by (cases "probe_paths probe ps w1") auto
  have ok: "e = None" "errs = []" "t = line @ u" "w' = w2" using Cons.prems one two by (auto split: option.splits)
  have "probe' p w = ((line, None), w1)" using assms(1) [of p, unfolded succeeds_longer_def, rule_format, of w line w1] one ok by simp
  moreover have "probe_paths probe' ps w1 = ((u, []), w2)" using Cons.IH [of w1 u] two ok by simp
  ultimately show ?case using ok by simp
qed simp

lemma readiness_longer:
  assumes "longer ctx ctx'" and "ProbeReadiness ctx ps w = ((t, []), w')"
  shows "ProbeReadiness ctx' ps w = ((t, []), w')"
proof -
  obtain line e w1 where one: "probeDatabasePingable ctx w = ((line, e), w1)" by (cases "probeDatabasePingable ctx w") auto
  obtain u errs w2 where two: "probe_paths (probePathWriteablePermission ctx) ps w1 = ((u, errs), w2)"
    by (cases "probe_paths (probePathWriteablePermission ctx) ps w1") auto
  have ok: "e = None" "errs = []" "t = line @ u" "w' = w2"
    using assms(2) one two by (auto simp: ProbeReadiness_def db_then_paths_def split: option.splits)
  have "succeeds_longer (probePathWriteablePermission ctx p) (probePathWriteablePermission ctx' p)" for p
    using path_longer [OF assms(1)] unfolding probePathWriteablePermission_def succeeds_longer_def by blast
  from paths_longer [OF this] two ok have "probe_paths (probePathWriteablePermission ctx') ps w1 = ((u, []), w2)" by simp
  moreover have "probeDatabasePingable ctx' w = ((line, None), w1)"
    using ping_longer [OF assms(1), unfolded succeeds_longer_def] one ok by simp
  ultimately show ?thesis using ok by (simp add: ProbeReadiness_def db_then_paths_def)
qed

lemma readiness_in_time: "cx_deadline ctx = Some d \<Longrightarrow> in_time d (ProbeReadiness ctx ps)"
  unfolding ProbeReadiness_def [abs_def]
  by (rule db_then_paths_in_time [OF ping_in_time]) (simp_all add: probePathWriteablePermission_def [abs_def] path_in_time)

lemma writes_in_time:
  "cx_deadline ctx = Some d \<Longrightarrow>
     in_time d (db_then_paths (probeDatabaseNextHealthSequence ctx) (\<lambda>p. probePathWriteableTouch pj ctx p touch) ps)"
  by (rule db_then_paths_in_time [OF sequence_in_time])
     (simp_all add: probePathWriteableTouch_def [abs_def] Let_def path_in_time)

lemma in_time_D:
  "in_time d probe \<Longrightarrow> probe w = (x, w') \<Longrightarrow> pb_clock w \<le> pb_clock w' \<and> pb_clock w' \<le> max (pb_clock w) d"
  unfolding in_time_def by blast

text \<open>A run of the liveness probes: those of readiness, and then the writes if they succeeded.\<close>

lemma ProbeLiveness_run:
  assumes "cx_deadline ctx = Some d" and "ProbeLiveness pj ctx ps touch w = ((str, errs), w')"
  shows "pb_clock w \<le> pb_clock w' \<and> pb_clock w' \<le> max (pb_clock w) d"
    and "errs = [] \<Longrightarrow> \<exists>t w1. ProbeReadiness ctx ps w = ((t, []), w1) \<and> pb_clock w1 \<le> pb_clock w'"
proof -
  obtain t e w1 where one: "ProbeReadiness ctx ps w = ((t, e), w1)" by (cases "ProbeReadiness ctx ps w") auto
  note t1 = in_time_D [OF readiness_in_time [OF assms(1)] one]
  let ?writes = "db_then_paths (probeDatabaseNextHealthSequence ctx) (\<lambda>p. probePathWriteableTouch pj ctx p touch) ps"
  obtain b w2 where two: "?writes w1 = (b, w2)" by (cases "?writes w1")
  note t2 = in_time_D [OF writes_in_time [OF assms(1)] two]
  have "w' = (if e = [] then w2 else w1)" and e: "errs = [] \<Longrightarrow> e = []"
    using assms(2) one two by (auto simp: ProbeLiveness_def split: if_splits prod.splits)
  then show "pb_clock w \<le> pb_clock w' \<and> pb_clock w' \<le> max (pb_clock w) d"
    using t1 max_chain [OF t1 t2] by (auto split: if_splits)
  show "\<exists>t w1. ProbeReadiness ctx ps w = ((t, []), w1) \<and> pb_clock w1 \<le> pb_clock w'" if "errs = []"
    using that one e t2 \<open>w' = (if e = [] then w2 else w1)\<close> by auto
qed

lemma WithTimeout_longer:
  assumes "t \<le> t'"
  shows "longer (WithTimeout req start t) (WithTimeout req start t')"
  using assms by (auto simp: longer_def WithTimeout_def split: option.split)

lemma WithTimeout_deadline: "\<exists>d. cx_deadline (WithTimeout req start t) = Some d \<and> d \<le> start + t"
  by (auto simp: WithTimeout_def split: option.split)

text \<open>C27: A request for the health of a node is answered when the liveness timeout is over at the
  latest, even if none of the probes' calls ever returns; and where that timeout is not
  longer than that of readiness, a node that is healthy is also ready at that moment.\<close>

theorem healthy_implies_ready:
  assumes "getHealthyHandler pj s req w = ((status, body), w')" and "m = sc_Management (sr_Config s)"
  shows "pb_clock w \<le> pb_clock w' \<and> pb_clock w' \<le> max (pb_clock w) (pb_clock w + micros (mg_LivenessTimeout m))
    \<and> (status = 200 \<and> mg_LivenessTimeout m \<le> mg_ReadinessTimeout m \<longrightarrow> fst (getReadyHandler s req w) = (200, ''Ready.''))"
proof (cases "Ready s")
  case True
  let ?ctx = "WithTimeout req (pb_clock w) (micros (mg_LivenessTimeout m))"
  let ?ps = "mg_ProbeWriteablePathsAbs m"
  obtain d where d: "cx_deadline ?ctx = Some d" "d \<le> pb_clock w + micros (mg_LivenessTimeout m)"
    using WithTimeout_deadline by blast
  obtain str errs v where live: "ProbeLiveness pj ?ctx ?ps (mg_ProbeWriteableTouchfile m) w = ((str, errs), v)"
    by (cases "ProbeLiveness pj ?ctx ?ps (mg_ProbeWriteableTouchfile m) w") auto
  have v: "w' = v" and ok: "status = 200 \<Longrightarrow> errs = [] \<and> ctx_Err ?ctx (pb_clock v) = None"
    using assms(1) True live unfolding getHealthyHandler_def Let_def assms(2)
    by (auto simp: httpStatusDown_def split: if_splits)
  have time: "pb_clock w \<le> pb_clock w' \<and> pb_clock w' \<le> max (pb_clock w) (pb_clock w + micros (mg_LivenessTimeout m))"
    using ProbeLiveness_run(1) [OF d(1) live] d(2) v by auto
  have ready: "fst (getReadyHandler s req w) = (200, ''Ready.'')"
    if s200: "status = 200" and le: "mg_LivenessTimeout m \<le> mg_ReadinessTimeout m"
  proof -
    let ?ctx' = "WithTimeout req (pb_clock w) (micros (mg_ReadinessTimeout m))"
    have l: "longer ?ctx ?ctx'" by (rule WithTimeout_longer) (simp add: micros_def zdiv_mono1 le)
    obtain t w1 where one: "ProbeReadiness ?ctx ?ps w = ((t, []), w1)" "pb_clock w1 \<le> pb_clock v"
      using ProbeLiveness_run(2) [OF d(1) live] ok [OF s200] by blast
    have "ctx_Err ?ctx (pb_clock w1) = None" using ok [OF s200] one(2) unfolding ctx_Err_None_iff by fastforce
    then have "ctx_Err ?ctx' (pb_clock w1) = None" by (rule longer_alive [OF l])
    then show ?thesis
      using readiness_longer [OF l one(1)] True unfolding getReadyHandler_def Let_def assms(2) [symmetric] by simp
  qed
  from time ready show ?thesis by blast
next
  case False
  then show ?thesis using assms(1) by (auto simp: getHealthyHandler_def httpStatusDown_def)
qed

definition running_server :: "env \<Rightarrow> (unit, unit) Server" where
  "running_server env = (sample_server env)\<lparr>sr_Echo := Some '':8080'', sr_Router := True\<rparr>"

lemma running_server_ready [simp]: "Ready (running_server env)" "sr_Config (running_server env) = sample_settings env"
  unfolding running_server_def sample_server_def
  by (rule new_server_ready) (simp add: newServerWithComponents_def Let_def)

definition even_env :: env where
  "even_env = sample_env(''SERVER_MANAGEMENT_LIVENESS_TIMEOUT_SEC'' \<mapsto> ''4'')"

theorem healthy_implies_ready_witness:
  "fst (getReadyHandler (running_server even_env) ctx_Background (sample_probes (\<lambda>_. Finished 10 None))) = (200, ''Ready.'')"
proof -
  let ?w = "sample_probes (\<lambda>_. Finished 10 None)" and ?s = "running_server even_env"
  obtain status body w' where run: "getHealthyHandler (\<lambda>a b. a @ b) ?s ctx_Background ?w = ((status, body), w')"
    by (cases "getHealthyHandler (\<lambda>a b. a @ b) ?s ctx_Background ?w") auto
  have "fst (fst (getHealthyHandler (\<lambda>a b. a @ b) ?s ctx_Background ?w)) = 200" by code_simp
  then have status: "status = 200" using run by simp
  have "mg_LivenessTimeout (sc_Management (sample_settings even_env)) \<le> mg_ReadinessTimeout (sc_Management (sample_settings even_env))"
    by code_simp
  then show ?thesis using healthy_implies_ready [OF run HOL.refl] status by simp
qed

text \<open>By default the liveness timeout is longer: a database that takes five seconds is healthy and not ready.\<close>

definition slow_ping :: probe_world where
  "slow_ping = sample_probes (\<lambda>n. if n = 0 then Finished 5000000 None else Finished 10 None)"

lemma default_timeouts:
  "micros (mg_ReadinessTimeout (sc_Management (sample_settings sample_env))) = 4000000"
  "micros (mg_LivenessTimeout (sc_Management (sample_settings sample_env))) = 9000000"
  "mg_ProbeWriteablePathsAbs (sc_Management (sample_settings sample_env)) = [''/mnt'']"
  by code_simp+

lemma slow_database_is_healthy_not_ready:
  "fst (fst (getHealthyHandler (\<lambda>a b. a @ b) (running_server sample_env) ctx_Background slow_ping)) = 200"
  "fst (getReadyHandler (running_server sample_env) ctx_Background slow_ping) = (521, ''Not ready.'')"
  unfolding getHealthyHandler_def getReadyHandler_def ProbeLiveness_def ProbeReadiness_def db_then_paths_def Let_def
  by (simp_all add: default_timeouts probeDatabasePingable_def probeDatabaseNextHealthSequence_def probePathWriteablePermission_def
      probePathWriteableTouch_def path_probe_def probe_end_def run_call_def slow_ping_def sample_probes_def ctx_Err_def WithTimeout_def
      ctx_Background_def httpStatusDown_def)

section \<open>What the command env prints\<close>

fun json_strings :: "json \<Rightarrow> string list" where
  "json_strings (JStr t) = [t]"
| "json_strings (JArr xs) = concat (map json_strings xs)"
| "json_strings (JObj kvs) = concat (map (\<lambda>(_, v). json_strings v) kvs)"
| "json_strings _ = []"

text \<open>The settings with other values of the four fields that are kept out.\<close>

definition with_secrets :: "string \<Rightarrow> string \<Rightarrow> string \<Rightarrow> string \<Rightarrow> 'tag ServerSettings \<Rightarrow> 'tag ServerSettings" where
  "with_secrets db mgmt smtp google cfg =
     cfg\<lparr>sc_Database := (sc_Database cfg)\<lparr>db_Password := db\<rparr>, sc_Management := (sc_Management cfg)\<lparr>mg_Secret := mgmt\<rparr>,
       sc_SMTP := (sc_SMTP cfg)\<lparr>st_Password := smtp\<rparr>, sc_FCMConfig := (sc_FCMConfig cfg)\<lparr>fcm_GoogleApplicationCredentials := google\<rparr>\<rparr>"

text \<open>C16: What \<open>env\<close> prints does not depend on the passwords of the database and of the mail server, on the
  management secret or on Google's credentials; but it holds the passphrase from which
  the key that encrypts all key shares is derived.\<close>

theorem env_prints_share_key:
  "runEnv encode tag level (with_secrets db mgmt smtp google cfg) = runEnv encode tag level cfg
   \<and> mp_KeyShareEncryptionKey (sc_MPC cfg) \<in> set (json_strings (settings_json tag level cfg))"
proof -
  have "settings_json tag level (with_secrets db mgmt smtp google cfg) = settings_json tag level cfg"
    unfolding settings_json_def Let_def with_secrets_def database_json_def management_json_def by simp
  moreover have "mp_KeyShareEncryptionKey (sc_MPC cfg) \<in> set (json_strings (mpc_json (sc_MPC cfg)))"
    unfolding mpc_json_def by simp
  then have "mp_KeyShareEncryptionKey (sc_MPC cfg) \<in> set (json_strings (settings_json tag level cfg))"
    unfolding settings_json_def Let_def by simp
  ultimately show ?thesis by (simp add: runEnv_def)
qed

section \<open>Push messages\<close>

text \<open>C39: Sending a message to a user deletes at most rows of that user's tokens that a provider has
  just answered to be invalid; whoever was reached, and every other user, keeps all
  tokens. A sending that succeeds has deleted exactly the rejected tokens.\<close>

theorem push_removes_only_rejected_tokens:
  assumes "SendToUser ps uid title message w = (r, w')"
  shows "only_invalid_removed uid w w'
    \<and> (r = Inr () \<longrightarrow> adb (pw_accounts w') = without_tokens (invalid_tokens (answers w w')) uid (adb (pw_accounts w)))"
proof (cases "GetProviderCount ps < 1")
  case True
  then have "w' = w" "r \<noteq> Inr ()" using assms by (auto simp: SendToUser_def)
  then show ?thesis unfolding only_invalid_removed_def by (auto intro!: exI [of _ "[]"] simp: without_tokens_def)
next
  case False
  then show ?thesis using assms send_all_only_invalid by (simp add: SendToUser_def)
qed

definition sample_push :: push_world where
  "sample_push =
     \<lparr>pw_accounts = sample_accounts_db\<lparr>adb := (adb sample_accounts_db)\<lparr>push_t :=
        [\<lparr>pu_ID = ''1'', pu_Token = ''old'', pu_Provider = ''fcm'', pu_UserID = ''ann'', pu_CreatedAt = 0, pu_UpdatedAt = 0\<rparr>,
         \<lparr>pu_ID = ''2'', pu_Token = ''new'', pu_Provider = ''fcm'', pu_UserID = ''ann'', pu_CreatedAt = 0, pu_UpdatedAt = 0\<rparr>,
         \<lparr>pu_ID = ''3'', pu_Token = ''bob'', pu_Provider = ''fcm'', pu_UserID = ''bob'', pu_CreatedAt = 0, pu_UpdatedAt = 0\<rparr>]\<rparr>\<rparr>,
      pw_sent = [], pw_answer = (\<lambda>n. if n = 0 then Some (GoogleError 404 ''Requested entity was not found.'') else None)\<rparr>"

definition sample_fcm :: providers where
  "sample_fcm = [(''fcm'', FCM \<lparr>fcm_GoogleApplicationCredentials = [], fcm_ProjectID = ''p'', fcm_ValidateOnly = False\<rparr>)]"

theorem push_removes_only_rejected_tokens_witness:
  "\<exists>w'. SendToUser sample_fcm ''ann'' ''hi'' ''there'' sample_push = (Inr (), w')
     \<and> map pu_Token (push_t (adb (pw_accounts w'))) = [''new'', ''bob'']"
proof -
  obtain r w' where run: "SendToUser sample_fcm ''ann'' ''hi'' ''there'' sample_push = (r, w')"
    by (cases "SendToUser sample_fcm ''ann'' ''hi'' ''there'' sample_push")
  have r: "r = Inr ()" and sent: "invalid_tokens (answers sample_push w') = [''old'']"
    using run by (auto simp: SendToUser_def GetProviderCount_def sample_fcm_def on_accounts_def tokens_of_def sql_def sql_write_def
        store_def view_def sample_push_def sample_accounts_db_def Send_def fcm_response_def invalid_tokens_def answers_def Let_def
        without_tokens_def)
  have "adb (pw_accounts w') = without_tokens [''old''] ''ann'' (adb (pw_accounts sample_push))"
    using push_removes_only_rejected_tokens [OF run] r sent by simp
  then have "map pu_Token (push_t (adb (pw_accounts w'))) = [''new'', ''bob'']"
    by (simp add: without_tokens_def sample_push_def)
  moreover have "SendToUser sample_fcm ''ann'' ''hi'' ''there'' sample_push = (Inr (), w')" using run r by simp
  ultimately show ?thesis by (intro exI conjI)
qed

section \<open>Random strings\<close>

text \<open>While the source of random bytes does not fail, a random string consists of the first bytes
  of the source that are allowed, and it is made exactly when the source has enough of
  them; otherwise (an unknown range only, say) the call never returns.\<close>

theorem random_string_is_first_allowed_bytes:
  assumes "\<forall>k. rn_fault r k = None" and "0 < n" and "ranges \<noteq> [] \<or> extra \<noteq> []"
  shows "(GenerateRandomString n ranges extra r = None \<longleftrightarrow>
        (\<forall>m. length (filter (validateFn ranges extra) (tape_after r m)) < nat n))
    \<and> (\<forall>m. nat n \<le> length (filter (validateFn ranges extra) (tape_after r m)) \<longrightarrow>
        (\<exists>r'. GenerateRandomString n ranges extra r
           = Some (Inr (string_of_bytes (take (nat n) (filter (validateFn ranges extra) (tape_after r m)))), r')))"
  using GenerateRandomString_eq [OF assms] by blast

theorem random_string_is_first_allowed_bytes_witness:
  "\<exists>r'. GenerateRandomString 2 [1] [] \<lparr>rn_tape = (\<lambda>k. if k = 1 then 7 else 97 + of_nat k), rn_pos = 0, rn_reads = 0, rn_fault = (\<lambda>_. None)\<rparr>
     = Some (Inr ''ac'', r')"
proof -
  let ?r = "\<lparr>rn_tape = (\<lambda>k. if k = 1 then 7 else 97 + of_nat k), rn_pos = 0, rn_reads = 0, rn_fault = (\<lambda>_. None)\<rparr> :: random"
  have tape: "tape_after ?r 3 = [97, 7, 99]" by (simp add: tape_after_def upt_rec)
  have "filter (validateFn [1] []) (tape_after ?r 3) = [97, 99]"
    unfolding tape by (simp add: validateFn_def in_range_def bytes_of_def)
  moreover have "string_of_bytes [97, 99] = ''ac''" by code_simp
  ultimately show ?thesis
    using random_string_is_first_allowed_bytes [of ?r 2 "[1]" "[]", THEN conjunct2, rule_format, of 3] by simp
qed

end
