(* ===== verification/Links.thy ===== *)
theory Links
  imports Commands AuthHandlers KeyShareProps
begin

text \<open>
  Links, pages and mail: the links of \<open>internal/util/url\<close>, the page that a confirmation
  mail leads to (\<open>handlers/auth/get_complete_register.go\<close>) with the binding of its
  parameters (\<open>internal/util/http.go\<close>), the static files of \<open>handlers/wellknown\<close> and
  \<open>handlers/common/get_swagger.go\<close>, and the mail transports of \<open>internal/mailer/transport\<close>.
  Parsing, printing and the queries of URLs are the parameter \<open>url_lib\<close>; a template is a
  function from its link to a page; sending a mail over a connection is \<open>smtp_lib\<close>.
\<close>

section \<open>Links (util/url/url.go)\<close>

record URL =
  ur_Site :: string  \<comment> \<open>scheme, user and host\<close>
  ur_Path :: string
  ur_RawQuery :: string

record url_lib =
  ul_Parse :: "string \<Rightarrow> err + URL"
  ul_String :: "URL \<Rightarrow> string"
  ul_Set :: "string \<Rightarrow> string \<Rightarrow> string \<Rightarrow> string"  \<comment> \<open>the raw query after \<open>Query\<close>, \<open>Set\<close> and \<open>Encode\<close>\<close>
  ul_Get :: "string \<Rightarrow> string \<Rightarrow> string"  \<comment> \<open>a parameter of a raw query\<close>

text \<open>\<open>path.Join\<close>.\<close>

definition path_Join :: "string list \<Rightarrow> string" where
  "path_Join parts =
     (if \<forall>p\<in>set parts. p = [] then []
      else (case filepath_Join parts of (rooted, es) \<Rightarrow>
              if es = [] then (if rooted then ''/'' else ''.'')
              else (if rooted then ''/'' else []) @ Join ''/'' es))"

definition accountConfirmationPath :: string where "accountConfirmationPath = ''/api/v1/auth/register''"

definition token_link :: "url_lib \<Rightarrow> string \<Rightarrow> string \<Rightarrow> string \<Rightarrow> err + URL" where
  "token_link ul base endpoint token =
     pure_wrap (ul_Parse ul base) ''failed to parse the base URL''
       (\<lambda>u. Inr (u\<lparr>ur_Path := path_Join [ur_Path u, endpoint], ur_RawQuery := ul_Set ul (ur_RawQuery u) ''token'' token\<rparr>))"

definition PasswordResetDeeplinkURL :: "url_lib \<Rightarrow> 'tag ServerSettings \<Rightarrow> string \<Rightarrow> err + URL" where
  "PasswordResetDeeplinkURL ul cfg =
     token_link ul (fe_BaseURL (sc_Frontend cfg)) (fe_PasswordResetEndpoint (sc_Frontend cfg))"

definition ConfirmationDeeplinkURL :: "url_lib \<Rightarrow> 'tag ServerSettings \<Rightarrow> string \<Rightarrow> err + URL" where
  "ConfirmationDeeplinkURL ul cfg = token_link ul (ec_BaseURL (sc_Echo cfg)) accountConfirmationPath"

definition ConfirmationRequestURL :: "url_lib \<Rightarrow> 'tag ServerSettings \<Rightarrow> string \<Rightarrow> err + URL" where
  "ConfirmationRequestURL ul cfg token =
     pure_wrap (ul_Parse ul (ec_BaseURL (sc_Echo cfg))) ''failed to parse the base URL''
       (\<lambda>u. Inr (u\<lparr>ur_Path := path_Join [ur_Path u, accountConfirmationPath, token]\<rparr>))"

section \<open>Binding a request (util/http.go)\<close>

text \<open>How echo fills a value from each part of the request.\<close>

record 'v binding =
  bi_PathParams :: "'v \<Rightarrow> err + 'v"
  bi_QueryParams :: "'v \<Rightarrow> err + 'v"
  bi_Body :: "'v \<Rightarrow> err + 'v"

definition bind_path :: "'v binding \<Rightarrow> ('v \<Rightarrow> err + 'v) \<Rightarrow> 'v \<Rightarrow> err + 'v" where
  "bind_path b k v = pure_wrap (bi_PathParams b v) ''failed to bind path params'' k"

definition bind_query :: "'v binding \<Rightarrow> ('v \<Rightarrow> err + 'v) \<Rightarrow> 'v \<Rightarrow> err + 'v" where
  "bind_query b k v = pure_wrap (bi_QueryParams b v) ''failed to bind query params'' k"

definition validated :: "('v \<Rightarrow> verr option) \<Rightarrow> err + 'v \<Rightarrow> 'r reply + 'v" where
  "validated Validate bound =
     (case bound of
        Inl e \<Rightarrow> Inl (Failed e)
      | Inr v \<Rightarrow> (case validatePayload (Validate v) of Some r \<Rightarrow> Inl r | None \<Rightarrow> Inr v))"

definition BindAndValidatePathAndQueryParams :: "'v binding \<Rightarrow> ('v \<Rightarrow> verr option) \<Rightarrow> 'v \<Rightarrow> 'r reply + 'v" where
  "BindAndValidatePathAndQueryParams b Validate v = validated Validate (bind_path b (bind_query b Inr) v)"

definition BindAndValidatePathParams :: "'v binding \<Rightarrow> ('v \<Rightarrow> verr option) \<Rightarrow> 'v \<Rightarrow> 'r reply + 'v" where
  "BindAndValidatePathParams b Validate v = validated Validate (bind_path b Inr v)"

definition BindAndValidateQueryParams :: "'v binding \<Rightarrow> ('v \<Rightarrow> verr option) \<Rightarrow> 'v \<Rightarrow> 'r reply + 'v" where
  "BindAndValidateQueryParams b Validate v = validated Validate (bind_query b Inr v)"

definition defaultEchoBindAll :: "'v binding \<Rightarrow> 'v \<Rightarrow> err + 'v" where
  "defaultEchoBindAll b =
     bind_path b (bind_query b (\<lambda>v. pure_wrap (bi_Body b v) ''failed to bind body'' Inr))"

text \<open>\<open>BindAndValidate\<close> with one value.\<close>

definition BindAndValidate :: "'v binding \<Rightarrow> ('v \<Rightarrow> verr option) \<Rightarrow> 'v \<Rightarrow> 'r reply + 'v" where
  "BindAndValidate b Validate v = validated Validate (defaultEchoBindAll b v)"

definition SetOrAppendHeader :: "http_header \<Rightarrow> string \<Rightarrow> string list \<Rightarrow> http_header" where
  "SetOrAppendHeader header key values =
     (let headerSet = Header_Get header key; headerValue = Join '', '' values
      in if headerSet = [] then Header_Add header key headerValue
         else Header_Set header key (Join '', '' [headerSet, headerValue]))"

section \<open>Pages and files (get_complete_register.go, handlers/wellknown, get_swagger.go)\<close>

text \<open>The parameters of the page: a token, empty when the query has none.\<close>

definition GetCompleteRegister_Validate :: "form_lib \<Rightarrow> string \<Rightarrow> verr option" where
  "GetCompleteRegister_Validate l token =
     composite [va_Required (fl_api l) ''token'' (token = []), va_Format l ''token'' ''uuid4'' token]"

definition ViewTemplateAccountConfirmation :: string where
  "ViewTemplateAccountConfirmation = ''account_confirmation.html.tmpl''"

definition getCompleteRegisterHandler ::
  "form_lib \<Rightarrow> url_lib \<Rightarrow> 'tag ServerSettings \<Rightarrow> (string \<Rightarrow> string \<Rightarrow> err + string) \<Rightarrow> string list
     \<Rightarrow> string binding \<Rightarrow> string reply" where
  "getCompleteRegisterHandler l ul cfg execute templates b =
     (case BindAndValidatePathAndQueryParams b (GetCompleteRegister_Validate l) [] of
        Inl r \<Rightarrow> r
      | Inr token \<Rightarrow>
          (case ConfirmationRequestURL ul cfg token of
             Inl e \<Rightarrow> Failed e
           | Inr u \<Rightarrow>
               (case Render (\<lambda>name. execute name (ul_String ul u)) templates ViewTemplateAccountConfirmation of
                  Inl e \<Rightarrow> Failed e
                | Inr html \<Rightarrow> Reply 200 html)))"

definition set_header :: "string \<Rightarrow> string \<Rightarrow> 's web \<Rightarrow> 's web" where
  "set_header k v w = w\<lparr>wb_response := (wb_response w)\<lparr>hs_Header := Header_Set (hs_Header (wb_response w)) k v\<rparr>\<rparr>"

definition ErrNotFoundPage :: web_error where "ErrNotFoundPage = WebEcho 404 (MessageString ''Not Found'') None"

text \<open>\<open>file\<close> is \<open>c.File\<close>.\<close>

definition getAndroidDigitalAssetLinksHandler :: "(string \<Rightarrow> 's handler) \<Rightarrow> 'tag ServerSettings \<Rightarrow> 's handler" where
  "getAndroidDigitalAssetLinksHandler file cfg w =
     (if pa_AndroidAssetlinksFile (sc_Paths cfg) = [] then (Some ErrNotFoundPage, w)
      else file (pa_AndroidAssetlinksFile (sc_Paths cfg))
             (set_header ''Content-Type'' ''application/json''
               (set_header ''Cache-Control'' ''public, max-age=0, must-revalidate'' w)))"

definition getAppleAppSiteAssociationHandler :: "(string \<Rightarrow> 's handler) \<Rightarrow> 'tag ServerSettings \<Rightarrow> 's handler" where
  "getAppleAppSiteAssociationHandler file cfg w =
     (if pa_AppleAppSiteAssociationFile (sc_Paths cfg) = [] then (Some ErrNotFoundPage, w)
      else file (pa_AppleAppSiteAssociationFile (sc_Paths cfg))
             (set_header ''Cache-Control'' ''public, max-age=0, must-revalidate'' w))"

definition GetSwaggerRoute :: "(string \<Rightarrow> 's handler) \<Rightarrow> 'tag ServerSettings \<Rightarrow> 's route" where
  "GetSwaggerRoute file cfg =
     echo_route ''GET'' ''/swagger.yml'' [NoCache] (file (path_Join [pa_APIBaseDirAbs (sc_Paths cfg), ''swagger.yml'']))"

section \<open>Mail transports (mailer/transport)\<close>

text \<open>What \<open>net/smtp\<close> tells of a server, and the mechanisms it is given.\<close>

record ServerInfo =
  sv_Name :: string
  sv_TLS :: bool

record loginAuth =
  la_username :: string
  la_password :: string
  la_host :: string

definition LoginAuth :: "string \<Rightarrow> string \<Rightarrow> string list \<Rightarrow> loginAuth" where
  "LoginAuth username password host =
     \<lparr>la_username = username, la_password = password, la_host = (case host of [] \<Rightarrow> [] | h # _ \<Rightarrow> h)\<rparr>"

definition login_Start :: "loginAuth \<Rightarrow> ServerInfo \<Rightarrow> err + string \<times> string" where
  "login_Start a server =
     (if la_host a \<noteq> [] \<and> sv_Name server \<noteq> la_host a then Inl (Err ''wrong host name'')
      else Inr (''LOGIN'', la_username a))"

text \<open>\<open>None\<close> is the nil answer. The quotes of \<open>%q\<close> are those of \<open>quote\<close>.\<close>

definition login_Next :: "(string \<Rightarrow> string) \<Rightarrow> loginAuth \<Rightarrow> string \<Rightarrow> bool \<Rightarrow> err + string option" where
  "login_Next quote a fromServer again =
     (if again
      then if fromServer = ''Username:'' then Inr (Some (la_username a))
           else if fromServer = ''Password:'' then Inr (Some (la_password a))
           else Inl (Err (''unknown challenge received from server: '' @ quote fromServer))
      else Inr None)"

datatype smtp_auth = PlainAuth string string string string | CRAMMD5Auth string string | Login loginAuth

datatype smtp_mode = InTheClear | WithTLS | WithStartTLS

record smtp_lib =
  sl_JoinHostPort :: "string \<Rightarrow> string \<Rightarrow> string"
  sl_Send :: "smtp_mode \<Rightarrow> string \<Rightarrow> smtp_auth option \<Rightarrow> mail \<Rightarrow> err + unit"
  sl_quote :: "string \<Rightarrow> string"

record SMTPMailTransport =
  sm_config :: SMTPMailTransportConfig
  sm_addr :: string
  sm_auth :: "smtp_auth option"

definition NewSMTP :: "smtp_lib \<Rightarrow> SMTPMailTransportConfig \<Rightarrow> SMTPMailTransport" where
  "NewSMTP l cfg =
     \<lparr>sm_config = cfg, sm_addr = sl_JoinHostPort l (st_Host cfg) (itoa (st_Port cfg)),
      sm_auth = (case st_AuthType cfg of
          SMTPAuthTypePlain \<Rightarrow> Some (PlainAuth [] (st_Username cfg) (st_Password cfg) (st_Host cfg))
        | SMTPAuthTypeCRAMMD5 \<Rightarrow> Some (CRAMMD5Auth (st_Username cfg) (st_Password cfg))
        | SMTPAuthTypeLogin \<Rightarrow> Some (Login (LoginAuth (st_Username cfg) (st_Password cfg) [st_Host cfg]))
        | SMTPAuthTypeNone \<Rightarrow> None)\<rparr>"

definition smtp_Send :: "smtp_lib \<Rightarrow> SMTPMailTransport \<Rightarrow> mail \<Rightarrow> err + unit" where
  "smtp_Send l m mail =
     (let enc = st_Encryption (sm_config m);
          sent = (\<lambda>mode. pure_wrap (sl_Send l mode (sm_addr m) (sm_auth m) mail) ''failed to send email'' Inr)
      in if enc = ''none'' then sent InTheClear
         else if enc = ''tls'' then sent WithTLS
         else if enc = ''starttls'' then sent WithStartTLS
         else Inl (Err (''invalid SMTP encryption '' @ sl_quote l enc)))"

text \<open>
  The transport that keeps its mails. \<open>mt_wg\<close> is the counter of its wait group; taking it
  below zero panics, which \<open>Send\<close> turns into the end of the process.
\<close>

record MockMailTransport =
  mt_mails :: "mail list"
  mt_wg :: int
  mt_expected :: int

definition NewMock :: MockMailTransport where
  "NewMock = \<lparr>mt_mails = [], mt_wg = 0, mt_expected = 0\<rparr>"

definition mock_Send :: "mail \<Rightarrow> MockMailTransport \<Rightarrow> unit outcome \<times> MockMailTransport" where
  "mock_Send mail m =
     (let m = m\<lparr>mt_mails := mt_mails m @ [mail]\<rparr>
      in if mt_expected m > 0
         then let m = m\<lparr>mt_wg := mt_wg m - 1\<rparr>
              in if mt_wg m < 0 then (Fatal ''Unexpected email sent! MockMailTransport panicked: sync: negative WaitGroup counter'', m)
                 else (Done (), m)
         else (Done (), m))"

definition GetLastSentMail :: "MockMailTransport \<Rightarrow> mail option" where
  "GetLastSentMail m = (if mt_mails m = [] then None else Some (last (mt_mails m)))"

definition Expect :: "int \<Rightarrow> MockMailTransport \<Rightarrow> err + MockMailTransport" where
  "Expect mailCnt m =
     (let m = m\<lparr>mt_expected := mailCnt, mt_wg := mt_wg m + mailCnt\<rparr>
      in if mt_wg m < 0 then Inl (Panic ''sync: negative WaitGroup counter'') else Inr m)"

end
