(* ===== verification/LinkProps.thy ===== *)
theory LinkProps
  imports Links WebProps HandlerProps
begin

text \<open>
  The way of a confirmation mail, from its link over the page to the request that completes
  the registration; and what the mail transports send when.
\<close>

section \<open>The confirmation of an account\<close>

lemma confirmation_elems: "split_slash [] accountConfirmationPath = [[], ''api'', ''v1'', ''auth'', ''register'']"
  by (simp add: accountConfirmationPath_def)

lemma clean_snoc_register: "clean_elems r [] (es @ [[], ''api'', ''v1'', ''auth'', ''register'']) =
    clean_elems r [] (es @ [[], ''api'', ''v1'', ''auth'']) @ [''register'']"
  using clean_elems_snoc [of "''register''" r "[]" "es @ [[], ''api'', ''v1'', ''auth'']"] by simp

lemma Join_snoc: "es \<noteq> [] \<Longrightarrow> Join sep (es @ [e]) = Join sep es @ sep @ e"
  by (induction sep es rule: Join.induct) auto

lemma filepath_Join_register:
  obtains es where "es \<noteq> []" and "filepath_Join [p, accountConfirmationPath] = (p = [] \<or> hd p = CHR ''/'', es)"
    and "\<And>t. plain t \<Longrightarrow> filepath_Join [p, accountConfirmationPath, t] = (p = [] \<or> hd p = CHR ''/'', es @ [t])"
proof
  let ?root = "p = [] \<or> hd p = CHR ''/''"
  let ?es = "clean_elems ?root [] ((if p = [] then [] else split_slash [] p) @ [[], ''api'', ''v1'', ''auth'', ''register''])"
  show "?es \<noteq> []" by (simp add: clean_snoc_register)
  have hd: "hd accountConfirmationPath = CHR ''/''" "accountConfirmationPath \<noteq> []" by (simp_all add: accountConfirmationPath_def)
  show "filepath_Join [p, accountConfirmationPath] = (?root, ?es)"
    using hd by (auto simp: filepath_Join_def Let_def confirmation_elems)
  show "filepath_Join [p, accountConfirmationPath, t] = (?root, ?es @ [t])" if t: "plain t" for t
  proof -
    have sp: "split_slash [] t = [t]" "t \<noteq> []" using t by (simp_all add: plain_def split_slash_plain)
    have snoc: "clean_elems r [] (xs @ [t]) = clean_elems r [] xs @ [t]" for r xs
      using t clean_elems_snoc [of t r "[]" xs] by (simp add: plain_def)
    have "filepath_Join [p, accountConfirmationPath, t] =
        (?root, clean_elems ?root [] (((if p = [] then [] else split_slash [] p) @ [[], ''api'', ''v1'', ''auth'', ''register'']) @ [t]))"
      using hd sp by (auto simp: filepath_Join_def Let_def confirmation_elems)
    then show ?thesis by (simp only: snoc)
  qed
qed

lemma request_path:
  assumes "plain token"
  shows "path_Join [p, accountConfirmationPath, token] = path_Join [p, accountConfirmationPath] @ ''/'' @ token"
proof -
  obtain es where es: "es \<noteq> []" "filepath_Join [p, accountConfirmationPath] = (p = [] \<or> hd p = CHR ''/'', es)"
    "\<And>t. plain t \<Longrightarrow> filepath_Join [p, accountConfirmationPath, t] = (p = [] \<or> hd p = CHR ''/'', es @ [t])"
    using filepath_Join_register [of p] by metis
  have "accountConfirmationPath \<noteq> []" "token \<noteq> []" using assms by (auto simp: accountConfirmationPath_def plain_def)
  then show ?thesis using es(1) es(2) es(3) [OF assms] by (simp add: path_Join_def Join_snoc)
qed

lemma link_path: "path_Join [[], accountConfirmationPath] = ''/api/v1/auth/register''"
  by (simp add: path_Join_def filepath_Join_def accountConfirmationPath_def)

text \<open>What echo binds when a link is opened: the token of its query.\<close>

definition opened :: "url_lib \<Rightarrow> URL \<Rightarrow> string binding" where
  "opened ul link =
     \<lparr>bi_PathParams = Inr, bi_QueryParams = (\<lambda>_. Inr (ul_Get ul (ur_RawQuery link) ''token'')), bi_Body = Inr\<rparr>"

text \<open>C40: The link of a confirmation mail leads back to its token: whatever query the base URL of
  the server has, opening the link makes the page read the token, and the request that the
  page sends goes to the path of the link followed by the token. For a base URL
  without a path the link's is the path of the router's route of the page.\<close>

theorem confirmation_link_leads_back:
  assumes "ul_Parse ul (ec_BaseURL (sc_Echo cfg)) = Inr base"
    and "\<And>raw. ul_Get ul (ul_Set ul raw ''token'' token) ''token'' = token"
    and "plain token" and "GetCompleteRegister_Validate l token = None"
    and "ViewTemplateAccountConfirmation \<in> set templates"
  shows "\<exists>link request. ConfirmationDeeplinkURL ul cfg token = Inr link \<and> ConfirmationRequestURL ul cfg token = Inr request
    \<and> request = base\<lparr>ur_Path := ur_Path link @ ''/'' @ token\<rparr> \<and> ur_Site link = ur_Site base
    \<and> getCompleteRegisterHandler l ul cfg execute templates (opened ul link)
        = (case execute ViewTemplateAccountConfirmation (ul_String ul request) of
             Inl e \<Rightarrow> Failed (wrap_err ''failed to execute template'' e) | Inr html \<Rightarrow> Reply 200 html)
    \<and> (if ur_Path base = [] then ur_Path link = ''/api/v1/auth/register'' else True)"
proof -
  let ?link = "base\<lparr>ur_Path := path_Join [ur_Path base, accountConfirmationPath],
      ur_RawQuery := ul_Set ul (ur_RawQuery base) ''token'' token\<rparr>"
  have link: "ConfirmationDeeplinkURL ul cfg token = Inr ?link"
    using assms(1) by (simp add: ConfirmationDeeplinkURL_def token_link_def pure_wrap_def)
  have request: "ConfirmationRequestURL ul cfg token = Inr (base\<lparr>ur_Path := ur_Path ?link @ ''/'' @ token\<rparr>)"
    using assms(1) request_path [OF assms(3)] by (simp add: ConfirmationRequestURL_def pure_wrap_def)
  have "BindAndValidatePathAndQueryParams (opened ul ?link) (GetCompleteRegister_Validate l) [] = (Inr token :: string reply + string)"
    using assms(2,4)
    by (simp add: BindAndValidatePathAndQueryParams_def bind_path_def bind_query_def pure_wrap_def validated_def validatePayload_def opened_def)
  then have "getCompleteRegisterHandler l ul cfg execute templates (opened ul ?link)
      = (case execute ViewTemplateAccountConfirmation (ul_String ul (base\<lparr>ur_Path := ur_Path ?link @ ''/'' @ token\<rparr>)) of
           Inl e \<Rightarrow> Failed (wrap_err ''failed to execute template'' e) | Inr html \<Rightarrow> Reply 200 html)"
    using assms(5) request by (simp add: getCompleteRegisterHandler_def Render_def pure_wrap_def split: sum.split)
  then show ?thesis using link request link_path by (intro exI [of _ ?link] exI [of _ "base\<lparr>ur_Path := ur_Path ?link @ ''/'' @ token\<rparr>"]) simp
qed

definition sample_urls :: url_lib where
  "sample_urls =
     \<lparr>ul_Parse = (\<lambda>s. Inr \<lparr>ur_Site = s, ur_Path = [], ur_RawQuery = []\<rparr>),
      ul_String = (\<lambda>u. ur_Site u @ ur_Path u @ (if ur_RawQuery u = [] then [] else ''?'' @ ur_RawQuery u)),
      ul_Set = (\<lambda>raw k v. k @ ''='' @ v), ul_Get = (\<lambda>raw k. drop (length k + 1) raw)\<rparr>"

definition sample_form :: form_lib where
  "sample_form = \<lparr>fl_api = toy_api_lib, va_MinLength = (\<lambda>_ _ _. None), va_MaxLength = (\<lambda>_ _ _. None), va_Format = (\<lambda>_ _ _. None)\<rparr>"

theorem confirmation_link_leads_back_witness:
  "\<exists>link. ConfirmationDeeplinkURL sample_urls (sample_settings sample_env) ''4711'' = Inr link
    \<and> ul_String sample_urls link = ''http://localhost:8080/api/v1/auth/register?token=4711''
    \<and> getCompleteRegisterHandler sample_form sample_urls (sample_settings sample_env) (\<lambda>_. Inr) [ViewTemplateAccountConfirmation]
        (opened sample_urls link) = Reply 200 ''http://localhost:8080/api/v1/auth/register/4711''"
proof -
  let ?cfg = "sample_settings sample_env"
  have base: "ec_BaseURL (sc_Echo ?cfg) = ''http://localhost:8080''"
    by (simp add: sample_settings_def echo_settings_def GetEnv_def sample_env_def)
  have parse: "ul_Parse sample_urls (ec_BaseURL (sc_Echo ?cfg)) = Inr \<lparr>ur_Site = ''http://localhost:8080'', ur_Path = [], ur_RawQuery = []\<rparr>"
    by (simp add: base sample_urls_def)
  have query: "\<And>raw. ul_Get sample_urls (ul_Set sample_urls raw ''token'' ''4711'') ''token'' = ''4711''" by (simp add: sample_urls_def)
  have plain: "plain ''4711''" by (simp add: plain_def)
  have valid: "GetCompleteRegister_Validate sample_form ''4711'' = None"
    by (simp add: GetCompleteRegister_Validate_def sample_form_def toy_api_lib_def toy_check_def composite_def List.map_filter_def)
  have loaded: "ViewTemplateAccountConfirmation \<in> set [ViewTemplateAccountConfirmation]" by simp
  have "ConfirmationDeeplinkURL sample_urls ?cfg ''4711'' =
      Inr \<lparr>ur_Site = ''http://localhost:8080'', ur_Path = ''/api/v1/auth/register'', ur_RawQuery = ''token=4711''\<rparr>"
    using parse by (simp add: ConfirmationDeeplinkURL_def token_link_def pure_wrap_def link_path) (simp add: sample_urls_def)
  then show ?thesis
    using confirmation_link_leads_back [OF parse query plain valid loaded, of "\<lambda>_. Inr"] by (auto simp: sample_urls_def)
qed

section \<open>Mail\<close>

text \<open>The mechanism LOGIN hands the password to any server with the expected name, on a connection
  without TLS too.\<close>

lemma login_sends_password_in_the_clear:
  assumes "sv_Name server = st_Host cfg" and "\<not> sv_TLS server" and "st_AuthType cfg = SMTPAuthTypeLogin"
  shows "\<exists>a. sm_auth (NewSMTP l cfg) = Some (Login a) \<and> login_Start a server = Inr (''LOGIN'', st_Username cfg)
    \<and> login_Next (sl_quote l) a ''Password:'' True = Inr (Some (st_Password cfg))"
  using assms by (simp add: NewSMTP_def LoginAuth_def login_Start_def login_Next_def)

lemma mock_keeps_mail: "GetLastSentMail (snd (mock_Send mail m)) = Some mail"
  by (auto simp: mock_Send_def GetLastSentMail_def Let_def)

end
