(* ===== verification/Queries.thy ===== *)
theory Queries
  imports WebRouter
begin

text \<open>
  Helpers that no service of the program calls yet: the query helpers of \<open>internal/util/db\<close>,
  names of files (\<open>util/path.go\<close>), PKCE (\<open>util/oauth2\<close>) and known media types
  (\<open>util/mime\<close>). A query mod is the call of sqlboiler that it is made by, with its text and
  arguments. Facts: what a search with \<open>ILikeSearch\<close> matches, and how far the escaping goes.
\<close>

section \<open>Conditions and orders (ilike.go, where_in.go, order_by.go, join.go, or.go)\<close>

text \<open>\<open>ArgNoTexts\<close> is a nil slice, \<open>ArgOther\<close> a value that the driver has to refuse or convert.\<close>

datatype sql_arg = ArgText string | ArgTexts "string list" | ArgNoTexts | ArgNumber int | ArgOther

datatype query_mod =
    Where string "sql_arg list"
  | OrderByClause string
  | InnerJoinClause string "sql_arg list"
  | LeftOuterJoinClause string "sql_arg list"
  | Or2 query_mod
  | Expr "query_mod list"

definition backslash :: char where "backslash = CHR 0x5C"

definition quote :: char where "quote = CHR 0x27"

definition EscapeLike :: "string \<Rightarrow> string" where
  "EscapeLike val = concat (map (\<lambda>c. if c = CHR ''%'' \<or> c = CHR ''_'' then [backslash, c] else [c]) val)"

definition ILike :: "string \<Rightarrow> string list \<Rightarrow> query_mod" where
  "ILike val path = Where (Join ''.'' path @ '' ILIKE ?'') [ArgText val]"

text \<open>The white space of a regular expression, and \<open>Split\<close> at its runs.\<close>

definition is_space :: "char \<Rightarrow> bool" where
  "is_space c \<longleftrightarrow> c \<in> {CHR '' '', CHR 0x09, CHR 0x0A, CHR 0x0C, CHR 0x0D}"

function split_spaces :: "string \<Rightarrow> string \<Rightarrow> string list" where
  "split_spaces acc [] = [rev acc]"
| "split_spaces acc (c # cs) =
     (if is_space c then rev acc # split_spaces [] (dropWhile is_space cs) else split_spaces (c # acc) cs)"
  by pat_completeness auto
termination
  by (relation "measure (\<lambda>(_, s). length s)") (auto simp: less_Suc_eq_le length_dropWhile_le)

definition ILikeSearch :: "string \<Rightarrow> string list \<Rightarrow> query_mod" where
  "ILikeSearch query path =
     Expr (map (\<lambda>t. ILike (''%'' @ EscapeLike t @ ''%'') path) (split_spaces [] (TrimSpace query)))"

definition IN_mod :: "string \<Rightarrow> string list \<Rightarrow> query_mod" where
  "IN_mod path xs = Where (path @ '' = any(?)'') [ArgTexts xs]"

definition NIN :: "string \<Rightarrow> string list \<Rightarrow> query_mod" where
  "NIN path xs = Where (path @ '' <> all(?)'') [ArgTexts xs]"

definition WhereIn :: "string \<Rightarrow> string \<Rightarrow> string list \<Rightarrow> query_mod" where
  "WhereIn tableName columnName = IN_mod (tableName @ ''.'' @ columnName)"

definition OrderBy :: "string \<Rightarrow> string list \<Rightarrow> query_mod" where
  "OrderBy orderDir path = OrderByClause (Join ''.'' path @ '' '' @ map upper_char orderDir)"

definition OrderByLower :: "string \<Rightarrow> string list \<Rightarrow> query_mod" where
  "OrderByLower orderDir path = OrderByClause (''LOWER('' @ Join ''.'' path @ '') '' @ map upper_char orderDir)"

definition OrderByWithNulls :: "string \<Rightarrow> string \<Rightarrow> string list \<Rightarrow> query_mod" where
  "OrderByWithNulls orderDir orderByNulls path =
     OrderByClause (Join ''.'' path @ '' '' @ map upper_char orderDir @ '' NULLS '' @ orderByNulls)"

definition OrderByLowerWithNulls :: "string \<Rightarrow> string \<Rightarrow> string list \<Rightarrow> query_mod" where
  "OrderByLowerWithNulls orderDir orderByNulls path =
     OrderByClause (''LOWER('' @ Join ''.'' path @ '') '' @ map upper_char orderDir @ '' NULLS '' @ orderByNulls)"

definition join_on :: "string \<Rightarrow> string \<Rightarrow> string \<Rightarrow> string \<Rightarrow> string" where
  "join_on baseTable baseColumn joinTable joinColumn =
     joinTable @ '' ON '' @ joinTable @ ''.'' @ joinColumn @ ''='' @ baseTable @ ''.'' @ baseColumn"

definition join_filter :: "string \<Rightarrow> string \<Rightarrow> string list \<Rightarrow> string" where
  "join_filter joinTable filterColumn optFilterTable =
     '' AND '' @ (case optFilterTable of [] \<Rightarrow> joinTable | t # _ \<Rightarrow> t) @ ''.'' @ filterColumn @ ''=?''"

definition InnerJoin :: "string \<Rightarrow> string \<Rightarrow> string \<Rightarrow> string \<Rightarrow> query_mod" where
  "InnerJoin bt bc jt jc = InnerJoinClause (join_on bt bc jt jc) []"

definition LeftOuterJoin :: "string \<Rightarrow> string \<Rightarrow> string \<Rightarrow> string \<Rightarrow> query_mod" where
  "LeftOuterJoin bt bc jt jc = LeftOuterJoinClause (join_on bt bc jt jc) []"

definition InnerJoinWithFilter ::
  "string \<Rightarrow> string \<Rightarrow> string \<Rightarrow> string \<Rightarrow> string \<Rightarrow> sql_arg \<Rightarrow> string list \<Rightarrow> query_mod" where
  "InnerJoinWithFilter bt bc jt jc fc v opt = InnerJoinClause (join_on bt bc jt jc @ join_filter jt fc opt) [v]"

definition LeftOuterJoinWithFilter ::
  "string \<Rightarrow> string \<Rightarrow> string \<Rightarrow> string \<Rightarrow> string \<Rightarrow> sql_arg \<Rightarrow> string list \<Rightarrow> query_mod" where
  "LeftOuterJoinWithFilter bt bc jt jc fc v opt = LeftOuterJoinClause (join_on bt bc jt jc @ join_filter jt fc opt) [v]"

definition CombineWithOr :: "query_mod list \<Rightarrow> query_mod list" where
  "CombineWithOr qms =
     (case qms of [] \<Rightarrow> [] | [q] \<Rightarrow> [q] | q # qs \<Rightarrow> [Expr (q # map Or2 qs)])"

section \<open>Text search (ts_vector.go)\<close>

text \<open>\<open>ReplaceAllString\<close> at the runs of white space puts a text between the pieces.\<close>

definition SearchStringToTSQuery :: "string option \<Rightarrow> string" where
  "SearchStringToTSQuery s =
     (case s of
        None \<Rightarrow> []
      | Some s \<Rightarrow>
          (let v = TrimSpace (filter (\<lambda>c. c \<noteq> quote) s)
           in if v = [] then []
              else [quote] @ Join ([quote] @ '':* & '' @ [quote]) (split_spaces [] v) @ [quote] @ '':*''))"

section \<open>Conditions on JSON columns (json.go)\<close>

text \<open>
  The values that reflection meets, with the fields of a struct: whether the field is
  exported, its tag and its value. A pointer is nil or points to a value, a slice may be
  nil, an array is never.
\<close>

datatype go_value =
    GoStruct "(bool \<times> string \<times> go_value) list"
  | GoText string
  | GoNumber int
  | GoPtr "go_value option"
  | GoSlice "string list option"
  | GoArray "string list"

definition json_condition :: "string \<Rightarrow> string \<Rightarrow> string \<Rightarrow> sql_arg \<Rightarrow> query_mod" where
  "json_condition table column jsonkey v =
     (if (case v of ArgTexts _ \<Rightarrow> True | ArgNoTexts \<Rightarrow> True | _ \<Rightarrow> False)
      then Where (table @ ''.'' @ column @ ''->'' @ [quote] @ jsonkey @ [quote] @ '' <@ to_jsonb(?::text[])'') [v]
      else Where (table @ ''.'' @ column @ ''->>'' @ [quote] @ jsonkey @ [quote] @ '' = ?'') [v])"

text \<open>The argument of a field, or none when it is skipped. An array has no \<open>IsNil\<close>: the call panics.\<close>

fun field_arg :: "go_value \<Rightarrow> err + sql_arg option" where
  "field_arg (GoText s) = Inr (Some (ArgText s))"
| "field_arg (GoNumber n) = Inr (Some (ArgNumber n))"
| "field_arg (GoPtr None) = Inr None"
| "field_arg (GoPtr (Some (GoText s))) = Inr (Some (ArgText s))"
| "field_arg (GoPtr (Some (GoNumber n))) = Inr (Some (ArgNumber n))"
| "field_arg (GoPtr (Some (GoSlice (Some xs)))) = Inr (Some (ArgTexts xs))"
| "field_arg (GoPtr (Some (GoArray xs))) = Inr (Some (ArgTexts xs))"
| "field_arg (GoPtr (Some (GoSlice None))) = Inr (Some ArgNoTexts)"
| "field_arg (GoPtr (Some (GoStruct _))) = Inr (Some ArgOther)"
| "field_arg (GoPtr (Some (GoPtr _))) = Inr (Some ArgOther)"
| "field_arg (GoSlice None) = Inr None"
| "field_arg (GoSlice (Some xs)) = Inr (Some (ArgTexts xs))"
| "field_arg (GoArray xs) = Inl (Panic ''reflect: call of reflect.Value.IsNil on array Value'')"
| "field_arg (GoStruct _) = Inr None"

fun is_struct :: "go_value \<Rightarrow> bool" where
  "is_struct (GoStruct _) = True" | "is_struct _ = False"

fun where_fields ::
  "(go_value \<Rightarrow> err + query_mod list) \<Rightarrow> string \<Rightarrow> string \<Rightarrow> (bool \<times> string \<times> go_value) list \<Rightarrow> err + query_mod list" where
  "where_fields inner table column [] = Inr []"
| "where_fields inner table column ((exported, tag, v) # fs) =
     (let jsonkey = hd (Split (CHR '','') tag);
          rest = where_fields inner table column fs;
          prepend = (\<lambda>qs. case rest of Inl e \<Rightarrow> Inl e | Inr qms \<Rightarrow> Inr (qs @ qms))
      in if \<not> exported \<or> jsonkey = ''-'' \<or> (\<not> is_struct v \<and> jsonkey = []) then rest
         else if is_struct v then (case inner v of Inl e \<Rightarrow> Inl e | Inr qs \<Rightarrow> prepend qs)
         else (case field_arg v of
                 Inl e \<Rightarrow> Inl e
               | Inr None \<Rightarrow> rest
               | Inr (Some a) \<Rightarrow> prepend [json_condition table column jsonkey a]))"

text \<open>The first argument is what is left of the ten levels of the recursion.\<close>

primrec where_json :: "nat \<Rightarrow> string \<Rightarrow> string \<Rightarrow> go_value \<Rightarrow> err + query_mod list" where
  "where_json 0 table column v = Inl (Panic ''whereJSON reached maximum recursion (10/10)'')"
| "where_json (Suc n) table column v =
     (case v of
        GoStruct fs \<Rightarrow> where_fields (where_json n table column) table column fs
      | GoText s \<Rightarrow> Inr [Where (table @ ''.'' @ column @ ''::text = ?'') [ArgText s]]
      | GoNumber _ \<Rightarrow> Inl (Panic ''invalid filter type int'')
      | GoPtr _ \<Rightarrow> Inl (Panic ''invalid filter type ptr'')
      | GoSlice _ \<Rightarrow> Inl (Panic ''invalid filter type slice'')
      | GoArray _ \<Rightarrow> Inl (Panic ''invalid filter type array''))"

definition WhereJSON :: "string \<Rightarrow> string \<Rightarrow> go_value \<Rightarrow> err + query_mod" where
  "WhereJSON table column v =
     (case where_json 10 table column v of
        Inl e \<Rightarrow> Inl e
      | Inr qms \<Rightarrow> if qms = [] then Inl (Panic ''filter resulted in empty query'') else Inr (Expr qms))"

section \<open>Files, PKCE and media types (path.go, oauth2/pkce.go, mime.go)\<close>

text \<open>\<open>filepath.Base\<close> and \<open>filepath.Ext\<close> on texts.\<close>

definition base_name :: "string \<Rightarrow> string" where
  "base_name p =
     (if p = [] then ''.''
      else let r = dropWhile (\<lambda>c. c = CHR ''/'') (rev p)
           in if r = [] then ''/'' else rev (takeWhile (\<lambda>c. c \<noteq> CHR ''/'') r))"

definition extension_of :: "string \<Rightarrow> string" where
  "extension_of p =
     (let e = takeWhile (\<lambda>c. c \<noteq> CHR ''/'') (rev p)
      in if CHR ''.'' \<in> set e then rev (takeWhile (\<lambda>c. c \<noteq> CHR ''.'') e @ ''.'') else [])"

definition TrimSuffix :: "string \<Rightarrow> string \<Rightarrow> string" where
  "TrimSuffix s suf = (if suffix suf s then take (length s - length suf) s else s)"

definition FileNameWithoutExtension :: "string \<Rightarrow> string" where
  "FileNameWithoutExtension path =
     (let base = base_name path in if base = ''.'' \<or> base = ''/'' then [] else TrimSuffix base (extension_of path))"

definition FileNameAndExtension :: "string \<Rightarrow> string \<times> string" where
  "FileNameAndExtension path =
     (let base = base_name path; extension = extension_of path
      in if base = ''.'' \<or> base = ''/'' then ([], []) else (TrimSuffix base extension, extension))"

definition GetPKCECodeVerifier :: "random \<Rightarrow> (random, string) res option" where
  "GetPKCECodeVerifier r =
     map_option (\<lambda>x. or_wrap x ''failed to generate random string'' (\<lambda>v r. (Inr v, r)))
       (GenerateRandomString 128 [0, 1, 2] ''-._~'' r)"

text \<open>The URL alphabet of base64 differs in two characters.\<close>

definition GetPKCECodeChallengeS256 :: "(byte list \<Rightarrow> byte list) \<Rightarrow> string \<Rightarrow> string" where
  "GetPKCECodeChallengeS256 sha256 verifier =
     map (\<lambda>c. if c = CHR ''+'' then CHR ''-'' else if c = CHR ''/'' then CHR ''_'' else c)
       (base64_EncodeToString (sha256 (bytes_of verifier)))"

record KnownMIME =
  km_MimeType :: string
  km_FileExtension :: string

definition KnownMIME_Is :: "KnownMIME \<Rightarrow> string \<Rightarrow> bool" where
  "KnownMIME_Is m expectedMIME \<longleftrightarrow> expectedMIME = km_MimeType m"

section \<open>What a search matches\<close>

text \<open>
  The documentation of \<open>LIKE\<close> in PostgreSQL: the pattern covers the whole text, a per cent
  sign stands for any text, a backslash takes the next character literally. \<open>same\<close>
  compares two characters.
\<close>

definition like_documented :: "(char \<Rightarrow> char \<Rightarrow> bool) \<Rightarrow> (string \<Rightarrow> string \<Rightarrow> bool) \<Rightarrow> bool" where
  "like_documented same like \<longleftrightarrow>
     (\<forall>s. like [] s = (s = []))
   \<and> (\<forall>p s. like (CHR ''%'' # p) s = (\<exists>k\<le>length s. like p (drop k s)))
   \<and> (\<forall>c p s. c \<notin> {CHR ''%'', CHR ''_'', backslash} \<longrightarrow> like (c # p) s = (\<exists>d t. s = d # t \<and> same c d \<and> like p t))
   \<and> (\<forall>c p s. like (backslash # c # p) s = (\<exists>d t. s = d # t \<and> same c d \<and> like p t))"

lemma like_percent:
  assumes "like_documented same like"
  shows "like (CHR ''%'' # p) s \<longleftrightarrow> (\<exists>a b. s = a @ b \<and> like p b)"
proof -
  have "like (CHR ''%'' # p) s \<longleftrightarrow> (\<exists>k\<le>length s. like p (drop k s))" using assms by (simp add: like_documented_def)
  also have "\<dots> \<longleftrightarrow> (\<exists>a b. s = a @ b \<and> like p b)"
    by (metis append_eq_conv_conj append_take_drop_id le_add1 length_append)
  finally show ?thesis .
qed

lemma like_end: "like_documented same like \<Longrightarrow> like ''%'' s"
  using like_percent [of same like "[]" s] by (auto simp: like_documented_def)

lemma like_escaped:
  assumes "like_documented same like" and "backslash \<notin> set t"
  shows "like (EscapeLike t @ p) s \<longleftrightarrow> (\<exists>m b. s = m @ b \<and> list_all2 same t m \<and> like p b)"
  using assms(2)
proof (induction t arbitrary: s)
  case Nil
  then show ?case by (simp add: EscapeLike_def)
next
  case (Cons c t)
  have "like (EscapeLike (c # t) @ p) s \<longleftrightarrow> (\<exists>d r. s = d # r \<and> same c d \<and> like (EscapeLike t @ p) r)"
    using assms(1) Cons.prems by (auto simp: EscapeLike_def like_documented_def)
  also have "\<dots> \<longleftrightarrow> (\<exists>d r m b. s = d # r \<and> same c d \<and> r = m @ b \<and> list_all2 same t m \<and> like p b)"
    using Cons.IH Cons.prems by simp
  also have "\<dots> \<longleftrightarrow> (\<exists>m b. s = m @ b \<and> list_all2 same (c # t) m \<and> like p b)"
    by (fastforce simp: list_all2_Cons1 intro: exI [of _ "_ # _"])
  finally show ?case .
qed

text \<open>A term without a backslash is found exactly where it occurs, per cent signs included.\<close>

lemma search_term_matches_occurrences:
  assumes "like_documented same like" and "backslash \<notin> set t"
  shows "like (''%'' @ EscapeLike t @ ''%'') s \<longleftrightarrow> (\<exists>a m b. s = a @ m @ b \<and> list_all2 same t m)"
  using like_percent [OF assms(1)] like_escaped [OF assms] like_end [OF assms(1)] by fastforce

text \<open>A backslash is not escaped: it makes the closing per cent sign a literal one.\<close>

lemma search_for_backslash_finds_per_cent_signs:
  assumes "like_documented same like"
  shows "like (''%'' @ EscapeLike [backslash] @ ''%'') s \<longleftrightarrow> (\<exists>a d. s = a @ [d] \<and> same (CHR ''%'') d)"
proof -
  have "EscapeLike [backslash] = [backslash]" by (simp add: EscapeLike_def backslash_def)
  moreover have "like [backslash, CHR ''%''] r \<longleftrightarrow> (\<exists>d. r = [d] \<and> same (CHR ''%'') d)" for r
    using assms by (auto simp: like_documented_def)
  ultimately show ?thesis using like_percent [OF assms] by auto
qed

text \<open>An array in a filter panics, although arrays are to be supported.\<close>

lemma array_filter_panics:
  "WhereJSON table column (GoStruct [(True, ''ids'', GoArray xs)]) = Inl (Panic ''reflect: call of reflect.Value.IsNil on array Value'')"
  by (simp add: WhereJSON_def eval_nat_numeral)

end
