(* ===== verification/Spec2Isabelle.thy ===== *)
theory Spec2Isabelle
  imports StorageProps KeyProps Nodes DkgProps ProtocolProps HandlerProps AccountProps ServerProps LinkProps Queries
begin

text \<open>
  A verification development for go-mpc-wallet: a wallet whose private keys exist only
  as shares on several nodes. This theory imports the others and holds no
  definitions.

  \<^bold>\<open>The program.\<close> A coordinator creates sessions (\<open>internal/mpc/coordinator\<close>,
  \<open>session\<close>), finds nodes (\<open>node\<close>, \<open>discovery\<close>) and tells a leader to start; the
  participants run a protocol engine (\<open>protocol\<close>: GG18, GG20, FROST over tss-lib) and
  exchange its messages by gRPC (\<open>grpc\<close>); the key service (\<open>key\<close>) owns the life of a
  key, the signing service (\<open>signing\<close>) runs signatures, \<open>chain\<close> makes addresses. All
  share one PostgreSQL database and one Redis (\<open>storage\<close>); each node has its own disk
  with encrypted key shares. In front of the wallet's HTTP interface stands an
  authentication middleware; the accounts and tokens it looks up are kept by a service of
  their own (\<open>internal/auth\<close>) in the same database. The router (\<open>internal/api/router\<close>) puts
  logging, caching and the groups of routes around all handlers and turns errors into
  answers. The command \<open>server\<close> reads the settings (\<open>internal/config\<close>) from the environment,
  wires the components (\<open>internal/api\<close>), registers the node in Consul and runs it until a
  signal; probes tell whether it is healthy.

  \<^bold>\<open>State.\<close> \<open>world\<close> (theory \<open>Storage\<close>) is what the nodes share: the tables
  of the database, the cache and locks of Redis, the clock in microseconds, and an
  oracle that decides for every call of either store whether it fails, and whether a
  failed call took effect. \<open>fsys\<close> (\<open>KeyShareFS\<close>) is a node's disk; each system call may
  fail, and a failing write leaves any prefix. \<open>mpc_state\<close> (\<open>KeyService\<close>) pairs the two;
  \<open>node_state\<close> (\<open>Grpc\<close>) adds what a gRPC server remembers. A party manager
  (\<open>Tss\<close>) is a record of maps with a store of Go channels. Errors are
  values: \<open>err\<close> is a Go error, wrapped or not, or a panic; an operation returns
  \<open>(err + 'a) \<times> state\<close>. \<open>accounts\<close> (\<open>Accounts\<close>) is the state of the user accounts:
  their tables, the pending writes of an open transaction, a clock, the ids that are
  generated next, and again an oracle for failing calls; its errors (\<open>fail\<close>) keep the HTTP
  errors that the handlers pass on. \<open>web\<close> (\<open>WebRouter\<close>) is the context of one request, the
  response so far and the log lines written; a middleware maps a handler to a handler, as
  in echo. \<open>Server\<close> (\<open>Startup\<close>) has the parts of a server that the settings decide, \<open>node_process\<close>
  what the operating system and Consul hold for it, \<open>probe_world\<close> (\<open>Probes\<close>) the clock and
  the calls that probes start. \<open>push_world\<close> (\<open>Push\<close>) adds the sent messages to the tables.

  \<^bold>\<open>Theories and sources.\<close>
  \<^item> \<open>Prelude\<close>: Go's errors, strings, bytes, hex and integers, as the code uses them.
  \<^item> \<open>Storage\<close>, \<open>StoreFacts\<close>, \<open>DbInvariant\<close>, \<open>StorageProps\<close>:
    \<open>storage/postgresql.go\<close>, \<open>redis.go\<close>, \<open>interface.go\<close>.
  \<^item> \<open>Session\<close>, \<open>SessionFacts\<close>, \<open>SessionCoherence\<close>, \<open>SessionProps\<close>:
    \<open>session/manager.go\<close>, \<open>store.go\<close>, \<open>types.go\<close>.
  \<^item> \<open>KeyShareFS\<close>, \<open>KeyShareProps\<close>: \<open>storage/key_share_storage.go\<close>.
  \<^item> \<open>Chain\<close>: \<open>chain/bitcoin.go\<close>, \<open>ethereum.go\<close>.
  \<^item> \<open>KeyService\<close>, \<open>KeyProps\<close>: \<open>key/service.go\<close>, \<open>dkg.go\<close>.
  \<^item> \<open>Nodes\<close>: \<open>node\<close> and \<open>discovery\<close>.
  \<^item> \<open>Engine\<close>: \<open>protocol/types.go\<close>, \<open>engine.go\<close>.
  \<^item> \<open>Signing\<close>, \<open>SigningProps\<close>: \<open>signing/service.go\<close>, \<open>threshold_sign.go\<close>.
  \<^item> \<open>Coordinator\<close>: \<open>coordinator/service.go\<close>, \<open>participant\<close>.
  \<^item> \<open>Tss\<close>, \<open>TssProps\<close>, \<open>TssClaims\<close>, \<open>TssFlow\<close>: \<open>protocol/tss_adapter.go\<close>.
  \<^item> \<open>Protocol\<close>, \<open>ProtocolProps\<close>: \<open>protocol/gg18.go\<close>, \<open>gg20.go\<close>, \<open>frost.go\<close>.
  \<^item> \<open>Grpc\<close>, \<open>DkgProps\<close>: \<open>grpc/client.go\<close>, \<open>server.go\<close>, and the message router of
    \<open>internal/api/providers.go\<close>.
  \<^item> \<open>Api\<close>: the payloads and responses of \<open>internal/types\<close> with their validation, and
    \<open>internal/util/http.go\<close>.
  \<^item> \<open>Handlers\<close>, \<open>HandlerProps\<close>: \<open>internal/api/handlers/mpc\<close>.
  \<^item> \<open>Hashing\<close>: \<open>internal/util/hashing\<close>, with Go's base64 and \<open>Sscanf\<close>.
  \<^item> \<open>Accounts\<close>: the operations of \<open>internal/models\<close> that the account services call, as
    statements on tables, and \<open>internal/util/db/db.go\<close>.
  \<^item> \<open>AuthService\<close>: \<open>internal/auth/service.go\<close>, \<open>internal/data\<close>.
  \<^item> \<open>AuthWeb\<close>: \<open>internal/api/middleware/auth.go\<close>, the groups of \<open>router/router.go\<close>.
  \<^item> \<open>AuthHandlers\<close>: \<open>handlers/auth\<close>, \<open>handlers/push\<close>, their payloads, the mails of
    \<open>internal/mailer/mailer.go\<close>.
  \<^item> \<open>AccountFacts\<close> (what every operation keeps), \<open>AccountRuns\<close>, \<open>AccountRegistration\<close>
    (operations in closed form where the database does not fail), \<open>AccountFailures\<close> (where
    it does), \<open>WalletGate\<close> (the middleware before the wallet), \<open>AccountProps\<close>.
  \<^item> \<open>Utilities\<close>, \<open>UtilityFacts\<close>: \<open>internal/util\<close> (\<open>env.go\<close>, \<open>string.go\<close>, \<open>slice.go\<close>, \<open>map.go\<close>,
    \<open>int.go\<close>, \<open>bool.go\<close>, \<open>cache_control.go\<close>, \<open>context.go\<close>).
  \<^item> \<open>Config\<close>: \<open>internal/config\<close>, \<open>mailer/transport/smtp_config.go\<close>, \<open>util/log.go\<close>.
  \<^item> \<open>Push\<close>: \<open>internal/push\<close>. \<open>Localization\<close>: \<open>internal/i18n\<close>.
  \<^item> \<open>Startup\<close>: \<open>internal/api\<close> (\<open>providers.go\<close>, \<open>wire_gen.go\<close>, \<open>server.go\<close>),
    \<open>internal/persistence\<close>, \<open>mailer/mailer.go\<close>, the listening of \<open>grpc/server.go\<close>.
  \<^item> \<open>Probes\<close>: \<open>handlers/common\<close>, \<open>util/wait_group.go\<close>, \<open>util/command\<close>, \<open>cmd/probe\<close>.
  \<^item> \<open>WebErrors\<close>: \<open>internal/api/httperrors\<close>, \<open>router/handlers.go\<close>.
  \<^item> \<open>WebRouter\<close>: \<open>internal/api/middleware\<close>, \<open>handlers/handlers.go\<close>.
  \<^item> \<open>WebInit\<close>, \<open>WebProps\<close>: \<open>router/router.go\<close>, \<open>echo_renderer.go\<close>, \<open>internal/metrics\<close>.
  \<^item> \<open>Commands\<close>, \<open>ServerProps\<close>: \<open>cmd/server\<close>, \<open>cmd/db\<close>, \<open>cmd/env\<close>.
  \<^item> \<open>Links\<close>, \<open>LinkProps\<close>: \<open>internal/util/url\<close>, the binding of \<open>util/http.go\<close>,
    \<open>get_complete_register.go\<close>, \<open>handlers/wellknown\<close>, \<open>mailer/transport\<close>.
  \<^item> \<open>Queries\<close>: \<open>internal/util/db\<close>, \<open>util/path.go\<close>, \<open>util/oauth2\<close>, \<open>util/mime\<close>.

  Definitions keep the names of the code; where several types have a method of one
  name a prefix tells them apart (\<open>pg_\<close>, \<open>rds_\<close>, \<open>sm_\<close>, \<open>st_\<close>, \<open>gg18_\<close>, \<open>frost_\<close>).

  \<^bold>\<open>Interfaces.\<close> Contracts that several parts rely on are locales, each interpreted on
  the model's own definitions: \<open>upsert_store\<close> (lookup after upsert; the three tables
  and the cache), \<open>try_lock\<close> (Redis), \<open>share_store\<close> (all-or-nothing storage; the file
  system and a node over it), \<open>session_log\<close> (an append-only log; the write-ahead log),
  \<open>session_loop\<close> (the main and reading loop of a session; the four runs of the party
  manager), \<open>account_tables\<close> (a property of the account tables that each statement keeps;
  the schema's constraints and the scopes of the users).

  \<^bold>\<open>What the lemmas show.\<close>
  \<^item> Storage: the database invariant over all runs of store calls under all failures;
    retries of a save; paging; the lock.
  \<^item> Sessions: the cache never serves a stale session as long as the configured timeout
    is at most five minutes, and does when it is longer; joining, completing, and what
    a completion that fails half way leaves; the write-ahead log refines one list.
  \<^item> Key shares: a store replaces a file as a whole or not at all.
  \<^item> Keys: from a placeholder to an active key, and where the address logic panics.
  \<^item> Signing: a signature returned was verified; the wait ends; batches.
  \<^item> Party manager: queues stay open, bounded and apart over all histories; a
    handler that is caught by the end of its session panics the process; an abandoned
    key generation blocks its key id; messages reach a party in order; EdDSA signing
    exchanges none; broadcasts reach nodes of earlier sessions.
  \<^item> Engines: conversions of keys and signatures down to bytes; keys over a restart.
  \<^item> Servers: each session starts once per node; a completion message is believed
    from anyone; a key becomes active without its share; signing messages lose their
    broadcast mark.
  \<^item> HTTP interface: every outcome of a request for a key, from the names of its bad
    fields to the rows it leaves; which accepted keys an engine can generate, and that
    an EdDSA key sends leader and followers to different engines; batches; two
    verdicts on the health of a node; request fields that do nothing.
  \<^item> Accounts: which requests the middleware lets through to the wallet, and for how long a
    login opens it; the schema over all runs under all failures; a failed operation changes
    nothing, but a lost commit is reported as success; stored hashes verify their password;
    a changed password ends the sessions, a reset token can be used again, a refresh token
    can be spent twice at once, a repeated registration keeps the first password; asking
    for a reset reveals nothing.
  \<^item> Router: which routes a request without credentials reaches; what the log can never
    hold, and that it holds the URL with the management secret; what an answer with
    status 500 tells of the error.
  \<^item> Node: which settings a server comes up with, and when it is ready; no settings
    encrypt the connections between nodes; what a node leaves in Consul when it ends;
    healthy and ready; what the command \<open>env\<close> prints.
  \<^item> Utilities and push: random strings, substrings, numbers of the environment; a
    message removes only the tokens that were answered to be invalid.
  \<^item> Links and mail: a confirmation link leads back to its token; the LOGIN mechanism sends
    the password without TLS; what an escaped search term matches.

  \<^bold>\<open>Concurrency and time.\<close> Operations that the code runs in goroutines are explicit
  schedules: a run of the party manager is a list of turns of its main loop, its reading
  loop and its handlers (\<open>action\<close>), a batch is a permutation of its requests, and
  the tasks a server starts are listed and can run at any later point. The
  invariants are over step relations (\<open>store_run\<close>, \<open>sm_run\<close>, \<open>node_run\<close>, \<open>pm_step\<close>,
  \<open>account_run\<close>). An account operation runs as a whole; where the code reads in one statement
  and writes in another (\<open>refresh_load\<close>, \<open>refresh_run\<close>) the two are steps of their own.
  In \<open>pm_step\<close> a session runs along its whole schedule before the next step of another;
  what is in flight when its main loop returns is covered by the schedule of the
  session itself. Time passes where the code sleeps. No definition runs on fuel: the
  loops of the code end by their own bounds (the retries of a session save, three
  attempts; the wait for a signature, by its deadline, proved with a measure; the waits
  for a queue, along the list of their wake-ups). The loop that draws random characters
  need not end: \<open>random_loop\<close> is a partial function whose value \<open>None\<close> is that it does not
  return, and a property says exactly when it does. A probe waits for its call at most
  until its deadline; a call that never returns is an answer of the oracle.

  \<^bold>\<open>Parameters and what is assumed of them.\<close> Code outside the repository is an argument:
  AES-GCM and the random source (opening what was sealed gives it back; nonces of the
  asked length), hash functions, Base58 and RLP, Consul's answers, tss-lib (a party is
  an abstract value; its constructor, its update and what it emits are arbitrary;
  sorting permutes), the encoding of key data (decoding what was encoded gives it back),
  signature parsing and verification, gRPC calls, go-openapi's checks of a field (each
  refuses exactly what its documentation says), Argon2 (keys of the asked length), the input
  function of the database's UUIDs and the ids it generates (new ones are unused, where a
  property needs it), the pattern of a version 4 UUID, mail templates and transport, the
  links in mails. The middleware of echo is the parameter \<open>echo_lib\<close>; that it passes a request on
  and logs nothing itself, and that its \<open>KeyAuth\<close> refuses a request without the right key, are
  named hypotheses. \<open>outside\<close> and \<open>platform\<close> (\<open>Startup\<close>) hold what the operating system, the
  drivers and Consul answer at start and end, \<open>surroundings\<close> (\<open>Commands\<close>) adds the
  migrations and the signal; \<open>i18n_lib\<close> stands for go-i18n, \<open>pw_answer\<close> for Google's push
  service, a tape of bytes for the random source. Text columns are wide enough; JSON
  columns give back what was stored. Times are in UTC.

  \<^bold>\<open>Not modelled.\<close> The decoding of request bodies and the matching of paths, which are
  echo's; file uploads; the operations of the
  generated models that no service calls, and the protobuf bindings, because nothing of
  the program runs them; calendar, cent, collation and reflection helpers, which have no
  caller or only call libraries; parsing of the command line, shell
  scripts, SQL files and the scaffolding generator; Redis publish/subscribe (no caller);
  log lines other than those of the HTTP log, and the Prometheus histogram; the lists of
  known nodes inside two error texts of the party manager; test helpers.
\<close>

end
